(* ===== verification/Prelude.thy ===== *)
theory Prelude
  imports Main "HOL-Library.Monad_Syntax"
begin

text \<open>
  What every component shares: programs over a state that can raise an exception (an
  \<^theory_text>\<open>async\<close> method of the code, with its thrown errors as values), the rules that
  read a finished run backwards (\<open>ok_iff\<close>), the locale \<open>step_order\<close> for relations
  between the states before and after a run, and the list operations that a document
  collection is read and written with.
\<close>

section \<open>Programs: state passing with exceptions\<close>

text \<open>
  A method that awaits calls and may throw is a function from the state to a result
  (\<open>Inl\<close> the thrown error, \<open>Inr\<close> the returned value) and the state it leaves behind. A
  thrown error keeps the effects made before it, as in the code.
\<close>

type_synonym ('s, 'e, 'a) prog = "'s \<Rightarrow> ('e + 'a) \<times> 's"

named_theorems prog_defs "the program combinators, unfolded on a state"
named_theorems ok_iff "a run that ended with a value, read backwards"

definition ret :: "'a \<Rightarrow> ('s, 'e, 'a) prog" where
  "ret x = (\<lambda>s. (Inr x, s))"

definition throw :: "'e \<Rightarrow> ('s, 'e, 'a) prog" where
  "throw e = (\<lambda>s. (Inl e, s))"

definition bnd :: "('s, 'e, 'a) prog \<Rightarrow> ('a \<Rightarrow> ('s, 'e, 'b) prog) \<Rightarrow> ('s, 'e, 'b) prog" where
  "bnd m f = (\<lambda>s. case m s of (r, t) \<Rightarrow> (case r of Inl e \<Rightarrow> (Inl e, t) | Inr x \<Rightarrow> f x t))"

definition andThen :: "('s, 'e, 'a) prog \<Rightarrow> ('s, 'e, 'b) prog \<Rightarrow> ('s, 'e, 'b) prog" where
  "andThen m n = bnd m (\<lambda>_. n)"

definition gets :: "('s \<Rightarrow> 'a) \<Rightarrow> ('s, 'e, 'a) prog" where
  "gets f = (\<lambda>s. (Inr (f s), s))"

definition modify :: "('s \<Rightarrow> 's) \<Rightarrow> ('s, 'e, unit) prog" where
  "modify f = (\<lambda>s. (Inr (), f s))"

text \<open>\<open>if (c) throw e;\<close>\<close>

definition throwIf :: "bool \<Rightarrow> 'e \<Rightarrow> ('s, 'e, unit) prog" where
  "throwIf c e = (if c then throw e else ret ())"

text \<open>\<open>if (!x) throw e;\<close> on a nullable \<open>x\<close>, whose value is used afterwards.\<close>

definition orThrow :: "'a option \<Rightarrow> 'e \<Rightarrow> ('s, 'e, 'a) prog" where
  "orThrow x e = (case x of None \<Rightarrow> throw e | Some v \<Rightarrow> ret v)"

text \<open>\<open>if (c) { m }\<close>\<close>

definition whenP :: "bool \<Rightarrow> ('s, 'e, unit) prog \<Rightarrow> ('s, 'e, unit) prog" where
  "whenP c m = (if c then m else ret ())"

text \<open>\<open>try { m } catch (e) { h(e) }\<close>\<close>

definition tryCatch ::
  "('s, 'e, 'a) prog \<Rightarrow> ('e \<Rightarrow> ('s, 'e, 'a) prog) \<Rightarrow> ('s, 'e, 'a) prog" where
  "tryCatch m h = (\<lambda>s. case m s of (r, t) \<Rightarrow> (case r of Inl e \<Rightarrow> h e t | Inr x \<Rightarrow> (Inr x, t)))"

text \<open>\<open>for (const x of xs) { f(x) }\<close>; an exception leaves the loop.\<close>

fun forEach :: "'a list \<Rightarrow> ('a \<Rightarrow> ('s, 'e, unit) prog) \<Rightarrow> ('s, 'e, unit) prog" where
  "forEach [] f = ret ()"
| "forEach (x # xs) f = andThen (f x) (forEach xs f)"

subsection \<open>Running the combinators\<close>

lemma ret_run [simp]: "ret x s = (Inr x, s)"
  by (simp add: ret_def)

lemma throw_run [simp]: "throw e s = (Inl e, s)"
  by (simp add: throw_def)

lemma gets_run [simp]: "gets f s = (Inr (f s), s)"
  by (simp add: gets_def)

lemma modify_run [simp]: "modify f s = (Inr (), f s)"
  by (simp add: modify_def)

lemma bnd_run [prog_defs]:
  "bnd m f s = (case m s of (r, t) \<Rightarrow> (case r of Inl e \<Rightarrow> (Inl e, t) | Inr x \<Rightarrow> f x t))"
  by (simp add: bnd_def)

lemma andThen_run [prog_defs]:
  "andThen m n s = (case m s of (r, t) \<Rightarrow> (case r of Inl e \<Rightarrow> (Inl e, t) | Inr x \<Rightarrow> n t))"
  by (simp add: andThen_def bnd_def)

lemma tryCatch_run [prog_defs]:
  "tryCatch m h s = (case m s of (r, t) \<Rightarrow> (case r of Inl e \<Rightarrow> h e t | Inr x \<Rightarrow> (Inr x, t)))"
  by (simp add: tryCatch_def)

lemma throwIf_run [simp]: "throwIf c e s = (if c then (Inl e, s) else (Inr (), s))"
  by (simp add: throwIf_def)

lemma whenP_run [simp]: "whenP c m s = (if c then m s else (Inr (), s))"
  by (simp add: whenP_def)

lemma orThrow_None [simp]: "orThrow None e s = (Inl e, s)"
  by (simp add: orThrow_def)

lemma orThrow_Some [simp]: "orThrow (Some v) e s = (Inr v, s)"
  by (simp add: orThrow_def)

lemma orThrow_prog [simp]: "orThrow (Some v) e = ret v" "orThrow None e = throw e"
  by (simp_all add: orThrow_def)

lemma bnd_ret [simp]: "bnd (ret x) f = f x"
  by (simp add: bnd_def fun_eq_iff)

lemma bnd_gets [simp]: "bnd (gets g) f s = f (g s) s"
  by (simp add: bnd_run)

lemma bnd_throw [simp]: "bnd (throw e) f = throw e"
  by (simp add: bnd_def fun_eq_iff)

lemma bnd_modify [simp]: "bnd (modify g) f s = f () (g s)"
  by (simp add: bnd_run)

lemma andThen_modify [simp]: "andThen (modify g) m s = m (g s)"
  by (simp add: andThen_run)

lemma andThen_throw [simp]: "andThen (throw e) m = throw e"
  by (simp add: andThen_def)

lemma throwIf_True [simp]: "throwIf True e = throw e"
  by (simp add: throwIf_def)

lemma throwIf_False [simp]: "throwIf False e = ret ()"
  by (simp add: throwIf_def)

lemma andThen_ret [simp]: "andThen (ret x) m = m"
  by (simp add: andThen_def)

text \<open>A run that returned, read backwards through the combinators.\<close>

lemma bnd_ok [ok_iff]:
  "bnd m f s = (Inr y, u) \<longleftrightarrow> (\<exists>x t. m s = (Inr x, t) \<and> f x t = (Inr y, u))"
  by (auto simp: bnd_def split: prod.splits sum.splits)

lemma andThen_ok [ok_iff]:
  "andThen m n s = (Inr y, u) \<longleftrightarrow> (\<exists>x t. m s = (Inr x, t) \<and> n t = (Inr y, u))"
  by (simp add: andThen_def bnd_ok)

lemma throwIf_ok [ok_iff]: "throwIf c e s = (Inr y, u) \<longleftrightarrow> \<not> c \<and> u = s"
  by auto

lemma orThrow_ok [ok_iff]: "orThrow x e s = (Inr y, u) \<longleftrightarrow> x = Some y \<and> u = s"
  by (cases x) auto

lemma whenP_ok [ok_iff]:
  "whenP c m s = (Inr y, u) \<longleftrightarrow> (if c then m s = (Inr y, u) else u = s)"
  by auto

lemma bnd_err:
  "bnd m f s = (Inl e, u) \<longleftrightarrow>
     m s = (Inl e, u) \<or> (\<exists>x t. m s = (Inr x, t) \<and> f x t = (Inl e, u))"
  by (auto simp: bnd_def split: prod.splits sum.splits)

text \<open>The state a run leaves, from the states its calls leave.\<close>

lemma snd_bnd:
  assumes "P (snd (m s))" and "\<And>x t. m s = (Inr x, t) \<Longrightarrow> P t \<Longrightarrow> P (snd (f x t))"
  shows "P (snd (bnd m f s))"
proof (cases "m s")
  case (Pair r t)
  with assms show ?thesis by (cases r) (simp_all add: bnd_run)
qed

lemma snd_andThen:
  "P (snd (m s)) \<Longrightarrow> (\<And>x t. m s = (Inr x, t) \<Longrightarrow> P t \<Longrightarrow> P (snd (n t))) \<Longrightarrow> P (snd (andThen m n s))"
  unfolding andThen_def by (rule snd_bnd)

lemma snd_tryCatch:
  assumes "P (snd (m s))" and "\<And>e t. m s = (Inl e, t) \<Longrightarrow> P t \<Longrightarrow> P (snd (h e t))"
  shows "P (snd (tryCatch m h s))"
proof (cases "m s")
  case (Pair r t)
  with assms show ?thesis by (cases r) (simp_all add: tryCatch_run)
qed

section \<open>Relations a run stays within\<close>

definition stays :: "('s \<Rightarrow> 's \<Rightarrow> bool) \<Rightarrow> ('s, 'e, 'a) prog \<Rightarrow> bool" where
  "stays R m \<longleftrightarrow> (\<forall>s. R s (snd (m s)))"

lemma staysI: "(\<And>s. R s (snd (m s))) \<Longrightarrow> stays R m"
  by (simp add: stays_def)

lemma staysD: "stays R m \<Longrightarrow> m s = (r, t) \<Longrightarrow> R s t"
  unfolding stays_def by (metis snd_conv)

lemma stays_mono: "stays Q m \<Longrightarrow> (\<And>s t. Q s t \<Longrightarrow> R s t) \<Longrightarrow> stays R m"
  by (simp add: stays_def)

lemma stays_snd: "stays R m \<Longrightarrow> R s (snd (m s))"
  by (simp add: stays_def)

text \<open>
  A relation between states that is reflexive and transitive is kept by a program when
  each of its calls keeps it. The rules are proved once here; every component reads them
  through an interpretation for its own relation.
\<close>

locale step_order =
  fixes R :: "'s \<Rightarrow> 's \<Rightarrow> bool"
  assumes refl: "R s s"
    and trans: "R s t \<Longrightarrow> R t u \<Longrightarrow> R s u"
begin

lemma stays_ret: "stays R (ret x)"
  by (simp add: stays_def refl)

lemma stays_throw: "stays R (throw e)"
  by (simp add: stays_def refl)

lemma stays_gets: "stays R (gets f)"
  by (simp add: stays_def refl)

lemma stays_throwIf: "stays R (throwIf c e)"
  by (simp add: stays_def refl)

lemma stays_orThrow: "stays R (orThrow x e)"
  by (cases x) (simp_all add: stays_def refl)

lemma stays_bnd:
  assumes "stays R m" and "\<And>x. stays R (f x)"
  shows "stays R (bnd m f)"
proof (rule staysI)
  fix s
  obtain r t where m: "m s = (r, t)" by (cases "m s")
  with assms(1) have st: "R s t" by (rule staysD)
  show "R s (snd (bnd m f s))"
  proof (cases r)
    case (Inl e)
    with m st show ?thesis by (simp add: bnd_run)
  next
    case (Inr x)
    from assms(2) have "R t (snd (f x t))" by (rule stays_snd)
    with st have "R s (snd (f x t))" by (rule trans)
    with m Inr show ?thesis by (simp add: bnd_run)
  qed
qed

lemma stays_andThen: "stays R m \<Longrightarrow> stays R n \<Longrightarrow> stays R (andThen m n)"
  unfolding andThen_def by (rule stays_bnd)

lemma stays_whenP: "stays R m \<Longrightarrow> stays R (whenP c m)"
  by (simp add: whenP_def stays_ret)

lemma stays_tryCatch:
  assumes "stays R m" and "\<And>e. stays R (h e)"
  shows "stays R (tryCatch m h)"
proof (rule staysI)
  fix s
  obtain r t where m: "m s = (r, t)" by (cases "m s")
  with assms(1) have st: "R s t" by (rule staysD)
  show "R s (snd (tryCatch m h s))"
  proof (cases r)
    case (Inr x)
    with m st show ?thesis by (simp add: tryCatch_run)
  next
    case (Inl e)
    from assms(2) have "R t (snd (h e t))" by (rule stays_snd)
    with st have "R s (snd (h e t))" by (rule trans)
    with m Inl show ?thesis by (simp add: tryCatch_run)
  qed
qed

lemma stays_forEach: "(\<And>x. x \<in> set xs \<Longrightarrow> stays R (f x)) \<Longrightarrow> stays R (forEach xs f)"
  by (induction xs) (auto intro: stays_ret stays_andThen)

lemma stays_if: "(c \<Longrightarrow> stays R m) \<Longrightarrow> (\<not> c \<Longrightarrow> stays R n) \<Longrightarrow> stays R (if c then m else n)"
  by simp

lemma stays_option:
  "stays R n \<Longrightarrow> (\<And>v. stays R (f v)) \<Longrightarrow> stays R (case x of None \<Rightarrow> n | Some v \<Rightarrow> f v)"
  by (cases x) auto

text \<open>The same for one run, when a later call relies on what an earlier one returned.\<close>

lemma run_bnd:
  assumes "R s (snd (m s))" and "\<And>x t. m s = (Inr x, t) \<Longrightarrow> R t (snd (f x t))"
  shows "R s (snd (bnd m f s))"
proof (rule snd_bnd)
  show "R s (snd (m s))" by (rule assms(1))
  show "R s (snd (f x t))" if "m s = (Inr x, t)" and "R s t" for x t
    using that(2) assms(2) [OF that(1)] by (rule trans)
qed

lemma run_andThen:
  "R s (snd (m s)) \<Longrightarrow> (\<And>x t. m s = (Inr x, t) \<Longrightarrow> R t (snd (n t))) \<Longrightarrow> R s (snd (andThen m n s))"
  unfolding andThen_def by (rule run_bnd)

lemma run_tryCatch:
  assumes "R s (snd (m s))" and "\<And>e. stays R (h e)"
  shows "R s (snd (tryCatch m h s))"
proof (rule snd_tryCatch)
  show "R s (snd (m s))" by (rule assms(1))
  show "R s (snd (h e t))" if "R s t" for e t
    using that stays_snd [OF assms(2)] by (rule trans)
qed

lemmas stays_rules =
  stays_ret stays_throw stays_gets stays_throwIf stays_orThrow stays_bnd stays_andThen
  stays_whenP stays_tryCatch stays_forEach stays_if stays_option

end

section \<open>Document collections as lists\<close>

text \<open>
  A collection is the list of its documents in insertion order. \<open>findOne\<close> returns the
  first match, \<open>findOneAndUpdate\<close> and \<open>updateOne\<close> change the first match,
  \<open>findOneAndDelete\<close> removes it.
\<close>

fun updateFirst :: "('a \<Rightarrow> bool) \<Rightarrow> ('a \<Rightarrow> 'a) \<Rightarrow> 'a list \<Rightarrow> 'a list" where
  "updateFirst p f [] = []"
| "updateFirst p f (x # xs) = (if p x then f x # xs else x # updateFirst p f xs)"

fun removeFirst :: "('a \<Rightarrow> bool) \<Rightarrow> 'a list \<Rightarrow> 'a list" where
  "removeFirst p [] = []"
| "removeFirst p (x # xs) = (if p x then xs else x # removeFirst p xs)"

lemma find_SomeD: "List.find p xs = Some x \<Longrightarrow> x \<in> set xs \<and> p x"
  by (induction xs) (auto split: if_splits)

lemma find_Some_iff_ex: "(\<exists>x. List.find p xs = Some x) \<longleftrightarrow> (\<exists>x\<in>set xs. p x)"
  by (induction xs) auto

lemma find_None_iff_all: "List.find p xs = None \<longleftrightarrow> (\<forall>x\<in>set xs. \<not> p x)"
  by (induction xs) auto

lemma find_append: "List.find p (xs @ ys) = (case List.find p xs of None \<Rightarrow> List.find p ys | Some x \<Rightarrow> Some x)"
  by (induction xs) auto

lemma length_updateFirst [simp]: "length (updateFirst p f xs) = length xs"
  by (induction xs) auto

lemma updateFirst_none: "\<forall>x\<in>set xs. \<not> p x \<Longrightarrow> updateFirst p f xs = xs"
  by (induction xs) auto

lemma updateFirst_id: "(\<And>x. x \<in> set xs \<Longrightarrow> p x \<Longrightarrow> f x = x) \<Longrightarrow> updateFirst p f xs = xs"
  by (induction xs) auto

lemma map_updateFirst: "(\<And>x. p x \<Longrightarrow> k (f x) = k x) \<Longrightarrow> map k (updateFirst p f xs) = map k xs"
  by (induction xs) auto

lemma filter_updateFirst:
  "(\<And>x. p x \<Longrightarrow> \<not> q x \<and> \<not> q (f x)) \<Longrightarrow> filter q (updateFirst p f xs) = filter q xs"
  by (induction xs) auto

lemma set_updateFirstD: "y \<in> set (updateFirst p f xs) \<Longrightarrow> y \<in> set xs \<or> (\<exists>x\<in>set xs. p x \<and> y = f x)"
  by (induction xs) (auto split: if_splits)

lemma updateFirst_keeps: "x \<in> set xs \<Longrightarrow> \<not> p x \<Longrightarrow> x \<in> set (updateFirst p f xs)"
  by (induction xs) auto

lemma find_updateFirst_same:
  assumes "\<And>x. p x \<Longrightarrow> q x" and "\<And>x. p x \<Longrightarrow> q (f x)"
    and "List.find q xs = Some d" and "p d"
  shows "List.find q (updateFirst p f xs) = Some (f d)"
  using assms(3,4) by (induction xs) (auto simp: assms(1,2) split: if_splits)

lemma find_updateFirst_other:
  assumes "\<And>x. p x \<Longrightarrow> \<not> q x" and "\<And>x. p x \<Longrightarrow> \<not> q (f x)"
  shows "List.find q (updateFirst p f xs) = List.find q xs"
  by (induction xs) (auto simp: assms)

lemma find_updateFirst_id:
  "List.find p xs = Some u \<Longrightarrow> p (f u) \<Longrightarrow> List.find p (updateFirst p f xs) = Some (f u)"
  by (induction xs) (auto split: if_splits)

lemma removeFirst_subset: "set (removeFirst p xs) \<subseteq> set xs"
  by (induction xs) auto

lemma distinct_map_filter_find:
  assumes "distinct (map k xs)" and "x \<in> set xs"
  shows "List.find (\<lambda>y. k y = k x) xs = Some x"
  using assms by (induction xs) auto

lemma distinct_key_eq:
  "distinct (map k xs) \<Longrightarrow> x \<in> set xs \<Longrightarrow> y \<in> set xs \<Longrightarrow> k x = k y \<Longrightarrow> x = y"
  unfolding distinct_map inj_on_def by blast

lemma updateFirst_key:
  assumes "distinct (map k xs)" and "e \<in> set xs" and "p e" and "\<And>x. p x \<Longrightarrow> k x = k e"
  shows "updateFirst p f xs = map (\<lambda>x. if k x = k e then f e else x) xs"
  using assms(1,2)
proof (induction xs)
  case Nil
  then show ?case by simp
next
  case (Cons a xs)
  show ?case
  proof (cases "p a")
    case True
    with assms(4) have ka: "k a = k e" by blast
    with Cons.prems have ae: "a = e" by (metis distinct_key_eq list.set_intros(1))
    have "k e \<notin> k ` set xs"
      using Cons.prems(1) ka by simp
    then have "\<forall>x\<in>set xs. k x \<noteq> k e"
      by (metis imageI)
    then have "map (\<lambda>x. if k x = k e then f e else x) xs = xs"
      by (intro map_idI) auto
    with True ka ae show ?thesis by simp
  next
    case False
    with assms(3) Cons.prems(2) have e: "e \<in> set xs" by auto
    with Cons.prems(1) have "k a \<noteq> k e" by auto
    with False e Cons show ?thesis by simp
  qed
qed

lemma find_key:
  assumes "distinct (map k xs)" and "e \<in> set xs" and "p e" and "\<And>x. p x \<Longrightarrow> k x = k e"
  shows "List.find p xs = Some e"
  using assms(1,2)
proof (induction xs)
  case Nil
  then show ?case by simp
next
  case (Cons a xs)
  then show ?case
    using assms(3) assms(4) [of a] by (auto dest: imageI [of _ _ k])
qed

section \<open>Values of the language\<close>

text \<open>
  A JavaScript value as the code passes it around in payloads, metadata and change
  records: \<open>JUndef\<close> is \<open>undefined\<close>, a \<open>Date\<close> is its time in milliseconds, an
  \<open>ObjectId\<close> its number.
\<close>

datatype json =
    JUndef
  | JNull
  | JBool bool
  | JNum int
  | JStr string
  | JDate int
  | JOid nat
  | JArr "json list"
  | JObj "(string \<times> json) list"

text \<open>\<open>!!v\<close>: the falsy values are \<open>undefined\<close>, \<open>null\<close>, \<open>false\<close>, \<open>0\<close> and the empty string.\<close>

fun truthy :: "json \<Rightarrow> bool" where
  "truthy JUndef = False"
| "truthy JNull = False"
| "truthy (JBool b) = b"
| "truthy (JNum n) = (n \<noteq> 0)"
| "truthy (JStr s) = (s \<noteq> [])"
| "truthy _ = True"

text \<open>Reading a property of an object: \<open>undefined\<close> when it is missing.\<close>

definition jget :: "(string \<times> json) list \<Rightarrow> string \<Rightarrow> json" where
  "jget ps k = (case map_of ps k of None \<Rightarrow> JUndef | Some v \<Rightarrow> v)"

text \<open>\<open>toLowerCase\<close> on the ASCII letters.\<close>

definition lowerChar :: "char \<Rightarrow> char" where
  "lowerChar c = (let n = of_char c :: nat in if 65 \<le> n \<and> n \<le> 90 then char_of (n + 32) else c)"

definition toLowerCase :: "string \<Rightarrow> string" where
  "toLowerCase s = map lowerChar s"

text \<open>\<open>trim\<close>: white space is removed at both ends.\<close>

definition isSpace :: "char \<Rightarrow> bool" where
  "isSpace c = (of_char c \<in> {9, 10, 11, 12, 13, 32, 160 :: nat})"

definition trim :: "string \<Rightarrow> string" where
  "trim s = rev (dropWhile isSpace (rev (dropWhile isSpace s)))"

lemma lowerChar_idem [simp]: "lowerChar (lowerChar c) = lowerChar c"
  by (auto simp: lowerChar_def Let_def)

lemma toLowerCase_idem [simp]: "toLowerCase (toLowerCase s) = toLowerCase s"
  by (simp add: toLowerCase_def)

end
