(* ===== verification/JsText.thy ===== *)
theory JsText
  imports Prelude
begin

text \<open>
  The strings the language makes of its values: decimal and hexadecimal numbers, the 24
  digits of an \<open>ObjectId\<close>, the ISO form of a \<open>Date\<close>, and \<open>String(v)\<close>; \<open>Number(s)\<close> for
  the digits the code parses.
\<close>

section \<open>Numbers\<close>

definition digitChar :: "nat \<Rightarrow> char" where
  "digitChar n = (if n < 10 then char_of (48 + n) else char_of (87 + n))"

fun showNat :: "nat \<Rightarrow> string" where
  "showNat n = (if n < 10 then [digitChar n] else showNat (n div 10) @ [digitChar (n mod 10)])"

declare showNat.simps [simp del]

fun hexNat :: "nat \<Rightarrow> string" where
  "hexNat n = (if n < 16 then [digitChar n] else hexNat (n div 16) @ [digitChar (n mod 16)])"

declare hexNat.simps [simp del]

definition showInt :: "int \<Rightarrow> string" where
  "showInt n = (if n < 0 then CHR ''-'' # showNat (nat (- n)) else showNat (nat n))"

definition padLeft :: "nat \<Rightarrow> string \<Rightarrow> string" where
  "padLeft n s = replicate (n - length s) CHR ''0'' @ s"

definition oidString :: "nat \<Rightarrow> string" where
  "oidString n = padLeft 24 (hexNat n)"

definition isDigit :: "char \<Rightarrow> bool" where
  "isDigit c = (let n = of_char c :: nat in 48 \<le> n \<and> n \<le> 57)"

definition digitVal :: "char \<Rightarrow> nat" where
  "digitVal c = of_char c - 48"

definition readNat :: "string \<Rightarrow> nat" where
  "readNat s = foldl (\<lambda>acc c. 10 * acc + digitVal c) 0 s"

lemma of_char_digitChar: "n < 10 \<Longrightarrow> (of_char (digitChar n) :: nat) = 48 + n"
  by (simp add: digitChar_def)

lemma digitVal_digitChar [simp]: "n < 10 \<Longrightarrow> digitVal (digitChar n) = n"
  by (simp add: digitVal_def of_char_digitChar)

lemma isDigit_digitChar [simp]: "n < 10 \<Longrightarrow> isDigit (digitChar n)"
  by (simp add: isDigit_def of_char_digitChar Let_def)

lemma showNat_digits: "list_all isDigit (showNat n)"
  by (induction n rule: showNat.induct) (simp add: showNat.simps)

lemma showNat_nonempty [simp]: "showNat n \<noteq> []"
  by (subst showNat.simps) simp

lemma readNat_snoc [simp]: "readNat (s @ [c]) = 10 * readNat s + digitVal c"
  by (simp add: readNat_def)

lemma readNat_showNat [simp]: "readNat (showNat n) = n"
proof (induction n rule: showNat.induct)
  case (1 n)
  show ?case
  proof (cases "n < 10")
    case True
    then show ?thesis by (subst showNat.simps) (simp add: readNat_def)
  next
    case False
    then show ?thesis by (subst showNat.simps) (simp add: 1)
  qed
qed

lemma showNat_inj [simp]: "showNat m = showNat n \<longleftrightarrow> m = n"
  by (metis readNat_showNat)

section \<open>Dates\<close>

text \<open>
  \<open>toISOString\<close>: the civil date of a number of days since 1970 in the proleptic Gregorian
  calendar, counted in eras of 400 years that start in March.
\<close>

definition civilDate :: "int \<Rightarrow> int \<times> int \<times> int" where
  "civilDate days =
     (let z = days + 719468; era = z div 146097; doe = z mod 146097;
          yoe = (doe - doe div 1460 + doe div 36524 - doe div 146096) div 365;
          doy = doe - (365 * yoe + yoe div 4 - yoe div 100);
          mp = (5 * doy + 2) div 153;
          d = doy - (153 * mp + 2) div 5 + 1;
          m = (if mp < 10 then mp + 3 else mp - 9)
      in (yoe + era * 400 + (if m \<le> 2 then 1 else 0), m, d))"

definition isoString :: "int \<Rightarrow> string" where
  "isoString t =
     (let (y, m, d) = civilDate (t div 86400000); r = t mod 86400000;
          two = (\<lambda>n. padLeft 2 (showNat (nat n)))
      in padLeft 4 (showNat (nat y)) @ ''-'' @ two m @ ''-'' @ two d @ ''T'' @
         two (r div 3600000) @ '':'' @ two (r div 60000 mod 60) @ '':'' @
         two (r div 1000 mod 60) @ ''.'' @ padLeft 3 (showNat (nat (r mod 1000))) @ ''Z'')"

lemma isoString_epoch: "isoString 1767225599999 = ''2025-12-31T23:59:59.999Z''"
  by code_simp

section \<open>\<open>String(v)\<close>\<close>

fun joinWith :: "string \<Rightarrow> string list \<Rightarrow> string" where
  "joinWith sep [] = []"
| "joinWith sep [s] = s"
| "joinWith sep (s # t # ss) = s @ sep @ joinWith sep (t # ss)"

text \<open>
  A date in a job's payload has been through JSON, so its string is the ISO form; an array
  is its elements joined by commas, with nothing for \<open>null\<close> and \<open>undefined\<close>.
\<close>

fun jstring :: "json \<Rightarrow> string" where
  "jstring JUndef = ''undefined''"
| "jstring JNull = ''null''"
| "jstring (JBool b) = (if b then ''true'' else ''false'')"
| "jstring (JNum n) = showInt n"
| "jstring (JStr s) = s"
| "jstring (JDate t) = isoString t"
| "jstring (JOid i) = oidString i"
| "jstring (JArr vs) = joinWith '','' (map (\<lambda>v. if v = JUndef \<or> v = JNull then [] else jstring v) vs)"
| "jstring (JObj ps) = ''[object Object]''"

text \<open>\<open>new Date(v)\<close> of a date that travelled through JSON; anything else is an invalid date.\<close>

fun jdate :: "json \<Rightarrow> int option" where
  "jdate (JDate t) = Some t"
| "jdate _ = None"

end
