(* ===== verification/Model.thy ===== *)
theory Model
  imports JsText
begin

text \<open>
  The data of the program: the enums, the documents of the MongoDB collections (one
  \<^theory_text>\<open>record\<close> per schema class, fields in the schema's order under a prefix), the queues,
  the Redis keys, the cache, and the state \<open>world\<close> that every method runs on. The
  document operations of Mongoose, BullMQ and Redis that the repositories call are at the
  end, with the failures they may report.
\<close>

type_synonym oid = nat
type_synonym time = int
type_synonym props = "(string \<times> json) list"

section \<open>Errors\<close>

text \<open>
  The exceptions of NestJS the handlers throw, \<open>Error\<close> itself, and the errors of the
  drivers: a stale version on \<open>save\<close>, a unique index that is hit (code 11000), and a
  rejected call (a lost connection, a timeout).
\<close>

datatype err =
    BadRequest string
  | Unauthorized string
  | Forbidden string
  | NotFound string
  | Conflict string
  | PreconditionFailed string
  | PreconditionRequired string
  | TooManyRequests string
  | PlainError string
  | VersionError string
  | DuplicateKey string
  | Infra string

fun errMessage :: "err \<Rightarrow> string" where
  "errMessage (BadRequest m) = m"
| "errMessage (Unauthorized m) = m"
| "errMessage (Forbidden m) = m"
| "errMessage (NotFound m) = m"
| "errMessage (Conflict m) = m"
| "errMessage (PreconditionFailed m) = m"
| "errMessage (PreconditionRequired m) = m"
| "errMessage (TooManyRequests m) = m"
| "errMessage (PlainError m) = m"
| "errMessage (VersionError m) = m"
| "errMessage (DuplicateKey m) = m"
| "errMessage (Infra m) = m"

section \<open>Enums\<close>

datatype outboxStatus = OPending | OProcessing | OCompleted | OFailed
datatype exportStatus = XQueued | XProcessing | XCompleted | XFailed
datatype emailStatus = EQueued | ESending | ESent | EFailed
datatype webhookStatus = WPending | WSuccess | WFailed
datatype workspaceRole = Owner | Admin | Member | Viewer
datatype membershipStatus = MActive | MInactive
datatype invitationStatus = IPending | IAccepted | IDeclined | IExpired
datatype featureFlag = Webhooks | Exports | Reminders | EmailNotifications | AdvancedTaskFiltering
datatype taskPriority = Low | Medium | High
datatype taskStatus = Pending | InProgress | Done
datatype exportFormat = FJson | FCsv | FXlsx
datatype queueName = QEmail | QReminder | QWebhook | QExport

section \<open>Documents\<close>

record userDoc =
  u_id :: oid
  u_email :: string
  u_password :: string
  u_role :: string
  u_refreshTokenHash :: "string option"
  u_tokenFamily :: "string option"
  u_currentTokenId :: "string option"
  u_emailVerified :: bool
  u_evTokenHash :: "string option"
  u_evExpiresAt :: "time option"
  u_prTokenHash :: "string option"
  u_prExpiresAt :: "time option"

record workspaceDoc =
  w_id :: oid
  w_name :: string
  w_slug :: string
  w_owner :: oid

record membershipDoc =
  m_id :: oid
  m_workspaceId :: oid
  m_userId :: oid
  m_role :: workspaceRole
  m_status :: membershipStatus

record invitationDoc =
  i_id :: oid
  i_workspaceId :: oid
  i_email :: string
  i_role :: workspaceRole
  i_tokenHash :: string
  i_expiresAt :: time
  i_status :: invitationStatus
  i_invitedBy :: oid

text \<open>The \<open>flags\<close> map of the schema: a flag may be missing.\<close>

record flagsDoc =
  ff_workspaceId :: oid
  ff_flags :: "featureFlag \<Rightarrow> bool option"

record settingsDoc =
  ws_workspaceId :: oid
  ws_timezone :: string
  ws_defaultTaskPriority :: taskPriority
  ws_defaultTaskStatus :: taskStatus
  ws_emailNotifications :: bool
  ws_taskAssignmentNotifications :: bool

record categoryDoc =
  c_id :: oid
  c_name :: string
  c_color :: "string option"
  c_owner :: oid
  c_v :: int

record commentDoc =
  cm_author :: oid
  cm_body :: string
  cm_createdAt :: time

record attachmentDoc =
  a_id :: oid
  a_filename :: string
  a_mime :: string
  a_size :: nat
  a_url :: string

text \<open>
  The fields a client can edit keep their JavaScript value: a missing description is
  \<open>JUndef\<close>, the due date a \<open>JDate\<close>, the status and the priority their enum strings.
\<close>

record taskDoc =
  t_id :: oid
  t_v :: int
  t_title :: json
  t_description :: json
  t_status :: json
  t_priority :: json
  t_dueDate :: json
  t_category :: json
  t_tags :: json
  t_isDeleted :: bool
  t_deletedAt :: "time option"
  t_reminderSent :: bool
  t_comments :: "commentDoc list"
  t_attachments :: "attachmentDoc list"
  t_owner :: oid
  t_workspace :: oid
  t_assignees :: "oid list"
  t_createdAt :: time

record activityDoc =
  ac_task :: oid
  ac_user :: oid
  ac_action :: string
  ac_description :: string
  ac_changes :: "(string \<times> json \<times> json) list option"
  ac_createdAt :: time

record auditDoc =
  au_actorId :: "oid option"
  au_action :: string
  au_resource :: string
  au_workspaceId :: "oid option"
  au_ip :: "string option"
  au_meta :: "props option"
  au_createdAt :: time

record outboxDoc =
  o_id :: oid
  o_eventType :: string
  o_aggregateType :: string
  o_aggregateId :: oid
  o_workspaceId :: "oid option"
  o_correlationId :: "string option"
  o_payload :: props
  o_status :: outboxStatus
  o_attempts :: nat
  o_availableAt :: "time option"
  o_processedAt :: "time option"
  o_lastError :: "string option"
  o_createdAt :: time

record processedDoc =
  p_eventId :: oid
  p_eventType :: string

record emailDoc =
  e_id :: oid
  e_outboxEventId :: oid
  e_to :: string
  e_emailType :: string
  e_status :: emailStatus
  e_attempts :: nat
  e_lastError :: "string option"
  e_sentAt :: "time option"
  e_failedAt :: "time option"

record webhookDoc =
  h_id :: oid
  h_workspaceId :: oid
  h_url :: string
  h_secret :: string
  h_active :: bool
  h_events :: "string list"

record webhookDeliveryDoc =
  d_id :: oid
  d_webhookId :: oid
  d_outboxEventId :: oid
  d_eventType :: string
  d_attempt :: nat
  d_status :: webhookStatus
  d_responseStatus :: "nat option"
  d_error :: "string option"
  d_durationMs :: "int option"
  d_deliveredAt :: "time option"

record exportDoc =
  x_id :: oid
  x_outboxEventId :: oid
  x_workspaceId :: oid
  x_userId :: oid
  x_format :: exportFormat
  x_status :: exportStatus
  x_filePath :: "string option"
  x_fileName :: "string option"
  x_expiresAt :: "time option"
  x_error :: "string option"

section \<open>Jobs, mails, events\<close>

text \<open>
  A BullMQ job as the dispatcher adds it and a processor receives it. The data of a job
  is untyped in the code, so each part may be missing.
\<close>

record job =
  j_id :: oid
  j_outboxEventId :: "oid option"
  j_eventType :: "string option"
  j_aggregateType :: string
  j_aggregateId :: oid
  j_workspaceId :: "oid option"
  j_correlationId :: "string option"
  j_payload :: "props option"
  j_attemptsMade :: nat
  j_attempts :: "nat option"

record deadLetter =
  dl_queueName :: queueName
  dl_jobId :: oid
  dl_outboxEventId :: "oid option"
  dl_eventType :: "string option"
  dl_payload :: "props option"
  dl_error :: string
  dl_attempts :: nat
  dl_correlationId :: "string option"
  dl_failedAt :: time

text \<open>A mail shows a date, which may be invalid.\<close>

datatype mail =
    VerificationMail string string "time option"
  | ResetMail string string "time option"
  | InvitationMail string string string "time option"
  | ReminderMail string string "time option" string

datatype gatewayEvent =
    TaskCreated oid oid
  | TaskUpdated oid oid
  | TaskDeleted json oid

text \<open>One POST to a webhook: its url, its headers and its body.\<close>

record httpCall =
  hc_url :: string
  hc_signature :: string
  hc_event :: string
  hc_delivery :: oid
  hc_body :: string

datatype idemStatus = IdemProcessing | IdemCompleted

record idemRecord =
  id_status :: idemStatus
  id_fingerprint :: string
  id_statusCode :: "nat option"
  id_responseBody :: json

section \<open>Lists of tasks\<close>

text \<open>
  The query of \<open>findAll\<close> with its defaults filled in (page 1, limit 10, offset, createdAt, desc);
  the dates are the times their strings denote.
\<close>

record tasksQuery =
  q_page :: nat
  q_limit :: nat
  q_cursorMode :: bool
  q_cursor :: "oid option"
  q_status :: "string option"
  q_search :: "string option"
  q_sort :: "string option"
  q_sortBy :: string
  q_order :: string
  q_dueFrom :: "time option"
  q_dueTo :: "time option"
  q_tags :: "string option"
  q_assignee :: "string option"

text \<open>A task with the owner and the category that the pipeline looked up, and a page of them.\<close>

record taskView =
  tv_doc :: taskDoc
  tv_owner :: "userDoc option"
  tv_category :: "categoryDoc option"

datatype pageMeta =
    OffsetMeta (pm_total: nat) (pm_page: nat) (pm_limit: nat) (pm_totalPages: nat)
  | CursorMeta (pm_limit: nat) (pm_nextCursor: "oid option")

record taskPage =
  tp_data :: "taskView list"
  tp_meta :: pageMeta

record taskStats =
  ts_status :: "(json \<times> nat) list"
  ts_priority :: "(json \<times> nat) list"
  ts_overdue :: nat

section \<open>The cache\<close>

text \<open>
  The cache keys of the repositories, one constructor per template string, and what is
  stored under them. Two templates never build the same string: each starts with its own
  prefix and the ids in it hold no colon.
\<close>

datatype cacheKey =
    CKMembership oid oid
  | CKMembershipsUser oid
  | CKMembershipsWorkspace oid
  | CKInvitationsEmail string
  | CKInvitationsWorkspace oid
  | CKWorkspace oid
  | CKWorkspaceSlug string
  | CKWorkspacesOwner oid
  | CKWorkspacesIds "oid list"
  | CKUser oid
  | CKUsersAll
  | CKCategory oid oid
  | CKCategoryRole string oid oid
  | CKCategories oid
  | CKTasks oid string oid tasksQuery
  | CKStats oid string
  | CKWebhooks oid

datatype cacheVal =
    CVMembership membershipDoc
  | CVMemberships "membershipDoc list"
  | CVInvitations "invitationDoc list"
  | CVWorkspace workspaceDoc
  | CVWorkspaces "workspaceDoc list"
  | CVUser userDoc
  | CVUsers "userDoc list"
  | CVCategory categoryDoc
  | CVCategories "categoryDoc list"
  | CVTasks taskPage
  | CVStats taskStats
  | CVWebhooks "webhookDoc list"

section \<open>The state\<close>

text \<open>The MongoDB database: one list per collection, in insertion order.\<close>

record database =
  users :: "userDoc list"
  workspaces :: "workspaceDoc list"
  memberships :: "membershipDoc list"
  invitations :: "invitationDoc list"
  flags :: "flagsDoc list"
  settings :: "settingsDoc list"
  categories :: "categoryDoc list"
  tasks :: "taskDoc list"
  activities :: "activityDoc list"
  auditLogs :: "auditDoc list"
  outbox :: "outboxDoc list"
  processed :: "processedDoc list"
  emails :: "emailDoc list"
  webhooks :: "webhookDoc list"
  webhookDeliveries :: "webhookDeliveryDoc list"
  exports :: "exportDoc list"

text \<open>
  Everything a method can read or change. \<open>faults\<close> is the schedule of the calls that
  leave the process: each such call takes one entry, \<open>Some msg\<close> rejects it, and an empty
  schedule lets every further call succeed. \<open>nextId\<close> numbers the ids and the random
  strings drawn so far, \<open>now\<close> is the clock, \<open>requestId\<close> the id of the current request.
\<close>

record world =
  db :: database
  cache :: "cacheKey \<Rightarrow> (cacheVal \<times> time) option"
  taskKeys :: "cacheKey list"
  workspaceKeys :: "cacheKey list"
  membershipKeys :: "cacheKey list"
  invitationKeys :: "cacheKey list"
  categoryKeys :: "cacheKey list"
  failedLogins :: "string \<Rightarrow> (nat \<times> time option) option"
  rateCounters :: "oid \<Rightarrow> (nat \<times> time option) option"
  idempotency :: "string \<Rightarrow> (string \<times> time) option"
  queues :: "queueName \<Rightarrow> job list"
  dlq :: "deadLetter list"
  mailbox :: "mail list"
  gateway :: "gatewayEvent list"
  published :: "(oid \<times> oid) list"
  calls :: "httpCall list"
  files :: "string \<Rightarrow> string option"
  requestId :: "string option"
  now :: time
  nextId :: nat
  faults :: "string option list"

type_synonym 'a wprog = "(world, err, 'a) prog"

section \<open>Calls that leave the process\<close>

definition io :: "'a wprog \<Rightarrow> 'a wprog" where
  "io m = (\<lambda>s. case faults s of
       [] \<Rightarrow> m s
     | None # fs \<Rightarrow> m (s\<lparr>faults := fs\<rparr>)
     | Some msg # fs \<Rightarrow> (Inl (Infra msg), s\<lparr>faults := fs\<rparr>))"

abbreviation query :: "(database \<Rightarrow> 'a) \<Rightarrow> 'a wprog" where
  "query f \<equiv> io (gets (\<lambda>s. f (db s)))"

abbreviation updateDb :: "(database \<Rightarrow> database) \<Rightarrow> unit wprog" where
  "updateDb f \<equiv> io (modify (\<lambda>s. s\<lparr>db := f (db s)\<rparr>))"

text \<open>\<open>new Types.ObjectId()\<close>, \<open>randomBytes\<close>, \<open>randomUUID\<close>: a number never drawn before.\<close>

definition freshId :: "oid wprog" where
  "freshId = (\<lambda>s. (Inr (nextId s), s\<lparr>nextId := Suc (nextId s)\<rparr>))"

text \<open>
  \<open>session.withTransaction(body)\<close>: the writes of the body reach the database together with
  the commit; when the body throws, or the commit is rejected, the database is what it was
  before. Effects outside the database (the cache, the ids drawn) are not undone.
\<close>

definition withTransaction :: "'a wprog \<Rightarrow> 'a wprog" where
  "withTransaction body = (\<lambda>s. case bnd body (\<lambda>x. io (ret x)) s of (r, t) \<Rightarrow>
     (case r of Inl e \<Rightarrow> (Inl e, t\<lparr>db := db s\<rparr>) | Inr x \<Rightarrow> (Inr x, t)))"

subsection \<open>The cache manager\<close>

text \<open>An entry is served until its time to live has passed.\<close>

definition cacheLive :: "world \<Rightarrow> cacheKey \<Rightarrow> cacheVal option" where
  "cacheLive s k = (case cache s k of
     None \<Rightarrow> None | Some (v, till) \<Rightarrow> if now s < till then Some v else None)"

definition cacheGet :: "cacheKey \<Rightarrow> cacheVal option wprog" where
  "cacheGet k = io (gets (\<lambda>s. cacheLive s k))"

definition cacheSet :: "cacheKey \<Rightarrow> cacheVal \<Rightarrow> time \<Rightarrow> unit wprog" where
  "cacheSet k v ttl = io (modify (\<lambda>s. s\<lparr>cache := (cache s)(k := Some (v, now s + ttl))\<rparr>))"

definition cacheDel :: "cacheKey \<Rightarrow> unit wprog" where
  "cacheDel k = io (modify (\<lambda>s. s\<lparr>cache := (cache s)(k := None)\<rparr>))"

subsection \<open>Running them\<close>

lemma io_nofault [simp]: "faults s = [] \<Longrightarrow> io m s = m s"
  by (simp add: io_def)

lemma io_run [prog_defs]:
  "io m s = (case faults s of
       [] \<Rightarrow> m s
     | f # fs \<Rightarrow> (case f of None \<Rightarrow> m (s\<lparr>faults := fs\<rparr>) | Some msg \<Rightarrow> (Inl (Infra msg), s\<lparr>faults := fs\<rparr>)))"
  by (simp add: io_def split: list.splits option.splits)

text \<open>The states a call runs in: the schedule of failures has moved on by at most one.\<close>

definition sameButFaults :: "world \<Rightarrow> world \<Rightarrow> bool" where
  "sameButFaults s t \<longleftrightarrow> t = s\<lparr>faults := faults t\<rparr>"

lemma io_ok [ok_iff]:
  "io m s = (Inr x, u) \<longleftrightarrow>
     (faults s = [] \<and> m s = (Inr x, u)) \<or>
     (\<exists>fs. faults s = None # fs \<and> m (s\<lparr>faults := fs\<rparr>) = (Inr x, u))"
  by (auto simp: io_def split: list.splits option.splits)

lemma io_err:
  "io m s = (Inl e, u) \<longleftrightarrow>
     (faults s = [] \<and> m s = (Inl e, u)) \<or>
     (\<exists>fs. faults s = None # fs \<and> m (s\<lparr>faults := fs\<rparr>) = (Inl e, u)) \<or>
     (\<exists>msg fs. faults s = Some msg # fs \<and> e = Infra msg \<and> u = s\<lparr>faults := fs\<rparr>)"
  by (auto simp: io_def split: list.splits option.splits)

lemma snd_io:
  assumes "\<And>fs. P (s\<lparr>faults := fs\<rparr>) \<and> P (snd (m (s\<lparr>faults := fs\<rparr>)))"
  shows "P (snd (io m s))"
  using assms [of "faults s"] assms [of "tl (faults s)"] by (auto simp: io_run split: list.splits option.splits)

lemma gets_ok [ok_iff]: "gets f s = (Inr x, u) \<longleftrightarrow> x = f s \<and> u = s"
  by auto

lemma modify_ok [ok_iff]: "modify f s = (Inr x, u) \<longleftrightarrow> u = f s"
  by auto

lemma freshId_run [simp]: "freshId s = (Inr (nextId s), s\<lparr>nextId := Suc (nextId s)\<rparr>)"
  by (simp add: freshId_def)

lemma withTransaction_err:
  "withTransaction body s = (Inl e, t) \<Longrightarrow> db t = db s"
  by (auto simp: withTransaction_def split: prod.splits sum.splits)

lemma withTransaction_ok [ok_iff]:
  "withTransaction body s = (Inr x, u) \<longleftrightarrow>
     (\<exists>t. body s = (Inr x, t) \<and> io (ret x) t = (Inr x, u))"
  by (auto simp: withTransaction_def bnd_run io_def split: prod.splits sum.splits list.splits option.splits)

section \<open>A first state\<close>

text \<open>An empty system, the base of the concrete inputs the theorems are applied to.\<close>

definition emptyDb :: database where
  "emptyDb = \<lparr>users = [], workspaces = [], memberships = [], invitations = [], flags = [],
     settings = [], categories = [], tasks = [], activities = [], auditLogs = [], outbox = [],
     processed = [], emails = [], webhooks = [], webhookDeliveries = [], exports = []\<rparr>"

definition world0 :: world where
  "world0 = \<lparr>db = emptyDb, cache = (\<lambda>_. None), taskKeys = [], workspaceKeys = [],
     membershipKeys = [], invitationKeys = [], categoryKeys = [], failedLogins = (\<lambda>_. None),
     rateCounters = (\<lambda>_. None), idempotency = (\<lambda>_. None), queues = (\<lambda>_. []), dlq = [],
     mailbox = [], gateway = [], published = [], calls = [], files = (\<lambda>_. None),
     requestId = None, now = 1000, nextId = 100, faults = []\<rparr>"

lemma world0_sel [simp]:
  "db world0 = emptyDb" "cache world0 k = None" "queues world0 q = []" "dlq world0 = []"
  "mailbox world0 = []" "now world0 = 1000" "nextId world0 = 100" "faults world0 = []"
  "failedLogins world0 e = None" "idempotency world0 i = None" "files world0 f = None"
  "requestId world0 = None" "calls world0 = []" "gateway world0 = []"
  by (simp_all add: world0_def)

lemma emptyDb_sel [simp]:
  "users emptyDb = []" "workspaces emptyDb = []" "memberships emptyDb = []"
  "invitations emptyDb = []" "flags emptyDb = []" "settings emptyDb = []"
  "categories emptyDb = []" "tasks emptyDb = []" "activities emptyDb = []"
  "auditLogs emptyDb = []" "outbox emptyDb = []" "processed emptyDb = []" "emails emptyDb = []"
  "webhooks emptyDb = []" "webhookDeliveries emptyDb = []" "exports emptyDb = []"
  by (simp_all add: emptyDb_def)

end
