(* ===== verification/Store.thy ===== *)
theory Store
  imports Model
begin

text \<open>
  The calls of a Mongoose model that the repositories make, over any collection of the
  database: \<open>get\<close> reads the collection and \<open>upd\<close> changes it. The locale \<open>collection\<close>
  states what the two promise and proves what a caller learns from a finished call; it is
  interpreted for each of the collections.
\<close>

section \<open>The operations\<close>

definition findDocs :: "(database \<Rightarrow> 'a list) \<Rightarrow> ('a \<Rightarrow> bool) \<Rightarrow> 'a list wprog" where
  "findDocs get p = query (\<lambda>d. filter p (get d))"

definition findOne :: "(database \<Rightarrow> 'a list) \<Rightarrow> ('a \<Rightarrow> bool) \<Rightarrow> 'a option wprog" where
  "findOne get p = query (\<lambda>d. List.find p (get d))"

definition insertOne ::
  "(database \<Rightarrow> 'a list) \<Rightarrow> (('a list \<Rightarrow> 'a list) \<Rightarrow> database \<Rightarrow> database) \<Rightarrow> 'a \<Rightarrow>
   unit wprog" where
  "insertOne get upd x = updateDb (\<lambda>d. upd (\<lambda>_. get d @ [x]) d)"

text \<open>An insertion into a collection with a unique index: \<open>clash\<close> finds the entry it would repeat.\<close>

definition insertUnique ::
  "(database \<Rightarrow> 'a list) \<Rightarrow> (('a list \<Rightarrow> 'a list) \<Rightarrow> database \<Rightarrow> database) \<Rightarrow> ('a \<Rightarrow> bool) \<Rightarrow>
   'a \<Rightarrow> unit wprog" where
  "insertUnique get upd clash x = io (\<lambda>s.
     if List.find clash (get (db s)) \<noteq> None then (Inl (DuplicateKey ''E11000 duplicate key error''), s)
     else (Inr (), s\<lparr>db := upd (\<lambda>_. get (db s) @ [x]) (db s)\<rparr>))"

definition findOneAndUpdate ::
  "(database \<Rightarrow> 'a list) \<Rightarrow> (('a list \<Rightarrow> 'a list) \<Rightarrow> database \<Rightarrow> database) \<Rightarrow> ('a \<Rightarrow> bool) \<Rightarrow>
   ('a \<Rightarrow> 'a) \<Rightarrow> 'a option wprog" where
  "findOneAndUpdate get upd p f = io (\<lambda>s. case List.find p (get (db s)) of
       None \<Rightarrow> (Inr None, s)
     | Some d \<Rightarrow> (Inr (Some (f d)), s\<lparr>db := upd (\<lambda>_. updateFirst p f (get (db s))) (db s)\<rparr>))"

definition findOneAndDelete ::
  "(database \<Rightarrow> 'a list) \<Rightarrow> (('a list \<Rightarrow> 'a list) \<Rightarrow> database \<Rightarrow> database) \<Rightarrow> ('a \<Rightarrow> bool) \<Rightarrow>
   'a option wprog" where
  "findOneAndDelete get upd p = io (\<lambda>s. case List.find p (get (db s)) of
       None \<Rightarrow> (Inr None, s)
     | Some d \<Rightarrow> (Inr (Some d), s\<lparr>db := upd (\<lambda>_. removeFirst p (get (db s))) (db s)\<rparr>))"

section \<open>What a call promises\<close>

locale collection =
  fixes get :: "database \<Rightarrow> 'a list"
    and upd :: "('a list \<Rightarrow> 'a list) \<Rightarrow> database \<Rightarrow> database"
  assumes get_upd: "get (upd f d) = f (get d)"
begin

lemma findOne_ok:
  assumes "findOne get p s = (Inr r, t)"
  shows "r = List.find p (get (db s)) \<and> t = s\<lparr>faults := faults t\<rparr>"
  using assms by (auto simp: findOne_def io_ok)

lemma findOneAndUpdate_ok:
  assumes "findOneAndUpdate get upd p f s = (Inr r, t)"
  shows "(case List.find p (get (db s)) of
            None \<Rightarrow> r = None \<and> t = s\<lparr>faults := faults t\<rparr>
          | Some d \<Rightarrow> r = Some (f d) \<and> get (db t) = updateFirst p f (get (db s))
              \<and> t = s\<lparr>faults := faults t, db := upd (\<lambda>_. updateFirst p f (get (db s))) (db s)\<rparr>)"
  using assms by (auto simp: findOneAndUpdate_def io_ok get_upd split: option.splits)

lemma insertUnique_ok:
  assumes "insertUnique get upd clash x s = (Inr r, t)"
  shows "get (db t) = get (db s) @ [x]" and "\<forall>y\<in>set (get (db s)). \<not> clash y"
  using assms
  by (auto simp: insertUnique_def io_ok get_upd find_None_iff_all split: if_splits)

lemma insertOne_ok:
  "insertOne get upd x s = (Inr r, t) \<Longrightarrow> get (db t) = get (db s) @ [x]"
  by (auto simp: insertOne_def io_ok get_upd)

text \<open>What holds of the list after the call, however it ended, from what each list change keeps.\<close>

lemma findOneAndUpdate_rel:
  assumes "\<And>xs. Q xs xs" and "\<And>xs. Q xs (updateFirst p f xs)"
  shows "Q (get (db s)) (get (db (snd (findOneAndUpdate get upd p f s))))"
  by (simp add: findOneAndUpdate_def io_run get_upd assms split: option.splits list.splits)

lemma findOneAndDelete_rel:
  assumes "\<And>xs. Q xs xs" and "\<And>xs. Q xs (removeFirst p xs)"
  shows "Q (get (db s)) (get (db (snd (findOneAndDelete get upd p s))))"
  by (simp add: findOneAndDelete_def io_run get_upd assms split: option.splits list.splits)

lemma insertUnique_rel:
  assumes "\<And>xs. Q xs xs" and "\<And>xs. \<forall>y\<in>set xs. \<not> clash y \<Longrightarrow> Q xs (xs @ [x])"
  shows "Q (get (db s)) (get (db (snd (insertUnique get upd clash x s))))"
  by (auto simp: insertUnique_def io_run get_upd assms find_None_iff_all
      split: option.splits list.splits)

end

section \<open>The collections\<close>

interpretation usersC: collection users users_update
  by unfold_locales simp

interpretation workspacesC: collection workspaces workspaces_update
  by unfold_locales simp

interpretation membershipsC: collection memberships memberships_update
  by unfold_locales simp

interpretation invitationsC: collection invitations invitations_update
  by unfold_locales simp

interpretation flagsC: collection flags flags_update
  by unfold_locales simp

interpretation settingsC: collection settings settings_update
  by unfold_locales simp

interpretation categoriesC: collection categories categories_update
  by unfold_locales simp

interpretation tasksC: collection tasks tasks_update
  by unfold_locales simp

interpretation outboxC: collection outbox outbox_update
  by unfold_locales simp

interpretation emailsC: collection emails emails_update
  by unfold_locales simp

interpretation webhookDeliveriesC: collection webhookDeliveries webhookDeliveries_update
  by unfold_locales simp

interpretation exportsC: collection exports exports_update
  by unfold_locales simp

lemmas store_defs [prog_defs] =
  findDocs_def findOne_def insertOne_def insertUnique_def findOneAndUpdate_def findOneAndDelete_def

section \<open>Runs without failures\<close>

lemma findDocs_run [simp]: "faults s = [] \<Longrightarrow> findDocs get p s = (Inr (filter p (get (db s))), s)"
  by (simp add: findDocs_def)

lemma findOne_run [simp]: "faults s = [] \<Longrightarrow> findOne get p s = (Inr (List.find p (get (db s))), s)"
  by (simp add: findOne_def)

lemma insertOne_run [simp]:
  "faults s = [] \<Longrightarrow> insertOne get upd x s = (Inr (), s\<lparr>db := upd (\<lambda>_. get (db s) @ [x]) (db s)\<rparr>)"
  by (simp add: insertOne_def)

lemma findOneAndUpdate_run [simp]:
  "faults s = [] \<Longrightarrow> findOneAndUpdate get upd p f s =
     (case List.find p (get (db s)) of
        None \<Rightarrow> (Inr None, s)
      | Some d \<Rightarrow> (Inr (Some (f d)), s\<lparr>db := upd (\<lambda>_. updateFirst p f (get (db s))) (db s)\<rparr>))"
  by (simp add: findOneAndUpdate_def)

lemma findOneAndDelete_run [simp]:
  "faults s = [] \<Longrightarrow> findOneAndDelete get upd p s =
     (case List.find p (get (db s)) of
        None \<Rightarrow> (Inr None, s)
      | Some d \<Rightarrow> (Inr (Some d), s\<lparr>db := upd (\<lambda>_. removeFirst p (get (db s))) (db s)\<rparr>))"
  by (simp add: findOneAndDelete_def)

lemma insertUnique_run [simp]:
  "faults s = [] \<Longrightarrow> insertUnique get upd clash x s =
     (if List.find clash (get (db s)) \<noteq> None
      then (Inl (DuplicateKey ''E11000 duplicate key error''), s)
      else (Inr (), s\<lparr>db := upd (\<lambda>_. get (db s) @ [x]) (db s)\<rparr>))"
  by (simp add: insertUnique_def)

end
