(* ===== verification/Outbox.thy ===== *)
theory Outbox
  imports Store
begin

text \<open>
  The transactional outbox (\<open>src/outbox\<close>): the repository, the service, the dispatcher that
  moves events to the BullMQ queues, and the record of the events already handled. The
  lemmas at the end give the lifecycle of an event under any schedule of failures.
\<close>

section \<open>OutboxRepository\<close>

definition OutboxRepository_create ::
  "oid option \<Rightarrow> string \<Rightarrow> string \<Rightarrow> oid \<Rightarrow> oid option \<Rightarrow> string option \<Rightarrow> props \<Rightarrow> outboxDoc wprog" where
  "OutboxRepository_create ident eventType aggregateType aggregateId workspaceId correlationId payload =
     bnd (case ident of None \<Rightarrow> freshId | Some i \<Rightarrow> ret i) (\<lambda>i.
     bnd (gets now) (\<lambda>t.
     let event = \<lparr>o_id = i, o_eventType = eventType, o_aggregateType = aggregateType,
                  o_aggregateId = aggregateId, o_workspaceId = workspaceId,
                  o_correlationId = correlationId, o_payload = payload, o_status = OPending,
                  o_attempts = 0, o_availableAt = None, o_processedAt = None,
                  o_lastError = None, o_createdAt = t\<rparr>
     in andThen (insertOne outbox outbox_update event) (ret event)))"

text \<open>The filter of \<open>findPending\<close>: waiting or failed, and available (or with no availability set).\<close>

definition duePending :: "time \<Rightarrow> outboxDoc \<Rightarrow> bool" where
  "duePending t e \<longleftrightarrow> (o_status e = OPending \<or> o_status e = OFailed) \<and>
     (case o_availableAt e of None \<Rightarrow> True | Some a \<Rightarrow> a \<le> t)"

definition findPending :: "nat \<Rightarrow> time \<Rightarrow> outboxDoc list wprog" where
  "findPending limit t =
     query (\<lambda>d. take limit (sort_key o_createdAt (filter (duePending t) (outbox d))))"

definition markProcessing :: "oid \<Rightarrow> outboxDoc option wprog" where
  "markProcessing i = findOneAndUpdate outbox outbox_update
     (\<lambda>e. o_id e = i \<and> (o_status e = OPending \<or> o_status e = OFailed))
     (\<lambda>e. e\<lparr>o_status := OProcessing, o_attempts := o_attempts e + 1\<rparr>)"

definition markCompleted :: "oid \<Rightarrow> outboxDoc option wprog" where
  "markCompleted i = bnd (gets now) (\<lambda>t. findOneAndUpdate outbox outbox_update
     (\<lambda>e. o_id e = i \<and> o_status e = OProcessing)
     (\<lambda>e. e\<lparr>o_status := OCompleted, o_processedAt := Some t\<rparr>))"

definition maxAttempts :: nat where
  "maxAttempts = 5"

text \<open>
  \<open>$set: update\<close> carries \<open>availableAt: undefined\<close> in the exhausted branch, which Mongoose
  leaves out of the update; \<open>$unset\<close> removes the field.
\<close>

definition markFailed :: "oid \<Rightarrow> string \<Rightarrow> time option \<Rightarrow> outboxDoc option wprog" where
  "markFailed i error availableAt =
     bnd (findOne outbox (\<lambda>e. o_id e = i)) (\<lambda>found. case found of
       None \<Rightarrow> ret None
     | Some event \<Rightarrow>
         if o_attempts event \<ge> maxAttempts then
           findOneAndUpdate outbox outbox_update
             (\<lambda>e. o_id e = i \<and> o_status e = OProcessing)
             (\<lambda>e. e\<lparr>o_status := OFailed, o_availableAt := None, o_lastError := Some error\<rparr>)
         else
           findOneAndUpdate outbox outbox_update
             (\<lambda>e. o_id e = i \<and> o_status e = OProcessing)
             (\<lambda>e. e\<lparr>o_status := OFailed,
                    o_availableAt := (case availableAt of None \<Rightarrow> o_availableAt e | Some a \<Rightarrow> Some a),
                    o_lastError := Some error\<rparr>))"

section \<open>OutboxService\<close>

text \<open>The correlation id is the id of the request that is being served.\<close>

definition OutboxService_create ::
  "oid option \<Rightarrow> string \<Rightarrow> string \<Rightarrow> oid \<Rightarrow> oid option \<Rightarrow> props \<Rightarrow> outboxDoc wprog" where
  "OutboxService_create ident eventType aggregateType aggregateId workspaceId payload =
     bnd (gets requestId) (\<lambda>correlationId.
       OutboxRepository_create ident eventType aggregateType aggregateId workspaceId
         correlationId payload)"

section \<open>ProcessedEventRepository\<close>

definition hasBeenProcessed :: "oid \<Rightarrow> bool wprog" where
  "hasBeenProcessed i = bnd (findOne processed (\<lambda>p. p_eventId p = i)) (\<lambda>found. ret (found \<noteq> None))"

text \<open>\<open>eventId\<close> has a unique index.\<close>

definition markProcessed :: "oid \<Rightarrow> string \<Rightarrow> unit wprog" where
  "markProcessed i eventType = insertUnique processed processed_update (\<lambda>p. p_eventId p = i)
     \<lparr>p_eventId = i, p_eventType = eventType\<rparr>"

section \<open>OutboxDispatcherService\<close>

definition getQueue :: "string \<Rightarrow> queueName option" where
  "getQueue eventType =
     (if eventType = ''TASK_CREATED'' \<or> eventType = ''TASK_COMPLETED'' \<or> eventType = ''TASK_ASSIGNED''
      then Some QWebhook
      else if eventType = ''REMINDER_DUE'' then Some QReminder
      else if eventType = ''EMAIL_REQUESTED'' then Some QEmail
      else if eventType = ''EXPORT_REQUESTED'' then Some QExport
      else None)"

text \<open>\<open>queue.add\<close> with a job id: a job whose id the queue already knows is not added again.\<close>

definition queueAdd :: "queueName \<Rightarrow> job \<Rightarrow> unit wprog" where
  "queueAdd q j = io (modify (\<lambda>s.
     if \<exists>k\<in>set (queues s q). j_id k = j_id j then s
     else s\<lparr>queues := (queues s)(q := queues s q @ [j])\<rparr>))"

definition jobOf :: "outboxDoc \<Rightarrow> job" where
  "jobOf event = \<lparr>j_id = o_id event, j_outboxEventId = Some (o_id event),
     j_eventType = Some (o_eventType event), j_aggregateType = o_aggregateType event,
     j_aggregateId = o_aggregateId event, j_workspaceId = o_workspaceId event,
     j_correlationId = o_correlationId event, j_payload = Some (o_payload event),
     j_attemptsMade = 0, j_attempts = Some 3\<rparr>"

definition retryDelay :: "nat \<Rightarrow> time" where
  "retryDelay attempts = min 30000 (1000 * 2 ^ attempts)"

definition enqueueEvent :: "outboxDoc \<Rightarrow> unit wprog" where
  "enqueueEvent event =
     bnd (orThrow (getQueue (o_eventType event))
           (PlainError (''No queue configured for event type: '' @ o_eventType event))) (\<lambda>q.
     andThen (queueAdd q (jobOf event))
     (andThen (markCompleted (o_id event)) (ret ())))"

definition failEvent :: "outboxDoc \<Rightarrow> err \<Rightarrow> unit wprog" where
  "failEvent event e =
     bnd (gets now) (\<lambda>t.
     andThen (markFailed (o_id event) (errMessage e) (Some (t + retryDelay (o_attempts event))))
       (ret ()))"

text \<open>The body of the dispatcher's loop.\<close>

definition dispatchEvent :: "outboxDoc \<Rightarrow> unit wprog" where
  "dispatchEvent event =
     bnd (markProcessing (o_id event)) (\<lambda>processing. case processing of
       None \<Rightarrow> ret ()
     | Some _ \<Rightarrow> tryCatch (enqueueEvent event) (failEvent event))"

definition dispatchPending :: "nat \<Rightarrow> unit wprog" where
  "dispatchPending limit =
     bnd (gets now) (\<lambda>t. bnd (findPending limit t) (\<lambda>events. forEach events dispatchEvent))"

section \<open>The lifecycle of an event\<close>

text \<open>
  What may happen to an event between two states: its identity and its content never
  change, the attempts only grow, and a completed event changes no more.
\<close>

definition eventOrder :: "outboxDoc \<Rightarrow> outboxDoc \<Rightarrow> bool" where
  "eventOrder a b \<longleftrightarrow>
     o_id b = o_id a \<and> o_eventType b = o_eventType a \<and> o_aggregateType b = o_aggregateType a \<and>
     o_aggregateId b = o_aggregateId a \<and> o_workspaceId b = o_workspaceId a \<and>
     o_correlationId b = o_correlationId a \<and> o_payload b = o_payload a \<and>
     o_createdAt b = o_createdAt a \<and> o_attempts a \<le> o_attempts b \<and>
     (o_status a = OCompleted \<longrightarrow> b = a)"

lemma eventOrder_refl [simp]: "eventOrder a a"
  by (simp add: eventOrder_def)

lemma eventOrder_trans: "eventOrder a b \<Longrightarrow> eventOrder b c \<Longrightarrow> eventOrder a c"
  by (auto simp: eventOrder_def)

definition outboxOrder :: "world \<Rightarrow> world \<Rightarrow> bool" where
  "outboxOrder s t \<longleftrightarrow> list_all2 eventOrder (outbox (db s)) (outbox (db t))"

interpretation outboxOrder: step_order outboxOrder
proof unfold_locales
  show "outboxOrder s s" for s
    by (simp add: outboxOrder_def list_all2_refl)
  show "outboxOrder s u" if "outboxOrder s t" "outboxOrder t u" for s t u
    using that list_all2_trans [where ?P1.0 = eventOrder and ?P2.0 = eventOrder, OF eventOrder_trans]
    by (simp add: outboxOrder_def)
qed

lemma list_all2_updateFirst:
  assumes "\<And>x. P x x" and "\<And>x. p x \<Longrightarrow> P x (f x)"
  shows "list_all2 P xs (updateFirst p f xs)"
  by (induction xs) (auto simp: assms list_all2_refl)

lemma stays_outbox_update:
  assumes "\<And>e. p e \<Longrightarrow> eventOrder e (f e)"
  shows "stays outboxOrder (findOneAndUpdate outbox outbox_update p f)"
proof (rule staysI)
  show "outboxOrder s (snd (findOneAndUpdate outbox outbox_update p f s))" for s
    unfolding outboxOrder_def
    by (rule outboxC.findOneAndUpdate_rel [where Q = "list_all2 eventOrder"])
      (simp_all add: list_all2_refl list_all2_updateFirst assms)
qed

lemma stays_io:
  assumes "\<And>s fs. R s (s\<lparr>faults := fs\<rparr>)" and "\<And>s fs. R s (snd (m (s\<lparr>faults := fs\<rparr>)))"
    and "\<And>s. R s (snd (m s))"
  shows "stays R (io m)"
  by (rule staysI) (auto simp: io_run assms split: list.splits option.splits)

lemma stays_queueAdd: "stays outboxOrder (queueAdd q j)"
  unfolding queueAdd_def
  by (rule stays_io) (auto simp: outboxOrder_def list_all2_refl)

lemma stays_query: "(\<And>s fs. R s (s\<lparr>faults := fs\<rparr>)) \<Longrightarrow> (\<And>s. R s s) \<Longrightarrow> stays R (query f)"
  by (rule stays_io) auto

lemma outboxOrder_faults: "outboxOrder s (s\<lparr>faults := fs\<rparr>)"
  by (simp add: outboxOrder_def list_all2_refl)

lemmas outbox_stays =
  outboxOrder.stays_rules stays_outbox_update stays_queueAdd
  stays_query [of outboxOrder, OF outboxOrder_faults outboxOrder.refl]

lemma stays_markProcessing: "stays outboxOrder (markProcessing i)"
  unfolding markProcessing_def by (rule stays_outbox_update) (auto simp: eventOrder_def)

lemma stays_markCompleted: "stays outboxOrder (markCompleted i)"
  unfolding markCompleted_def by (intro outbox_stays) (auto simp: eventOrder_def)

lemma stays_markFailed: "stays outboxOrder (markFailed i m a)"
  unfolding markFailed_def findOne_def by (intro outbox_stays) (auto simp: eventOrder_def)

lemma stays_dispatchEvent: "stays outboxOrder (dispatchEvent e)"
  unfolding dispatchEvent_def enqueueEvent_def failEvent_def
  by (intro outbox_stays stays_markProcessing stays_markCompleted stays_markFailed)

lemma stays_dispatchPending: "stays outboxOrder (dispatchPending n)"
  unfolding dispatchPending_def findPending_def
  by (intro outbox_stays stays_dispatchEvent)

end
