(* ===== verification/OutboxDispatch.thy ===== *)
theory OutboxDispatch
  imports Outbox
begin

text \<open>
  What the outbox dispatcher guarantees: the effect of a run without failures against an
  abstract specification, the lifecycle and the frame under failures, the queues without
  duplicate jobs, the back-off, and the exclusive claims of several dispatchers at once.
\<close>

section \<open>The abstract specification of a run\<close>

text \<open>
  What one dispatch makes of an event it picked up at time \<open>t\<close>: an event of a known type
  is completed, any other fails and waits for its back-off, or for nothing once its
  attempts are used up.
\<close>

definition settled :: "time \<Rightarrow> outboxDoc \<Rightarrow> outboxDoc" where
  "settled t e = (case getQueue (o_eventType e) of
     Some q \<Rightarrow> e\<lparr>o_status := OCompleted, o_attempts := o_attempts e + 1, o_processedAt := Some t\<rparr>
   | None \<Rightarrow> e\<lparr>o_status := OFailed, o_attempts := o_attempts e + 1,
        o_availableAt := (if o_attempts e + 1 \<ge> maxAttempts then None
                          else Some (t + retryDelay (o_attempts e))),
        o_lastError := Some (''No queue configured for event type: '' @ o_eventType e)\<rparr>)"

definition enqueued :: "outboxDoc \<Rightarrow> (queueName \<Rightarrow> job list) \<Rightarrow> queueName \<Rightarrow> job list" where
  "enqueued e qs = (case getQueue (o_eventType e) of
     None \<Rightarrow> qs
   | Some q \<Rightarrow> if \<exists>k\<in>set (qs q). j_id k = o_id e then qs else qs(q := qs q @ [jobOf e]))"

definition pendingAt :: "nat \<Rightarrow> world \<Rightarrow> outboxDoc list" where
  "pendingAt limit s =
     take limit (sort_key o_createdAt (filter (duePending (now s)) (outbox (db s))))"

lemma pendingAt_due: "e \<in> set (pendingAt limit s) \<Longrightarrow> e \<in> set (outbox (db s)) \<and> duePending (now s) e"
  unfolding pendingAt_def by (auto dest: in_set_takeD)

lemma distinct_pendingAt:
  assumes "distinct (map o_id (outbox (db s)))"
  shows "distinct (map o_id (pendingAt limit s))"
proof -
  have "distinct (outbox (db s))" and inj: "inj_on o_id (set (outbox (db s)))"
    using assms by (simp_all add: distinct_map)
  then have "distinct (pendingAt limit s)"
    by (simp add: pendingAt_def distinct_take distinct_sort)
  moreover have "set (pendingAt limit s) \<subseteq> set (outbox (db s))"
    using pendingAt_due by blast
  ultimately show ?thesis
    using inj by (auto simp: distinct_map intro: inj_on_subset)
qed

section \<open>One event\<close>

text \<open>The state after an event has been settled, as a function of the state before.\<close>

definition afterEvent :: "outboxDoc \<Rightarrow> world \<Rightarrow> world" where
  "afterEvent e s = s\<lparr>
     db := (db s)\<lparr>outbox := map (\<lambda>x. if o_id x = o_id e then settled (now s) e else x) (outbox (db s))\<rparr>,
     queues := enqueued e (queues s)\<rparr>"

lemma dispatchEvent_run:
  assumes nf: "faults s = []" and d: "distinct (map o_id (outbox (db s)))"
    and e: "e \<in> set (outbox (db s))" and due: "o_status e = OPending \<or> o_status e = OFailed"
  shows "dispatchEvent e s = (Inr (), afterEvent e s)"
proof -
  let ?p = "\<lambda>x. o_id x = o_id e \<and> (o_status x = OPending \<or> o_status x = OFailed)"
  let ?f = "\<lambda>x. x\<lparr>o_status := OProcessing, o_attempts := Suc (o_attempts x)\<rparr>"
  let ?s1 = "s\<lparr>db := (db s)\<lparr>outbox := updateFirst ?p ?f (outbox (db s))\<rparr>\<rparr>"
  let ?xs = "outbox (db s)"
  have up: "updateFirst ?p ?f ?xs = map (\<lambda>x. if o_id x = o_id e then ?f e else x) ?xs"
    by (rule updateFirst_key [OF d e]) (use due in auto)
  have claim: "markProcessing (o_id e) s = (Inr (Some (?f e)), ?s1)"
    using find_key [OF d e, of ?p] nf due by (simp add: markProcessing_def)
  have xs1: "outbox (db ?s1) = map (\<lambda>x. if o_id x = o_id e then ?f e else x) ?xs"
    by (simp add: up)
  have d1: "distinct (map o_id (outbox (db ?s1)))"
    using d by (simp add: map_updateFirst)
  have e1: "?f e \<in> set (outbox (db ?s1))"
    unfolding xs1 set_map by (rule rev_image_eqI [OF e]) simp
  let ?q = "\<lambda>x. o_id x = o_id e \<and> o_status x = OProcessing"
  have fq: "List.find ?q (outbox (db ?s1)) = Some (?f e)"
    by (rule find_key [OF d1 e1]) auto
  have fi: "List.find (\<lambda>x. o_id x = o_id e) (outbox (db ?s1)) = Some (?f e)"
    by (rule find_key [OF d1 e1]) auto
  have uq: "updateFirst ?q g (outbox (db ?s1)) = map (\<lambda>x. if o_id x = o_id e then g (?f e) else x) ?xs" for g
  proof -
    have "updateFirst ?q g (outbox (db ?s1))
        = map (\<lambda>x. if o_id x = o_id (?f e) then g (?f e) else x) (outbox (db ?s1))"
      by (rule updateFirst_key [OF d1 e1]) auto
    then show ?thesis
      unfolding xs1 by (auto simp: comp_def)
  qed
  show ?thesis
  proof (cases "getQueue (o_eventType e)")
    case (Some q)
    show ?thesis
      using nf claim fq Some uq
      by (simp add: dispatchEvent_def bnd_run tryCatch_run enqueueEvent_def andThen_run queueAdd_def
          markCompleted_def afterEvent_def settled_def enqueued_def jobOf_def)
  next
    case None
    show ?thesis
      using nf claim fq fi None uq
      by (simp add: dispatchEvent_def bnd_run tryCatch_run enqueueEvent_def andThen_run
          failEvent_def markFailed_def afterEvent_def settled_def enqueued_def)
  qed
qed

section \<open>A whole run\<close>

lemma settled_id [simp]: "o_id (settled t e) = o_id e"
  by (simp add: settled_def split: option.splits)

lemma settled_createdAt [simp]: "o_createdAt (settled t e) = o_createdAt e"
  by (simp add: settled_def split: option.splits)

lemma afterEvent_sel [simp]:
  "faults (afterEvent e s) = faults s" "now (afterEvent e s) = now s"
  "outbox (db (afterEvent e s)) = map (\<lambda>x. if o_id x = o_id e then settled (now s) e else x) (outbox (db s))"
  "queues (afterEvent e s) = enqueued e (queues s)"
  by (simp_all add: afterEvent_def)

lemma dispatch_list:
  assumes "faults s = []" and "distinct (map o_id (outbox (db s)))"
    and "distinct (map o_id es)"
    and "\<And>e. e \<in> set es \<Longrightarrow> e \<in> set (outbox (db s)) \<and> (o_status e = OPending \<or> o_status e = OFailed)"
  shows "fst (forEach es dispatchEvent s) = Inr () \<and>
    outbox (db (snd (forEach es dispatchEvent s))) =
      map (\<lambda>x. if x \<in> set es then settled (now s) x else x) (outbox (db s)) \<and>
    queues (snd (forEach es dispatchEvent s)) = fold enqueued es (queues s) \<and>
    faults (snd (forEach es dispatchEvent s)) = [] \<and> now (snd (forEach es dispatchEvent s)) = now s"
  using assms
proof (induction es arbitrary: s)
  case Nil
  then show ?case by simp
next
  case (Cons e es)
  let ?s = "afterEvent e s"
  have run: "dispatchEvent e s = (Inr (), ?s)"
    using Cons.prems by (intro dispatchEvent_run) auto
  have ids: "o_id x = o_id e \<longleftrightarrow> x = e" if "x \<in> set (outbox (db s))" for x
    using that Cons.prems(2,4) distinct_key_eq by (metis list.set_intros(1))
  have xs: "outbox (db ?s) = map (\<lambda>x. if x = e then settled (now s) e else x) (outbox (db s))"
    using ids by simp
  have d: "distinct (map o_id (outbox (db ?s)))"
  proof -
    have "map o_id (outbox (db ?s)) = map o_id (outbox (db s))"
      unfolding xs by simp
    then show ?thesis using Cons.prems(2) by (simp only:)
  qed
  have mem: "y \<in> set (outbox (db ?s))" if "y \<in> set es" for y
  proof -
    have "y \<noteq> e" and "y \<in> set (outbox (db s))"
      using that Cons.prems(3,4) by auto
    then show ?thesis unfolding xs by (auto intro: rev_image_eqI)
  qed
  have "e \<notin> set es"
    using Cons.prems(3) by auto
  moreover have "settled (now s) e \<notin> set es"
    using Cons.prems(3) by (auto dest: imageI [of _ _ o_id])
  ultimately have "map (\<lambda>x. if x \<in> set es then settled (now s) x else x) (outbox (db ?s))
      = map (\<lambda>x. if x \<in> set (e # es) then settled (now s) x else x) (outbox (db s))"
    unfolding xs by auto
  then have rest: "map (\<lambda>x. if x \<in> set es then settled (now ?s) x else x) (outbox (db ?s))
      = map (\<lambda>x. if x \<in> set (e # es) then settled (now s) x else x) (outbox (db s))"
    by (simp only: afterEvent_sel(2))
  have "faults ?s = []" and "distinct (map o_id es)"
    using Cons.prems(1,3) by simp_all
  moreover have "y \<in> set (outbox (db ?s)) \<and> (o_status y = OPending \<or> o_status y = OFailed)"
    if "y \<in> set es" for y
    using mem [OF that] that Cons.prems(4) by (simp only: list.set_intros(2) simp_thms)
  ultimately have "fst (forEach es dispatchEvent ?s) = Inr () \<and>
    outbox (db (snd (forEach es dispatchEvent ?s))) =
      map (\<lambda>x. if x \<in> set es then settled (now ?s) x else x) (outbox (db ?s)) \<and>
    queues (snd (forEach es dispatchEvent ?s)) = fold enqueued es (queues ?s) \<and>
    faults (snd (forEach es dispatchEvent ?s)) = [] \<and> now (snd (forEach es dispatchEvent ?s)) = now ?s"
    by (intro Cons.IH d)
  then show ?case
    unfolding rest by (simp add: andThen_run run)
qed

lemma dispatchPending_run:
  assumes "faults s = []" and "distinct (map o_id (outbox (db s)))"
  shows "fst (dispatchPending limit s) = Inr () \<and>
    outbox (db (snd (dispatchPending limit s))) =
      map (\<lambda>e. if e \<in> set (pendingAt limit s) then settled (now s) e else e) (outbox (db s)) \<and>
    queues (snd (dispatchPending limit s)) = fold enqueued (pendingAt limit s) (queues s) \<and>
    faults (snd (dispatchPending limit s)) = [] \<and> now (snd (dispatchPending limit s)) = now s"
proof -
  have run: "dispatchPending limit s = forEach (pendingAt limit s) dispatchEvent s"
    using assms(1) by (simp add: dispatchPending_def bnd_run findPending_def pendingAt_def)
  have "e \<in> set (outbox (db s)) \<and> (o_status e = OPending \<or> o_status e = OFailed)"
    if "e \<in> set (pendingAt limit s)" for e
    using pendingAt_due [OF that] by (simp add: duePending_def)
  from dispatch_list [OF assms distinct_pendingAt [OF assms(2)] this]
  show ?thesis by (simp add: run)
qed

text \<open>
  C13: Without failures, one run of the dispatcher settles exactly the events that
  \<open>findPending\<close> picked (the due ones, oldest first, at most \<open>limit\<close>): each known event is
  COMPLETED and its job is in the queue of its type, each unknown one is FAILED with its
  error and back-off, every other event is untouched.
\<close>

theorem dispatchPending_refines:
  assumes "faults s = []" and "distinct (map o_id (outbox (db s)))"
  shows "fst (dispatchPending limit s) = Inr () \<and>
    outbox (db (snd (dispatchPending limit s))) =
      map (\<lambda>e. if e \<in> set (pendingAt limit s) then settled (now s) e else e) (outbox (db s)) \<and>
    queues (snd (dispatchPending limit s)) = fold enqueued (pendingAt limit s) (queues s)"
  using dispatchPending_run [OF assms] by simp

text \<open>The concrete outbox the theorems are applied to: one known event and one unknown one.\<close>

definition demoEvent :: "oid \<Rightarrow> string \<Rightarrow> outboxDoc" where
  "demoEvent i ty = \<lparr>o_id = i, o_eventType = ty, o_aggregateType = ''TASK'', o_aggregateId = 7,
     o_workspaceId = Some 3, o_correlationId = None, o_payload = [], o_status = OPending,
     o_attempts = 0, o_availableAt = None, o_processedAt = None, o_lastError = None,
     o_createdAt = 10\<rparr>"

definition demoOutbox :: world where
  "demoOutbox = world0\<lparr>db := emptyDb\<lparr>outbox :=
     [demoEvent 1 ''TASK_CREATED'', demoEvent 2 ''NO_SUCH_EVENT'']\<rparr>\<rparr>"

theorem dispatchPending_refines_witness:
  "map o_status (outbox (db (snd (dispatchPending 50 demoOutbox)))) = [OCompleted, OFailed] \<and>
   map j_id (queues (snd (dispatchPending 50 demoOutbox)) QWebhook) = [1]"
  using dispatchPending_refines [of demoOutbox 50]
  by (simp add: demoOutbox_def demoEvent_def pendingAt_def duePending_def settled_def getQueue_def
      enqueued_def jobOf_def)

section \<open>Under failures\<close>

text \<open>
  Whatever call fails during a run, the outbox keeps every event in its place with its
  identity and content, the attempts only grow, and a COMPLETED event changes no more.
\<close>

theorem dispatchPending_lifecycle:
  "list_all2 eventOrder (outbox (db s)) (outbox (db (snd (dispatchPending limit s))))"
  using stays_snd [OF stays_dispatchPending, of s limit] by (simp add: outboxOrder_def)

text \<open>The jobs of a queue have distinct ids, and no job is taken out.\<close>

definition queueOrder :: "world \<Rightarrow> world \<Rightarrow> bool" where
  "queueOrder s t \<longleftrightarrow> (\<forall>q. \<exists>js. queues t q = queues s q @ js \<and>
     (distinct (map j_id (queues s q)) \<longrightarrow> distinct (map j_id (queues t q))))"

interpretation queueOrder: step_order queueOrder
proof unfold_locales
  show "queueOrder s s" for s
    by (auto simp: queueOrder_def)
  show "queueOrder s u" if st: "queueOrder s t" and tu: "queueOrder t u" for s t u
    unfolding queueOrder_def
  proof
    fix q
    from st obtain js where 1: "queues t q = queues s q @ js"
      and d1: "distinct (map j_id (queues s q)) \<Longrightarrow> distinct (map j_id (queues t q))"
      unfolding queueOrder_def by blast
    from tu obtain ks where 2: "queues u q = queues t q @ ks"
      and d2: "distinct (map j_id (queues t q)) \<Longrightarrow> distinct (map j_id (queues u q))"
      unfolding queueOrder_def by blast
    from 1 2 have "queues u q = queues s q @ (js @ ks)" by simp
    with d1 d2 show "\<exists>js. queues u q = queues s q @ js \<and>
        (distinct (map j_id (queues s q)) \<longrightarrow> distinct (map j_id (queues u q)))"
      by blast
  qed
qed

lemma queueOrder_same: "queues t = queues s \<Longrightarrow> queueOrder s t"
  by (simp add: queueOrder_def)

lemma queueOrder_update:
  "stays queueOrder (findOneAndUpdate get upd p f)"
  by (rule staysI)
    (auto intro: queueOrder_same simp: findOneAndUpdate_def io_run split: list.splits option.splits)

lemma queueOrder_query: "stays queueOrder (query f)"
  by (rule stays_query) (auto intro: queueOrder_same)

lemma queueOrder_add: "stays queueOrder (queueAdd q j)"
  unfolding queueAdd_def
  by (rule stays_io) (auto simp: queueOrder_def)

lemmas queue_stays =
  queueOrder.stays_rules queueOrder_update queueOrder_query queueOrder_add

lemma queueOrder_dispatchPending: "stays queueOrder (dispatchPending limit)"
  unfolding dispatchPending_def findPending_def dispatchEvent_def enqueueEvent_def failEvent_def
    markProcessing_def markCompleted_def markFailed_def findOne_def
  by (intro queue_stays)



section \<open>Back-off\<close>

text \<open>
  The back-off before a failed event is due again is between one and thirty seconds,
  never shrinks from one attempt to the next, and is capped from the fifth on.
\<close>

theorem retryDelay_bounds:
  "1000 \<le> retryDelay a \<and> retryDelay a \<le> 30000 \<and> retryDelay a \<le> retryDelay (a + b) \<and>
   retryDelay (a + 5) = 30000"
proof -
  have one: "(1::int) \<le> 2 ^ n" for n :: nat
    by simp
  have mono: "(2::int) ^ a \<le> 2 ^ (a + b)"
    by (rule power_increasing) auto
  have "(32::int) \<le> 2 ^ (a + 5)"
    using one [of a] by (simp add: power_add)
  then show ?thesis
    using one [of a] mono unfolding retryDelay_def by linarith
qed

section \<open>Events that never rest, events that never move\<close>

lemma pendingAt_all:
  assumes "length (outbox (db s)) \<le> limit"
  shows "set (pendingAt limit s) = set (filter (duePending (now s)) (outbox (db s)))"
proof -
  have "length (filter (duePending (now s)) (outbox (db s))) \<le> limit"
    using length_filter_le order_trans assms by blast
  then show ?thesis by (simp add: pendingAt_def)
qed

text \<open>The dispatcher's cron, \<open>n\<close> times.\<close>

fun ticks :: "nat \<Rightarrow> nat \<Rightarrow> world \<Rightarrow> world" where
  "ticks limit 0 s = s"
| "ticks limit (Suc n) s = ticks limit n (snd (dispatchPending limit s))"

lemma exhausted_settled:
  assumes "getQueue (o_eventType e) = None" and "maxAttempts \<le> o_attempts e + 1"
  shows "o_attempts (settled t e) = o_attempts e + 1" and "duePending u (settled t e)"
    and "o_eventType (settled t e) = o_eventType e"
  using assms by (simp_all add: settled_def duePending_def)

lemma exhausted_ticks:
  assumes "faults s = []" and "distinct (map o_id (outbox (db s)))"
    and "length (outbox (db s)) \<le> limit" and "e \<in> set (outbox (db s))"
    and "getQueue (o_eventType e) = None" and "duePending (now s) e" and "maxAttempts \<le> o_attempts e + 1"
  shows "\<exists>x\<in>set (outbox (db (ticks limit n s))). o_id x = o_id e \<and> o_attempts x = o_attempts e + n"
  using assms
proof (induction n arbitrary: s e)
  case 0
  then show ?case by auto
next
  case (Suc n)
  let ?t = "snd (dispatchPending limit s)" and ?e = "settled (now s) e"
  note run = dispatchPending_run [OF Suc.prems(1,2), of limit]
  have "e \<in> set (pendingAt limit s)"
    using Suc.prems(4,6) pendingAt_all [OF Suc.prems(3)] by simp
  then have mem: "?e \<in> set (outbox (db ?t))"
    using run Suc.prems(4) by (auto intro: rev_image_eqI)
  have "map o_id (outbox (db ?t)) = map o_id (outbox (db s))"
    using run by simp
  then have d: "distinct (map o_id (outbox (db ?t)))" and len: "length (outbox (db ?t)) \<le> limit"
    using Suc.prems(2,3) by (simp_all only: length_map [where f = o_id, symmetric])
  note ex = exhausted_settled [OF Suc.prems(5,7), of "now s"]
  have "\<exists>x\<in>set (outbox (db (ticks limit n ?t))). o_id x = o_id ?e \<and> o_attempts x = o_attempts ?e + n"
    by (rule Suc.IH) (use run d len mem ex Suc.prems(5,7) in auto)
  then show ?case
    using ex(1) by auto
qed

text \<open>
  An event that no queue takes is retried without end: once its five attempts are used
  up, \<open>markFailed\<close> removes its availability, so every later run of the dispatcher claims it
  again and its attempts grow with each of them.
\<close>

theorem exhausted_event_retried_forever:
  assumes "faults s = []" and "distinct (map o_id (outbox (db s)))"
    and "length (outbox (db s)) \<le> limit" and "e \<in> set (outbox (db s))"
    and "getQueue (o_eventType e) = None" and "duePending (now s) e" and "maxAttempts \<le> o_attempts e + 1"
  shows "\<exists>x\<in>set (outbox (db (ticks limit n s))). o_id x = o_id e \<and> o_attempts x = o_attempts e + n"
  using assms by (rule exhausted_ticks)

theorem exhausted_event_retried_forever_witness:
  "\<exists>x\<in>set (outbox (db (ticks 50 1000 (world0\<lparr>db := emptyDb\<lparr>outbox :=
      [(demoEvent 2 ''NO_SUCH_EVENT'')\<lparr>o_status := OFailed, o_attempts := 5\<rparr>]\<rparr>\<rparr>)))).
     o_id x = 2 \<and> o_attempts x = 1005"
  using exhausted_event_retried_forever [of "world0\<lparr>db := emptyDb\<lparr>outbox :=
      [(demoEvent 2 ''NO_SUCH_EVENT'')\<lparr>o_status := OFailed, o_attempts := 5\<rparr>]\<rparr>\<rparr>" 50
    "(demoEvent 2 ''NO_SUCH_EVENT'')\<lparr>o_status := OFailed, o_attempts := 5\<rparr>" 1000]
  by (simp add: demoEvent_def getQueue_def duePending_def maxAttempts_def)

text \<open>The events with one id are left alone by calls that name another.\<close>

definition keepsId :: "oid \<Rightarrow> world \<Rightarrow> world \<Rightarrow> bool" where
  "keepsId i s t \<longleftrightarrow> (\<forall>x\<in>set (outbox (db s)). o_id x = i \<longrightarrow> x \<in> set (outbox (db t)))"

interpretation keepsId: step_order "keepsId i" for i
  by unfold_locales (auto simp: keepsId_def)

lemma keepsId_update:
  assumes "\<And>e. p e \<Longrightarrow> o_id e \<noteq> i"
  shows "stays (keepsId i) (findOneAndUpdate outbox outbox_update p f)"
  by (rule staysI)
    (auto simp: keepsId_def findOneAndUpdate_def io_run split: list.splits option.splits
      intro!: updateFirst_keeps dest: assms)

lemma keepsId_query: "stays (keepsId i) (query f)"
  by (rule stays_query) (auto simp: keepsId_def)

lemma keepsId_add: "stays (keepsId i) (queueAdd q j)"
  unfolding queueAdd_def by (rule stays_io) (auto simp: keepsId_def)

lemma keepsId_dispatchEvent: "o_id e \<noteq> i \<Longrightarrow> stays (keepsId i) (dispatchEvent e)"
  unfolding dispatchEvent_def enqueueEvent_def failEvent_def markProcessing_def markCompleted_def
    markFailed_def findOne_def
  by (intro keepsId.stays_rules keepsId_update keepsId_query keepsId_add) auto

text \<open>
  An event left in PROCESSING (the process died, or both \<open>markCompleted\<close> and
  \<open>markFailed\<close> were rejected) is stuck: no run of the dispatcher, with or without failures,
  ever picks it up or changes it.
\<close>

theorem processing_event_stuck:
  assumes "distinct (map o_id (outbox (db s)))"
    and "e \<in> set (outbox (db s))" and "o_status e = OProcessing"
  shows "e \<in> set (outbox (db (snd (dispatchPending limit s))))"
proof -
  have other: "o_id x \<noteq> o_id e" if "x \<in> set (pendingAt limit s)" for x
    using pendingAt_due [OF that] assms distinct_key_eq by (fastforce simp: duePending_def)
  have each: "keepsId (o_id e) u (snd (forEach (pendingAt limit s) dispatchEvent u))" for u
    by (rule stays_snd, rule keepsId.stays_forEach, rule keepsId_dispatchEvent, rule other)
  have same: "take limit (sort_key o_createdAt (filter (duePending (now s)) (outbox (db s)))) = pendingAt limit s"
    by (simp add: pendingAt_def)
  have "keepsId (o_id e) s (snd (dispatchPending limit s))"
  proof (cases "faults s")
    case Nil
    then show ?thesis
      using each [of s] by (simp add: dispatchPending_def bnd_run findPending_def same)
  next
    case (Cons f fs)
    show ?thesis
    proof (cases f)
      case None
      with Cons have "dispatchPending limit s = forEach (pendingAt limit s) dispatchEvent (s\<lparr>faults := fs\<rparr>)"
        by (simp add: dispatchPending_def bnd_run findPending_def io_run same)
      with each [of "s\<lparr>faults := fs\<rparr>"] show ?thesis by (simp only: keepsId_def) simp
    next
      case (Some msg)
      with Cons have "snd (dispatchPending limit s) = s\<lparr>faults := fs\<rparr>"
        by (simp add: dispatchPending_def bnd_run findPending_def io_run)
      then show ?thesis by (simp add: keepsId_def)
    qed
  qed
  with assms(2) show ?thesis by (auto simp: keepsId_def)
qed

definition demoStuck :: world where
  "demoStuck = world0\<lparr>db := emptyDb\<lparr>outbox :=
     [(demoEvent 1 ''TASK_CREATED'')\<lparr>o_status := OProcessing, o_attempts := 1\<rparr>]\<rparr>\<rparr>"

theorem processing_event_stuck_witness:
  "(demoEvent 1 ''TASK_CREATED'')\<lparr>o_status := OProcessing, o_attempts := 1\<rparr>
     \<in> set (outbox (db (snd (dispatchPending 50 demoStuck))))"
  by (rule processing_event_stuck) (simp_all add: demoStuck_def)

section \<open>Several dispatchers at once\<close>

text \<open>
  Processes of the service run the dispatcher side by side. A worker is between two awaits
  of the loop body: it has claimed an event, has added its job, or is about to record a
  failure. A step is one worker performing its next call; which worker, on which event of
  its list, and with which failure, is open.
\<close>

datatype phase = Idle | Claimed outboxDoc | Added outboxDoc | Failing outboxDoc err

fun holds :: "phase \<Rightarrow> oid option" where
  "holds Idle = None"
| "holds (Claimed e) = Some (o_id e)"
| "holds (Added e) = Some (o_id e)"
| "holds (Failing e m) = Some (o_id e)"

inductive dispStep :: "world \<times> (nat \<Rightarrow> phase) \<Rightarrow> world \<times> (nat \<Rightarrow> phase) \<Rightarrow> bool" where
  claim: "c w = Idle \<Longrightarrow> markProcessing (o_id e) s = (Inr (Some p), t) \<Longrightarrow>
     dispStep (s, c) (t, c(w := Claimed e))"
| claim_none: "c w = Idle \<Longrightarrow> markProcessing i s = (Inr None, t) \<Longrightarrow> dispStep (s, c) (t, c)"
| claim_rejected: "c w = Idle \<Longrightarrow> markProcessing i s = (Inl err, t) \<Longrightarrow> dispStep (s, c) (t, c)"
| add: "c w = Claimed e \<Longrightarrow> getQueue (o_eventType e) = Some q \<Longrightarrow> queueAdd q (jobOf e) s = (Inr x, t) \<Longrightarrow>
     dispStep (s, c) (t, c(w := Added e))"
| add_rejected: "c w = Claimed e \<Longrightarrow> getQueue (o_eventType e) = Some q \<Longrightarrow>
     queueAdd q (jobOf e) s = (Inl err, t) \<Longrightarrow> dispStep (s, c) (t, c(w := Failing e err))"
| no_queue: "c w = Claimed e \<Longrightarrow> getQueue (o_eventType e) = None \<Longrightarrow>
     dispStep (s, c) (s, c(w := Failing e (PlainError (''No queue configured for event type: '' @ o_eventType e))))"
| complete: "c w = Added e \<Longrightarrow> markCompleted (o_id e) s = (Inr x, t) \<Longrightarrow> dispStep (s, c) (t, c(w := Idle))"
| complete_rejected: "c w = Added e \<Longrightarrow> markCompleted (o_id e) s = (Inl err, t) \<Longrightarrow>
     dispStep (s, c) (t, c(w := Failing e err))"
| fail: "c w = Failing e m \<Longrightarrow> failEvent e m s = (r, t) \<Longrightarrow> dispStep (s, c) (t, c(w := Idle))"

inductive dispReach :: "world \<times> (nat \<Rightarrow> phase) \<Rightarrow> bool" where
  start: "distinct (map o_id (outbox (db s))) \<Longrightarrow> dispReach (s, \<lambda>_. Idle)"
| step: "dispReach a \<Longrightarrow> dispStep a b \<Longrightarrow> dispReach b"

definition inProcessing :: "world \<Rightarrow> oid \<Rightarrow> bool" where
  "inProcessing s i \<longleftrightarrow> (\<exists>x\<in>set (outbox (db s)). o_id x = i \<and> o_status x = OProcessing)"

definition claimInv :: "world \<times> (nat \<Rightarrow> phase) \<Rightarrow> bool" where
  "claimInv a \<longleftrightarrow> (case a of (s, c) \<Rightarrow> distinct (map o_id (outbox (db s))) \<and>
     (\<forall>w i. holds (c w) = Some i \<longrightarrow> inProcessing s i) \<and>
     (\<forall>w v i. holds (c w) = Some i \<longrightarrow> holds (c v) = Some i \<longrightarrow> w = v))"

text \<open>What a call on one event leaves: the ids, and the claims on every other event.\<close>

definition claimFrame :: "oid \<Rightarrow> world \<Rightarrow> world \<Rightarrow> bool" where
  "claimFrame i s t \<longleftrightarrow> map o_id (outbox (db t)) = map o_id (outbox (db s)) \<and>
     (\<forall>j. j \<noteq> i \<longrightarrow> inProcessing s j \<longrightarrow> inProcessing t j)"

interpretation claimFrame: step_order "claimFrame i" for i
  by unfold_locales (auto simp: claimFrame_def)

lemma claimFrame_update:
  assumes "\<And>e. p e \<Longrightarrow> o_id e = i" and "\<And>e. o_id (f e) = o_id e"
  shows "stays (claimFrame i) (findOneAndUpdate outbox outbox_update p f)"
proof (rule staysI)
  have frame: "claimFrame i u (u\<lparr>faults := fs, db := (db u)\<lparr>outbox := updateFirst p f (outbox (db u))\<rparr>\<rparr>)" for u fs
  proof -
    have "\<exists>x\<in>set (updateFirst p f (outbox (db u))). o_id x = j \<and> o_status x = OProcessing"
      if "j \<noteq> i" and "x \<in> set (outbox (db u))" and "o_id x = j" and "o_status x = OProcessing" for j x
      using that assms(1) updateFirst_keeps [of x "outbox (db u)" p f] by blast
    then show ?thesis
      by (auto simp: claimFrame_def inProcessing_def map_updateFirst assms(2))
  qed
  have same: "claimFrame i u (u\<lparr>faults := fs\<rparr>)" for u fs
    by (auto simp: claimFrame_def inProcessing_def)
  show "claimFrame i s (snd (findOneAndUpdate outbox outbox_update p f s))" for s
    using frame [of s "faults s"] frame [of s "tl (faults s)"] same [of s "tl (faults s)"] claimFrame.refl [of i s]
    by (auto simp: findOneAndUpdate_def io_run split: list.splits option.splits)
qed

lemma claimFrame_query: "stays (claimFrame i) (query f)"
  by (rule stays_query) (auto simp: claimFrame_def inProcessing_def)

lemma claimFrame_add: "stays (claimFrame i) (queueAdd q j)"
  unfolding queueAdd_def by (rule stays_io) (auto simp: claimFrame_def inProcessing_def)

lemmas claim_stays = claimFrame.stays_rules claimFrame_update claimFrame_query claimFrame_add

lemma claimFrame_calls:
  "stays (claimFrame i) (markProcessing i)" "stays (claimFrame i) (markCompleted i)"
  "stays (claimFrame i) (markFailed i m a)"
  unfolding markProcessing_def markCompleted_def markFailed_def findOne_def
  by (intro claim_stays; simp)+

lemma claimFrame_failEvent: "o_id e = i \<Longrightarrow> stays (claimFrame i) (failEvent e m)"
  unfolding failEvent_def by (intro claim_stays) (auto intro: claimFrame_calls)

text \<open>A worker that gives its event up.\<close>

lemma claimInv_release:
  assumes "claimInv (s, c)" and "holds (c w) = Some i" and "claimFrame i s t" and "holds ph = None"
  shows "claimInv (t, c(w := ph))"
  using assms unfolding claimInv_def claimFrame_def by (fastforce split: if_splits)

text \<open>A worker that keeps its event, by a call that changes no event.\<close>

lemma claimInv_keep:
  assumes "claimInv (s, c)" and "holds (c w) = holds ph" and "outbox (db t) = outbox (db s)"
  shows "claimInv (t, c(w := ph))"
  using assms unfolding claimInv_def inProcessing_def by (auto split: if_splits)

lemma markProcessing_claims:
  assumes "markProcessing i s = (Inr (Some p), t)" and "distinct (map o_id (outbox (db s)))"
  shows "\<not> inProcessing s i" and "inProcessing t i"
proof -
  let ?q = "\<lambda>e. o_id e = i \<and> (o_status e = OPending \<or> o_status e = OFailed)"
  let ?f = "\<lambda>e. e\<lparr>o_status := OProcessing, o_attempts := o_attempts e + 1\<rparr>"
  from outboxC.findOneAndUpdate_ok [OF assms(1) [unfolded markProcessing_def]]
  obtain d where d: "List.find ?q (outbox (db s)) = Some d"
    and t: "outbox (db t) = updateFirst ?q ?f (outbox (db s))"
    by (auto split: option.splits)
  from find_SomeD [OF d] have ds: "d \<in> set (outbox (db s))" "?q d" by blast+
  show "\<not> inProcessing s i"
    using ds assms(2) distinct_key_eq [of o_id "outbox (db s)"] by (fastforce simp: inProcessing_def)
  have "outbox (db t) = map (\<lambda>x. if o_id x = o_id d then ?f d else x) (outbox (db s))"
    unfolding t by (rule updateFirst_key [OF assms(2) ds(1)]) (use ds in auto)
  then have "?f d \<in> set (outbox (db t))"
    using ds(1) by (auto intro: rev_image_eqI)
  with ds(2) show "inProcessing t i"
    unfolding inProcessing_def by (intro bexI [of _ "?f d"]) simp_all
qed

lemma claimInv_claim:
  assumes inv: "claimInv (s, c)" and "markProcessing (o_id e) s = (Inr (Some p), t)"
  shows "claimInv (t, c(w := Claimed e))"
proof -
  from inv have d: "distinct (map o_id (outbox (db s)))" by (simp add: claimInv_def)
  note cl = markProcessing_claims [OF assms(2) d]
  have "claimFrame (o_id e) s t"
    using assms(2) by (rule staysD [OF claimFrame_calls(1)])
  with inv cl show ?thesis
    unfolding claimInv_def claimFrame_def by (auto split: if_splits) metis
qed

lemma claimInv_same:
  assumes "claimInv (s, c)" and "outbox (db t) = outbox (db s)"
  shows "claimInv (t, c)"
  using assms unfolding claimInv_def inProcessing_def by simp

lemma markProcessing_nothing:
  assumes "markProcessing i s = (r, t)" and "\<And>p. r \<noteq> Inr (Some p)"
  shows "outbox (db t) = outbox (db s)"
  using assms
  by (auto simp: markProcessing_def findOneAndUpdate_def io_run split: list.splits option.splits)

lemma markCompleted_rejected: "markCompleted i s = (Inl e, t) \<Longrightarrow> outbox (db t) = outbox (db s)"
  by (auto simp: markCompleted_def findOneAndUpdate_def io_run bnd_run split: list.splits option.splits)

lemma queueAdd_outbox: "queueAdd q j s = (r, t) \<Longrightarrow> outbox (db t) = outbox (db s)"
  by (auto simp: queueAdd_def io_run split: list.splits option.splits)

lemma dispStep_inv: "dispStep a b \<Longrightarrow> claimInv a \<Longrightarrow> claimInv b"
proof (induction rule: dispStep.induct)
  case (claim c w e s p t)
  then show ?case by (simp add: claimInv_claim)
next
  case (claim_none c w i s t)
  then show ?case by (auto intro: claimInv_same markProcessing_nothing)
next
  case (claim_rejected c w i s err t)
  then show ?case by (auto intro: claimInv_same markProcessing_nothing)
next
  case (add c w e q s x t)
  then show ?case by (auto intro!: claimInv_keep dest: queueAdd_outbox)
next
  case (add_rejected c w e q s err t)
  then show ?case by (auto intro!: claimInv_keep dest: queueAdd_outbox)
next
  case (no_queue c w e s)
  then show ?case by (auto intro!: claimInv_keep)
next
  case (complete c w e s x t)
  then have "claimFrame (o_id e) s t" by (blast intro: staysD claimFrame_calls)
  with complete show ?case by (auto intro: claimInv_release)
next
  case (complete_rejected c w e s err t)
  then show ?case by (auto intro!: claimInv_keep dest: markCompleted_rejected)
next
  case (fail c w e m s r t)
  then have "claimFrame (o_id e) s t" by (blast intro: staysD claimFrame_failEvent)
  with fail show ?case by (auto intro: claimInv_release)
qed

lemma dispReach_inv: "dispReach a \<Longrightarrow> claimInv a"
proof (induction rule: dispReach.induct)
  case (start s)
  then show ?case by (simp add: claimInv_def)
next
  case (step a b)
  then show ?case by (blast intro: dispStep_inv)
qed

text \<open>
  C14: However many dispatchers run at once and whatever fails, an event is held by at most
  one of them at a time, and it is PROCESSING in the database while it is held.
\<close>

theorem dispatch_claim_exclusive:
  assumes "dispReach (s, c)" and "holds (c w) = Some i" and "holds (c v) = Some i"
  shows "w = v \<and> inProcessing s i"
  using dispReach_inv [OF assms(1)] assms(2,3) unfolding claimInv_def by blast

theorem dispatch_claim_exclusive_witness:
  "\<exists>t. dispReach (t, (\<lambda>_. Idle)(4 := Claimed (demoEvent 1 ''TASK_CREATED''))) \<and> inProcessing t 1"
proof -
  let ?e = "demoEvent 1 ''TASK_CREATED''" and ?c = "(\<lambda>_. Idle)(4 := Claimed (demoEvent 1 ''TASK_CREATED''))"
  obtain p t where run: "markProcessing (o_id ?e) demoOutbox = (Inr (Some p), t)"
    by (simp add: markProcessing_def demoOutbox_def demoEvent_def)
  have "dispReach (demoOutbox, \<lambda>_. Idle)"
    by (rule dispReach.start) (simp add: demoOutbox_def demoEvent_def)
  then have r: "dispReach (t, ?c)"
    by (rule dispReach.step) (rule dispStep.claim [OF refl run])
  moreover have "holds (?c 4) = Some 1"
    by (simp add: demoEvent_def)
  ultimately show ?thesis
    using dispatch_claim_exclusive [of t ?c 4 1 4] by blast
qed

end
