(* ===== verification/CacheAside.thy ===== *)
theory CacheAside
  imports Store
begin

text \<open>
  The repositories read through a cache: look the key up, load from the database on a miss,
  store what was loaded, remember the key; a write deletes every remembered key. The locale
  \<open>cache_aside\<close> states what a cached read relies on and proves that, while the cache is
  coherent, such a read answers what the database would.
\<close>

section \<open>Reading through the cache and clearing it\<close>

definition addKey :: "cacheKey \<Rightarrow> cacheKey list \<Rightarrow> cacheKey list" where
  "addKey k ks = (if k \<in> set ks then ks else ks @ [k])"

text \<open>
  \<open>unpack\<close> reads a cached value, \<open>pack\<close> builds the value to store (\<open>None\<close> when the code
  does not cache what it found), \<open>remember\<close> adds the key to the repository's set.
\<close>

definition readThrough ::
  "cacheKey \<Rightarrow> (cacheVal \<Rightarrow> 'a option) \<Rightarrow> ('a \<Rightarrow> cacheVal option) \<Rightarrow> time \<Rightarrow>
   (world \<Rightarrow> world) \<Rightarrow> 'a wprog \<Rightarrow> 'a wprog" where
  "readThrough k unpack pack ttl remember load =
     bnd (cacheGet k) (\<lambda>cached. case Option.bind cached unpack of
       Some x \<Rightarrow> ret x
     | None \<Rightarrow> bnd load (\<lambda>x. case pack x of
           None \<Rightarrow> ret x
         | Some v \<Rightarrow> andThen (cacheSet k v ttl) (andThen (modify remember) (ret x))))"

text \<open>\<open>for (const key of keys) await cacheManager.del(key); keys.clear();\<close>\<close>

definition clearKeys ::
  "(world \<Rightarrow> cacheKey list) \<Rightarrow> ((cacheKey list \<Rightarrow> cacheKey list) \<Rightarrow> world \<Rightarrow> world) \<Rightarrow> unit wprog" where
  "clearKeys keys upd = bnd (gets keys) (\<lambda>ks. andThen (forEach ks cacheDel) (modify (upd (\<lambda>_. []))))"

section \<open>What the calls leave\<close>

text \<open>The cache calls change neither the database nor the clock, only the cache, the remembered keys and the schedule of failures.\<close>

definition sameDb :: "world \<Rightarrow> world \<Rightarrow> bool" where
  "sameDb s t \<longleftrightarrow> db t = db s \<and> now t = now s"

interpretation sameDb: step_order sameDb
  by unfold_locales (simp_all add: sameDb_def)

lemma sameDb_io:
  assumes "\<And>s. db (snd (m s)) = db s \<and> now (snd (m s)) = now s"
  shows "stays sameDb (io m)"
  by (rule staysI) (simp add: sameDb_def io_run assms split: list.splits option.splits)

lemma sameDb_cacheGet: "stays sameDb (cacheGet k)"
  unfolding cacheGet_def by (rule sameDb_io) simp

lemma sameDb_cacheSet: "stays sameDb (cacheSet k v ttl)"
  unfolding cacheSet_def by (rule sameDb_io) simp

lemma sameDb_cacheDel: "stays sameDb (cacheDel k)"
  unfolding cacheDel_def by (rule sameDb_io) simp

lemma sameDb_query: "stays sameDb (query f)"
  by (rule sameDb_io) simp

lemma sameDb_modify: "(\<And>s. db (f s) = db s \<and> now (f s) = now s) \<Longrightarrow> stays sameDb (modify f)"
  by (rule staysI) (simp add: sameDb_def)

lemma sameDb_readThrough:
  assumes "stays sameDb load" and "\<And>s. db (remember s) = db s \<and> now (remember s) = now s"
  shows "stays sameDb (readThrough k unpack pack ttl remember load)"
  unfolding readThrough_def
  by (intro sameDb.stays_rules sameDb_cacheGet sameDb_cacheSet sameDb_modify assms)

lemma sameDb_clearKeys:
  assumes "\<And>s f. db (upd f s) = db s \<and> now (upd f s) = now s"
  shows "stays sameDb (clearKeys keys upd)"
  unfolding clearKeys_def
  by (intro sameDb.stays_rules sameDb_cacheDel sameDb_modify assms)

lemma sameDb_findOne: "stays sameDb (findOne get p)"
  unfolding findOne_def by (rule sameDb_query)

lemma sameDb_findDocs: "stays sameDb (findDocs get p)"
  unfolding findDocs_def by (rule sameDb_query)

lemma sameDb_freshId: "stays sameDb freshId"
  by (rule staysI) (simp add: sameDb_def)

lemmas sameDb_rules =
  sameDb.stays_rules sameDb_cacheGet sameDb_cacheSet sameDb_cacheDel sameDb_query
  sameDb_findOne sameDb_findDocs sameDb_freshId sameDb_clearKeys sameDb_readThrough

lemma sameDbD: "stays sameDb m \<Longrightarrow> m s = (r, t) \<Longrightarrow> db t = db s \<and> now t = now s"
  by (drule (1) staysD) (simp add: sameDb_def)

section \<open>Runs without failures\<close>

lemma cacheGet_run [simp]: "faults s = [] \<Longrightarrow> cacheGet k s = (Inr (cacheLive s k), s)"
  by (simp add: cacheGet_def)

lemma cacheSet_run [simp]:
  "faults s = [] \<Longrightarrow> cacheSet k v ttl s = (Inr (), s\<lparr>cache := (cache s)(k := Some (v, now s + ttl))\<rparr>)"
  by (simp add: cacheSet_def)

lemma cacheDel_run [simp]:
  "faults s = [] \<Longrightarrow> cacheDel k s = (Inr (), s\<lparr>cache := (cache s)(k := None)\<rparr>)"
  by (simp add: cacheDel_def)

lemma forEach_cacheDel_run:
  "faults s = [] \<Longrightarrow>
   forEach ks cacheDel s = (Inr (), s\<lparr>cache := cache s |` (- set ks)\<rparr>)"
proof (induction ks arbitrary: s)
  case (Cons k ks)
  have "(cache s)(k := None) |` (- set ks) = cache s |` (- set (k # ks))"
    by (auto simp: restrict_map_def)
  then have "s\<lparr>cache := (cache s)(k := None) |` (- set ks)\<rparr> = s\<lparr>cache := cache s |` (- set (k # ks))\<rparr>"
    by (rule arg_cong)
  with Cons show ?case by (simp add: andThen_run del: fun_upd_apply restrict_fun_upd fun_upd_restrict)
next
  case Nil
  have "cache s |` (- set []) = cache s"
    by (auto simp: restrict_map_def)
  then show ?case by (simp del: set_simps)
qed

lemma clearKeys_run:
  "faults s = [] \<Longrightarrow> clearKeys keys upd s =
     (Inr (), upd (\<lambda>_. []) (s\<lparr>cache := cache s |` (- set (keys s))\<rparr>))"
  by (simp add: clearKeys_def andThen_run forEach_cacheDel_run)

text \<open>A read that missed: the value is the loaded one, only the entry of its key may have changed.\<close>

definition readState :: "cacheKey \<Rightarrow> world \<Rightarrow> world \<Rightarrow> bool" where
  "readState k s t \<longleftrightarrow> db t = db s \<and> now t = now s \<and> faults t = [] \<and>
     (\<forall>j. j \<noteq> k \<longrightarrow> cacheLive t j = cacheLive s j)"

lemma cacheLive_cong: "cache t k = cache s k \<Longrightarrow> now t = now s \<Longrightarrow> cacheLive t k = cacheLive s k"
  by (simp add: cacheLive_def split: option.splits)

lemma cacheLive_set:
  "cacheLive (s\<lparr>cache := (cache s)(k := Some (v, till))\<rparr>) j =
     (if j = k then if now s < till then Some v else None else cacheLive s j)"
  by (simp add: cacheLive_def split: option.splits)

lemma readThrough_miss:
  assumes "faults s = []" and "cacheLive s k = None" and "load s = (Inr x, s)"
    and "\<And>t. db (remember t) = db t \<and> now (remember t) = now t \<and> faults (remember t) = faults t \<and>
      cache (remember t) = cache t"
  shows "\<exists>t. readThrough k unpack pack ttl remember load s = (Inr x, t) \<and> readState k s t"
proof -
  have "cacheLive (remember t) j = cacheLive t j" for t j
    using assms(4) [of t] by (simp add: cacheLive_cong [of "remember t" j t])
  then show ?thesis
    using assms
    by (auto simp: readThrough_def bnd_run andThen_run readState_def cacheLive_set split: option.splits)
qed

section \<open>Coherence\<close>

text \<open>
  The contract between a repository's cached reads and its writes. A read of the argument
  \<open>a\<close> uses the key \<open>key a\<close>; \<open>answer a\<close> is what the database holds for it.
\<close>

definition coherent ::
  "('i \<Rightarrow> cacheKey) \<Rightarrow> (cacheVal \<Rightarrow> 'a option) \<Rightarrow> ('i \<Rightarrow> database \<Rightarrow> 'a) \<Rightarrow> world \<Rightarrow> bool" where
  "coherent key unpack answer s \<longleftrightarrow>
     (\<forall>a v x. cacheLive s (key a) = Some v \<longrightarrow> unpack v = Some x \<longrightarrow> x = answer a (db s))"

locale cache_aside =
  fixes key :: "'i \<Rightarrow> cacheKey"
    and unpack :: "cacheVal \<Rightarrow> 'a option"
    and pack :: "'a \<Rightarrow> cacheVal option"
    and answer :: "'i \<Rightarrow> database \<Rightarrow> 'a"
    and ttl :: time
    and remember :: "cacheKey \<Rightarrow> world \<Rightarrow> world"
    and load :: "'i \<Rightarrow> 'a wprog"
  assumes unpack_pack: "pack x = Some v \<Longrightarrow> unpack v = Some x"
    and key_inj: "key a = key b \<Longrightarrow> a = b"
    and remember_frame: "db (remember k s) = db s" "cache (remember k s) = cache s"
      "now (remember k s) = now s" "faults (remember k s) = faults s"
    and load_run: "faults s = [] \<Longrightarrow> load a s = (Inr (answer a (db s)), s)"
begin

lemma coherent_read:
  assumes "coherent key unpack answer s" and "faults s = []"
  shows "fst (readThrough (key a) unpack pack ttl (remember (key a)) (load a) s) = Inr (answer a (db s))"
  using assms
  by (auto simp: readThrough_def bnd_run load_run andThen_run coherent_def remember_frame
      split: option.splits bind_splits)

lemma coherent_after_read:
  assumes "coherent key unpack answer s" and "faults s = []"
  shows "coherent key unpack answer (snd (readThrough (key a) unpack pack ttl (remember (key a)) (load a) s))"
proof -
  have "coherent key unpack answer (s\<lparr>cache := (cache s)(key a \<mapsto> (v, now s + ttl))\<rparr>)"
    if "pack (answer a (db s)) = Some v" for v
    using assms(1) unpack_pack [OF that] that
    by (auto simp: coherent_def cacheLive_set dest: key_inj split: if_splits)
  moreover have "coherent key unpack answer (remember k t) \<longleftrightarrow> coherent key unpack answer t" for k t
    by (simp add: coherent_def remember_frame cacheLive_cong [of "remember k t" _ t])
  ultimately show ?thesis
    using assms
    by (auto simp: readThrough_def bnd_run load_run andThen_run split: option.splits)
qed

end

end
