(* ===== verification/External.thy ===== *)
theory External
  imports CacheAside
begin

text \<open>
  What the program calls and does not implement: hashes, HMAC, bcrypt, JSON web tokens,
  random bytes. They are the fields of the record \<open>ext\<close>, an argument of every definition
  that uses one; what the program relies on is stated as the named laws below. The mail
  service and the random draws of the code are built on them.
\<close>

section \<open>The functions\<close>

text \<open>The payload of a verified refresh token: \<open>payload.sub\<close>, \<open>payload.family\<close>, \<open>payload.jti\<close>.\<close>

record refreshPayload =
  rp_sub :: oid
  rp_family :: "string option"
  rp_jti :: "string option"

text \<open>
  \<open>randomHex n\<close> is the string of the \<open>n\<close>-th draw (\<open>randomBytes(32).toString('hex')\<close>,
  \<open>randomUUID()\<close>); bcrypt's salt is a draw too. Tokens carry the time they are signed at, and
  \<open>verifyRefresh\<close> reads the clock to reject an expired one.
\<close>

record ext =
  sha256 :: "string \<Rightarrow> string"
  hmac :: "string \<Rightarrow> string \<Rightarrow> string"
  randomHex :: "nat \<Rightarrow> string"
  bcryptHash :: "nat \<Rightarrow> string \<Rightarrow> string"
  bcryptCompare :: "string \<Rightarrow> string \<Rightarrow> bool"
  signAccess :: "oid \<Rightarrow> string \<Rightarrow> string \<Rightarrow> time \<Rightarrow> string"
  signRefresh :: "oid \<Rightarrow> string \<Rightarrow> string \<Rightarrow> time \<Rightarrow> string"
  verifyRefresh :: "string \<Rightarrow> time \<Rightarrow> refreshPayload option"

text \<open>Two draws never give the same string.\<close>

definition freshDraws :: "ext \<Rightarrow> bool" where
  "freshDraws x \<longleftrightarrow> inj (randomHex x)"

text \<open>bcrypt reads the first 72 bytes of its input.\<close>

definition bcryptLaw :: "ext \<Rightarrow> bool" where
  "bcryptLaw x \<longleftrightarrow> (\<forall>p salt q. bcryptCompare x p (bcryptHash x salt q) \<longleftrightarrow> take 72 p = take 72 q)"

text \<open>A refresh token signed at \<open>t\<close> gives back what was signed for \<open>life\<close> milliseconds.\<close>

definition refreshLaw :: "ext \<Rightarrow> time \<Rightarrow> bool" where
  "refreshLaw x life \<longleftrightarrow> (\<forall>sub fam jti t u. t \<le> u \<and> u < t + life \<longrightarrow>
     verifyRefresh x (signRefresh x sub fam jti t) u =
       Some \<lparr>rp_sub = sub, rp_family = Some fam, rp_jti = Some jti\<rparr>)"

section \<open>Random strings\<close>

definition randomString :: "ext \<Rightarrow> string wprog" where
  "randomString x = bnd freshId (\<lambda>n. ret (randomHex x n))"

lemma randomString_run [simp]:
  "randomString x s = (Inr (randomHex x (nextId s)), s\<lparr>nextId := Suc (nextId s)\<rparr>)"
  by (simp add: randomString_def bnd_run)

lemma sameDb_randomString: "stays sameDb (randomString x)"
  unfolding randomString_def by (intro sameDb_rules)

section \<open>MailService\<close>

text \<open>
  Each method formats one message, hands it to the mailer and passes its error on. A mail is
  the recipient and what the message says.
\<close>

definition sendMail :: "mail \<Rightarrow> unit wprog" where
  "sendMail m = io (modify (\<lambda>s. s\<lparr>mailbox := mailbox s @ [m]\<rparr>))"

definition sendReminderEmail :: "string \<Rightarrow> string \<Rightarrow> time option \<Rightarrow> string \<Rightarrow> unit wprog" where
  "sendReminderEmail to taskTitle dueDate priority =
     tryCatch (sendMail (ReminderMail to taskTitle dueDate priority)) throw"

definition sendWorkspaceInvitation :: "string \<Rightarrow> string \<Rightarrow> string \<Rightarrow> time option \<Rightarrow> unit wprog" where
  "sendWorkspaceInvitation to workspaceName token expiresAt =
     tryCatch (sendMail (InvitationMail to workspaceName token expiresAt)) throw"

definition sendVerificationEmail :: "string \<Rightarrow> string \<Rightarrow> time option \<Rightarrow> unit wprog" where
  "sendVerificationEmail to token expiresAt =
     tryCatch (sendMail (VerificationMail to token expiresAt)) throw"

definition sendPasswordResetEmail :: "string \<Rightarrow> string \<Rightarrow> time option \<Rightarrow> unit wprog" where
  "sendPasswordResetEmail to token expiresAt =
     tryCatch (sendMail (ResetMail to token expiresAt)) throw"

lemma sameDb_sendMail: "stays sameDb (sendMail m)"
  unfolding sendMail_def by (rule sameDb_io) simp

section \<open>An instance\<close>

text \<open>A concrete choice of the functions, for the inputs the theorems are applied to.\<close>

definition demoHex :: "nat \<Rightarrow> string" where
  "demoHex n = replicate n CHR ''a''"

definition demoExt :: ext where
  "demoExt = \<lparr>sha256 = (\<lambda>s. CHR ''h'' # s), hmac = (\<lambda>k m. k @ CHR '':'' # m), randomHex = demoHex,
     bcryptHash = (\<lambda>salt p. take 72 p), bcryptCompare = (\<lambda>p h. take 72 p = h),
     signAccess = (\<lambda>sub email role t. demoHex sub @ CHR ''|'' # email),
     signRefresh = (\<lambda>sub fam jti t. demoHex sub @ CHR ''|'' # demoHex (length fam) @ CHR ''|'' # fam @ jti),
     verifyRefresh = (\<lambda>tok t.
        (let sub = takeWhile (\<lambda>c. c \<noteq> CHR ''|'') tok; rest = drop (length sub + 1) tok;
             fam = takeWhile (\<lambda>c. c \<noteq> CHR ''|'') rest; body = drop (length fam + 1) rest
         in Some \<lparr>rp_sub = length sub, rp_family = Some (take (length fam) body),
                  rp_jti = Some (drop (length fam) body)\<rparr>))\<rparr>"

lemma demoExt_sel [simp]:
  "sha256 demoExt s = CHR ''h'' # s" "randomHex demoExt n = demoHex n"
  "bcryptHash demoExt salt p = take 72 p" "bcryptCompare demoExt p h \<longleftrightarrow> take 72 p = h"
  "hmac demoExt k m = k @ CHR '':'' # m"
  by (simp_all add: demoExt_def)

lemma demoHex_inj [simp]: "demoHex m = demoHex n \<longleftrightarrow> m = n"
  unfolding demoHex_def by (metis length_replicate)

lemma demoHex_takeWhile: "takeWhile (\<lambda>c. c \<noteq> CHR ''|'') (demoHex n @ CHR ''|'' # xs) = demoHex n"
  by (simp add: demoHex_def takeWhile_append)

lemma demoHex_drop: "drop (Suc n) (demoHex n @ CHR ''|'' # xs) = xs"
  by (simp add: demoHex_def)

lemma demoExt_refresh [simp]:
  "verifyRefresh demoExt (signRefresh demoExt sub fam jti t) u =
     Some \<lparr>rp_sub = sub, rp_family = Some fam, rp_jti = Some jti\<rparr>"
proof -
  have "length (demoHex n) = n" for n
    by (simp add: demoHex_def)
  then show ?thesis
    by (simp add: demoExt_def Let_def demoHex_takeWhile demoHex_drop)
qed

lemma demoExt_refreshLaw: "refreshLaw demoExt life"
  by (simp add: refreshLaw_def)

lemma demoExt_laws: "freshDraws demoExt" "bcryptLaw demoExt"
  by (simp_all add: freshDraws_def inj_def bcryptLaw_def)

end
