(* ===== verification/AuditTrail.thy ===== *)
theory AuditTrail
  imports CacheAside
begin

text \<open>
  The audit trail (\<open>src/audit\<close>): the service with its redaction of sensitive values, and the
  repository with its page query.
\<close>

section \<open>Redaction\<close>

definition sensitiveKeys :: "string list" where
  "sensitiveKeys = [''password'', ''passwordhash'', ''accesstoken'', ''access_token'',
     ''refreshtoken'', ''refresh_token'', ''token'', ''tokenhash'', ''secret'', ''clientsecret'',
     ''apikey'', ''authorization'', ''cookie'', ''verificationtoken'', ''verification_token'',
     ''resettoken'', ''reset_token'', ''passwordresettoken'', ''password_reset_token'']"

text \<open>\<open>key.replace(/-/g, '').toLowerCase()\<close>\<close>

definition normalizedKey :: "string \<Rightarrow> string" where
  "normalizedKey k = toLowerCase (filter (\<lambda>c. c \<noteq> CHR ''-'') k)"

definition sanitizeMeta :: "props option \<Rightarrow> props option" where
  "sanitizeMeta meta = (case meta of
     None \<Rightarrow> None
   | Some m \<Rightarrow> Some (map (\<lambda>(key, value).
       if normalizedKey key \<in> set sensitiveKeys then (key, JStr ''[REDACTED]'') else (key, value)) m))"

section \<open>The repository and the service\<close>

definition AuditLogRepository_create ::
  "oid option \<Rightarrow> string \<Rightarrow> string \<Rightarrow> oid option \<Rightarrow> string option \<Rightarrow> props option \<Rightarrow> unit wprog" where
  "AuditLogRepository_create actorId action resource workspaceId ip meta = bnd (gets now) (\<lambda>t.
     insertOne auditLogs auditLogs_update
       \<lparr>au_actorId = actorId, au_action = action, au_resource = resource,
        au_workspaceId = workspaceId, au_ip = ip, au_meta = meta, au_createdAt = t\<rparr>)"

text \<open>\<open>limit(0)\<close> is no limit, a negative \<open>skip\<close> is rejected by the database.\<close>

definition AuditLogRepository_findByWorkspace :: "oid \<Rightarrow> int \<Rightarrow> nat \<Rightarrow> auditDoc list wprog" where
  "AuditLogRepository_findByWorkspace workspaceId page limit =
     (let skip = (page - 1) * int limit in
      andThen (throwIf (skip < 0) (Infra ''skip must be non-negative''))
        (query (\<lambda>d. (if limit = 0 then id else take limit) (drop (nat skip)
           (sort_key (\<lambda>a. - au_createdAt a) (filter (\<lambda>a. au_workspaceId a = Some workspaceId) (auditLogs d)))))))"

definition AuditService_log ::
  "oid option \<Rightarrow> string \<Rightarrow> string \<Rightarrow> oid option \<Rightarrow> string option \<Rightarrow> props option \<Rightarrow> unit wprog" where
  "AuditService_log actorId action resource workspaceId ip meta =
     AuditLogRepository_create actorId action resource workspaceId ip (sanitizeMeta meta)"

section \<open>What the trail holds\<close>

lemma AuditService_log_run [simp]:
  "faults s = [] \<Longrightarrow> AuditService_log actor action resource ws ip meta s =
     (Inr (), s\<lparr>db := (db s)\<lparr>auditLogs := auditLogs (db s) @ [\<lparr>au_actorId = actor, au_action = action,
        au_resource = resource, au_workspaceId = ws, au_ip = ip, au_meta = sanitizeMeta meta,
        au_createdAt = now s\<rparr>]\<rparr>\<rparr>)"
  by (simp add: AuditService_log_def AuditLogRepository_create_def)

text \<open>A log call changes the trail only, by at most one entry at its end.\<close>

definition auditOnly :: "world \<Rightarrow> world \<Rightarrow> bool" where
  "auditOnly s t \<longleftrightarrow> (\<exists>xs. db t = (db s)\<lparr>auditLogs := xs\<rparr>)"

lemma auditOnlyI: "db t = (db s)\<lparr>auditLogs := xs\<rparr> \<Longrightarrow> auditOnly s t"
  by (auto simp: auditOnly_def)

interpretation auditOnly: step_order auditOnly
proof unfold_locales
  show "auditOnly s s" for s
    by (rule auditOnlyI [where xs = "auditLogs (db s)"]) simp
  show "auditOnly s u" if "auditOnly s t" "auditOnly t u" for s t u
    using that by (auto simp: auditOnly_def)
qed

lemma AuditService_log_frame: "stays auditOnly (AuditService_log actor action resource ws ip meta)"
  unfolding AuditService_log_def AuditLogRepository_create_def insertOne_def
proof (intro auditOnly.stays_rules)
  show "stays auditOnly (updateDb (\<lambda>d. auditLogs_update (\<lambda>_. auditLogs d @ [a]) d))" for a
  proof (rule staysI)
    show "auditOnly s (snd (updateDb (\<lambda>d. auditLogs_update (\<lambda>_. auditLogs d @ [a]) d) s))" for s
      by (cases "faults s"; cases "hd (faults s)")
        (auto simp: io_run intro: auditOnlyI [where xs = "auditLogs (db s)"] auditOnlyI [where xs = "auditLogs (db s) @ [a]"])
  qed
qed

lemma AuditService_log_frameD:
  "AuditService_log actor action resource ws ip meta s = (r, t) \<Longrightarrow> \<exists>xs. db t = (db s)\<lparr>auditLogs := xs\<rparr>"
  using staysD [OF AuditService_log_frame] by (auto simp: auditOnly_def)



end
