(* ===== verification/Users.thy ===== *)
theory Users
  imports External AuditTrail Outbox
begin

text \<open>
  The user repository (\<open>src/users/infrastructure\<close>), the e-mail delivery repository
  (\<open>src/mail/infrastructure\<close>) and the two Redis counters of \<open>src/auth/services\<close>.
\<close>

section \<open>UserRepository\<close>

text \<open>
  The fields a query selects: the password and the token fields are \<open>select: false\<close> in the
  schema, so a plain query does not load them.
\<close>

definition selected :: "userDoc \<Rightarrow> userDoc" where
  "selected u = u\<lparr>u_password := [], u_refreshTokenHash := None, u_currentTokenId := None,
     u_evTokenHash := None, u_evExpiresAt := None, u_prTokenHash := None, u_prExpiresAt := None\<rparr>"

definition withPassword :: "userDoc \<Rightarrow> userDoc" where
  "withPassword u = (selected u)\<lparr>u_password := u_password u\<rparr>"

definition withRefreshToken :: "userDoc \<Rightarrow> userDoc" where
  "withRefreshToken u =
     (selected u)\<lparr>u_refreshTokenHash := u_refreshTokenHash u, u_currentTokenId := u_currentTokenId u\<rparr>"

lemma selected_sel [simp]:
  "u_id (selected u) = u_id u" "u_email (selected u) = u_email u" "u_role (selected u) = u_role u"
  "u_emailVerified (selected u) = u_emailVerified u" "u_tokenFamily (selected u) = u_tokenFamily u"
  "u_id (withPassword u) = u_id u" "u_email (withPassword u) = u_email u"
  "u_password (withPassword u) = u_password u" "u_emailVerified (withPassword u) = u_emailVerified u"
  "u_role (withPassword u) = u_role u"
  "u_id (withRefreshToken u) = u_id u" "u_tokenFamily (withRefreshToken u) = u_tokenFamily u"
  "u_refreshTokenHash (withRefreshToken u) = u_refreshTokenHash u"
  "u_currentTokenId (withRefreshToken u) = u_currentTokenId u"
  "u_email (withRefreshToken u) = u_email u" "u_role (withRefreshToken u) = u_role u"
  by (simp_all add: selected_def withPassword_def withRefreshToken_def)

fun unUser :: "cacheVal \<Rightarrow> userDoc option option" where
  "unUser (CVUser u) = Some (Some u)"
| "unUser _ = None"

fun unUsers :: "cacheVal \<Rightarrow> userDoc list option" where
  "unUsers (CVUsers us) = Some us"
| "unUsers _ = None"

definition UserRepository_findAll :: "userDoc list wprog" where
  "UserRepository_findAll = readThrough CKUsersAll unUsers (\<lambda>us. Some (CVUsers us)) 60000 id
     (query (\<lambda>d. map selected (users d)))"

definition UserRepository_findByEmail :: "string \<Rightarrow> userDoc option wprog" where
  "UserRepository_findByEmail email =
     bnd (findOne users (\<lambda>u. u_email u = email)) (\<lambda>u. ret (map_option withPassword u))"

definition UserRepository_findByEmailWithPassword :: "string \<Rightarrow> userDoc option wprog" where
  "UserRepository_findByEmailWithPassword email =
     bnd (findOne users (\<lambda>u. u_email u = email)) (\<lambda>u. ret (map_option withPassword u))"

definition UserRepository_findById :: "oid \<Rightarrow> userDoc option wprog" where
  "UserRepository_findById i = readThrough (CKUser i) unUser (map_option CVUser) 60000 id
     (bnd (findOne users (\<lambda>u. u_id u = i)) (\<lambda>u. ret (map_option selected u)))"

definition UserRepository_createUser ::
  "string \<Rightarrow> string \<Rightarrow> string \<Rightarrow> time \<Rightarrow> userDoc wprog" where
  "UserRepository_createUser email password tokenHash expiresAt =
     bnd freshId (\<lambda>i.
     andThen (insertUnique users users_update (\<lambda>u. u_email u = email)
       \<lparr>u_id = i, u_email = email, u_password = password, u_role = ''user'',
        u_refreshTokenHash = None, u_tokenFamily = None, u_currentTokenId = None,
        u_emailVerified = False, u_evTokenHash = Some tokenHash, u_evExpiresAt = Some expiresAt,
        u_prTokenHash = None, u_prExpiresAt = None\<rparr>)
     (bnd (findOne users (\<lambda>u. u_id u = i)) (\<lambda>created.
     bnd (orThrow created (PlainError ''User creation failed'')) (\<lambda>u.
     andThen (cacheDel CKUsersAll) (ret (selected u))))))"

definition UserRepository_findByIdWithRefreshToken :: "oid \<Rightarrow> userDoc option wprog" where
  "UserRepository_findByIdWithRefreshToken i =
     bnd (findOne users (\<lambda>u. u_id u = i)) (\<lambda>u. ret (map_option withRefreshToken u))"

definition invalidateUserCache :: "oid \<Rightarrow> unit wprog" where
  "invalidateUserCache i = andThen (cacheDel (CKUser i)) (cacheDel CKUsersAll)"

text \<open>\<open>findByIdAndUpdate(id, ..., { new: true })\<close> and the invalidation every method does after it.\<close>

definition updateUser :: "oid \<Rightarrow> (userDoc \<Rightarrow> userDoc) \<Rightarrow> userDoc option wprog" where
  "updateUser i f =
     bnd (findOneAndUpdate users users_update (\<lambda>u. u_id u = i) f) (\<lambda>u.
     andThen (invalidateUserCache i) (ret (map_option selected u)))"

definition UserRepository_clearRefreshToken :: "oid \<Rightarrow> userDoc option wprog" where
  "UserRepository_clearRefreshToken i =
     updateUser i (\<lambda>u. u\<lparr>u_refreshTokenHash := None, u_tokenFamily := None, u_currentTokenId := None\<rparr>)"

definition UserRepository_deleteUser :: "oid \<Rightarrow> userDoc option wprog" where
  "UserRepository_deleteUser i =
     bnd (findOneAndDelete users users_update (\<lambda>u. u_id u = i)) (\<lambda>u.
     andThen (invalidateUserCache i) (andThen (cacheDel CKUsersAll) (ret (map_option selected u))))"

text \<open>An omitted argument is \<open>undefined\<close> and leaves the field; \<open>Some None\<close> is an explicit \<open>null\<close>.\<close>

definition UserRepository_updateRefreshToken ::
  "oid \<Rightarrow> string option \<Rightarrow> string option option \<Rightarrow> string option option \<Rightarrow> userDoc option wprog" where
  "UserRepository_updateRefreshToken i hash tokenFamily currentTokenId =
     updateUser i (\<lambda>u. u\<lparr>u_refreshTokenHash := hash,
       u_tokenFamily := (case tokenFamily of None \<Rightarrow> u_tokenFamily u | Some f \<Rightarrow> f),
       u_currentTokenId := (case currentTokenId of None \<Rightarrow> u_currentTokenId u | Some c \<Rightarrow> c)\<rparr>)"

definition UserRepository_setEmailVerificationToken :: "oid \<Rightarrow> string \<Rightarrow> time \<Rightarrow> userDoc option wprog" where
  "UserRepository_setEmailVerificationToken i tokenHash expiresAt =
     updateUser i (\<lambda>u. u\<lparr>u_evTokenHash := Some tokenHash, u_evExpiresAt := Some expiresAt,
       u_emailVerified := False\<rparr>)"

text \<open>\<open>$gt\<close> on a missing or \<open>null\<close> date does not match.\<close>

definition after :: "time \<Rightarrow> time option \<Rightarrow> bool" where
  "after t d = (case d of None \<Rightarrow> False | Some e \<Rightarrow> t < e)"

definition UserRepository_verifyEmail :: "string \<Rightarrow> userDoc option wprog" where
  "UserRepository_verifyEmail tokenHash =
     bnd (gets now) (\<lambda>t.
     bnd (findOneAndUpdate users users_update
       (\<lambda>u. u_evTokenHash u = Some tokenHash \<and> after t (u_evExpiresAt u) \<and> \<not> u_emailVerified u)
       (\<lambda>u. u\<lparr>u_emailVerified := True, u_evTokenHash := None, u_evExpiresAt := None\<rparr>)) (\<lambda>found.
     case found of
       None \<Rightarrow> ret None
     | Some u \<Rightarrow> andThen (invalidateUserCache (u_id u)) (ret (Some (selected u)))))"

definition UserRepository_clearEmailVerificationToken :: "oid \<Rightarrow> userDoc option wprog" where
  "UserRepository_clearEmailVerificationToken i =
     updateUser i (\<lambda>u. u\<lparr>u_evTokenHash := None, u_evExpiresAt := None\<rparr>)"

definition UserRepository_findByEmailWithoutPassword :: "string \<Rightarrow> userDoc option wprog" where
  "UserRepository_findByEmailWithoutPassword email =
     bnd (findOne users (\<lambda>u. u_email u = toLowerCase email)) (\<lambda>u. ret (map_option selected u))"

definition UserRepository_setPasswordResetToken :: "oid \<Rightarrow> string \<Rightarrow> time \<Rightarrow> userDoc option wprog" where
  "UserRepository_setPasswordResetToken i tokenHash expiresAt =
     updateUser i (\<lambda>u. u\<lparr>u_prTokenHash := Some tokenHash, u_prExpiresAt := Some expiresAt\<rparr>)"

definition UserRepository_findByPasswordResetToken :: "string \<Rightarrow> userDoc option wprog" where
  "UserRepository_findByPasswordResetToken tokenHash =
     bnd (gets now) (\<lambda>t.
     bnd (findOne users (\<lambda>u. u_prTokenHash u = Some tokenHash \<and> after t (u_prExpiresAt u))) (\<lambda>u.
     ret (map_option withPassword u)))"

definition UserRepository_clearPasswordResetToken :: "oid \<Rightarrow> userDoc option wprog" where
  "UserRepository_clearPasswordResetToken i =
     updateUser i (\<lambda>u. u\<lparr>u_prTokenHash := None, u_prExpiresAt := None\<rparr>)"

definition UserRepository_updatePassword :: "oid \<Rightarrow> string \<Rightarrow> userDoc option wprog" where
  "UserRepository_updatePassword i passwordHash =
     updateUser i (\<lambda>u. u\<lparr>u_password := passwordHash\<rparr>)"

section \<open>EmailDeliveryRepository\<close>

text \<open>\<open>outboxEventId\<close> has a unique index.\<close>

definition EmailDeliveryRepository_create ::
  "oid \<Rightarrow> string \<Rightarrow> string \<Rightarrow> emailStatus option \<Rightarrow> nat option \<Rightarrow> emailDoc wprog" where
  "EmailDeliveryRepository_create outboxEventId to emailType status attempts =
     bnd freshId (\<lambda>i.
     let e = \<lparr>e_id = i, e_outboxEventId = outboxEventId, e_to = to, e_emailType = emailType,
              e_status = (case status of None \<Rightarrow> EQueued | Some st \<Rightarrow> st),
              e_attempts = (case attempts of None \<Rightarrow> 0 | Some n \<Rightarrow> n),
              e_lastError = None, e_sentAt = None, e_failedAt = None\<rparr>
     in andThen (insertUnique emails emails_update (\<lambda>d. e_outboxEventId d = outboxEventId) e) (ret e))"

definition EmailDeliveryRepository_findByOutboxEventId :: "oid \<Rightarrow> emailDoc option wprog" where
  "EmailDeliveryRepository_findByOutboxEventId i = findOne emails (\<lambda>e. e_outboxEventId e = i)"

text \<open>\<open>$set: data\<close>: a key whose value is \<open>undefined\<close> is left out of the update.\<close>

definition EmailDeliveryRepository_update :: "oid \<Rightarrow> (emailDoc \<Rightarrow> emailDoc) \<Rightarrow> emailDoc option wprog" where
  "EmailDeliveryRepository_update i f = findOneAndUpdate emails emails_update (\<lambda>e. e_id e = i) f"

section \<open>BruteForceService and UserRateLimitService\<close>

text \<open>
  A Redis counter: the count and the time its key expires, if any. \<open>incr\<close> keeps the expiry
  of a live key and starts from zero without one when there is none.
\<close>

definition liveCounter :: "time \<Rightarrow> (nat \<times> time option) option \<Rightarrow> (nat \<times> time option) option" where
  "liveCounter t c = (case c of
     None \<Rightarrow> None
   | Some (n, till) \<Rightarrow> (case till of None \<Rightarrow> Some (n, None) | Some e \<Rightarrow> if t < e then Some (n, Some e) else None))"

definition incrCounter :: "time \<Rightarrow> (nat \<times> time option) option \<Rightarrow> nat \<times> time option" where
  "incrCounter t c = (case liveCounter t c of None \<Rightarrow> (1, None) | Some (n, till) \<Rightarrow> (Suc n, till))"

definition loginKey :: "string \<Rightarrow> string" where
  "loginKey email = toLowerCase (trim email)"

definition loginMaxAttempts :: nat where "loginMaxAttempts = 5"
definition windowMs :: time where "windowMs = 15 * 60 * 1000"
definition rateLimit :: nat where "rateLimit = 100"

definition isBlocked :: "string \<Rightarrow> bool wprog" where
  "isBlocked email = io (gets (\<lambda>s. case liveCounter (now s) (failedLogins s (loginKey email)) of
       None \<Rightarrow> False | Some (n, _) \<Rightarrow> n \<ge> loginMaxAttempts))"

definition recordFailure :: "string \<Rightarrow> unit wprog" where
  "recordFailure email =
     (let k = loginKey email in
      bnd (io (\<lambda>s. let c = incrCounter (now s) (failedLogins s k) in
             (Inr (fst c), s\<lparr>failedLogins := (failedLogins s)(k := Some c)\<rparr>))) (\<lambda>attempts.
      whenP (attempts = 1)
        (io (modify (\<lambda>s. s\<lparr>failedLogins := (failedLogins s)(k :=
           map_option (\<lambda>c. (fst c, Some (now s + windowMs))) (failedLogins s k))\<rparr>)))))"

definition resetFailures :: "string \<Rightarrow> unit wprog" where
  "resetFailures email = io (modify (\<lambda>s. s\<lparr>failedLogins := (failedLogins s)(loginKey email := None)\<rparr>))"

definition checkLimit :: "bool \<Rightarrow> oid \<Rightarrow> bool wprog" where
  "checkLimit loadTestMode userId =
     (if loadTestMode then ret True else
      bnd (io (\<lambda>s. let c = incrCounter (now s) (rateCounters s userId) in
             (Inr (fst c), s\<lparr>rateCounters := (rateCounters s)(userId := Some c)\<rparr>))) (\<lambda>count.
      andThen (whenP (count = 1)
        (io (modify (\<lambda>s. s\<lparr>rateCounters := (rateCounters s)(userId :=
           map_option (\<lambda>c. (fst c, Some (now s + windowMs))) (rateCounters s userId))\<rparr>))))
      (ret (count \<le> rateLimit))))"

definition resetLimit :: "oid \<Rightarrow> unit wprog" where
  "resetLimit userId = io (modify (\<lambda>s. s\<lparr>rateCounters := (rateCounters s)(userId := None)\<rparr>))"

text \<open>\<open>UserRateLimitInterceptor\<close>: \<open>request.user\<close> may be absent.\<close>

definition UserRateLimitInterceptor_intercept :: "bool \<Rightarrow> oid option \<Rightarrow> 'a wprog \<Rightarrow> 'a wprog" where
  "UserRateLimitInterceptor_intercept loadTestMode user next = (case user of
     None \<Rightarrow> next
   | Some userId \<Rightarrow> bnd (checkLimit loadTestMode userId) (\<lambda>allowed.
       andThen (throwIf (\<not> allowed) (TooManyRequests ''Too many requests. Please try again later.'')) next))"

section \<open>Runs without failures\<close>

lemma invalidateUserCache_run [simp]:
  "faults s = [] \<Longrightarrow> invalidateUserCache i s =
     (Inr (), s\<lparr>cache := (cache s)(CKUser i := None, CKUsersAll := None)\<rparr>)"
  by (simp add: invalidateUserCache_def andThen_run)

lemma updateUser_run [simp]:
  "faults s = [] \<Longrightarrow> updateUser i f s =
     (Inr (map_option (selected \<circ> f) (List.find (\<lambda>u. u_id u = i) (users (db s)))),
      s\<lparr>db := (db s)\<lparr>users := updateFirst (\<lambda>u. u_id u = i) f (users (db s))\<rparr>,
        cache := (cache s)(CKUser i := None, CKUsersAll := None)\<rparr>)"
  by (auto simp: updateUser_def bnd_run andThen_run updateFirst_none find_None_iff_all
      split: option.splits)

lemmas user_repo_defs =
  UserRepository_findByEmail_def UserRepository_findByEmailWithoutPassword_def
  UserRepository_findByIdWithRefreshToken_def UserRepository_clearRefreshToken_def
  UserRepository_updateRefreshToken_def UserRepository_updatePassword_def
  UserRepository_clearPasswordResetToken_def UserRepository_setPasswordResetToken_def
  UserRepository_findByPasswordResetToken_def UserRepository_verifyEmail_def

section \<open>Lockout after failed logins\<close>

text \<open>\<open>n\<close> failed logins in a row for one address.\<close>

fun failures :: "nat \<Rightarrow> string \<Rightarrow> unit wprog" where
  "failures 0 email = ret ()"
| "failures (Suc n) email = andThen (recordFailure email) (failures n email)"

lemma recordFailure_run:
  "faults s = [] \<Longrightarrow> recordFailure email s = (Inr (), s\<lparr>failedLogins := (failedLogins s)(loginKey email :=
     Some (case liveCounter (now s) (failedLogins s (loginKey email)) of
        None \<Rightarrow> (1, Some (now s + windowMs))
      | Some (n, till) \<Rightarrow> (Suc n, if n = 0 then Some (now s + windowMs) else till)))\<rparr>)"
  by (simp add: recordFailure_def bnd_run incrCounter_def Let_def split: option.splits prod.splits)

lemma failures_run:
  assumes "faults s = []" and "liveCounter (now s) (failedLogins s (loginKey email)) = Some (m, Some e)" and "0 < m"
  shows "\<exists>t. failures n email s = (Inr (), t) \<and> faults t = [] \<and> now t = now s \<and>
    failedLogins t (loginKey email) = Some (m + n, Some e)"
  using assms
proof (induction n arbitrary: s m)
  case 0
  then have "failedLogins s (loginKey email) = Some (m, Some e)"
    by (auto simp: liveCounter_def split: option.splits prod.splits if_splits)
  with 0 show ?case by auto
next
  case (Suc n)
  let ?s = "s\<lparr>failedLogins := (failedLogins s)(loginKey email \<mapsto> (Suc m, Some e))\<rparr>"
  have r: "recordFailure email s = (Inr (), ?s)"
    using Suc.prems by (simp add: recordFailure_run)
  have "now s < e"
    using Suc.prems(2) by (auto simp: liveCounter_def split: option.splits prod.splits if_splits)
  then have "\<exists>t. failures n email ?s = (Inr (), t) \<and> faults t = [] \<and> now t = now ?s \<and>
      failedLogins t (loginKey email) = Some (Suc m + n, Some e)"
    by (intro Suc.IH) (use Suc.prems(1) in \<open>auto simp: liveCounter_def\<close>)
  with r show ?case by (auto simp: andThen_run)
qed



text \<open>
  A user's first hundred requests of a window are served and the next one is refused with
  429 before its handler runs; a request without a user is never limited.
\<close>

theorem rate_limit_enforced:
  assumes "faults s = []" and "liveCounter (now s) (rateCounters s userId) = Some (n, Some till)" and "0 < n"
  shows "(n < 100 \<longrightarrow> fst (UserRateLimitInterceptor_intercept False (Some userId) (ret ()) s) = Inr ()) \<and>
    (100 \<le> n \<longrightarrow> UserRateLimitInterceptor_intercept False (Some userId) next s =
       (Inl (TooManyRequests ''Too many requests. Please try again later.''),
        s\<lparr>rateCounters := (rateCounters s)(userId \<mapsto> (Suc n, Some till))\<rparr>)) \<and>
    UserRateLimitInterceptor_intercept False None next s = next s"
  using assms
  by (auto simp: UserRateLimitInterceptor_intercept_def checkLimit_def bnd_run andThen_run
      incrCounter_def rateLimit_def Let_def)

theorem rate_limit_enforced_witness:
  "fst (UserRateLimitInterceptor_intercept False (Some 7) (ret ())
     (world0\<lparr>rateCounters := [7 \<mapsto> (100, Some 2000)]\<rparr>)) =
   (Inl (TooManyRequests ''Too many requests. Please try again later.'') :: err + unit)"
  using rate_limit_enforced [of "world0\<lparr>rateCounters := [7 \<mapsto> (100, Some 2000)]\<rparr>" 7 100 2000 "ret ()"]
  by (simp add: liveCounter_def)

end
