(* ===== verification/Auth.thy ===== *)
theory Auth
  imports Users
begin

text \<open>
  The authentication commands of \<open>src/auth/application/command\<close>: registration, login,
  refresh with rotation, logout, password reset and e-mail verification.
\<close>

section \<open>TokenService\<close>

definition generateAccessToken :: "ext \<Rightarrow> userDoc \<Rightarrow> string wprog" where
  "generateAccessToken x user = gets (\<lambda>s. signAccess x (u_id user) (u_email user) (u_role user) (now s))"

definition generateRefreshToken :: "ext \<Rightarrow> userDoc \<Rightarrow> string \<Rightarrow> string \<Rightarrow> string wprog" where
  "generateRefreshToken x user tokenFamily tokenId =
     gets (\<lambda>s. signRefresh x (u_id user) tokenFamily tokenId (now s))"

definition bcryptHashNew :: "ext \<Rightarrow> string \<Rightarrow> string wprog" where
  "bcryptHashNew x p = bnd freshId (\<lambda>salt. ret (bcryptHash x salt p))"

section \<open>The handlers\<close>

definition auditReason :: "string \<Rightarrow> props option" where
  "auditReason reason = Some [(''reason'', JStr reason)]"

definition requestEmail :: "oid \<Rightarrow> oid \<Rightarrow> string \<Rightarrow> string \<Rightarrow> string \<Rightarrow> time \<Rightarrow> outboxDoc wprog" where
  "requestEmail eventId userId emailType to token expiresAt =
     OutboxService_create (Some eventId) ''EMAIL_REQUESTED'' ''USER'' userId None
       [(''emailType'', JStr emailType), (''to'', JStr to), (''token'', JStr token),
        (''expiresAt'', JDate expiresAt)]"

definition RegisterUser_execute :: "ext \<Rightarrow> string \<Rightarrow> string \<Rightarrow> userDoc wprog" where
  "RegisterUser_execute x email password =
     bnd (UserRepository_findByEmail email) (\<lambda>existingUser.
     andThen (throwIf (existingUser \<noteq> None) (Conflict ''Email already registered''))
     (bnd (bcryptHashNew x password) (\<lambda>hashedPassword.
     bnd (randomString x) (\<lambda>verificationToken.
     bnd (gets now) (\<lambda>t.
     let verificationTokenHash = sha256 x verificationToken;
         verificationExpiresAt = t + 60 * 60 * 1000 in
     bnd (UserRepository_createUser email hashedPassword verificationTokenHash verificationExpiresAt) (\<lambda>user.
     bnd freshId (\<lambda>outboxEventId.
     andThen (EmailDeliveryRepository_create outboxEventId email ''EMAIL_VERIFICATION'' (Some EQueued) None)
     (andThen (requestEmail outboxEventId (u_id user) ''EMAIL_VERIFICATION'' email verificationToken
                 verificationExpiresAt)
     (andThen (AuditService_log (Some (u_id user)) ''USER_REGISTERED'' ''USER'' None None None)
       (ret user))))))))))"

definition Login_execute :: "ext \<Rightarrow> string \<Rightarrow> string \<Rightarrow> string option \<Rightarrow> (string \<times> string) wprog" where
  "Login_execute x email password ip =
     bnd (isBlocked email) (\<lambda>blocked.
     if blocked then
       andThen (AuditService_log None ''LOGIN_BLOCKED'' ''AUTH'' None ip (auditReason ''brute_force_protection''))
         (throw (Unauthorized ''Too many failed login attempts. Please try again later.''))
     else
     bnd (UserRepository_findByEmail email) (\<lambda>found. case found of
       None \<Rightarrow>
         andThen (recordFailure email)
         (andThen (AuditService_log None ''LOGIN_FAILED'' ''AUTH'' None ip (auditReason ''invalid_credentials''))
           (throw (Unauthorized ''Invalid Credentials'')))
     | Some user \<Rightarrow>
         if \<not> bcryptCompare x password (u_password user) then
           andThen (recordFailure email)
           (andThen (AuditService_log (Some (u_id user)) ''LOGIN_FAILED'' ''AUTH'' None ip
                      (auditReason ''invalid_credentials''))
             (throw (Unauthorized ''Invalid Credentials'')))
         else if \<not> u_emailVerified user then
           andThen (AuditService_log (Some (u_id user)) ''LOGIN_BLOCKED'' ''AUTH'' None ip
                      (auditReason ''email_not_verified''))
             (throw (Forbidden ''Please verify your email before logging in''))
         else
           andThen (resetFailures email)
           (bnd (randomString x) (\<lambda>tokenFamily.
           bnd (randomString x) (\<lambda>tokenId.
           bnd (generateAccessToken x user) (\<lambda>accessToken.
           bnd (generateRefreshToken x user tokenFamily tokenId) (\<lambda>refreshToken.
           bnd (bcryptHashNew x refreshToken) (\<lambda>refreshTokenHash.
           andThen (UserRepository_updateRefreshToken (u_id user) (Some refreshTokenHash)
                      (Some (Some tokenFamily)) (Some (Some tokenId)))
           (andThen (AuditService_log (Some (u_id user)) ''LOGIN_SUCCESS'' ''AUTH'' None ip
                      (Some [(''method'', JStr ''password'')]))
             (ret (accessToken, refreshToken)))))))))))"

text \<open>The three checks that detect a reused token do the same, with their own reason.\<close>

definition reuseDetected :: "userDoc \<Rightarrow> string \<Rightarrow> 'a wprog" where
  "reuseDetected user reason =
     andThen (AuditService_log (Some (u_id user)) ''REFRESH_TOKEN_REUSE_DETECTED'' ''AUTH'' None None
               (auditReason reason))
     (andThen (UserRepository_clearRefreshToken (u_id user))
       (throw (Unauthorized ''Refresh token reuse detected'')))"

definition refreshFailed :: "string \<Rightarrow> string \<Rightarrow> 'a wprog" where
  "refreshFailed reason message =
     andThen (AuditService_log None ''REFRESH_TOKEN_FAILED'' ''AUTH'' None None (auditReason reason))
       (throw (Unauthorized message))"

text \<open>\<open>payload.family\<close> may be \<open>undefined\<close> where the stored value is \<open>null\<close>: these differ.\<close>

definition sameField :: "string option \<Rightarrow> string option \<Rightarrow> bool" where
  "sameField a b \<longleftrightarrow> a \<noteq> None \<and> a = b"

definition RefreshToken_rotate :: "ext \<Rightarrow> userDoc \<Rightarrow> (string \<times> string) wprog" where
  "RefreshToken_rotate x user =
     (let family = (case u_tokenFamily user of None \<Rightarrow> [] | Some f \<Rightarrow> f) in
     bnd (generateAccessToken x user) (\<lambda>accessToken.
     bnd (randomString x) (\<lambda>newTokenId.
     bnd (generateRefreshToken x user family newTokenId) (\<lambda>newRefreshToken.
     bnd (bcryptHashNew x newRefreshToken) (\<lambda>refreshTokenHash.
     andThen (UserRepository_updateRefreshToken (u_id user) (Some refreshTokenHash)
                (Some (Some family)) (Some (Some newTokenId)))
     (andThen (AuditService_log (Some (u_id user)) ''REFRESH_TOKEN_SUCCESS'' ''AUTH'' None None None)
       (ret (accessToken, newRefreshToken))))))))"

definition RefreshToken_execute :: "ext \<Rightarrow> string \<Rightarrow> (string \<times> string) wprog" where
  "RefreshToken_execute x refresh_token =
     bnd (gets now) (\<lambda>t. case verifyRefresh x refresh_token t of
       None \<Rightarrow> refreshFailed ''invalid_token'' ''Invalid refresh Token''
     | Some payload \<Rightarrow>
     bnd (UserRepository_findByIdWithRefreshToken (rp_sub payload)) (\<lambda>found. case found of
       None \<Rightarrow> refreshFailed ''refresh_token_not_found'' ''Refresh Token Not Found''
     | Some user \<Rightarrow> (case u_refreshTokenHash user of
         None \<Rightarrow> refreshFailed ''refresh_token_not_found'' ''Refresh Token Not Found''
       | Some hash \<Rightarrow>
         if \<not> sameField (rp_family payload) (u_tokenFamily user) then
           reuseDetected user ''token_family_mismatch''
         else if \<not> sameField (rp_jti payload) (u_currentTokenId user) then
           reuseDetected user ''token_id_mismatch''
         else if \<not> bcryptCompare x refresh_token hash then
           reuseDetected user ''token_hash_mismatch''
         else RefreshToken_rotate x user)))"

definition Logout_execute :: "oid \<Rightarrow> string wprog" where
  "Logout_execute userId =
     andThen (UserRepository_clearRefreshToken userId)
     (andThen (AuditService_log (Some userId) ''LOGOUT_SUCCESS'' ''AUTH'' None None None)
       (ret ''Logged out successfully''))"

definition forgotMessage :: string where
  "forgotMessage = ''If an account with that email exists, a password reset email has been sent.''"

definition ForgotPassword_execute :: "ext \<Rightarrow> string \<Rightarrow> string wprog" where
  "ForgotPassword_execute x email =
     bnd (UserRepository_findByEmailWithoutPassword email) (\<lambda>found. case found of
       None \<Rightarrow> ret forgotMessage
     | Some user \<Rightarrow>
         bnd (randomString x) (\<lambda>resetToken.
         bnd (gets now) (\<lambda>t.
         let resetTokenHash = sha256 x resetToken; resetExpiresAt = t + 60 * 60 * 1000 in
         andThen (UserRepository_setPasswordResetToken (u_id user) resetTokenHash resetExpiresAt)
         (bnd freshId (\<lambda>outboxEventId.
         andThen (EmailDeliveryRepository_create outboxEventId email ''PASSWORD_RESET'' (Some EQueued) None)
         (andThen (requestEmail outboxEventId (u_id user) ''PASSWORD_RESET'' email resetToken resetExpiresAt)
         (andThen (AuditService_log (Some (u_id user)) ''PASSWORD_RESET_REQUESTED'' ''AUTH'' None None None)
           (ret forgotMessage))))))))"

definition ResetPassword_execute :: "ext \<Rightarrow> string \<Rightarrow> string \<Rightarrow> string wprog" where
  "ResetPassword_execute x token newPassword =
     (if token = [] then
        andThen (AuditService_log None ''PASSWORD_RESET_FAILED'' ''AUTH'' None None (auditReason ''missing_token''))
          (throw (BadRequest ''Password reset token is required''))
      else
     bnd (UserRepository_findByPasswordResetToken (sha256 x token)) (\<lambda>found. case found of
       None \<Rightarrow>
         andThen (AuditService_log None ''PASSWORD_RESET_FAILED'' ''AUTH'' None None
                   (auditReason ''invalid_or_expired_token''))
           (throw (BadRequest ''Invalid or expired password reset token''))
     | Some user \<Rightarrow>
         bnd (bcryptHashNew x newPassword) (\<lambda>passwordHash.
         andThen (UserRepository_updatePassword (u_id user) passwordHash)
         (andThen (UserRepository_clearPasswordResetToken (u_id user))
         (andThen (UserRepository_clearRefreshToken (u_id user))
         (andThen (AuditService_log (Some (u_id user)) ''PASSWORD_RESET_COMPLETED'' ''USER'' None None None)
           (ret ''Password reset successfully'')))))))"

definition VerifyEmail_execute :: "ext \<Rightarrow> string \<Rightarrow> string wprog" where
  "VerifyEmail_execute x token =
     (if token = [] then
        andThen (AuditService_log None ''EMAIL_VERIFICATION_FAILED'' ''AUTH'' None None (auditReason ''token_missing''))
          (throw (BadRequest ''Verification token is required''))
      else
     bnd (UserRepository_verifyEmail (sha256 x token)) (\<lambda>found. case found of
       None \<Rightarrow>
         andThen (AuditService_log None ''EMAIL_VERIFICATION_FAILED'' ''AUTH'' None None
                   (auditReason ''invalid_or_expired_token''))
           (throw (BadRequest ''Invalid or expired verification token''))
     | Some user \<Rightarrow>
         andThen (AuditService_log (Some (u_id user)) ''EMAIL_VERIFIED'' ''USER'' None None None)
           (ret ''Email verified successfully'')))"

end
