(* ===== verification/AuthSpec.thy ===== *)
theory AuthSpec
  imports Auth
begin

text \<open>
  What the authentication commands guarantee: rotation of refresh tokens with detection of a
  reused one, a session after a login, single use of reset and verification tokens, and where
  an address with capital letters loses its account.
\<close>

section \<open>Refresh tokens\<close>

definition noSession :: "userDoc \<Rightarrow> userDoc" where
  "noSession u = u\<lparr>u_refreshTokenHash := None, u_tokenFamily := None, u_currentTokenId := None\<rparr>"

lemma noSession_sel [simp]:
  "u_id (noSession u) = u_id u" "u_refreshTokenHash (noSession u) = None"
  "u_tokenFamily (noSession u) = None"
  by (simp_all add: noSession_def)

abbreviation userOf :: "oid \<Rightarrow> world \<Rightarrow> userDoc option" where
  "userOf i s \<equiv> List.find (\<lambda>u. u_id u = i) (users (db s))"

lemma reuseDetected_run:
  assumes "faults s = []" and "userOf (u_id user) s = Some u"
  shows "\<exists>t. reuseDetected user reason s = (Inl (Unauthorized ''Refresh token reuse detected''), t) \<and>
    userOf (u_id user) t = Some (noSession u) \<and> faults t = [] \<and> now t = now s"
proof -
  have "List.find (\<lambda>v. u_id v = u_id user)
      (updateFirst (\<lambda>v. u_id v = u_id user) noSession (users (db s))) = Some (noSession u)"
    using find_SomeD [OF assms(2)] by (intro find_updateFirst_id [OF assms(2)]) simp
  with assms show ?thesis
    by (simp add: reuseDetected_def andThen_run UserRepository_clearRefreshToken_def
        noSession_def [abs_def])
qed

lemma refresh_no_session:
  assumes "faults s = []" and "verifyRefresh x tok (now s) = Some p" and "userOf (rp_sub p) s = Some u"
    and "u_refreshTokenHash u = None"
  shows "fst (RefreshToken_execute x tok s) = Inl (Unauthorized ''Refresh Token Not Found'')"
  using assms
  by (simp add: RefreshToken_execute_def bnd_run andThen_run UserRepository_findByIdWithRefreshToken_def
      refreshFailed_def)

lemma refresh_reuse:
  assumes "faults s = []" and "verifyRefresh x tok (now s) = Some p" and "userOf (rp_sub p) s = Some u"
    and "u_refreshTokenHash u = Some h"
    and "\<not> sameField (rp_family p) (u_tokenFamily u) \<or> \<not> sameField (rp_jti p) (u_currentTokenId u)"
  shows "\<exists>t. RefreshToken_execute x tok s = (Inl (Unauthorized ''Refresh token reuse detected''), t) \<and>
    userOf (rp_sub p) t = Some (noSession u) \<and> faults t = [] \<and> now t = now s"
proof -
  have uid: "u_id u = rp_sub p"
    using find_SomeD [OF assms(3)] by simp
  have "\<exists>reason. RefreshToken_execute x tok s = reuseDetected (withRefreshToken u) reason s"
    using assms
    by (auto simp: RefreshToken_execute_def bnd_run UserRepository_findByIdWithRefreshToken_def)
  then obtain reason where "RefreshToken_execute x tok s = reuseDetected (withRefreshToken u) reason s" ..
  moreover have "userOf (u_id (withRefreshToken u)) s = Some u"
    using assms(3) uid by simp
  note reuseDetected_run [OF assms(1) this, of reason]
  ultimately show ?thesis
    using uid by simp
qed

definition rotated :: "ext \<Rightarrow> string \<Rightarrow> world \<Rightarrow> userDoc \<Rightarrow> userDoc" where
  "rotated x family s u = u\<lparr>
     u_refreshTokenHash := Some (bcryptHash x (Suc (nextId s))
        (signRefresh x (u_id u) family (randomHex x (nextId s)) (now s))),
     u_tokenFamily := Some family, u_currentTokenId := Some (randomHex x (nextId s))\<rparr>"

lemma refresh_rotates:
  assumes "faults s = []" and "verifyRefresh x tok (now s) = Some p" and "userOf (rp_sub p) s = Some u"
    and "u_refreshTokenHash u = Some h" and "sameField (rp_family p) (u_tokenFamily u)"
    and "sameField (rp_jti p) (u_currentTokenId u)" and "bcryptCompare x tok h"
  shows "\<exists>t family. u_tokenFamily u = Some family \<and> RefreshToken_execute x tok s =
      (Inr (signAccess x (u_id u) (u_email u) (u_role u) (now s),
            signRefresh x (u_id u) family (randomHex x (nextId s)) (now s)), t) \<and>
    userOf (rp_sub p) t = Some (rotated x family s u) \<and> faults t = [] \<and> now t = now s \<and>
    nextId t = nextId s + 2"
proof -
  have uid: "u_id u = rp_sub p"
    using find_SomeD [OF assms(3)] by simp
  obtain family where fam: "u_tokenFamily u = Some family"
    using assms(5) by (cases "u_tokenFamily u") (auto simp: sameField_def)
  have "List.find (\<lambda>v. u_id v = rp_sub p)
      (updateFirst (\<lambda>v. u_id v = rp_sub p) (\<lambda>v. v\<lparr>u_refreshTokenHash := Some (bcryptHash x (Suc (nextId s))
        (signRefresh x (rp_sub p) family (randomHex x (nextId s)) (now s))),
       u_tokenFamily := Some family, u_currentTokenId := Some (randomHex x (nextId s))\<rparr>) (users (db s)))
      = Some (rotated x family s u)"
    using uid by (subst find_updateFirst_id [OF assms(3)]) (simp_all add: rotated_def)
  with assms(1-7) uid fam show ?thesis
    by (simp add: RefreshToken_execute_def bnd_run andThen_run UserRepository_findByIdWithRefreshToken_def
        RefreshToken_rotate_def generateAccessToken_def generateRefreshToken_def bcryptHashNew_def
        UserRepository_updateRefreshToken_def)
qed

text \<open>
  C3: A refresh token works once. After it was exchanged, presenting it again is answered with
  401 ``reuse detected'' and ends the session: the token that was issued in exchange is refused
  as well.
\<close>

theorem refresh_token_single_use:
  assumes nf: "faults s = []" and draws: "freshDraws x" and law: "refreshLaw x life" "0 < life"
    and old: "\<And>u n. u \<in> set (users (db s)) \<Longrightarrow> nextId s \<le> n \<Longrightarrow> u_currentTokenId u \<noteq> Some (randomHex x n)"
    and first: "RefreshToken_execute x tok s = (Inr (access, tok'), t)"
  shows "\<exists>t'. RefreshToken_execute x tok t = (Inl (Unauthorized ''Refresh token reuse detected''), t') \<and>
    fst (RefreshToken_execute x tok' t') = Inl (Unauthorized ''Refresh Token Not Found'')"
proof -
  from first nf obtain p u h where p: "verifyRefresh x tok (now s) = Some p"
    and u: "userOf (rp_sub p) s = Some u" and h: "u_refreshTokenHash u = Some h"
    and ok: "sameField (rp_family p) (u_tokenFamily u)" "sameField (rp_jti p) (u_currentTokenId u)"
      "bcryptCompare x tok h"
    by (auto simp: RefreshToken_execute_def bnd_run andThen_run refreshFailed_def reuseDetected_def
        UserRepository_findByIdWithRefreshToken_def UserRepository_clearRefreshToken_def
        split: option.splits if_splits)
  from refresh_rotates [OF nf p u h ok] first obtain family where
    tok': "tok' = signRefresh x (u_id u) family (randomHex x (nextId s)) (now s)"
    and u': "userOf (rp_sub p) t = Some (rotated x family s u)" and t: "faults t = []" "now t = now s"
    by auto
  from find_SomeD [OF u] have uid: "u_id u = rp_sub p" and mem: "u \<in> set (users (db s))"
    by simp_all
  have "\<not> sameField (rp_jti p) (u_currentTokenId (rotated x family s u))"
    using ok(2) old [OF mem, of "nextId s"] by (auto simp: sameField_def rotated_def)
  then obtain t' where t': "RefreshToken_execute x tok t = (Inl (Unauthorized ''Refresh token reuse detected''), t')"
    "userOf (rp_sub p) t' = Some (noSession (rotated x family s u))" "faults t' = []" "now t' = now s"
    using refresh_reuse [OF t(1) _ u', of x tok] p t(2) by (auto simp: rotated_def)
  have "verifyRefresh x tok' (now t') = Some \<lparr>rp_sub = rp_sub p, rp_family = Some family,
      rp_jti = Some (randomHex x (nextId s))\<rparr>"
    using law tok' t'(4) uid by (auto simp: refreshLaw_def)
  from refresh_no_session [OF t'(3) this] t'(2)
  have "fst (RefreshToken_execute x tok' t') = Inl (Unauthorized ''Refresh Token Not Found'')"
    by simp
  with t'(1) show ?thesis by blast
qed

text \<open>A user with a session, whose refresh token is \<open>demoToken\<close>.\<close>

definition demoToken :: string where
  "demoToken = signRefresh demoExt 1 ''fam'' ''jti'' 0"

definition demoUser :: userDoc where
  "demoUser = \<lparr>u_id = 1, u_email = ''ann@x.org'', u_password = ''secret'', u_role = ''user'',
     u_refreshTokenHash = Some (take 72 demoToken), u_tokenFamily = Some ''fam'',
     u_currentTokenId = Some ''jti'', u_emailVerified = True, u_evTokenHash = None,
     u_evExpiresAt = None, u_prTokenHash = Some ''hreset'', u_prExpiresAt = Some 5000\<rparr>"

definition demoSession :: world where
  "demoSession = world0\<lparr>db := emptyDb\<lparr>users := [demoUser]\<rparr>\<rparr>"

lemma demoSession_sel [simp]:
  "faults demoSession = []" "users (db demoSession) = [demoUser]" "now demoSession = 1000"
  "nextId demoSession = 100" "failedLogins demoSession e = None"
  by (simp_all add: demoSession_def)

theorem refresh_token_single_use_witness:
  "\<exists>a tok' t t'. RefreshToken_execute demoExt demoToken demoSession = (Inr (a, tok'), t) \<and>
     RefreshToken_execute demoExt demoToken t = (Inl (Unauthorized ''Refresh token reuse detected''), t') \<and>
     fst (RefreshToken_execute demoExt tok' t') = Inl (Unauthorized ''Refresh Token Not Found'')"
proof -
  have "userOf 1 demoSession = Some demoUser"
    by (simp add: demoUser_def)
  then obtain a tok' t where first: "RefreshToken_execute demoExt demoToken demoSession = (Inr (a, tok'), t)"
    using refresh_rotates [of demoSession demoExt demoToken
        "\<lparr>rp_sub = 1, rp_family = Some ''fam'', rp_jti = Some ''jti''\<rparr>" demoUser "take 72 demoToken"]
    by (auto simp: demoToken_def demoUser_def sameField_def)
  have "u_currentTokenId demoUser \<noteq> Some (randomHex demoExt n)" if "100 \<le> n" for n
    using that by (auto simp: demoUser_def demoHex_def dest: arg_cong [where f = length])
  with refresh_token_single_use [of demoSession demoExt 1, OF _ demoExt_laws(1) demoExt_refreshLaw _ _ first]
    first show ?thesis
    by auto
qed

section \<open>Logging in\<close>

text \<open>
  C20: Whatever calls fail, tokens are handed out only to an address that is not blocked, for
  the stored password of the account with exactly that address, and only once its e-mail is
  verified.
\<close>

theorem login_sound:
  assumes "Login_execute x email password ip s = (Inr tokens, t)"
  shows "\<exists>u\<in>set (users (db s)). u_email u = email \<and> bcryptCompare x password (u_password u) \<and>
    u_emailVerified u \<and>
    (case liveCounter (now s) (failedLogins s (loginKey email)) of None \<Rightarrow> True | Some (n, _) \<Rightarrow> n < 5)"
proof -
  have err: "andThen m (throw e) r \<noteq> (Inr y, u)" for m :: "unit wprog" and e r u and y :: "string \<times> string"
    by (auto simp: ok_iff)
  have err2: "andThen m (andThen n (throw e)) r \<noteq> (Inr y, u)"
    for m n :: "unit wprog" and e r u and y :: "string \<times> string"
    by (auto simp: ok_iff)
  from assms obtain s1 where blocked: "isBlocked email s = (Inr False, s1)"
    and rest: "\<exists>u s2. UserRepository_findByEmail email s1 = (Inr (Some u), s2) \<and>
      bcryptCompare x password (u_password u) \<and> u_emailVerified u"
    unfolding Login_execute_def
    by (auto simp: bnd_ok err err2 split: if_splits option.splits)
  from blocked have same: "db s1 = db s"
    and nb: "case liveCounter (now s) (failedLogins s (loginKey email)) of None \<Rightarrow> True | Some (n, _) \<Rightarrow> n < 5"
    by (auto simp: isBlocked_def io_ok loginMaxAttempts_def split: option.splits)
  from rest obtain u where "List.find (\<lambda>u. u_email u = email) (users (db s1)) = Some u"
    "bcryptCompare x password (u_password u)" "u_emailVerified u"
    by (auto simp: UserRepository_findByEmail_def bnd_ok dest!: usersC.findOne_ok)
  with nb same show ?thesis
    by (auto dest!: find_SomeD)
qed

definition opened :: "ext \<Rightarrow> world \<Rightarrow> userDoc \<Rightarrow> userDoc" where
  "opened x s u = u\<lparr>
     u_refreshTokenHash := Some (bcryptHash x (Suc (Suc (nextId s)))
        (signRefresh x (u_id u) (randomHex x (nextId s)) (randomHex x (Suc (nextId s))) (now s))),
     u_tokenFamily := Some (randomHex x (nextId s)), u_currentTokenId := Some (randomHex x (Suc (nextId s)))\<rparr>"

lemma login_run:
  assumes "faults s = []" and "fst (isBlocked email s) = Inr False"
    and "List.find (\<lambda>u. u_email u = email) (users (db s)) = Some u" and "userOf (u_id u) s = Some u"
    and "bcryptCompare x password (u_password u)" and "u_emailVerified u"
  shows "\<exists>t. Login_execute x email password ip s =
      (Inr (signAccess x (u_id u) (u_email u) (u_role u) (now s),
            signRefresh x (u_id u) (randomHex x (nextId s)) (randomHex x (Suc (nextId s))) (now s)), t) \<and>
    userOf (u_id u) t = Some (opened x s u) \<and> faults t = [] \<and> now t = now s \<and>
    failedLogins t (loginKey email) = None"
proof -
  have "isBlocked email s = (Inr False, s)"
    using assms(1,2) by (simp add: isBlocked_def)
  moreover have "List.find (\<lambda>v. u_id v = u_id u)
      (updateFirst (\<lambda>v. u_id v = u_id u) (\<lambda>v. v\<lparr>u_refreshTokenHash := Some (bcryptHash x (Suc (Suc (nextId s)))
        (signRefresh x (u_id u) (randomHex x (nextId s)) (randomHex x (Suc (nextId s))) (now s))),
       u_tokenFamily := Some (randomHex x (nextId s)),
       u_currentTokenId := Some (randomHex x (Suc (nextId s)))\<rparr>) (users (db s)))
      = Some (opened x s u)"
    by (subst find_updateFirst_id [OF assms(4)]) (simp_all add: opened_def)
  ultimately show ?thesis
    using assms
    by (simp add: Login_execute_def bnd_run andThen_run UserRepository_findByEmail_def
        generateAccessToken_def generateRefreshToken_def bcryptHashNew_def resetFailures_def
        UserRepository_updateRefreshToken_def)
qed

theorem login_sound_witness:
  "\<exists>tokens t. Login_execute demoExt ''ann@x.org'' ''secret'' None demoSession = (Inr tokens, t) \<and>
     (\<exists>u\<in>set (users (db demoSession)). u_email u = ''ann@x.org'' \<and> u_emailVerified u)"
proof -
  have "fst (isBlocked ''ann@x.org'' demoSession) = Inr False"
    by (simp add: isBlocked_def liveCounter_def)
  then obtain tokens t where "Login_execute demoExt ''ann@x.org'' ''secret'' None demoSession = (Inr tokens, t)"
    using login_run [of demoSession "''ann@x.org''" demoUser demoExt "''secret''" None]
    by (auto simp: demoUser_def)
  with login_sound [OF this] show ?thesis
    by blast
qed

text \<open>
  Without failures, the right password of a verified, not blocked account logs in, clears
  the count of failed logins, and the refresh token it hands out can be exchanged for as long
  as it lives.
\<close>

theorem login_opens_session:
  assumes "faults s = []" and "bcryptLaw x" and "refreshLaw x life" and "0 \<le> d" and "d < life"
    and "fst (isBlocked email s) = Inr False"
    and "List.find (\<lambda>u. u_email u = email) (users (db s)) = Some u" and "userOf (u_id u) s = Some u"
    and "bcryptCompare x password (u_password u)" and "u_emailVerified u"
  shows "\<exists>access tok t. Login_execute x email password ip s = (Inr (access, tok), t) \<and>
    failedLogins t (loginKey email) = None \<and>
    (\<exists>access' tok' t'. RefreshToken_execute x tok (t\<lparr>now := now t + d\<rparr>) = (Inr (access', tok'), t'))"
proof -
  let ?tok = "signRefresh x (u_id u) (randomHex x (nextId s)) (randomHex x (Suc (nextId s))) (now s)"
  obtain t where t: "Login_execute x email password ip s =
      (Inr (signAccess x (u_id u) (u_email u) (u_role u) (now s), ?tok), t)"
    and u: "userOf (u_id u) t = Some (opened x s u)" and f: "faults t = []" "now t = now s"
      "failedLogins t (loginKey email) = None"
    using login_run [OF assms(1,6-10)] by blast
  let ?t = "t\<lparr>now := now t + d\<rparr>"
  have v: "verifyRefresh x ?tok (now ?t) = Some \<lparr>rp_sub = u_id u, rp_family = Some (randomHex x (nextId s)),
      rp_jti = Some (randomHex x (Suc (nextId s)))\<rparr>"
    using assms(3-5) f(2) by (auto simp: refreshLaw_def)
  have "\<exists>t' family. RefreshToken_execute x ?tok ?t = (Inr (signAccess x (u_id (opened x s u))
      (u_email (opened x s u)) (u_role (opened x s u)) (now ?t),
      signRefresh x (u_id (opened x s u)) family (randomHex x (nextId ?t)) (now ?t)), t')"
    using refresh_rotates [of ?t x ?tok _ "opened x s u"] v u f assms(2)
    by (fastforce simp: opened_def sameField_def bcryptLaw_def)
  with t f(3) show ?thesis by blast
qed

theorem login_opens_session_witness:
  "\<exists>access tok t. Login_execute demoExt ''ann@x.org'' ''secret'' None demoSession = (Inr (access, tok), t)"
proof -
  have "fst (isBlocked ''ann@x.org'' demoSession) = Inr False"
    by (simp add: isBlocked_def liveCounter_def)
  then show ?thesis
    using login_opens_session [of demoSession demoExt 10 3 "''ann@x.org''" demoUser "''secret''" None,
        OF _ demoExt_laws(2) demoExt_refreshLaw]
    by (auto simp: demoUser_def)
qed

section \<open>Tokens that are mailed\<close>

text \<open>
  C21: A password reset token works once. A successful reset stores the new password, ends the
  session and forgets the token: using the token again is refused, with any password and at any
  later time.
\<close>

theorem reset_token_single_use:
  assumes nf: "faults s = []"
    and uniq: "\<And>u v. u \<in> set (users (db s)) \<Longrightarrow> v \<in> set (users (db s)) \<Longrightarrow>
      u_prTokenHash u = Some (sha256 x token) \<Longrightarrow> u_prTokenHash v = Some (sha256 x token) \<Longrightarrow> u = v"
    and ids: "distinct (map u_id (users (db s)))"
    and first: "ResetPassword_execute x token new s = (Inr msg, t)"
  shows "(\<exists>u\<in>set (users (db t)). u_password u = bcryptHash x (nextId s) new \<and>
      u_refreshTokenHash u = None \<and> u_currentTokenId u = None) \<and>
    (\<forall>later pw. fst (ResetPassword_execute x token pw (t\<lparr>now := later\<rparr>)) =
      Inl (BadRequest ''Invalid or expired password reset token''))"
proof -
  let ?h = "sha256 x token"
  let ?p = "\<lambda>u. u_prTokenHash u = Some ?h \<and> after (now s) (u_prExpiresAt u)"
  have ne: "token \<noteq> []"
    using first nf by (auto simp: ResetPassword_execute_def andThen_run)
  obtain u where u: "List.find ?p (users (db s)) = Some u"
    using first nf ne
    by (cases "List.find ?p (users (db s))")
      (simp_all add: ResetPassword_execute_def bnd_run andThen_run UserRepository_findByPasswordResetToken_def)
  from find_SomeD [OF u] have mem: "u \<in> set (users (db s))" and h: "u_prTokenHash u = Some ?h"
    by simp_all
  let ?q = "\<lambda>v. u_id v = u_id u"
  let ?f = "\<lambda>v. v\<lparr>u_password := bcryptHash x (nextId s) new, u_prTokenHash := None,
    u_prExpiresAt := None, u_refreshTokenHash := None, u_tokenFamily := None, u_currentTokenId := None\<rparr>"
  have upd: "updateFirst ?q f (users (db s)) = map (\<lambda>v. if u_id v = u_id u then f u else v) (users (db s))" for f
    by (rule updateFirst_key [OF ids mem]) auto
  have upd2: "updateFirst ?q g (updateFirst ?q f xs) = updateFirst ?q (g \<circ> f) xs"
    if "\<And>v. u_id (f v) = u_id v" for f g and xs :: "userDoc list"
    by (induction xs) (auto simp: that)
  have fin: "users (db t) = updateFirst ?q ?f (users (db s))" and t: "faults t = []"
    using first nf ne u
    by (auto simp: ResetPassword_execute_def bnd_run andThen_run UserRepository_findByPasswordResetToken_def
        bcryptHashNew_def UserRepository_updatePassword_def UserRepository_clearPasswordResetToken_def
        UserRepository_clearRefreshToken_def upd2 comp_def)
  have "?f u \<in> set (users (db t))"
    unfolding fin upd using mem by (auto intro: rev_image_eqI)
  then have "\<exists>u\<in>set (users (db t)). u_password u = bcryptHash x (nextId s) new \<and>
      u_refreshTokenHash u = None \<and> u_currentTokenId u = None"
    by (rule rev_bexI) simp
  moreover have "u_prTokenHash v \<noteq> Some ?h" if "v \<in> set (users (db t))" for v
    using that uniq [OF _ mem _ h] unfolding fin upd by (auto split: if_splits)
  then have "List.find (\<lambda>v. u_prTokenHash v = Some ?h \<and> after later (u_prExpiresAt v)) (users (db t)) = None" for later
    by (simp add: find_None_iff_all)
  then have "\<forall>later pw. fst (ResetPassword_execute x token pw (t\<lparr>now := later\<rparr>)) =
      Inl (BadRequest ''Invalid or expired password reset token'')"
    using t ne
    by (simp add: ResetPassword_execute_def bnd_run andThen_run UserRepository_findByPasswordResetToken_def)
  ultimately show ?thesis by blast
qed

theorem reset_token_single_use_witness:
  "\<exists>msg t. ResetPassword_execute demoExt ''reset'' ''new'' demoSession = (Inr msg, t) \<and>
     fst (ResetPassword_execute demoExt ''reset'' ''newer'' (t\<lparr>now := 1001\<rparr>)) =
       Inl (BadRequest ''Invalid or expired password reset token'')"
proof -
  obtain msg t where first: "ResetPassword_execute demoExt ''reset'' ''new'' demoSession = (Inr msg, t)"
    by (simp add: ResetPassword_execute_def bnd_run andThen_run UserRepository_findByPasswordResetToken_def
        demoUser_def after_def bcryptHashNew_def UserRepository_updatePassword_def
        UserRepository_clearPasswordResetToken_def UserRepository_clearRefreshToken_def)
  with reset_token_single_use [OF _ _ _ first] show ?thesis
    by auto
qed

section \<open>Addresses with capital letters\<close>

lemma register_users:
  assumes "faults s = []" and "RegisterUser_execute x email password s = (Inr user, t)"
  shows "\<exists>u. users (db t) = users (db s) @ [u] \<and> u_email u = email \<and> faults t = []"
  using assms
  by (auto simp: RegisterUser_execute_def bnd_run andThen_run UserRepository_findByEmail_def Let_def
      bcryptHashNew_def UserRepository_createUser_def EmailDeliveryRepository_create_def
      requestEmail_def OutboxService_create_def OutboxRepository_create_def orThrow_def
      split: option.splits if_splits prod.splits sum.splits)

text \<open>
  Registration stores the address as it was typed, password reset looks it up in lower
  case: an account registered with a capital letter can never ask for a reset. The command
  answers as if all was well and does nothing.
\<close>

theorem capital_letters_no_reset:
  assumes "faults s = []" and "toLowerCase email \<noteq> email"
    and "\<forall>u\<in>set (users (db s)). u_email u \<noteq> toLowerCase email"
    and "RegisterUser_execute x email password s = (Inr user, t)"
  shows "(\<exists>u\<in>set (users (db t)). u_email u = email) \<and> ForgotPassword_execute x email t = (Inr forgotMessage, t)"
proof -
  obtain u where t: "users (db t) = users (db s) @ [u]" "u_email u = email" "faults t = []"
    using register_users [OF assms(1,4)] by blast
  then have "List.find (\<lambda>u. u_email u = toLowerCase email) (users (db t)) = None"
    using assms(2,3) by (auto simp: find_None_iff_all)
  with t show ?thesis
    by (simp add: ForgotPassword_execute_def bnd_run UserRepository_findByEmailWithoutPassword_def)
qed

theorem capital_letters_no_reset_witness:
  "\<exists>user t. RegisterUser_execute demoExt ''Bob@x.org'' ''pw'' world0 = (Inr user, t) \<and>
     ForgotPassword_execute demoExt ''Bob@x.org'' t = (Inr forgotMessage, t)"
proof -
  obtain user t where reg: "RegisterUser_execute demoExt ''Bob@x.org'' ''pw'' world0 = (Inr user, t)"
    by (simp add: RegisterUser_execute_def bnd_run andThen_run UserRepository_findByEmail_def Let_def
        bcryptHashNew_def UserRepository_createUser_def EmailDeliveryRepository_create_def
        requestEmail_def OutboxService_create_def OutboxRepository_create_def)
  have "toLowerCase ''Bob@x.org'' \<noteq> ''Bob@x.org''"
    by code_simp
  with reg capital_letters_no_reset [OF _ _ _ reg] show ?thesis
    by auto
qed

end
