(* ===== verification/Workspace.thy ===== *)
theory Workspace
  imports Users
begin

text \<open>
  The workspace module (\<open>src/workspace\<close>): its five repositories, the feature-flag and
  settings services, and the commands and queries on workspaces, members and invitations.
\<close>

section \<open>WorkspaceRepository\<close>

definition rememberWs :: "cacheKey \<Rightarrow> world \<Rightarrow> world" where
  "rememberWs k s = s\<lparr>workspaceKeys := addKey k (workspaceKeys s)\<rparr>"

fun unWorkspace :: "cacheVal \<Rightarrow> workspaceDoc option option" where
  "unWorkspace (CVWorkspace w) = Some (Some w)"
| "unWorkspace _ = None"

fun unWorkspaces :: "cacheVal \<Rightarrow> workspaceDoc list option" where
  "unWorkspaces (CVWorkspaces ws) = Some ws"
| "unWorkspaces _ = None"

text \<open>The setters of the schema: a slug and an invited address are lower case and trimmed, in a query too.\<close>

definition lowerTrim :: "string \<Rightarrow> string" where
  "lowerTrim s = trim (toLowerCase s)"

definition WorkspaceRepository_clearCache :: "unit wprog" where
  "WorkspaceRepository_clearCache = clearKeys workspaceKeys workspaceKeys_update"

definition WorkspaceRepository_create :: "string \<Rightarrow> string \<Rightarrow> oid \<Rightarrow> workspaceDoc wprog" where
  "WorkspaceRepository_create name slug ownerId =
     bnd freshId (\<lambda>i.
     let w = \<lparr>w_id = i, w_name = trim name, w_slug = lowerTrim slug, w_owner = ownerId\<rparr> in
     andThen (insertUnique workspaces workspaces_update (\<lambda>v. w_slug v = w_slug w) w)
     (andThen WorkspaceRepository_clearCache (ret w)))"

definition WorkspaceRepository_findById :: "oid \<Rightarrow> workspaceDoc option wprog" where
  "WorkspaceRepository_findById i =
     readThrough (CKWorkspace i) unWorkspace (map_option CVWorkspace) 60000 (rememberWs (CKWorkspace i))
       (findOne workspaces (\<lambda>w. w_id w = i))"

definition WorkspaceRepository_findByOwner :: "oid \<Rightarrow> workspaceDoc list wprog" where
  "WorkspaceRepository_findByOwner ownerId =
     readThrough (CKWorkspacesOwner ownerId) unWorkspaces (\<lambda>ws. Some (CVWorkspaces ws)) 60000
       (rememberWs (CKWorkspacesOwner ownerId)) (findDocs workspaces (\<lambda>w. w_owner w = ownerId))"

definition WorkspaceRepository_findByIds :: "oid list \<Rightarrow> workspaceDoc list wprog" where
  "WorkspaceRepository_findByIds ids = (let k = CKWorkspacesIds (sort ids) in
     readThrough k unWorkspaces (\<lambda>ws. Some (CVWorkspaces ws)) 60000 (rememberWs k)
       (findDocs workspaces (\<lambda>w. w_id w \<in> set ids)))"

definition WorkspaceRepository_findBySlug :: "string \<Rightarrow> workspaceDoc option wprog" where
  "WorkspaceRepository_findBySlug slug =
     readThrough (CKWorkspaceSlug slug) unWorkspace (map_option CVWorkspace) 60000
       (rememberWs (CKWorkspaceSlug slug)) (findOne workspaces (\<lambda>w. w_slug w = lowerTrim slug))"

section \<open>MembershipRepository\<close>

definition rememberMb :: "cacheKey \<Rightarrow> world \<Rightarrow> world" where
  "rememberMb k s = s\<lparr>membershipKeys := addKey k (membershipKeys s)\<rparr>"

fun unMembership :: "cacheVal \<Rightarrow> membershipDoc option option" where
  "unMembership (CVMembership m) = Some (Some m)"
| "unMembership _ = None"

fun unMemberships :: "cacheVal \<Rightarrow> membershipDoc list option" where
  "unMemberships (CVMemberships ms) = Some ms"
| "unMemberships _ = None"

definition MembershipRepository_clearCache :: "unit wprog" where
  "MembershipRepository_clearCache = clearKeys membershipKeys membershipKeys_update"

definition sameMember :: "oid \<Rightarrow> oid \<Rightarrow> membershipDoc \<Rightarrow> bool" where
  "sameMember workspaceId userId m \<longleftrightarrow> m_workspaceId m = workspaceId \<and> m_userId m = userId"

text \<open>\<open>error?.code === 11000\<close>: only the unique index on (workspaceId, userId) is reported as a conflict.\<close>

definition duplicateIs :: "string \<Rightarrow> err \<Rightarrow> 'a wprog" where
  "duplicateIs message e = (case e of DuplicateKey _ \<Rightarrow> throw (Conflict message) | _ \<Rightarrow> throw e)"

definition MembershipRepository_create :: "oid \<Rightarrow> oid \<Rightarrow> workspaceRole \<Rightarrow> membershipDoc wprog" where
  "MembershipRepository_create workspaceId userId role =
     tryCatch
       (bnd freshId (\<lambda>i.
        let m = \<lparr>m_id = i, m_workspaceId = workspaceId, m_userId = userId, m_role = role, m_status = MActive\<rparr> in
        andThen (insertUnique memberships memberships_update (sameMember workspaceId userId) m)
        (andThen MembershipRepository_clearCache (ret m))))
       (duplicateIs ''User is already a member of this workspace'')"

definition MembershipRepository_findByWorkspaceAndUser :: "oid \<Rightarrow> oid \<Rightarrow> membershipDoc option wprog" where
  "MembershipRepository_findByWorkspaceAndUser workspaceId userId =
     (let k = CKMembership workspaceId userId in
      readThrough k unMembership (map_option CVMembership) 30000 (rememberMb k)
        (findOne memberships (sameMember workspaceId userId)))"

definition MembershipRepository_findByUser :: "oid \<Rightarrow> membershipDoc list wprog" where
  "MembershipRepository_findByUser userId =
     (let k = CKMembershipsUser userId in
      readThrough k unMemberships (\<lambda>ms. Some (CVMemberships ms)) 30000 (rememberMb k)
        (findDocs memberships (\<lambda>m. m_userId m = userId)))"

definition MembershipRepository_findByWorkspace :: "oid \<Rightarrow> membershipDoc list wprog" where
  "MembershipRepository_findByWorkspace workspaceId =
     (let k = CKMembershipsWorkspace workspaceId in
      readThrough k unMemberships (\<lambda>ms. Some (CVMemberships ms)) 30000 (rememberMb k)
        (findDocs memberships (\<lambda>m. m_workspaceId m = workspaceId)))"

definition MembershipRepository_exists :: "oid \<Rightarrow> oid \<Rightarrow> bool wprog" where
  "MembershipRepository_exists workspaceId userId =
     bnd (findOne memberships (sameMember workspaceId userId)) (\<lambda>m. ret (m \<noteq> None))"

section \<open>InvitationRepository\<close>

definition rememberInv :: "cacheKey \<Rightarrow> world \<Rightarrow> world" where
  "rememberInv k s = s\<lparr>invitationKeys := addKey k (invitationKeys s)\<rparr>"

fun unInvitations :: "cacheVal \<Rightarrow> invitationDoc list option" where
  "unInvitations (CVInvitations is) = Some is"
| "unInvitations _ = None"

text \<open>\<open>tokenHash\<close> is \<open>select: false\<close>.\<close>

definition withoutHash :: "invitationDoc \<Rightarrow> invitationDoc" where
  "withoutHash d = d\<lparr>i_tokenHash := []\<rparr>"

definition InvitationRepository_clearCache :: "unit wprog" where
  "InvitationRepository_clearCache = clearKeys invitationKeys invitationKeys_update"

definition InvitationRepository_create ::
  "oid \<Rightarrow> string \<Rightarrow> workspaceRole \<Rightarrow> string \<Rightarrow> time \<Rightarrow> oid \<Rightarrow> invitationDoc wprog" where
  "InvitationRepository_create workspaceId email role tokenHash expiresAt invitedBy =
     bnd freshId (\<lambda>i.
     let inv = \<lparr>i_id = i, i_workspaceId = workspaceId, i_email = lowerTrim (toLowerCase email), i_role = role,
                i_tokenHash = tokenHash, i_expiresAt = expiresAt, i_status = IPending,
                i_invitedBy = invitedBy\<rparr> in
     andThen (insertOne invitations invitations_update inv)
     (andThen InvitationRepository_clearCache (ret inv)))"

definition InvitationRepository_findByTokenHash :: "string \<Rightarrow> invitationDoc option wprog" where
  "InvitationRepository_findByTokenHash tokenHash = findOne invitations (\<lambda>inv. i_tokenHash inv = tokenHash)"

definition InvitationRepository_findPendingByEmail :: "string \<Rightarrow> invitationDoc list wprog" where
  "InvitationRepository_findPendingByEmail email =
     (let normalizedEmail = toLowerCase email; k = CKInvitationsEmail normalizedEmail in
      readThrough k unInvitations (\<lambda>is. Some (CVInvitations is)) 30000 (rememberInv k)
        (bnd (findDocs invitations (\<lambda>inv. i_email inv = lowerTrim normalizedEmail \<and> i_status inv = IPending))
          (\<lambda>is. ret (map withoutHash is))))"

definition InvitationRepository_findPendingByWorkspace :: "oid \<Rightarrow> invitationDoc list wprog" where
  "InvitationRepository_findPendingByWorkspace workspaceId =
     (let k = CKInvitationsWorkspace workspaceId in
      readThrough k unInvitations (\<lambda>is. Some (CVInvitations is)) 30000 (rememberInv k)
        (bnd (findDocs invitations (\<lambda>inv. i_workspaceId inv = workspaceId \<and> i_status inv = IPending))
          (\<lambda>is. ret (map withoutHash is))))"

definition InvitationRepository_updateStatus :: "oid \<Rightarrow> invitationStatus \<Rightarrow> invitationDoc option wprog" where
  "InvitationRepository_updateStatus i status =
     bnd (findOneAndUpdate invitations invitations_update (\<lambda>inv. i_id inv = i) (\<lambda>inv. inv\<lparr>i_status := status\<rparr>)) (\<lambda>inv.
     andThen InvitationRepository_clearCache (ret (map_option withoutHash inv)))"

definition InvitationRepository_markAccepted :: "oid \<Rightarrow> unit wprog" where
  "InvitationRepository_markAccepted i =
     andThen (findOneAndUpdate invitations invitations_update
       (\<lambda>inv. i_id inv = i \<and> i_status inv = IPending) (\<lambda>inv. inv\<lparr>i_status := IAccepted\<rparr>))
     InvitationRepository_clearCache"

definition InvitationRepository_markDeclined :: "oid \<Rightarrow> unit wprog" where
  "InvitationRepository_markDeclined i =
     andThen (findOneAndUpdate invitations invitations_update
       (\<lambda>inv. i_id inv = i \<and> i_status inv = IPending) (\<lambda>inv. inv\<lparr>i_status := IDeclined\<rparr>))
     InvitationRepository_clearCache"

section \<open>Feature flags\<close>

definition defaultFlags :: "featureFlag \<Rightarrow> bool" where
  "defaultFlags f = (f \<noteq> AdvancedTaskFiltering)"

definition overlay :: "('k \<Rightarrow> 'v option) \<Rightarrow> ('k \<Rightarrow> 'v option) \<Rightarrow> 'k \<Rightarrow> 'v option" where
  "overlay base patch k = (case patch k of None \<Rightarrow> base k | Some v \<Rightarrow> Some v)"

definition FlagsRepository_findByWorkspaceId :: "oid \<Rightarrow> flagsDoc option wprog" where
  "FlagsRepository_findByWorkspaceId workspaceId = findOne flags (\<lambda>f. ff_workspaceId f = workspaceId)"

definition FlagsRepository_create :: "flagsDoc \<Rightarrow> flagsDoc wprog" where
  "FlagsRepository_create entity =
     andThen (insertUnique flags flags_update (\<lambda>f. ff_workspaceId f = ff_workspaceId entity) entity) (ret entity)"

definition FlagsRepository_update :: "oid \<Rightarrow> (featureFlag \<Rightarrow> bool option) \<Rightarrow> flagsDoc wprog" where
  "FlagsRepository_update workspaceId patch =
     bnd (findOneAndUpdate flags flags_update (\<lambda>f. ff_workspaceId f = workspaceId)
           (\<lambda>f. f\<lparr>ff_flags := overlay (ff_flags f) patch\<rparr>)) (\<lambda>doc.
     orThrow doc (PlainError (''Feature flags not found for workspace '' @ oidString workspaceId)))"

definition FeatureFlagsService_isEnabled :: "oid \<Rightarrow> featureFlag \<Rightarrow> bool wprog" where
  "FeatureFlagsService_isEnabled workspaceId flag =
     bnd (FlagsRepository_findByWorkspaceId workspaceId) (\<lambda>configuration. case configuration of
       None \<Rightarrow> ret (defaultFlags flag)
     | Some c \<Rightarrow> ret (case ff_flags c flag of None \<Rightarrow> False | Some b \<Rightarrow> b))"

definition FeatureFlagsService_getFlags :: "oid \<Rightarrow> (featureFlag \<Rightarrow> bool option) wprog" where
  "FeatureFlagsService_getFlags workspaceId =
     bnd (FlagsRepository_findByWorkspaceId workspaceId) (\<lambda>configuration. case configuration of
       None \<Rightarrow> ret (\<lambda>f. Some (defaultFlags f))
     | Some c \<Rightarrow> ret (overlay (\<lambda>f. Some (defaultFlags f)) (ff_flags c)))"

definition FeatureFlagsService_createDefaultConfiguration :: "oid \<Rightarrow> flagsDoc wprog" where
  "FeatureFlagsService_createDefaultConfiguration workspaceId =
     bnd (FlagsRepository_findByWorkspaceId workspaceId) (\<lambda>existing. case existing of
       Some e \<Rightarrow> ret e
     | None \<Rightarrow> FlagsRepository_create \<lparr>ff_workspaceId = workspaceId, ff_flags = (\<lambda>f. Some (defaultFlags f))\<rparr>)"

definition FeatureFlagsService_updateFlags :: "oid \<Rightarrow> (featureFlag \<Rightarrow> bool option) \<Rightarrow> flagsDoc wprog" where
  "FeatureFlagsService_updateFlags workspaceId patch =
     bnd (FlagsRepository_findByWorkspaceId workspaceId) (\<lambda>existing. case existing of
       None \<Rightarrow> FlagsRepository_create
         \<lparr>ff_workspaceId = workspaceId, ff_flags = overlay (\<lambda>f. Some (defaultFlags f)) patch\<rparr>
     | Some _ \<Rightarrow> FlagsRepository_update workspaceId patch)"

text \<open>The body of the request: each field of the DTO may be \<open>undefined\<close>.\<close>

record flagsDto =
  fd_webhooks :: "bool option"
  fd_exports :: "bool option"
  fd_reminders :: "bool option"
  fd_emailNotifications :: "bool option"
  fd_advancedTaskFiltering :: "bool option"

definition UpdateFeatureFlags_execute :: "oid \<Rightarrow> flagsDto \<Rightarrow> flagsDoc wprog" where
  "UpdateFeatureFlags_execute workspaceId dto = FeatureFlagsService_updateFlags workspaceId
     (\<lambda>f. case f of Webhooks \<Rightarrow> fd_webhooks dto | Exports \<Rightarrow> fd_exports dto
       | Reminders \<Rightarrow> fd_reminders dto | EmailNotifications \<Rightarrow> fd_emailNotifications dto
       | AdvancedTaskFiltering \<Rightarrow> fd_advancedTaskFiltering dto)"

definition GetFeatureFlags_execute :: "oid \<Rightarrow> (featureFlag \<Rightarrow> bool option) wprog" where
  "GetFeatureFlags_execute = FeatureFlagsService_getFlags"

section \<open>Settings\<close>

record settingsDto =
  sd_timezone :: "string option"
  sd_defaultTaskPriority :: "taskPriority option"
  sd_defaultTaskStatus :: "taskStatus option"
  sd_emailNotifications :: "bool option"
  sd_taskAssignmentNotifications :: "bool option"

definition orElse :: "'a option \<Rightarrow> 'a \<Rightarrow> 'a" where
  "orElse x d = (case x of None \<Rightarrow> d | Some v \<Rightarrow> v)"

definition defaultSettings :: "oid \<Rightarrow> settingsDoc" where
  "defaultSettings workspaceId = \<lparr>ws_workspaceId = workspaceId, ws_timezone = ''UTC'',
     ws_defaultTaskPriority = Medium, ws_defaultTaskStatus = Pending, ws_emailNotifications = True,
     ws_taskAssignmentNotifications = True\<rparr>"

definition patchSettings :: "settingsDto \<Rightarrow> settingsDoc \<Rightarrow> settingsDoc" where
  "patchSettings dto w = w\<lparr>
     ws_timezone := orElse (sd_timezone dto) (ws_timezone w),
     ws_defaultTaskPriority := orElse (sd_defaultTaskPriority dto) (ws_defaultTaskPriority w),
     ws_defaultTaskStatus := orElse (sd_defaultTaskStatus dto) (ws_defaultTaskStatus w),
     ws_emailNotifications := orElse (sd_emailNotifications dto) (ws_emailNotifications w),
     ws_taskAssignmentNotifications :=
       orElse (sd_taskAssignmentNotifications dto) (ws_taskAssignmentNotifications w)\<rparr>"

definition SettingsRepository_findByWorkspaceId :: "oid \<Rightarrow> settingsDoc option wprog" where
  "SettingsRepository_findByWorkspaceId workspaceId = findOne settings (\<lambda>w. ws_workspaceId w = workspaceId)"

definition SettingsRepository_create :: "settingsDoc \<Rightarrow> settingsDoc wprog" where
  "SettingsRepository_create w =
     andThen (insertUnique settings settings_update (\<lambda>v. ws_workspaceId v = ws_workspaceId w) w) (ret w)"

definition SettingsRepository_update :: "oid \<Rightarrow> settingsDto \<Rightarrow> settingsDoc wprog" where
  "SettingsRepository_update workspaceId dto =
     bnd (findOneAndUpdate settings settings_update (\<lambda>w. ws_workspaceId w = workspaceId) (patchSettings dto)) (\<lambda>doc.
     orThrow doc (PlainError (''Workspace settings not found for workspace '' @ oidString workspaceId)))"

definition SettingsService_getSettings :: "oid \<Rightarrow> settingsDoc wprog" where
  "SettingsService_getSettings workspaceId =
     bnd (SettingsRepository_findByWorkspaceId workspaceId) (\<lambda>existing. case existing of
       Some e \<Rightarrow> ret e
     | None \<Rightarrow> SettingsRepository_create (defaultSettings workspaceId))"

definition SettingsService_createDefaultSettings :: "oid \<Rightarrow> settingsDoc wprog" where
  "SettingsService_createDefaultSettings workspaceId =
     bnd (SettingsRepository_findByWorkspaceId workspaceId) (\<lambda>existing. case existing of
       Some e \<Rightarrow> ret e
     | None \<Rightarrow> SettingsRepository_create (defaultSettings workspaceId))"

definition SettingsService_updateSettings :: "oid \<Rightarrow> settingsDto \<Rightarrow> settingsDoc wprog" where
  "SettingsService_updateSettings workspaceId dto =
     bnd (SettingsRepository_findByWorkspaceId workspaceId) (\<lambda>existing. case existing of
       None \<Rightarrow> SettingsRepository_create (patchSettings dto (defaultSettings workspaceId))
     | Some _ \<Rightarrow> SettingsRepository_update workspaceId dto)"

section \<open>Commands\<close>

definition CreateWorkspace_execute :: "string \<Rightarrow> string \<Rightarrow> oid \<Rightarrow> workspaceDoc wprog" where
  "CreateWorkspace_execute name slug ownerId =
     bnd (WorkspaceRepository_findBySlug slug) (\<lambda>existingWorkspace.
     andThen (throwIf (existingWorkspace \<noteq> None) (Conflict ''Workspace slug already exists''))
     (bnd (WorkspaceRepository_create name slug ownerId) (\<lambda>workspace.
     andThen (MembershipRepository_create (w_id workspace) ownerId Owner)
     (andThen (FeatureFlagsService_createDefaultConfiguration (w_id workspace))
     (andThen (SettingsService_createDefaultSettings (w_id workspace))
     (andThen (AuditService_log (Some ownerId) ''WORKSPACE_CREATED'' ''WORKSPACE'' (Some (w_id workspace)) None None)
       (ret workspace)))))))"

fun roleString :: "workspaceRole \<Rightarrow> string" where
  "roleString Owner = ''OWNER''"
| "roleString Admin = ''ADMIN''"
| "roleString Member = ''MEMBER''"
| "roleString Viewer = ''VIEWER''"

definition AddMember_execute :: "oid \<Rightarrow> oid \<Rightarrow> workspaceRole \<Rightarrow> oid \<Rightarrow> membershipDoc wprog" where
  "AddMember_execute workspaceId userId role actorId =
     bnd (WorkspaceRepository_findById workspaceId) (\<lambda>workspace.
     andThen (throwIf (workspace = None) (NotFound ''Workspace not found''))
     (bnd (MembershipRepository_findByWorkspaceAndUser workspaceId actorId) (\<lambda>actorMembership.
     andThen (throwIf (actorMembership = None) (Forbidden ''You are not a member of this workspace''))
     (andThen (throwIf (role = Owner) (BadRequest ''Owner membership cannot be assigned through this operation''))
     (bnd (MembershipRepository_findByWorkspaceAndUser workspaceId userId) (\<lambda>existingMembership.
     andThen (throwIf (existingMembership \<noteq> None) (Conflict ''User is already a member of this workspace''))
     (bnd (MembershipRepository_create workspaceId userId role) (\<lambda>membership.
     andThen (AuditService_log (Some actorId) ''MEMBER_ADDED'' ''MEMBERSHIP'' (Some workspaceId) None
       (Some [(''memberId'', JStr (oidString userId)), (''role'', JStr (roleString role))]))
       (ret membership)))))))))"

definition CreateInvitation_execute ::
  "ext \<Rightarrow> oid \<Rightarrow> string \<Rightarrow> workspaceRole \<Rightarrow> oid \<Rightarrow> invitationDoc wprog" where
  "CreateInvitation_execute x workspaceId email role invitedBy =
     bnd (WorkspaceRepository_findById workspaceId) (\<lambda>found.
     bnd (orThrow found (NotFound ''Workspace not found'')) (\<lambda>workspace.
     bnd (MembershipRepository_findByWorkspaceAndUser workspaceId invitedBy) (\<lambda>actorMembership.
     andThen (throwIf (actorMembership = None) (Forbidden ''You are not a member of this workspace''))
     (andThen (throwIf (role = Owner) (BadRequest ''Owner role cannot be assigned through an invitation''))
     (bnd (UserRepository_findByEmailWithoutPassword email) (\<lambda>user.
     bnd (orThrow user (NotFound ''User with this email does not exist'')) (\<lambda>invitedUser.
     bnd (MembershipRepository_findByWorkspaceAndUser workspaceId (u_id invitedUser)) (\<lambda>existingMembership.
     andThen (throwIf (existingMembership \<noteq> None) (Conflict ''User is already a member of this workspace''))
     (bnd (InvitationRepository_findPendingByEmail email) (\<lambda>pendingInvitations.
     andThen (throwIf (\<exists>inv\<in>set pendingInvitations. i_workspaceId inv = workspaceId)
       (Conflict ''A pending invitation already exists for this user''))
     (bnd (randomString x) (\<lambda>rawToken.
     bnd (gets now) (\<lambda>t.
     let expiresAt = t + 24 * 60 * 60 * 1000 in
     bnd (InvitationRepository_create workspaceId email role (sha256 x rawToken) expiresAt invitedBy) (\<lambda>invitation.
     andThen (sendWorkspaceInvitation email (w_name workspace) rawToken (Some expiresAt))
     (andThen (AuditService_log (Some invitedBy) ''INVITATION_CREATED'' ''INVITATION'' (Some workspaceId) None
       (Some [(''invitedUserId'', JStr (oidString (u_id invitedUser))), (''role'', JStr (roleString role))]))
       (ret (withoutHash invitation)))))))))))))))))"

text \<open>What accept and decline check first; both read the invitation and the user.\<close>

definition checkInvitation :: "ext \<Rightarrow> string \<Rightarrow> oid \<Rightarrow> invitationDoc wprog" where
  "checkInvitation x token userId =
     bnd (InvitationRepository_findByTokenHash (sha256 x token)) (\<lambda>found.
     bnd (orThrow found (NotFound ''Invalid invitation'')) (\<lambda>invitation.
     bnd (UserRepository_findById userId) (\<lambda>foundUser.
     bnd (orThrow foundUser (NotFound ''User not found'')) (\<lambda>user.
     andThen (throwIf (toLowerCase (u_email user) \<noteq> toLowerCase (i_email invitation))
       (Forbidden ''This invitation was sent to a different email address''))
     (andThen (throwIf (i_status invitation \<noteq> IPending) (Conflict ''Invitation is no longer pending''))
     (bnd (gets now) (\<lambda>t.
     andThen (throwIf (i_expiresAt invitation < t) (Conflict ''Invitation has expired''))
       (ret invitation))))))))"

definition roleMeta :: "workspaceRole \<Rightarrow> props option" where
  "roleMeta role = Some [(''role'', JStr (roleString role))]"

text \<open>The transaction of the accept command, and the call that opens its session.\<close>

definition startSession :: "unit wprog" where
  "startSession = io (ret ())"

definition acceptTransaction :: "invitationDoc \<Rightarrow> oid \<Rightarrow> membershipDoc wprog" where
  "acceptTransaction invitation userId = withTransaction
     (bnd (MembershipRepository_create (i_workspaceId invitation) userId (i_role invitation)) (\<lambda>createdMembership.
      andThen (InvitationRepository_markAccepted (i_id invitation))
      (andThen (AuditService_log (Some userId) ''INVITATION_ACCEPTED'' ''INVITATION''
                 (Some (i_workspaceId invitation)) None (roleMeta (i_role invitation)))
        (ret createdMembership))))"

definition AcceptInvitation_execute :: "ext \<Rightarrow> string \<Rightarrow> oid \<Rightarrow> membershipDoc wprog" where
  "AcceptInvitation_execute x token userId =
     bnd (checkInvitation x token userId) (\<lambda>invitation.
     bnd (MembershipRepository_findByWorkspaceAndUser (i_workspaceId invitation) userId) (\<lambda>existingMembership.
     andThen (throwIf (existingMembership \<noteq> None) (Conflict ''You are already a member of this workspace''))
     (andThen startSession (acceptTransaction invitation userId))))"

definition DeclineInvitation_execute :: "ext \<Rightarrow> string \<Rightarrow> oid \<Rightarrow> string wprog" where
  "DeclineInvitation_execute x token userId =
     bnd (checkInvitation x token userId) (\<lambda>invitation.
     andThen (InvitationRepository_markDeclined (i_id invitation))
     (andThen (AuditService_log (Some userId) ''INVITATION_DECLINED'' ''INVITATION''
                (Some (i_workspaceId invitation)) None (roleMeta (i_role invitation)))
       (ret ''Invitation declined successfully'')))"

section \<open>Queries\<close>

definition activeMember :: "membershipDoc option \<Rightarrow> bool" where
  "activeMember m = (case m of None \<Rightarrow> False | Some d \<Rightarrow> m_status d = MActive)"

definition GetWorkspace_execute :: "oid \<Rightarrow> oid \<Rightarrow> workspaceDoc wprog" where
  "GetWorkspace_execute workspaceId userId =
     bnd (MembershipRepository_findByWorkspaceAndUser workspaceId userId) (\<lambda>membership.
     andThen (throwIf (\<not> activeMember membership) (NotFound ''Workspace not found''))
     (bnd (WorkspaceRepository_findById workspaceId) (\<lambda>workspace.
       orThrow workspace (NotFound ''Workspace not found''))))"

definition GetWorkspaceMembers_execute :: "oid \<Rightarrow> oid \<Rightarrow> membershipDoc list wprog" where
  "GetWorkspaceMembers_execute workspaceId userId =
     bnd (MembershipRepository_findByWorkspaceAndUser workspaceId userId) (\<lambda>membership.
     andThen (throwIf (\<not> activeMember membership) (NotFound ''Workspace not found''))
       (MembershipRepository_findByWorkspace workspaceId))"

definition GetWorkspaces_execute :: "oid \<Rightarrow> workspaceDoc list wprog" where
  "GetWorkspaces_execute userId =
     bnd (MembershipRepository_findByUser userId) (\<lambda>ms.
     if ms = [] then ret [] else WorkspaceRepository_findByIds (map m_workspaceId ms))"

definition GetPendingInvitations_execute :: "oid \<Rightarrow> invitationDoc list wprog" where
  "GetPendingInvitations_execute userId =
     bnd (UserRepository_findById userId) (\<lambda>found.
     bnd (orThrow found (NotFound ''User not found'')) (\<lambda>user.
       InvitationRepository_findPendingByEmail (u_email user)))"

end
