(* ===== verification/MembershipCache.thy ===== *)
theory MembershipCache
  imports Workspace
begin

text \<open>
  The three cached reads of the membership repository and the write that clears them: as long
  as one process serves the requests and the cache answers, a read never returns a stale
  membership. The locale \<open>cache_aside\<close> is interpreted for each read.
\<close>

section \<open>The three reads\<close>

lemma rememberMb_frame:
  "db (rememberMb k s) = db s" "cache (rememberMb k s) = cache s" "now (rememberMb k s) = now s"
  "faults (rememberMb k s) = faults s"
  by (simp_all add: rememberMb_def)

definition oneKey :: "oid \<times> oid \<Rightarrow> cacheKey" where
  "oneKey a = CKMembership (fst a) (snd a)"

definition oneAnswer :: "oid \<times> oid \<Rightarrow> database \<Rightarrow> membershipDoc option" where
  "oneAnswer a d = List.find (sameMember (fst a) (snd a)) (memberships d)"

definition userAnswer :: "oid \<Rightarrow> database \<Rightarrow> membershipDoc list" where
  "userAnswer u d = filter (\<lambda>m. m_userId m = u) (memberships d)"

definition workspaceAnswer :: "oid \<Rightarrow> database \<Rightarrow> membershipDoc list" where
  "workspaceAnswer w d = filter (\<lambda>m. m_workspaceId m = w) (memberships d)"

interpretation oneC: cache_aside oneKey unMembership "map_option CVMembership" oneAnswer 30000 rememberMb
  "\<lambda>a. findOne memberships (sameMember (fst a) (snd a))"
  by unfold_locales (auto simp: oneKey_def oneAnswer_def rememberMb_frame prod_eq_iff)

interpretation userC: cache_aside CKMembershipsUser unMemberships "\<lambda>ms. Some (CVMemberships ms)" userAnswer
  30000 rememberMb "\<lambda>u. findDocs memberships (\<lambda>m. m_userId m = u)"
  by unfold_locales (auto simp: userAnswer_def rememberMb_frame)

interpretation workspaceC: cache_aside CKMembershipsWorkspace unMemberships "\<lambda>ms. Some (CVMemberships ms)"
  workspaceAnswer 30000 rememberMb "\<lambda>w. findDocs memberships (\<lambda>m. m_workspaceId m = w)"
  by unfold_locales (auto simp: workspaceAnswer_def rememberMb_frame)

lemma read_forms:
  "MembershipRepository_findByWorkspaceAndUser w u =
     readThrough (oneKey (w, u)) unMembership (map_option CVMembership) 30000 (rememberMb (oneKey (w, u)))
       (findOne memberships (sameMember (fst (w, u)) (snd (w, u))))"
  "MembershipRepository_findByUser u =
     readThrough (CKMembershipsUser u) unMemberships (\<lambda>ms. Some (CVMemberships ms)) 30000
       (rememberMb (CKMembershipsUser u)) (findDocs memberships (\<lambda>m. m_userId m = u))"
  "MembershipRepository_findByWorkspace w =
     readThrough (CKMembershipsWorkspace w) unMemberships (\<lambda>ms. Some (CVMemberships ms)) 30000
       (rememberMb (CKMembershipsWorkspace w)) (findDocs memberships (\<lambda>m. m_workspaceId m = w))"
  by (simp_all add: MembershipRepository_findByWorkspaceAndUser_def MembershipRepository_findByUser_def
      MembershipRepository_findByWorkspace_def oneKey_def Let_def)

section \<open>The invariant\<close>

fun mbKey :: "cacheKey \<Rightarrow> bool" where
  "mbKey (CKMembership _ _) = True"
| "mbKey (CKMembershipsUser _) = True"
| "mbKey (CKMembershipsWorkspace _) = True"
| "mbKey _ = False"

text \<open>Every live entry of the three reads is right, and its key is in the set the writes clear.\<close>

definition cacheInv :: "world \<Rightarrow> bool" where
  "cacheInv s \<longleftrightarrow> faults s = [] \<and>
     coherent oneKey unMembership oneAnswer s \<and>
     coherent CKMembershipsUser unMemberships userAnswer s \<and>
     coherent CKMembershipsWorkspace unMemberships workspaceAnswer s \<and>
     (\<forall>k. mbKey k \<longrightarrow> cacheLive s k \<noteq> None \<longrightarrow> k \<in> set (membershipKeys s))"

lemma coherent_frame:
  assumes "coherent key unpack answer s" and "db t = db s" and "\<And>a. cacheLive t (key a) = cacheLive s (key a)"
  shows "coherent key unpack answer t"
  using assms by (simp add: coherent_def)

text \<open>What a read through the cache does to the rest.\<close>

lemma readThrough_other:
  assumes "faults s = []" and "load s = (Inr x, s)"
  shows "db (snd (readThrough k unpack pack ttl (rememberMb k) load s)) = db s \<and>
    faults (snd (readThrough k unpack pack ttl (rememberMb k) load s)) = [] \<and>
    (\<forall>j. j \<noteq> k \<longrightarrow> cacheLive (snd (readThrough k unpack pack ttl (rememberMb k) load s)) j = cacheLive s j) \<and>
    set (membershipKeys s) \<subseteq> set (membershipKeys (snd (readThrough k unpack pack ttl (rememberMb k) load s))) \<and>
    (cacheLive (snd (readThrough k unpack pack ttl (rememberMb k) load s)) k = cacheLive s k \<or>
     k \<in> set (membershipKeys (snd (readThrough k unpack pack ttl (rememberMb k) load s))))"
proof -
  have live: "cacheLive (rememberMb k t) j = cacheLive t j" for t j
    by (simp add: rememberMb_frame cacheLive_cong [of "rememberMb k t" j t])
  have key: "set (membershipKeys (rememberMb k t)) = insert k (set (membershipKeys t))" for t
    by (auto simp: rememberMb_def addKey_def)
  show ?thesis
  proof (cases "Option.bind (cacheLive s k) unpack")
    case (Some y)
    with assms show ?thesis by (simp add: readThrough_def bnd_run)
  next
    case None
    with assms show ?thesis
      by (cases "pack x")
        (auto simp: readThrough_def bnd_run andThen_run rememberMb_frame live key cacheLive_set)
  qed
qed

lemma cacheInv_read:
  assumes inv: "cacheInv s" and k: "mbKey k" and load: "load s = (Inr x, s)"
    and one: "\<And>a. k = oneKey a \<Longrightarrow> coherent oneKey unMembership oneAnswer t"
    and user: "\<And>a. k = CKMembershipsUser a \<Longrightarrow> coherent CKMembershipsUser unMemberships userAnswer t"
    and ws: "\<And>a. k = CKMembershipsWorkspace a \<Longrightarrow> coherent CKMembershipsWorkspace unMemberships workspaceAnswer t"
    and t: "t = snd (readThrough k unpack pack ttl (rememberMb k) load s)"
  shows "cacheInv t"
proof -
  have nf: "faults s = []"
    using inv by (simp add: cacheInv_def)
  note r = readThrough_other [of s load x k unpack pack ttl, OF nf load, folded t]
  from r have dbt: "db t = db s" and other: "\<And>j. j \<noteq> k \<Longrightarrow> cacheLive t j = cacheLive s j"
    by simp_all
  from inv have c1: "coherent oneKey unMembership oneAnswer s"
    and c2: "coherent CKMembershipsUser unMemberships userAnswer s"
    and c3: "coherent CKMembershipsWorkspace unMemberships workspaceAnswer s"
    by (simp_all add: cacheInv_def)
  have "coherent oneKey unMembership oneAnswer t"
  proof (cases "\<exists>a. k = oneKey a")
    case False
    then show ?thesis
      by (intro coherent_frame [OF c1 dbt] other) blast
  qed (use one in blast)
  moreover have "coherent CKMembershipsUser unMemberships userAnswer t"
  proof (cases "\<exists>a. k = CKMembershipsUser a")
    case False
    then show ?thesis
      by (intro coherent_frame [OF c2 dbt] other) blast
  qed (use user in blast)
  moreover have "coherent CKMembershipsWorkspace unMemberships workspaceAnswer t"
  proof (cases "\<exists>a. k = CKMembershipsWorkspace a")
    case False
    then show ?thesis
      by (intro coherent_frame [OF c3 dbt] other) blast
  qed (use ws in blast)
  moreover have "j \<in> set (membershipKeys t)" if "mbKey j" and "cacheLive t j \<noteq> None" for j
    using that inv r by (cases "j = k") (auto simp: cacheInv_def)
  ultimately show ?thesis
    using r by (simp add: cacheInv_def)
qed

lemma cacheInv_reads:
  assumes "cacheInv s"
  shows "cacheInv (snd (MembershipRepository_findByWorkspaceAndUser w u s))"
    and "cacheInv (snd (MembershipRepository_findByUser u s))"
    and "cacheInv (snd (MembershipRepository_findByWorkspace w s))"
proof -
  have nf: "faults s = []" and one: "coherent oneKey unMembership oneAnswer s"
    and user: "coherent CKMembershipsUser unMemberships userAnswer s"
    and ws: "coherent CKMembershipsWorkspace unMemberships workspaceAnswer s"
    using assms by (simp_all add: cacheInv_def)
  show "cacheInv (snd (MembershipRepository_findByWorkspaceAndUser w u s))"
    unfolding read_forms
    by (rule cacheInv_read [OF assms _ _ _ _ _ HOL.refl])
      (use nf one oneC.coherent_after_read [of s "(w, u)"] in \<open>auto simp: oneKey_def\<close>)
  show "cacheInv (snd (MembershipRepository_findByUser u s))"
    unfolding read_forms
    by (rule cacheInv_read [OF assms _ _ _ _ _ HOL.refl])
      (use nf user userC.coherent_after_read [of s u] in \<open>auto simp: oneKey_def\<close>)
  show "cacheInv (snd (MembershipRepository_findByWorkspace w s))"
    unfolding read_forms
    by (rule cacheInv_read [OF assms _ _ _ _ _ HOL.refl])
      (use nf ws workspaceC.coherent_after_read [of s w] in \<open>auto simp: oneKey_def\<close>)
qed

lemma cacheInv_create:
  assumes "cacheInv s"
  shows "cacheInv (snd (MembershipRepository_create w u role s))"
proof -
  have nf: "faults s = []"
    using assms by (simp add: cacheInv_def)
  show ?thesis
  proof (cases "List.find (sameMember w u) (memberships (db s))")
    case (Some m)
    have live: "cacheLive (s\<lparr>nextId := n\<rparr>) k = cacheLive s k" for n k
      by (rule cacheLive_cong) simp_all
    from Some nf have "MembershipRepository_create w u role s =
        (Inl (Conflict ''User is already a member of this workspace''), s\<lparr>nextId := Suc (nextId s)\<rparr>)"
      by (simp add: MembershipRepository_create_def tryCatch_run bnd_run andThen_run Let_def duplicateIs_def)
    moreover have "cacheInv (s\<lparr>nextId := Suc (nextId s)\<rparr>)"
      using assms unfolding cacheInv_def coherent_def live by simp
    ultimately show ?thesis by simp
  next
    case None
    let ?m = "\<lparr>m_id = nextId s, m_workspaceId = w, m_userId = u, m_role = role, m_status = MActive\<rparr>"
    let ?t = "s\<lparr>nextId := Suc (nextId s), db := (db s)\<lparr>memberships := memberships (db s) @ [?m]\<rparr>,
      cache := cache s |` (- set (membershipKeys s)), membershipKeys := []\<rparr>"
    from None nf have run: "MembershipRepository_create w u role s = (Inr ?m, ?t)"
      by (simp add: MembershipRepository_create_def tryCatch_run bnd_run andThen_run Let_def
          MembershipRepository_clearCache_def clearKeys_run)
    have "cacheLive ?t k = None" if "mbKey k" for k
    proof (cases "k \<in> set (membershipKeys s)")
      case True
      then show ?thesis by (simp add: cacheLive_def)
    next
      case False
      with assms that have "cacheLive s k = None" by (auto simp: cacheInv_def)
      with False show ?thesis by (simp add: cacheLive_cong [of ?t k s])
    qed
    then have "cacheInv ?t"
      using nf by (simp add: cacheInv_def coherent_def oneKey_def)
    with run show ?thesis by simp
  qed
qed

text \<open>Any sequence of calls on the repository, with time passing in between.\<close>

datatype memOp = Create oid oid workspaceRole | FindOne oid oid | FindByUser oid | FindByWorkspace oid | Wait nat

fun runOp :: "memOp \<Rightarrow> world \<Rightarrow> world" where
  "runOp (Create w u role) s = snd (MembershipRepository_create w u role s)"
| "runOp (FindOne w u) s = snd (MembershipRepository_findByWorkspaceAndUser w u s)"
| "runOp (FindByUser u) s = snd (MembershipRepository_findByUser u s)"
| "runOp (FindByWorkspace w) s = snd (MembershipRepository_findByWorkspace w s)"
| "runOp (Wait d) s = s\<lparr>now := now s + int d\<rparr>"

lemma cacheInv_wait: "cacheInv s \<Longrightarrow> cacheInv (s\<lparr>now := now s + int d\<rparr>)"
proof -
  assume inv: "cacheInv s"
  let ?t = "s\<lparr>now := now s + int d\<rparr>"
  have mono: "cacheLive ?t k = Some v \<Longrightarrow> cacheLive s k = Some v" for k v
    by (auto simp: cacheLive_def split: option.splits if_splits)
  show ?thesis
    using inv mono unfolding cacheInv_def coherent_def by fastforce
qed

lemma cacheInv_ops: "cacheInv s \<Longrightarrow> cacheInv (fold runOp ops s)"
proof (induction ops arbitrary: s)
  case (Cons op ops)
  have "cacheInv (runOp op s)"
    using Cons.prems by (cases op) (auto intro: cacheInv_create cacheInv_reads cacheInv_wait)
  with Cons.IH show ?case by simp
qed simp

text \<open>
  C25: After any sequence of membership creations and cached lookups, with any time in between,
  a lookup answers exactly what the database holds: a new member is seen at once, although
  ``not a member'' or an older list may have been looked up just before.
\<close>

theorem membership_reads_never_stale:
  assumes "faults s = []" and "cache s = (\<lambda>_. None)" and "t = fold runOp ops s"
  shows "fst (MembershipRepository_findByWorkspaceAndUser w u t) =
      Inr (List.find (sameMember w u) (memberships (db t))) \<and>
    fst (MembershipRepository_findByUser u t) = Inr (filter (\<lambda>m. m_userId m = u) (memberships (db t))) \<and>
    fst (MembershipRepository_findByWorkspace w t) =
      Inr (filter (\<lambda>m. m_workspaceId m = w) (memberships (db t)))"
proof -
  have "cacheInv s"
    using assms(1,2) by (simp add: cacheInv_def coherent_def cacheLive_def)
  then have "cacheInv t"
    unfolding assms(3) by (rule cacheInv_ops)
  then show ?thesis
    unfolding read_forms cacheInv_def
    using oneC.coherent_read [of t "(w, u)"] userC.coherent_read [of t u] workspaceC.coherent_read [of t w]
    by (simp add: oneAnswer_def userAnswer_def workspaceAnswer_def)
qed

theorem membership_reads_never_stale_witness:
  "fst (MembershipRepository_findByUser 6 (fold runOp [FindByUser 6, FindOne 3 6, Create 3 6 Viewer, Wait 5] world0)) \<noteq> Inr []"
proof -
  let ?t = "fold runOp [FindByUser 6, FindOne 3 6, Create 3 6 Viewer, Wait 5] world0"
  have cache0: "cache world0 = (\<lambda>_. None)"
    by (simp add: fun_eq_iff)
  have "memberships (db ?t) \<noteq> [] \<and> (\<forall>m\<in>set (memberships (db ?t)). m_userId m = 6)"
    by (simp add: MembershipRepository_findByUser_def MembershipRepository_findByWorkspaceAndUser_def
        readThrough_def bnd_run andThen_run cacheLive_def Let_def rememberMb_def addKey_def
        MembershipRepository_create_def tryCatch_run MembershipRepository_clearCache_def clearKeys_run)
  moreover have "fst (MembershipRepository_findByUser 6 ?t) = Inr (filter (\<lambda>m. m_userId m = 6) (memberships (db ?t)))"
    by (rule membership_reads_never_stale [OF _ cache0 HOL.refl, THEN conjunct2, THEN conjunct1]) simp
  ultimately show ?thesis
    by (cases "memberships (db ?t)") auto
qed

end
