(* ===== verification/Categories.thy ===== *)
theory Categories
  imports Workspace
begin

text \<open>
  Task categories (\<open>src/categories\<close>): the repository with its cached reads and its update
  guarded by the expected version, and the commands and queries on it.
\<close>

section \<open>CategoryRepository\<close>

definition rememberCat :: "cacheKey \<Rightarrow> world \<Rightarrow> world" where
  "rememberCat k s = s\<lparr>categoryKeys := addKey k (categoryKeys s)\<rparr>"

fun unCategory :: "cacheVal \<Rightarrow> categoryDoc option option" where
  "unCategory (CVCategory c) = Some (Some c)"
| "unCategory _ = None"

fun unCategories :: "cacheVal \<Rightarrow> categoryDoc list option" where
  "unCategories (CVCategories cs) = Some cs"
| "unCategories _ = None"

definition CategoryRepository_clearCache :: "unit wprog" where
  "CategoryRepository_clearCache = clearKeys categoryKeys categoryKeys_update"

text \<open>A unique index on owner and name; name and color are trimmed.\<close>

definition CategoryRepository_create :: "string \<Rightarrow> string option \<Rightarrow> oid \<Rightarrow> categoryDoc wprog" where
  "CategoryRepository_create name color ownerId =
     bnd freshId (\<lambda>i.
     let c = \<lparr>c_id = i, c_name = trim name, c_color = map_option trim color, c_owner = ownerId, c_v = 0\<rparr> in
     andThen (insertUnique categories categories_update
       (\<lambda>d. c_owner d = ownerId \<and> c_name d = c_name c) c)
     (andThen CategoryRepository_clearCache (ret c)))"

definition CategoryRepository_findAll :: "oid \<Rightarrow> categoryDoc list wprog" where
  "CategoryRepository_findAll ownerId = (let k = CKCategories ownerId in
     readThrough k unCategories (\<lambda>cs. Some (CVCategories cs)) 60000 (rememberCat k)
       (findDocs categories (\<lambda>c. c_owner c = ownerId)))"

definition CategoryRepository_findById :: "oid \<Rightarrow> oid \<Rightarrow> categoryDoc option wprog" where
  "CategoryRepository_findById i ownerId = (let k = CKCategory ownerId i in
     readThrough k unCategory (map_option CVCategory) 60000 (rememberCat k)
       (findOne categories (\<lambda>c. c_id c = i \<and> c_owner c = ownerId)))"

definition CategoryRepository_findByIdForRole :: "oid \<Rightarrow> oid \<Rightarrow> string \<Rightarrow> categoryDoc option wprog" where
  "CategoryRepository_findByIdForRole i ownerId role = (let k = CKCategoryRole role ownerId i in
     readThrough k unCategory (map_option CVCategory) 60000 (rememberCat k)
       (findOne categories (\<lambda>c. c_id c = i \<and> (role = ''admin'' \<or> c_owner c = ownerId))))"

record categoryDto =
  cd_name :: "string option"
  cd_color :: "string option"

definition patchCategory :: "categoryDto \<Rightarrow> categoryDoc \<Rightarrow> categoryDoc" where
  "patchCategory dto c = c\<lparr>
     c_name := (case cd_name dto of None \<Rightarrow> c_name c | Some n \<Rightarrow> trim n),
     c_color := (case cd_color dto of None \<Rightarrow> c_color c | Some n \<Rightarrow> Some (trim n)),
     c_v := c_v c + 1\<rparr>"

text \<open>
  \<open>findOneAndUpdate\<close> on id, owner and version; the unique index rejects a name the owner
  already uses for another category.
\<close>

definition CategoryRepository_update :: "oid \<Rightarrow> oid \<Rightarrow> categoryDto \<Rightarrow> int \<Rightarrow> categoryDoc option wprog" where
  "CategoryRepository_update i ownerId dto expectedVersion =
     (let p = (\<lambda>c. c_id c = i \<and> c_owner c = ownerId \<and> c_v c = expectedVersion) in
     bnd (io (\<lambda>s. case List.find p (categories (db s)) of
         None \<Rightarrow> (Inr None, s)
       | Some c \<Rightarrow>
           if \<exists>d\<in>set (categories (db s)). c_id d \<noteq> i \<and> c_owner d = ownerId \<and> c_name d = c_name (patchCategory dto c)
           then (Inl (DuplicateKey ''E11000 duplicate key error''), s)
           else (Inr (Some (patchCategory dto c)),
                 s\<lparr>db := (db s)\<lparr>categories := updateFirst p (patchCategory dto) (categories (db s))\<rparr>\<rparr>))) (\<lambda>updated.
     andThen CategoryRepository_clearCache (ret updated)))"

definition CategoryRepository_delete :: "oid \<Rightarrow> oid \<Rightarrow> categoryDoc option wprog" where
  "CategoryRepository_delete i ownerId =
     bnd (findOneAndDelete categories categories_update (\<lambda>c. c_id c = i \<and> c_owner c = ownerId)) (\<lambda>deleted.
     andThen CategoryRepository_clearCache (ret deleted))"

section \<open>Commands and queries\<close>

definition CreateCategory_execute :: "string \<Rightarrow> string option \<Rightarrow> oid \<Rightarrow> categoryDoc wprog" where
  "CreateCategory_execute = CategoryRepository_create"

definition UpdateCategory_execute :: "oid \<Rightarrow> oid \<Rightarrow> categoryDto \<Rightarrow> int \<Rightarrow> categoryDoc wprog" where
  "UpdateCategory_execute i ownerId dto expectedVersion =
     bnd (CategoryRepository_findById i ownerId) (\<lambda>found.
     bnd (orThrow found (NotFound ''Category not found'')) (\<lambda>category.
     andThen (throwIf (c_v category \<noteq> expectedVersion)
       (Conflict ''Category has been modified. Please refresh and try again.''))
     (bnd (CategoryRepository_update i ownerId dto expectedVersion) (\<lambda>updated.
       orThrow updated (Conflict ''Category has been modified. Please refresh and try again.'')))))"

definition DeleteCategory_execute :: "oid \<Rightarrow> oid \<Rightarrow> string wprog" where
  "DeleteCategory_execute i ownerId =
     bnd (CategoryRepository_delete i ownerId) (\<lambda>deleted.
     andThen (throwIf (deleted = None) (NotFound ''Category not found''))
       (ret ''Category Deleted Successfully''))"

definition GetCategories_execute :: "oid \<Rightarrow> categoryDoc list wprog" where
  "GetCategories_execute = CategoryRepository_findAll"

definition GetCategory_execute :: "oid \<Rightarrow> oid \<Rightarrow> categoryDoc wprog" where
  "GetCategory_execute i ownerId =
     bnd (CategoryRepository_findById i ownerId) (\<lambda>found. orThrow found (NotFound ''Category not found''))"

section \<open>The version guard\<close>

lemma CategoryRepository_clearCache_sameDb: "stays sameDb CategoryRepository_clearCache"
  unfolding CategoryRepository_clearCache_def by (rule sameDb_clearKeys) simp

lemma CategoryRepository_findById_sameDb: "stays sameDb (CategoryRepository_findById i ownerId)"
  unfolding CategoryRepository_findById_def Let_def
  by (rule sameDb_readThrough) (simp_all add: sameDb_findOne rememberCat_def)

lemma CategoryRepository_update_ok:
  assumes "CategoryRepository_update i ownerId dto v s = (Inr (Some c), t)"
  shows "\<exists>d\<in>set (categories (db s)). c_id d = i \<and> c_owner d = ownerId \<and> c_v d = v \<and> c = patchCategory dto d \<and>
    db t = (db s)\<lparr>categories := updateFirst (\<lambda>c. c_id c = i \<and> c_owner c = ownerId \<and> c_v c = v)
      (patchCategory dto) (categories (db s))\<rparr>"
proof -
  let ?p = "\<lambda>c. c_id c = i \<and> c_owner c = ownerId \<and> c_v c = v"
  from assms obtain u where clear: "CategoryRepository_clearCache u = (Inr (), t)"
    and upd: "\<exists>d. List.find ?p (categories (db s)) = Some d \<and> c = patchCategory dto d \<and>
      db u = (db s)\<lparr>categories := updateFirst ?p (patchCategory dto) (categories (db s))\<rparr>"
    unfolding CategoryRepository_update_def Let_def
    by (auto simp: bnd_ok andThen_ok io_ok split: option.splits if_splits)
  then show ?thesis
    using sameDbD [OF CategoryRepository_clearCache_sameDb clear] by (auto dest: find_SomeD)
qed

lemma UpdateCategory_ok:
  assumes "UpdateCategory_execute i ownerId dto v s = (Inr c, t)"
  shows "\<exists>d\<in>set (categories (db s)). c_id d = i \<and> c_owner d = ownerId \<and> c_v d = v \<and> c = patchCategory dto d \<and>
    db t = (db s)\<lparr>categories := updateFirst (\<lambda>c. c_id c = i \<and> c_owner c = ownerId \<and> c_v c = v)
      (patchCategory dto) (categories (db s))\<rparr>"
proof -
  from assms obtain d u where 1: "CategoryRepository_findById i ownerId s = (Inr (Some d), u)"
    and 2: "CategoryRepository_update i ownerId dto v u = (Inr (Some c), t)"
    unfolding UpdateCategory_execute_def by (auto simp: bnd_ok andThen_ok orThrow_ok split: if_splits)
  then show ?thesis
    using CategoryRepository_update_ok [OF 2] sameDbD [OF CategoryRepository_findById_sameDb 1] by simp
qed

text \<open>
  Of several updates of a category that were made from the same version, at most one is
  applied. It succeeds only when the stored version is the expected one, changes that category
  alone and raises its version by one; from then on an update with the old version is answered
  with 409 or another error and leaves the database as it is.
\<close>

theorem category_update_once:
  assumes "UpdateCategory_execute i ownerId dto v s = (Inr c, t)"
    and "distinct (map c_id (categories (db s)))"
  shows "c_v c = v + 1 \<and>
    categories (db t) = map (\<lambda>d. if c_id d = i then c else d) (categories (db s)) \<and>
    (\<exists>e. fst (UpdateCategory_execute i ownerId dto' v (t\<lparr>faults := fs\<rparr>)) = Inl e) \<and>
    db (snd (UpdateCategory_execute i ownerId dto' v (t\<lparr>faults := fs\<rparr>))) = db t"
proof -
  let ?p = "\<lambda>c. c_id c = i \<and> c_owner c = ownerId \<and> c_v c = v"
  from UpdateCategory_ok [OF assms(1)] obtain d where d: "d \<in> set (categories (db s))" "?p d" "c = patchCategory dto d"
    and t: "categories (db t) = updateFirst ?p (patchCategory dto) (categories (db s))"
    by auto
  have "updateFirst ?p (patchCategory dto) (categories (db s)) =
      map (\<lambda>x. if c_id x = c_id d then patchCategory dto d else x) (categories (db s))"
    by (rule updateFirst_key [OF assms(2) d(1)]) (use d(2) in auto)
  with t d have map: "categories (db t) = map (\<lambda>d. if c_id d = i then c else d) (categories (db s))"
    by simp
  have cv: "c_v c = v + 1" "c_id c = i"
    using d by (simp_all add: patchCategory_def)
  have none: "List.find ?p (categories (db t)) = None"
    using cv unfolding map by (auto simp: find_None_iff_all)
  let ?t = "t\<lparr>faults := fs\<rparr>"
  have upd: "\<exists>r u. CategoryRepository_update i ownerId dto' v w = (r, u) \<and> db u = db t \<and> (\<forall>x. r \<noteq> Inr (Some x))"
    if w: "db w = db t" for w
  proof -
    obtain r u where run: "CategoryRepository_update i ownerId dto' v w = (r, u)"
      by (cases "CategoryRepository_update i ownerId dto' v w")
    have "r \<noteq> Inr (Some x)" for x
      using CategoryRepository_update_ok [of i ownerId dto' v w x u] run none w by (auto simp: find_None_iff_all)
    moreover have "db (snd (CategoryRepository_update i ownerId dto' v w)) = db t"
      unfolding CategoryRepository_update_def Let_def
    proof (rule snd_bnd [where P = "\<lambda>u. db u = db t"], goal_cases)
      case 1
      then show ?case using w none by (simp add: io_run split: list.splits option.splits)
    next
      case (2 x u)
      have "stays sameDb (andThen CategoryRepository_clearCache (ret x))"
        by (intro sameDb_rules CategoryRepository_clearCache_sameDb)
      from stays_snd [OF this, of u] 2 show ?case by (simp add: sameDb_def)
    qed
    ultimately show ?thesis using run by simp
  qed
  obtain r u where find: "CategoryRepository_findById i ownerId ?t = (r, u)"
    by (cases "CategoryRepository_findById i ownerId ?t")
  then have "db u = db t"
    using sameDbD [OF CategoryRepository_findById_sameDb find] by simp
  with upd [OF this] find have "(\<exists>e. fst (UpdateCategory_execute i ownerId dto' v ?t) = Inl e) \<and>
      db (snd (UpdateCategory_execute i ownerId dto' v ?t)) = db t"
    unfolding UpdateCategory_execute_def
    by (auto simp: bnd_run andThen_run orThrow_def split: sum.splits option.splits)
  with cv map show ?thesis by simp
qed

theorem category_update_once_witness:
  "\<exists>c t. UpdateCategory_execute 2 9 \<lparr>cd_name = Some ''ops'', cd_color = None\<rparr> 0
       (world0\<lparr>db := emptyDb\<lparr>categories := [\<lparr>c_id = 2, c_name = ''dev'', c_color = None, c_owner = 9, c_v = 0\<rparr>]\<rparr>\<rparr>) =
       (Inr c, t) \<and> c_v c = 1 \<and>
     (\<exists>e. fst (UpdateCategory_execute 2 9 \<lparr>cd_name = None, cd_color = Some ''red''\<rparr> 0 (t\<lparr>faults := []\<rparr>)) = Inl e)"
proof -
  let ?s = "world0\<lparr>db := emptyDb\<lparr>categories := [\<lparr>c_id = 2, c_name = ''dev'', c_color = None, c_owner = 9, c_v = 0\<rparr>]\<rparr>\<rparr>"
  obtain c t where run: "UpdateCategory_execute 2 9 \<lparr>cd_name = Some ''ops'', cd_color = None\<rparr> 0 ?s = (Inr c, t)"
    by (simp add: UpdateCategory_execute_def bnd_run andThen_run CategoryRepository_findById_def readThrough_def
        cacheLive_def Let_def CategoryRepository_update_def CategoryRepository_clearCache_def clearKeys_run
        rememberCat_def)
  from category_update_once [OF run, of "\<lparr>cd_name = None, cd_color = Some ''red''\<rparr>" "[]"] run show ?thesis
    by auto
qed

end
