(* ===== verification/Tasks.thy ===== *)
theory Tasks
  imports Categories
begin

text \<open>
  Tasks (\<open>src/task\<close>): the writing half of the repository and the commands that create, update,
  assign, comment and delete a task or change its attachments, with Mongoose's optimistic
  concurrency; and the activity log they write.
\<close>

section \<open>Fields and documents\<close>

fun priorityString :: "taskPriority \<Rightarrow> string" where
  "priorityString Low = ''low''"
| "priorityString Medium = ''medium''"
| "priorityString High = ''high''"

fun statusString :: "taskStatus \<Rightarrow> string" where
  "statusString Pending = ''pending''"
| "statusString InProgress = ''in-progress''"
| "statusString Done = ''done''"

definition statusValues :: "json list" where
  "statusValues = map (\<lambda>s. JStr (statusString s)) [Pending, InProgress, Done]"

definition priorityValues :: "json list" where
  "priorityValues = map (\<lambda>p. JStr (priorityString p)) [Low, Medium, High]"

text \<open>The validators of the schema: a title of at least three characters, the two enums.\<close>

definition validTask :: "taskDoc \<Rightarrow> bool" where
  "validTask t \<longleftrightarrow> (case t_title t of JStr s \<Rightarrow> 3 \<le> length s | _ \<Rightarrow> False) \<and>
     t_status t \<in> set (JUndef # JNull # statusValues) \<and> t_priority t \<in> set (JUndef # JNull # priorityValues)"

text \<open>\<open>Object.assign(task, updates)\<close> for the keys of the DTO.\<close>

definition setTaskField :: "string \<times> json \<Rightarrow> taskDoc \<Rightarrow> taskDoc" where
  "setTaskField kv t = (case kv of (k, v) \<Rightarrow>
     if k = ''title'' then t\<lparr>t_title := v\<rparr>
     else if k = ''description'' then t\<lparr>t_description := v\<rparr>
     else if k = ''status'' then t\<lparr>t_status := v\<rparr>
     else if k = ''priority'' then t\<lparr>t_priority := v\<rparr>
     else if k = ''dueDate'' then t\<lparr>t_dueDate := v\<rparr>
     else if k = ''category'' then t\<lparr>t_category := v\<rparr>
     else if k = ''tags'' then t\<lparr>t_tags := v\<rparr>
     else t)"

definition definedUpdates :: "props \<Rightarrow> props" where
  "definedUpdates dto = filter (\<lambda>(k, v). v \<noteq> JUndef) dto"

definition assignTask :: "props \<Rightarrow> taskDoc \<Rightarrow> taskDoc" where
  "assignTask dto t = fold setTaskField (definedUpdates dto) t"

text \<open>
  A task loaded by \<open>findAuthorizedTask\<close>: the document, the user that \<open>populate('owner')\<close>
  found, and the value of \<open>category\<close> after \<open>populate('category')\<close>.
\<close>

record loadedTask =
  lt_doc :: taskDoc
  lt_owner :: "userDoc option"
  lt_category :: json

definition taskField :: "loadedTask \<Rightarrow> string \<Rightarrow> json" where
  "taskField lt k = (let t = lt_doc lt in
     if k = ''title'' then t_title t
     else if k = ''description'' then t_description t
     else if k = ''status'' then t_status t
     else if k = ''priority'' then t_priority t
     else if k = ''dueDate'' then t_dueDate t
     else if k = ''category'' then lt_category lt
     else if k = ''tags'' then t_tags t
     else JUndef)"

text \<open>\<open>===\<close>: dates, ids, arrays and objects are compared by reference, so two of them differ.\<close>

fun strictEq :: "json \<Rightarrow> json \<Rightarrow> bool" where
  "strictEq JUndef JUndef = True"
| "strictEq JNull JNull = True"
| "strictEq (JBool a) (JBool b) = (a = b)"
| "strictEq (JNum a) (JNum b) = (a = b)"
| "strictEq (JStr a) (JStr b) = (a = b)"
| "strictEq _ _ = False"

definition taskChanges :: "loadedTask \<Rightarrow> props \<Rightarrow> (string \<times> json \<times> json) list" where
  "taskChanges lt dto = map (\<lambda>(k, v). (k, taskField lt k, v))
     (filter (\<lambda>(k, v). \<not> strictEq (taskField lt k) v) dto)"

section \<open>Mongoose's \<open>save\<close> with optimistic concurrency\<close>

text \<open>
  \<open>task.save()\<close> sends the paths that were modified since the document was loaded, on condition
  that the stored version is the loaded one, and raises the version. Without a modified path it
  only checks that the document is there.
\<close>

definition pick :: "('d \<Rightarrow> 'v) \<Rightarrow> 'd \<Rightarrow> 'd \<Rightarrow> 'd \<Rightarrow> 'v" where
  "pick f loaded doc cur = (if f doc = f loaded then f cur else f doc)"

definition taskDelta :: "taskDoc \<Rightarrow> taskDoc \<Rightarrow> taskDoc \<Rightarrow> taskDoc" where
  "taskDelta loaded doc cur = cur\<lparr>
     t_title := pick t_title loaded doc cur, t_description := pick t_description loaded doc cur,
     t_status := pick t_status loaded doc cur, t_priority := pick t_priority loaded doc cur,
     t_dueDate := pick t_dueDate loaded doc cur, t_category := pick t_category loaded doc cur,
     t_tags := pick t_tags loaded doc cur, t_isDeleted := pick t_isDeleted loaded doc cur,
     t_deletedAt := pick t_deletedAt loaded doc cur, t_comments := pick t_comments loaded doc cur,
     t_attachments := pick t_attachments loaded doc cur, t_assignees := pick t_assignees loaded doc cur,
     t_v := t_v cur + 1\<rparr>"

definition saveTask :: "taskDoc \<Rightarrow> taskDoc \<Rightarrow> taskDoc wprog" where
  "saveTask loaded doc =
     andThen (throwIf (\<not> validTask doc) (PlainError ''Task validation failed''))
     (io (\<lambda>s. let p = (\<lambda>t. t_id t = t_id loaded \<and> t_v t = t_v loaded) in
        (case List.find p (tasks (db s)) of
           None \<Rightarrow> (Inl (if doc = loaded then PlainError ''No document found for query''
                        else VersionError ''No matching document found''), s)
         | Some _ \<Rightarrow>
             if doc = loaded then (Inr doc, s)
             else (Inr (doc\<lparr>t_v := t_v loaded + 1\<rparr>),
                   s\<lparr>db := (db s)\<lparr>tasks := updateFirst p (taskDelta loaded doc) (tasks (db s))\<rparr>\<rparr>))))"

section \<open>TaskRepository\<close>

definition newTask :: "oid \<Rightarrow> time \<Rightarrow> props \<Rightarrow> oid \<Rightarrow> oid \<Rightarrow> taskDoc" where
  "newTask i t dto ownerId workspaceId =
     (let get = (\<lambda>k d. if jget dto k = JUndef then d else jget dto k) in
      \<lparr>t_id = i, t_v = 0, t_title = get ''title'' JUndef, t_description = get ''description'' JUndef,
       t_status = get ''status'' (JStr (statusString Pending)),
       t_priority = get ''priority'' (JStr (priorityString Medium)),
       t_dueDate = get ''dueDate'' JUndef, t_category = get ''category'' JUndef,
       t_tags = get ''tags'' (JArr []), t_isDeleted = False, t_deletedAt = None,
       t_reminderSent = False, t_comments = [], t_attachments = [], t_owner = ownerId,
       t_workspace = workspaceId, t_assignees = [], t_createdAt = t\<rparr>)"

definition TaskRepository_create :: "props \<Rightarrow> oid \<Rightarrow> oid \<Rightarrow> taskDoc wprog" where
  "TaskRepository_create taskData workspaceId ownerId =
     bnd freshId (\<lambda>i. bnd (gets now) (\<lambda>t.
     let task = newTask i t taskData ownerId workspaceId in
     andThen (throwIf (\<not> validTask task) (PlainError ''Task validation failed''))
     (andThen (insertOne tasks tasks_update task) (ret task))))"

definition inWorkspace :: "oid \<Rightarrow> oid \<Rightarrow> taskDoc \<Rightarrow> bool" where
  "inWorkspace i workspaceId t \<longleftrightarrow> t_id t = i \<and> t_workspace t = workspaceId \<and> \<not> t_isDeleted t"

definition TaskRepository_findById :: "oid \<Rightarrow> oid \<Rightarrow> taskDoc option wprog" where
  "TaskRepository_findById i workspaceId = findOne tasks (inWorkspace i workspaceId)"

definition categoryJson :: "categoryDoc \<Rightarrow> json" where
  "categoryJson c = JObj [(''_id'', JOid (c_id c)), (''name'', JStr (c_name c)),
     (''color'', case c_color c of None \<Rightarrow> JUndef | Some x \<Rightarrow> JStr x), (''owner'', JOid (c_owner c))]"

definition populateCategory :: "json \<Rightarrow> json wprog" where
  "populateCategory v = (case v of
     JOid c \<Rightarrow> bnd (findOne categories (\<lambda>d. c_id d = c)) (\<lambda>found.
       ret (case found of None \<Rightarrow> JNull | Some d \<Rightarrow> categoryJson d))
   | _ \<Rightarrow> ret v)"

definition TaskRepository_findAuthorizedTask :: "oid \<Rightarrow> oid \<Rightarrow> loadedTask wprog" where
  "TaskRepository_findAuthorizedTask i workspaceId =
     bnd (findOne tasks (inWorkspace i workspaceId)) (\<lambda>found.
     bnd (orThrow found (NotFound ''Task Not Found'')) (\<lambda>task.
     bnd (findOne users (\<lambda>u. u_id u = t_owner task)) (\<lambda>owner.
     bnd (populateCategory (t_category task)) (\<lambda>category.
       ret \<lparr>lt_doc = task, lt_owner = map_option selected owner, lt_category = category\<rparr>))))"

definition TaskRepository_update :: "oid \<Rightarrow> oid \<Rightarrow> props \<Rightarrow> taskDoc option wprog" where
  "TaskRepository_update i workspaceId dto =
     findOneAndUpdate tasks tasks_update (inWorkspace i workspaceId) (assignTask dto)"

definition TaskRepository_delete :: "oid \<Rightarrow> oid \<Rightarrow> unit wprog" where
  "TaskRepository_delete i workspaceId = bnd (gets now) (\<lambda>t.
     andThen (findOneAndUpdate tasks tasks_update (inWorkspace i workspaceId)
       (\<lambda>d. d\<lparr>t_isDeleted := True, t_deletedAt := Some t\<rparr>)) (ret ()))"

definition TaskRepository_clearCache :: "unit wprog" where
  "TaskRepository_clearCache = clearKeys taskKeys taskKeys_update"

text \<open>\<open>findById(taskId)\<close>, an error when there is none, a change in memory and \<open>save()\<close>.\<close>

definition loadAndSave :: "oid \<Rightarrow> (taskDoc \<Rightarrow> taskDoc wprog) \<Rightarrow> taskDoc wprog" where
  "loadAndSave i change =
     bnd (findOne tasks (\<lambda>t. t_id t = i)) (\<lambda>found.
     bnd (orThrow found (NotFound ''Task Not Found'')) (\<lambda>task.
     bnd (change task) (\<lambda>doc. saveTask task doc)))"

record uploadedFile =
  uf_filename :: string
  uf_mimetype :: string
  uf_size :: nat

definition TaskRepository_uploadAttachment :: "oid \<Rightarrow> uploadedFile \<Rightarrow> taskDoc wprog" where
  "TaskRepository_uploadAttachment taskId file = loadAndSave taskId (\<lambda>task.
     bnd freshId (\<lambda>a. ret (task\<lparr>t_attachments := t_attachments task @
       [\<lparr>a_id = a, a_filename = uf_filename file, a_mime = uf_mimetype file, a_size = uf_size file,
         a_url = ''/uploads/'' @ uf_filename file\<rparr>]\<rparr>)))"

definition TaskRepository_deleteAttachment :: "oid \<Rightarrow> oid \<Rightarrow> taskDoc wprog" where
  "TaskRepository_deleteAttachment taskId attachmentId = loadAndSave taskId (\<lambda>task.
     andThen (throwIf (\<not> (\<exists>a\<in>set (t_attachments task). a_id a = attachmentId)) (NotFound ''Attachment Not Found''))
       (ret (task\<lparr>t_attachments := filter (\<lambda>a. a_id a \<noteq> attachmentId) (t_attachments task)\<rparr>)))"

definition TaskRepository_addComment :: "oid \<Rightarrow> string \<Rightarrow> oid \<Rightarrow> taskDoc wprog" where
  "TaskRepository_addComment taskId body userId = loadAndSave taskId (\<lambda>task.
     bnd (gets now) (\<lambda>t. ret (task\<lparr>t_comments := t_comments task @
       [\<lparr>cm_author = userId, cm_body = trim body, cm_createdAt = t\<rparr>]\<rparr>)))"

definition TaskRepository_getAttachments :: "oid \<Rightarrow> taskDoc wprog" where
  "TaskRepository_getAttachments taskId = bnd (findOne tasks (\<lambda>t. t_id t = taskId)) (\<lambda>found.
     orThrow found (NotFound ''Task Not Found''))"

definition TaskRepository_getComments :: "oid \<Rightarrow> taskDoc wprog" where
  "TaskRepository_getComments taskId = bnd (findOne tasks (\<lambda>t. t_id t = taskId)) (\<lambda>found.
     orThrow found (NotFound ''Task Not Found''))"

definition TaskRepository_assignUsers :: "oid \<Rightarrow> oid list \<Rightarrow> taskDoc wprog" where
  "TaskRepository_assignUsers taskId userIds = loadAndSave taskId (\<lambda>task.
     ret (task\<lparr>t_assignees := userIds\<rparr>))"

section \<open>Activity log, gateway, event bus\<close>

definition ActivityRepository_create ::
  "oid \<Rightarrow> oid \<Rightarrow> string \<Rightarrow> string \<Rightarrow> (string \<times> json \<times> json) list option \<Rightarrow> unit wprog" where
  "ActivityRepository_create task user action description changes = bnd (gets now) (\<lambda>t.
     insertOne activities activities_update \<lparr>ac_task = task, ac_user = user, ac_action = action,
       ac_description = description, ac_changes = changes, ac_createdAt = t\<rparr>)"

definition emit :: "gatewayEvent \<Rightarrow> unit wprog" where
  "emit e = modify (\<lambda>s. s\<lparr>gateway := gateway s @ [e]\<rparr>)"

definition publishTaskCompleted :: "oid \<Rightarrow> oid \<Rightarrow> unit wprog" where
  "publishTaskCompleted task ownerId = modify (\<lambda>s. s\<lparr>published := published s @ [(task, ownerId)]\<rparr>)"

definition deleteFile :: "string \<Rightarrow> unit wprog" where
  "deleteFile url = modify (\<lambda>s. s\<lparr>files := (files s)(url := None)\<rparr>)"

definition taskMeta :: "oid \<Rightarrow> string \<times> json" where
  "taskMeta i = (''taskId'', JStr (oidString i))"

section \<open>Commands\<close>

text \<open>Membership of the caller, existence of the category.\<close>

definition CreateTask_check :: "props \<Rightarrow> oid \<Rightarrow> oid \<Rightarrow> unit wprog" where
  "CreateTask_check dto workspaceId userId =
     bnd (MembershipRepository_findByWorkspaceAndUser workspaceId userId) (\<lambda>membership.
     andThen (throwIf (membership = None) (Forbidden ''You are not a member of this workspace''))
     (case jget dto ''category'' of
         JOid c \<Rightarrow> bnd (CategoryRepository_findById c userId) (\<lambda>category.
           throwIf (category = None) (NotFound ''Category not found''))
       | _ \<Rightarrow> ret ()))"

definition CreateTask_transaction :: "props \<Rightarrow> oid \<Rightarrow> oid \<Rightarrow> taskDoc wprog" where
  "CreateTask_transaction dto workspaceId userId = withTransaction
     (bnd (TaskRepository_create dto workspaceId userId) (\<lambda>createdTask.
      andThen (ActivityRepository_create (t_id createdTask) userId ''created'' ''Task created'' None)
      (andThen (OutboxService_create None ''TASK_CREATED'' ''TASK'' (t_id createdTask) (Some workspaceId)
         [taskMeta (t_id createdTask), (''ownerId'', JStr (oidString (t_owner createdTask))),
          (''title'', t_title createdTask)])
        (ret createdTask))))"

definition CreateTask_execute :: "props \<Rightarrow> oid \<Rightarrow> oid \<Rightarrow> taskDoc wprog" where
  "CreateTask_execute dto workspaceId userId =
     andThen (CreateTask_check dto workspaceId userId)
     (andThen startSession
     (bnd (CreateTask_transaction dto workspaceId userId) (\<lambda>task.
     andThen (AuditService_log (Some userId) ''TASK_CREATED'' ''TASK'' (Some workspaceId) None (Some [taskMeta (t_id task)]))
     (andThen TaskRepository_clearCache
     (andThen (emit (TaskCreated userId (t_id task))) (ret task))))))"

text \<open>The first half of the update: everything before the session is opened.\<close>

definition UpdateTask_load :: "oid \<Rightarrow> props \<Rightarrow> oid \<Rightarrow> string \<Rightarrow> oid \<Rightarrow> int \<Rightarrow> loadedTask wprog" where
  "UpdateTask_load taskId dto userId role workspaceId expectedVersion =
     andThen (case jget dto ''category'' of
         JOid c \<Rightarrow> bnd (CategoryRepository_findByIdForRole c userId role) (\<lambda>category.
           throwIf (category = None) (NotFound ''Category not found''))
       | _ \<Rightarrow> ret ())
     (bnd (TaskRepository_findAuthorizedTask taskId workspaceId) (\<lambda>task.
     andThen (throwIf (t_v (lt_doc task) \<noteq> expectedVersion)
       (PreconditionFailed ''Task has been modified. Please refresh and try again.''))
       (ret task)))"

text \<open>\<open>catch (error) { if (error.name === 'VersionError') throw new PreconditionFailedException(...); throw error; }\<close>\<close>

definition versionToPrecondition :: "err \<Rightarrow> 'a wprog" where
  "versionToPrecondition e = (case e of
     VersionError _ \<Rightarrow> throw (PreconditionFailed ''Task has been modified. Please refresh and try again.'')
   | _ \<Rightarrow> throw e)"

definition UpdateTask_transaction :: "loadedTask \<Rightarrow> props \<Rightarrow> oid \<Rightarrow> oid \<Rightarrow> bool \<Rightarrow> taskDoc wprog" where
  "UpdateTask_transaction lt dto userId workspaceId taskCompleted = withTransaction
     (bnd (tryCatch (saveTask (lt_doc lt) (assignTask dto (lt_doc lt))) versionToPrecondition) (\<lambda>saved.
      andThen (whenP taskCompleted
        (AuditService_log (Some userId) ''TASK_COMPLETED'' ''TASK'' (Some workspaceId) None
          (Some [taskMeta (t_id (lt_doc lt))])))
      (andThen (whenP (taskChanges lt dto \<noteq> [])
        (andThen (ActivityRepository_create (t_id (lt_doc lt)) userId ''updated'' ''Task updated''
                    (Some (taskChanges lt dto)))
          (AuditService_log (Some userId) ''TASK_UPDATED'' ''TASK'' (Some workspaceId) None
            (Some [taskMeta (t_id (lt_doc lt)),
                   (''changedFields'', JArr (map (\<lambda>c. JStr (fst c)) (taskChanges lt dto)))]))))
        (ret saved))))"

definition completes :: "loadedTask \<Rightarrow> props \<Rightarrow> bool" where
  "completes lt dto \<longleftrightarrow> t_status (lt_doc lt) \<noteq> JStr (statusString Done) \<and>
     jget dto ''status'' = JStr (statusString Done)"

definition UpdateTask_commit :: "loadedTask \<Rightarrow> props \<Rightarrow> oid \<Rightarrow> oid \<Rightarrow> taskDoc wprog" where
  "UpdateTask_commit lt dto userId workspaceId =
     bnd (orThrow (lt_owner lt) (PlainError ''Cannot read properties of null'')) (\<lambda>owner.
     andThen startSession
     (bnd (UpdateTask_transaction lt dto userId workspaceId (completes lt dto)) (\<lambda>saved.
     andThen (whenP (completes lt dto) (publishTaskCompleted (t_id (lt_doc lt)) (u_id owner)))
     (andThen TaskRepository_clearCache
     (andThen (emit (TaskUpdated (u_id owner) (t_id (lt_doc lt)))) (ret saved))))))"

definition UpdateTask_execute :: "oid \<Rightarrow> props \<Rightarrow> oid \<Rightarrow> string \<Rightarrow> oid \<Rightarrow> int \<Rightarrow> taskDoc wprog" where
  "UpdateTask_execute taskId dto userId role workspaceId expectedVersion =
     bnd (UpdateTask_load taskId dto userId role workspaceId expectedVersion) (\<lambda>lt.
       UpdateTask_commit lt dto userId workspaceId)"

text \<open>The role of the caller and the membership of every assignee.\<close>

definition AssignTask_authorize :: "taskDoc \<Rightarrow> oid \<Rightarrow> oid list \<Rightarrow> unit wprog" where
  "AssignTask_authorize task userId userIds =
     bnd (MembershipRepository_findByWorkspaceAndUser (t_workspace task) userId) (\<lambda>actor.
     bnd (orThrow actor (Forbidden ''You are not a member of this workspace'')) (\<lambda>actorMembership.
     andThen (throwIf (m_role actorMembership \<noteq> Owner \<and> m_role actorMembership \<noteq> Admin)
       (Forbidden ''You are not allowed to assign tasks''))
     (forEach userIds (\<lambda>assigneeId.
        bnd (MembershipRepository_findByWorkspaceAndUser (t_workspace task) assigneeId) (\<lambda>assignee.
          throwIf (assignee = None)
            (Forbidden (''User '' @ oidString assigneeId @ '' is not a member of this workspace'')))))))"

definition AssignTask_execute :: "oid \<Rightarrow> oid \<Rightarrow> oid \<Rightarrow> oid list \<Rightarrow> taskDoc wprog" where
  "AssignTask_execute taskId userId workspaceId userIds =
     bnd (TaskRepository_findById taskId workspaceId) (\<lambda>found.
     bnd (orThrow found (NotFound ''Task Not Found'')) (\<lambda>task.
     andThen (AssignTask_authorize task userId userIds)
     (bnd (TaskRepository_assignUsers taskId userIds) (\<lambda>updatedTask.
     andThen (AuditService_log (Some userId) ''TASK_ASSIGNED'' ''TASK'' (Some workspaceId) None
       (Some [taskMeta taskId, (''assigneeIds'', JArr (map (\<lambda>i. JStr (oidString i)) userIds))]))
       (ret updatedTask)))))"

text \<open>
  \<open>task.owner.toString()\<close> of the populated owner is the printed document, not its id; of an
  owner that no longer exists it throws.
\<close>

definition ownerRoom :: "loadedTask \<Rightarrow> json wprog" where
  "ownerRoom lt = (case lt_owner lt of
     None \<Rightarrow> throw (PlainError ''Cannot read properties of null'')
   | Some u \<Rightarrow> ret (JObj [(''_id'', JOid (u_id u)), (''email'', JStr (u_email u)), (''role'', JStr (u_role u))]))"

definition DeleteTask_execute :: "oid \<Rightarrow> oid \<Rightarrow> oid \<Rightarrow> string wprog" where
  "DeleteTask_execute taskId userId workspaceId =
     bnd (TaskRepository_findAuthorizedTask taskId workspaceId) (\<lambda>lt.
     bnd (gets now) (\<lambda>t. let task = lt_doc lt in
     andThen (saveTask task (task\<lparr>t_isDeleted := True, t_deletedAt := Some t\<rparr>))
     (andThen (ActivityRepository_create (t_id task) userId ''deleted'' ''Task deleted'' None)
     (andThen (AuditService_log (Some userId) ''TASK_DELETED'' ''TASK'' (Some workspaceId) None
       (Some [taskMeta (t_id task), (''deletionType'', JStr ''soft_delete'')]))
     (andThen TaskRepository_clearCache
     (bnd (ownerRoom lt) (\<lambda>room.
     andThen (emit (TaskDeleted room (t_id task))) (ret ''Task Deleted Successfully!''))))))))"

definition CreateComment_execute :: "oid \<Rightarrow> string \<Rightarrow> oid \<Rightarrow> oid \<Rightarrow> taskDoc wprog" where
  "CreateComment_execute taskId body userId workspaceId =
     bnd (TaskRepository_findAuthorizedTask taskId workspaceId) (\<lambda>lt.
     bnd (TaskRepository_addComment taskId body userId) (\<lambda>updatedTask.
     andThen (ActivityRepository_create (t_id (lt_doc lt)) userId ''comment_added'' ''Comment added'' None)
     (andThen (AuditService_log (Some userId) ''COMMENT_CREATED'' ''COMMENT'' (Some workspaceId) None
       (Some [taskMeta taskId]))
     (andThen TaskRepository_clearCache (ret updatedTask)))))"

definition UploadAttachment_execute :: "oid \<Rightarrow> uploadedFile \<Rightarrow> oid \<Rightarrow> oid \<Rightarrow> attachmentDoc list wprog" where
  "UploadAttachment_execute taskId file userId workspaceId =
     andThen (TaskRepository_findAuthorizedTask taskId workspaceId)
     (bnd (TaskRepository_uploadAttachment taskId file) (\<lambda>task.
     andThen (ActivityRepository_create (t_id task) userId ''attachment_added'' ''Attachment added'' None)
     (andThen (AuditService_log (Some userId) ''ATTACHMENT_ADDED'' ''ATTACHMENT'' (Some workspaceId) None
       (Some [(''attachmentId'', case t_attachments task of [] \<Rightarrow> JUndef
                 | _ \<Rightarrow> JStr (oidString (a_id (last (t_attachments task))))), taskMeta (t_id task)]))
     (andThen TaskRepository_clearCache (ret (t_attachments task))))))"

definition DeleteAttachment_execute :: "oid \<Rightarrow> oid \<Rightarrow> oid \<Rightarrow> oid \<Rightarrow> string wprog" where
  "DeleteAttachment_execute taskId attachmentId userId workspaceId =
     bnd (TaskRepository_findAuthorizedTask taskId workspaceId) (\<lambda>lt.
     bnd (orThrow (List.find (\<lambda>a. a_id a = attachmentId) (t_attachments (lt_doc lt)))
           (NotFound ''Attachment Not Found'')) (\<lambda>attachment.
     andThen (deleteFile (a_url attachment))
     (andThen (TaskRepository_deleteAttachment taskId attachmentId)
     (andThen (ActivityRepository_create (t_id (lt_doc lt)) userId ''attachment_deleted'' ''Attachment deleted'' None)
     (andThen (AuditService_log (Some userId) ''ATTACHMENT_DELETED'' ''ATTACHMENT'' (Some workspaceId) None
       (Some [(''attachmentId'', JStr (oidString attachmentId)), taskMeta taskId]))
     (andThen TaskRepository_clearCache (ret ''Attachment deleted successfully.'')))))))"

section \<open>Queries on one task\<close>

definition GetTaskById_execute :: "oid \<Rightarrow> oid \<Rightarrow> loadedTask wprog" where
  "GetTaskById_execute taskId workspaceId = TaskRepository_findAuthorizedTask taskId workspaceId"

definition GetAttachments_execute :: "oid \<Rightarrow> oid \<Rightarrow> attachmentDoc list wprog" where
  "GetAttachments_execute taskId workspaceId =
     bnd (TaskRepository_findAuthorizedTask taskId workspaceId) (\<lambda>lt. ret (t_attachments (lt_doc lt)))"

definition GetComments_execute :: "oid \<Rightarrow> oid \<Rightarrow> commentDoc list wprog" where
  "GetComments_execute taskId workspaceId =
     bnd (TaskRepository_findAuthorizedTask taskId workspaceId) (\<lambda>lt.
     bnd (TaskRepository_getComments (t_id (lt_doc lt))) (\<lambda>task. ret (t_comments task)))"

end
