(* ===== verification/TaskQueries.thy ===== *)
theory TaskQueries
  imports Tasks
begin

text \<open>
  The reading half of the task repository (\<open>task.repository.ts\<close>): the filtered, sorted and paged
  list with its cache, the statistics, the workspace aggregation and the list for an export. The
  text index and the comparison of values of different types are MongoDB's: they are the parameter
  \<open>mongo\<close>.
\<close>

record mongo =
  textMatch :: "string \<Rightarrow> taskDoc \<Rightarrow> bool"
  bsonLe :: "json \<Rightarrow> json \<Rightarrow> bool"

text \<open>
  What MongoDB documents of its comparison: a total order of values, numbers and ids by their
  value, a missing value before any date.
\<close>

definition bsonLaw :: "mongo \<Rightarrow> bool" where
  "bsonLaw M \<longleftrightarrow> (\<forall>a b. bsonLe M a b \<or> bsonLe M b a) \<and>
     (\<forall>a b c. bsonLe M a b \<longrightarrow> bsonLe M b c \<longrightarrow> bsonLe M a c) \<and>
     (\<forall>i j. bsonLe M (JNum i) (JNum j) \<longleftrightarrow> i \<le> j) \<and> (\<forall>i j. bsonLe M (JOid i) (JOid j) \<longleftrightarrow> i \<le> j) \<and>
     (\<forall>t. bsonLe M JUndef (JDate t) \<and> \<not> bsonLe M (JDate t) JUndef)"

section \<open>Strings of the query\<close>

fun splitOn :: "char \<Rightarrow> string \<Rightarrow> string list" where
  "splitOn c [] = [[]]"
| "splitOn c (x # xs) = (if x = c then [] # splitOn c xs
     else (case splitOn c xs of [] \<Rightarrow> [[x]] | w # ws \<Rightarrow> (x # w) # ws))"

text \<open>\<open>if (s)\<close>: an empty string counts as missing.\<close>

definition given :: "string option \<Rightarrow> string option" where
  "given s = (case s of Some (c # cs) \<Rightarrow> Some (c # cs) | _ \<Rightarrow> None)"

definition hexVal :: "char \<Rightarrow> nat option" where
  "hexVal c = (let n = of_char (lowerChar c) :: nat in
     if 48 \<le> n \<and> n \<le> 57 then Some (n - 48) else if 97 \<le> n \<and> n \<le> 102 then Some (n - 87) else None)"

text \<open>\<open>ObjectId.isValid(s)\<close> and \<open>new ObjectId(s)\<close>: 24 hexadecimal digits.\<close>

definition readOid :: "string \<Rightarrow> oid option" where
  "readOid s = (if length s = 24 \<and> list_all (\<lambda>c. hexVal c \<noteq> None) s
     then Some (foldl (\<lambda>acc c. 16 * acc + the (hexVal c)) 0 s) else None)"

section \<open>The filter\<close>

definition advancedRequested :: "tasksQuery \<Rightarrow> bool" where
  "advancedRequested q \<longleftrightarrow> q_dueFrom q \<noteq> None \<or> q_dueTo q \<noteq> None \<or> q_tags q \<noteq> None \<or> q_assignee q \<noteq> None \<or>
     q_sort q \<noteq> None \<or> q_sortBy q \<noteq> ''createdAt'' \<or> q_order q \<noteq> ''desc''"

text \<open>\<open>assignee\<close>: \<open>me\<close>, or the id of a user.\<close>

definition assigneeFilter :: "oid \<Rightarrow> tasksQuery \<Rightarrow> oid option wprog" where
  "assigneeFilter userId q = (case given (q_assignee q) of
     None \<Rightarrow> ret None
   | Some a \<Rightarrow> if a = ''me'' then ret (Some userId) else
       (case readOid a of None \<Rightarrow> throw (BadRequest ''Invalid assignee ID'') | Some i \<Rightarrow> ret (Some i)))"

definition hasTags :: "string list \<Rightarrow> taskDoc \<Rightarrow> bool" where
  "hasTags wanted t \<longleftrightarrow> (case t_tags t of JArr vs \<Rightarrow> \<forall>w\<in>set wanted. JStr w \<in> set vs | _ \<Rightarrow> False)"

definition dueWithin :: "time option \<Rightarrow> time option \<Rightarrow> taskDoc \<Rightarrow> bool" where
  "dueWithin from till t \<longleftrightarrow> (if from = None \<and> till = None then True else
     (case t_dueDate t of
        JDate d \<Rightarrow> (case from of None \<Rightarrow> True | Some f \<Rightarrow> f \<le> d) \<and> (case till of None \<Rightarrow> True | Some u \<Rightarrow> d \<le> u)
      | _ \<Rightarrow> False))"

definition taskFilter :: "mongo \<Rightarrow> oid \<Rightarrow> string \<Rightarrow> oid \<Rightarrow> tasksQuery \<Rightarrow> oid option \<Rightarrow> taskDoc \<Rightarrow> bool" where
  "taskFilter M userId role workspaceId q assignee t \<longleftrightarrow>
     \<not> t_isDeleted t \<and> t_workspace t = workspaceId \<and> (role \<noteq> ''admin'' \<longrightarrow> t_owner t = userId) \<and>
     (case given (q_status q) of None \<Rightarrow> True | Some s \<Rightarrow> t_status t = JStr s) \<and>
     (case given (q_search q) of None \<Rightarrow> True | Some s \<Rightarrow> textMatch M s t) \<and>
     dueWithin (q_dueFrom q) (q_dueTo q) t \<and>
     (case given (q_tags q) of None \<Rightarrow> True | Some s \<Rightarrow> hasTags (splitOn (CHR '','') s) t) \<and>
     (case assignee of None \<Rightarrow> True | Some a \<Rightarrow> a \<in> set (t_assignees t))"

definition cursorFilter :: "tasksQuery \<Rightarrow> taskDoc \<Rightarrow> bool" where
  "cursorFilter q t \<longleftrightarrow> (if q_cursorMode q then (case q_cursor q of None \<Rightarrow> True | Some c \<Rightarrow> c < t_id t) else True)"

section \<open>The order\<close>

text \<open>\<open>obj[k] = v\<close>: a key that is there keeps its place.\<close>

fun setKey :: "string \<Rightarrow> bool \<Rightarrow> (string \<times> bool) list \<Rightarrow> (string \<times> bool) list" where
  "setKey k v [] = [(k, v)]"
| "setKey k v ((j, w) # kvs) = (if j = k then (k, v) # kvs else (j, w) # setKey k v kvs)"

text \<open>The keys of \<open>sortObj\<close>; \<open>True\<close> is ascending.\<close>

definition requestedSort :: "tasksQuery \<Rightarrow> (string \<times> bool) list" where
  "requestedSort q = (case given (q_sort q) of
     Some s \<Rightarrow> fold (\<lambda>field kvs. case splitOn (CHR '':'') field of
         k # d # _ \<Rightarrow> setKey k (d = ''asc'') kvs
       | [k] \<Rightarrow> setKey k False kvs
       | [] \<Rightarrow> kvs) (splitOn (CHR '','') s) []
   | None \<Rightarrow> [(q_sortBy q, q_order q = ''asc'')])"

definition aggregateSort :: "tasksQuery \<Rightarrow> (string \<times> bool) list" where
  "aggregateSort q = (if q_cursorMode q then [(''_id'', True)] else
     (let sortObj = requestedSort q;
          byPriority = (case map_of sortObj ''priority'' of None \<Rightarrow> [] | Some d \<Rightarrow> [(''priorityWeight'', d)]);
          rest = filter (\<lambda>(k, d). k \<noteq> ''priority'') sortObj
      in setKey ''_id'' True (fold (\<lambda>(k, d). setKey k d) rest byPriority)))"

definition priorityWeight :: "taskDoc \<Rightarrow> int" where
  "priorityWeight t = (if t_priority t = JStr ''low'' then 1 else if t_priority t = JStr ''medium'' then 2
     else if t_priority t = JStr ''high'' then 3 else 0)"

text \<open>The value of a field that the pipeline sorts by.\<close>

definition sortField :: "string \<Rightarrow> taskDoc \<Rightarrow> json" where
  "sortField k t =
     (if k = ''_id'' then JOid (t_id t)
      else if k = ''priorityWeight'' then JNum (priorityWeight t)
      else if k = ''title'' then t_title t
      else if k = ''description'' then t_description t
      else if k = ''status'' then t_status t
      else if k = ''dueDate'' then t_dueDate t
      else if k = ''category'' then t_category t
      else if k = ''tags'' then t_tags t
      else if k = ''isDeleted'' then JBool (t_isDeleted t)
      else if k = ''deletedAt'' then (case t_deletedAt t of None \<Rightarrow> JNull | Some d \<Rightarrow> JDate d)
      else if k = ''reminderSent'' then JBool (t_reminderSent t)
      else if k = ''owner'' then JOid (t_owner t)
      else if k = ''workspace'' then JOid (t_workspace t)
      else if k = ''createdAt'' then JDate (t_createdAt t)
      else if k = ''__v'' then JNum (t_v t)
      else JUndef)"

fun keysLe :: "mongo \<Rightarrow> (string \<times> bool) list \<Rightarrow> taskDoc \<Rightarrow> taskDoc \<Rightarrow> bool" where
  "keysLe M [] x y = True"
| "keysLe M ((k, ascending) # ks) x y =
     (let a = sortField k x; b = sortField k y; le = bsonLe M a b; ge = bsonLe M b a in
      if le \<and> ge then keysLe M ks x y else if ascending then le else ge)"

fun insertBy :: "('a \<Rightarrow> 'a \<Rightarrow> bool) \<Rightarrow> 'a \<Rightarrow> 'a list \<Rightarrow> 'a list" where
  "insertBy le x [] = [x]"
| "insertBy le x (y # ys) = (if le x y then x # y # ys else y # insertBy le x ys)"

definition sortBy :: "('a \<Rightarrow> 'a \<Rightarrow> bool) \<Rightarrow> 'a list \<Rightarrow> 'a list" where
  "sortBy le xs = foldr (insertBy le) xs []"

section \<open>The list\<close>

text \<open>The two lookups; the projection removes the password and the refresh token hash only.\<close>

definition viewOf :: "database \<Rightarrow> taskDoc \<Rightarrow> taskView" where
  "viewOf d t = \<lparr>tv_doc = t,
     tv_owner = map_option (\<lambda>u. u\<lparr>u_password := [], u_refreshTokenHash := None\<rparr>) (List.find (\<lambda>u. u_id u = t_owner t) (users d)),
     tv_category = (case t_category t of JOid c \<Rightarrow> List.find (\<lambda>k. c_id k = c) (categories d) | _ \<Rightarrow> None)\<rparr>"

definition pipeline :: "mongo \<Rightarrow> (taskDoc \<Rightarrow> bool) \<Rightarrow> tasksQuery \<Rightarrow> database \<Rightarrow> taskView list" where
  "pipeline M p q d =
     (let sorted = sortBy (keysLe M (aggregateSort q)) (filter (\<lambda>t. p t \<and> cursorFilter q t) (tasks d));
          skipped = (if q_cursorMode q then sorted else drop ((q_page q - 1) * q_limit q) sorted)
      in map (viewOf d) (take (if q_cursorMode q then q_limit q + 1 else q_limit q) skipped))"

text \<open>\<open>tasks.pop()\<close> when there is one more, and the id of the last one left.\<close>

definition cursorPage :: "tasksQuery \<Rightarrow> taskView list \<Rightarrow> taskPage" where
  "cursorPage q found =
     (let hasNextPage = q_limit q < length found;
          data = (if hasNextPage then butlast found else found)
      in \<lparr>tp_data = data, tp_meta = CursorMeta (q_limit q)
           (if hasNextPage \<and> data \<noteq> [] then Some (t_id (tv_doc (last data))) else None)\<rparr>)"

definition offsetPage :: "tasksQuery \<Rightarrow> taskView list \<Rightarrow> nat \<Rightarrow> taskPage" where
  "offsetPage q found n = \<lparr>tp_data = found,
     tp_meta = OffsetMeta n (q_page q) (q_limit q) ((n + q_limit q - 1) div q_limit q)\<rparr>"

definition customSort :: "tasksQuery \<Rightarrow> bool" where
  "customSort q \<longleftrightarrow> given (q_sort q) \<noteq> None \<or> q_sortBy q \<noteq> ''createdAt'' \<or> q_order q \<noteq> ''desc''"

definition loadPage :: "mongo \<Rightarrow> oid \<Rightarrow> string \<Rightarrow> oid \<Rightarrow> tasksQuery \<Rightarrow> taskPage wprog" where
  "loadPage M userId role workspaceId q =
     bnd (assigneeFilter userId q) (\<lambda>assignee.
     andThen (throwIf (q_cursorMode q \<and> customSort q) (BadRequest ''Cursor pagination does not support custom sorting.''))
     (let p = taskFilter M userId role workspaceId q assignee in
      bnd (query (pipeline M p q)) (\<lambda>found.
      if q_cursorMode q then ret (cursorPage q found)
      else bnd (query (\<lambda>d. length (filter p (tasks d)))) (\<lambda>n. ret (offsetPage q found n)))))"

fun unTasks :: "cacheVal \<Rightarrow> taskPage option" where
  "unTasks (CVTasks p) = Some p"
| "unTasks _ = None"

fun unStats :: "cacheVal \<Rightarrow> taskStats option" where
  "unStats (CVStats p) = Some p"
| "unStats _ = None"

definition rememberTask :: "cacheKey \<Rightarrow> world \<Rightarrow> world" where
  "rememberTask k s = s\<lparr>taskKeys := addKey k (taskKeys s)\<rparr>"

definition TaskRepository_findAll :: "mongo \<Rightarrow> oid \<Rightarrow> string \<Rightarrow> oid \<Rightarrow> tasksQuery \<Rightarrow> taskPage wprog" where
  "TaskRepository_findAll M userId role workspaceId q =
     andThen (whenP (advancedRequested q)
       (bnd (FeatureFlagsService_isEnabled workspaceId AdvancedTaskFiltering) (\<lambda>enabled.
         throwIf (\<not> enabled) (Forbidden ''Advanced task filtering is disabled for this workspace''))))
     (let k = CKTasks userId role workspaceId q in
      readThrough k unTasks (\<lambda>p. Some (CVTasks p)) 60000 (rememberTask k) (loadPage M userId role workspaceId q))"

definition GetTasks_execute :: "mongo \<Rightarrow> oid \<Rightarrow> string \<Rightarrow> oid \<Rightarrow> tasksQuery \<Rightarrow> taskPage wprog" where
  "GetTasks_execute M userId role workspaceId q =
     bnd (MembershipRepository_findByWorkspaceAndUser workspaceId userId) (\<lambda>membership.
     andThen (throwIf (membership = None) (Forbidden ''You are not a member of this workspace''))
       (TaskRepository_findAll M userId role workspaceId q))"

text \<open>The headers the controller sets from the page: \<open>String(undefined)\<close> for what a cursor page lacks.\<close>

definition listHeaders :: "taskPage \<Rightarrow> (string \<times> string) list" where
  "listHeaders r = (case tp_meta r of
     OffsetMeta n page limit totalPages \<Rightarrow>
       [(''X-Total'', showNat n), (''X-Page'', showNat page), (''X-Limit'', showNat limit), (''X-Total-Pages'', showNat totalPages)]
   | CursorMeta limit nextCursor \<Rightarrow>
       [(''X-Total'', jstring JUndef), (''X-Page'', jstring JUndef), (''X-Limit'', showNat limit), (''X-Total-Pages'', jstring JUndef)])"

section \<open>Statistics, aggregation, export\<close>

text \<open>\<open>$group\<close> by a value, with the number of documents of each group.\<close>

definition groupCount :: "(taskDoc \<Rightarrow> json) \<Rightarrow> taskDoc list \<Rightarrow> (json \<times> nat) list" where
  "groupCount f ts = map (\<lambda>v. (v, length (filter (\<lambda>t. f t = v) ts))) (remdups (map f ts))"

definition isOverdueStat :: "time \<Rightarrow> taskDoc \<Rightarrow> bool" where
  "isOverdueStat n t \<longleftrightarrow> (case t_dueDate t of JDate d \<Rightarrow> d < n | _ \<Rightarrow> False) \<and> t_status t \<noteq> JStr ''done''"

definition TaskRepository_getStats :: "oid \<Rightarrow> string \<Rightarrow> taskStats wprog" where
  "TaskRepository_getStats userId role =
     (let k = CKStats userId role; mine = (\<lambda>t. \<not> t_isDeleted t \<and> (role \<noteq> ''admin'' \<longrightarrow> t_owner t = userId)) in
      readThrough k unStats (\<lambda>p. Some (CVStats p)) 60000 (rememberTask k)
        (bnd (gets now) (\<lambda>n. query (\<lambda>d. let ts = filter mine (tasks d) in
          \<lparr>ts_status = groupCount t_status ts, ts_priority = groupCount t_priority ts,
           ts_overdue = length (filter (isOverdueStat n) ts)\<rparr>))))"

definition GetTaskStats_execute :: "oid \<Rightarrow> string \<Rightarrow> taskStats wprog" where
  "GetTaskStats_execute userId role = TaskRepository_getStats userId role"

record aggregatedTask =
  ag_doc :: taskDoc
  ag_assignees :: "userDoc list"
  ag_workspace :: "workspaceDoc option"
  ag_assigneeCount :: nat
  ag_isOverdue :: bool

text \<open>The expression \<open>$lt\<close> compares values of any types, also a missing date.\<close>

definition aggregatedOf :: "mongo \<Rightarrow> time \<Rightarrow> database \<Rightarrow> taskDoc \<Rightarrow> aggregatedTask" where
  "aggregatedOf M n d t = (let people = filter (\<lambda>u. u_id u \<in> set (t_assignees t)) (users d) in
     \<lparr>ag_doc = t, ag_assignees = people, ag_workspace = List.find (\<lambda>w. w_id w = t_workspace t) (workspaces d),
      ag_assigneeCount = length people,
      ag_isOverdue = (t_status t \<noteq> JStr ''done'' \<and> \<not> bsonLe M (JDate n) (t_dueDate t))\<rparr>)"

definition TaskRepository_aggregateWorkspaceTasks ::
  "mongo \<Rightarrow> oid \<Rightarrow> nat \<Rightarrow> nat \<Rightarrow> string option \<Rightarrow> string option \<Rightarrow>
   (aggregatedTask list \<times> nat \<times> (json \<times> nat) list) wprog" where
  "TaskRepository_aggregateWorkspaceTasks M workspaceId page limit status search =
     bnd (gets now) (\<lambda>n. query (\<lambda>d.
       let ts = filter (\<lambda>t. t_workspace t = workspaceId \<and> \<not> t_isDeleted t \<and>
             (case given status of None \<Rightarrow> True | Some s \<Rightarrow> t_status t = JStr s) \<and>
             (case given search of None \<Rightarrow> True | Some s \<Rightarrow> textMatch M s t)) (tasks d);
           sorted = sortBy (keysLe M [(''priorityWeight'', False), (''dueDate'', True)]) ts
       in (map (aggregatedOf M n d) (take limit (drop ((page - 1) * limit) sorted)), length ts, groupCount t_status ts)))"

definition TaskRepository_findAllForExport :: "oid \<Rightarrow> taskDoc list wprog" where
  "TaskRepository_findAllForExport workspaceId = findDocs tasks (\<lambda>t. t_workspace t = workspaceId \<and> \<not> t_isDeleted t)"

end
