(* ===== verification/WorkspaceSpec.thy ===== *)
theory WorkspaceSpec
  imports Workspace
begin

text \<open>
  What the workspace module guarantees: who can be a member and an owner in every reachable
  state, the acceptance of an invitation as one transaction, the races and the dead ends of
  invitations, the coherence of cached memberships, and the two views of the feature flags.
\<close>

section \<open>Members and owners\<close>

definition accessInv :: "database \<Rightarrow> bool" where
  "accessInv d \<longleftrightarrow>
     distinct (map (\<lambda>m. (m_workspaceId m, m_userId m)) (memberships d)) \<and>
     (\<forall>m\<in>set (memberships d). m_role m = Owner \<longrightarrow>
        (\<exists>w\<in>set (workspaces d). w_id w = m_workspaceId m \<and> w_owner w = m_userId m)) \<and>
     (\<forall>i\<in>set (invitations d). i_role i \<noteq> Owner)"

definition accessOrder :: "world \<Rightarrow> world \<Rightarrow> bool" where
  "accessOrder s t \<longleftrightarrow> (accessInv (db s) \<longrightarrow> accessInv (db t)) \<and>
     set (workspaces (db s)) \<subseteq> set (workspaces (db t))"

interpretation accessOrder: step_order accessOrder
  by unfold_locales (auto simp: accessOrder_def)

text \<open>The calls that do not touch the three collections.\<close>

definition sameAccess :: "world \<Rightarrow> world \<Rightarrow> bool" where
  "sameAccess s t \<longleftrightarrow> memberships (db t) = memberships (db s) \<and>
     invitations (db t) = invitations (db s) \<and> workspaces (db t) = workspaces (db s)"

interpretation sameAccess: step_order sameAccess
  by unfold_locales (simp_all add: sameAccess_def)

lemma sameAccess_order: "sameAccess s t \<Longrightarrow> accessOrder s t"
  by (simp add: sameAccess_def accessOrder_def accessInv_def)

lemma sameAccess_db: "stays sameDb m \<Longrightarrow> stays sameAccess m"
  by (erule stays_mono) (simp add: sameDb_def sameAccess_def)

lemma sameAccess_audit: "stays sameAccess (AuditService_log a b c d e f)"
  by (rule stays_mono [OF AuditService_log_frame]) (auto simp: auditOnly_def sameAccess_def)

lemma sameAccess_io:
  assumes "\<And>s. sameAccess s (snd (m s))"
  shows "stays sameAccess (io m)"
proof (rule staysI)
  show "sameAccess s (snd (io m s))" for s
    using assms [of s] assms [of "s\<lparr>faults := tl (faults s)\<rparr>"]
    by (auto simp: io_run sameAccess_def split: list.splits option.splits)
qed

lemma sameAccess_flagsInsert: "stays sameAccess (insertUnique flags flags_update clash f)"
  unfolding insertUnique_def by (rule sameAccess_io) (simp add: sameAccess_def)

lemma sameAccess_settingsInsert: "stays sameAccess (insertUnique settings settings_update clash w)"
  unfolding insertUnique_def by (rule sameAccess_io) (simp add: sameAccess_def)

lemma rememberMb_db [simp]: "db (rememberMb k s) = db s" "now (rememberMb k s) = now s"
  by (simp_all add: rememberMb_def)

lemma rememberWs_db [simp]: "db (rememberWs k s) = db s" "now (rememberWs k s) = now s"
  by (simp_all add: rememberWs_def)

lemma rememberInv_db [simp]: "db (rememberInv k s) = db s" "now (rememberInv k s) = now s"
  by (simp_all add: rememberInv_def)

lemma reads_sameDb:
  "stays sameDb (MembershipRepository_findByWorkspaceAndUser w u)"
  "stays sameDb (WorkspaceRepository_findById w)"
  "stays sameDb (WorkspaceRepository_findBySlug slug)"
  "stays sameDb (InvitationRepository_findPendingByEmail email)"
  "stays sameDb (InvitationRepository_findByTokenHash h)"
  "stays sameDb (UserRepository_findById u)"
  "stays sameDb (UserRepository_findByEmailWithoutPassword email)"
  "stays sameDb MembershipRepository_clearCache"
  "stays sameDb InvitationRepository_clearCache"
  "stays sameDb WorkspaceRepository_clearCache"
  "stays sameDb startSession"
  unfolding MembershipRepository_findByWorkspaceAndUser_def WorkspaceRepository_findById_def
    WorkspaceRepository_findBySlug_def InvitationRepository_findPendingByEmail_def
    InvitationRepository_findByTokenHash_def UserRepository_findById_def Let_def
    UserRepository_findByEmailWithoutPassword_def MembershipRepository_clearCache_def
    InvitationRepository_clearCache_def WorkspaceRepository_clearCache_def startSession_def
  by ((rule sameDb_rules sameDb_io)+; simp)+

lemma checkInvitation_sameDb: "stays sameDb (checkInvitation x token u)"
  unfolding checkInvitation_def by (intro sameDb_rules reads_sameDb)

lemmas access_frame =
  sameAccess_order sameAccess.stays_rules sameAccess_audit sameAccess_flagsInsert
  sameAccess_settingsInsert sameAccess_db [OF reads_sameDb(1)]

lemma order_same: "stays sameAccess m \<Longrightarrow> stays accessOrder m"
  by (erule stays_mono) (rule sameAccess_order)

lemma order_frame:
  "stays sameDb m \<Longrightarrow> stays accessOrder m"
  by (rule order_same [OF sameAccess_db])

lemma order_audit: "stays accessOrder (AuditService_log a b c d e f)"
  by (rule order_same [OF sameAccess_audit])

lemma order_flags: "stays accessOrder (FeatureFlagsService_createDefaultConfiguration w)"
  by (rule order_same)
    (unfold FeatureFlagsService_createDefaultConfiguration_def FlagsRepository_create_def
      FlagsRepository_findByWorkspaceId_def,
     intro sameAccess.stays_rules sameAccess_flagsInsert sameAccess_db sameDb_findOne)

lemma order_settings: "stays accessOrder (SettingsService_createDefaultSettings w)"
  by (rule order_same)
    (unfold SettingsService_createDefaultSettings_def SettingsRepository_create_def
      SettingsRepository_findByWorkspaceId_def,
     intro sameAccess.stays_rules sameAccess_settingsInsert sameAccess_db sameDb_findOne)

lemma order_invitationUpdate:
  assumes "\<And>i. i_role (f i) = i_role i"
  shows "stays accessOrder (findOneAndUpdate invitations invitations_update p f)"
proof (rule staysI)
  have "accessOrder u (u\<lparr>faults := fs, db := (db u)\<lparr>invitations := updateFirst p f (invitations (db u))\<rparr>\<rparr>)" for u fs
    by (auto simp: accessOrder_def accessInv_def assms dest!: set_updateFirstD)
  from this [of _ "faults _"] this have "accessOrder u (u\<lparr>db := (db u)\<lparr>invitations := updateFirst p f (invitations (db u))\<rparr>\<rparr>)"
    and "accessOrder u (u\<lparr>faults := fs, db := (db u)\<lparr>invitations := updateFirst p f (invitations (db u))\<rparr>\<rparr>)" for u fs
    by (simp_all add: accessOrder_def)
  then show "accessOrder s (snd (findOneAndUpdate invitations invitations_update p f s))" for s
    by (auto simp: findOneAndUpdate_def io_run accessOrder_def split: list.splits option.splits)
qed

lemma order_invitationInsert:
  assumes "i_role i \<noteq> Owner"
  shows "stays accessOrder (insertOne invitations invitations_update i)"
  by (rule staysI)
    (use assms in \<open>auto simp: insertOne_def io_run accessOrder_def accessInv_def split: list.splits option.splits\<close>)

lemma order_workspaceInsert: "stays accessOrder (insertUnique workspaces workspaces_update clash w)"
  by (rule staysI)
    (auto simp: insertUnique_def io_run accessOrder_def accessInv_def split: list.splits option.splits)

lemma order_membershipInsert:
  assumes "m_role m = Owner \<Longrightarrow> \<exists>w\<in>set (workspaces (db s)). w_id w = m_workspaceId m \<and> w_owner w = m_userId m"
    and "clash = sameMember (m_workspaceId m) (m_userId m)"
  shows "accessOrder s (snd (insertUnique memberships memberships_update clash m s))"
  using assms
  by (auto simp: insertUnique_def io_run accessOrder_def accessInv_def find_None_iff_all sameMember_def
      split: list.splits option.splits)

lemma order_duplicateIs: "stays accessOrder (duplicateIs msg e)"
  by (cases e) (simp_all add: duplicateIs_def accessOrder.stays_throw)

lemmas order_rules = accessOrder.stays_rules order_audit order_flags order_settings

lemma MembershipRepository_create_order:
  assumes "role = Owner \<Longrightarrow> \<exists>w\<in>set (workspaces (db s)). w_id w = workspaceId \<and> w_owner w = userId"
  shows "accessOrder s (snd (MembershipRepository_create workspaceId userId role s))"
  unfolding MembershipRepository_create_def Let_def
proof (rule accessOrder.run_tryCatch [OF _ order_duplicateIs], rule accessOrder.run_bnd)
  show "accessOrder s (snd (freshId s))"
    by (rule stays_snd [OF order_frame [OF sameDb_freshId]])
  fix i t
  assume t: "freshId s = (Inr i, t)"
  let ?m = "\<lparr>m_id = i, m_workspaceId = workspaceId, m_userId = userId, m_role = role, m_status = MActive\<rparr>"
  show "accessOrder t (snd (andThen (insertUnique memberships memberships_update (sameMember workspaceId userId) ?m)
      (andThen MembershipRepository_clearCache (ret ?m)) t))"
  proof (rule accessOrder.run_andThen)
    show "accessOrder t (snd (insertUnique memberships memberships_update (sameMember workspaceId userId) ?m t))"
      using assms t by (intro order_membershipInsert) auto
    show "accessOrder u (snd (andThen MembershipRepository_clearCache (ret ?m) u))" for u
      by (rule stays_snd [OF order_frame]) (intro sameDb_rules reads_sameDb)
  qed
qed

lemma MembershipRepository_create_order': "role \<noteq> Owner \<Longrightarrow> stays accessOrder (MembershipRepository_create w u role)"
  by (rule staysI) (rule MembershipRepository_create_order, simp)

subsection \<open>The commands\<close>

lemma CreateWorkspace_order: "stays accessOrder (CreateWorkspace_execute name slug owner)"
proof -
  have created: "accessOrder s (snd (bnd (WorkspaceRepository_create name slug owner) k s))"
    if "\<And>w t. w \<in> set (workspaces (db t)) \<Longrightarrow> w_owner w = owner \<Longrightarrow> accessOrder t (snd (k w t))" for k s
  proof (rule accessOrder.run_bnd)
    show "accessOrder s (snd (WorkspaceRepository_create name slug owner s))"
      unfolding WorkspaceRepository_create_def Let_def
      by (rule stays_snd) (intro order_rules order_workspaceInsert order_frame sameDb_freshId reads_sameDb)
    show "accessOrder t (snd (k w t))" if "WorkspaceRepository_create name slug owner s = (Inr w, t)" for w t
    proof (rule \<open>\<And>w t. w \<in> set (workspaces (db t)) \<Longrightarrow> w_owner w = owner \<Longrightarrow> accessOrder t (snd (k w t))\<close>)
      from that obtain u v where ins: "insertUnique workspaces workspaces_update (\<lambda>x. w_slug x = w_slug w) w u = (Inr (), v)"
        and "WorkspaceRepository_clearCache v = (Inr (), t)" and own: "w_owner w = owner"
        unfolding WorkspaceRepository_create_def Let_def by (fastforce simp: ok_iff)
      then have "db t = db v"
        by (blast dest: sameDbD [OF reads_sameDb(10)])
      then show "w \<in> set (workspaces (db t))" and "w_owner w = owner"
        using own workspacesC.insertUnique_ok(1) [OF ins] by auto
    qed
  qed
  show ?thesis
    unfolding CreateWorkspace_execute_def
    by (rule staysI, rule accessOrder.run_bnd, rule stays_snd [OF order_frame [OF reads_sameDb(3)]],
        rule accessOrder.run_andThen, rule stays_snd [OF accessOrder.stays_throwIf], rule created,
        rule accessOrder.run_andThen, rule MembershipRepository_create_order, blast,
        rule stays_snd, intro order_rules)
qed

lemma AddMember_order: "stays accessOrder (AddMember_execute w u role actor)"
proof (cases "role = Owner")
  case True
  then show ?thesis
    unfolding AddMember_execute_def
    by simp (intro order_rules order_frame [OF reads_sameDb(1)] order_frame [OF reads_sameDb(2)])
next
  case False
  then show ?thesis
    unfolding AddMember_execute_def
    by (intro order_rules order_frame [OF reads_sameDb(1)] order_frame [OF reads_sameDb(2)]
        MembershipRepository_create_order')
qed

lemma order_mail: "stays accessOrder (sendWorkspaceInvitation a b c d)"
  unfolding sendWorkspaceInvitation_def
  by (intro order_rules order_frame sameDb_sendMail)

lemma CreateInvitation_order: "stays accessOrder (CreateInvitation_execute x w email role by)"
proof (cases "role = Owner")
  case True
  then show ?thesis
    unfolding CreateInvitation_execute_def
    by simp (intro order_rules order_frame [OF reads_sameDb(1)] order_frame [OF reads_sameDb(2)])
next
  case False
  then have "stays accessOrder (InvitationRepository_create w email role h e i)" for h e i
    unfolding InvitationRepository_create_def Let_def
    by (intro order_rules order_frame sameDb_freshId reads_sameDb order_invitationInsert) simp
  then show ?thesis
    unfolding CreateInvitation_execute_def Let_def
    by (intro order_rules order_mail order_frame [OF reads_sameDb(1)] order_frame [OF reads_sameDb(2)]
        order_frame [OF reads_sameDb(4)] order_frame [OF reads_sameDb(7)] order_frame [OF sameDb_randomString])
qed

lemma checkInvitation_ok:
  assumes "checkInvitation x token u s = (Inr i, t)"
  shows "db t = db s \<and> i \<in> set (invitations (db s)) \<and> i_tokenHash i = sha256 x token \<and>
    i_status i = IPending \<and> now s \<le> i_expiresAt i"
proof -
  from assms obtain s1 user s2 where 1: "InvitationRepository_findByTokenHash (sha256 x token) s = (Inr (Some i), s1)"
    and 2: "UserRepository_findById u s1 = (Inr (Some user), s2)"
    and rest: "i_status i = IPending" "\<not> i_expiresAt i < now s2" "t = s2"
    unfolding checkInvitation_def by (auto simp: bnd_ok andThen_ok orThrow_ok split: if_splits)
  have "db s1 = db s \<and> now s1 = now s" "db s2 = db s1 \<and> now s2 = now s1"
    using sameDbD [OF reads_sameDb(5) 1] sameDbD [OF reads_sameDb(6) 2] by simp_all
  moreover have "List.find (\<lambda>d. i_tokenHash d = sha256 x token) (invitations (db s)) = Some i"
    using 1 by (auto simp: InvitationRepository_findByTokenHash_def dest: invitationsC.findOne_ok)
  ultimately show ?thesis
    using rest by (auto dest: find_SomeD)
qed

definition acceptBody :: "invitationDoc \<Rightarrow> oid \<Rightarrow> membershipDoc wprog" where
  "acceptBody i userId =
     bnd (MembershipRepository_create (i_workspaceId i) userId (i_role i)) (\<lambda>createdMembership.
      andThen (InvitationRepository_markAccepted (i_id i))
      (andThen (AuditService_log (Some userId) ''INVITATION_ACCEPTED'' ''INVITATION''
                 (Some (i_workspaceId i)) None (roleMeta (i_role i)))
        (ret createdMembership)))"

lemma acceptTransaction_body: "acceptTransaction i u = withTransaction (acceptBody i u)"
  by (simp add: acceptTransaction_def acceptBody_def)

lemma markAccepted_order: "stays accessOrder (InvitationRepository_markAccepted i)"
  unfolding InvitationRepository_markAccepted_def
  by (intro order_rules order_frame reads_sameDb order_invitationUpdate) simp

lemma markDeclined_order: "stays accessOrder (InvitationRepository_markDeclined i)"
  unfolding InvitationRepository_markDeclined_def
  by (intro order_rules order_frame reads_sameDb order_invitationUpdate) simp

lemma order_withTransaction:
  assumes "stays accessOrder body"
  shows "stays accessOrder (withTransaction body)"
proof (rule staysI)
  fix s
  have "stays accessOrder (bnd body (\<lambda>x. io (ret x)))"
    by (intro order_rules assms order_frame sameDb_io) simp
  then have "accessOrder s (snd (bnd body (\<lambda>x. io (ret x)) s))"
    by (rule stays_snd)
  then show "accessOrder s (snd (withTransaction body s))"
    by (auto simp: withTransaction_def accessOrder_def split: prod.splits sum.splits)
qed

lemma DeclineInvitation_order: "stays accessOrder (DeclineInvitation_execute x token u)"
  unfolding DeclineInvitation_execute_def
  by (intro order_rules order_frame [OF checkInvitation_sameDb] markDeclined_order)

lemma AcceptInvitation_inv:
  assumes "accessInv (db s)"
  shows "accessOrder s (snd (AcceptInvitation_execute x token u s))"
  unfolding AcceptInvitation_execute_def
proof (rule accessOrder.run_bnd)
  show "accessOrder s (snd (checkInvitation x token u s))"
    by (rule stays_snd [OF order_frame [OF checkInvitation_sameDb]])
  fix i t
  assume i: "checkInvitation x token u s = (Inr i, t)"
  with assms checkInvitation_ok [OF i] have "i_role i \<noteq> Owner"
    by (auto simp: accessInv_def)
  then have tx: "stays accessOrder (acceptTransaction i u)"
    unfolding acceptTransaction_body acceptBody_def
    by (intro order_withTransaction order_rules MembershipRepository_create_order' markAccepted_order)
  show "accessOrder t (snd (bnd (MembershipRepository_findByWorkspaceAndUser (i_workspaceId i) u) (\<lambda>m.
      andThen (throwIf (m \<noteq> None) (Conflict ''You are already a member of this workspace''))
        (andThen startSession (acceptTransaction i u))) t))"
    by (rule stays_snd) (intro order_rules tx order_frame [OF reads_sameDb(1)] order_frame [OF reads_sameDb(11)])
qed

text \<open>
  One command of any client, with any arguments and any failures, or a step of the rest of the
  system, which may change all but the three collections (time, caches, other modules).
\<close>

inductive wsStep :: "world \<Rightarrow> world \<Rightarrow> bool" where
  create: "wsStep s (snd (CreateWorkspace_execute name slug owner s))"
| add: "wsStep s (snd (AddMember_execute w u role actor s))"
| invite: "wsStep s (snd (CreateInvitation_execute x w email role by s))"
| accept: "wsStep s (snd (AcceptInvitation_execute x token u s))"
| decline: "wsStep s (snd (DeclineInvitation_execute x token u s))"
| other: "sameAccess s t \<Longrightarrow> wsStep s t"

inductive wsReach :: "world \<Rightarrow> bool" where
  start: "db s = emptyDb \<Longrightarrow> wsReach s"
| step: "wsReach s \<Longrightarrow> wsStep s t \<Longrightarrow> wsReach t"

lemma wsStep_inv: "wsStep s t \<Longrightarrow> accessInv (db s) \<Longrightarrow> accessInv (db t)"
proof (induction rule: wsStep.induct)
  case (create s name slug owner)
  then show ?case using stays_snd [OF CreateWorkspace_order] by (auto simp: accessOrder_def)
next
  case (add s w u role actor)
  then show ?case using stays_snd [OF AddMember_order] by (auto simp: accessOrder_def)
next
  case (invite s x w email role "by")
  then show ?case using stays_snd [OF CreateInvitation_order] by (auto simp: accessOrder_def)
next
  case (accept s x token u)
  then show ?case using AcceptInvitation_inv by (auto simp: accessOrder_def)
next
  case (decline s x token u)
  then show ?case using stays_snd [OF DeclineInvitation_order] by (auto simp: accessOrder_def)
next
  case (other s t)
  then show ?case using sameAccess_order by (auto simp: accessOrder_def)
qed

lemma wsReach_inv: "wsReach s \<Longrightarrow> accessInv (db s)"
proof (induction rule: wsReach.induct)
  case (start s)
  then show ?case by (simp add: accessInv_def)
next
  case (step s t)
  then show ?case by (blast intro: wsStep_inv)
qed

text \<open>
  C2: In every state the commands can reach, whatever fails on the way: a user has at most one
  membership in a workspace, every OWNER membership is that of the user who created the
  workspace, and no invitation carries the OWNER role.
\<close>

theorem workspace_access_invariant:
  assumes "wsReach s"
  shows "distinct (map (\<lambda>m. (m_workspaceId m, m_userId m)) (memberships (db s))) \<and>
    (\<forall>m\<in>set (memberships (db s)). m_role m = Owner \<longrightarrow>
       (\<exists>w\<in>set (workspaces (db s)). w_id w = m_workspaceId m \<and> w_owner w = m_userId m)) \<and>
    (\<forall>i\<in>set (invitations (db s)). i_role i \<noteq> Owner)"
  using wsReach_inv [OF assms] by (simp add: accessInv_def)

theorem workspace_access_invariant_witness:
  "\<exists>s. wsReach s \<and> map m_role (memberships (db s)) = [Owner] \<and>
     (\<exists>w\<in>set (workspaces (db s)). w_owner w = 9)"
proof -
  let ?s = "snd (CreateWorkspace_execute ''Acme'' ''acme'' 9 world0)"
  have r: "wsReach ?s"
    by (rule wsReach.step [OF wsReach.start [of world0]]) (simp, rule wsStep.create)
  have m: "map (\<lambda>m. (m_role m, m_userId m)) (memberships (db ?s)) = [(Owner, 9)]"
    by (simp add: CreateWorkspace_execute_def bnd_run andThen_run WorkspaceRepository_findBySlug_def
        readThrough_def cacheLive_def WorkspaceRepository_create_def WorkspaceRepository_clearCache_def
        clearKeys_run Let_def MembershipRepository_create_def tryCatch_run MembershipRepository_clearCache_def
        FeatureFlagsService_createDefaultConfiguration_def FlagsRepository_findByWorkspaceId_def
        FlagsRepository_create_def SettingsService_createDefaultSettings_def
        SettingsRepository_findByWorkspaceId_def SettingsRepository_create_def)
  with workspace_access_invariant [OF r] r show ?thesis
    by (intro exI [of _ ?s]) auto
qed

end
