(* ===== verification/InvitationSpec.thy ===== *)
theory InvitationSpec
  imports WorkspaceSpec
begin

text \<open>
  The life of an invitation: acceptance is one transaction under any failures, a decline that
  overtakes it is lost, an expired invitation blocks its address; and the creation of a
  workspace, which is not a transaction.
\<close>

section \<open>Accepting\<close>

lemma andThen_err:
  "andThen m n s = (Inl e, u) \<longleftrightarrow> m s = (Inl e, u) \<or> (\<exists>x t. m s = (Inr x, t) \<and> n t = (Inl e, u))"
  by (simp add: andThen_def bnd_err)

lemma MembershipRepository_create_ok:
  assumes "MembershipRepository_create w u role s = (Inr m, t)"
  shows "m = \<lparr>m_id = nextId s, m_workspaceId = w, m_userId = u, m_role = role, m_status = MActive\<rparr> \<and>
    db t = (db s)\<lparr>memberships := memberships (db s) @ [m]\<rparr>"
proof -
  have handler: "duplicateIs msg e v \<noteq> (Inr m, t)" for msg e v
    by (cases e) (simp_all add: duplicateIs_def)
  let ?m = "\<lparr>m_id = nextId s, m_workspaceId = w, m_userId = u, m_role = role, m_status = MActive\<rparr>"
  let ?s = "s\<lparr>nextId := Suc (nextId s)\<rparr>"
  from assms handler obtain v where m: "m = ?m"
    and ins: "insertUnique memberships memberships_update (sameMember w u) ?m ?s = (Inr (), v)"
    and clear: "MembershipRepository_clearCache v = (Inr (), t)"
    by (auto simp: MembershipRepository_create_def tryCatch_run bnd_run andThen_run Let_def
        split: prod.splits sum.splits)
  from ins have "db v = (db s)\<lparr>memberships := memberships (db s) @ [?m]\<rparr>"
    by (auto simp: insertUnique_def io_ok split: if_splits)
  with clear m show ?thesis
    by (auto dest: sameDbD [OF reads_sameDb(8)])
qed

lemma invitationUpdate_ok:
  assumes "findOneAndUpdate invitations invitations_update p f s = (Inr r, t)"
  shows "db t = (db s)\<lparr>invitations := updateFirst p f (invitations (db s))\<rparr>"
  using assms
  by (auto simp: findOneAndUpdate_def io_ok find_None_iff_all updateFirst_none split: option.splits)

lemma audit_ok:
  assumes "AuditService_log a b c d e f s = (Inr r, t)"
  shows "\<exists>entry. db t = (db s)\<lparr>auditLogs := auditLogs (db s) @ [entry]\<rparr> \<and> au_action entry = b"
  using assms
  by (auto simp: AuditService_log_def AuditLogRepository_create_def bnd_ok insertOne_def io_ok)

definition acceptedFrom :: "world \<Rightarrow> world \<Rightarrow> invitationDoc \<Rightarrow> membershipDoc \<Rightarrow> bool" where
  "acceptedFrom s t i m \<longleftrightarrow>
     memberships (db t) = memberships (db s) @ [m] \<and>
     invitations (db t) = updateFirst (\<lambda>j. i_id j = i_id i \<and> i_status j = IPending)
       (\<lambda>j. j\<lparr>i_status := IAccepted\<rparr>) (invitations (db s)) \<and>
     (\<exists>entry. auditLogs (db t) = auditLogs (db s) @ [entry] \<and> au_action entry = ''INVITATION_ACCEPTED'') \<and>
     m_workspaceId m = i_workspaceId i \<and> m_role m = i_role i"

lemma acceptTransaction_ok:
  assumes "acceptTransaction i u s = (Inr m, t)"
  shows "acceptedFrom s t i m \<and> m_userId m = u"
proof -
  from assms obtain s1 s2 s3 where 1: "MembershipRepository_create (i_workspaceId i) u (i_role i) s = (Inr m, s1)"
    and 2: "InvitationRepository_markAccepted (i_id i) s1 = (Inr (), s2)"
    and 3: "AuditService_log (Some u) ''INVITATION_ACCEPTED'' ''INVITATION'' (Some (i_workspaceId i)) None
        (roleMeta (i_role i)) s2 = (Inr (), s3)" and 4: "io (ret m) s3 = (Inr m, t)"
    by (auto simp: acceptTransaction_def withTransaction_ok bnd_ok andThen_ok)
  from 2 obtain v r where upd: "findOneAndUpdate invitations invitations_update
      (\<lambda>j. i_id j = i_id i \<and> i_status j = IPending) (\<lambda>j. j\<lparr>i_status := IAccepted\<rparr>) s1 = (Inr r, v)"
    and clear: "InvitationRepository_clearCache v = (Inr (), s2)"
    by (auto simp: InvitationRepository_markAccepted_def andThen_ok)
  have "db s2 = (db s1)\<lparr>invitations := updateFirst (\<lambda>j. i_id j = i_id i \<and> i_status j = IPending)
      (\<lambda>j. j\<lparr>i_status := IAccepted\<rparr>) (invitations (db s1))\<rparr>"
    using invitationUpdate_ok [OF upd] sameDbD [OF reads_sameDb(9) clear] by simp
  moreover have "db t = db s3"
    using 4 by (auto simp: io_ok)
  ultimately show ?thesis
    using MembershipRepository_create_ok [OF 1] audit_ok [OF 3] by (auto simp: acceptedFrom_def)
qed

lemma accept_ok:
  assumes "AcceptInvitation_execute x token u s = (Inr m, t)"
  shows "\<exists>i\<in>set (invitations (db s)). i_tokenHash i = sha256 x token \<and> i_status i = IPending \<and>
    now s \<le> i_expiresAt i \<and> m_userId m = u \<and> acceptedFrom s t i m"
proof -
  from assms obtain i s1 s2 s3 where 1: "checkInvitation x token u s = (Inr i, s1)"
    and 2: "MembershipRepository_findByWorkspaceAndUser (i_workspaceId i) u s1 = (Inr None, s2)"
    and 3: "startSession s2 = (Inr (), s3)" and 4: "acceptTransaction i u s3 = (Inr m, t)"
    by (auto simp: AcceptInvitation_execute_def bnd_ok andThen_ok split: if_splits)
  have "db s3 = db s"
    using checkInvitation_ok [OF 1] sameDbD [OF reads_sameDb(1) 2] sameDbD [OF reads_sameDb(11) 3] by simp
  with acceptTransaction_ok [OF 4] checkInvitation_ok [OF 1] show ?thesis
    by (intro bexI [of _ i]) (auto simp: acceptedFrom_def)
qed

lemma accept_err:
  assumes "AcceptInvitation_execute x token u s = (Inl e, t)"
  shows "db t = db s"
proof -
  have "checkInvitation x token u s = (Inl e, t) \<or>
    (\<exists>i s1. checkInvitation x token u s = (Inr i, s1) \<and>
      (MembershipRepository_findByWorkspaceAndUser (i_workspaceId i) u s1 = (Inl e, t) \<or>
       (\<exists>m. MembershipRepository_findByWorkspaceAndUser (i_workspaceId i) u s1 = (Inr m, t)) \<or>
       (\<exists>m s2. MembershipRepository_findByWorkspaceAndUser (i_workspaceId i) u s1 = (Inr m, s2) \<and>
         (startSession s2 = (Inl e, t) \<or> (\<exists>s3. startSession s2 = (Inr (), s3) \<and> acceptTransaction i u s3 = (Inl e, t))))))"
    using assms by (auto simp: AcceptInvitation_execute_def bnd_err andThen_err split: if_splits)
  then show ?thesis
    by (auto dest!: sameDbD [OF checkInvitation_sameDb] sameDbD [OF reads_sameDb(1)]
        sameDbD [OF reads_sameDb(11)] withTransaction_err [of "acceptBody _ _"]
        simp: acceptTransaction_body)
qed

text \<open>
  C1: Accepting an invitation is all or nothing, whatever call fails: when the command ends
  with an error the database is exactly what it was; when it succeeds, the token was that of a
  pending invitation that had not expired, and the new membership (for that user, in that
  workspace, with the invited role), the ACCEPTED mark and the audit entry are all there.
\<close>

theorem accept_invitation_atomic:
  "case AcceptInvitation_execute x token u s of (r, t) \<Rightarrow> (case r of
     Inl e \<Rightarrow> db t = db s
   | Inr m \<Rightarrow> \<exists>i\<in>set (invitations (db s)). i_tokenHash i = sha256 x token \<and> i_status i = IPending \<and>
       now s \<le> i_expiresAt i \<and> m_userId m = u \<and> acceptedFrom s t i m)"
  by (auto simp: accept_err dest: accept_ok split: prod.splits sum.splits)

section \<open>Declining while accepting\<close>

lemma decline_ok:
  assumes "DeclineInvitation_execute x token u s = (Inr msg, t)"
  shows "\<exists>i\<in>set (invitations (db s)). i_tokenHash i = sha256 x token \<and> i_status i = IPending \<and>
    memberships (db t) = memberships (db s) \<and>
    invitations (db t) = updateFirst (\<lambda>j. i_id j = i_id i \<and> i_status j = IPending)
       (\<lambda>j. j\<lparr>i_status := IDeclined\<rparr>) (invitations (db s))"
proof -
  from assms obtain i s1 s2 where 1: "checkInvitation x token u s = (Inr i, s1)"
    and 2: "InvitationRepository_markDeclined (i_id i) s1 = (Inr (), s2)"
    and 3: "AuditService_log (Some u) ''INVITATION_DECLINED'' ''INVITATION'' (Some (i_workspaceId i)) None
        (roleMeta (i_role i)) s2 = (Inr (), t)"
    by (auto simp: DeclineInvitation_execute_def bnd_ok andThen_ok)
  from 2 obtain v r where upd: "findOneAndUpdate invitations invitations_update
      (\<lambda>j. i_id j = i_id i \<and> i_status j = IPending) (\<lambda>j. j\<lparr>i_status := IDeclined\<rparr>) s1 = (Inr r, v)"
    and clear: "InvitationRepository_clearCache v = (Inr (), s2)"
    by (auto simp: InvitationRepository_markDeclined_def andThen_ok)
  show ?thesis
    using checkInvitation_ok [OF 1] invitationUpdate_ok [OF upd] sameDbD [OF reads_sameDb(9) clear]
      audit_ok [OF 3]
    by (intro bexI [of _ i]) auto
qed

lemma updateFirst_twice:
  assumes "\<And>x. p x \<Longrightarrow> \<not> p (f x)" and "\<And>x y. x \<in> set xs \<Longrightarrow> y \<in> set xs \<Longrightarrow> p x \<Longrightarrow> p y \<Longrightarrow> k x = k y"
    and "distinct (map k xs)"
  shows "\<forall>y\<in>set (updateFirst p f xs). \<not> p y"
  using assms(2,3)
proof (induction xs)
  case Nil
  then show ?case by simp
next
  case (Cons a xs)
  show ?case
  proof (cases "p a")
    case True
    then have "\<not> p y" if "y \<in> set xs" for y
      using Cons.prems(1) [of a y] Cons.prems(2) that by (auto dest: imageI [of _ _ k])
    with True assms(1) show ?thesis by auto
  next
    case False
    with Cons show ?thesis by simp
  qed
qed

text \<open>
  The status is checked outside the transaction and \<open>markAccepted\<close> ignores that it changed
  nothing: when the invitation is declined after the accept command has read it, the accept
  still succeeds and creates the membership, while the invitation stays DECLINED.
\<close>

theorem accept_overtaken_by_decline:
  assumes "faults s1 = []" and "distinct (map i_id (invitations (db s)))"
    and read: "checkInvitation x token u s = (Inr i, s1)"
    and uniq: "\<And>j. j \<in> set (invitations (db s)) \<Longrightarrow> i_tokenHash j = sha256 x token \<Longrightarrow> j = i"
    and declined: "DeclineInvitation_execute x token u' s1 = (Inr msg, t)" and "faults t = []"
    and "\<forall>m\<in>set (memberships (db s)). \<not> sameMember (i_workspaceId i) u m"
  shows "\<exists>m t'. acceptTransaction i u t = (Inr m, t') \<and> memberships (db t') = memberships (db s) @ [m] \<and>
    m_userId m = u \<and> m_workspaceId m = i_workspaceId i \<and>
    (\<forall>j\<in>set (invitations (db t')). i_id j = i_id i \<longrightarrow> i_status j \<noteq> IAccepted)"
proof -
  note i = checkInvitation_ok [OF read]
  from decline_ok [OF declined] i uniq
  have mem: "memberships (db t) = memberships (db s)"
    and inv: "invitations (db t) = updateFirst (\<lambda>j. i_id j = i_id i \<and> i_status j = IPending)
       (\<lambda>j. j\<lparr>i_status := IDeclined\<rparr>) (invitations (db s))"
    by auto
  have key: "updateFirst (\<lambda>j. i_id j = i_id i \<and> i_status j = IPending) (\<lambda>j. j\<lparr>i_status := IDeclined\<rparr>)
      (invitations (db s)) = map (\<lambda>j. if i_id j = i_id i then i\<lparr>i_status := IDeclined\<rparr> else j) (invitations (db s))"
    by (rule updateFirst_key) (use assms(2) i in auto)
  have "\<forall>j\<in>set (invitations (db t)). i_id j = i_id i \<longrightarrow> i_status j = IDeclined"
    unfolding inv key by auto
  then have none: "\<forall>j\<in>set (invitations (db t)). \<not> (i_id j = i_id i \<and> i_status j = IPending)"
    and dec: "\<forall>j\<in>set (invitations (db t)). i_id j = i_id i \<longrightarrow> i_status j \<noteq> IAccepted"
    by auto
  have noMember: "List.find (sameMember (i_workspaceId i) u) (memberships (db t)) = None"
    using assms(7) mem by (simp add: find_None_iff_all)
  have noInv: "List.find (\<lambda>j. i_id j = i_id i \<and> i_status j = IPending) (invitations (db t)) = None"
    using none by (simp add: find_None_iff_all)
  have "\<exists>m t'. acceptTransaction i u t = (Inr m, t') \<and> memberships (db t') = memberships (db t) @ [m] \<and>
      m_userId m = u \<and> m_workspaceId m = i_workspaceId i \<and> invitations (db t') = invitations (db t)"
    using assms(6) noMember noInv
    by (simp add: acceptTransaction_def withTransaction_def bnd_run andThen_run MembershipRepository_create_def
        tryCatch_run Let_def MembershipRepository_clearCache_def clearKeys_run
        InvitationRepository_markAccepted_def InvitationRepository_clearCache_def)
  with dec mem show ?thesis by auto
qed

text \<open>A user with a pending invitation to a workspace of somebody else.\<close>

definition demoInvitation :: invitationDoc where
  "demoInvitation = \<lparr>i_id = 5, i_workspaceId = 3, i_email = ''ann@x.org'', i_role = Member,
     i_tokenHash = ''htok'', i_expiresAt = 2000, i_status = IPending, i_invitedBy = 9\<rparr>"

definition demoAnn :: userDoc where
  "demoAnn = \<lparr>u_id = 6, u_email = ''ann@x.org'', u_password = ''p'', u_role = ''user'',
     u_refreshTokenHash = None, u_tokenFamily = None, u_currentTokenId = None, u_emailVerified = True,
     u_evTokenHash = None, u_evExpiresAt = None, u_prTokenHash = None, u_prExpiresAt = None\<rparr>"

definition demoTeam :: world where
  "demoTeam = world0\<lparr>db := emptyDb\<lparr>users := [demoAnn],
     workspaces := [\<lparr>w_id = 3, w_name = ''Acme'', w_slug = ''acme'', w_owner = 9\<rparr>],
     memberships := [\<lparr>m_id = 4, m_workspaceId = 3, m_userId = 9, m_role = Owner, m_status = MActive\<rparr>],
     invitations := [demoInvitation]\<rparr>\<rparr>"

lemma demoTeam_sel [simp]:
  "faults demoTeam = []" "now demoTeam = 1000" "cacheLive demoTeam k = None"
  "invitations (db demoTeam) = [demoInvitation]" "users (db demoTeam) = [demoAnn]"
  "workspaces (db demoTeam) = [\<lparr>w_id = 3, w_name = ''Acme'', w_slug = ''acme'', w_owner = 9\<rparr>]"
  "memberships (db demoTeam) = [\<lparr>m_id = 4, m_workspaceId = 3, m_userId = 9, m_role = Owner, m_status = MActive\<rparr>]"
  by (simp_all add: demoTeam_def cacheLive_def)

lemma demo_sel [simp]:
  "u_id demoAnn = 6" "u_email demoAnn = ''ann@x.org''" "i_email demoInvitation = ''ann@x.org''"
  "i_status demoInvitation = IPending" "i_expiresAt demoInvitation = 2000" "i_id demoInvitation = 5"
  "i_tokenHash demoInvitation = ''htok''" "i_workspaceId demoInvitation = 3" "i_role demoInvitation = Member"
  by (simp_all add: demoAnn_def demoInvitation_def)

lemma demo_check:
  assumes "faults s = []" and "cacheLive s (CKUser 6) \<in> {None, Some (CVUser (selected demoAnn))}"
    and "users (db s) = [demoAnn]" and "invitations (db s) = [demoInvitation]" and "now s = 1000"
  shows "\<exists>t. checkInvitation demoExt ''tok'' 6 s = (Inr demoInvitation, t) \<and> faults t = [] \<and>
    db t = db s \<and> now t = 1000 \<and> cacheLive t (CKUser 6) = Some (CVUser (selected demoAnn))"
  using assms
  by (auto simp: checkInvitation_def bnd_run andThen_run InvitationRepository_findByTokenHash_def
      UserRepository_findById_def readThrough_def cacheLive_set)

lemma demo_decline:
  assumes "faults s = []" and "cacheLive s (CKUser 6) \<in> {None, Some (CVUser (selected demoAnn))}"
    and "users (db s) = [demoAnn]" and "invitations (db s) = [demoInvitation]" and "now s = 1000"
  shows "\<exists>msg t. DeclineInvitation_execute demoExt ''tok'' 6 s = (Inr msg, t) \<and> faults t = []"
proof -
  from demo_check [OF assms] obtain t where "checkInvitation demoExt ''tok'' 6 s = (Inr demoInvitation, t)"
    and "faults t = []" by blast
  then show ?thesis
    by (simp add: DeclineInvitation_execute_def bnd_run andThen_run InvitationRepository_markDeclined_def
        InvitationRepository_clearCache_def clearKeys_run split: option.splits)
qed

theorem accept_overtaken_by_decline_witness:
  "\<exists>s1 msg t m t'. checkInvitation demoExt ''tok'' 6 demoTeam = (Inr demoInvitation, s1) \<and>
     DeclineInvitation_execute demoExt ''tok'' 6 s1 = (Inr msg, t) \<and>
     acceptTransaction demoInvitation 6 t = (Inr m, t') \<and> m_userId m = 6"
proof -
  obtain s1 where read: "checkInvitation demoExt ''tok'' 6 demoTeam = (Inr demoInvitation, s1)"
    and s1: "faults s1 = []" "db s1 = db demoTeam" "now s1 = 1000"
      "cacheLive s1 (CKUser 6) = Some (CVUser (selected demoAnn))"
    using demo_check [of demoTeam] by auto
  then obtain msg t where dec: "DeclineInvitation_execute demoExt ''tok'' 6 s1 = (Inr msg, t)" and t: "faults t = []"
    using demo_decline [of s1] by auto
  from accept_overtaken_by_decline [OF s1(1) _ read _ dec t] have
    "\<exists>m t'. acceptTransaction demoInvitation 6 t = (Inr m, t') \<and> m_userId m = 6"
    by (auto simp: sameMember_def)
  with read dec show ?thesis by blast
qed

section \<open>Invitations that have expired\<close>

lemma remember_frame:
  "db (rememberWs k t) = db t \<and> now (rememberWs k t) = now t \<and> faults (rememberWs k t) = faults t \<and>
    cache (rememberWs k t) = cache t"
  "db (rememberMb k t) = db t \<and> now (rememberMb k t) = now t \<and> faults (rememberMb k t) = faults t \<and>
    cache (rememberMb k t) = cache t"
  "db (rememberInv k t) = db t \<and> now (rememberInv k t) = now t \<and> faults (rememberInv k t) = faults t \<and>
    cache (rememberInv k t) = cache t"
  by (simp_all add: rememberWs_def rememberMb_def rememberInv_def)

lemma workspace_miss:
  "faults s = [] \<Longrightarrow> cacheLive s (CKWorkspace w) = None \<Longrightarrow>
   \<exists>t. WorkspaceRepository_findById w s = (Inr (List.find (\<lambda>v. w_id v = w) (workspaces (db s))), t) \<and>
     readState (CKWorkspace w) s t"
  unfolding WorkspaceRepository_findById_def by (rule readThrough_miss) (simp_all add: remember_frame)

lemma membership_miss:
  "faults s = [] \<Longrightarrow> cacheLive s (CKMembership w u) = None \<Longrightarrow>
   \<exists>t. MembershipRepository_findByWorkspaceAndUser w u s =
     (Inr (List.find (sameMember w u) (memberships (db s))), t) \<and> readState (CKMembership w u) s t"
  unfolding MembershipRepository_findByWorkspaceAndUser_def Let_def
  by (rule readThrough_miss) (simp_all add: remember_frame)

lemma pending_miss:
  "faults s = [] \<Longrightarrow> cacheLive s (CKInvitationsEmail (toLowerCase email)) = None \<Longrightarrow>
   \<exists>t. InvitationRepository_findPendingByEmail email s =
     (Inr (map withoutHash (filter (\<lambda>j. i_email j = lowerTrim (toLowerCase email) \<and> i_status j = IPending)
        (invitations (db s)))), t) \<and> readState (CKInvitationsEmail (toLowerCase email)) s t"
  unfolding InvitationRepository_findPendingByEmail_def Let_def
  by (rule readThrough_miss) (simp_all add: remember_frame bnd_run)

text \<open>
  Nothing ever marks an invitation EXPIRED. A pending one whose day has passed can be
  neither accepted nor declined, and while it is pending nobody can invite the same address to
  the same workspace again; none of the three commands changes the database, at any later time.
\<close>

theorem expired_invitation_blocks:
  assumes "faults s = []" and "cache s = (\<lambda>_. None)" and "0 \<le> d"
    and "i \<in> set (invitations (db s))" and "i_status i = IPending" and "i_expiresAt i < now s"
    and "List.find (\<lambda>j. i_tokenHash j = i_tokenHash i) (invitations (db s)) = Some i"
    and "i_email i = lowerTrim (toLowerCase email)" and "sha256 x token = i_tokenHash i"
    and "List.find (\<lambda>w. w_id w = i_workspaceId i) (workspaces (db s)) \<noteq> None"
    and "List.find (sameMember (i_workspaceId i) actor) (memberships (db s)) \<noteq> None"
    and "List.find (\<lambda>u. u_email u = toLowerCase email) (users (db s)) = Some user"
    and "List.find (sameMember (i_workspaceId i) (u_id user)) (memberships (db s)) = None"
    and "toLowerCase (u_email user) = toLowerCase (i_email i)"
    and "List.find (\<lambda>u. u_id u = u_id user) (users (db s)) = Some user" and "role \<noteq> Owner"
  shows "let s' = s\<lparr>now := now s + d\<rparr> in
    fst (CreateInvitation_execute x (i_workspaceId i) email role actor s') =
      Inl (Conflict ''A pending invitation already exists for this user'') \<and>
    fst (AcceptInvitation_execute x token (u_id user) s') = Inl (Conflict ''Invitation has expired'') \<and>
    fst (DeclineInvitation_execute x token (u_id user) s') = Inl (Conflict ''Invitation has expired'') \<and>
    db (snd (CreateInvitation_execute x (i_workspaceId i) email role actor s')) = db s \<and>
    db (snd (AcceptInvitation_execute x token (u_id user) s')) = db s \<and>
    db (snd (DeclineInvitation_execute x token (u_id user) s')) = db s"
proof -
  let ?s = "s\<lparr>now := now s + d\<rparr>"
  have live: "cacheLive ?s k = None" for k
    by (simp add: cacheLive_def assms(2))
  have check: "\<exists>t. checkInvitation x token (u_id user) ?s = (Inl (Conflict ''Invitation has expired''), t) \<and> db t = db s"
    using assms(1,3-9,14,15) live
    by (simp add: checkInvitation_def bnd_run andThen_run InvitationRepository_findByTokenHash_def
        UserRepository_findById_def readThrough_def)
  from assms(10,11) obtain w m where w: "List.find (\<lambda>w. w_id w = i_workspaceId i) (workspaces (db s)) = Some w"
    and m: "List.find (sameMember (i_workspaceId i) actor) (memberships (db s)) = Some m"
    by auto
  have other: "actor \<noteq> u_id user"
    using m assms(13) by auto
  have "\<exists>j\<in>set (map withoutHash (filter (\<lambda>j. i_email j = lowerTrim (toLowerCase email) \<and> i_status j = IPending)
      (invitations (db s)))). i_workspaceId j = i_workspaceId i"
    using assms(4,5,8) by (auto simp: withoutHash_def)
  then have pend: "\<exists>j\<in>set (filter (\<lambda>j. i_email j = lowerTrim (toLowerCase email) \<and> i_status j = IPending)
      (invitations (db s))). i_workspaceId (withoutHash j) = i_workspaceId i"
    by auto
  obtain t1 where t1: "WorkspaceRepository_findById (i_workspaceId i) ?s = (Inr (Some w), t1)"
    and r1: "readState (CKWorkspace (i_workspaceId i)) ?s t1"
    using workspace_miss [of ?s "i_workspaceId i"] assms(1) live w by auto
  obtain t2 where t2: "MembershipRepository_findByWorkspaceAndUser (i_workspaceId i) actor t1 = (Inr (Some m), t2)"
    and r2: "readState (CKMembership (i_workspaceId i) actor) t1 t2"
    using membership_miss [of t1 "i_workspaceId i" actor] r1 live m by (auto simp: readState_def)
  obtain t3 where t3: "MembershipRepository_findByWorkspaceAndUser (i_workspaceId i) (u_id user) t2 = (Inr None, t3)"
    and r3: "readState (CKMembership (i_workspaceId i) (u_id user)) t2 t3"
    using membership_miss [of t2 "i_workspaceId i" "u_id user"] r1 r2 live other assms(13)
    by (auto simp: readState_def)
  obtain t4 where t4: "InvitationRepository_findPendingByEmail email t3 = (Inr (map withoutHash
      (filter (\<lambda>j. i_email j = lowerTrim (toLowerCase email) \<and> i_status j = IPending) (invitations (db s)))), t4)"
    and r4: "readState (CKInvitationsEmail (toLowerCase email)) t3 t4"
    using pending_miss [of t3 email] r1 r2 r3 live by (auto simp: readState_def)
  have "faults t2 = []" and users: "users (db t2) = users (db s)" and dbs: "db t4 = db s"
    using r1 r2 r3 r4 by (simp_all add: readState_def)
  then have "\<exists>t. CreateInvitation_execute x (i_workspaceId i) email role actor ?s =
      (Inl (Conflict ''A pending invitation already exists for this user''), t) \<and> db t = db s"
    using t1 t2 t3 t4 assms(12,16) pend
    by (simp add: CreateInvitation_execute_def bnd_run andThen_run UserRepository_findByEmailWithoutPassword_def)
  with check show ?thesis
    by (auto simp: Let_def AcceptInvitation_execute_def DeclineInvitation_execute_def bnd_run)
qed

theorem expired_invitation_blocks_witness:
  "fst (CreateInvitation_execute demoExt 3 ''Ann@x.org'' Viewer 9 (demoTeam\<lparr>now := 3000\<rparr>)) =
     Inl (Conflict ''A pending invitation already exists for this user'') \<and>
   fst (DeclineInvitation_execute demoExt ''tok'' 6 (demoTeam\<lparr>now := 3000\<rparr>)) =
     Inl (Conflict ''Invitation has expired'')"
proof -
  have "cache (demoTeam\<lparr>now := 3000\<rparr>) = (\<lambda>_. None)"
    by (simp add: demoTeam_def fun_eq_iff)
  moreover have "toLowerCase ''Ann@x.org'' = ''ann@x.org''" "lowerTrim ''ann@x.org'' = ''ann@x.org''"
    "toLowerCase ''ann@x.org'' = ''ann@x.org''"
    by code_simp+
  ultimately show ?thesis
    using expired_invitation_blocks [of "demoTeam\<lparr>now := 3000\<rparr>" 0 demoInvitation "''Ann@x.org''" demoExt
        "''tok''" 9 demoAnn Viewer]
    by (simp add: sameMember_def Let_def)
qed

section \<open>A workspace that was half created\<close>

text \<open>The workspaces are what they were, or one has the slug.\<close>

definition slugTaken :: "string \<Rightarrow> world \<Rightarrow> world \<Rightarrow> bool" where
  "slugTaken slug s t \<longleftrightarrow> workspaces (db t) = workspaces (db s) \<or>
     (\<exists>w\<in>set (workspaces (db t)). w_slug w = lowerTrim slug)"

interpretation slugTaken: step_order "slugTaken slug" for slug
  by unfold_locales (auto simp: slugTaken_def)

lemma slugTaken_same: "stays sameAccess m \<Longrightarrow> stays (slugTaken slug) m"
  by (erule stays_mono) (simp add: sameAccess_def slugTaken_def)

lemma slugTaken_db: "stays sameDb m \<Longrightarrow> stays (slugTaken slug) m"
  by (erule stays_mono) (simp add: sameDb_def slugTaken_def)

lemma slugTaken_insert:
  "w_slug w = lowerTrim slug \<Longrightarrow> stays (slugTaken slug) (insertUnique workspaces workspaces_update clash w)"
  by (rule staysI) (auto simp: insertUnique_def io_run slugTaken_def split: list.splits option.splits)

lemma slugTaken_member: "stays (slugTaken slug) (insertUnique memberships memberships_update clash m)"
  by (rule staysI) (auto simp: insertUnique_def io_run slugTaken_def split: list.splits option.splits)

lemma slugTaken_duplicateIs: "stays (slugTaken slug) (duplicateIs msg e)"
  by (cases e) (simp_all add: duplicateIs_def slugTaken.stays_throw)

lemma slugTaken_flags: "stays (slugTaken slug) (FeatureFlagsService_createDefaultConfiguration w)"
  by (rule slugTaken_same)
    (unfold FeatureFlagsService_createDefaultConfiguration_def FlagsRepository_create_def
      FlagsRepository_findByWorkspaceId_def,
     intro sameAccess.stays_rules sameAccess_flagsInsert sameAccess_db sameDb_findOne)

lemma slugTaken_settings: "stays (slugTaken slug) (SettingsService_createDefaultSettings w)"
  by (rule slugTaken_same)
    (unfold SettingsService_createDefaultSettings_def SettingsRepository_create_def
      SettingsRepository_findByWorkspaceId_def,
     intro sameAccess.stays_rules sameAccess_settingsInsert sameAccess_db sameDb_findOne)

lemma CreateWorkspace_slug: "stays (slugTaken slug) (CreateWorkspace_execute name slug owner)"
  unfolding CreateWorkspace_execute_def WorkspaceRepository_create_def MembershipRepository_create_def Let_def
  by (intro slugTaken.stays_rules slugTaken_insert slugTaken_member slugTaken_flags slugTaken_settings
      slugTaken_duplicateIs slugTaken_same [OF sameAccess_audit] slugTaken_db [OF reads_sameDb(3)]
      slugTaken_db [OF reads_sameDb(8)] slugTaken_db [OF reads_sameDb(10)] slugTaken_db [OF sameDb_freshId])
    simp

text \<open>
  Creating a workspace is not a transaction: when it fails after the workspace was stored
  (and before its OWNER membership, say), the workspace stays, and every retry with the same
  slug is refused with a conflict, so that the owner can neither use it nor create it again.
\<close>

theorem half_created_workspace:
  assumes "CreateWorkspace_execute name slug owner s = (Inl e, t)"
    and "workspaces (db t) \<noteq> workspaces (db s)"
  shows "fst (CreateWorkspace_execute name' slug owner' (t\<lparr>faults := []\<rparr>)) =
    Inl (Conflict ''Workspace slug already exists'')"
proof -
  have "\<exists>w\<in>set (workspaces (db t)). w_slug w = lowerTrim slug"
    using staysD [OF CreateWorkspace_slug assms(1)] assms(2) by (simp add: slugTaken_def)
  then obtain w where "List.find (\<lambda>w. w_slug w = lowerTrim slug) (workspaces (db t)) = Some w"
    using find_Some_iff_ex [of "\<lambda>w. w_slug w = lowerTrim slug"] by blast
  moreover have "unWorkspace c \<noteq> Some None" for c
    by (cases c) auto
  ultimately show ?thesis
    by (auto simp: CreateWorkspace_execute_def bnd_run andThen_run WorkspaceRepository_findBySlug_def
        readThrough_def split: option.splits bind_splits)
qed

theorem half_created_workspace_witness:
  "let t = snd (CreateWorkspace_execute ''Acme'' ''acme'' 9
     (world0\<lparr>faults := [None, None, None, Some ''reset'']\<rparr>)) in
   memberships (db t) = [] \<and>
   fst (CreateWorkspace_execute ''Acme'' ''acme'' 9 (t\<lparr>faults := []\<rparr>)) =
     Inl (Conflict ''Workspace slug already exists'')"
proof -
  let ?s = "world0\<lparr>faults := [None, None, None, Some ''reset'']\<rparr>"
  obtain t where t: "CreateWorkspace_execute ''Acme'' ''acme'' 9 ?s = (Inl (Infra ''reset''), t)"
    and "workspaces (db t) \<noteq> []" "memberships (db t) = []"
    by (simp add: CreateWorkspace_execute_def WorkspaceRepository_findBySlug_def readThrough_def
        WorkspaceRepository_create_def WorkspaceRepository_clearCache_def clearKeys_def Let_def
        MembershipRepository_create_def prog_defs cacheGet_def cacheLive_def duplicateIs_def world0_def)
  with half_created_workspace [OF t] show ?thesis
    by (simp add: Let_def)
qed

section \<open>Feature flags\<close>

text \<open>
  A feature-flag update is visible at once: afterwards each flag of the request has the
  requested value and every other flag is answered as before, whether the workspace had a
  configuration or was still on the defaults.
\<close>

theorem feature_flags_update:
  assumes "faults s = []"
  shows "\<exists>c t. FeatureFlagsService_updateFlags w patch s = (Inr c, t) \<and>
    (\<forall>f. fst (FeatureFlagsService_isEnabled w f t) =
       (case patch f of Some b \<Rightarrow> Inr b | None \<Rightarrow> fst (FeatureFlagsService_isEnabled w f s)))"
proof (cases "List.find (\<lambda>f. ff_workspaceId f = w) (flags (db s))")
  case None
  with assms show ?thesis
    by (simp add: FeatureFlagsService_updateFlags_def FeatureFlagsService_isEnabled_def bnd_run andThen_run
        FlagsRepository_findByWorkspaceId_def FlagsRepository_create_def find_append overlay_def
        split: option.splits)
next
  case (Some c)
  have "List.find (\<lambda>f. ff_workspaceId f = w) (updateFirst (\<lambda>f. ff_workspaceId f = w) g (flags (db s))) = Some (g c)"
    if "ff_workspaceId (g c) = w" for g
    using find_updateFirst_id [OF Some, of g] that by simp
  moreover have "ff_workspaceId c = w"
    using find_SomeD [OF Some] by simp
  ultimately show ?thesis
    using assms Some
    by (simp add: FeatureFlagsService_updateFlags_def FeatureFlagsService_isEnabled_def bnd_run andThen_run
        FlagsRepository_findByWorkspaceId_def FlagsRepository_update_def overlay_def
        split: option.splits)
qed

theorem feature_flags_update_witness:
  "\<exists>c t. FeatureFlagsService_updateFlags 3 [Exports \<mapsto> False] world0 = (Inr c, t) \<and>
     fst (FeatureFlagsService_isEnabled 3 Exports t) = Inr False"
  using feature_flags_update [of world0 3 "[Exports \<mapsto> False]"] by fastforce

end
