(* ===== verification/TaskSpec.thy ===== *)
theory TaskSpec
  imports Tasks InvitationSpec
begin

text \<open>
  What the task commands promise, whatever call fails: a task only changes together with its
  version and only within its workspace, an update made from a stale version is refused, a task
  is created together with its activity and its outbox event or not at all.
\<close>

section \<open>Calls that leave the tasks alone\<close>

definition sameTasks :: "world \<Rightarrow> world \<Rightarrow> bool" where
  "sameTasks s t \<longleftrightarrow> tasks (db t) = tasks (db s) \<and> nextId s \<le> nextId t"

interpretation sameTasks: step_order sameTasks
  by unfold_locales (auto simp: sameTasks_def)

lemma sameTasks_io:
  assumes "\<And>s. sameTasks s (snd (m s))"
  shows "stays sameTasks (io m)"
proof (rule staysI)
  show "sameTasks s (snd (io m s))" for s
    using assms [of s] assms [of "s\<lparr>faults := tl (faults s)\<rparr>"]
    by (auto simp: io_run sameTasks_def split: list.splits option.splits)
qed

lemma sameTasks_modify: "(\<And>s. sameTasks s (f s)) \<Longrightarrow> stays sameTasks (modify f)"
  by (rule staysI) simp

lemma sameTasks_freshId: "stays sameTasks freshId"
  by (rule staysI) (simp add: sameTasks_def)

lemma sameTasks_query: "stays sameTasks (query f)"
  by (rule sameTasks_io) (simp add: sameTasks_def)

lemma sameTasks_cache: "stays sameTasks (cacheGet k)" "stays sameTasks (cacheSet k v ttl)" "stays sameTasks (cacheDel k)"
  unfolding cacheGet_def cacheSet_def cacheDel_def by (rule sameTasks_io, simp add: sameTasks_def)+

lemma sameTasks_readThrough:
  assumes "stays sameTasks load" and "\<And>s. sameTasks s (remember s)"
  shows "stays sameTasks (readThrough k unpack pack ttl remember load)"
  unfolding readThrough_def
  by (intro sameTasks.stays_rules sameTasks_cache sameTasks_modify assms)

lemma sameTasks_clearKeys:
  assumes "\<And>s f. sameTasks s (upd f s)"
  shows "stays sameTasks (clearKeys keys upd)"
  unfolding clearKeys_def
  by (intro sameTasks.stays_rules sameTasks_cache sameTasks_modify assms)

lemma sameTasks_find: "stays sameTasks (findOne get p)" "stays sameTasks (findDocs get p)"
  unfolding findOne_def findDocs_def by (rule sameTasks_query)+

lemma sameTasks_insertOne:
  assumes "\<And>f d. tasks (upd f d) = tasks d"
  shows "stays sameTasks (insertOne get upd x)"
  unfolding insertOne_def by (rule sameTasks_io) (simp add: sameTasks_def assms)

lemma sameTasks_audit: "stays sameTasks (AuditService_log a b c d e f)"
  unfolding AuditService_log_def AuditLogRepository_create_def
  by (intro sameTasks.stays_rules sameTasks_insertOne) simp

lemma sameTasks_activity: "stays sameTasks (ActivityRepository_create a b c d e)"
  unfolding ActivityRepository_create_def
  by (intro sameTasks.stays_rules sameTasks_insertOne) simp

lemma sameTasks_outbox: "stays sameTasks (OutboxService_create a b c d e f)"
  unfolding OutboxService_create_def OutboxRepository_create_def Let_def
  by (intro sameTasks.stays_rules sameTasks_insertOne sameTasks_freshId) simp

lemma sameTasks_membership: "stays sameTasks (MembershipRepository_findByWorkspaceAndUser w u)"
  unfolding MembershipRepository_findByWorkspaceAndUser_def Let_def
  by (rule sameTasks_readThrough) (simp_all add: sameTasks_find rememberMb_def sameTasks_def)

lemma sameTasks_category:
  "stays sameTasks (CategoryRepository_findById i u)" "stays sameTasks (CategoryRepository_findByIdForRole i u r)"
  unfolding CategoryRepository_findById_def CategoryRepository_findByIdForRole_def Let_def
  by (rule sameTasks_readThrough; simp add: sameTasks_find rememberCat_def sameTasks_def)+

lemma sameTasks_clearCache: "stays sameTasks TaskRepository_clearCache"
  unfolding TaskRepository_clearCache_def by (rule sameTasks_clearKeys) (simp add: sameTasks_def)

lemma sameTasks_startSession: "stays sameTasks startSession"
  unfolding startSession_def by (rule sameTasks_io) (simp add: sameTasks_def)

lemma sameTasks_effects: "stays sameTasks (emit e)" "stays sameTasks (publishTaskCompleted i u)" "stays sameTasks (deleteFile url)"
  unfolding emit_def publishTaskCompleted_def deleteFile_def by (rule sameTasks_modify, simp add: sameTasks_def)+

lemma sameTasks_versionToPrecondition: "stays sameTasks (versionToPrecondition e)"
  by (cases e) (simp_all add: versionToPrecondition_def sameTasks.stays_throw)

lemma sameTasks_json:
  "(\<And>c. stays sameTasks (f c)) \<Longrightarrow> stays sameTasks (case v of JOid c \<Rightarrow> f c | _ \<Rightarrow> ret x)"
  by (cases v) (simp_all add: sameTasks.stays_ret)

lemma sameTasks_authorized: "stays sameTasks (TaskRepository_findAuthorizedTask i w)"
  unfolding TaskRepository_findAuthorizedTask_def populateCategory_def
  by (intro sameTasks.stays_rules sameTasks_find) (auto intro!: sameTasks.stays_rules sameTasks_find split: json.splits)

lemma sameTasks_ownerRoom: "stays sameTasks (ownerRoom lt)"
  unfolding ownerRoom_def by (intro sameTasks.stays_rules)

lemmas sameTasks_rules =
  sameTasks.stays_rules sameTasks_freshId sameTasks_find sameTasks_audit sameTasks_activity sameTasks_outbox
  sameTasks_membership sameTasks_category sameTasks_clearCache sameTasks_startSession sameTasks_effects
  sameTasks_authorized sameTasks_ownerRoom sameTasks_versionToPrecondition

section \<open>Tasks change with their version, within their workspace\<close>

definition tasksInv :: "world \<Rightarrow> bool" where
  "tasksInv s \<longleftrightarrow> distinct (map t_id (tasks (db s))) \<and> (\<forall>t\<in>set (tasks (db s)). t_id t < nextId s)"

text \<open>
  One document before and after: nothing changed, or it was a live task of one of the
  workspaces \<open>W\<close>, its version grew, and what identifies it was kept.
\<close>

definition docStep :: "oid set \<Rightarrow> taskDoc \<Rightarrow> taskDoc \<Rightarrow> bool" where
  "docStep W x y \<longleftrightarrow> t_id y = t_id x \<and> t_workspace y = t_workspace x \<and> t_owner y = t_owner x \<and>
     t_createdAt y = t_createdAt x \<and>
     (y = x \<or> \<not> t_isDeleted x \<and> t_workspace x \<in> W \<and> t_v x < t_v y)"

definition evolves :: "oid set \<Rightarrow> taskDoc list \<Rightarrow> taskDoc list \<Rightarrow> bool" where
  "evolves W xs ys \<longleftrightarrow> (\<exists>us vs. ys = us @ vs \<and> list_all2 (docStep W) xs us \<and> (\<forall>v\<in>set vs. t_workspace v \<in> W))"

lemma docStep_refl: "docStep W x x"
  by (simp add: docStep_def)

lemma docStep_trans: "docStep W x y \<Longrightarrow> docStep W y z \<Longrightarrow> docStep W x z"
  by (auto simp: docStep_def)

lemma docSteps_refl: "list_all2 (docStep W) xs xs"
  by (simp add: list_all2_refl docStep_refl)

lemma evolves_refl: "evolves W xs xs"
  unfolding evolves_def by (rule exI [of _ xs], rule exI [of _ "[]"]) (simp add: docSteps_refl)

lemma evolves_trans:
  assumes "evolves W xs ys" and "evolves W ys zs"
  shows "evolves W xs zs"
proof -
  from assms(1) obtain us vs where ys: "ys = us @ vs" "list_all2 (docStep W) xs us" "\<forall>v\<in>set vs. t_workspace v \<in> W"
    by (auto simp: evolves_def)
  from assms(2) obtain us' vs' where zs: "zs = us' @ vs'" "list_all2 (docStep W) ys us'" "\<forall>v\<in>set vs'. t_workspace v \<in> W"
    by (auto simp: evolves_def)
  from zs(2) ys(1) obtain a b where ab: "us' = a @ b" "list_all2 (docStep W) us a" "list_all2 (docStep W) vs b"
    by (auto simp: list_all2_append1)
  have "list_all2 (docStep W) xs a"
    by (rule list_all2_trans [OF docStep_trans ys(2) ab(2)])
  moreover have "t_workspace v \<in> W" if "v \<in> set b" for v
    using ab(3) ys(3) that by (induction rule: list_all2_induct) (auto simp: docStep_def)
  ultimately show ?thesis
    using zs(1,3) ab(1) unfolding evolves_def by (intro exI [of _ a] exI [of _ "b @ vs'"]) auto
qed

lemma evolves_append: "t_workspace x \<in> W \<Longrightarrow> evolves W xs (xs @ [x])"
  unfolding evolves_def by (rule exI [of _ xs], rule exI [of _ "[x]"]) (simp add: docSteps_refl)

definition tasksStep :: "oid set \<Rightarrow> world \<Rightarrow> world \<Rightarrow> bool" where
  "tasksStep W s t \<longleftrightarrow> nextId s \<le> nextId t \<and>
     (tasksInv s \<longrightarrow> tasksInv t \<and> evolves W (tasks (db s)) (tasks (db t)))"

interpretation tasksStep: step_order "tasksStep W" for W
proof unfold_locales
  show "tasksStep W s s" for s
    by (simp add: tasksStep_def evolves_refl)
  show "tasksStep W s u" if "tasksStep W s t" "tasksStep W t u" for s t u
    using that unfolding tasksStep_def by (auto intro: evolves_trans)
qed

lemma sameTasks_step: "sameTasks s t \<Longrightarrow> tasksStep W s t"
  by (auto simp: sameTasks_def tasksStep_def tasksInv_def evolves_refl)

lemma step_same: "stays sameTasks m \<Longrightarrow> stays (tasksStep W) m"
  by (erule stays_mono) (rule sameTasks_step)

lemma step_same_run: "stays sameTasks m \<Longrightarrow> tasksStep W s (snd (m s))"
  by (rule stays_snd [OF step_same])

lemma step_withTransaction:
  assumes "tasksStep W s (snd (body s))"
  shows "tasksStep W s (snd (withTransaction body s))"
proof -
  have "stays (tasksStep W) (io (ret x))" for x :: 'a
    by (rule step_same [OF sameTasks_io]) (simp add: sameTasks_def)
  then have commit: "tasksStep W t (snd (io (ret x) t))" for x :: 'a and t
    by (rule stays_snd)
  have run: "tasksStep W s (snd (bnd body (\<lambda>x. io (ret x)) s))"
    by (rule tasksStep.run_bnd [of W s body, OF assms commit])
  obtain r t where rt: "bnd body (\<lambda>x. io (ret x)) s = (r, t)"
    by (cases "bnd body (\<lambda>x. io (ret x)) s")
  with run have t: "tasksStep W s t" by simp
  then have "sameTasks s (t\<lparr>db := db s\<rparr>)"
    by (simp add: tasksStep_def sameTasks_def)
  with t rt show ?thesis
    by (auto simp: withTransaction_def sameTasks_step split: sum.splits)
qed

text \<open>The write of \<open>save\<close>: the document was loaded from this database, live and in \<open>W\<close>.\<close>

lemma docStep_delta:
  "\<not> t_isDeleted c \<Longrightarrow> t_workspace c \<in> W \<Longrightarrow> docStep W c (taskDelta loaded doc c)"
  by (simp add: docStep_def taskDelta_def)

lemma docSteps_updateFirst:
  "(\<And>x. x \<in> set xs \<Longrightarrow> p x \<Longrightarrow> docStep W x (f x)) \<Longrightarrow> list_all2 (docStep W) xs (updateFirst p f xs)"
  by (induction xs) (auto simp: docStep_refl docSteps_refl)

lemma step_saveTask:
  assumes "loaded \<in> set (tasks (db s))" and "\<not> t_isDeleted loaded" and "t_workspace loaded \<in> W"
  shows "tasksStep W s (snd (saveTask loaded doc s))"
proof -
  let ?p = "\<lambda>t. t_id t = t_id loaded \<and> t_v t = t_v loaded"
  have upd: "tasksStep W s (u\<lparr>db := (db u)\<lparr>tasks := updateFirst ?p (taskDelta loaded doc) (tasks (db u))\<rparr>\<rparr>)"
    if u: "db u = db s" "nextId u = nextId s" for u
  proof (cases "tasksInv s")
    case True
    then have "x = loaded" if "x \<in> set (tasks (db s))" "t_id x = t_id loaded" for x
      using that assms(1) distinct_key_eq [of t_id "tasks (db s)" x loaded] by (simp add: tasksInv_def)
    then have "docStep W x (taskDelta loaded doc x)" if "x \<in> set (tasks (db s))" "?p x" for x
      using that assms(2,3) by (auto intro: docStep_delta)
    then have "list_all2 (docStep W) (tasks (db s)) (updateFirst ?p (taskDelta loaded doc) (tasks (db s)))"
      by (intro docSteps_updateFirst)
    then have "evolves W (tasks (db s)) (updateFirst ?p (taskDelta loaded doc) (tasks (db s)))"
      unfolding evolves_def by (intro exI [of _ "updateFirst ?p (taskDelta loaded doc) (tasks (db s))"] exI [of _ "[]"]) simp
    moreover have ids: "map t_id (updateFirst ?p (taskDelta loaded doc) (tasks (db s))) = map t_id (tasks (db s))"
      by (rule map_updateFirst) (simp add: taskDelta_def)
    then have "t_id ` set (updateFirst ?p (taskDelta loaded doc) (tasks (db s))) = t_id ` set (tasks (db s))"
      by (metis list.set_map)
    with True have "\<forall>t\<in>set (updateFirst ?p (taskDelta loaded doc) (tasks (db s))). t_id t < nextId s"
      unfolding tasksInv_def by (metis (no_types, lifting) image_iff)
    with True ids u have "tasksInv (u\<lparr>db := (db u)\<lparr>tasks := updateFirst ?p (taskDelta loaded doc) (tasks (db u))\<rparr>\<rparr>)"
      by (simp add: tasksInv_def)
    ultimately show ?thesis
      using u by (simp add: tasksStep_def)
  next
    case False
    with u show ?thesis by (simp add: tasksStep_def)
  qed
  have same: "tasksStep W s u" if "db u = db s" "nextId u = nextId s" for u
    by (rule sameTasks_step) (simp add: sameTasks_def that)
  let ?body = "\<lambda>s. case List.find ?p (tasks (db s)) of
      None \<Rightarrow> (Inl (if doc = loaded then PlainError ''No document found for query''
                   else VersionError ''No matching document found''), s)
    | Some _ \<Rightarrow> if doc = loaded then (Inr doc, s)
        else (Inr (doc\<lparr>t_v := t_v loaded + 1\<rparr>),
              s\<lparr>db := (db s)\<lparr>tasks := updateFirst ?p (taskDelta loaded doc) (tasks (db s))\<rparr>\<rparr>)"
  have body: "tasksStep W s (snd (?body u))" if "db u = db s" "nextId u = nextId s" for u
  proof (cases "List.find ?p (tasks (db u))")
    case None
    then show ?thesis using same [OF that] by simp
  next
    case (Some d)
    then show ?thesis using same [OF that] upd [OF that] by simp
  qed
  have "tasksStep W s (snd (io ?body s))"
  proof (rule snd_io [where P = "tasksStep W s"])
    fix fs
    have "db (s\<lparr>faults := fs\<rparr>) = db s" "nextId (s\<lparr>faults := fs\<rparr>) = nextId s"
      by simp_all
    then show "tasksStep W s (s\<lparr>faults := fs\<rparr>) \<and> tasksStep W s (snd (?body (s\<lparr>faults := fs\<rparr>)))"
      using same body by blast
  qed
  then show ?thesis
    unfolding saveTask_def Let_def by (simp add: andThen_run same)
qed

lemma saveTask_nextId: "nextId (snd (saveTask loaded doc s)) = nextId s"
proof -
  have "nextId (snd (io m u)) = nextId u" if "\<And>v. nextId (snd (m v)) = nextId v" for m :: "taskDoc wprog" and u
    by (rule snd_io [where P = "\<lambda>v. nextId v = nextId u"]) (simp add: that)
  then show ?thesis
    unfolding saveTask_def by (simp add: andThen_run Let_def split: option.split)
qed

text \<open>A second lookup by the id alone finds the task that was authorised before.\<close>

lemma step_loadAndSave:
  assumes "d \<in> set (tasks (db s))" and "inWorkspace i w d" and "w \<in> W"
    and change: "\<And>task. stays sameTasks (change task)"
  shows "tasksStep W s (snd (loadAndSave i change s))"
  unfolding loadAndSave_def
proof (rule tasksStep.run_bnd)
  show "tasksStep W s (snd (findOne tasks (\<lambda>t. t_id t = i) s))"
    by (rule step_same_run [OF sameTasks_find(1)])
  fix found u assume find: "findOne tasks (\<lambda>t. t_id t = i) s = (Inr found, u)"
  then have u: "tasks (db u) = tasks (db s)" "found = List.find (\<lambda>t. t_id t = i) (tasks (db s))"
    by (auto dest!: tasksC.findOne_ok) (metis (no_types) find sameTasks_def sameTasks_find(1) staysD)
  show "tasksStep W u (snd (bnd (orThrow found (NotFound ''Task Not Found'')) (\<lambda>task. bnd (change task) (saveTask task)) u))"
  proof (cases found)
    case None
    then show ?thesis by (simp add: bnd_run tasksStep.refl)
  next
    case (Some task)
    with u have task: "task \<in> set (tasks (db u))" "t_id task = i"
      using find_SomeD [of "\<lambda>t. t_id t = i" "tasks (db s)" task] by simp_all
    have "tasksStep W u (snd (bnd (change task) (saveTask task) u))"
    proof (rule tasksStep.run_bnd)
      show "tasksStep W u (snd (change task u))" by (rule step_same_run [OF change])
      fix doc v assume "change task u = (Inr doc, v)"
      then have v: "tasks (db v) = tasks (db u)" "nextId u \<le> nextId v"
        using staysD [OF change] by (auto simp: sameTasks_def)
      show "tasksStep W v (snd (saveTask task doc v))"
      proof (cases "tasksInv v")
        case True
        have "d \<in> set (tasks (db v))" using assms(1) u v by simp
        then have "task = d"
          using True task v assms(2) by (auto simp: tasksInv_def inWorkspace_def intro: distinct_key_eq)
        with assms(2,3) task v show ?thesis
          by (intro step_saveTask) (simp_all add: inWorkspace_def)
      next
        case False
        then show ?thesis by (simp add: tasksStep_def saveTask_nextId)
      qed
    qed
    with Some show ?thesis by (simp add: bnd_run)
  qed
qed

lemma authorized_ok:
  assumes "TaskRepository_findAuthorizedTask i w s = (Inr lt, u)"
  shows "lt_doc lt \<in> set (tasks (db s)) \<and> inWorkspace i w (lt_doc lt) \<and> db u = db s \<and>
    (\<forall>o'. lt_owner lt = Some o' \<longrightarrow> u_id o' = t_owner (lt_doc lt))"
proof -
  have frame: "stays sameDb (TaskRepository_findAuthorizedTask i w)"
    unfolding TaskRepository_findAuthorizedTask_def populateCategory_def
    by (intro sameDb_rules) (auto intro!: sameDb_rules split: json.splits)
  have ids: "u_id (selected o') = u_id o'" for o' by (simp add: selected_def)
  have "db u = db s"
    using sameDbD [OF frame assms] by simp
  with assms ids show ?thesis
    unfolding TaskRepository_findAuthorizedTask_def
    by (auto simp: bnd_ok orThrow_ok dest!: tasksC.findOne_ok usersC.findOne_ok find_SomeD)
qed

lemma sameTasks_tasks: "stays sameTasks m \<Longrightarrow> m s = (r, u) \<Longrightarrow> tasks (db u) = tasks (db s)"
  by (drule (1) staysD) (simp add: sameTasks_def)

lemma UpdateTask_load_same: "stays sameTasks (UpdateTask_load i dto u role w v)"
  unfolding UpdateTask_load_def
  by (intro sameTasks.stays_rules sameTasks_authorized)
    (auto intro!: sameTasks_rules split: json.split)

lemma UpdateTask_load_ok:
  assumes "UpdateTask_load i dto u role w v s = (Inr lt, t)"
  shows "lt_doc lt \<in> set (tasks (db s)) \<and> inWorkspace i w (lt_doc lt) \<and> t_v (lt_doc lt) = v \<and>
    tasks (db t) = tasks (db s)"
proof -
  let ?check = "case jget dto ''category'' of
         JOid c \<Rightarrow> bnd (CategoryRepository_findByIdForRole c u role) (\<lambda>category.
           throwIf (category = None) (NotFound ''Category not found''))
       | _ \<Rightarrow> ret ()"
  have check: "stays sameTasks ?check"
    by (auto intro!: sameTasks_rules split: json.split)
  from assms obtain u' where 1: "?check s = (Inr (), u')" and 2: "TaskRepository_findAuthorizedTask i w u' = (Inr lt, t)"
    and 3: "t_v (lt_doc lt) = v"
    unfolding UpdateTask_load_def by (auto simp: andThen_ok bnd_ok split: if_split_asm)
  with sameTasks_tasks [OF check 1] authorized_ok [OF 2] show ?thesis by simp
qed

lemma step_UpdateTask_commit:
  assumes "lt_doc lt \<in> set (tasks (db s))" and "inWorkspace i w (lt_doc lt)" and "w \<in> W"
  shows "tasksStep W s (snd (UpdateTask_commit lt dto u w' s))"
proof -
  have save: "tasksStep W v (snd (UpdateTask_transaction lt dto u w' c v))"
    if "tasks (db v) = tasks (db s)" for v c
  proof -
    have "tasksStep W v (snd (tryCatch (saveTask (lt_doc lt) (assignTask dto (lt_doc lt))) versionToPrecondition v))"
      using assms that
      by (intro tasksStep.run_tryCatch step_saveTask step_same sameTasks_versionToPrecondition)
        (simp_all add: inWorkspace_def)
    then show ?thesis
      unfolding UpdateTask_transaction_def
      by (rule step_withTransaction [OF tasksStep.run_bnd])
        (intro step_same_run sameTasks_rules)
  qed
  have after: "stays sameTasks (andThen (whenP c (publishTaskCompleted a b)) (andThen TaskRepository_clearCache
      (andThen (emit e) (ret x))))" for c a b e and x :: taskDoc
    by (intro sameTasks_rules)
  show ?thesis
  proof (cases "lt_owner lt")
    case None
    then show ?thesis by (simp add: UpdateTask_commit_def bnd_run tasksStep.refl)
  next
    case (Some owner)
    have "tasksStep W s (snd (andThen startSession (bnd (UpdateTask_transaction lt dto u w' (completes lt dto)) (\<lambda>saved.
        andThen (whenP (completes lt dto) (publishTaskCompleted (t_id (lt_doc lt)) (u_id owner)))
        (andThen TaskRepository_clearCache (andThen (emit (TaskUpdated (u_id owner) (t_id (lt_doc lt)))) (ret saved))))) s))"
    proof (rule tasksStep.run_andThen [OF step_same_run [OF sameTasks_startSession]])
      fix x t assume "startSession s = (Inr x, t)"
      then have "tasks (db t) = tasks (db s)" by (rule sameTasks_tasks [OF sameTasks_startSession])
      then show "tasksStep W t (snd (bnd (UpdateTask_transaction lt dto u w' (completes lt dto)) (\<lambda>saved.
        andThen (whenP (completes lt dto) (publishTaskCompleted (t_id (lt_doc lt)) (u_id owner)))
        (andThen TaskRepository_clearCache (andThen (emit (TaskUpdated (u_id owner) (t_id (lt_doc lt)))) (ret saved)))) t))"
        by (rule tasksStep.run_bnd [OF save step_same_run [OF after]])
    qed
    with Some show ?thesis by (simp add: UpdateTask_commit_def orThrow_def)
  qed
qed

lemma step_UpdateTask: "w \<in> W \<Longrightarrow> tasksStep W s (snd (UpdateTask_execute i dto u role w v s))"
  unfolding UpdateTask_execute_def
proof (rule tasksStep.run_bnd [OF step_same_run [OF UpdateTask_load_same]])
  fix lt t assume "w \<in> W" and "UpdateTask_load i dto u role w v s = (Inr lt, t)"
  then show "tasksStep W t (snd (UpdateTask_commit lt dto u w t))"
    by (auto dest!: UpdateTask_load_ok intro: step_UpdateTask_commit [where i = i and w = w])
qed

text \<open>The commands that look the task up, then change it by its id.\<close>

lemma step_authorized:
  assumes "w \<in> W" and change: "\<And>lt d t. d \<in> set (tasks (db t)) \<Longrightarrow> inWorkspace i w d \<Longrightarrow> d = lt_doc lt \<Longrightarrow>
    tasksStep W t (snd (f lt t))"
  shows "tasksStep W s (snd (bnd (TaskRepository_findAuthorizedTask i w) f s))"
proof (rule tasksStep.run_bnd [OF step_same_run [OF sameTasks_authorized]])
  fix lt t assume "TaskRepository_findAuthorizedTask i w s = (Inr lt, t)"
  then show "tasksStep W t (snd (f lt t))"
    by (auto dest!: authorized_ok intro: change)
qed

lemma step_bnd_same:
  "tasksStep W s (snd (m s)) \<Longrightarrow> (\<And>x. stays sameTasks (f x)) \<Longrightarrow> tasksStep W s (snd (bnd m f s))"
  by (rule tasksStep.run_bnd) (auto intro: step_same_run)

lemma step_DeleteTask: "w \<in> W \<Longrightarrow> tasksStep W s (snd (DeleteTask_execute i u w s))"
  unfolding DeleteTask_execute_def Let_def
proof (rule step_authorized)
  fix lt :: loadedTask and d and t :: world
  assume "w \<in> W" and d: "d \<in> set (tasks (db t))" "inWorkspace i w d" "d = lt_doc lt"
  then have "tasksStep W t (snd (saveTask (lt_doc lt) ((lt_doc lt)\<lparr>t_isDeleted := True, t_deletedAt := Some (now t)\<rparr>) t))"
    by (intro step_saveTask) (auto simp: inWorkspace_def)
  then show "tasksStep W t (snd (bnd (gets now) (\<lambda>n. andThen (saveTask (lt_doc lt) ((lt_doc lt)\<lparr>t_isDeleted := True, t_deletedAt := Some n\<rparr>))
     (andThen (ActivityRepository_create (t_id (lt_doc lt)) u ''deleted'' ''Task deleted'' None)
     (andThen (AuditService_log (Some u) ''TASK_DELETED'' ''TASK'' (Some w) None
       (Some [taskMeta (t_id (lt_doc lt)), (''deletionType'', JStr ''soft_delete'')]))
     (andThen TaskRepository_clearCache (bnd (ownerRoom lt) (\<lambda>room.
     andThen (emit (TaskDeleted room (t_id (lt_doc lt)))) (ret ''Task Deleted Successfully!''))))))) t))"
    unfolding bnd_gets andThen_def [of "saveTask _ _"]
    by (rule step_bnd_same) (intro sameTasks_rules)
qed

text \<open>Commands of the form: authorise, load again and save, then log.\<close>

lemma step_authorized_save:
  assumes "w \<in> W" and "\<And>task. stays sameTasks (change task)" and "\<And>lt x. stays sameTasks (f lt x)"
  shows "tasksStep W s (snd (bnd (TaskRepository_findAuthorizedTask i w) (\<lambda>lt. bnd (loadAndSave i change) (f lt)) s))"
proof (rule step_authorized [OF assms(1)])
  fix lt :: loadedTask and d and t :: world
  assume d: "d \<in> set (tasks (db t))" and "inWorkspace i w d"
  show "tasksStep W t (snd (bnd (loadAndSave i change) (f lt) t))"
    by (rule step_bnd_same) (rule step_loadAndSave [OF d \<open>inWorkspace i w d\<close> assms(1,2)], rule assms(3))
qed

lemma step_CreateComment: "w \<in> W \<Longrightarrow> tasksStep W s (snd (CreateComment_execute i body u w s))"
  unfolding CreateComment_execute_def TaskRepository_addComment_def
  by (rule step_authorized_save) (auto intro!: sameTasks_rules)

lemma step_UploadAttachment: "w \<in> W \<Longrightarrow> tasksStep W s (snd (UploadAttachment_execute i file u w s))"
  unfolding UploadAttachment_execute_def TaskRepository_uploadAttachment_def andThen_def [of "TaskRepository_findAuthorizedTask _ _"]
  by (rule step_authorized_save) (auto intro!: sameTasks_rules)

lemma step_DeleteAttachment: "w \<in> W \<Longrightarrow> tasksStep W s (snd (DeleteAttachment_execute i a u w s))"
  unfolding DeleteAttachment_execute_def TaskRepository_deleteAttachment_def
proof (rule step_authorized)
  assume w: "w \<in> W"
  then show "w \<in> W" .
  fix lt :: loadedTask and d and t :: world
  assume d: "d \<in> set (tasks (db t))" "inWorkspace i w d"
  let ?change = "\<lambda>task. andThen (throwIf (\<not> (\<exists>x\<in>set (t_attachments task). a_id x = a)) (NotFound ''Attachment Not Found''))
       (ret (task\<lparr>t_attachments := filter (\<lambda>x. a_id x \<noteq> a) (t_attachments task)\<rparr>)) :: taskDoc wprog"
  let ?rest = "andThen (ActivityRepository_create (t_id (lt_doc lt)) u ''attachment_deleted'' ''Attachment deleted'' None)
     (andThen (AuditService_log (Some u) ''ATTACHMENT_DELETED'' ''ATTACHMENT'' (Some w) None
       (Some [(''attachmentId'', JStr (oidString a)), taskMeta i]))
     (andThen TaskRepository_clearCache (ret ''Attachment deleted successfully.'')))"
  show "tasksStep W t (snd (bnd (orThrow (List.find (\<lambda>x. a_id x = a) (t_attachments (lt_doc lt))) (NotFound ''Attachment Not Found''))
      (\<lambda>attachment. andThen (deleteFile (a_url attachment)) (andThen (loadAndSave i ?change) ?rest)) t))"
  proof (rule tasksStep.run_bnd [OF step_same_run [OF sameTasks.stays_orThrow]])
    fix x v assume "orThrow (List.find (\<lambda>x. a_id x = a) (t_attachments (lt_doc lt))) (NotFound ''Attachment Not Found'') t = (Inr x, v)"
    then have v: "v = t" by (simp add: orThrow_ok)
    show "tasksStep W v (snd (andThen (deleteFile (a_url x)) (andThen (loadAndSave i ?change) ?rest) v))"
    proof (rule tasksStep.run_andThen [OF step_same_run [OF sameTasks_effects(3)]])
      fix y z assume "deleteFile (a_url x) v = (Inr y, z)"
      then have z: "tasks (db z) = tasks (db t)"
        using v by (simp add: sameTasks_tasks [OF sameTasks_effects(3)])
      show "tasksStep W z (snd (andThen (loadAndSave i ?change) ?rest z))"
        unfolding andThen_def [of "loadAndSave _ _"]
      proof (rule step_bnd_same)
        show "tasksStep W z (snd (loadAndSave i ?change z))"
          using d z w by (intro step_loadAndSave [of d]) (auto intro!: sameTasks_rules)
      qed (intro sameTasks_rules)
    qed
  qed
qed

lemma step_AssignTask: "w \<in> W \<Longrightarrow> tasksStep W s (snd (AssignTask_execute i u w us s))"
  unfolding AssignTask_execute_def TaskRepository_assignUsers_def TaskRepository_findById_def
proof (rule tasksStep.run_bnd [OF step_same_run [OF sameTasks_find(1)]])
  fix found t assume w: "w \<in> W" and find: "findOne tasks (inWorkspace i w) s = (Inr found, t)"
  let ?save = "bnd (loadAndSave i (\<lambda>task. ret (task\<lparr>t_assignees := us\<rparr>))) (\<lambda>updatedTask.
     andThen (AuditService_log (Some u) ''TASK_ASSIGNED'' ''TASK'' (Some w) None
       (Some [taskMeta i, (''assigneeIds'', JArr (map (\<lambda>i. JStr (oidString i)) us))]))
       (ret updatedTask))"
  show "tasksStep W t (snd (bnd (orThrow found (NotFound ''Task Not Found''))
      (\<lambda>task. andThen (AssignTask_authorize task u us) ?save) t))"
  proof (cases found)
    case None
    then show ?thesis by (simp add: tasksStep.refl)
  next
    case (Some task)
    with find have task: "task \<in> set (tasks (db t))" "inWorkspace i w task"
      using sameTasks_tasks [OF sameTasks_find(1) find] find_SomeD [of "inWorkspace i w" "tasks (db s)" task]
      by (auto dest!: tasksC.findOne_ok)
    have checks: "stays sameTasks (AssignTask_authorize task u us)"
      unfolding AssignTask_authorize_def by (intro sameTasks_rules)
    have "tasksStep W v (snd (?save v))" if "AssignTask_authorize task u us t = (Inr x, v)" for x v
    proof (rule step_bnd_same)
      show "tasksStep W v (snd (loadAndSave i (\<lambda>task. ret (task\<lparr>t_assignees := us\<rparr>)) v))"
        using sameTasks_tasks [OF checks that] task w
        by (intro step_loadAndSave [of task]) (auto intro!: sameTasks_rules)
    qed (intro sameTasks_rules)
    then have "tasksStep W t (snd (andThen (AssignTask_authorize task u us) ?save t))"
      by (rule tasksStep.run_andThen [OF step_same_run [OF checks]])
    with Some show ?thesis by simp
  qed
qed

text \<open>Creation adds one task of the workspace, under an id that was never drawn.\<close>

lemma step_TaskRepository_create:
  assumes "w \<in> W"
  shows "tasksStep W s (snd (TaskRepository_create dto w u s))"
proof -
  let ?task = "newTask (nextId s) (now s) dto u w"
  have ids: "t_id ?task = nextId s" "t_workspace ?task = w"
    by (simp_all add: newTask_def Let_def)
  have grown: "tasksStep W s (v\<lparr>db := (db v)\<lparr>tasks := tasks (db v) @ [?task]\<rparr>\<rparr>)"
    if "db v = db s" "nextId v = Suc (nextId s)" for v
    using that assms ids
    by (auto simp: tasksStep_def tasksInv_def evolves_append)
  have same: "tasksStep W s v" if "db v = db s" "nextId v = Suc (nextId s)" for v
    by (rule sameTasks_step) (simp add: sameTasks_def that)
  let ?s = "s\<lparr>nextId := Suc (nextId s)\<rparr>"
  have "tasksStep W s (snd (insertOne tasks tasks_update ?task ?s))"
    unfolding insertOne_def
  proof (rule snd_io [where P = "tasksStep W s"])
    fix fs
    have "db (?s\<lparr>faults := fs\<rparr>) = db s" "nextId (?s\<lparr>faults := fs\<rparr>) = Suc (nextId s)" by simp_all
    from same [OF this] grown [OF this]
    show "tasksStep W s (?s\<lparr>faults := fs\<rparr>) \<and>
      tasksStep W s (snd (modify (\<lambda>s. s\<lparr>db := tasks_update (\<lambda>_. tasks (db s) @ [?task]) (db s)\<rparr>) (?s\<lparr>faults := fs\<rparr>)))"
      by simp
  qed
  moreover have "tasksStep W s ?s" by (rule same) simp_all
  ultimately show ?thesis
    unfolding TaskRepository_create_def Let_def
    by (auto simp: bnd_run andThen_run split: prod.splits sum.splits)
qed

lemma sameTasks_CreateTask_check: "stays sameTasks (CreateTask_check dto w u)"
  unfolding CreateTask_check_def
  by (intro sameTasks_rules) (auto intro!: sameTasks_rules split: json.split)

lemma step_CreateTask:
  assumes "w \<in> W"
  shows "tasksStep W s (snd (CreateTask_execute dto w u s))"
proof -
  have "stays (tasksStep W) (CreateTask_transaction dto w u)"
    unfolding CreateTask_transaction_def
    by (rule staysI, rule step_withTransaction, rule step_bnd_same [OF step_TaskRepository_create [OF assms]])
      (intro sameTasks_rules)
  then have "stays (tasksStep W) (CreateTask_execute dto w u)"
    unfolding CreateTask_execute_def
    by (intro tasksStep.stays_rules step_same [OF sameTasks_CreateTask_check] step_same [OF sameTasks_startSession]
        step_same [OF sameTasks_audit] step_same [OF sameTasks_clearCache] step_same [OF sameTasks_effects(1)])
  then show ?thesis by (rule stays_snd)
qed

section \<open>Any sequence of commands\<close>

datatype taskCommand =
    CreateTask props oid oid
  | UpdateTask oid props oid string oid int
  | AssignTask oid oid oid "oid list"
  | DeleteTask oid oid oid
  | CreateComment oid string oid oid
  | UploadAttachment oid uploadedFile oid oid
  | DeleteAttachment oid oid oid oid

fun commandWorkspace :: "taskCommand \<Rightarrow> oid" where
  "commandWorkspace (CreateTask dto w u) = w"
| "commandWorkspace (UpdateTask i dto u role w v) = w"
| "commandWorkspace (AssignTask i u w us) = w"
| "commandWorkspace (DeleteTask i u w) = w"
| "commandWorkspace (CreateComment i body u w) = w"
| "commandWorkspace (UploadAttachment i file u w) = w"
| "commandWorkspace (DeleteAttachment i a u w) = w"

fun runCommand :: "taskCommand \<Rightarrow> world \<Rightarrow> world" where
  "runCommand (CreateTask dto w u) s = snd (CreateTask_execute dto w u s)"
| "runCommand (UpdateTask i dto u role w v) s = snd (UpdateTask_execute i dto u role w v s)"
| "runCommand (AssignTask i u w us) s = snd (AssignTask_execute i u w us s)"
| "runCommand (DeleteTask i u w) s = snd (DeleteTask_execute i u w s)"
| "runCommand (CreateComment i body u w) s = snd (CreateComment_execute i body u w s)"
| "runCommand (UploadAttachment i file u w) s = snd (UploadAttachment_execute i file u w s)"
| "runCommand (DeleteAttachment i a u w) s = snd (DeleteAttachment_execute i a u w s)"

lemma step_runCommand: "commandWorkspace c \<in> W \<Longrightarrow> tasksStep W s (runCommand c s)"
  by (cases c) (simp_all add: step_CreateTask step_UpdateTask step_AssignTask step_DeleteTask
      step_CreateComment step_UploadAttachment step_DeleteAttachment)

lemma step_runCommands: "(\<forall>c\<in>set cs. commandWorkspace c \<in> W) \<Longrightarrow> tasksStep W s (fold runCommand cs s)"
proof (induction cs arbitrary: s)
  case (Cons c cs)
  then show ?case
    using step_runCommand tasksStep.trans by (metis fold_simps(2) list.set_intros)
qed (simp add: tasksStep.refl)

text \<open>
  C12: Through any sequence of task commands, each with any failures, a stored task never
  changes without its version: it keeps its id, workspace, owner and creation time, and either it
  is exactly as before or it was live, its version grew and one of the commands was for its
  workspace. No task disappears, a deleted task is final, and every new one belongs to a workspace
  of a command. So the tasks of every other workspace are untouched, and an ETag made of the
  version identifies the content.
\<close>

theorem task_versions_track_changes:
  assumes "tasksInv s" and "t = fold runCommand cs s" and "W = commandWorkspace ` set cs"
  shows "tasksInv t \<and> length (tasks (db s)) \<le> length (tasks (db t)) \<and>
    (\<forall>k < length (tasks (db s)). docStep W (tasks (db s) ! k) (tasks (db t) ! k)) \<and>
    (\<forall>k. length (tasks (db s)) \<le> k \<longrightarrow> k < length (tasks (db t)) \<longrightarrow> t_workspace (tasks (db t) ! k) \<in> W) \<and>
    filter (\<lambda>d. t_workspace d \<notin> W) (tasks (db t)) = filter (\<lambda>d. t_workspace d \<notin> W) (tasks (db s))"
proof -
  have "tasksStep W s t"
    unfolding assms(2) by (rule step_runCommands) (simp add: assms(3))
  with assms(1) have inv: "tasksInv t" and "evolves W (tasks (db s)) (tasks (db t))"
    by (simp_all add: tasksStep_def)
  then obtain us vs where t: "tasks (db t) = us @ vs" and us: "list_all2 (docStep W) (tasks (db s)) us"
    and vs: "\<forall>v\<in>set vs. t_workspace v \<in> W"
    by (auto simp: evolves_def)
  have len: "length us = length (tasks (db s))"
    using us by (simp add: list_all2_lengthD)
  have "filter (\<lambda>d. t_workspace d \<notin> W) us = filter (\<lambda>d. t_workspace d \<notin> W) (tasks (db s))"
    using us by (induction rule: list_all2_induct) (auto simp: docStep_def)
  moreover have "filter (\<lambda>d. t_workspace d \<notin> W) vs = []"
    using vs by simp
  ultimately show ?thesis
    using inv us vs len unfolding t by (auto simp: nth_append list_all2_conv_all_nth)
qed

text \<open>Two workspaces with a task each.\<close>

definition demoTask :: "oid \<Rightarrow> oid \<Rightarrow> taskDoc" where
  "demoTask i w = newTask i 500 [(''title'', JStr ''Ship it'')] 6 w"

definition demoBoard :: world where
  "demoBoard = demoTeam\<lparr>db := (db demoTeam)\<lparr>tasks := [demoTask 20 3, demoTask 21 8]\<rparr>\<rparr>"

lemma demoTask_sel [simp]:
  "t_id (demoTask i w) = i" "t_workspace (demoTask i w) = w" "t_v (demoTask i w) = 0" "t_owner (demoTask i w) = 6"
  "\<not> t_isDeleted (demoTask i w)" "t_category (demoTask i w) = JUndef" "t_title (demoTask i w) = JStr ''Ship it''"
  "t_status (demoTask i w) = JStr ''pending''"
  by (simp_all add: demoTask_def newTask_def jget_def)

lemma demoBoard_sel [simp]:
  "tasks (db demoBoard) = [demoTask 20 3, demoTask 21 8]" "faults demoBoard = []" "nextId demoBoard = 100"
  "now demoBoard = 1000" "users (db demoBoard) = [demoAnn]" "memberships (db demoBoard) = memberships (db demoTeam)"
  "cacheLive demoBoard k = None" "taskKeys demoBoard = []" "activities (db demoBoard) = []" "outbox (db demoBoard) = []"
  by (simp_all add: demoBoard_def demoTeam_def cacheLive_def world0_def)

lemma demoBoard_inv: "tasksInv demoBoard"
  by (simp add: tasksInv_def)

theorem task_versions_track_changes_witness:
  "filter (\<lambda>d. t_workspace d \<noteq> 3) (tasks (db (fold runCommand [DeleteTask 20 6 3, CreateTask [] 3 6] demoBoard))) =
     [demoTask 21 8]"
  using task_versions_track_changes [OF demoBoard_inv refl refl, of "[DeleteTask 20 6 3, CreateTask [] 3 6]"]
  by simp

section \<open>An update is all or nothing\<close>

lemma saveTask_ok:
  assumes "saveTask loaded doc s = (Inr d, t)"
  shows "validTask doc \<and> (\<exists>c\<in>set (tasks (db s)). t_id c = t_id loaded \<and> t_v c = t_v loaded) \<and>
    (if doc = loaded then d = doc \<and> db t = db s
     else d = doc\<lparr>t_v := t_v loaded + 1\<rparr> \<and> db t = (db s)\<lparr>tasks :=
       updateFirst (\<lambda>t. t_id t = t_id loaded \<and> t_v t = t_v loaded) (taskDelta loaded doc) (tasks (db s))\<rparr>)"
  using assms unfolding saveTask_def Let_def
  by (auto simp: andThen_ok io_ok split: if_split_asm option.splits dest!: find_SomeD)

lemma versionToPrecondition_err [simp]: "versionToPrecondition e s \<noteq> (Inr x, t)"
  by (cases e) (simp_all add: versionToPrecondition_def)

lemma tryCatch_fails:
  "(\<And>e v. h e v \<noteq> (Inr x, t)) \<Longrightarrow> tryCatch m h s = (Inr x, t) \<longleftrightarrow> m s = (Inr x, t)"
  by (auto simp: tryCatch_run split: prod.splits sum.splits)

definition updateActivity :: "loadedTask \<Rightarrow> props \<Rightarrow> oid \<Rightarrow> time \<Rightarrow> activityDoc list" where
  "updateActivity lt dto u t = (if taskChanges lt dto = [] then []
     else [\<lparr>ac_task = t_id (lt_doc lt), ac_user = u, ac_action = ''updated'', ac_description = ''Task updated'',
            ac_changes = Some (taskChanges lt dto), ac_createdAt = t\<rparr>])"

lemma activity_ok:
  assumes "ActivityRepository_create a b c d e s = (Inr r, t)"
  shows "db t = (db s)\<lparr>activities := activities (db s) @ [\<lparr>ac_task = a, ac_user = b, ac_action = c,
    ac_description = d, ac_changes = e, ac_createdAt = now s\<rparr>]\<rparr>"
  using assms by (auto simp: ActivityRepository_create_def bnd_ok insertOne_def io_ok)

lemma UpdateTask_transaction_ok:
  assumes "UpdateTask_transaction lt dto u w c s = (Inr saved, t)"
  shows "\<exists>s1 now' logs. saveTask (lt_doc lt) (assignTask dto (lt_doc lt)) s = (Inr saved, s1) \<and>
    db t = (db s1)\<lparr>activities := activities (db s1) @ updateActivity lt dto u now', auditLogs := auditLogs (db s1) @ logs\<rparr>"
proof -
  let ?log = "whenP c (AuditService_log (Some u) ''TASK_COMPLETED'' ''TASK'' (Some w) None (Some [taskMeta (t_id (lt_doc lt))]))"
  from assms obtain s1 s2 s3 where 1: "saveTask (lt_doc lt) (assignTask dto (lt_doc lt)) s = (Inr saved, s1)"
    and 2: "?log s1 = (Inr (), s2)"
    and 3: "whenP (taskChanges lt dto \<noteq> [])
        (andThen (ActivityRepository_create (t_id (lt_doc lt)) u ''updated'' ''Task updated'' (Some (taskChanges lt dto)))
          (AuditService_log (Some u) ''TASK_UPDATED'' ''TASK'' (Some w) None
            (Some [taskMeta (t_id (lt_doc lt)),
                   (''changedFields'', JArr (map (\<lambda>c. JStr (fst c)) (taskChanges lt dto)))]))) s2 = (Inr (), s3)"
    and 4: "db t = db s3"
    unfolding UpdateTask_transaction_def withTransaction_ok bnd_ok andThen_ok
    by (auto simp: tryCatch_fails io_ok simp del: whenP_run)
  have "\<exists>xs. db s2 = (db s1)\<lparr>auditLogs := auditLogs (db s1) @ xs\<rparr>"
  proof (cases c)
    case True
    with 2 obtain entry where "db s2 = (db s1)\<lparr>auditLogs := auditLogs (db s1) @ [entry]\<rparr>"
      by (auto dest: audit_ok)
    then show ?thesis by blast
  next
    case False
    with 2 show ?thesis by (intro exI [of _ "[]"]) simp
  qed
  then obtain xs where xs: "db s2 = (db s1)\<lparr>auditLogs := auditLogs (db s1) @ xs\<rparr>" by blast
  have "\<exists>ys n. db s3 = (db s2)\<lparr>activities := activities (db s2) @ updateActivity lt dto u n, auditLogs := auditLogs (db s2) @ ys\<rparr>"
  proof (cases "taskChanges lt dto = []")
    case True
    with 3 show ?thesis by (intro exI [of _ "[]"]) (simp add: updateActivity_def)
  next
    case False
    with 3 obtain v where "ActivityRepository_create (t_id (lt_doc lt)) u ''updated'' ''Task updated'' (Some (taskChanges lt dto)) s2 = (Inr (), v)"
      and "\<exists>a b. AuditService_log (Some u) a ''TASK'' (Some w) None b v = (Inr (), s3)"
      by (auto simp: andThen_ok)
    then obtain entry where "db s3 = (db s2)\<lparr>activities := activities (db s2) @ updateActivity lt dto u (now s2),
        auditLogs := auditLogs (db s2) @ [entry]\<rparr>"
      using False by (auto dest!: activity_ok audit_ok simp: updateActivity_def)
    then show ?thesis by blast
  qed
  with xs 1 4 show ?thesis by auto
qed

lemma sameDb_taskEffects:
  "stays sameDb TaskRepository_clearCache" "stays sameDb startSession"
  "stays sameDb (emit e)" "stays sameDb (publishTaskCompleted i u)"
  unfolding TaskRepository_clearCache_def emit_def publishTaskCompleted_def
  by (simp_all add: sameDb_clearKeys sameDb_modify reads_sameDb)

text \<open>The commit either leaves the database alone or is the transaction, whatever the calls after it report.\<close>

lemma UpdateTask_commit_cases:
  assumes "UpdateTask_commit lt dto u w s = (r, t)"
  shows "(\<exists>e. r = Inl e \<and> db t = db s) \<or>
    (\<exists>s1 saved t1. db s1 = db s \<and> UpdateTask_transaction lt dto u w (completes lt dto) s1 = (Inr saved, t1) \<and>
       db t = db t1 \<and> (r = Inr saved \<or> (\<exists>e. r = Inl e)))"
proof (cases "lt_owner lt")
  case None
  with assms show ?thesis by (auto simp: UpdateTask_commit_def)
next
  case (Some owner)
  let ?after = "\<lambda>saved. andThen (whenP (completes lt dto) (publishTaskCompleted (t_id (lt_doc lt)) (u_id owner)))
     (andThen TaskRepository_clearCache
     (andThen (emit (TaskUpdated (u_id owner) (t_id (lt_doc lt)))) (ret saved)))"
  obtain r1 s1 where start: "startSession s = (r1, s1)" by (cases "startSession s")
  then have s1: "db s1 = db s" by (auto dest: sameDbD [OF sameDb_taskEffects(2)])
  obtain r2 t1 where tx: "UpdateTask_transaction lt dto u w (completes lt dto) s1 = (r2, t1)"
    by (cases "UpdateTask_transaction lt dto u w (completes lt dto) s1")
  have after: "db v = db t1 \<and> (q = Inr saved \<or> (\<exists>e. q = Inl e))" if "?after saved t1 = (q, v)" for saved q v
  proof
    have "stays sameDb (?after saved)" by (intro sameDb_rules sameDb_taskEffects)
    then show "db v = db t1" using that by (auto dest: sameDbD)
    show "q = Inr saved \<or> (\<exists>e. q = Inl e)"
      using that by (cases q) (auto simp: andThen_ok)
  qed
  have run: "(case r1 of Inl e \<Rightarrow> (Inl e, s1) | Inr x \<Rightarrow>
      (case r2 of Inl e \<Rightarrow> (Inl e, t1) | Inr saved \<Rightarrow> ?after saved t1)) = (r, t)"
    using assms Some start tx by (cases r1; cases r2) (auto simp add: UpdateTask_commit_def andThen_run [of startSession] bnd_run)
  show ?thesis
  proof (cases r1; cases r2)
    fix e x assume "r2 = Inl e" "r1 = Inr x"
    moreover from this tx have "db t1 = db s1"
      unfolding UpdateTask_transaction_def by (intro withTransaction_err) simp
    ultimately show ?thesis using run s1 by auto
  next
    fix x saved assume "r1 = Inr x" "r2 = Inr saved"
    with run after have "db t = db t1 \<and> (r = Inr saved \<or> (\<exists>e. r = Inl e))" by simp
    with tx s1 \<open>r2 = Inr saved\<close> show ?thesis by blast
  qed (use run s1 in auto)
qed

text \<open>What a committed update is, in terms of the database before and after.\<close>

definition updatedTo :: "oid \<Rightarrow> oid \<Rightarrow> int \<Rightarrow> props \<Rightarrow> oid \<Rightarrow> database \<Rightarrow> database \<Rightarrow> taskDoc \<Rightarrow> bool" where
  "updatedTo i w v dto u d d' saved \<longleftrightarrow> (\<exists>lt now' logs. lt_doc lt \<in> set (tasks d) \<and> inWorkspace i w (lt_doc lt) \<and>
     t_v (lt_doc lt) = v \<and> validTask saved \<and>
     saved = (let new = assignTask dto (lt_doc lt) in if new = lt_doc lt then new else new\<lparr>t_v := v + 1\<rparr>) \<and>
     d' = d\<lparr>tasks := map (\<lambda>x. if t_id x = i then saved else x) (tasks d),
            activities := activities d @ updateActivity lt dto u now', auditLogs := auditLogs d @ logs\<rparr>)"

text \<open>Only the fields a client edits are assigned.\<close>

definition editFrame :: "taskDoc \<Rightarrow> taskDoc \<Rightarrow> bool" where
  "editFrame t u \<longleftrightarrow> t_id u = t_id t \<and> t_v u = t_v t \<and> t_isDeleted u = t_isDeleted t \<and> t_deletedAt u = t_deletedAt t \<and>
     t_reminderSent u = t_reminderSent t \<and> t_comments u = t_comments t \<and> t_attachments u = t_attachments t \<and>
     t_owner u = t_owner t \<and> t_workspace u = t_workspace t \<and> t_assignees u = t_assignees t \<and> t_createdAt u = t_createdAt t"

lemma assignTask_frame: "editFrame t (assignTask dto t)"
proof -
  have "editFrame t u \<Longrightarrow> editFrame t (fold setTaskField kvs u)" for kvs u
    by (induction kvs arbitrary: u) (auto simp: setTaskField_def editFrame_def split: prod.splits)
  then show ?thesis
    unfolding assignTask_def by (simp add: editFrame_def)
qed

lemma taskDelta_loaded:
  assumes "editFrame t u"
  shows "taskDelta t u t = u\<lparr>t_v := t_v t + 1\<rparr>"
  using assms by (intro taskDoc.equality) (auto simp: taskDelta_def editFrame_def pick_def)

lemma updateTransaction_updatedTo:
  assumes "UpdateTask_transaction lt dto u w c s = (Inr saved, t)" and "distinct (map t_id (tasks (db s)))"
    and "lt_doc lt \<in> set (tasks (db s))" and "inWorkspace i w (lt_doc lt)" and "t_v (lt_doc lt) = v"
  shows "updatedTo i w v dto u (db s) (db t) saved"
proof -
  let ?d = "lt_doc lt" and ?new = "assignTask dto (lt_doc lt)"
  let ?p = "\<lambda>x. t_id x = t_id ?d \<and> t_v x = t_v ?d"
  from UpdateTask_transaction_ok [OF assms(1)] obtain s1 now' logs where
    1: "saveTask ?d ?new s = (Inr saved, s1)" and
    t: "db t = (db s1)\<lparr>activities := activities (db s1) @ updateActivity lt dto u now', auditLogs := auditLogs (db s1) @ logs\<rparr>"
    by blast
  note save = saveTask_ok [OF 1]
  have i: "t_id ?d = i" using assms(4) by (simp add: inWorkspace_def)
  have same: "map (\<lambda>x. if t_id x = i then ?d else x) (tasks (db s)) = tasks (db s)"
    using assms(2,3) i by (intro map_idI) (auto dest: distinct_key_eq)
  have delta: "updateFirst ?p (taskDelta ?d ?new) (tasks (db s)) =
      map (\<lambda>x. if t_id x = i then ?new\<lparr>t_v := v + 1\<rparr> else x) (tasks (db s))"
    using updateFirst_key [OF assms(2,3), of ?p "taskDelta ?d ?new"] assms(5) i
    by (simp add: taskDelta_loaded [OF assignTask_frame])
  have valid: "validTask saved"
    using save by (auto simp: validTask_def split: if_splits)
  have "saved = (let new = ?new in if new = ?d then new else new\<lparr>t_v := v + 1\<rparr>)"
    using save assms(5) by (auto simp: Let_def split: if_splits)
  moreover have "db s1 = (db s)\<lparr>tasks := map (\<lambda>x. if t_id x = i then saved else x) (tasks (db s))\<rparr>"
  proof (cases "?new = ?d")
    case True
    with save have "saved = ?d" "db s1 = db s" by simp_all
    with same show ?thesis by (simp only:) simp
  next
    case False
    with save assms(5) have saved: "saved = ?new\<lparr>t_v := v + 1\<rparr>" by simp
    show ?thesis
      using save False delta assms(5) unfolding saved by simp
  qed
  ultimately show ?thesis
    using assms(3,4,5) t valid unfolding updatedTo_def by (intro exI [of _ lt] exI [of _ now'] exI [of _ logs]) simp
qed

lemma UpdateTask_execute_outcome:
  assumes "distinct (map t_id (tasks (db s)))"
  shows "case UpdateTask_execute i dto u role w v s of (r, t) \<Rightarrow> (case r of
     Inl e \<Rightarrow> db t = db s \<or> (\<exists>saved. updatedTo i w v dto u (db s) (db t) saved)
   | Inr saved \<Rightarrow> updatedTo i w v dto u (db s) (db t) saved)"
proof -
  obtain r1 s1 where load: "UpdateTask_load i dto u role w v s = (r1, s1)"
    by (cases "UpdateTask_load i dto u role w v s")
  have "stays sameDb (UpdateTask_load i dto u role w v)"
    unfolding UpdateTask_load_def TaskRepository_findAuthorizedTask_def populateCategory_def
      CategoryRepository_findByIdForRole_def Let_def
    by (intro sameDb_rules) (auto intro!: sameDb_rules simp: rememberCat_def split: json.splits)
  with load have s1: "db s1 = db s" by (auto dest: sameDbD)
  show ?thesis
  proof (cases r1)
    case (Inl e)
    with load s1 show ?thesis by (simp add: UpdateTask_execute_def bnd_run)
  next
    case (Inr lt)
    obtain r t where commit: "UpdateTask_commit lt dto u w s1 = (r, t)"
      by (cases "UpdateTask_commit lt dto u w s1")
    with load Inr have run: "UpdateTask_execute i dto u role w v s = (r, t)"
      by (simp add: UpdateTask_execute_def bnd_run)
    from UpdateTask_load_ok [OF load [unfolded Inr]] assms
    have new: "updatedTo i w v dto u (db s) (db t1) saved"
      if "db s2 = db s1" "UpdateTask_transaction lt dto u w (completes lt dto) s2 = (Inr saved, t1)" for s2 saved t1
      using updateTransaction_updatedTo [OF that(2)] that(1) s1 by auto
    from UpdateTask_commit_cases [OF commit] s1
    have "(\<exists>e. r = Inl e \<and> db t = db s) \<or> (\<exists>saved. updatedTo i w v dto u (db s) (db t) saved \<and> (r = Inr saved \<or> (\<exists>e. r = Inl e)))"
      using new by metis
    with run show ?thesis
      by (auto split: sum.split)
  qed
qed

text \<open>
  C11: An update is all or nothing, whatever call fails. When it answers, the task was live in
  the workspace at exactly the expected version, and the database differs in that task (the
  fields of the request set, the version one higher unless nothing changed), its activity entry
  and the audit entries. When it answers with an error, the database is what it was, or the
  whole update is there and a later call (clearing the cache) failed.
\<close>

theorem update_task_atomic:
  assumes "distinct (map t_id (tasks (db s)))"
  shows "case UpdateTask_execute i dto u role w v s of (r, t) \<Rightarrow> (case r of
     Inl e \<Rightarrow> db t = db s \<or> (\<exists>saved. updatedTo i w v dto u (db s) (db t) saved)
   | Inr saved \<Rightarrow> updatedTo i w v dto u (db s) (db t) saved)"
  by (rule UpdateTask_execute_outcome [OF assms])

lemmas update_run = UpdateTask_commit_def UpdateTask_transaction_def startSession_def bnd_run andThen_run
  withTransaction_def tryCatch_run saveTask_def assignTask_def definedUpdates_def setTaskField_def validTask_def
  statusValues_def priorityValues_def ActivityRepository_create_def TaskRepository_clearCache_def clearKeys_run
  emit_def publishTaskCompleted_def completes_def demoTask_def newTask_def jget_def versionToPrecondition_def

theorem update_task_atomic_witness:
  "\<exists>saved t. UpdateTask_execute 20 [(''status'', JStr ''done'')] 6 ''user'' 3 0 demoBoard = (Inr saved, t) \<and>
     updatedTo 20 3 0 [(''status'', JStr ''done'')] 6 (db demoBoard) (db t) saved"
proof -
  have "\<exists>saved t. UpdateTask_execute 20 [(''status'', JStr ''done'')] 6 ''user'' 3 0 demoBoard = (Inr saved, t)"
    by (simp add: UpdateTask_execute_def UpdateTask_load_def update_run TaskRepository_findAuthorizedTask_def
        populateCategory_def inWorkspace_def)
  then obtain saved t where "UpdateTask_execute 20 [(''status'', JStr ''done'')] 6 ''user'' 3 0 demoBoard = (Inr saved, t)"
    by blast
  with update_task_atomic [where s = demoBoard and i = 20 and dto = "[(''status'', JStr ''done'')]"
      and u = 6 and role = "''user''" and w = 3 and v = 0] show ?thesis
    by simp
qed

section \<open>Of two updates made from one version, one wins\<close>

lemma UpdateTask_commit_needs_version:
  assumes "\<forall>x\<in>set (tasks (db s)). t_id x = t_id (lt_doc lt) \<longrightarrow> t_v x \<noteq> t_v (lt_doc lt)"
  shows "(\<exists>e. fst (UpdateTask_commit lt dto u w s) = Inl e) \<and> db (snd (UpdateTask_commit lt dto u w s)) = db s"
proof -
  obtain r t where run: "UpdateTask_commit lt dto u w s = (r, t)" by (cases "UpdateTask_commit lt dto u w s")
  have "False" if "db s1 = db s" "UpdateTask_transaction lt dto u w c s1 = (Inr saved, t1)" for s1 c saved t1
    using UpdateTask_transaction_ok [OF that(2)] that(1) assms by (auto dest!: saveTask_ok)
  with UpdateTask_commit_cases [OF run] run show ?thesis by auto
qed

lemma committed_version_gone:
  assumes "UpdateTask_commit lt dto u w s = (Inr saved, t)" and "assignTask dto (lt_doc lt) \<noteq> lt_doc lt"
    and "distinct (map t_id (tasks (db s)))"
  shows "\<forall>x\<in>set (tasks (db t)). t_id x = t_id (lt_doc lt) \<longrightarrow> t_v x \<noteq> t_v (lt_doc lt)"
proof -
  let ?p = "\<lambda>x. t_id x = t_id (lt_doc lt) \<and> t_v x = t_v (lt_doc lt)"
  let ?f = "taskDelta (lt_doc lt) (assignTask dto (lt_doc lt))"
  from UpdateTask_commit_cases [OF assms(1)] obtain s1 t1 where s1: "db s1 = db s" "db t = db t1"
    and "UpdateTask_transaction lt dto u w (completes lt dto) s1 = (Inr saved, t1)" by auto
  with UpdateTask_transaction_ok obtain s2 where "saveTask (lt_doc lt) (assignTask dto (lt_doc lt)) s1 = (Inr saved, s2)"
    and "tasks (db t) = tasks (db s2)" by fastforce
  with saveTask_ok [of "lt_doc lt" "assignTask dto (lt_doc lt)" s1 saved s2] s1 assms(2)
  have t: "tasks (db t) = updateFirst ?p ?f (tasks (db s))" by auto
  have "\<forall>y\<in>set (updateFirst ?p ?f (tasks (db s))). \<not> ?p y"
    by (rule updateFirst_twice [where k = t_id]) (use assms(3) in \<open>auto simp: taskDelta_def\<close>)
  with t show ?thesis by auto
qed

text \<open>
  No lost update: of two requests that loaded the same version of a task, once one has
  changed it, the other fails and leaves the database as it is, whichever fields the two set;
  with nothing else failing, the answer is 412.
\<close>

theorem update_race_one_winner:
  assumes "UpdateTask_commit lt dto u w s = (Inr saved, t)" and "assignTask dto (lt_doc lt) \<noteq> lt_doc lt"
    and "distinct (map t_id (tasks (db s)))"
    and "t_id (lt_doc lt') = t_id (lt_doc lt)" and "t_v (lt_doc lt') = t_v (lt_doc lt)"
  shows "(\<exists>e. fst (UpdateTask_commit lt' dto' u' w' (t\<lparr>faults := fs\<rparr>)) = Inl e) \<and>
    db (snd (UpdateTask_commit lt' dto' u' w' (t\<lparr>faults := fs\<rparr>))) = db t \<and>
    (fs = [] \<and> lt_owner lt' \<noteq> None \<and> validTask (assignTask dto' (lt_doc lt')) \<and> assignTask dto' (lt_doc lt') \<noteq> lt_doc lt' \<longrightarrow>
     fst (UpdateTask_commit lt' dto' u' w' (t\<lparr>faults := fs\<rparr>)) =
       Inl (PreconditionFailed ''Task has been modified. Please refresh and try again.''))"
proof -
  let ?p = "\<lambda>x. t_id x = t_id (lt_doc lt') \<and> t_v x = t_v (lt_doc lt')"
  have gone: "\<forall>x\<in>set (tasks (db t)). \<not> ?p x"
    using committed_version_gone [OF assms(1-3)] assms(4,5) by auto
  have "(\<exists>e. fst (UpdateTask_commit lt' dto' u' w' (t\<lparr>faults := fs\<rparr>)) = Inl e) \<and>
    db (snd (UpdateTask_commit lt' dto' u' w' (t\<lparr>faults := fs\<rparr>))) = db (t\<lparr>faults := fs\<rparr>)"
    by (rule UpdateTask_commit_needs_version) (use gone in auto)
  moreover have "fst (UpdateTask_commit lt' dto' u' w' (t\<lparr>faults := []\<rparr>)) =
       Inl (PreconditionFailed ''Task has been modified. Please refresh and try again.'')"
    if "lt_owner lt' = Some o'" "validTask (assignTask dto' (lt_doc lt'))" "assignTask dto' (lt_doc lt') \<noteq> lt_doc lt'" for o'
  proof -
    have "List.find ?p (tasks (db t)) = None" using gone by (simp add: find_None_iff_all)
    then show ?thesis
      using that by (simp add: UpdateTask_commit_def UpdateTask_transaction_def startSession_def bnd_run andThen_run
          withTransaction_def tryCatch_run saveTask_def versionToPrecondition_def)
  qed
  ultimately show ?thesis by auto
qed

theorem update_race_one_winner_witness:
  "\<exists>saved t lt. UpdateTask_load 20 [] 6 ''user'' 3 0 demoBoard = (Inr lt, demoBoard) \<and>
     UpdateTask_commit lt [(''status'', JStr ''done'')] 6 3 demoBoard = (Inr saved, t) \<and>
     fst (UpdateTask_commit lt [(''title'', JStr ''Sail it'')] 6 3 (t\<lparr>faults := []\<rparr>)) =
       Inl (PreconditionFailed ''Task has been modified. Please refresh and try again.'')"
proof -
  let ?lt = "\<lparr>lt_doc = demoTask 20 3, lt_owner = Some (selected demoAnn), lt_category = JUndef\<rparr>"
  have load: "UpdateTask_load 20 [] 6 ''user'' 3 0 demoBoard = (Inr ?lt, demoBoard)"
    by (simp add: UpdateTask_load_def bnd_run andThen_run jget_def TaskRepository_findAuthorizedTask_def
        populateCategory_def inWorkspace_def)
  have "\<exists>saved t. UpdateTask_commit ?lt [(''status'', JStr ''done'')] 6 3 demoBoard = (Inr saved, t)"
    by (simp add: update_run)
  then obtain saved t where run: "UpdateTask_commit ?lt [(''status'', JStr ''done'')] 6 3 demoBoard = (Inr saved, t)"
    by blast
  have "assignTask [(''status'', JStr ''done'')] (lt_doc ?lt) \<noteq> lt_doc ?lt"
    and new: "assignTask [(''title'', JStr ''Sail it'')] (lt_doc ?lt) \<noteq> lt_doc ?lt"
      "validTask (assignTask [(''title'', JStr ''Sail it'')] (lt_doc ?lt))"
    by (simp_all add: update_run)
  from update_race_one_winner [OF run this(1), where lt' = ?lt and fs = "[]" and u' = 6 and w' = 3
      and dto' = "[(''title'', JStr ''Sail it'')]"] new load run
  show ?thesis by auto
qed

section \<open>A task is created with its activity and its event\<close>

definition createdIn :: "oid \<Rightarrow> oid \<Rightarrow> database \<Rightarrow> database \<Rightarrow> taskDoc \<Rightarrow> bool" where
  "createdIn w u d d' task \<longleftrightarrow> (\<exists>a e. tasks d' = tasks d @ [task] \<and> activities d' = activities d @ [a] \<and>
     outbox d' = outbox d @ [e] \<and> t_workspace task = w \<and> t_owner task = u \<and> t_v task = 0 \<and> validTask task \<and>
     ac_task a = t_id task \<and> ac_user a = u \<and> ac_action a = ''created'' \<and>
     o_eventType e = ''TASK_CREATED'' \<and> o_aggregateId e = t_id task \<and> o_workspaceId e = Some w \<and> duePending (o_createdAt e) e)"

definition sameCore :: "world \<Rightarrow> world \<Rightarrow> bool" where
  "sameCore s t \<longleftrightarrow> tasks (db t) = tasks (db s) \<and> activities (db t) = activities (db s) \<and> outbox (db t) = outbox (db s)"

interpretation sameCore: step_order sameCore
  by unfold_locales (simp_all add: sameCore_def)

lemma sameCore_db: "stays sameDb m \<Longrightarrow> stays sameCore m"
  by (erule stays_mono) (simp add: sameDb_def sameCore_def)

lemma sameCore_audit: "stays sameCore (AuditService_log a b c d e f)"
  by (rule stays_mono [OF AuditService_log_frame]) (auto simp: auditOnly_def sameCore_def)

lemma outbox_ok:
  assumes "OutboxService_create None a b c d e s = (Inr x, t)"
  shows "db t = (db s)\<lparr>outbox := outbox (db s) @ [x]\<rparr> \<and> o_eventType x = a \<and> o_aggregateId x = c \<and> o_workspaceId x = d \<and>
    duePending (o_createdAt x) x"
  using assms
  by (auto simp: OutboxService_create_def OutboxRepository_create_def bnd_ok andThen_ok insertOne_def io_ok Let_def
      duePending_def)

lemma TaskRepository_create_ok:
  assumes "TaskRepository_create dto w u s = (Inr task, t)"
  shows "db t = (db s)\<lparr>tasks := tasks (db s) @ [task]\<rparr> \<and> t_workspace task = w \<and> t_owner task = u \<and> t_v task = 0 \<and> validTask task"
  using assms
  by (auto simp: TaskRepository_create_def bnd_ok andThen_ok insertOne_def io_ok Let_def newTask_def split: if_split_asm)

text \<open>The transaction of the command, and what surrounds it.\<close>

lemma createTransaction_ok:
  assumes "CreateTask_transaction dto w u s = (Inr task, t)"
  shows "createdIn w u (db s) (db t) task"
proof -
  from assms obtain s1 s2 s3 e where 1: "TaskRepository_create dto w u s = (Inr task, s1)"
    and 2: "ActivityRepository_create (t_id task) u ''created'' ''Task created'' None s1 = (Inr (), s2)"
    and 3: "OutboxService_create None ''TASK_CREATED'' ''TASK'' (t_id task) (Some w)
      [taskMeta (t_id task), (''ownerId'', JStr (oidString (t_owner task))), (''title'', t_title task)] s2 = (Inr e, s3)"
    and 4: "db t = db s3"
    by (auto simp: CreateTask_transaction_def withTransaction_ok bnd_ok andThen_ok io_ok)
  show ?thesis
    using TaskRepository_create_ok [OF 1] activity_ok [OF 2] outbox_ok [OF 3] 4 by (simp add: createdIn_def)
qed

lemma sameDb_CreateTask_check: "stays sameDb (CreateTask_check dto w u)"
  unfolding CreateTask_check_def
  by (intro sameDb.stays_rules reads_sameDb)
    (auto intro!: sameDb_rules CategoryRepository_findById_sameDb split: json.split)

definition created :: "oid \<Rightarrow> oid \<Rightarrow> world \<Rightarrow> world \<Rightarrow> bool" where
  "created w u s t \<longleftrightarrow> (\<exists>task. createdIn w u (db s) (db t) task)"

lemma created_core:
  "sameCore s s' \<Longrightarrow> createdIn w u (db s') (db t) task \<Longrightarrow> sameCore t t' \<Longrightarrow> createdIn w u (db s) (db t') task"
  by (auto simp: createdIn_def sameCore_def)

lemma CreateTask_outcome:
  assumes "CreateTask_execute dto w u s = (r, t)"
  shows "case r of Inl e \<Rightarrow> sameCore s t \<or> (\<exists>task. createdIn w u (db s) (db t) task) | Inr task \<Rightarrow> createdIn w u (db s) (db t) task"
proof -
  let ?after = "\<lambda>task. andThen (AuditService_log (Some u) ''TASK_CREATED'' ''TASK'' (Some w) None (Some [taskMeta (t_id task)]))
     (andThen TaskRepository_clearCache (andThen (emit (TaskCreated u (t_id task))) (ret task)))"
  let ?before = "andThen (CreateTask_check dto w u) startSession"
  have after: "stays sameCore (?after task)" for task
    by (intro sameCore.stays_rules sameCore_audit sameCore_db sameDb_taskEffects)
  have answer: "q = Inr task \<or> (\<exists>e. q = Inl e)" if "?after task v = (q, v')" for task q v v'
    using that by (cases q) (auto simp: andThen_ok)
  obtain q0 v where b: "?before s = (q0, v)" by (cases "?before s")
  have "stays sameCore ?before"
    by (rule sameCore_db) (intro sameDb_rules sameDb_CreateTask_check sameDb_taskEffects)
  then have sv: "sameCore s v"
    using b by (rule staysD)
  obtain q1 v1 where tx: "CreateTask_transaction dto w u v = (q1, v1)" by (cases "CreateTask_transaction dto w u v")
  have run: "(r, t) = (case q0 of Inl e \<Rightarrow> (Inl e, v) | Inr _ \<Rightarrow>
      (case q1 of Inl e \<Rightarrow> (Inl e, v1) | Inr task \<Rightarrow> ?after task v1))"
    using assms b tx by (auto simp: CreateTask_execute_def andThen_run [of "CreateTask_check _ _ _"]
        andThen_run [of startSession] bnd_run split: prod.splits sum.splits)
  show ?thesis
  proof (cases q0; cases q1)
    fix x e assume "q0 = Inr x" "q1 = Inl e"
    moreover from this tx have "db v1 = db v"
      unfolding CreateTask_transaction_def by (intro withTransaction_err) simp
    ultimately show ?thesis using run sv by (simp add: sameCore_def)
  next
    fix x task assume q: "q0 = Inr x" "q1 = Inr task"
    then have ran: "?after task v1 = (r, t)" using run by simp
    have "createdIn w u (db s) (db t) task"
      using created_core [OF sv createTransaction_ok staysD [OF after ran]] tx q by simp
    then show ?thesis
      using answer [OF ran] by auto
  qed (use run sv in auto)
qed

text \<open>
  A task is created together with its activity entry and its pending TASK_CREATED outbox
  event, or none of the three is written, whatever call fails; the new task has version 0, the
  workspace of the command and the caller as owner.
\<close>

theorem create_task_all_or_none:
  "case CreateTask_execute dto w u s of (r, t) \<Rightarrow> (case r of
     Inl e \<Rightarrow> sameCore s t \<or> (\<exists>task. createdIn w u (db s) (db t) task)
   | Inr task \<Rightarrow> createdIn w u (db s) (db t) task)"
  using CreateTask_outcome [of dto w u s] by (cases "CreateTask_execute dto w u s") simp

section \<open>Deletion\<close>

lemma deletion_map:
  assumes "saveTask d (d\<lparr>t_isDeleted := True, t_deletedAt := Some n\<rparr>) s = (Inr saved, t)"
    and "distinct (map t_id (tasks (db s)))" and "d \<in> set (tasks (db s))" and "inWorkspace i w d"
  shows "tasks (db t) = map (\<lambda>x. if t_id x = i then d\<lparr>t_isDeleted := True, t_deletedAt := Some n, t_v := t_v d + 1\<rparr> else x)
    (tasks (db s))"
proof -
  let ?new = "d\<lparr>t_isDeleted := True, t_deletedAt := Some n\<rparr>"
  let ?p = "\<lambda>x. t_id x = t_id d \<and> t_v x = t_v d"
  have "?new \<noteq> d"
    using assms(4) by (metis inWorkspace_def taskDoc.select_convs(10) taskDoc.surjective taskDoc.update_convs(10,11))
  then have "tasks (db t) = updateFirst ?p (taskDelta d ?new) (tasks (db s))"
    using saveTask_ok [OF assms(1)] by simp
  also have "\<dots> = map (\<lambda>x. if t_id x = t_id d then taskDelta d ?new d else x) (tasks (db s))"
    by (rule updateFirst_key [OF assms(2,3)]) simp_all
  also have "taskDelta d ?new d = ?new\<lparr>t_v := t_v d + 1\<rparr>"
    by (intro taskDoc.equality) (simp_all add: taskDelta_def pick_def)
  finally show ?thesis
    using assms(4) by (simp add: inWorkspace_def)
qed

text \<open>
  A finished deletion marks that task and no other, keeps the document and raises its
  version, after which the task is not found in any workspace; but the owner is not told: the
  event goes to a room named by the printed owner document, while creations and updates go to
  the room of the owner's id.
\<close>

theorem delete_task_effect:
  assumes "distinct (map t_id (tasks (db s)))" and "DeleteTask_execute i u w s = (Inr msg, t)"
  shows "(\<exists>d\<in>set (tasks (db s)). \<exists>n. inWorkspace i w d \<and>
      tasks (db t) = map (\<lambda>x. if t_id x = i then d\<lparr>t_isDeleted := True, t_deletedAt := Some n, t_v := t_v d + 1\<rparr> else x)
        (tasks (db s))) \<and>
    fst (GetTaskById_execute i w' (t\<lparr>faults := []\<rparr>)) = Inl (NotFound ''Task Not Found'') \<and>
    (\<exists>g owner. gateway t = g @ [TaskDeleted (JObj owner) i])"
proof -
  from assms(2) obtain lt s1 saved s2 s3 s4 s5 room s6 where 1: "TaskRepository_findAuthorizedTask i w s = (Inr lt, s1)"
    and 2: "saveTask (lt_doc lt) ((lt_doc lt)\<lparr>t_isDeleted := True, t_deletedAt := Some (now s1)\<rparr>) s1 = (Inr saved, s2)"
    and 3: "ActivityRepository_create (t_id (lt_doc lt)) u ''deleted'' ''Task deleted'' None s2 = (Inr (), s3)"
    and 4: "AuditService_log (Some u) ''TASK_DELETED'' ''TASK'' (Some w) None
       (Some [taskMeta (t_id (lt_doc lt)), (''deletionType'', JStr ''soft_delete'')]) s3 = (Inr (), s4)"
    and 5: "TaskRepository_clearCache s4 = (Inr (), s5)" and 6: "ownerRoom lt s5 = (Inr room, s6)"
    and 7: "t = s6\<lparr>gateway := gateway s6 @ [TaskDeleted room (t_id (lt_doc lt))]\<rparr>"
    by (auto simp: DeleteTask_execute_def Let_def bnd_ok andThen_ok emit_def)
  note lt = authorized_ok [OF 1]
  have "tasks (db t) = tasks (db s2)"
    using activity_ok [OF 3] audit_ok [OF 4] sameDbD [OF sameDb_taskEffects(1) 5]
      sameTasks_tasks [OF sameTasks_ownerRoom 6] 7 by auto
  also have "\<dots> = map (\<lambda>x. if t_id x = i then (lt_doc lt)\<lparr>t_isDeleted := True, t_deletedAt := Some (now s1), t_v := t_v (lt_doc lt) + 1\<rparr> else x)
        (tasks (db s))"
    using deletion_map [OF 2, of i w] assms(1) lt by simp
  finally have tasks: "tasks (db t) = map (\<lambda>x. if t_id x = i then (lt_doc lt)\<lparr>t_isDeleted := True, t_deletedAt := Some (now s1),
      t_v := t_v (lt_doc lt) + 1\<rparr> else x) (tasks (db s))" .
  then have "List.find (inWorkspace i w') (tasks (db t)) = None"
    by (auto simp: find_None_iff_all inWorkspace_def)
  then have "fst (GetTaskById_execute i w' (t\<lparr>faults := []\<rparr>)) = Inl (NotFound ''Task Not Found'')"
    by (simp add: GetTaskById_execute_def TaskRepository_findAuthorizedTask_def bnd_run)
  moreover have "\<exists>owner. room = JObj owner"
    using 6 by (auto simp: ownerRoom_def split: option.splits)
  ultimately show ?thesis
    using lt tasks 7 by (auto simp: inWorkspace_def)
qed

theorem delete_task_effect_witness:
  "\<exists>t. DeleteTask_execute 20 6 3 demoBoard = (Inr ''Task Deleted Successfully!'', t) \<and>
     fst (GetTaskById_execute 20 3 (t\<lparr>faults := []\<rparr>)) = Inl (NotFound ''Task Not Found'')"
proof -
  have "\<exists>t. DeleteTask_execute 20 6 3 demoBoard = (Inr ''Task Deleted Successfully!'', t)"
    by (simp add: DeleteTask_execute_def Let_def update_run TaskRepository_findAuthorizedTask_def populateCategory_def
        inWorkspace_def ownerRoom_def)
  then obtain t where run: "DeleteTask_execute 20 6 3 demoBoard = (Inr ''Task Deleted Successfully!'', t)" by blast
  from delete_task_effect [OF _ run, of 3] run show ?thesis by simp
qed

end
