(* ===== verification/TaskListSpec.thy ===== *)
theory TaskListSpec
  imports TaskQueries TaskSpec "HOL-Library.Multiset"
begin

text \<open>
  The list of tasks: the order of the pipeline, what the pages of the two paginations add up to,
  and the lists that an assignment leaves stale.
\<close>

section \<open>The order\<close>

lemma mset_insertBy: "mset (insertBy le x xs) = add_mset x (mset xs)"
  by (induction xs) auto

lemma mset_sortBy [simp]: "mset (sortBy le xs) = mset xs"
  by (induction xs) (simp_all add: sortBy_def mset_insertBy)

text \<open>Sorting by any total preorder; it is interpreted below on the order of the pipeline.\<close>

locale total_preorder =
  fixes le :: "'a \<Rightarrow> 'a \<Rightarrow> bool"
  assumes total: "le x y \<or> le y x"
    and trans: "le x y \<Longrightarrow> le y z \<Longrightarrow> le x z"
begin

lemma sorted_insertBy: "sorted_wrt le xs \<Longrightarrow> sorted_wrt le (insertBy le x xs)"
proof (induction xs)
  case (Cons y ys)
  have "set (insertBy le x ys) = insert x (set ys)"
    using mset_insertBy [of le x ys] by (metis set_mset_add_mset_insert set_mset_mset)
  with Cons show ?case
    using total [of x y] by (auto intro: trans)
qed simp

lemma sorted_sortBy: "sorted_wrt le (sortBy le xs)"
  by (induction xs) (simp_all add: sortBy_def sorted_insertBy)

end

lemma bsonLaw_total: "bsonLaw M \<Longrightarrow> bsonLe M a b \<or> bsonLe M b a"
  unfolding bsonLaw_def by (drule conjunct1, drule spec, drule spec, assumption)

lemma bsonLaw_trans: "bsonLaw M \<Longrightarrow> bsonLe M a b \<longrightarrow> bsonLe M b c \<longrightarrow> bsonLe M a c"
  unfolding bsonLaw_def by (drule conjunct2, drule conjunct1, drule spec, drule spec, drule spec, assumption)

lemma bsonLaw_oid: "bsonLaw M \<Longrightarrow> bsonLe M (JOid i) (JOid j) \<longleftrightarrow> i \<le> j"
  unfolding bsonLaw_def
  by (drule conjunct2, drule conjunct2, drule conjunct2, drule conjunct1, drule spec, drule spec, assumption)

lemma bsonLaw_missing: "bsonLaw M \<Longrightarrow> \<not> bsonLe M (JDate t) JUndef"
  unfolding bsonLaw_def
  by (drule conjunct2, drule conjunct2, drule conjunct2, drule conjunct2, drule spec, drule conjunct2, assumption)

text \<open>One key before the next: transitivity of a lexicographic step, over the six comparisons of three values.\<close>

lemma lex_step:
  assumes "ab \<longrightarrow> bc \<longrightarrow> ac" and "cb \<longrightarrow> ba \<longrightarrow> ca" and "bc \<longrightarrow> ca \<longrightarrow> ba" and "ca \<longrightarrow> ab \<longrightarrow> cb"
    and "ac \<longrightarrow> cb \<longrightarrow> ab" and "ba \<longrightarrow> ac \<longrightarrow> bc" and "r1 \<longrightarrow> r2 \<longrightarrow> r3"
    and "if ab \<and> ba then r1 else if up then ab else ba"
    and "if bc \<and> cb then r2 else if up then bc else cb"
  shows "if ac \<and> ca then r3 else if up then ac else ca"
  using assms by argo

lemma keysLe_preorder:
  assumes "bsonLaw M"
  shows "total_preorder (keysLe M ks)"
proof
  note tot = bsonLaw_total [OF assms] and tra = bsonLaw_trans [OF assms]
  show "keysLe M ks x y \<or> keysLe M ks y x" for x y
  proof (induction ks)
    case (Cons kd ks)
    with tot [of "sortField (fst kd) x" "sortField (fst kd) y"] show ?case
      by (cases kd) (auto simp: Let_def)
  qed simp
  show "keysLe M ks x z" if "keysLe M ks x y" "keysLe M ks y z" for x y z
    using that
  proof (induction ks)
    case (Cons kd ks)
    obtain k d where kd: "kd = (k, d)" by (cases kd)
    have IH: "keysLe M ks x y \<longrightarrow> keysLe M ks y z \<longrightarrow> keysLe M ks x z"
      using Cons.IH by blast
    have "if bsonLe M (sortField k x) (sortField k z) \<and> bsonLe M (sortField k z) (sortField k x) then keysLe M ks x z
        else if d then bsonLe M (sortField k x) (sortField k z) else bsonLe M (sortField k z) (sortField k x)"
      by (rule lex_step [OF tra tra tra tra tra tra IH Cons.prems [unfolded kd keysLe.simps Let_def]])
    then show ?case by (simp add: kd Let_def)
  qed simp
qed

text \<open>A concrete comparison, for the witnesses: numbers, ids and dates by their value.\<close>

fun bsonRank :: "json \<Rightarrow> nat \<times> int" where
  "bsonRank JUndef = (0, 0)"
| "bsonRank JNull = (0, 0)"
| "bsonRank (JNum n) = (1, n)"
| "bsonRank (JStr s) = (2, int (length s))"
| "bsonRank (JObj ps) = (3, int (length ps))"
| "bsonRank (JArr vs) = (4, int (length vs))"
| "bsonRank (JOid i) = (5, int i)"
| "bsonRank (JBool b) = (6, if b then 1 else 0)"
| "bsonRank (JDate t) = (7, t)"

definition demoMongo :: mongo where
  "demoMongo = \<lparr>textMatch = (\<lambda>s t. t_title t = JStr s),
     bsonLe = (\<lambda>a b. fst (bsonRank a) < fst (bsonRank b) \<or> fst (bsonRank a) = fst (bsonRank b) \<and> snd (bsonRank a) \<le> snd (bsonRank b))\<rparr>"

lemma demoMongo_law: "bsonLaw demoMongo"
  by (auto simp: bsonLaw_def demoMongo_def)

section \<open>Offset pages\<close>

lemma loadPage_offset:
  assumes "loadPage M u role w q s = (Inr pg, t)" and "\<not> q_cursorMode q"
  shows "\<exists>assignee s1. assigneeFilter u q s = (Inr assignee, s1) \<and>
    pg = offsetPage q (pipeline M (taskFilter M u role w q assignee) q (db s))
       (length (filter (taskFilter M u role w q assignee) (tasks (db s))))"
proof -
  have "s1 = s" if "assigneeFilter u q s = (Inr a, s1)" for a s1
    using that by (auto simp: assigneeFilter_def split: option.splits if_splits)
  with assms show ?thesis
    by (auto simp: loadPage_def bnd_ok andThen_ok Let_def io_ok split: if_split_asm)
qed

lemma concat_pages:
  assumes "0 < n"
  shows "concat (map (\<lambda>k. take n (drop (k * n) xs)) [0..<m]) = take (m * n) xs"
  by (induction m) (simp_all add: take_add add.commute [of n])

lemma pages_cover: "0 < n \<Longrightarrow> (len + n - 1) div n * n \<ge> (len :: nat)"
  using div_mult_mod_eq [of "len + n - 1" n] mod_less_divisor [of n "len + n - 1"] by linarith

text \<open>
  C22: The pages of an offset list are one list cut up: with the tasks unchanged, the pages from
  the first to \<open>totalPages\<close> put together are every task that matches the filter, exactly once,
  in the order of the pipeline; no page is longer than the limit, and each one reports the same
  total. So no task of another workspace, no deleted one and, unless the role is admin, no task
  of another owner is on any page.
\<close>

theorem list_pages_enumerate:
  assumes "bsonLaw M" and "0 < q_limit q" and "\<not> q_cursorMode q"
    and "\<And>k. fst (loadPage M u role w (q\<lparr>q_page := Suc k\<rparr>) s) = Inr (pg k)"
  shows "\<exists>L. concat (map (\<lambda>k. tp_data (pg k)) [0..<pm_totalPages (tp_meta (pg 0))]) = map (viewOf (db s)) L \<and>
    sorted_wrt (keysLe M (aggregateSort q)) L \<and>
    (\<exists>assignee. mset L = mset (filter (taskFilter M u role w q assignee) (tasks (db s)))) \<and>
    set L \<subseteq> {t. t_workspace t = w \<and> \<not> t_isDeleted t \<and> (role = ''admin'' \<or> t_owner t = u)} \<and>
    (\<forall>k. length (tp_data (pg k)) \<le> q_limit q \<and> pm_total (tp_meta (pg k)) = length L)"
proof -
  let ?q = "\<lambda>k. q\<lparr>q_page := Suc k\<rparr>"
  have same: "aggregateSort (?q k) = aggregateSort q" "cursorFilter (?q k) t" "assigneeFilter u (?q k) = assigneeFilter u q"
    "taskFilter M u role w (?q k) = taskFilter M u role w q" for k t
    using assms(3) by (simp_all add: aggregateSort_def requestedSort_def cursorFilter_def assigneeFilter_def
        taskFilter_def [abs_def] cong: option.case_cong)
  have "\<exists>a s1. assigneeFilter u q s = (Inr a, s1) \<and> pg k = offsetPage (?q k)
      (pipeline M (taskFilter M u role w q a) (?q k) (db s)) (length (filter (taskFilter M u role w q a) (tasks (db s))))" for k
  proof -
    obtain t where "loadPage M u role w (?q k) s = (Inr (pg k), t)"
      using assms(4) [of k] by (cases "loadPage M u role w (?q k) s") auto
    from loadPage_offset [OF this] assms(3) same(3,4) show ?thesis by simp
  qed
  then obtain a s1 where a: "assigneeFilter u q s = (Inr a, s1)" and pg: "\<And>k. pg k = offsetPage (?q k)
      (pipeline M (taskFilter M u role w q a) (?q k) (db s)) (length (filter (taskFilter M u role w q a) (tasks (db s))))"
    by (metis Inr_inject prod.inject)
  let ?p = "taskFilter M u role w q a"
  define L where "L = sortBy (keysLe M (aggregateSort q)) (filter ?p (tasks (db s)))"
  have data: "tp_data (pg k) = map (viewOf (db s)) (take (q_limit q) (drop (k * q_limit q) L))" for k
    using assms(3) same by (simp add: pg offsetPage_def pipeline_def L_def Let_def)
  have mset: "mset L = mset (filter ?p (tasks (db s)))"
    unfolding L_def by simp
  then have len: "length L = length (filter ?p (tasks (db s)))"
    by (rule mset_eq_length)
  have sorted: "sorted_wrt (keysLe M (aggregateSort q)) L"
    unfolding L_def by (rule total_preorder.sorted_sortBy [OF keysLe_preorder [OF assms(1)]])
  have "concat (map (\<lambda>k. tp_data (pg k)) [0..<m]) = map (viewOf (db s)) (take (m * q_limit q) L)" for m
    unfolding data concat_pages [OF assms(2), symmetric] by (simp add: map_concat comp_def)
  then have "concat (map (\<lambda>k. tp_data (pg k)) [0..<pm_totalPages (tp_meta (pg 0))]) = map (viewOf (db s)) L"
    using pages_cover [OF assms(2), of "length L"] len by (simp add: pg offsetPage_def)
  moreover have "set L \<subseteq> {t. t_workspace t = w \<and> \<not> t_isDeleted t \<and> (role = ''admin'' \<or> t_owner t = u)}"
    using mset_eq_setD [OF mset] by (auto simp: taskFilter_def)
  ultimately show ?thesis
    using sorted mset len data by (intro exI [of _ L]) (auto simp: pg offsetPage_def)
qed

text \<open>Three tasks in one workspace and one in another.\<close>

definition demoQuery :: tasksQuery where
  "demoQuery = \<lparr>q_page = 1, q_limit = 2, q_cursorMode = False, q_cursor = None, q_status = None, q_search = None,
     q_sort = None, q_sortBy = ''createdAt'', q_order = ''desc'', q_dueFrom = None, q_dueTo = None, q_tags = None,
     q_assignee = None\<rparr>"

definition demoMany :: world where
  "demoMany = demoTeam\<lparr>db := (db demoTeam)\<lparr>tasks := [demoTask 20 3, demoTask 21 8, demoTask 22 3, demoTask 23 3]\<rparr>\<rparr>"

lemma demoMany_sel [simp]:
  "tasks (db demoMany) = [demoTask 20 3, demoTask 21 8, demoTask 22 3, demoTask 23 3]" "faults demoMany = []"
  by (simp_all add: demoMany_def)

lemma demoQuery_sel [simp]:
  "q_limit demoQuery = 2" "\<not> q_cursorMode demoQuery" "q_cursor demoQuery = None" "given (q_assignee demoQuery) = None"
  "given (q_status demoQuery) = None" "given (q_search demoQuery) = None" "given (q_tags demoQuery) = None"
  "q_dueFrom demoQuery = None" "q_dueTo demoQuery = None" "given (q_sort demoQuery) = None"
  "q_sortBy demoQuery = ''createdAt''" "q_order demoQuery = ''desc''"
  by (simp_all add: demoQuery_def given_def)

lemma loadPage_run:
  assumes "faults s = []" and "\<not> q_cursorMode q" and "given (q_assignee q) = None"
  shows "loadPage M u role w q s = (Inr (offsetPage q (pipeline M (taskFilter M u role w q None) q (db s))
    (length (filter (taskFilter M u role w q None) (tasks (db s))))), s)"
  using assms by (simp add: loadPage_def assigneeFilter_def bnd_run andThen_run Let_def)

theorem list_pages_enumerate_witness:
  "\<exists>pg. (\<forall>k. fst (loadPage demoMongo 6 ''user'' 3 (demoQuery\<lparr>q_page := Suc k\<rparr>) demoMany) = Inr (pg k)) \<and>
     mset (map (\<lambda>v. t_id (tv_doc v)) (concat (map (\<lambda>k. tp_data (pg k)) [0..<pm_totalPages (tp_meta (pg 0))]))) = {#20, 22, 23#}"
proof -
  let ?p = "taskFilter demoMongo 6 ''user'' 3 demoQuery None"
  define pg where "pg k = offsetPage (demoQuery\<lparr>q_page := Suc k\<rparr>)
    (pipeline demoMongo ?p (demoQuery\<lparr>q_page := Suc k\<rparr>) (db demoMany)) (length (filter ?p (tasks (db demoMany))))" for k
  have "taskFilter demoMongo 6 ''user'' 3 (demoQuery\<lparr>q_page := Suc k\<rparr>) None = ?p" for k
    by (simp add: taskFilter_def [abs_def])
  then have run: "fst (loadPage demoMongo 6 ''user'' 3 (demoQuery\<lparr>q_page := Suc k\<rparr>) demoMany) = Inr (pg k)" for k
    unfolding pg_def by (simp add: loadPage_run customSort_def)
  have "0 < q_limit demoQuery" "\<not> q_cursorMode demoQuery" by simp_all
  from list_pages_enumerate [OF demoMongo_law this run] obtain L a where
    L: "concat (map (\<lambda>k. tp_data (pg k)) [0..<pm_totalPages (tp_meta (pg 0))]) = map (viewOf (db demoMany)) L"
    and ms: "mset L = mset (filter (taskFilter demoMongo 6 ''user'' 3 demoQuery a) (tasks (db demoMany)))"
    and len: "length L = pm_total (tp_meta (pg 0))"
    by metis
  have "pm_total (tp_meta (pg 0)) = 3"
    by (simp add: pg_def offsetPage_def taskFilter_def dueWithin_def)
  moreover have "set L \<subseteq> {demoTask 20 3, demoTask 22 3, demoTask 23 3}"
    using mset_eq_setD [OF ms] by (auto simp: taskFilter_def)
  ultimately have "mset L = {#demoTask 20 3, demoTask 22 3, demoTask 23 3#}"
    using ms len by (cases a) (auto simp: taskFilter_def dueWithin_def demoTask_def newTask_def)
  then have "mset (map t_id L) = {#20, 22, 23#}" by simp
  moreover have "(\<lambda>v. t_id (tv_doc v)) \<circ> viewOf (db demoMany) = t_id"
    by (simp add: viewOf_def fun_eq_iff)
  ultimately show ?thesis
    using run L by (intro exI [of _ pg]) simp
qed

text \<open>Two consequences of the definitions: a key for the priority always sorts first, and the aggregation counts an undated task as overdue, which the statistics do not.\<close>

lemma priority_sorts_first:
  "aggregateSort (demoQuery\<lparr>q_sort := Some ''dueDate:asc,priority:desc''\<rparr>) =
     [(''priorityWeight'', False), (''dueDate'', True), (''_id'', True)]"
  by (simp add: aggregateSort_def requestedSort_def given_def demoQuery_def)

lemma undated_task_overdue:
  assumes "bsonLaw M" and "t_dueDate t = JUndef" and "t_status t \<noteq> JStr ''done''"
  shows "ag_isOverdue (aggregatedOf M n d t) \<and> \<not> isOverdueStat n t"
  using assms by (simp add: aggregatedOf_def isOverdueStat_def bsonLaw_missing Let_def)

section \<open>Following the cursor\<close>

text \<open>A client that asks for the next page until there is no next cursor.\<close>

fun followCursor :: "mongo \<Rightarrow> (taskDoc \<Rightarrow> bool) \<Rightarrow> tasksQuery \<Rightarrow> database \<Rightarrow> nat \<Rightarrow> oid option \<Rightarrow> taskView list option" where
  "followCursor M p q d 0 c = None"
| "followCursor M p q d (Suc n) c =
     (let page = cursorPage q (pipeline M p (q\<lparr>q_cursor := c\<rparr>) d) in
      case pm_nextCursor (tp_meta page) of
        None \<Rightarrow> Some (tp_data page)
      | Some c' \<Rightarrow> map_option (\<lambda>rest. tp_data page @ rest) (followCursor M p q d n (Some c')))"

interpretation byId: total_preorder "\<lambda>x y. t_id x \<le> t_id y"
  by unfold_locales auto

lemma keysLe_id: "bsonLaw M \<Longrightarrow> keysLe M [(''_id'', True)] x y \<longleftrightarrow> t_id x \<le> t_id y"
  by (auto simp: Let_def sortField_def bsonLaw_oid)

lemma sortBy_id: "bsonLaw M \<Longrightarrow> sortBy (keysLe M [(''_id'', True)]) xs = sortBy (\<lambda>x y. t_id x \<le> t_id y) xs"
proof -
  assume "bsonLaw M"
  then have "keysLe M [(''_id'', True)] = (\<lambda>x y. t_id x \<le> t_id y)"
    by (intro ext keysLe_id)
  then show ?thesis by simp
qed

lemma sortBy_sort_key: "sortBy (\<lambda>x y. (f x :: 'b :: linorder) \<le> f y) xs = sort_key f xs"
proof -
  have "insertBy (\<lambda>x y. f x \<le> f y) x ys = insort_key f x ys" for x ys
    by (induction ys) auto
  then show ?thesis
    by (induction xs) (simp_all add: sortBy_def)
qed

text \<open>The page after a cursor is the head of what follows it in the order of the ids.\<close>

lemma cursor_pipeline:
  assumes "bsonLaw M" and "q_cursorMode q"
  shows "pipeline M p (q\<lparr>q_cursor := c\<rparr>) d = map (viewOf d) (take (Suc (q_limit q))
    (filter (\<lambda>t. case c of None \<Rightarrow> True | Some i \<Rightarrow> i < t_id t) (sort_key t_id (filter p (tasks d)))))"
proof -
  have "filter (\<lambda>t. p t \<and> (case c of None \<Rightarrow> True | Some i \<Rightarrow> i < t_id t)) (tasks d) =
      filter (\<lambda>t. case c of None \<Rightarrow> True | Some i \<Rightarrow> i < t_id t) (filter p (tasks d))"
    by (simp add: conj_commute)
  moreover have "cursorFilter (q\<lparr>q_cursor := c\<rparr>) t \<longleftrightarrow> (case c of None \<Rightarrow> True | Some i \<Rightarrow> i < t_id t)" for t
    using assms(2) by (simp add: cursorFilter_def)
  ultimately show ?thesis
    using assms(2)
    by (simp add: pipeline_def aggregateSort_def sortBy_id [OF assms(1)] sortBy_sort_key filter_sort Let_def)
qed

lemma filter_after:
  assumes "sorted_wrt (<) (map f (A @ l # C))"
  shows "filter (\<lambda>t. (f l :: 'b :: linorder) < f t) (A @ l # C) = C"
proof -
  have "filter (\<lambda>t. f l < f t) A = []" "filter (\<lambda>t. f l < f t) C = C"
    using assms by (auto simp: sorted_wrt_append filter_empty_conv filter_id_conv less_asym' dest: less_asym)
  then show ?thesis by simp
qed

lemma split_after_last:
  assumes "sorted_wrt (<) (map f B)" and "0 < n" and "n < length B"
  shows "filter (\<lambda>t. (f (last (take n B)) :: 'b :: linorder) < f t) B = drop n B"
proof -
  obtain m where m: "n = Suc m" using assms(2) by (cases n) auto
  then have B: "B = take m B @ B ! m # drop n B"
    using assms(3) by (simp add: id_take_nth_drop)
  have "last (take n B) = B ! m"
    using m assms(3) by (simp add: take_Suc_conv_app_nth)
  with filter_after [of f "take m B" "B ! m" "drop n B"] assms(1) B show ?thesis
    by simp
qed

lemma followCursor_rest:
  assumes "bsonLaw M" and "q_cursorMode q" and "0 < q_limit q"
    and sorted: "sorted_wrt (<) (map t_id (sort_key t_id (filter p (tasks d))))"
  shows "length (filter (\<lambda>t. case c of None \<Rightarrow> True | Some i \<Rightarrow> i < t_id t) (sort_key t_id (filter p (tasks d)))) < n \<Longrightarrow>
    followCursor M p q d n c = Some (map (viewOf d)
      (filter (\<lambda>t. case c of None \<Rightarrow> True | Some i \<Rightarrow> i < t_id t) (sort_key t_id (filter p (tasks d)))))"
proof (induction n arbitrary: c)
  case (Suc n)
  let ?L = "sort_key t_id (filter p (tasks d))"
  define B where "B = filter (\<lambda>t. case c of None \<Rightarrow> True | Some i \<Rightarrow> i < t_id t) ?L"
  have page: "pipeline M p (q\<lparr>q_cursor := c\<rparr>) d = map (viewOf d) (take (Suc (q_limit q)) B)"
    unfolding B_def by (rule cursor_pipeline [OF assms(1,2)])
  show ?case
  proof (cases "q_limit q < length B")
    case False
    then show ?thesis by (simp add: page cursorPage_def Let_def flip: B_def)
  next
    case True
    let ?next = "t_id (last (take (q_limit q) B))"
    have ne: "take (q_limit q) B \<noteq> []" using True assms(3) by auto
    have view: "t_id (tv_doc (last (map (viewOf d) xs))) = t_id (last xs)" if "xs \<noteq> []" for xs
      using that by (simp add: last_map viewOf_def)
    have found: "cursorPage q (map (viewOf d) (take (Suc (q_limit q)) B)) =
        \<lparr>tp_data = map (viewOf d) (take (q_limit q) B), tp_meta = CursorMeta (q_limit q) (Some ?next)\<rparr>"
      using True ne by (simp add: cursorPage_def Let_def butlast_take view flip: map_butlast)
    have "last (take (q_limit q) B) \<in> set B"
      using last_in_set [OF ne] by (rule in_set_takeD)
    then have "filter (\<lambda>t. ?next < t_id t) ?L = filter (\<lambda>t. ?next < t_id t) B"
      unfolding B_def by (auto intro!: filter_cong split: option.splits)
    also have "\<dots> = drop (q_limit q) B"
    proof (rule split_after_last [OF _ assms(3) True])
      show "sorted_wrt (<) (map t_id B)"
        unfolding B_def using sorted by (simp add: sorted_wrt_map sorted_wrt_filter)
    qed
    finally have rest: "filter (\<lambda>t. ?next < t_id t) ?L = drop (q_limit q) B" .
    moreover have "length (drop (q_limit q) B) < n"
      using Suc.prems assms(3) True by (simp flip: B_def)
    ultimately have "followCursor M p q d n (Some ?next) = Some (map (viewOf d) (drop (q_limit q) B))"
      using Suc.IH [of "Some ?next"] by simp
    then show ?thesis
      by (simp add: page found flip: B_def map_append)
  qed
qed simp

text \<open>
  C23: With the tasks unchanged, following \<open>nextCursor\<close> from the first page ends, after at most
  one request per matching task, and has then shown every matching task exactly once, in the
  order of the ids; and no cursor page carries a total, so its X-Total header reads
  \<open>undefined\<close>.
\<close>

theorem cursor_pages_enumerate:
  assumes "bsonLaw M" and "q_cursorMode q" and "0 < q_limit q" and "distinct (map t_id (tasks d))"
    and "length (tasks d) < n"
  shows "\<exists>L. followCursor M p q d n None = Some (map (viewOf d) L) \<and> mset L = mset (filter p (tasks d)) \<and>
    sorted_wrt (<) (map t_id L) \<and>
    map_of (listHeaders (cursorPage q found)) ''X-Total'' = Some ''undefined''"
proof -
  let ?L = "sort_key t_id (filter p (tasks d))"
  have "distinct (map t_id ?L)"
    using distinct_map_filter [OF assms(4)] by (simp add: distinct_map)
  then have sorted: "sorted_wrt (<) (map t_id ?L)"
    by (simp add: strict_sorted_iff)
  have "length (filter p (tasks d)) < n"
    using length_filter_le assms(5) by (rule le_less_trans)
  then have "followCursor M p q d n None = Some (map (viewOf d) ?L)"
    using followCursor_rest [OF assms(1-3) sorted, of None n] by simp
  then show ?thesis
    using sorted by (intro exI [of _ ?L]) (simp add: listHeaders_def cursorPage_def Let_def)
qed

theorem cursor_pages_enumerate_witness:
  "\<exists>L. followCursor demoMongo (\<lambda>t. t_workspace t = 3) (demoQuery\<lparr>q_cursorMode := True\<rparr>) (db demoMany) 5 None =
     Some (map (viewOf (db demoMany)) L) \<and> mset (map t_id L) = {#20, 22, 23#}"
proof -
  have "q_cursorMode (demoQuery\<lparr>q_cursorMode := True\<rparr>)" "0 < q_limit (demoQuery\<lparr>q_cursorMode := True\<rparr>)"
    "distinct (map t_id (tasks (db demoMany)))" "length (tasks (db demoMany)) < 5"
    by (simp_all add: demoQuery_def)
  from cursor_pages_enumerate [OF demoMongo_law this, of "\<lambda>t. t_workspace t = 3"]
  obtain L where "followCursor demoMongo (\<lambda>t. t_workspace t = 3) (demoQuery\<lparr>q_cursorMode := True\<rparr>) (db demoMany) 5 None =
     Some (map (viewOf (db demoMany)) L)" and ms: "mset L = {#demoTask 20 3, demoTask 22 3, demoTask 23 3#}"
    by auto
  moreover have "mset (map t_id L) = {#20, 22, 23#}"
    using ms by simp
  ultimately show ?thesis by blast
qed

section \<open>Lists that an assignment leaves stale\<close>

text \<open>A call that leaves every cached list of tasks in place.\<close>

definition keepsLists :: "world \<Rightarrow> world \<Rightarrow> bool" where
  "keepsLists s t \<longleftrightarrow> now t = now s \<and> (\<forall>u role w q. cache t (CKTasks u role w q) = cache s (CKTasks u role w q))"

interpretation keepsLists: step_order keepsLists
  by unfold_locales (auto simp: keepsLists_def)

lemma keepsLists_io:
  assumes "\<And>s. keepsLists s (snd (m s))"
  shows "stays keepsLists (io m)"
proof (rule staysI, rule snd_io)
  show "keepsLists s (s\<lparr>faults := fs\<rparr>) \<and> keepsLists s (snd (m (s\<lparr>faults := fs\<rparr>)))" for s fs
    using assms [of "s\<lparr>faults := fs\<rparr>"] by (simp add: keepsLists_def)
qed

lemma keepsLists_find: "stays keepsLists (findOne get p)"
  unfolding findOne_def by (rule keepsLists_io) (simp add: keepsLists_def)

lemma keepsLists_membership: "stays keepsLists (MembershipRepository_findByWorkspaceAndUser w u)"
proof -
  have "stays keepsLists (cacheGet k)" for k
    unfolding cacheGet_def by (rule keepsLists_io) (simp add: keepsLists_def)
  moreover have "stays keepsLists (cacheSet (CKMembership w u) v ttl)" for v ttl
    unfolding cacheSet_def by (rule keepsLists_io) (simp add: keepsLists_def)
  moreover have "stays keepsLists (modify (rememberMb k))" for k
    by (rule staysI) (simp add: keepsLists_def rememberMb_def)
  ultimately show ?thesis
    unfolding MembershipRepository_findByWorkspaceAndUser_def readThrough_def Let_def
    by (intro keepsLists.stays_rules keepsLists_find)
qed

lemma keepsLists_saveTask: "stays keepsLists (saveTask loaded doc)"
  unfolding saveTask_def
  by (intro keepsLists.stays_rules keepsLists_io) (auto simp: keepsLists_def Let_def split: option.split)

lemma keepsLists_audit: "stays keepsLists (AuditService_log a b c d e f)"
  unfolding AuditService_log_def AuditLogRepository_create_def insertOne_def
  by (intro keepsLists.stays_rules keepsLists_io) (simp add: keepsLists_def)

lemma keepsLists_AssignTask: "stays keepsLists (AssignTask_execute i u w us)"
  unfolding AssignTask_execute_def AssignTask_authorize_def TaskRepository_findById_def TaskRepository_assignUsers_def
    loadAndSave_def
  by (intro keepsLists.stays_rules keepsLists_find keepsLists_membership keepsLists_saveTask keepsLists_audit)

text \<open>
  An assignment does not clear the task cache: a list that was cached before it is answered
  unchanged afterwards, with the old assignees and the old version, until its minute is over.
\<close>

theorem assign_leaves_stale_list:
  assumes "AssignTask_execute i u w us s = (Inr task, t)" and "\<not> advancedRequested q"
    and "cacheLive s (CKTasks v role w q) = Some (CVTasks p)"
  shows "fst (TaskRepository_findAll M v role w q (t\<lparr>faults := []\<rparr>)) = Inr p"
proof -
  have "keepsLists s t"
    using staysD [OF keepsLists_AssignTask assms(1)] .
  then have "cacheLive (t\<lparr>faults := []\<rparr>) (CKTasks v role w q) = Some (CVTasks p)"
    using assms(3) cacheLive_cong [of "t\<lparr>faults := []\<rparr>" "CKTasks v role w q" s] by (simp add: keepsLists_def)
  then show ?thesis
    using assms(2) by (simp add: TaskRepository_findAll_def readThrough_def andThen_run bnd_run Let_def)
qed

text \<open>The list of the owner was read, then another member is assigned.\<close>

definition demoListed :: world where
  "demoListed = demoBoard\<lparr>db := (db demoBoard)\<lparr>memberships :=
       [\<lparr>m_id = 4, m_workspaceId = 3, m_userId = 9, m_role = Owner, m_status = MActive\<rparr>,
        \<lparr>m_id = 7, m_workspaceId = 3, m_userId = 6, m_role = Member, m_status = MActive\<rparr>]\<rparr>,
     cache := [CKTasks 9 ''admin'' 3 demoQuery \<mapsto>
     (CVTasks \<lparr>tp_data = [viewOf (db demoBoard) (demoTask 20 3)], tp_meta = OffsetMeta 1 1 2 1\<rparr>, 2000)]\<rparr>"

lemma demo_authorize:
  "\<exists>v. AssignTask_authorize (demoTask 20 3) 9 [6] demoListed = (Inr (), v) \<and> faults v = [] \<and> db v = db demoListed"
proof -
  have sel: "faults demoListed = []" "cacheLive demoListed (CKMembership 3 u) = None" for u
    by (simp_all add: demoListed_def cacheLive_def)
  from membership_miss [OF sel] obtain s1 where
    1: "MembershipRepository_findByWorkspaceAndUser 3 9 demoListed =
      (Inr (List.find (sameMember 3 9) (memberships (db demoListed))), s1)" and s1: "readState (CKMembership 3 9) demoListed s1"
    by blast
  then have "faults s1 = []" "cacheLive s1 (CKMembership 3 6) = None" "db s1 = db demoListed"
    using sel by (simp_all add: readState_def)
  moreover from membership_miss [OF this(1,2)] obtain s2 where
    "MembershipRepository_findByWorkspaceAndUser 3 6 s1 = (Inr (List.find (sameMember 3 6) (memberships (db s1))), s2)"
    and "readState (CKMembership 3 6) s1 s2"
    by blast
  ultimately show ?thesis
    using 1 by (simp add: AssignTask_authorize_def bnd_run andThen_run demoListed_def sameMember_def readState_def)
qed

theorem assign_leaves_stale_list_witness:
  "\<exists>task t p. AssignTask_execute 20 9 3 [6] demoListed = (Inr task, t) \<and> t_assignees task = [6] \<and>
     fst (TaskRepository_findAll demoMongo 9 ''admin'' 3 demoQuery (t\<lparr>faults := []\<rparr>)) = Inr p \<and>
     map (\<lambda>v. t_assignees (tv_doc v)) (tp_data p) = [[]]"
proof -
  have live: "cacheLive demoListed (CKTasks 9 ''admin'' 3 demoQuery) =
      Some (CVTasks \<lparr>tp_data = [viewOf (db demoBoard) (demoTask 20 3)], tp_meta = OffsetMeta 1 1 2 1\<rparr>)"
    by (simp add: demoListed_def cacheLive_def)
  have none: "t_assignees (demoTask 20 3) = []" by (simp add: demoTask_def newTask_def)
  have sel: "tasks (db demoListed) = [demoTask 20 3, demoTask 21 8]" "faults demoListed = []"
    by (simp_all add: demoListed_def)
  from demo_authorize obtain v where auth: "AssignTask_authorize (demoTask 20 3) 9 [6] demoListed = (Inr (), v)"
    and v: "faults v = []" "db v = db demoListed" by blast
  have "validTask ((demoTask 20 3)\<lparr>t_assignees := [6]\<rparr>)" "(demoTask 20 3)\<lparr>t_assignees := [6]\<rparr> \<noteq> demoTask 20 3"
    by (simp_all add: validTask_def demoTask_def newTask_def statusValues_def priorityValues_def jget_def)
  then have "\<exists>task t. AssignTask_execute 20 9 3 [6] demoListed = (Inr task, t) \<and> t_assignees task = [6]"
    using auth v sel by (simp add: AssignTask_execute_def TaskRepository_findById_def inWorkspace_def bnd_run
        andThen_run TaskRepository_assignUsers_def loadAndSave_def saveTask_def)
  then obtain task t where run: "AssignTask_execute 20 9 3 [6] demoListed = (Inr task, t)" and "t_assignees task = [6]"
    by blast
  moreover have "\<not> advancedRequested demoQuery"
    by (simp add: advancedRequested_def demoQuery_def)
  moreover note assign_leaves_stale_list [OF run this live, of demoMongo]
  ultimately show ?thesis
    using none by (auto simp: viewOf_def)
qed

end
