(* ===== verification/Authorization.thy ===== *)
theory Authorization
  imports Tasks
begin

text \<open>
  Authorization (\<open>src/common/authorization\<close>): the rules each role gets, the policies of the
  routes, and the guard that finds the workspace of a request, loads its task and checks the
  membership and the policies. Matching rules is CASL's work: \<open>can\<close> is a parameter.
\<close>

section \<open>Roles in order\<close>

instantiation workspaceRole :: linorder
begin

fun roleRank :: "workspaceRole \<Rightarrow> nat" where
  "roleRank Viewer = 0"
| "roleRank Member = 1"
| "roleRank Admin = 2"
| "roleRank Owner = 3"

definition less_eq_workspaceRole :: "workspaceRole \<Rightarrow> workspaceRole \<Rightarrow> bool" where
  "less_eq_workspaceRole a b \<longleftrightarrow> roleRank a \<le> roleRank b"

definition less_workspaceRole :: "workspaceRole \<Rightarrow> workspaceRole \<Rightarrow> bool" where
  "less_workspaceRole a b \<longleftrightarrow> roleRank a < roleRank b"

instance
proof
  fix a b c :: workspaceRole
  show "a < b \<longleftrightarrow> a \<le> b \<and> \<not> b \<le> a" "a \<le> a" "a \<le> b \<or> b \<le> a"
    by (auto simp: less_workspaceRole_def less_eq_workspaceRole_def)
  show "a \<le> b \<Longrightarrow> b \<le> c \<Longrightarrow> a \<le> c"
    by (simp add: less_eq_workspaceRole_def)
  show "a \<le> b \<Longrightarrow> b \<le> a \<Longrightarrow> a = b"
    by (cases a; cases b) (simp_all add: less_eq_workspaceRole_def)
qed

end

section \<open>Rules\<close>

datatype actionName = AManage | ACreate | ARead | AUpdate | ADelete

datatype subjectName = SWorkspace | STask | SMember | SInvitation | SComment | SAttachment | SWebhook | SBilling
  | SAuditLog | SExport

text \<open>The conditions on a task, and what an ability is asked about: a type of subject, or one task.\<close>

datatype condition = OwnerIs oid | AssigneesIn "oid list"

datatype subjectRef = AnyOf subjectName | TheTask taskDoc

record rule =
  r_inverted :: bool
  r_action :: actionName
  r_subject :: subjectName
  r_condition :: "condition option"

definition canRule :: "actionName \<Rightarrow> subjectName \<Rightarrow> rule" where
  "canRule a s = \<lparr>r_inverted = False, r_action = a, r_subject = s, r_condition = None\<rparr>"

definition canRuleIf :: "actionName \<Rightarrow> subjectName \<Rightarrow> condition \<Rightarrow> rule" where
  "canRuleIf a s c = \<lparr>r_inverted = False, r_action = a, r_subject = s, r_condition = Some c\<rparr>"

definition createForUser :: "rule list" where
  "createForUser = [canRule ACreate SWorkspace]"

fun createForRole :: "workspaceRole \<Rightarrow> oid \<Rightarrow> rule list" where
  "createForRole Owner userId =
     [canRule AManage SWorkspace, canRule AManage STask, canRule AManage SMember, canRule AManage SInvitation,
      canRule AManage SComment, canRule AManage SAttachment, canRule AManage SWebhook, canRule AManage SBilling,
      canRule ARead SAuditLog, canRule AManage SExport]"
| "createForRole Admin userId =
     [canRule ARead SWorkspace, canRule AManage SWorkspace, canRule ACreate STask, canRule ARead STask, canRule AUpdate STask,
      canRule ADelete STask, canRule AManage SMember, canRule AManage SInvitation, canRule AManage SComment,
      canRule AManage SAttachment, canRule AManage SWebhook, canRule ARead SAuditLog, canRule ACreate SExport, canRule ARead SExport]"
| "createForRole Member userId =
     [canRule ARead SWorkspace, canRule ACreate STask, canRule ARead STask, canRule ARead SMember,
      canRuleIf AUpdate STask (OwnerIs userId), canRuleIf AUpdate STask (AssigneesIn [userId]),
      canRule ARead SComment, canRule ACreate SComment, canRule ARead SAttachment, canRule ACreate SExport, canRule ARead SExport]"
| "createForRole Viewer userId =
     [canRule ARead SWorkspace, canRule ARead SMember, canRule ARead STask, canRule ARead SComment, canRule ARead SAttachment,
      canRule ARead SExport]"

text \<open>
  What CASL documents of \<open>ability.can\<close> for rules that only grant: some rule has that action, or
  \<open>manage\<close>, on that type of subject, and its conditions hold of the subject; a question about a
  type alone is not held to the conditions.
\<close>

fun conditionHolds :: "condition \<Rightarrow> taskDoc \<Rightarrow> bool" where
  "conditionHolds (OwnerIs u) t \<longleftrightarrow> t_owner t = u"
| "conditionHolds (AssigneesIn us) t \<longleftrightarrow> (\<exists>u\<in>set us. u \<in> set (t_assignees t))"

fun ruleMatches :: "actionName \<Rightarrow> subjectRef \<Rightarrow> rule \<Rightarrow> bool" where
  "ruleMatches a (AnyOf s) r \<longleftrightarrow> (r_action r = AManage \<or> r_action r = a) \<and> r_subject r = s"
| "ruleMatches a (TheTask t) r \<longleftrightarrow> (r_action r = AManage \<or> r_action r = a) \<and> r_subject r = STask \<and>
     (case r_condition r of None \<Rightarrow> True | Some c \<Rightarrow> conditionHolds c t)"

type_synonym casl = "rule list \<Rightarrow> actionName \<Rightarrow> subjectRef \<Rightarrow> bool"

definition caslLaw :: "casl \<Rightarrow> bool" where
  "caslLaw can \<longleftrightarrow> (\<forall>rules a s. (\<forall>r\<in>set rules. \<not> r_inverted r) \<longrightarrow> (can rules a s \<longleftrightarrow> (\<exists>r\<in>set rules. ruleMatches a s r)))"

section \<open>Requests and policies\<close>

text \<open>The parts of an HTTP request that the guard and the policies look at.\<close>

record request =
  rq_userId :: "oid option"
  rq_paramWorkspaceId :: "oid option"
  rq_queryWorkspaceId :: "oid option"
  rq_bodyWorkspaceId :: "oid option"
  rq_paramId :: "oid option"
  rq_task :: "taskDoc option"

type_synonym policy = "casl \<Rightarrow> rule list \<Rightarrow> request \<Rightarrow> bool"

definition assignTaskPolicy :: policy where
  "assignTaskPolicy can ability rq = can ability AUpdate (AnyOf STask)"

definition createCommentPolicy :: policy where
  "createCommentPolicy can ability rq = can ability ACreate (AnyOf SComment)"

definition createExportPolicy :: policy where
  "createExportPolicy can ability rq = can ability ACreate (AnyOf SExport)"

definition createTaskPolicy :: policy where
  "createTaskPolicy can ability rq = can ability ACreate (AnyOf STask)"

definition createWorkspacePolicy :: policy where
  "createWorkspacePolicy can ability rq = can ability ACreate (AnyOf SWorkspace)"

definition deleteTaskPolicy :: policy where
  "deleteTaskPolicy can ability rq = (case rq_task rq of None \<Rightarrow> False | Some t \<Rightarrow> can ability ADelete (TheTask t))"

definition downloadExportPolicy :: policy where
  "downloadExportPolicy can ability rq = can ability ARead (AnyOf SExport)"

definition manageAttachmentPolicy :: policy where
  "manageAttachmentPolicy can ability rq = can ability AManage (AnyOf SAttachment)"

definition manageFeatureFlagsPolicy :: policy where
  "manageFeatureFlagsPolicy can ability rq = can ability AManage (AnyOf SWorkspace)"

definition manageInvitationPolicy :: policy where
  "manageInvitationPolicy can ability rq = can ability AManage (AnyOf SInvitation)"

definition manageMemberPolicy :: policy where
  "manageMemberPolicy can ability rq = can ability AManage (AnyOf SMember)"

definition manageWebhookPolicy :: policy where
  "manageWebhookPolicy can ability rq = can ability AManage (AnyOf SWebhook)"

definition readAttachmentPolicy :: policy where
  "readAttachmentPolicy can ability rq = can ability ARead (AnyOf SAttachment)"

definition readAuditLogPolicy :: policy where
  "readAuditLogPolicy can ability rq = can ability ARead (AnyOf SAuditLog)"

definition readCommentPolicy :: policy where
  "readCommentPolicy can ability rq = can ability ARead (AnyOf SComment)"

definition readExportPolicy :: policy where
  "readExportPolicy can ability rq = can ability ARead (AnyOf SExport)"

definition readMemberPolicy :: policy where
  "readMemberPolicy can ability rq = can ability ARead (AnyOf SMember)"

definition readTaskPolicy :: policy where
  "readTaskPolicy can ability rq = can ability ARead (AnyOf STask)"

definition readWorkspacePolicy :: policy where
  "readWorkspacePolicy can ability rq = can ability ARead (AnyOf SWorkspace)"

definition updateTaskPolicy :: policy where
  "updateTaskPolicy can ability rq = (case rq_task rq of None \<Rightarrow> False | Some t \<Rightarrow> can ability AUpdate (TheTask t))"

definition updateWorkspaceSettingsPolicy :: policy where
  "updateWorkspaceSettingsPolicy can ability rq = can ability AManage (AnyOf SWorkspace)"

section \<open>The guard\<close>

text \<open>\<open>a ?? b\<close>\<close>

definition nullish :: "'a option \<Rightarrow> 'a option \<Rightarrow> 'a option" where
  "nullish a b = (case a of None \<Rightarrow> b | Some x \<Rightarrow> Some x)"

definition requestWorkspace :: "request \<Rightarrow> oid option" where
  "requestWorkspace rq = nullish (rq_paramWorkspaceId rq) (nullish (rq_queryWorkspaceId rq)
     (nullish (rq_bodyWorkspaceId rq) (rq_paramId rq)))"

definition denied :: err where
  "denied = Forbidden ''You do not have permission to perform this action''"

text \<open>The task of the request, in the workspace the guard took; a request without an id finds none.\<close>

definition loadTaskInto :: "oid \<Rightarrow> request \<Rightarrow> request wprog" where
  "loadTaskInto workspaceId rq =
     bnd (case rq_paramId rq of
         None \<Rightarrow> findOne tasks (\<lambda>t. False)
       | Some i \<Rightarrow> TaskRepository_findById i workspaceId) (\<lambda>found.
     bnd (orThrow found (Forbidden ''Task not found'')) (\<lambda>task. ret (rq\<lparr>rq_task := Some task\<rparr>)))"

text \<open>
  \<open>canActivate\<close> with the metadata of the route: its policies, \<open>@GlobalPolicy\<close>, \<open>@LoadTask\<close>. It
  returns the request as the handler will see it.
\<close>

definition canActivate :: "casl \<Rightarrow> policy list \<Rightarrow> bool \<Rightarrow> bool \<Rightarrow> request \<Rightarrow> request wprog" where
  "canActivate can handlers isGlobal loadTask rq =
     (if handlers = [] then ret rq
      else (case rq_userId rq of
        None \<Rightarrow> throw (Forbidden ''User not found'')
      | Some userId \<Rightarrow>
          if isGlobal then
            andThen (throwIf (\<not> list_all (\<lambda>h. h can createForUser rq) handlers) denied) (ret rq)
          else
            bnd (orThrow (requestWorkspace rq) (Forbidden ''Workspace context is required for this policy'')) (\<lambda>workspaceId.
            bnd (if loadTask then loadTaskInto workspaceId rq else ret rq) (\<lambda>rq.
            bnd (MembershipRepository_findByWorkspaceAndUser workspaceId userId) (\<lambda>found.
            bnd (orThrow found (Forbidden ''You are not a member of this workspace'')) (\<lambda>membership.
            andThen (throwIf (m_status membership \<noteq> MActive) (Forbidden ''You are not a member of this workspace''))
            (andThen (throwIf (\<not> list_all (\<lambda>h. h can (createForRole (m_role membership) userId) rq) handlers) denied)
              (ret rq))))))))"

section \<open>What the rules grant\<close>

lemma createForRole_grants: "\<forall>r\<in>set (createForRole role u). \<not> r_inverted r"
  by (cases role) (simp_all add: canRule_def canRuleIf_def)

lemma can_role:
  assumes "caslLaw can"
  shows "can (createForRole role u) a s \<longleftrightarrow> (\<exists>r\<in>set (createForRole role u). ruleMatches a s r)"
  using assms createForRole_grants [of role u] unfolding caslLaw_def by blast

text \<open>CASL on rules that only grant, for the witnesses.\<close>

definition demoCan :: casl where
  "demoCan rules a s = list_ex (ruleMatches a s) rules"

lemma demoCan_law: "caslLaw demoCan"
  by (simp add: caslLaw_def demoCan_def list_ex_iff)

text \<open>
  C30: A higher role may do everything a lower one may, on every type of subject and on every
  task, for the same user: Viewer, Member, Admin, Owner in this order.
\<close>

theorem roles_monotone:
  assumes "caslLaw can" and "role \<le> role'" and "can (createForRole role u) a s"
  shows "can (createForRole role' u) a s"
proof -
  have "\<exists>r\<in>set (createForRole role u). ruleMatches a s r"
    using assms(3) can_role [OF assms(1)] by blast
  then have "\<exists>r\<in>set (createForRole role' u). ruleMatches a s r"
    using assms(2)
    by (cases role; cases role'; cases s)
      (auto simp: canRule_def canRuleIf_def less_eq_workspaceRole_def split: option.splits)
  then show ?thesis
    using can_role [OF assms(1)] by blast
qed

theorem roles_monotone_witness:
  "demoCan (createForRole Admin 6) ACreate (AnyOf SComment)"
proof -
  have "Member \<le> Admin" "demoCan (createForRole Member 6) ACreate (AnyOf SComment)"
    by (simp_all add: less_eq_workspaceRole_def demoCan_def canRule_def)
  then show ?thesis
    by (rule roles_monotone [OF demoCan_law])
qed

end
