(* ===== verification/AuthorizationSpec.thy ===== *)
theory AuthorizationSpec
  imports Authorization MembershipCache InvitationSpec
begin

text \<open>
  What the guard guarantees, and what it does not: its workspace comes from the query string
  before the path, while the handlers act on the path or the body.
\<close>

section \<open>Soundness\<close>

lemma membership_read_ok:
  assumes "MembershipRepository_findByWorkspaceAndUser w u s = (Inr r, t)" and "coherent oneKey unMembership oneAnswer s"
  shows "r = List.find (sameMember w u) (memberships (db s))"
proof -
  have live: "cacheLive (s\<lparr>faults := fs\<rparr>) k = cacheLive s k" for fs k
    by (rule cacheLive_cong) simp_all
  from assms(1) obtain s1 where get: "cacheGet (CKMembership w u) s = (Inr (cacheLive s (CKMembership w u)), s1)"
    and s1: "db s1 = db s"
    and rest: "(case Option.bind (cacheLive s (CKMembership w u)) unMembership of
       Some x \<Rightarrow> ret x
     | None \<Rightarrow> bnd (findOne memberships (sameMember w u)) (\<lambda>x. case map_option CVMembership x of
           None \<Rightarrow> ret x
         | Some v \<Rightarrow> andThen (cacheSet (CKMembership w u) v 30000)
             (andThen (modify (rememberMb (CKMembership w u))) (ret x)))) s1 = (Inr r, t)"
    unfolding MembershipRepository_findByWorkspaceAndUser_def readThrough_def Let_def
    by (auto simp: bnd_ok cacheGet_def io_ok live)
  show ?thesis
  proof (cases "Option.bind (cacheLive s (CKMembership w u)) unMembership")
    case None
    with rest s1 show ?thesis
      by (auto simp: bnd_ok andThen_ok dest!: membershipsC.findOne_ok split: option.splits)
  next
    case (Some x)
    then obtain v where "cacheLive s (oneKey (w, u)) = Some v" "unMembership v = Some x"
      by (auto simp: oneKey_def split: bind_splits)
    with assms(2) have "x = oneAnswer (w, u) (db s)"
      unfolding coherent_def by blast
    with Some rest show ?thesis by (simp add: oneAnswer_def)
  qed
qed

lemma loadTask_ok:
  assumes "loadTaskInto w rq s = (Inr rq', t)"
  shows "(\<exists>task\<in>set (tasks (db s)). rq' = rq\<lparr>rq_task := Some task\<rparr> \<and> rq_paramId rq = Some (t_id task) \<and>
    t_workspace task = w \<and> \<not> t_isDeleted task) \<and> db t = db s \<and> (\<forall>k. cacheLive t k = cacheLive s k)"
proof -
  have live: "cacheLive (s\<lparr>faults := fs\<rparr>) k = cacheLive s k" for fs k
    by (rule cacheLive_cong) simp_all
  from assms obtain i task where i: "rq_paramId rq = Some i" and find: "List.find (inWorkspace i w) (tasks (db s)) = Some task"
    and rq: "rq' = rq\<lparr>rq_task := Some task\<rparr>" and t: "t = s\<lparr>faults := faults t\<rparr>"
    unfolding loadTaskInto_def TaskRepository_findById_def
    by (auto simp: bnd_ok orThrow_ok dest!: tasksC.findOne_ok dest: find_SomeD split: option.splits)
  have "db (s\<lparr>faults := faults t\<rparr>) = db s \<and> (\<forall>k. cacheLive (s\<lparr>faults := faults t\<rparr>) k = cacheLive s k)"
    using live by simp
  then have "db t = db s \<and> (\<forall>k. cacheLive t k = cacheLive s k)"
    unfolding t [symmetric] .
  then show ?thesis
    using find_SomeD [OF find] i rq by (auto simp: inWorkspace_def)
qed

lemma canActivate_ok:
  assumes "canActivate can handlers False load rq s = (Inr rq', t)" and "handlers \<noteq> []"
    and "coherent oneKey unMembership oneAnswer s"
  shows "\<exists>u w. \<exists>m\<in>set (memberships (db s)). rq_userId rq = Some u \<and> requestWorkspace rq = Some w \<and>
    m_workspaceId m = w \<and> m_userId m = u \<and> m_status m = MActive \<and>
    (\<forall>h\<in>set handlers. h can (createForRole (m_role m) u) rq') \<and>
    (if load then \<exists>task\<in>set (tasks (db s)). rq' = rq\<lparr>rq_task := Some task\<rparr> \<and> rq_paramId rq = Some (t_id task) \<and>
        t_workspace task = w \<and> \<not> t_isDeleted task
     else rq' = rq) \<and> db t = db s"
proof -
  obtain u where u: "rq_userId rq = Some u"
    using assms(1,2) by (cases "rq_userId rq") (auto simp: canActivate_def)
  with assms(1,2) obtain w s1 m s2 where w: "requestWorkspace rq = Some w"
    and load: "(if load then loadTaskInto w rq else ret rq) s = (Inr rq', s1)"
    and found: "MembershipRepository_findByWorkspaceAndUser w u s1 = (Inr (Some m), s2)"
    and m: "m_status m = MActive" "list_all (\<lambda>h. h can (createForRole (m_role m) u) rq') handlers" "t = s2"
    by (auto simp: canActivate_def bnd_ok andThen_ok orThrow_ok throwIf_ok simp del: throwIf_run)
  have loaded: "(if load then \<exists>task\<in>set (tasks (db s)). rq' = rq\<lparr>rq_task := Some task\<rparr> \<and> rq_paramId rq = Some (t_id task) \<and>
        t_workspace task = w \<and> \<not> t_isDeleted task
     else rq' = rq) \<and> db s1 = db s \<and> (\<forall>k. cacheLive s1 k = cacheLive s k)"
    using load loadTask_ok [of w rq s rq' s1] by (cases load) auto
  then have "coherent oneKey unMembership oneAnswer s1"
    using assms(3) by (auto intro: coherent_frame)
  from membership_read_ok [OF found this] loaded have "m \<in> set (memberships (db s))" "sameMember w u m"
    using find_SomeD [of "sameMember w u" "memberships (db s)" m] by simp_all
  moreover have "db t = db s"
    using loaded sameDbD [OF reads_sameDb(1) found] m(3) by simp
  ultimately show ?thesis
    using u w m(1,2) loaded by (auto simp: sameMember_def list_all_iff split del: if_split)
qed

text \<open>
  A request that passes the guard with policies comes from a user with an active membership
  in the workspace the guard took, stored in the database, whose role satisfies every policy of
  the route; where the route loads a task, it is the live task of the path in that workspace. The
  guard changes nothing. (The membership cache is assumed to agree with the database.)
\<close>

theorem guard_sound:
  assumes "canActivate can handlers False load rq s = (Inr rq', t)" and "handlers \<noteq> []"
    and "coherent oneKey unMembership oneAnswer s"
  shows "\<exists>u w. \<exists>m\<in>set (memberships (db s)). rq_userId rq = Some u \<and> requestWorkspace rq = Some w \<and>
    m_workspaceId m = w \<and> m_userId m = u \<and> m_status m = MActive \<and>
    (\<forall>h\<in>set handlers. h can (createForRole (m_role m) u) rq') \<and>
    (if load then \<exists>task\<in>set (tasks (db s)). rq' = rq\<lparr>rq_task := Some task\<rparr> \<and> rq_paramId rq = Some (t_id task) \<and>
        t_workspace task = w \<and> \<not> t_isDeleted task
     else rq' = rq) \<and> db t = db s"
  by (rule canActivate_ok [OF assms])

section \<open>The workspace of the query string\<close>

lemma guard_owner_run:
  assumes "faults s = []" and "rq_userId rq = Some u" and "requestWorkspace rq = Some w"
    and "cacheLive s (CKMembership w u) = None" and "List.find (sameMember w u) (memberships (db s)) = Some m"
    and "m_status m = MActive" and "list_all (\<lambda>h. h can (createForRole (m_role m) u) rq) hs" and "hs \<noteq> []"
  shows "\<exists>t. canActivate can hs False False rq s = (Inr rq, t) \<and> readState (CKMembership w u) s t"
proof -
  from membership_miss [OF assms(1,4)] obtain t where
    "MembershipRepository_findByWorkspaceAndUser w u s = (Inr (Some m), t)" and "readState (CKMembership w u) s t"
    using assms(5) by auto
  then show ?thesis
    using assms by (simp add: canActivate_def bnd_run andThen_run)
qed

text \<open>
  The guard takes \<open>?workspaceId=\<close> before the id of the path, and the handler of
  \<open>PATCH /workspaces/:id/feature-flags\<close> acts on the path: the owner of one workspace who names it
  in the query string is let through for every other workspace, of which she is no member, and
  changes its flags.
\<close>

theorem foreign_flags_updated:
  assumes "caslLaw can" and "faults s = []" and "rq_userId rq = Some u" and "rq_paramWorkspaceId rq = None"
    and "rq_queryWorkspaceId rq = Some w" and "cacheLive s (CKMembership w u) = None"
    and "List.find (sameMember w u) (memberships (db s)) = Some m" and "m_status m = MActive" and "m_role m = Owner"
    and "\<forall>x\<in>set (memberships (db s)). m_workspaceId x = foreign \<longrightarrow> m_userId x \<noteq> u"
    and "List.find (\<lambda>c. ff_workspaceId c = foreign) (flags (db s)) = Some c" and "fd_exports dto = Some b"
  shows "\<exists>t c' t'. canActivate can [manageFeatureFlagsPolicy] False False (rq\<lparr>rq_paramId := Some foreign\<rparr>) s =
       (Inr (rq\<lparr>rq_paramId := Some foreign\<rparr>), t) \<and>
     UpdateFeatureFlags_execute foreign dto t = (Inr c', t') \<and>
     List.find (\<lambda>c. ff_workspaceId c = foreign) (flags (db t')) = Some c' \<and> ff_flags c' Exports = Some b"
proof -
  let ?rq = "rq\<lparr>rq_paramId := Some foreign\<rparr>"
  have "manageFeatureFlagsPolicy can (createForRole (m_role m) u) ?rq"
    unfolding manageFeatureFlagsPolicy_def can_role [OF assms(1)] using assms(9) by (simp add: canRule_def)
  then obtain t where guard: "canActivate can [manageFeatureFlagsPolicy] False False ?rq s = (Inr ?rq, t)"
    and t: "faults t = []" "db t = db s"
    using guard_owner_run [OF assms(2), of ?rq u w m can "[manageFeatureFlagsPolicy]"] assms(3-8)
    by (auto simp: requestWorkspace_def nullish_def readState_def)
  have "ff_workspaceId c = foreign"
    using find_SomeD [OF assms(11)] by simp
  then have "\<exists>c' t'. UpdateFeatureFlags_execute foreign dto t = (Inr c', t') \<and>
      List.find (\<lambda>c. ff_workspaceId c = foreign) (flags (db t')) = Some c' \<and> ff_flags c' Exports = Some b"
    using t assms(11,12)
    by (simp add: UpdateFeatureFlags_execute_def FeatureFlagsService_updateFlags_def FlagsRepository_findByWorkspaceId_def
        FlagsRepository_update_def bnd_run overlay_def find_updateFirst_id)
  with guard show ?thesis by blast
qed

text \<open>A user who owns workspace 8 and is no member of workspace 3; in workspace 5 she is a viewer.\<close>

definition demoTenants :: world where
  "demoTenants = world0\<lparr>db := emptyDb\<lparr>
     memberships := [\<lparr>m_id = 30, m_workspaceId = 8, m_userId = 6, m_role = Owner, m_status = MActive\<rparr>,
       \<lparr>m_id = 31, m_workspaceId = 5, m_userId = 6, m_role = Viewer, m_status = MActive\<rparr>],
     flags := [\<lparr>ff_workspaceId = 3, ff_flags = (\<lambda>f. Some (defaultFlags f))\<rparr>]\<rparr>\<rparr>"

definition demoRequest :: request where
  "demoRequest = \<lparr>rq_userId = Some 6, rq_paramWorkspaceId = None, rq_queryWorkspaceId = Some 8, rq_bodyWorkspaceId = None,
     rq_paramId = None, rq_task = None\<rparr>"

lemma demoTenants_sel [simp]:
  "faults demoTenants = []" "cacheLive demoTenants k = None"
  "List.find (sameMember 8 6) (memberships (db demoTenants)) =
     Some \<lparr>m_id = 30, m_workspaceId = 8, m_userId = 6, m_role = Owner, m_status = MActive\<rparr>"
  "List.find (sameMember 5 6) (memberships (db demoTenants)) =
     Some \<lparr>m_id = 31, m_workspaceId = 5, m_userId = 6, m_role = Viewer, m_status = MActive\<rparr>"
  "\<forall>x\<in>set (memberships (db demoTenants)). m_workspaceId x = 3 \<longrightarrow> m_userId x \<noteq> 6"
  "flags (db demoTenants) = [\<lparr>ff_workspaceId = 3, ff_flags = (\<lambda>f. Some (defaultFlags f))\<rparr>]"
  by (simp_all add: demoTenants_def cacheLive_def sameMember_def)

lemma demoRequest_sel [simp]:
  "rq_userId demoRequest = Some 6" "rq_paramWorkspaceId demoRequest = None" "rq_queryWorkspaceId demoRequest = Some 8"
  by (simp_all add: demoRequest_def)

theorem guard_sound_witness:
  "\<exists>rq t. canActivate demoCan [readTaskPolicy] False False demoRequest demoTenants = (Inr rq, t) \<and>
     (\<exists>m\<in>set (memberships (db demoTenants)). m_workspaceId m = 8 \<and> m_userId m = 6 \<and> m_status m = MActive)"
proof -
  have policy: "list_all (\<lambda>h. h demoCan (createForRole Owner 6) demoRequest) [readTaskPolicy]"
    by (simp add: readTaskPolicy_def demoCan_def canRule_def)
  obtain t where run: "canActivate demoCan [readTaskPolicy] False False demoRequest demoTenants = (Inr demoRequest, t)"
    using guard_owner_run [of demoTenants demoRequest 6 8 _ demoCan "[readTaskPolicy]"] policy
    by (auto simp: requestWorkspace_def nullish_def)
  have "coherent oneKey unMembership oneAnswer demoTenants"
    by (simp add: coherent_def)
  from guard_sound [OF run _ this] run show ?thesis
    by (auto simp: requestWorkspace_def nullish_def)
qed

theorem foreign_flags_updated_witness:
  "\<exists>t c t'. canActivate demoCan [manageFeatureFlagsPolicy] False False (demoRequest\<lparr>rq_paramId := Some 3\<rparr>) demoTenants =
       (Inr (demoRequest\<lparr>rq_paramId := Some 3\<rparr>), t) \<and>
     UpdateFeatureFlags_execute 3 \<lparr>fd_webhooks = None, fd_exports = Some False, fd_reminders = None,
       fd_emailNotifications = None, fd_advancedTaskFiltering = None\<rparr> t = (Inr c, t') \<and> ff_flags c Exports = Some False"
  using foreign_flags_updated [OF demoCan_law, where s = demoTenants and rq = demoRequest and u = 6 and w = 8 and foreign = 3
      and dto = "\<lparr>fd_webhooks = None, fd_exports = Some False, fd_reminders = None,
       fd_emailNotifications = None, fd_advancedTaskFiltering = None\<rparr>" and b = False
      and m = "\<lparr>m_id = 30, m_workspaceId = 8, m_userId = 6, m_role = Owner, m_status = MActive\<rparr>"
      and c = "\<lparr>ff_workspaceId = 3, ff_flags = (\<lambda>f. Some (defaultFlags f))\<rparr>"]
  by auto

lemma createTransaction_run:
  assumes "faults s = []" and "\<And>i n. validTask (newTask i n dto u w)"
  shows "\<exists>task t. CreateTask_transaction dto w u s = (Inr task, t) \<and> faults t = [] \<and> taskKeys t = taskKeys s \<and>
    t_workspace task = w \<and> t_owner task = u \<and> task \<in> set (tasks (db t))"
proof -
  have "t_workspace (newTask i n dto u w) = w" "t_owner (newTask i n dto u w) = u" for i n
    by (simp_all add: newTask_def Let_def)
  with assms show ?thesis
    by (simp add: CreateTask_transaction_def withTransaction_def bnd_run andThen_run TaskRepository_create_def Let_def
        ActivityRepository_create_def OutboxService_create_def OutboxRepository_create_def)
qed

text \<open>
  The guard of \<open>POST /tasks\<close> judges the role in the workspace of the query string, the
  handler creates the task in the workspace of the body and only asks for a membership there: a
  viewer, whose role may not create tasks, creates one by naming a workspace of her own in the
  query string.
\<close>

theorem viewer_creates_task:
  assumes "caslLaw can" and "faults s = []" and "\<And>k. cacheLive s k = None"
    and "rq_userId rq = Some u" and "rq_paramWorkspaceId rq = None" and "rq_queryWorkspaceId rq = Some w"
    and "List.find (sameMember w u) (memberships (db s)) = Some m" and "m_status m = MActive" and "m_role m = Owner"
    and "List.find (sameMember target u) (memberships (db s)) = Some v" and "m_role v = Viewer" and "w \<noteq> target"
    and "jget dto ''category'' = JUndef" and "\<And>i n. validTask (newTask i n dto u target)"
  shows "\<not> createTaskPolicy can (createForRole (m_role v) u) rq \<and>
    (\<exists>t task t'. canActivate can [createTaskPolicy] False False rq s = (Inr rq, t) \<and>
       CreateTask_execute dto target u t = (Inr task, t') \<and> task \<in> set (tasks (db t')) \<and> t_workspace task = target)"
proof
  show "\<not> createTaskPolicy can (createForRole (m_role v) u) rq"
    unfolding createTaskPolicy_def can_role [OF assms(1)] using assms(11) by (simp add: canRule_def)
  have "createTaskPolicy can (createForRole (m_role m) u) rq"
    unfolding createTaskPolicy_def can_role [OF assms(1)] using assms(9) by (simp add: canRule_def)
  then obtain t where guard: "canActivate can [createTaskPolicy] False False rq s = (Inr rq, t)"
    and t: "readState (CKMembership w u) s t"
    using guard_owner_run [OF assms(2), of rq u w m can "[createTaskPolicy]"] assms(3-8)
    by (auto simp: requestWorkspace_def nullish_def)
  then have "faults t = []" "cacheLive t (CKMembership target u) = None" "db t = db s"
    using assms(3,12) by (auto simp: readState_def)
  from membership_miss [OF this(1,2)] obtain t1 where
    "MembershipRepository_findByWorkspaceAndUser target u t = (Inr (List.find (sameMember target u) (memberships (db t))), t1)"
    and "readState (CKMembership target u) t t1" by blast
  then have check: "CreateTask_check dto target u t = (Inr (), t1)" "faults t1 = []"
    using assms(10,13) \<open>db t = db s\<close> by (simp_all add: CreateTask_check_def bnd_run andThen_run readState_def)
  from createTransaction_run [OF check(2) assms(14)] obtain task t2 where tx: "CreateTask_transaction dto target u t1 = (Inr task, t2)"
    "faults t2 = []" "t_workspace task = target" "task \<in> set (tasks (db t2))" by blast
  then have "\<exists>t'. CreateTask_execute dto target u t = (Inr task, t') \<and> task \<in> set (tasks (db t'))"
    using check by (simp add: CreateTask_execute_def andThen_run bnd_run startSession_def TaskRepository_clearCache_def
        clearKeys_run emit_def)
  with guard tx show "\<exists>t task t'. canActivate can [createTaskPolicy] False False rq s = (Inr rq, t) \<and>
       CreateTask_execute dto target u t = (Inr task, t') \<and> task \<in> set (tasks (db t')) \<and> t_workspace task = target"
    by blast
qed

theorem viewer_creates_task_witness:
  "\<exists>t task t'. canActivate demoCan [createTaskPolicy] False False demoRequest demoTenants = (Inr demoRequest, t) \<and>
     CreateTask_execute [(''title'', JStr ''Mine'')] 5 6 t = (Inr task, t') \<and> t_workspace task = 5"
proof -
  have "validTask (newTask i n [(''title'', JStr ''Mine'')] 6 5)" for i n
    by (simp add: validTask_def newTask_def statusValues_def priorityValues_def jget_def)
  then show ?thesis
    using viewer_creates_task [OF demoCan_law, where s = demoTenants and rq = demoRequest and u = 6 and w = 8 and target = 5
        and dto = "[(''title'', JStr ''Mine'')]" and m = "\<lparr>m_id = 30, m_workspaceId = 8, m_userId = 6, m_role = Owner, m_status = MActive\<rparr>"
        and v = "\<lparr>m_id = 31, m_workspaceId = 5, m_userId = 6, m_role = Viewer, m_status = MActive\<rparr>"]
    by (auto simp: jget_def)
qed

end
