(* ===== verification/JsonText.thy ===== *)
theory JsonText
  imports JsText
begin

text \<open>
  \<open>JSON.stringify(value, null, gap)\<close> and \<open>JSON.parse\<close>. The numbers of this program are integers, and
  its characters are below 256: a parsed text with any other number or character is \<open>None\<close>, as is one
  that is not JSON. The reader gets as much fuel as the text has characters; every call spends one.
\<close>

section \<open>Writing\<close>

definition quote :: char where
  "quote = CHR 0x22"

definition backslash :: char where
  "backslash = CHR 0x5C"

definition hexDigit :: "nat \<Rightarrow> char" where
  "hexDigit = digitChar"

definition escChar :: "char \<Rightarrow> string" where
  "escChar c =
     (if c = quote \<or> c = backslash then [backslash, c]
      else if c = CHR 0x08 then [backslash, CHR ''b''] else if c = CHR 0x0C then [backslash, CHR ''f'']
      else if c = CHR 0x0A then [backslash, CHR ''n''] else if c = CHR 0x0D then [backslash, CHR ''r'']
      else if c = CHR 0x09 then [backslash, CHR ''t'']
      else if (of_char c :: nat) < 32 then [backslash, CHR ''u''] @ ''00'' @ [hexDigit (of_char c div 16), hexDigit (of_char c mod 16)]
      else [c])"

definition quoteJson :: "string \<Rightarrow> string" where
  "quoteJson s = quote # concat (map escChar s) @ [quote]"

text \<open>With a gap every element stands on a line of its own.\<close>

definition newline :: "nat \<Rightarrow> nat \<Rightarrow> string" where
  "newline gap indent = (if gap = 0 then [] else CHR 0x0A # replicate indent CHR '' '')"

definition block :: "char \<Rightarrow> char \<Rightarrow> nat \<Rightarrow> nat \<Rightarrow> string list \<Rightarrow> string" where
  "block opening closing gap indent parts =
     (if parts = [] then [opening, closing]
      else opening # newline gap (indent + gap) @ joinWith (CHR '','' # newline gap (indent + gap)) parts @
           newline gap indent @ [closing])"

definition colon :: "nat \<Rightarrow> string" where
  "colon gap = (if gap = 0 then '':'' else '': '')"

text \<open>\<open>undefined\<close> is left out of an object and is \<open>null\<close> in an array.\<close>

fun jsonWrite :: "nat \<Rightarrow> nat \<Rightarrow> json \<Rightarrow> string"
  and jsonItems :: "nat \<Rightarrow> nat \<Rightarrow> json list \<Rightarrow> string list"
  and jsonMembers :: "nat \<Rightarrow> nat \<Rightarrow> (string \<times> json) list \<Rightarrow> string list" where
  "jsonWrite gap indent JUndef = ''null''"
| "jsonWrite gap indent JNull = ''null''"
| "jsonWrite gap indent (JBool b) = (if b then ''true'' else ''false'')"
| "jsonWrite gap indent (JNum n) = showInt n"
| "jsonWrite gap indent (JStr s) = quoteJson s"
| "jsonWrite gap indent (JDate t) = quoteJson (isoString t)"
| "jsonWrite gap indent (JOid i) = quoteJson (oidString i)"
| "jsonWrite gap indent (JArr vs) = block CHR ''['' CHR '']'' gap indent (jsonItems gap (indent + gap) vs)"
| "jsonWrite gap indent (JObj ps) = block CHR ''{'' CHR ''}'' gap indent (jsonMembers gap (indent + gap) ps)"
| "jsonItems gap indent [] = []"
| "jsonItems gap indent (v # vs) = jsonWrite gap indent v # jsonItems gap indent vs"
| "jsonMembers gap indent [] = []"
| "jsonMembers gap indent ((k, v) # ps) =
     (if v = JUndef then [] else [quoteJson k @ colon gap @ jsonWrite gap indent v]) @ jsonMembers gap indent ps"

definition JSON_stringify :: "nat \<Rightarrow> json \<Rightarrow> string" where
  "JSON_stringify gap v = jsonWrite gap 0 v"

section \<open>Reading\<close>

definition isJsonSpace :: "char \<Rightarrow> bool" where
  "isJsonSpace c \<longleftrightarrow> c \<in> {CHR '' '', CHR 0x09, CHR 0x0A, CHR 0x0D}"

definition skipWs :: "string \<Rightarrow> string" where
  "skipWs s = dropWhile isJsonSpace s"

definition hexCode :: "char \<Rightarrow> nat option" where
  "hexCode c = (let n = of_char c :: nat in
     if 48 \<le> n \<and> n \<le> 57 then Some (n - 48) else if 97 \<le> n \<and> n \<le> 102 then Some (n - 87)
     else if 65 \<le> n \<and> n \<le> 70 then Some (n - 55) else None)"

definition readUnicode :: "char \<Rightarrow> char \<Rightarrow> char \<Rightarrow> char \<Rightarrow> char option" where
  "readUnicode a b c d = (case map hexCode [a, b, c, d] of
     [Some a, Some b, Some c, Some d] \<Rightarrow> if a = 0 \<and> b = 0 then Some (char_of (16 * c + d)) else None
   | _ \<Rightarrow> None)"

definition simpleEsc :: "char \<Rightarrow> char option" where
  "simpleEsc c = map_of [(quote, quote), (backslash, backslash), (CHR ''/'', CHR ''/''), (CHR ''b'', CHR 0x08),
     (CHR ''f'', CHR 0x0C), (CHR ''n'', CHR 0x0A), (CHR ''r'', CHR 0x0D), (CHR ''t'', CHR 0x09)] c"

text \<open>The rest of a string literal, after its opening quote.\<close>

fun parseString :: "string \<Rightarrow> (string \<times> string) option" where
  "parseString [] = None"
| "parseString (c # s) =
     (if c = quote then Some ([], s)
      else if c = backslash then (case s of
          [] \<Rightarrow> None
        | e # r \<Rightarrow>
            if e = CHR ''u'' then (case r of
                h1 # h2 # h3 # h4 # q \<Rightarrow> (case readUnicode h1 h2 h3 h4 of
                    None \<Rightarrow> None | Some x \<Rightarrow> map_option (\<lambda>(t, q). (x # t, q)) (parseString q))
              | _ \<Rightarrow> None)
            else (case simpleEsc e of
                None \<Rightarrow> None | Some x \<Rightarrow> map_option (\<lambda>(t, q). (x # t, q)) (parseString r)))
      else if (of_char c :: nat) < 32 then None
      else map_option (\<lambda>(t, q). (c # t, q)) (parseString s))"

definition parseNumber :: "string \<Rightarrow> (json \<times> string) option" where
  "parseNumber s =
     (let neg = (s \<noteq> [] \<and> hd s = CHR ''-''); u = (if neg then tl s else s); ds = takeWhile isDigit u; r = dropWhile isDigit u
      in if ds = [] \<or> (hd ds = CHR ''0'' \<and> length ds > 1) \<or> (r \<noteq> [] \<and> hd r \<in> {CHR ''.'', CHR ''e'', CHR ''E''}) then None
         else Some (JNum (if neg then - int (readNat ds) else int (readNat ds)), r))"

definition parseWord :: "string \<Rightarrow> (json \<times> string) option" where
  "parseWord s =
     (if take 4 s = ''true'' then Some (JBool True, drop 4 s)
      else if take 5 s = ''false'' then Some (JBool False, drop 5 s)
      else if take 4 s = ''null'' then Some (JNull, drop 4 s)
      else parseNumber s)"

text \<open>Of two members with one name the later value stays, at the place of the first.\<close>

fun putProp :: "string \<Rightarrow> json \<Rightarrow> (string \<times> json) list \<Rightarrow> (string \<times> json) list" where
  "putProp k v [] = [(k, v)]"
| "putProp k v ((k', v') # ps) = (if k = k' then (k, v) # ps else (k', v') # putProp k v ps)"

definition lastWins :: "(string \<times> json) list \<Rightarrow> (string \<times> json) list" where
  "lastWins ps = foldl (\<lambda>acc (k, v). putProp k v acc) [] ps"

fun parseValue :: "nat \<Rightarrow> string \<Rightarrow> (json \<times> string) option"
  and parseItems :: "nat \<Rightarrow> string \<Rightarrow> (json list \<times> string) option"
  and parseMembers :: "nat \<Rightarrow> string \<Rightarrow> ((string \<times> json) list \<times> string) option" where
  "parseValue 0 s = None"
| "parseValue (Suc n) s = (case skipWs s of
     [] \<Rightarrow> None
   | c # r \<Rightarrow>
       if c = quote then map_option (\<lambda>(t, q). (JStr t, q)) (parseString r)
       else if c = CHR ''['' then
         (if take 1 (skipWs r) = '']'' then Some (JArr [], drop 1 (skipWs r))
          else map_option (\<lambda>(vs, q). (JArr vs, q)) (parseItems n r))
       else if c = CHR ''{'' then
         (if take 1 (skipWs r) = ''}'' then Some (JObj [], drop 1 (skipWs r))
          else map_option (\<lambda>(ps, q). (JObj (lastWins ps), q)) (parseMembers n r))
       else parseWord (c # r))"
| "parseItems 0 s = None"
| "parseItems (Suc n) s = (case parseValue n s of
     None \<Rightarrow> None
   | Some (v, r) \<Rightarrow> (case skipWs r of
       [] \<Rightarrow> None
     | c # q \<Rightarrow> if c = CHR '']'' then Some ([v], q)
                else if c = CHR '','' then map_option (\<lambda>(vs, q). (v # vs, q)) (parseItems n q) else None))"
| "parseMembers 0 s = None"
| "parseMembers (Suc n) s = (case skipWs s of
     [] \<Rightarrow> None
   | c # r \<Rightarrow> if c \<noteq> quote then None else (case parseString r of
       None \<Rightarrow> None
     | Some (k, r) \<Rightarrow> (case skipWs r of
         [] \<Rightarrow> None
       | c # r \<Rightarrow> if c \<noteq> CHR '':'' then None else (case parseValue n r of
           None \<Rightarrow> None
         | Some (v, r) \<Rightarrow> (case skipWs r of
             [] \<Rightarrow> None
           | c # q \<Rightarrow> if c = CHR ''}'' then Some ([(k, v)], q)
                      else if c = CHR '','' then map_option (\<lambda>(ps, q). ((k, v) # ps, q)) (parseMembers n q) else None)))))"

definition JSON_parse :: "string \<Rightarrow> json option" where
  "JSON_parse s = (case parseValue (length s) s of
     None \<Rightarrow> None | Some (v, r) \<Rightarrow> if skipWs r = [] then Some v else None)"

section \<open>What a value is after the trip\<close>

text \<open>Dates and ids come back as the strings they were written as, \<open>undefined\<close> is gone.\<close>

fun cleanJson :: "json \<Rightarrow> json"
  and cleanItems :: "json list \<Rightarrow> json list"
  and cleanMembers :: "(string \<times> json) list \<Rightarrow> (string \<times> json) list" where
  "cleanJson JUndef = JNull"
| "cleanJson (JDate t) = JStr (isoString t)"
| "cleanJson (JOid i) = JStr (oidString i)"
| "cleanJson (JArr vs) = JArr (cleanItems vs)"
| "cleanJson (JObj ps) = JObj (cleanMembers ps)"
| "cleanJson v = v"
| "cleanItems [] = []"
| "cleanItems (v # vs) = cleanJson v # cleanItems vs"
| "cleanMembers [] = []"
| "cleanMembers ((k, v) # ps) = (if v = JUndef then [] else [(k, cleanJson v)]) @ cleanMembers ps"

text \<open>In every object of the value the names differ.\<close>

fun namesDiffer :: "json \<Rightarrow> bool"
  and namesDifferItems :: "json list \<Rightarrow> bool"
  and namesDifferMembers :: "(string \<times> json) list \<Rightarrow> bool" where
  "namesDiffer (JArr vs) = namesDifferItems vs"
| "namesDiffer (JObj ps) = (distinct (map fst ps) \<and> namesDifferMembers ps)"
| "namesDiffer v = True"
| "namesDifferItems [] = True"
| "namesDifferItems (v # vs) = (namesDiffer v \<and> namesDifferItems vs)"
| "namesDifferMembers [] = True"
| "namesDifferMembers ((k, v) # ps) = (namesDiffer v \<and> namesDifferMembers ps)"

section \<open>Reading what was written\<close>

subsection \<open>Strings\<close>

lemma of_char_digit: "n < 16 \<Longrightarrow> (of_char (digitChar n) :: nat) = (if n < 10 then 48 + n else 87 + n)"
  by (simp add: digitChar_def)

lemma hexCode_digit: "n < 16 \<Longrightarrow> hexCode (digitChar n) = Some n"
  by (simp add: hexCode_def Let_def of_char_digit)

lemma readUnicode_low: "n < 256 \<Longrightarrow> readUnicode CHR ''0'' CHR ''0'' (digitChar (n div 16)) (digitChar (n mod 16)) = Some (char_of n)"
  by (simp add: readUnicode_def hexCode_digit) (simp add: hexCode_def)

lemma chars_differ [simp]:
  "quote \<noteq> backslash" "backslash \<noteq> quote" "backslash \<noteq> CHR ''u''" "quote \<noteq> CHR ''u''"
  by (simp_all add: quote_def backslash_def)

lemma parseString_simple:
  "e \<noteq> CHR ''u'' \<Longrightarrow> simpleEsc e = Some x \<Longrightarrow>
     parseString (backslash # e # r) = map_option (\<lambda>(t, q). (x # t, q)) (parseString r)"
  by simp

lemma parseString_unicode:
  "n < 256 \<Longrightarrow> parseString (backslash # CHR ''u'' # CHR ''0'' # CHR ''0'' # digitChar (n div 16) # digitChar (n mod 16) # r) =
     map_option (\<lambda>(t, q). (char_of n # t, q)) (parseString r)"
  by (simp add: readUnicode_low)

lemma escChar_parse: "parseString (escChar c @ r) = map_option (\<lambda>(t, q). (c # t, q)) (parseString r)"
proof -
  have esc: "simpleEsc quote = Some quote" "simpleEsc backslash = Some backslash" "simpleEsc CHR ''b'' = Some CHR 0x08"
    "simpleEsc CHR ''f'' = Some CHR 0x0C" "simpleEsc CHR ''n'' = Some CHR 0x0A" "simpleEsc CHR ''r'' = Some CHR 0x0D"
    "simpleEsc CHR ''t'' = Some CHR 0x09"
    by (simp_all add: simpleEsc_def quote_def backslash_def)
  have ec: "escChar quote = [backslash, quote]" "escChar backslash = [backslash, backslash]"
    "escChar CHR 0x08 = [backslash, CHR ''b'']" "escChar CHR 0x0C = [backslash, CHR ''f'']"
    "escChar CHR 0x0A = [backslash, CHR ''n'']" "escChar CHR 0x0D = [backslash, CHR ''r'']"
    "escChar CHR 0x09 = [backslash, CHR ''t'']"
    by (simp_all add: escChar_def quote_def backslash_def)
  show ?thesis
  proof (cases "c \<in> {quote, backslash, CHR 0x08, CHR 0x0C, CHR 0x0A, CHR 0x0D, CHR 0x09}")
    case True
    then obtain e where "escChar c = [backslash, e]" "e \<noteq> CHR ''u''" "simpleEsc e = Some c"
      by (elim insertE emptyE) (simp_all add: ec esc)
    then show ?thesis using parseString_simple [of e c r] by simp
  next
    case False
    then have c: "escChar c = (if (of_char c :: nat) < 32 then [backslash, CHR ''u''] @ ''00'' @ [digitChar (of_char c div 16), digitChar (of_char c mod 16)] else [c])"
      and q: "c \<noteq> quote" "c \<noteq> backslash"
      by (simp_all add: escChar_def hexDigit_def)
    show ?thesis
    proof (cases "(of_char c :: nat) < 32")
      case True
      show ?thesis
        using parseString_unicode [of "of_char c" r, OF nat_of_char_less_256]
        by (simp only: c True if_True append.simps char_of_char)
    next
      case False
      with q show ?thesis by (simp add: c)
    qed
  qed
qed

lemma parseString_quoted: "parseString (concat (map escChar s) @ quote # r) = Some (s, r)"
  by (induction s) (simp_all add: escChar_parse)

lemma quoteJson_append: "quoteJson s @ r = quote # concat (map escChar s) @ quote # r"
  by (simp add: quoteJson_def)

subsection \<open>Numbers\<close>

lemma showNat_leading: "hd (showNat n) = CHR ''0'' \<Longrightarrow> n = 0"
proof (induction n rule: showNat.induct)
  case (1 n)
  show ?case
  proof (cases "n < 10")
    case True
    with 1(2) have "(of_char (digitChar n) :: nat) = of_char CHR ''0''"
      by (simp add: showNat.simps [of n])
    with True show ?thesis by (simp add: of_char_digitChar)
  next
    case False
    with 1(2) have "hd (showNat (n div 10)) = CHR ''0''"
      by (simp add: showNat.simps [of n])
    with False 1(1) show ?thesis by simp
  qed
qed

lemma showNat_zero: "showNat 0 = ''0''"
  by code_simp

definition endOk :: "string \<Rightarrow> bool" where
  "endOk r = (case r of [] \<Rightarrow> True | c # _ \<Rightarrow> \<not> isDigit c \<and> c \<notin> {CHR ''.'', CHR ''e'', CHR ''E''})"

lemma takeWhile_number: "endOk r \<Longrightarrow> takeWhile isDigit (showNat n @ r) = showNat n \<and> dropWhile isDigit (showNat n @ r) = r"
  using showNat_digits [of n] by (cases r) (auto simp: endOk_def list_all_iff takeWhile_append dropWhile_append)

lemma digit_plain: "isDigit c \<Longrightarrow> c \<noteq> CHR ''-'' \<and> c \<noteq> CHR ''t'' \<and> c \<noteq> CHR ''f'' \<and> c \<noteq> CHR ''n'' \<and> c \<noteq> quote \<and>
    c \<noteq> CHR ''['' \<and> c \<noteq> CHR ''{'' \<and> c \<noteq> CHR '']'' \<and> \<not> isJsonSpace c"
  by (auto simp: isDigit_def quote_def isJsonSpace_def Let_def)

lemma parseNumber_show:
  assumes "endOk r"
  shows "parseNumber (showInt k @ r) = Some (JNum k, r)"
proof -
  have lead: "\<not> (hd (showNat n) = CHR ''0'' \<and> length (showNat n) > 1)" for n
    using showNat_leading [of n] showNat_zero by auto
  have fin: "\<not> (r \<noteq> [] \<and> hd r \<in> {CHR ''.'', CHR ''e'', CHR ''E''})"
    using assms by (cases r) (auto simp: endOk_def)
  have hdd: "isDigit (hd (showNat n))" for n
    using showNat_digits [of n] by (cases "showNat n") auto
  show ?thesis
  proof (cases "k < 0")
    case True
    then show ?thesis
      using lead fin takeWhile_number [OF assms, of "nat (- k)"] by (simp add: parseNumber_def showInt_def Let_def del: dropWhile_eq_Nil_conv)
  next
    case False
    then show ?thesis
      using lead fin takeWhile_number [OF assms, of "nat k"] digit_plain [OF hdd [of "nat k"]]
      by (simp add: parseNumber_def showInt_def Let_def del: dropWhile_eq_Nil_conv)
  qed
qed

lemma showInt_head:
  obtains c t where "showInt k = c # t" and "c = CHR ''-'' \<or> isDigit c"
proof (cases "k < 0")
  case True
  then show ?thesis using that by (simp add: showInt_def)
next
  case False
  obtain c t where "showNat (nat k) = c # t" by (cases "showNat (nat k)") auto
  with False show ?thesis
    using that [of c t] showNat_digits [of "nat k"] by (simp add: showInt_def)
qed

subsection \<open>White space\<close>

lemma skipWs_space: "list_all isJsonSpace w \<Longrightarrow> skipWs (w @ r) = skipWs r"
  by (induction w) (simp_all add: skipWs_def)

lemma skipWs_stop: "\<not> isJsonSpace c \<Longrightarrow> skipWs (c # r) = c # r"
  by (simp add: skipWs_def)

lemma newline_space: "list_all isJsonSpace (newline gap i)"
  by (simp add: newline_def isJsonSpace_def list_all_iff)

lemma newline_zero [simp]: "newline 0 i = []"
  by (simp add: newline_def)

lemma plain_marks [simp]: "\<not> isJsonSpace quote" "\<not> isJsonSpace CHR '',''" "\<not> isJsonSpace CHR '']''" "\<not> isJsonSpace CHR ''}''"
  "\<not> isJsonSpace CHR ''[''" "\<not> isJsonSpace CHR ''{''" "\<not> isJsonSpace CHR '':''"
  "quote \<noteq> CHR '']''" "quote \<noteq> CHR ''}''" "quote \<noteq> CHR ''[''" "quote \<noteq> CHR ''{''" "CHR ''['' \<noteq> quote" "CHR ''{'' \<noteq> quote"
  by (simp_all add: quote_def isJsonSpace_def)

lemma endOk_marks [simp]: "endOk (CHR '','' # r)" "endOk (CHR '']'' # r)" "endOk (CHR ''}'' # r)" "endOk []"
  by (simp_all add: endOk_def isDigit_def)

lemma endOk_newline [simp]: "endOk r \<Longrightarrow> endOk (newline gap i @ r)"
  by (simp add: newline_def endOk_def isDigit_def)

subsection \<open>Values\<close>

text \<open>
  What is to be shown of a value: after white space and before an end, any fuel that covers its
  text reads it back. A text starts with none of the marks that close a value.
\<close>

definition readsBack :: "nat \<Rightarrow> nat \<Rightarrow> json \<Rightarrow> bool" where
  "readsBack gap i v \<longleftrightarrow> (\<forall>n w r. length (jsonWrite gap i v) \<le> n \<longrightarrow> list_all isJsonSpace w \<longrightarrow> endOk r \<longrightarrow>
     parseValue n (w @ jsonWrite gap i v @ r) = Some (cleanJson v, r))"

lemma readsBackD:
  "readsBack gap i v \<Longrightarrow> length (jsonWrite gap i v) \<le> n \<Longrightarrow> list_all isJsonSpace w \<Longrightarrow> endOk r \<Longrightarrow>
     parseValue n (w @ jsonWrite gap i v @ r) = Some (cleanJson v, r)"
  by (simp add: readsBack_def)

lemma parseValue_at:
  "list_all isJsonSpace w \<Longrightarrow> \<not> isJsonSpace c \<Longrightarrow> parseValue (Suc n) (w @ c # r) = parseValue (Suc n) (c # r)"
  by (simp add: skipWs_space skipWs_stop)

lemma readsBackI:
  assumes "\<And>n r. length (jsonWrite gap i v) \<le> Suc n \<Longrightarrow> endOk r \<Longrightarrow>
      parseValue (Suc n) (jsonWrite gap i v @ r) = Some (cleanJson v, r)"
    and "jsonWrite gap i v = c # t" and "\<not> isJsonSpace c"
  shows "readsBack gap i v"
  unfolding readsBack_def
proof (intro allI impI)
  fix n w r
  assume n: "length (jsonWrite gap i v) \<le> n" and w: "list_all isJsonSpace w" and r: "endOk r"
  from n assms(2) obtain m where m: "n = Suc m" by (cases n) auto
  from assms(1) [OF n [unfolded m] r] show "parseValue n (w @ jsonWrite gap i v @ r) = Some (cleanJson v, r)"
    using parseValue_at [OF w assms(3), of m "t @ r"] by (simp add: assms(2) m)
qed

lemma readsBack_string: "jsonWrite gap i v = quoteJson s \<Longrightarrow> cleanJson v = JStr s \<Longrightarrow> readsBack gap i v"
  by (rule readsBackI [where c = quote and t = "concat (map escChar s) @ [quote]"])
    (simp_all add: quoteJson_def skipWs_stop parseString_quoted)

lemma readsBack_word:
  assumes "jsonWrite gap i v = c # t" and "c \<in> {CHR ''t'', CHR ''f'', CHR ''n''}"
    and "\<And>r. parseWord (c # t @ r) = Some (cleanJson v, r)"
  shows "readsBack gap i v"
proof (rule readsBackI [OF _ assms(1)])
  show sp: "\<not> isJsonSpace c" using assms(2) by (auto simp: isJsonSpace_def)
  have "c \<noteq> quote" "c \<noteq> CHR ''[''" "c \<noteq> CHR ''{''"
    using assms(2) by (auto simp: quote_def)
  then show "parseValue (Suc n) (jsonWrite gap i v @ r) = Some (cleanJson v, r)" for n r
    using assms(3) by (simp add: assms(1) skipWs_stop [OF sp])
qed

lemma readsBack_number: "readsBack gap i (JNum k)"
proof -
  obtain c t where k: "showInt k = c # t" and c: "c = CHR ''-'' \<or> isDigit c" by (rule showInt_head)
  have ne: "c \<noteq> quote" "c \<noteq> CHR ''[''" "c \<noteq> CHR ''{''" "c \<noteq> CHR ''t''" "c \<noteq> CHR ''f''" "c \<noteq> CHR ''n''" "\<not> isJsonSpace c"
    using c by (elim disjE; simp add: digit_plain; simp add: quote_def isJsonSpace_def)+
  show ?thesis
  proof (rule readsBackI)
    show "jsonWrite gap i (JNum k) = c # t" by (simp add: k)
    show "\<not> isJsonSpace c" by (rule ne(7))
    fix n r
    assume "endOk r"
    then have "parseWord (c # t @ r) = Some (JNum k, r)"
      using parseNumber_show [of r k] ne by (simp add: parseWord_def k)
    then show "parseValue (Suc n) (jsonWrite gap i (JNum k) @ r) = Some (cleanJson (JNum k), r)"
      using ne by (simp add: k skipWs_stop)
  qed
qed

subsection \<open>Arrays\<close>

lemma jsonItems_map: "jsonItems gap i vs = map (jsonWrite gap i) vs" "cleanItems vs = map cleanJson vs"
  by (induction vs) simp_all

lemma parseItems_back:
  assumes "vs \<noteq> []" and "\<forall>v\<in>set vs. readsBack gap i v" and "list_all isJsonSpace w"
    and "length (joinWith (CHR '','' # newline gap i) (map (jsonWrite gap i) vs)) < n"
  shows "parseItems n (w @ joinWith (CHR '','' # newline gap i) (map (jsonWrite gap i) vs) @ newline gap j @ CHR '']'' # r) =
    Some (map cleanJson vs, r)"
  using assms
proof (induction vs arbitrary: n w rule: list_nonempty_induct)
  case (single v)
  from single.prems(3) obtain m where m: "n = Suc m" by (cases n) auto
  have "parseValue m (w @ jsonWrite gap i v @ (newline gap j @ CHR '']'' # r)) = Some (cleanJson v, newline gap j @ CHR '']'' # r)"
    using single.prems m by (intro readsBackD) simp_all
  then show ?case
    by (simp add: m skipWs_space [OF newline_space] skipWs_stop)
next
  case (cons v vs)
  from cons.prems(3) obtain m where m: "n = Suc m" by (cases n) auto
  obtain u us where vs: "vs = u # us" using cons.hyps by (cases vs) auto
  define rest where "rest = newline gap i @ joinWith (CHR '','' # newline gap i) (map (jsonWrite gap i) vs) @ newline gap j @ CHR '']'' # r"
  have "parseValue m (w @ jsonWrite gap i v @ (CHR '','' # rest)) = Some (cleanJson v, CHR '','' # rest)"
    using cons.prems m by (intro readsBackD) (simp_all add: vs)
  moreover have "parseItems m rest = Some (map cleanJson vs, r)"
    unfolding rest_def using cons.prems m by (intro cons.IH) (simp_all add: newline_space vs)
  ultimately show ?case
    by (simp add: m vs rest_def skipWs_stop)
qed

subsection \<open>Objects\<close>

definition kept :: "(string \<times> json) list \<Rightarrow> (string \<times> json) list" where
  "kept ps = filter (\<lambda>p. snd p \<noteq> JUndef) ps"

definition memberText :: "nat \<Rightarrow> nat \<Rightarrow> string \<times> json \<Rightarrow> string" where
  "memberText gap i p = quoteJson (fst p) @ colon gap @ jsonWrite gap i (snd p)"

lemma jsonMembers_map:
  "jsonMembers gap i ps = map (memberText gap i) (kept ps)"
  "cleanMembers ps = map (\<lambda>p. (fst p, cleanJson (snd p))) (kept ps)"
  by (induction ps) (auto simp: kept_def memberText_def)

lemma parseMember_back:
  assumes "readsBack gap i v" and "list_all isJsonSpace w" and "length (memberText gap i (k, v)) \<le> n" and "endOk (c # r)"
    and "\<not> isJsonSpace c \<or> c # r = newline gap j @ CHR ''}'' # q"
  shows "parseMembers (Suc n) (w @ memberText gap i (k, v) @ c # r) =
    (case skipWs (c # r) of [] \<Rightarrow> None
     | c # q \<Rightarrow> if c = CHR ''}'' then Some ([(k, cleanJson v)], q)
                else if c = CHR '','' then map_option (\<lambda>(ps, q). ((k, cleanJson v) # ps, q)) (parseMembers n q) else None)"
proof -
  obtain b where b: "colon gap = CHR '':'' # b" "list_all isJsonSpace b"
    by (cases "gap = 0") (auto simp: colon_def isJsonSpace_def)
  have "parseValue n (b @ jsonWrite gap i v @ c # r) = Some (cleanJson v, c # r)"
    using assms b by (intro readsBackD) (simp_all add: memberText_def)
  then show ?thesis
    by (simp add: memberText_def skipWs_space [OF assms(2)] quoteJson_append skipWs_stop parseString_quoted b)
qed

lemma parseMembers_back:
  assumes "ps \<noteq> []" and "\<forall>p\<in>set ps. readsBack gap i (snd p)" and "list_all isJsonSpace w"
    and "length (joinWith (CHR '','' # newline gap i) (map (memberText gap i) ps)) < n"
  shows "parseMembers n (w @ joinWith (CHR '','' # newline gap i) (map (memberText gap i) ps) @ newline gap j @ CHR ''}'' # r) =
    Some (map (\<lambda>p. (fst p, cleanJson (snd p))) ps, r)"
  using assms
proof (induction ps arbitrary: n w rule: list_nonempty_induct)
  case (single p)
  from single.prems(3) obtain m where m: "n = Suc m" by (cases n) auto
  obtain c q where c: "newline gap j @ CHR ''}'' # r = c # q" by (cases "newline gap j") auto
  have e: "endOk (c # q)" unfolding c [symmetric] by simp
  have "skipWs (c # q) = CHR ''}'' # r" unfolding c [symmetric] by (simp add: skipWs_space [OF newline_space] skipWs_stop)
  then show ?case
    using parseMember_back [of gap i "snd p" w "fst p" m c q j r] single.prems m c e
    by simp
next
  case (cons p ps)
  from cons.prems(3) obtain m where m: "n = Suc m" by (cases n) auto
  obtain u us where ps: "ps = u # us" using cons.hyps by (cases ps) auto
  define rest where "rest = newline gap i @ joinWith (CHR '','' # newline gap i) (map (memberText gap i) ps) @ newline gap j @ CHR ''}'' # r"
  have "parseMembers m rest = Some (map (\<lambda>p. (fst p, cleanJson (snd p))) ps, r)"
    unfolding rest_def using cons.prems m by (intro cons.IH) (simp_all add: newline_space ps)
  then have "parseMembers n (w @ memberText gap i p @ CHR '','' # rest) = Some ((fst p, cleanJson (snd p)) # map (\<lambda>p. (fst p, cleanJson (snd p))) ps, r)"
    using parseMember_back [of gap i "snd p" w "fst p" m "CHR '',''" rest j r] cons.prems m
    by (simp add: skipWs_stop ps)
  then show ?case
    by (simp add: ps rest_def)
qed

lemma putProp_fresh: "k \<notin> fst ` set ps \<Longrightarrow> putProp k v ps = ps @ [(k, v)]"
  by (induction k v ps rule: putProp.induct) auto

lemma lastWins_distinct: "distinct (map fst ps) \<Longrightarrow> lastWins ps = ps"
proof -
  have "distinct (map fst (acc @ ps)) \<Longrightarrow> foldl (\<lambda>acc (k, v). putProp k v acc) acc ps = acc @ ps" for acc
    by (induction ps arbitrary: acc) (auto simp: putProp_fresh)
  from this [of "[]"] show "distinct (map fst ps) \<Longrightarrow> lastWins ps = ps"
    by (simp add: lastWins_def)
qed

subsection \<open>Every value\<close>

lemma memberText_cons: "\<exists>t. memberText gap i p = quote # t"
  by (simp add: memberText_def quoteJson_def)

lemma skipWs_block: "\<not> isJsonSpace c \<Longrightarrow> skipWs (newline gap i @ c # r) = c # r"
  by (simp add: skipWs_space [OF newline_space] skipWs_stop)

lemma write_head:
  obtains c t where "jsonWrite gap i v = c # t" and "\<not> isJsonSpace c" and "c \<noteq> CHR '']''"
proof -
  have dig: "\<not> isJsonSpace c \<and> c \<noteq> CHR '']''" if "c = CHR ''-'' \<or> isDigit c" for c
    using that digit_plain [of c] by (elim disjE) (simp_all add: isJsonSpace_def)
  have "\<exists>c t. jsonWrite gap i v = c # t \<and> \<not> isJsonSpace c \<and> c \<noteq> CHR '']''"
  proof (cases v)
    case (JNum k)
    then show ?thesis using showInt_head [of k] dig by (metis jsonWrite.simps(4))
  qed (simp_all add: quoteJson_def block_def isJsonSpace_def quote_def)
  with that show thesis by blast
qed

lemma readsBack_array:
  assumes "\<forall>v\<in>set vs. readsBack gap (i + gap) v"
  shows "readsBack gap i (JArr vs)"
proof (cases "vs = []")
  case True
  show ?thesis
    by (rule readsBackI [where c = "CHR ''[''" and t = "'']''"])
      (simp_all add: True block_def skipWs_stop)
next
  case False
  define body where "body = joinWith (CHR '','' # newline gap (i + gap)) (map (jsonWrite gap (i + gap)) vs)"
  define after where "after = (\<lambda>r. newline gap (i + gap) @ body @ newline gap i @ CHR '']'' # r)"
  have written: "jsonWrite gap i (JArr vs) @ r = CHR ''['' # after r" for r
    using False by (simp add: block_def jsonItems_map body_def after_def)
  have len: "length (jsonWrite gap i (JArr vs)) \<ge> Suc (Suc (length body))"
    using False by (simp add: block_def jsonItems_map body_def)
  obtain u us where vs: "vs = u # us" using False by (cases vs) auto
  obtain c t where c: "jsonWrite gap (i + gap) u = c # t" "\<not> isJsonSpace c" "c \<noteq> CHR '']''" by (rule write_head)
  have "\<exists>b. body = c # b"
    by (cases us) (simp_all add: body_def vs c)
  then have start: "take 1 (skipWs (after r)) \<noteq> '']''" for r
    using c by (auto simp: after_def skipWs_block)
  show ?thesis
  proof (rule readsBackI)
    show "jsonWrite gap i (JArr vs) = CHR ''['' # after []" using written [of "[]"] by simp
    fix n r
    assume "length (jsonWrite gap i (JArr vs)) \<le> Suc n"
    with len have "length body < n" by simp
    then have "parseItems n (after r) = Some (map cleanJson vs, r)"
      unfolding after_def body_def using parseItems_back [OF False assms newline_space] by blast
    with start [of r] show "parseValue (Suc n) (jsonWrite gap i (JArr vs) @ r) = Some (cleanJson (JArr vs), r)"
      unfolding written by (simp add: skipWs_stop jsonItems_map)
  qed simp
qed

lemma readsBack_object:
  assumes "\<forall>p\<in>set ps. snd p \<noteq> JUndef \<longrightarrow> readsBack gap (i + gap) (snd p)" and "distinct (map fst ps)"
  shows "readsBack gap i (JObj ps)"
proof (cases "kept ps = []")
  case True
  show ?thesis
    by (rule readsBackI [where c = "CHR ''{''" and t = "''}''"])
      (simp_all add: True block_def skipWs_stop jsonMembers_map)
next
  case False
  define body where "body = joinWith (CHR '','' # newline gap (i + gap)) (map (memberText gap (i + gap)) (kept ps))"
  define after where "after = (\<lambda>r. newline gap (i + gap) @ body @ newline gap i @ CHR ''}'' # r)"
  have written: "jsonWrite gap i (JObj ps) @ r = CHR ''{'' # after r" for r
    using False by (simp add: block_def jsonMembers_map body_def after_def)
  have len: "length (jsonWrite gap i (JObj ps)) \<ge> Suc (Suc (length body))"
    using False by (simp add: block_def jsonMembers_map body_def)
  obtain u us where ps: "kept ps = u # us" using False by (cases "kept ps") auto
  have "\<exists>b. body = quote # b"
    using memberText_cons [of gap "i + gap" u] by (cases us) (auto simp: body_def ps)
  then have start: "take 1 (skipWs (after r)) \<noteq> ''}''" for r
    by (auto simp: after_def skipWs_block)
  have kept: "\<forall>p\<in>set (kept ps). readsBack gap (i + gap) (snd p)"
    using assms(1) by (simp add: kept_def)
  have "distinct (map fst (kept ps))"
    using assms(2) by (simp add: kept_def distinct_map_filter)
  then have last: "lastWins (map (\<lambda>p. (fst p, cleanJson (snd p))) (kept ps)) = map (\<lambda>p. (fst p, cleanJson (snd p))) (kept ps)"
    by (intro lastWins_distinct) (simp add: comp_def)
  show ?thesis
  proof (rule readsBackI)
    show "jsonWrite gap i (JObj ps) = CHR ''{'' # after []" using written [of "[]"] by simp
    fix n r
    assume "length (jsonWrite gap i (JObj ps)) \<le> Suc n"
    with len have "length body < n" by simp
    then have "parseMembers n (after r) = Some (map (\<lambda>p. (fst p, cleanJson (snd p))) (kept ps), r)"
      unfolding after_def body_def using parseMembers_back [OF False kept newline_space] by blast
    with start [of r] show "parseValue (Suc n) (jsonWrite gap i (JObj ps) @ r) = Some (cleanJson (JObj ps), r)"
      unfolding written by (simp add: skipWs_stop jsonMembers_map last)
  qed simp
qed

lemma readsBack_atoms:
  "readsBack gap i JUndef" "readsBack gap i JNull" "readsBack gap i (JBool b)" "readsBack gap i (JStr s)"
  "readsBack gap i (JDate t)" "readsBack gap i (JOid d)"
proof -
  show "readsBack gap i JUndef" "readsBack gap i JNull"
    by (rule readsBack_word [where c = "CHR ''n''" and t = "''ull''"]; simp add: parseWord_def)+
  show "readsBack gap i (JBool b)"
  proof (cases b)
    case True
    then show ?thesis by (intro readsBack_word [where c = "CHR ''t''" and t = "''rue''"]) (simp_all add: parseWord_def)
  next
    case False
    then show ?thesis by (intro readsBack_word [where c = "CHR ''f''" and t = "''alse''"]) (simp_all add: parseWord_def)
  qed
  show "readsBack gap i (JStr s)" "readsBack gap i (JDate t)" "readsBack gap i (JOid d)"
    by (rule readsBack_string; simp)+
qed

lemma readsBack_all:
  "namesDiffer v \<Longrightarrow> readsBack gap i v"
  "namesDifferItems vs \<Longrightarrow> \<forall>v\<in>set vs. readsBack gap i v"
  "namesDifferMembers ps \<Longrightarrow> \<forall>p\<in>set ps. readsBack gap i (snd p)"
proof (induction v and vs and ps arbitrary: i and i and i rule: namesDiffer_namesDifferItems_namesDifferMembers.induct)
  case (1 vs)
  then show ?case by (intro readsBack_array) simp
next
  case (2 ps)
  then show ?case by (intro readsBack_object) simp_all
qed (simp_all add: readsBack_atoms readsBack_number)

lemma parse_stringify:
  assumes "namesDiffer v"
  shows "JSON_parse (JSON_stringify gap v) = Some (cleanJson v)"
proof -
  have "parseValue (length (jsonWrite gap 0 v)) ([] @ jsonWrite gap 0 v @ []) = Some (cleanJson v, [])"
    using assms by (intro readsBackD readsBack_all(1)) simp_all
  then show ?thesis
    by (simp add: JSON_parse_def JSON_stringify_def skipWs_def)
qed

end
