(* ===== verification/Http.thy ===== *)
theory Http
  imports Tasks TaskQueries JsonText
begin

text \<open>
  The HTTP layer (\<open>src/common/http\<close>, \<open>src/common/filters\<close>): entity tags, the headers
  \<open>If-Match\<close> and \<open>If-None-Match\<close>, the request id, and the filter that turns an exception into a
  problem document.
\<close>

section \<open>\<open>Number(s)\<close>\<close>

text \<open>
  The value of a numeric string as \<open>m * 10 ^ e\<close>; \<open>None\<close> is \<open>NaN\<close> or an infinity. An empty string
  is 0. The rounding of a literal that no double represents is left out.
\<close>

definition spanDigits :: "string \<Rightarrow> string \<times> string" where
  "spanDigits s = (takeWhile isDigit s, dropWhile isDigit s)"

definition readSign :: "string \<Rightarrow> int \<times> string" where
  "readSign s = (case s of c # cs \<Rightarrow> (if c = CHR ''-'' then (- 1, cs) else if c = CHR ''+'' then (1, cs) else (1, s)) | [] \<Rightarrow> (1, []))"

definition radixVal :: "nat \<Rightarrow> string \<Rightarrow> nat option" where
  "radixVal b s =
     (let val = (\<lambda>c. let n = of_char (lowerChar c) :: nat in
            if 48 \<le> n \<and> n \<le> 57 then n - 48 else if 97 \<le> n \<and> n \<le> 102 then n - 87 else 99)
      in if s \<noteq> [] \<and> list_all (\<lambda>c. val c < b) s then Some (foldl (\<lambda>acc c. b * acc + val c) 0 s) else None)"

definition readExponent :: "string \<Rightarrow> int option" where
  "readExponent s = (case s of
     [] \<Rightarrow> Some 0
   | c # cs \<Rightarrow> if c \<noteq> CHR ''e'' \<and> c \<noteq> CHR ''E'' then None else
       (case readSign cs of (sign, ds) \<Rightarrow> if ds \<noteq> [] \<and> list_all isDigit ds then Some (sign * int (readNat ds)) else None))"

definition readDecimal :: "string \<Rightarrow> (int \<times> int) option" where
  "readDecimal s = (case readSign s of (sign, u) \<Rightarrow> (case spanDigits u of (a, r) \<Rightarrow>
     (case (case r of c # cs \<Rightarrow> (if c = CHR ''.'' then spanDigits cs else ([], r)) | [] \<Rightarrow> ([], [])) of (b, rest) \<Rightarrow>
        if a = [] \<and> b = [] then None
        else map_option (\<lambda>e. (sign * int (readNat (a @ b)), e - int (length b))) (readExponent rest))))"

definition jsNumber :: "string \<Rightarrow> (int \<times> int) option" where
  "jsNumber s = (let t = trim s; p = map lowerChar (take 2 t); r = drop 2 t in
     if t = [] then Some (0, 0)
     else if p = ''0x'' then map_option (\<lambda>n. (int n, 0)) (radixVal 16 r)
     else if p = ''0o'' then map_option (\<lambda>n. (int n, 0)) (radixVal 8 r)
     else if p = ''0b'' then map_option (\<lambda>n. (int n, 0)) (radixVal 2 r)
     else readDecimal t)"

text \<open>\<open>Number.isInteger(v)\<close>, with the integer.\<close>

definition asInteger :: "int \<times> int \<Rightarrow> int option" where
  "asInteger v = (case v of (m, e) \<Rightarrow>
     if 0 \<le> e then Some (m * 10 ^ nat e)
     else if m mod 10 ^ nat (- e) = 0 then Some (m div 10 ^ nat (- e)) else None)"

section \<open>Entity tags\<close>

text \<open>\<open>trim()\<close>, a leading \<open>W/\<close> dropped, then one quote at each end.\<close>

definition stripWeak :: "string \<Rightarrow> string" where
  "stripWeak s = (if take 2 s = ''W/'' then drop 2 s else s)"

definition stripQuotes :: "string \<Rightarrow> string" where
  "stripQuotes s = (let t = (case s of c # cs \<Rightarrow> if c = quote then cs else s | [] \<Rightarrow> []) in
     if t \<noteq> [] \<and> last t = quote then butlast t else t)"

definition tagText :: "string \<Rightarrow> string" where
  "tagText s = stripQuotes (stripWeak (trim s))"

definition parseIfMatch :: "string option \<Rightarrow> err + int" where
  "parseIfMatch ifMatch = (case ifMatch of
     Some (c # cs) \<Rightarrow> (case Option.bind (jsNumber (tagText (c # cs))) asInteger of
         Some version \<Rightarrow> if version < 0 then Inl (BadRequest ''Invalid If-Match header'') else Inr version
       | None \<Rightarrow> Inl (BadRequest ''Invalid If-Match header''))
   | _ \<Rightarrow> Inl (PreconditionRequired ''If-Match header is required''))"

definition parseIfNoneMatch :: "string option \<Rightarrow> int list" where
  "parseIfNoneMatch ifNoneMatch = (case ifNoneMatch of
     Some (c # cs) \<Rightarrow>
       if trim (c # cs) = ''*'' then [- 1]
       else map (\<lambda>s. int (readNat s)) (filter (\<lambda>s. s \<noteq> [] \<and> list_all isDigit s) (map tagText (splitOn CHR '','' (c # cs))))
   | _ \<Rightarrow> [])"

text \<open>The tag the controller sends, and its answer to a conditional read.\<close>

definition etag :: "int \<Rightarrow> string" where
  "etag v = quote # showInt v @ [quote]"

definition notModified :: "string option \<Rightarrow> int \<Rightarrow> bool" where
  "notModified ifNoneMatch v = (let versions = parseIfNoneMatch ifNoneMatch in v \<in> set versions \<or> - 1 \<in> set versions)"

section \<open>The request id\<close>

text \<open>The id of the caller, or a new one; it becomes the header of the response and the context of the request.\<close>

definition RequestIdMiddleware_use :: "string option \<Rightarrow> string wprog" where
  "RequestIdMiddleware_use header =
     bnd (case header of Some h \<Rightarrow> ret h | None \<Rightarrow> bnd freshId (\<lambda>i. ret (oidString i))) (\<lambda>rid.
     andThen (modify (\<lambda>s. s\<lparr>requestId := Some rid\<rparr>)) (ret rid))"

section \<open>The exception filter\<close>

text \<open>
  What an \<open>HttpException\<close> answers: a text, or an object with \<open>error\<close> and \<open>message\<close> (a text, or
  the list of a failed validation).
\<close>

datatype excMessage = MText string | MList "string list" | MNone

datatype excResponse = RText string | RObject "string option" excMessage

datatype thrown = HttpException nat excResponse | OtherError string

record problem =
  pr_type :: string
  pr_title :: string
  pr_status :: nat
  pr_detail :: string
  pr_instance :: string
  pr_requestId :: "string option"
  pr_errors :: "string list option"

text \<open>\<open>HttpStatus[status]\<close>, the name of the constant, for the statuses the program uses.\<close>

definition statusName :: "nat \<Rightarrow> string" where
  "statusName n = (case map_of [(400, ''BAD_REQUEST''), (401, ''UNAUTHORIZED''), (403, ''FORBIDDEN''), (404, ''NOT_FOUND''),
     (409, ''CONFLICT''), (412, ''PRECONDITION_FAILED''), (413, ''PAYLOAD_TOO_LARGE''), (415, ''UNSUPPORTED_MEDIA_TYPE''),
     (422, ''UNPROCESSABLE_ENTITY''), (428, ''PRECONDITION_REQUIRED''), (429, ''TOO_MANY_REQUESTS''),
     (500, ''INTERNAL_SERVER_ERROR''), (503, ''SERVICE_UNAVAILABLE'')] n of None \<Rightarrow> ''Error'' | Some s \<Rightarrow> s)"

definition getProblemType :: "nat \<Rightarrow> string" where
  "getProblemType status = ''https://api.taskmanager.local/problems/'' @
     (if status = 400 then ''bad-request'' else if status = 401 then ''unauthorized''
      else if status = 403 then ''forbidden'' else if status = 404 then ''not-found''
      else if status = 409 then ''conflict'' else if status = 412 then ''precondition-failed''
      else if status = 428 then ''precondition-required'' else if status = 429 then ''rate-limit''
      else if 500 \<le> status then ''internal-server-error'' else ''error'')"

definition excStatus :: "thrown \<Rightarrow> nat" where
  "excStatus e = (case e of HttpException n _ \<Rightarrow> n | OtherError _ \<Rightarrow> 500)"

definition defaultTitle :: "nat \<Rightarrow> string" where
  "defaultTitle status = (if status = 428 then ''Precondition Required'' else if status = 429 then ''Too Many Requests''
     else if status = 500 then ''Internal Server Error'' else statusName status)"

definition HttpExceptionFilter_catch :: "thrown \<Rightarrow> string \<Rightarrow> string option \<Rightarrow> problem" where
  "HttpExceptionFilter_catch e originalUrl rid =
     (let status = excStatus e;
          title = (case e of HttpException _ (RObject (Some t) _) \<Rightarrow> t | _ \<Rightarrow> defaultTitle status);
          detail = (case e of
              HttpException _ (RText t) \<Rightarrow> t
            | HttpException _ (RObject _ (MList _)) \<Rightarrow> ''Validation failed''
            | HttpException _ (RObject _ (MText t)) \<Rightarrow> t
            | _ \<Rightarrow> ''Internal server error'');
          errors = (case e of HttpException _ (RObject _ (MList es)) \<Rightarrow> Some es | _ \<Rightarrow> None)
      in \<lparr>pr_type = getProblemType status, pr_title = title, pr_status = status, pr_detail = detail,
          pr_instance = originalUrl, pr_requestId = (if rid = Some [] then None else rid), pr_errors = errors\<rparr>)"

text \<open>The errors of the model as the exceptions NestJS builds from them.\<close>

fun thrownBy :: "err \<Rightarrow> thrown" where
  "thrownBy (BadRequest m) = HttpException 400 (RObject (Some ''Bad Request'') (MText m))"
| "thrownBy (Unauthorized m) = HttpException 401 (RObject (Some ''Unauthorized'') (MText m))"
| "thrownBy (Forbidden m) = HttpException 403 (RObject (Some ''Forbidden'') (MText m))"
| "thrownBy (NotFound m) = HttpException 404 (RObject (Some ''Not Found'') (MText m))"
| "thrownBy (Conflict m) = HttpException 409 (RObject (Some ''Conflict'') (MText m))"
| "thrownBy (PreconditionFailed m) = HttpException 412 (RObject (Some ''Precondition Failed'') (MText m))"
| "thrownBy (PreconditionRequired m) = HttpException 428 (RText m)"
| "thrownBy (TooManyRequests m) = HttpException 429 (RText m)"
| "thrownBy (PlainError m) = OtherError m"
| "thrownBy (VersionError m) = OtherError m"
| "thrownBy (DuplicateKey m) = OtherError m"
| "thrownBy (Infra m) = OtherError m"

section \<open>The round trip of a version\<close>

lemma isDigit_not_space: "isDigit c \<Longrightarrow> \<not> isSpace c"
  by (auto simp: isDigit_def isSpace_def Let_def)

lemma quote_plain [simp]: "\<not> isSpace quote" "\<not> isDigit quote" "quote \<noteq> CHR '',''" "quote \<noteq> CHR ''W''" "quote \<noteq> CHR ''*''"
  by (simp_all add: quote_def isSpace_def isDigit_def)

lemma trim_inner:
  assumes "s \<noteq> []" and "\<not> isSpace (hd s)" and "\<not> isSpace (last s)"
  shows "trim s = s"
proof -
  have "dropWhile isSpace s = s"
    using assms(1,2) by (cases s) auto
  moreover have "dropWhile isSpace (rev s) = rev s"
    using assms(1,3) by (cases s rule: rev_cases) auto
  ultimately show ?thesis by (simp add: trim_def)
qed

lemma dropWhile_spaces: "list_all isSpace a \<Longrightarrow> dropWhile isSpace (a @ t) = dropWhile isSpace t"
  by (induction a) auto

lemma trim_pad:
  assumes "list_all isSpace a" and "list_all isSpace b"
  shows "trim (a @ s @ b) = trim s"
proof -
  have b: "list_all isSpace (rev b)" "dropWhile isSpace b = []"
    using assms(2) by (simp_all add: list_all_iff)
  show ?thesis
  proof (cases "list_all isSpace s")
    case True
    then have "dropWhile isSpace s = []" by (simp add: list_all_iff)
    with True b(2) show ?thesis
      unfolding trim_def dropWhile_spaces [OF assms(1)] dropWhile_spaces [OF True] by (simp only: rev.simps dropWhile.simps)
  next
    case False
    then have "dropWhile isSpace (s @ b) = dropWhile isSpace s @ b"
      by (auto simp: list_all_iff)
    with b(1) show ?thesis
      unfolding trim_def dropWhile_spaces [OF assms(1)] by (simp add: dropWhile_spaces)
  qed
qed

lemma showNat_noquote: "c \<in> set (showNat n) \<Longrightarrow> isDigit c"
  using showNat_digits [of n] by (auto simp: list_all_iff)

lemma stripQuotes_quoted: "stripQuotes (quote # s @ [quote]) = s"
  by (simp add: stripQuotes_def Let_def)

lemma tagText_etag:
  assumes "0 \<le> v"
  shows "tagText (etag v) = showNat (nat v)" and "tagText (''W/'' @ etag v) = showNat (nat v)"
proof -
  have e: "etag v = quote # showNat (nat v) @ [quote]"
    using assms by (simp add: etag_def showInt_def)
  have "trim (etag v) = etag v" "trim (''W/'' @ etag v) = ''W/'' @ etag v"
    unfolding e by (rule trim_inner; simp add: isSpace_def quote_def)+
  moreover have "stripWeak (etag v) = etag v" "stripWeak (''W/'' @ etag v) = etag v"
    unfolding e by (simp_all add: stripWeak_def)
  ultimately show "tagText (etag v) = showNat (nat v)" "tagText (''W/'' @ etag v) = showNat (nat v)"
    unfolding tagText_def by (simp_all add: e stripQuotes_quoted)
qed

lemma takeWhile_digits: "list_all isDigit s \<Longrightarrow> takeWhile isDigit s = s \<and> dropWhile isDigit s = []"
  by (auto simp: list_all_iff)

lemma jsNumber_digits:
  assumes "list_all isDigit s" and "s \<noteq> []"
  shows "jsNumber s = Some (int (readNat s), 0)"
proof -
  obtain c cs where s: "s = c # cs" using assms(2) by (cases s) auto
  have sp: "\<not> isSpace (hd s)" "\<not> isSpace (last s)"
    using assms isDigit_not_space by (auto simp: list_all_iff)
  have t: "trim s = s" by (rule trim_inner [OF assms(2) sp])
  have p: "map lowerChar (take 2 s) \<noteq> ''0x''" "map lowerChar (take 2 s) \<noteq> ''0o''" "map lowerChar (take 2 s) \<noteq> ''0b''"
    using assms(1) by (cases cs; auto simp: s isDigit_def lowerChar_def Let_def)+
  have sg: "readSign s = (1, s)"
    using assms(1) by (auto simp: s readSign_def isDigit_def)
  show ?thesis
    using assms(2) takeWhile_digits [OF assms(1)]
    by (simp only: jsNumber_def Let_def t p if_False readDecimal_def sg prod.case spanDigits_def conjunct1 conjunct2)
      (simp add: readExponent_def)
qed

lemma jsNumber_version: "Option.bind (jsNumber (showNat n)) asInteger = Some (int n)"
  using jsNumber_digits [OF showNat_digits showNat_nonempty] by (simp add: asInteger_def)

lemma tagText_pad: "list_all isSpace a \<Longrightarrow> list_all isSpace b \<Longrightarrow> tagText (a @ s @ b) = tagText s"
  by (simp add: tagText_def trim_pad)

lemma parseIfMatch_tag:
  assumes "tagText s = showNat n" and "s \<noteq> []"
  shows "parseIfMatch (Some s) = Inr (int n)"
  using assms jsNumber_version [of n] by (cases s) (simp_all add: parseIfMatch_def)

subsection \<open>Lists of tags\<close>

lemma dropWhile_keeps: "c \<in> set s \<Longrightarrow> \<not> P c \<Longrightarrow> c \<in> set (dropWhile P s)"
  by (induction s) auto

lemma trim_keeps: "c \<in> set s \<Longrightarrow> \<not> isSpace c \<Longrightarrow> c \<in> set (trim s)"
  by (simp add: trim_def dropWhile_keeps)

lemma splitOn_plain: "c \<notin> set a \<Longrightarrow> splitOn c a = [a]"
  by (induction a) auto

lemma splitOn_append: "c \<notin> set a \<Longrightarrow> splitOn c (a @ c # r) = a # splitOn c r"
  by (induction a) auto

lemma splitComma_join:
  "\<lbrakk>CHR '','' \<notin> set t; \<forall>u\<in>set ts. CHR '','' \<notin> set u\<rbrakk> \<Longrightarrow>
     splitOn CHR '','' (joinWith '', '' (t # ts)) = t # map (\<lambda>u. CHR '' '' # u) ts"
proof (induction ts arbitrary: t)
  case Nil
  then show ?case by (simp add: splitOn_plain)
next
  case (Cons u us)
  have "splitOn CHR '','' (joinWith '', '' (u # us)) = u # map (\<lambda>u. CHR '' '' # u) us"
    using Cons.prems by (intro Cons.IH) auto
  with Cons.prems(1) show ?case
    by (simp add: splitOn_append)
qed

lemma etag_no_comma: "0 \<le> v \<Longrightarrow> CHR '','' \<notin> set (etag v)"
  using showNat_noquote [of "CHR '',''" "nat v"] by (auto simp: etag_def showInt_def quote_def isDigit_def)

lemma parseIfNoneMatch_list:
  assumes "vs \<noteq> []" and "\<forall>v\<in>set vs. 0 \<le> v"
  shows "parseIfNoneMatch (Some (joinWith '', '' (map etag vs))) = vs"
proof -
  obtain w ws where vs: "vs = w # ws" using assms(1) by (cases vs) auto
  obtain r where r: "joinWith '', '' (map etag vs) = quote # r"
    by (cases ws) (simp_all add: vs etag_def)
  have "quote \<in> set (trim (joinWith '', '' (map etag vs)))"
    by (rule trim_keeps) (simp_all add: r)
  then have star: "trim (joinWith '', '' (map etag vs)) \<noteq> ''*''"
    by (auto simp: quote_def)
  have pad: "tagText (CHR '' '' # s) = tagText s" for s
    using tagText_pad [of "'' ''" "[]" s] by (simp add: isSpace_def)
  have tags: "map tagText (splitOn CHR '','' (joinWith '', '' (map etag vs))) = map (\<lambda>v. showNat (nat v)) vs"
    using assms(2) by (simp add: vs splitComma_join etag_no_comma pad tagText_etag(1))
  have digits: "filter (\<lambda>s. s \<noteq> [] \<and> list_all isDigit s) (map (\<lambda>v. showNat (nat v)) us) = map (\<lambda>v. showNat (nat v)) us" for us
    by (induction us) (simp_all add: showNat_digits)
  have "map (\<lambda>v. int (nat v)) vs = vs"
    using assms(2) by (intro map_idI) auto
  moreover have "parseIfNoneMatch (Some (joinWith '', '' (map etag vs))) =
      map (\<lambda>s. int (readNat s)) (filter (\<lambda>s. s \<noteq> [] \<and> list_all isDigit s) (map (\<lambda>v. showNat (nat v)) vs))"
    unfolding tags [symmetric] using star by (simp only: parseIfNoneMatch_def r option.case list.case if_False)
  ultimately show ?thesis
    by (simp add: digits comp_def)
qed

text \<open>
  C31: what the server hands out it reads back. The entity tag of a version (below 2 ^ 53, where a
  number of the language is exact) names that version in \<open>If-Match\<close>, also in its weak form and
  with white space around it, and a list of tags in \<open>If-None-Match\<close> names just the versions of the
  list; the conditional read answers 304 exactly when the version of the task is among them.
\<close>

theorem etag_roundtrip:
  assumes "0 \<le> v" and "v < 2 ^ 53" and "\<forall>u\<in>set vs. 0 \<le> u \<and> u < 2 ^ 53" and "vs \<noteq> []"
    and "list_all isSpace a" and "list_all isSpace b"
  shows "parseIfMatch (Some (a @ etag v @ b)) = Inr v \<and>
     parseIfMatch (Some (a @ (''W/'' @ etag v) @ b)) = Inr v \<and>
     parseIfNoneMatch (Some (joinWith '', '' (map etag vs))) = vs \<and>
     notModified (Some (joinWith '', '' (map etag vs))) v = (v \<in> set vs)"
proof (intro conjI)
  have v: "int (nat v) = v" using assms(1) by simp
  show "parseIfMatch (Some (a @ etag v @ b)) = Inr v"
    using parseIfMatch_tag [of "a @ etag v @ b" "nat v"] tagText_etag(1) [OF assms(1)] v
    by (simp only: tagText_pad [OF assms(5,6)]) (simp add: etag_def)
  show "parseIfMatch (Some (a @ (''W/'' @ etag v) @ b)) = Inr v"
    using parseIfMatch_tag [of "a @ (''W/'' @ etag v) @ b" "nat v"] tagText_etag(2) [OF assms(1)] v
    by (simp only: tagText_pad [OF assms(5,6)]) simp
  show vs: "parseIfNoneMatch (Some (joinWith '', '' (map etag vs))) = vs"
    using assms(3,4) by (intro parseIfNoneMatch_list) auto
  have "- 1 \<notin> set vs" using assms(3) by auto
  then show "notModified (Some (joinWith '', '' (map etag vs))) v = (v \<in> set vs)"
    by (simp add: notModified_def vs)
qed

lemma etag_roundtrip_witness:
  "parseIfMatch (Some ('' '' @ (''W/'' @ etag 7) @ '' '')) = Inr 7 \<and>
   parseIfNoneMatch (Some (joinWith '', '' (map etag [3, 7]))) = [3, 7] \<and> notModified (Some (joinWith '', '' (map etag [3, 7]))) 7"
  using etag_roundtrip [of 7 "[3, 7]" "'' ''" "'' ''"] by (simp add: isSpace_def)

section \<open>What the parsers accept beyond it\<close>

text \<open>Two quotes, or nothing but white space, are version 0; so a client can update a task it never read.\<close>

lemma empty_tag_is_version_zero: "parseIfMatch (Some [quote, quote]) = Inr 0" "parseIfMatch (Some '' '') = Inr 0"
  by (simp_all add: parseIfMatch_def tagText_def stripWeak_def stripQuotes_def trim_def jsNumber_def asInteger_def
      isSpace_def quote_def)

text \<open>An error that is not an HTTP exception never shows its message.\<close>

lemma internal_errors_hidden:
  "excStatus (thrownBy e) = 500 \<Longrightarrow>
     pr_detail (HttpExceptionFilter_catch (thrownBy e) url rid) = ''Internal server error''"
  by (cases e) (simp_all add: excStatus_def HttpExceptionFilter_catch_def Let_def)

end
