(* ===== verification/Idempotency.thy ===== *)
theory Idempotency
  imports Http External
begin

text \<open>
  Idempotent requests (\<open>src/common/idempotency\<close>): the Redis record of a key, and the interceptor
  that reserves the key, runs the handler once and replays its answer. The interceptor is the
  composition of three parts, so that the requests of several clients can interleave between them:
  the reservation, the decision on what it found, and the settlement after the handler.
\<close>

section \<open>IdempotencyService\<close>

definition IDEMPOTENCY_TTL :: time where
  "IDEMPOTENCY_TTL = 300000"

definition buildKey :: "string \<Rightarrow> string \<Rightarrow> string" where
  "buildKey scope idempotencyKey = ''idempotency:'' @ scope @ '':'' @ idempotencyKey"

text \<open>The record as the text Redis keeps; an optional part that is \<open>undefined\<close> is left out.\<close>

definition statusText :: "idemStatus \<Rightarrow> string" where
  "statusText st = (case st of IdemProcessing \<Rightarrow> ''PROCESSING'' | IdemCompleted \<Rightarrow> ''COMPLETED'')"

definition recordJson :: "idemRecord \<Rightarrow> json" where
  "recordJson r = JObj [(''status'', JStr (statusText (id_status r))), (''fingerprint'', JStr (id_fingerprint r)),
     (''statusCode'', case id_statusCode r of None \<Rightarrow> JUndef | Some n \<Rightarrow> JNum (int n)), (''responseBody'', id_responseBody r)]"

definition propOf :: "string \<Rightarrow> json \<Rightarrow> json" where
  "propOf k v = (case v of JObj ps \<Rightarrow> (case map_of ps k of None \<Rightarrow> JUndef | Some x \<Rightarrow> x) | _ \<Rightarrow> JUndef)"

text \<open>
  \<open>JSON.parse(value) as IdempotencyRecord\<close>. Only the service writes these keys; a text that is not
  one of its records is an error here.
\<close>

definition readRecord :: "string \<Rightarrow> idemRecord option" where
  "readRecord s = (case JSON_parse s of None \<Rightarrow> None | Some v \<Rightarrow>
     (case (propOf ''status'' v, propOf ''fingerprint'' v) of
       (JStr st, JStr fp) \<Rightarrow>
         (if st = ''PROCESSING'' \<or> st = ''COMPLETED'' then
            Some \<lparr>id_status = (if st = ''PROCESSING'' then IdemProcessing else IdemCompleted), id_fingerprint = fp,
                  id_statusCode = (case propOf ''statusCode'' v of JNum n \<Rightarrow> Some (nat n) | _ \<Rightarrow> None),
                  id_responseBody = propOf ''responseBody'' v\<rparr>
          else None)
     | _ \<Rightarrow> None))"

definition liveText :: "world \<Rightarrow> string \<Rightarrow> string option" where
  "liveText s k = (case idempotency s k of None \<Rightarrow> None | Some (v, till) \<Rightarrow> if now s < till then Some v else None)"

definition redisSet :: "string \<Rightarrow> string \<Rightarrow> world \<Rightarrow> world" where
  "redisSet k v s = s\<lparr>idempotency := (idempotency s)(k := Some (v, now s + IDEMPOTENCY_TTL))\<rparr>"

definition IdempotencyService_get :: "string \<Rightarrow> string \<Rightarrow> idemRecord option wprog" where
  "IdempotencyService_get scope idempotencyKey =
     bnd (io (gets (\<lambda>s. liveText s (buildKey scope idempotencyKey)))) (\<lambda>value. case value of
       None \<Rightarrow> ret None
     | Some v \<Rightarrow> if v = [] then ret None else
         bnd (orThrow (readRecord v) (PlainError ''SyntaxError'')) (\<lambda>r. ret (Some r)))"

definition processingRecord :: "string \<Rightarrow> idemRecord" where
  "processingRecord fingerprint = \<lparr>id_status = IdemProcessing, id_fingerprint = fingerprint, id_statusCode = None,
     id_responseBody = JUndef\<rparr>"

text \<open>\<open>SET key value EX ttl NX\<close> answers OK only when there was no live key.\<close>

definition reserveNx :: "string \<Rightarrow> string \<Rightarrow> string \<Rightarrow> bool wprog" where
  "reserveNx scope idempotencyKey fingerprint =
     (let key = buildKey scope idempotencyKey in
      io (\<lambda>s. if liveText s key = None
         then (Inr True, redisSet key (JSON_stringify 0 (recordJson (processingRecord fingerprint))) s)
         else (Inr False, s)))"

definition IdempotencyService_reserve :: "string \<Rightarrow> string \<Rightarrow> string \<Rightarrow> (bool \<times> idemRecord option) wprog" where
  "IdempotencyService_reserve scope idempotencyKey fingerprint =
     bnd (reserveNx scope idempotencyKey fingerprint) (\<lambda>result.
     if result then ret (True, None)
     else bnd (IdempotencyService_get scope idempotencyKey) (\<lambda>existing. ret (False, existing)))"

definition IdempotencyService_complete :: "string \<Rightarrow> string \<Rightarrow> idemRecord \<Rightarrow> unit wprog" where
  "IdempotencyService_complete scope idempotencyKey record =
     io (modify (redisSet (buildKey scope idempotencyKey)
       (JSON_stringify 0 (recordJson (record\<lparr>id_status := IdemCompleted\<rparr>)))))"

definition IdempotencyService_delete :: "string \<Rightarrow> string \<Rightarrow> unit wprog" where
  "IdempotencyService_delete scope idempotencyKey =
     io (modify (\<lambda>s. s\<lparr>idempotency := (idempotency s)(buildKey scope idempotencyKey := None)\<rparr>))"

section \<open>IdempotencyInterceptor\<close>

text \<open>What the interceptor reads of a request; \<open>ir_status\<close> is the status of the route.\<close>

record idemRequest =
  ir_key :: "string option"
  ir_userId :: "string option"
  ir_method :: string
  ir_baseUrl :: string
  ir_url :: string
  ir_originalUrl :: string
  ir_body :: json
  ir_status :: nat

definition requestUser :: "idemRequest \<Rightarrow> string" where
  "requestUser rq = (case ir_userId rq of None \<Rightarrow> ''anonymous'' | Some u \<Rightarrow> u)"

definition buildScope :: "idemRequest \<Rightarrow> string" where
  "buildScope rq = requestUser rq @ '':'' @ ir_method rq @ '':'' @ (if ir_baseUrl rq \<noteq> [] then ir_baseUrl rq else ir_url rq)"

definition buildFingerprint :: "ext \<Rightarrow> idemRequest \<Rightarrow> string" where
  "buildFingerprint X rq = sha256 X (JSON_stringify 0 (JObj [(''userId'', JStr (requestUser rq)), (''method'', JStr (ir_method rq)),
     (''path'', JStr (hd (splitOn CHR ''?'' (ir_originalUrl rq)))),
     (''body'', if ir_body rq = JUndef \<or> ir_body rq = JNull then JObj [] else ir_body rq)]))"

definition checkKey :: "string option \<Rightarrow> err + string" where
  "checkKey k = (case k of
     None \<Rightarrow> Inl (Conflict ''The Idempotency-Key header is required.'')
   | Some s \<Rightarrow> if trim s = [] then Inl (Conflict ''Idempotency-Key must not be empty.'')
              else if length s > 255 then Inl (Conflict ''Idempotency-Key must not exceed 255 characters.'')
              else Inr s)"

text \<open>What follows from a reservation: run the handler, replay an answer, or refuse.\<close>

datatype decision = RunHandler | Replay "nat option" json | Refuse err

definition decide :: "string \<Rightarrow> bool \<times> idemRecord option \<Rightarrow> decision" where
  "decide fingerprint res = (case res of
     (False, Some r) \<Rightarrow>
       if id_fingerprint r \<noteq> fingerprint then
         Refuse (Conflict ''The Idempotency-Key has already been used with a different request.'')
       else (case id_status r of
         IdemProcessing \<Rightarrow> Refuse (Conflict ''A request with this Idempotency-Key is already being processed.'')
       | IdemCompleted \<Rightarrow> Replay (id_statusCode r) (id_responseBody r))
   | _ \<Rightarrow> RunHandler)"

text \<open>
  The handler gives the status of the response and the body. Its answer is stored; when it, or the
  storing, fails, the key is freed and the error passed on.
\<close>

definition complete :: "string \<Rightarrow> string \<Rightarrow> string \<Rightarrow> nat \<times> json \<Rightarrow> (nat \<times> json) wprog" where
  "complete scope key fingerprint result =
     andThen (IdempotencyService_complete scope key \<lparr>id_status = IdemCompleted, id_fingerprint = fingerprint,
       id_statusCode = Some (fst result), id_responseBody = snd result\<rparr>) (ret result)"

definition release :: "string \<Rightarrow> string \<Rightarrow> err \<Rightarrow> (nat \<times> json) wprog" where
  "release scope key e = andThen (IdempotencyService_delete scope key) (throw e)"

definition runHandler :: "string \<Rightarrow> string \<Rightarrow> string \<Rightarrow> (nat \<times> json) wprog \<Rightarrow> (nat \<times> json) wprog" where
  "runHandler scope key fingerprint handler =
     tryCatch (bnd handler (complete scope key fingerprint)) (release scope key)"

definition IdempotencyInterceptor_intercept ::
  "ext \<Rightarrow> idemRequest \<Rightarrow> (nat \<times> json) wprog \<Rightarrow> (nat \<times> json) wprog" where
  "IdempotencyInterceptor_intercept X rq handler = (case checkKey (ir_key rq) of
     Inl e \<Rightarrow> throw e
   | Inr key \<Rightarrow>
       (let scope = buildScope rq; fingerprint = buildFingerprint X rq in
        bnd (IdempotencyService_reserve scope key fingerprint) (\<lambda>res. case decide fingerprint res of
          Refuse e \<Rightarrow> throw e
        | Replay code body \<Rightarrow> ret (case code of None \<Rightarrow> ir_status rq | Some n \<Rightarrow> n, body)
        | RunHandler \<Rightarrow> runHandler scope key fingerprint handler)))"

section \<open>What is stored is read back\<close>

definition recordBack :: "idemRecord \<Rightarrow> idemRecord" where
  "recordBack r = r\<lparr>id_responseBody := (if id_responseBody r = JUndef then JUndef else cleanJson (id_responseBody r))\<rparr>"

lemma readRecord_back:
  assumes "namesDiffer (id_responseBody r)"
  shows "readRecord (JSON_stringify 0 (recordJson r)) = Some (recordBack r)"
proof -
  have "namesDiffer (recordJson r)"
    using assms by (simp add: recordJson_def split: option.splits)
  then show ?thesis
    unfolding readRecord_def
    by (simp add: parse_stringify) (cases r; simp add: recordJson_def propOf_def recordBack_def statusText_def
      split: idemStatus.splits option.splits)
qed

lemma stringify_nonempty [simp]: "JSON_stringify g v \<noteq> []"
  by (cases v) (auto simp: JSON_stringify_def quoteJson_def block_def showInt_def)

definition backBody :: "json \<Rightarrow> json" where
  "backBody v = (if v = JUndef then JUndef else cleanJson v)"

definition completedRecord :: "string \<Rightarrow> nat \<Rightarrow> json \<Rightarrow> idemRecord" where
  "completedRecord fingerprint status body = \<lparr>id_status = IdemCompleted, id_fingerprint = fingerprint,
     id_statusCode = Some status, id_responseBody = body\<rparr>"

definition recordText :: "idemRecord \<Rightarrow> string" where
  "recordText r = JSON_stringify 0 (recordJson r)"

lemma recordText_nonempty [simp]: "recordText r \<noteq> []"
  by (simp add: recordText_def)

lemma readRecord_processing [simp]: "readRecord (recordText (processingRecord fp)) = Some (processingRecord fp)"
  unfolding recordText_def by (subst readRecord_back) (simp_all add: processingRecord_def recordBack_def)

lemma readRecord_completed:
  "namesDiffer body \<Longrightarrow> readRecord (recordText (completedRecord fp st body)) = Some (completedRecord fp st (backBody body))"
  unfolding recordText_def by (subst readRecord_back) (simp_all add: completedRecord_def recordBack_def backBody_def)

section \<open>Single calls\<close>

lemma liveText_at: "idempotency s k = Some (v, till) \<Longrightarrow> now s < till \<Longrightarrow> liveText s k = Some v"
  by (simp add: liveText_def)

lemma liveText_faults [simp]: "liveText (s\<lparr>faults := fs\<rparr>) k = liveText s k"
  by (cases "idempotency s k") (auto simp: liveText_def)

lemma liveText_cong: "idempotency w k = idempotency s k \<Longrightarrow> now w = now s \<Longrightarrow> liveText w k = liveText s k"
  by (cases "idempotency s k") (auto simp: liveText_def)

lemma liveText_expired: "liveText s k = None \<Longrightarrow> idempotency w k = idempotency s k \<Longrightarrow> now s \<le> now w \<Longrightarrow> liveText w k = None"
  by (cases "idempotency s k") (auto simp: liveText_def split: if_splits)

lemma reserveNx_ok:
  assumes "reserveNx scope key fp s = (Inr b, t)"
  shows "b = (liveText s (buildKey scope key) = None) \<and> now t = now s \<and>
    idempotency t = (if b then (idempotency s)(buildKey scope key := Some (recordText (processingRecord fp), now s + IDEMPOTENCY_TTL))
      else idempotency s)"
  using assms by (auto simp: reserveNx_def Let_def io_ok redisSet_def recordText_def split: if_splits)

lemma reserveNx_err: "reserveNx scope key fp s = (Inl e, t) \<Longrightarrow> now t = now s \<and> idempotency t = idempotency s"
  by (auto simp: reserveNx_def Let_def io_err split: if_splits)

lemma get_keeps: "IdempotencyService_get scope key s = (r, t) \<Longrightarrow> now t = now s \<and> idempotency t = idempotency s"
  by (auto simp: IdempotencyService_get_def bnd_run io_run orThrow_def split: list.splits option.splits if_splits)

lemma get_ok:
  assumes "IdempotencyService_get scope key s = (Inr r, t)" and "liveText s (buildKey scope key) = Some v" and "v \<noteq> []"
    and "readRecord v = Some record"
  shows "r = Some record"
  using assms by (auto simp: IdempotencyService_get_def ok_iff)

lemma complete_ok:
  assumes "complete scope key fp (st, body) s = (Inr r, t)"
  shows "r = (st, body) \<and> now t = now s \<and>
    idempotency t = (idempotency s)(buildKey scope key := Some (recordText (completedRecord fp st body), now s + IDEMPOTENCY_TTL))"
  using assms
  by (auto simp: complete_def IdempotencyService_complete_def ok_iff redisSet_def recordText_def completedRecord_def)

section \<open>Runs without failures\<close>

lemma redisSet_sel [simp]: "faults (redisSet k v s) = faults s" "now (redisSet k v s) = now s" "db (redisSet k v s) = db s"
  by (simp_all add: redisSet_def)

lemma liveText_set [simp]: "liveText (redisSet k v s) k = Some v"
  by (simp add: liveText_def redisSet_def IDEMPOTENCY_TTL_def)

lemma liveText_deleted [simp]: "liveText (s\<lparr>idempotency := (idempotency s)(k := None)\<rparr>) k = None"
  by (simp add: liveText_def)

lemma reserveNx_run:
  "faults s = [] \<Longrightarrow> reserveNx scope key fp s =
     (if liveText s (buildKey scope key) = None
      then (Inr True, redisSet (buildKey scope key) (recordText (processingRecord fp)) s) else (Inr False, s))"
  by (simp add: reserveNx_def Let_def recordText_def)

lemma get_run:
  "faults s = [] \<Longrightarrow> liveText s (buildKey scope key) = Some (recordText r) \<Longrightarrow> readRecord (recordText r) = Some r' \<Longrightarrow>
     IdempotencyService_get scope key s = (Inr (Some r'), s)"
  by (simp add: IdempotencyService_get_def bnd_run)

lemma get_run_none:
  "faults s = [] \<Longrightarrow> liveText s (buildKey scope key) = None \<Longrightarrow> IdempotencyService_get scope key s = (Inr None, s)"
  by (simp add: IdempotencyService_get_def bnd_run)

lemma complete_run:
  "faults s = [] \<Longrightarrow> complete scope key fp (st, body) s =
     (Inr (st, body), redisSet (buildKey scope key) (recordText (completedRecord fp st body)) s)"
  by (simp add: complete_def IdempotencyService_complete_def andThen_run recordText_def completedRecord_def)

lemma release_run:
  "faults s = [] \<Longrightarrow> release scope key e s = (Inl e, s\<lparr>idempotency := (idempotency s)(buildKey scope key := None)\<rparr>)"
  by (simp add: release_def IdempotencyService_delete_def andThen_run)

end
