(* ===== verification/IdempotencySpec.thy ===== *)
theory IdempotencySpec
  imports Idempotency
begin

text \<open>
  What the interceptor promises: requests with one key that interleave in any order run the handler
  once and all get its answer, as long as no handler fails; and what a failing handler lets happen.
\<close>

section \<open>Interleaved requests\<close>

text \<open>
  The requests are numbered; all use one scope and one key, each its own fingerprint. A request
  waits, looks up the record after a refused reservation, runs its handler, and ends. Between two
  calls of a request anything else may happen that leaves the Redis records of the service alone:
  handlers change the database, calls fail, time passes.
\<close>

datatype phase = Waiting | Looking | Running | Answered nat json | Replayed "nat option" json | Failed err

record idemSys =
  sysWorld :: world
  phaseOf :: "nat \<Rightarrow> phase"

datatype idemLabel = LReserve | LLookup | LAnswer | LRelease | LOther

fun afterDecision :: "decision \<Rightarrow> phase" where
  "afterDecision RunHandler = Running"
| "afterDecision (Replay code body) = Replayed code body"
| "afterDecision (Refuse e) = Failed e"

inductive idemStep :: "string \<Rightarrow> string \<Rightarrow> (nat \<Rightarrow> string) \<Rightarrow> idemSys \<Rightarrow> idemLabel \<Rightarrow> idemSys \<Rightarrow> bool"
  for scope :: string and key :: string and fp :: "nat \<Rightarrow> string" where
  reserve: "phaseOf \<sigma> i = Waiting \<Longrightarrow> reserveNx scope key (fp i) (sysWorld \<sigma>) = (Inr b, w) \<Longrightarrow>
    idemStep scope key fp \<sigma> LReserve
      \<lparr>sysWorld = w, phaseOf = (phaseOf \<sigma>)(i := if b then afterDecision (decide (fp i) (True, None)) else Looking)\<rparr>"
| reserveError: "phaseOf \<sigma> i = Waiting \<Longrightarrow> reserveNx scope key (fp i) (sysWorld \<sigma>) = (Inl e, w) \<Longrightarrow>
    idemStep scope key fp \<sigma> LReserve \<lparr>sysWorld = w, phaseOf = (phaseOf \<sigma>)(i := Failed e)\<rparr>"
| lookup: "phaseOf \<sigma> i = Looking \<Longrightarrow> IdempotencyService_get scope key (sysWorld \<sigma>) = (Inr r, w) \<Longrightarrow>
    idemStep scope key fp \<sigma> LLookup \<lparr>sysWorld = w, phaseOf = (phaseOf \<sigma>)(i := afterDecision (decide (fp i) (False, r)))\<rparr>"
| lookupError: "phaseOf \<sigma> i = Looking \<Longrightarrow> IdempotencyService_get scope key (sysWorld \<sigma>) = (Inl e, w) \<Longrightarrow>
    idemStep scope key fp \<sigma> LLookup \<lparr>sysWorld = w, phaseOf = (phaseOf \<sigma>)(i := Failed e)\<rparr>"
| answer: "phaseOf \<sigma> i = Running \<Longrightarrow> namesDiffer body \<Longrightarrow> complete scope key (fp i) (st, body) (sysWorld \<sigma>) = (Inr r, w) \<Longrightarrow>
    idemStep scope key fp \<sigma> LAnswer \<lparr>sysWorld = w, phaseOf = (phaseOf \<sigma>)(i := Answered st body)\<rparr>"
| uncompleted: "phaseOf \<sigma> i = Running \<Longrightarrow> complete scope key (fp i) (st, body) (sysWorld \<sigma>) = (Inl e, w) \<Longrightarrow>
    release scope key e w = (Inl e', w') \<Longrightarrow>
    idemStep scope key fp \<sigma> LRelease \<lparr>sysWorld = w', phaseOf = (phaseOf \<sigma>)(i := Failed e')\<rparr>"
| handlerError: "phaseOf \<sigma> i = Running \<Longrightarrow> release scope key e (sysWorld \<sigma>) = (Inl e', w) \<Longrightarrow>
    idemStep scope key fp \<sigma> LRelease \<lparr>sysWorld = w, phaseOf = (phaseOf \<sigma>)(i := Failed e')\<rparr>"
| other: "idempotency w = idempotency (sysWorld \<sigma>) \<Longrightarrow> now (sysWorld \<sigma>) \<le> now w \<Longrightarrow>
    idemStep scope key fp \<sigma> LOther \<lparr>sysWorld = w, phaseOf = phaseOf \<sigma>\<rparr>"

inductive idemRun :: "string \<Rightarrow> string \<Rightarrow> (nat \<Rightarrow> string) \<Rightarrow> idemSys \<Rightarrow> idemLabel list \<Rightarrow> idemSys \<Rightarrow> bool"
  for scope :: string and key :: string and fp :: "nat \<Rightarrow> string" where
  start: "idemRun scope key fp \<sigma> [] \<sigma>"
| step: "idemRun scope key fp \<sigma> ls \<tau> \<Longrightarrow> idemStep scope key fp \<tau> l \<upsilon> \<Longrightarrow> idemRun scope key fp \<sigma> (ls @ [l]) \<upsilon>"

inductive_simps idemStep_other: "idemStep scope key fp \<sigma> LOther \<tau>"

section \<open>One run\<close>

text \<open>The key is free, or one request runs its handler, or one has answered and the record holds its answer.\<close>

definition bystander :: "phase \<Rightarrow> bool" where
  "bystander p \<longleftrightarrow> p = Waiting \<or> p = Looking \<or> (\<exists>e. p = Failed e)"

definition stored :: "string \<Rightarrow> string \<Rightarrow> idemSys \<Rightarrow> time \<Rightarrow> idemRecord \<Rightarrow> bool" where
  "stored scope key \<sigma> t0 r \<longleftrightarrow> (\<exists>till. idempotency (sysWorld \<sigma>) (buildKey scope key) = Some (recordText r, till) \<and> t0 + IDEMPOTENCY_TTL \<le> till)"

definition freeKey :: "string \<Rightarrow> string \<Rightarrow> idemSys \<Rightarrow> bool" where
  "freeKey scope key \<sigma> \<longleftrightarrow> liveText (sysWorld \<sigma>) (buildKey scope key) = None \<and>
     (\<forall>j. phaseOf \<sigma> j = Waiting \<or> (\<exists>e. phaseOf \<sigma> j = Failed e))"

definition oneRuns :: "string \<Rightarrow> string \<Rightarrow> (nat \<Rightarrow> string) \<Rightarrow> time \<Rightarrow> idemSys \<Rightarrow> nat \<Rightarrow> bool" where
  "oneRuns scope key fp t0 \<sigma> i \<longleftrightarrow> phaseOf \<sigma> i = Running \<and> stored scope key \<sigma> t0 (processingRecord (fp i)) \<and>
     (\<forall>j. j \<noteq> i \<longrightarrow> bystander (phaseOf \<sigma> j))"

definition oneAnswered :: "string \<Rightarrow> string \<Rightarrow> (nat \<Rightarrow> string) \<Rightarrow> time \<Rightarrow> idemSys \<Rightarrow> nat \<Rightarrow> nat \<Rightarrow> json \<Rightarrow> bool" where
  "oneAnswered scope key fp t0 \<sigma> i st body \<longleftrightarrow> phaseOf \<sigma> i = Answered st body \<and> namesDiffer body \<and>
     stored scope key \<sigma> t0 (completedRecord (fp i) st body) \<and>
     (\<forall>j. j \<noteq> i \<longrightarrow> bystander (phaseOf \<sigma> j) \<or> phaseOf \<sigma> j = Replayed (Some st) (backBody body) \<and> fp j = fp i)"

definition singleRun :: "string \<Rightarrow> string \<Rightarrow> (nat \<Rightarrow> string) \<Rightarrow> time \<Rightarrow> idemSys \<Rightarrow> bool" where
  "singleRun scope key fp t0 \<sigma> \<longleftrightarrow> freeKey scope key \<sigma> \<or> (\<exists>i. oneRuns scope key fp t0 \<sigma> i) \<or>
     (\<exists>i st body. oneAnswered scope key fp t0 \<sigma> i st body)"

lemma stored_live:
  "stored scope key \<sigma> t0 r \<Longrightarrow> now (sysWorld \<sigma>) < t0 + IDEMPOTENCY_TTL \<Longrightarrow>
     liveText (sysWorld \<sigma>) (buildKey scope key) = Some (recordText r)"
  by (auto simp: stored_def intro: liveText_at)

lemma stored_cong:
  "idempotency (sysWorld \<tau>) = idempotency (sysWorld \<sigma>) \<Longrightarrow> stored scope key \<tau> t0 r = stored scope key \<sigma> t0 r"
  by (simp add: stored_def)

text \<open>A step that changes one bystander into another and no record keeps the invariant.\<close>

lemma singleRun_bystander:
  assumes "singleRun scope key fp t0 \<sigma>" and "bystander (phaseOf \<sigma> i)"
    and "idempotency w = idempotency (sysWorld \<sigma>)" and "now w = now (sysWorld \<sigma>)"
    and "bystander p" and "p = Looking \<Longrightarrow> liveText (sysWorld \<sigma>) (buildKey scope key) \<noteq> None"
  shows "singleRun scope key fp t0 \<lparr>sysWorld = w, phaseOf = (phaseOf \<sigma>)(i := p)\<rparr>"
proof -
  let ?\<tau> = "\<lparr>sysWorld = w, phaseOf = (phaseOf \<sigma>)(i := p)\<rparr>"
  have st: "stored scope key ?\<tau> t0 r = stored scope key \<sigma> t0 r" for r
    using assms(3) by (simp add: stored_def)
  have lt: "liveText w (buildKey scope key) = liveText (sysWorld \<sigma>) (buildKey scope key)"
    using assms(3,4) by (intro liveText_cong) simp_all
  from assms(1) consider (free) "freeKey scope key \<sigma>" | (runs) k where "oneRuns scope key fp t0 \<sigma> k"
    | (answered) k st body where "oneAnswered scope key fp t0 \<sigma> k st body"
    unfolding singleRun_def by blast
  then show ?thesis
  proof cases
    case free
    then have "freeKey scope key ?\<tau>"
      using assms(5,6) by (auto simp: freeKey_def lt bystander_def)
    then show ?thesis by (simp add: singleRun_def)
  next
    case runs
    with assms(2) have "k \<noteq> i" by (auto simp: oneRuns_def bystander_def)
    with runs assms(5) have "oneRuns scope key fp t0 ?\<tau> k"
      by (simp add: oneRuns_def st)
    then show ?thesis unfolding singleRun_def by blast
  next
    case answered
    with assms(2) have "k \<noteq> i" by (auto simp: oneAnswered_def bystander_def)
    with answered assms(5) have "oneAnswered scope key fp t0 ?\<tau> k st body"
      by (simp add: oneAnswered_def st)
    then show ?thesis unfolding singleRun_def by blast
  qed
qed

lemma bystander_simps [simp]: "bystander Waiting" "bystander Looking" "bystander (Failed e)" "\<not> bystander Running"
  by (simp_all add: bystander_def)

text \<open>Inside the window a missing record means that nobody runs and nobody has answered.\<close>

lemma no_record_free:
  assumes "singleRun scope key fp t0 \<sigma>" and "now (sysWorld \<sigma>) < t0 + IDEMPOTENCY_TTL"
    and "liveText (sysWorld \<sigma>) (buildKey scope key) = None"
  shows "freeKey scope key \<sigma>"
  using assms stored_live [of scope key \<sigma> t0]
  by (auto simp: singleRun_def oneRuns_def oneAnswered_def)

lemma freeKey_phase: "freeKey scope key \<sigma> \<Longrightarrow> phaseOf \<sigma> i \<noteq> Looking \<and> phaseOf \<sigma> i \<noteq> Running"
  unfolding freeKey_def by (metis phase.distinct)

lemma singleRun_reserve:
  assumes "singleRun scope key fp t0 \<sigma>" and "phaseOf \<sigma> i = Waiting" and "reserveNx scope key (fp i) (sysWorld \<sigma>) = (Inr b, w)"
    and "t0 \<le> now (sysWorld \<sigma>)" and "now w < t0 + IDEMPOTENCY_TTL"
  shows "singleRun scope key fp t0 \<lparr>sysWorld = w, phaseOf = (phaseOf \<sigma>)(i := if b then afterDecision (decide (fp i) (True, None)) else Looking)\<rparr>"
proof (cases b)
  case False
  with reserveNx_ok [OF assms(3)] show ?thesis
    using assms(1,2) by (simp only: if_False) (rule singleRun_bystander; simp)
next
  case True
  note r = reserveNx_ok [OF assms(3)]
  with True assms(5) have free: "freeKey scope key \<sigma>"
    using no_record_free [OF assms(1)] by simp
  have "oneRuns scope key fp t0 \<lparr>sysWorld = w, phaseOf = (phaseOf \<sigma>)(i := Running)\<rparr> i"
    using free r True assms(4) by (auto simp: oneRuns_def stored_def freeKey_def bystander_def)
  then show ?thesis
    unfolding singleRun_def using True by (auto simp: decide_def)
qed

lemma singleRun_lookup:
  assumes "singleRun scope key fp t0 \<sigma>" and "phaseOf \<sigma> i = Looking" and "IdempotencyService_get scope key (sysWorld \<sigma>) = (Inr r, w)"
    and "now w < t0 + IDEMPOTENCY_TTL"
  shows "singleRun scope key fp t0 \<lparr>sysWorld = w, phaseOf = (phaseOf \<sigma>)(i := afterDecision (decide (fp i) (False, r)))\<rparr>"
proof -
  note k = get_keeps [OF assms(3)]
  then have win: "now (sysWorld \<sigma>) < t0 + IDEMPOTENCY_TTL" using assms(4) by simp
  note get = get_ok [OF assms(3)]
  have refused: "singleRun scope key fp t0 \<lparr>sysWorld = w, phaseOf = (phaseOf \<sigma>)(i := Failed e)\<rparr>" for e
    using k assms(2) by (intro singleRun_bystander [OF assms(1)]) simp_all
  have "\<not> freeKey scope key \<sigma>"
    using assms(2) by (auto dest: freeKey_phase)
  with assms(1) consider (runs) j where "oneRuns scope key fp t0 \<sigma> j"
    | (answered) j st body where "oneAnswered scope key fp t0 \<sigma> j st body"
    unfolding singleRun_def by blast
  then show ?thesis
  proof cases
    case runs
    then have "r = Some (processingRecord (fp j))"
      by (intro get [of "recordText (processingRecord (fp j))"]) (simp_all add: oneRuns_def stored_live [OF _ win])
    then show ?thesis
      using refused by (simp add: decide_def processingRecord_def)
  next
    case answered
    then have "r = Some (completedRecord (fp j) st (backBody body))"
      by (intro get [of "recordText (completedRecord (fp j) st body)"])
        (simp_all add: oneAnswered_def stored_live [OF _ win] readRecord_completed)
    moreover have "oneAnswered scope key fp t0 \<lparr>sysWorld = w, phaseOf = (phaseOf \<sigma>)(i := Replayed (Some st) (backBody body))\<rparr> j st body"
      if "fp j = fp i" using that answered assms(2) k by (auto simp: oneAnswered_def stored_def)
    then have "singleRun scope key fp t0 \<lparr>sysWorld = w, phaseOf = (phaseOf \<sigma>)(i := Replayed (Some st) (backBody body))\<rparr>"
      if "fp j = fp i" unfolding singleRun_def using that by blast
    ultimately show ?thesis
      using refused by (simp add: decide_def completedRecord_def)
  qed
qed

lemma singleRun_answer:
  assumes "singleRun scope key fp t0 \<sigma>" and "phaseOf \<sigma> i = Running" and "namesDiffer body"
    and "complete scope key (fp i) (st, body) (sysWorld \<sigma>) = (Inr r, w)" and "t0 \<le> now (sysWorld \<sigma>)"
  shows "singleRun scope key fp t0 \<lparr>sysWorld = w, phaseOf = (phaseOf \<sigma>)(i := Answered st body)\<rparr>"
proof -
  have "oneRuns scope key fp t0 \<sigma> i"
    using assms(1) unfolding singleRun_def
  proof (elim disjE exE)
    assume "freeKey scope key \<sigma>"
    with assms(2) show ?thesis by (auto dest: freeKey_phase)
  next
    fix j assume "oneRuns scope key fp t0 \<sigma> j"
    with assms(2) show ?thesis by (cases "j = i") (auto simp: oneRuns_def)
  next
    fix j st body assume "oneAnswered scope key fp t0 \<sigma> j st body"
    with assms(2) show ?thesis by (cases "j = i") (auto simp: oneAnswered_def dest: spec [of _ i])
  qed
  then have "oneAnswered scope key fp t0 \<lparr>sysWorld = w, phaseOf = (phaseOf \<sigma>)(i := Answered st body)\<rparr> i st body"
    using complete_ok [OF assms(4)] assms(3,5) by (auto simp: oneAnswered_def oneRuns_def stored_def)
  then show ?thesis
    unfolding singleRun_def by blast
qed

lemma singleRun_other:
  assumes "singleRun scope key fp t0 \<sigma>" and "idempotency w = idempotency (sysWorld \<sigma>)" and "now (sysWorld \<sigma>) \<le> now w"
  shows "singleRun scope key fp t0 \<lparr>sysWorld = w, phaseOf = phaseOf \<sigma>\<rparr>"
proof -
  have st: "stored scope key \<lparr>sysWorld = w, phaseOf = phaseOf \<sigma>\<rparr> t0 r = stored scope key \<sigma> t0 r" for r
    using assms(2) by (simp add: stored_def)
  have "liveText (sysWorld \<sigma>) (buildKey scope key) = None \<Longrightarrow> liveText w (buildKey scope key) = None"
    using assms(2,3) by (auto intro: liveText_expired)
  with assms(1) show ?thesis
    by (auto simp: singleRun_def freeKey_def oneRuns_def oneAnswered_def st)
qed

lemma singleRun_step:
  assumes "idemStep scope key fp \<sigma> l \<tau>" and "l \<noteq> LRelease" and "singleRun scope key fp t0 \<sigma>"
    and "t0 \<le> now (sysWorld \<sigma>)" and "now (sysWorld \<tau>) < t0 + IDEMPOTENCY_TTL"
  shows "singleRun scope key fp t0 \<tau>"
  using assms(1)
proof cases
  case (reserve i b w)
  with assms show ?thesis by (simp only: idemSys.simps) (rule singleRun_reserve; simp)
next
  case (reserveError i e w)
  then show ?thesis using reserveNx_err [of scope key "fp i" "sysWorld \<sigma>" e w] assms(3)
    by (simp only:) (rule singleRun_bystander; simp)
next
  case (lookup i r w)
  with assms show ?thesis by (simp only: idemSys.simps) (rule singleRun_lookup; simp)
next
  case (lookupError i e w)
  then show ?thesis using get_keeps [of scope key "sysWorld \<sigma>" _ w] assms(3)
    by (simp only:) (rule singleRun_bystander; simp)
next
  case (answer i body st r w)
  with assms show ?thesis by (simp only: idemSys.simps) (rule singleRun_answer; simp)
next
  case (other w)
  with assms show ?thesis by (simp only: idemSys.simps) (rule singleRun_other; simp)
qed (use assms(2) in simp_all)

lemma idemStep_time: "idemStep scope key fp \<sigma> l \<tau> \<Longrightarrow> l \<noteq> LRelease \<Longrightarrow> now (sysWorld \<sigma>) \<le> now (sysWorld \<tau>)"
  by (cases rule: idemStep.cases, assumption)
    (auto dest: reserveNx_ok reserveNx_err get_keeps complete_ok)

lemma singleRun_run:
  assumes "idemRun scope key fp \<sigma> ls \<tau>" and "LRelease \<notin> set ls" and "singleRun scope key fp (now (sysWorld \<sigma>)) \<sigma>"
  shows "now (sysWorld \<sigma>) \<le> now (sysWorld \<tau>) \<and>
    (now (sysWorld \<tau>) < now (sysWorld \<sigma>) + IDEMPOTENCY_TTL \<longrightarrow> singleRun scope key fp (now (sysWorld \<sigma>)) \<tau>)"
  using assms
proof (induction rule: idemRun.induct)
  case (step \<sigma> ls \<tau> l \<upsilon>)
  have l: "l \<noteq> LRelease" using step.prems(1) by auto
  have t: "now (sysWorld \<tau>) \<le> now (sysWorld \<upsilon>)"
    using idemStep_time [OF step.hyps(2) l] .
  show ?case
    using step.IH step.prems t singleRun_step [OF step.hyps(2) l] by auto
qed simp

text \<open>
  C33: requests with one idempotency key, however their Redis calls, their handlers and the passing
  of time interleave, run the handler at most once within the lifetime of the record, as long as no
  handler fails; every replayed answer is the status and the body of that run, as they come back from
  JSON, and goes only to requests with the fingerprint of the one that ran.
\<close>

theorem idempotency_one_run:
  assumes "idemRun scope key fp \<sigma> ls \<tau>" and "LRelease \<notin> set ls"
    and "\<forall>i. phaseOf \<sigma> i = Waiting" and "liveText (sysWorld \<sigma>) (buildKey scope key) = None"
    and "now (sysWorld \<tau>) < now (sysWorld \<sigma>) + IDEMPOTENCY_TTL"
  shows "(\<exists>i. \<forall>j. j \<noteq> i \<longrightarrow> phaseOf \<tau> j \<noteq> Running \<and> (\<forall>st body. phaseOf \<tau> j \<noteq> Answered st body)) \<and>
    (\<forall>j code body. phaseOf \<tau> j = Replayed code body \<longrightarrow>
      (\<exists>i st b. phaseOf \<tau> i = Answered st b \<and> code = Some st \<and> body = backBody b \<and> fp j = fp i))"
proof -
  have "singleRun scope key fp (now (sysWorld \<sigma>)) \<sigma>"
    using assms(3,4) by (simp add: singleRun_def freeKey_def)
  with singleRun_run [OF assms(1,2)] assms(5) have "singleRun scope key fp (now (sysWorld \<sigma>)) \<tau>"
    by blast
  then show ?thesis
    unfolding singleRun_def
  proof (elim disjE exE)
    assume "freeKey scope key \<tau>"
    then have "phaseOf \<tau> j = Waiting \<or> (\<exists>e. phaseOf \<tau> j = Failed e)" for j by (simp add: freeKey_def)
    then show ?thesis by (metis phase.distinct)
  next
    fix i assume "oneRuns scope key fp (now (sysWorld \<sigma>)) \<tau> i"
    then have "phaseOf \<tau> i = Running" "j \<noteq> i \<Longrightarrow> bystander (phaseOf \<tau> j)" for j by (simp_all add: oneRuns_def)
    then show ?thesis unfolding bystander_def by (metis phase.distinct)
  next
    fix i st b assume o: "oneAnswered scope key fp (now (sysWorld \<sigma>)) \<tau> i st b"
    have "j \<noteq> i \<Longrightarrow> phaseOf \<tau> j \<noteq> Running \<and> (\<forall>st body. phaseOf \<tau> j \<noteq> Answered st body)" for j
      using o by (auto simp: oneAnswered_def bystander_def)
    moreover have "phaseOf \<tau> j = Replayed code body \<Longrightarrow> code = Some st \<and> body = backBody b \<and> fp j = fp i" for j code body
      using o by (cases "j = i") (auto simp: oneAnswered_def bystander_def)
    moreover have "phaseOf \<tau> i = Answered st b" using o by (simp add: oneAnswered_def)
    ultimately show ?thesis by blast
  qed
qed

definition idle :: "world \<Rightarrow> idemSys" where
  "idle s = \<lparr>sysWorld = s, phaseOf = (\<lambda>_. Waiting)\<rparr>"

lemma idle_sel [simp]: "sysWorld (idle s) = s" "phaseOf (idle s) i = Waiting"
  by (simp_all add: idle_def)

lemma idemRun_cons:
  assumes "idemStep scope key fp \<sigma> l \<tau>" and "idemRun scope key fp \<tau> ls \<upsilon>"
  shows "idemRun scope key fp \<sigma> (l # ls) \<upsilon>"
  using assms(2,1)
proof (induction rule: idemRun.induct)
  case (start \<tau>)
  then show ?case using idemRun.step [OF idemRun.start] by simp
next
  case (step \<tau> ls \<upsilon> l' \<phi>)
  then show ?case using idemRun.step [of scope key fp \<sigma> "l # ls" \<upsilon> l' \<phi>] by simp
qed

text \<open>The steps of a run without failures.\<close>

lemma step_reserved:
  "\<lbrakk>phaseOf \<sigma> i = Waiting; faults (sysWorld \<sigma>) = []; liveText (sysWorld \<sigma>) (buildKey scope key) = None;
    \<tau> = \<lparr>sysWorld = redisSet (buildKey scope key) (recordText (processingRecord (fp i))) (sysWorld \<sigma>),
      phaseOf = (phaseOf \<sigma>)(i := Running)\<rparr>\<rbrakk> \<Longrightarrow> idemStep scope key fp \<sigma> LReserve \<tau>"
  using idemStep.reserve [of \<sigma> i scope key fp True] by (simp add: reserveNx_run decide_def)

lemma step_refused:
  "\<lbrakk>phaseOf \<sigma> i = Waiting; faults (sysWorld \<sigma>) = []; liveText (sysWorld \<sigma>) (buildKey scope key) \<noteq> None;
    \<tau> = \<lparr>sysWorld = sysWorld \<sigma>, phaseOf = (phaseOf \<sigma>)(i := Looking)\<rparr>\<rbrakk> \<Longrightarrow> idemStep scope key fp \<sigma> LReserve \<tau>"
  using idemStep.reserve [of \<sigma> i scope key fp False] by (simp add: reserveNx_run)

lemma step_looked:
  "\<lbrakk>phaseOf \<sigma> i = Looking; IdempotencyService_get scope key (sysWorld \<sigma>) = (Inr r, sysWorld \<sigma>);
    \<tau> = \<lparr>sysWorld = sysWorld \<sigma>, phaseOf = (phaseOf \<sigma>)(i := afterDecision (decide (fp i) (False, r)))\<rparr>\<rbrakk> \<Longrightarrow>
    idemStep scope key fp \<sigma> LLookup \<tau>"
  using idemStep.lookup [of \<sigma> i scope key r "sysWorld \<sigma>" fp] by simp

lemma step_answered:
  "\<lbrakk>phaseOf \<sigma> i = Running; namesDiffer body; faults (sysWorld \<sigma>) = [];
    \<tau> = \<lparr>sysWorld = redisSet (buildKey scope key) (recordText (completedRecord (fp i) st body)) (sysWorld \<sigma>),
      phaseOf = (phaseOf \<sigma>)(i := Answered st body)\<rparr>\<rbrakk> \<Longrightarrow> idemStep scope key fp \<sigma> LAnswer \<tau>"
  using idemStep.answer [of \<sigma> i body scope key fp st] by (simp add: complete_run)

lemma step_released:
  "\<lbrakk>phaseOf \<sigma> i = Running; faults (sysWorld \<sigma>) = [];
    \<tau> = \<lparr>sysWorld = (sysWorld \<sigma>)\<lparr>idempotency := (idempotency (sysWorld \<sigma>))(buildKey scope key := None)\<rparr>,
      phaseOf = (phaseOf \<sigma>)(i := Failed e)\<rparr>\<rbrakk> \<Longrightarrow> idemStep scope key fp \<sigma> LRelease \<tau>"
  using idemStep.handlerError [of \<sigma> i scope key e] by (simp add: release_run)

text \<open>One request runs and answers, a second one is given its answer.\<close>

lemma idempotency_demo:
  assumes "faults s = []" and "liveText s (buildKey scope key) = None" and "namesDiffer body"
  shows "\<exists>\<tau>. idemRun scope key (\<lambda>_. fp) (idle s) [LReserve, LAnswer, LReserve, LLookup] \<tau> \<and>
    phaseOf \<tau> 1 = Replayed (Some st) (backBody body) \<and> now (sysWorld \<tau>) = now s"
proof -
  let ?k = "buildKey scope key" and ?step = "idemStep scope key (\<lambda>_. fp)"
  let ?w1 = "redisSet ?k (recordText (processingRecord fp)) s"
  let ?w2 = "redisSet ?k (recordText (completedRecord fp st body)) ?w1"
  define p1 where "p1 = (\<lambda>_::nat. Waiting)(0 := Running)"
  define p2 where "p2 = p1(0 := Answered st body)"
  define p3 where "p3 = p2(1 := Looking)"
  define p4 where "p4 = p3(1 := Replayed (Some st) (backBody body))"
  have s1: "?step (idle s) LReserve \<lparr>sysWorld = ?w1, phaseOf = p1\<rparr>"
    using assms by (intro step_reserved [where i = 0]) (simp_all add: p1_def idle_def)
  have s2: "?step \<lparr>sysWorld = ?w1, phaseOf = p1\<rparr> LAnswer \<lparr>sysWorld = ?w2, phaseOf = p2\<rparr>"
    using assms by (intro step_answered [where i = 0]) (simp_all add: p1_def p2_def)
  have s3: "?step \<lparr>sysWorld = ?w2, phaseOf = p2\<rparr> LReserve \<lparr>sysWorld = ?w2, phaseOf = p3\<rparr>"
    using assms by (intro step_refused [where i = 1]) (simp_all add: p1_def p2_def p3_def)
  have s4: "?step \<lparr>sysWorld = ?w2, phaseOf = p3\<rparr> LLookup \<lparr>sysWorld = ?w2, phaseOf = p4\<rparr>"
  proof (rule step_looked [where i = 1])
    show "IdempotencyService_get scope key (sysWorld \<lparr>sysWorld = ?w2, phaseOf = p3\<rparr>) =
        (Inr (Some (completedRecord fp st (backBody body))), sysWorld \<lparr>sysWorld = ?w2, phaseOf = p3\<rparr>)"
      using assms by (simp add: get_run [OF _ liveText_set readRecord_completed])
  qed (simp_all add: p3_def p4_def decide_def completedRecord_def)
  have "idemRun scope key (\<lambda>_. fp) (idle s) [LReserve, LAnswer, LReserve, LLookup] \<lparr>sysWorld = ?w2, phaseOf = p4\<rparr>"
    by (rule idemRun_cons [OF s1 idemRun_cons [OF s2 idemRun_cons [OF s3 idemRun_cons [OF s4 idemRun.start]]]])
  then show ?thesis
    by (intro exI [of _ "\<lparr>sysWorld = ?w2, phaseOf = p4\<rparr>"]) (simp add: p4_def)
qed

lemma idempotency_one_run_witness:
  "\<exists>\<tau>. idemRun ''u:POST:/tasks'' ''k'' (\<lambda>_. ''f'') (idle world0) [LReserve, LAnswer, LReserve, LLookup] \<tau> \<and>
     (\<exists>i. \<forall>j. j \<noteq> i \<longrightarrow> phaseOf \<tau> j \<noteq> Running)"
proof -
  have free: "liveText world0 (buildKey ''u:POST:/tasks'' ''k'') = None" by (simp add: liveText_def)
  obtain \<tau> where run: "idemRun ''u:POST:/tasks'' ''k'' (\<lambda>_. ''f'') (idle world0) [LReserve, LAnswer, LReserve, LLookup] \<tau>"
    and t: "now (sysWorld \<tau>) = now world0"
    using idempotency_demo [of world0 _ _ "JStr ''done''" "''f''" 201, OF world0_sel(8) free] by auto
  have "\<exists>i. \<forall>j. j \<noteq> i \<longrightarrow> phaseOf \<tau> j \<noteq> Running"
    using idempotency_one_run [OF run] free t by (auto simp: IDEMPOTENCY_TTL_def)
  with run show ?thesis by blast
qed

section \<open>A failing handler\<close>

text \<open>
  When a handler fails between the refused reservation of a second request and its lookup, the
  second request finds no record and runs its handler without holding the key; a third request
  reserves the key and runs at the same time, with the same fingerprint.
\<close>

theorem idempotency_unreserved_run:
  assumes "faults s = []" and "liveText s (buildKey scope key) = None"
  shows "\<exists>ls \<tau>. idemRun scope key (\<lambda>_. fp) (idle s) ls \<tau> \<and> phaseOf \<tau> 1 = Running \<and> phaseOf \<tau> 2 = Running"
proof -
  let ?k = "buildKey scope key" and ?step = "idemStep scope key (\<lambda>_. fp)"
  let ?w1 = "redisSet ?k (recordText (processingRecord fp)) s"
  let ?w2 = "?w1\<lparr>idempotency := (idempotency ?w1)(?k := None)\<rparr>"
  let ?w3 = "redisSet ?k (recordText (processingRecord fp)) ?w2"
  define p1 where "p1 = (\<lambda>_::nat. Waiting)(0 := Running)"
  define p2 where "p2 = p1(1 := Looking)"
  define p3 where "p3 = p2(0 := Failed (PlainError ''handler''))"
  define p4 where "p4 = p3(1 := Running)"
  define p5 where "p5 = p4(2 := Running)"
  have s1: "?step (idle s) LReserve \<lparr>sysWorld = ?w1, phaseOf = p1\<rparr>"
    using assms by (intro step_reserved [where i = 0]) (simp_all add: p1_def idle_def)
  have s2: "?step \<lparr>sysWorld = ?w1, phaseOf = p1\<rparr> LReserve \<lparr>sysWorld = ?w1, phaseOf = p2\<rparr>"
    using assms by (intro step_refused [where i = 1]) (simp_all add: p1_def p2_def)
  have s3: "?step \<lparr>sysWorld = ?w1, phaseOf = p2\<rparr> LRelease \<lparr>sysWorld = ?w2, phaseOf = p3\<rparr>"
    using assms by (intro step_released [where i = 0]) (simp_all add: p1_def p2_def p3_def)
  have s4: "?step \<lparr>sysWorld = ?w2, phaseOf = p3\<rparr> LLookup \<lparr>sysWorld = ?w2, phaseOf = p4\<rparr>"
  proof (rule step_looked [where i = 1])
    show "IdempotencyService_get scope key (sysWorld \<lparr>sysWorld = ?w2, phaseOf = p3\<rparr>) =
        (Inr None, sysWorld \<lparr>sysWorld = ?w2, phaseOf = p3\<rparr>)"
      using assms by (simp add: get_run_none)
  qed (simp_all add: p2_def p3_def p4_def decide_def)
  have s5: "?step \<lparr>sysWorld = ?w2, phaseOf = p4\<rparr> LReserve \<lparr>sysWorld = ?w3, phaseOf = p5\<rparr>"
    using assms by (intro step_reserved [where i = 2]) (simp_all add: p1_def p2_def p3_def p4_def p5_def)
  have "idemRun scope key (\<lambda>_. fp) (idle s) [LReserve, LReserve, LRelease, LLookup, LReserve] \<lparr>sysWorld = ?w3, phaseOf = p5\<rparr>"
    by (rule idemRun_cons [OF s1 idemRun_cons [OF s2 idemRun_cons [OF s3 idemRun_cons [OF s4 idemRun_cons [OF s5 idemRun.start]]]]])
  moreover have "p5 1 = Running" "p5 2 = Running"
    by (simp_all add: p4_def p5_def)
  ultimately show ?thesis
    by (metis idemSys.select_convs(2))
qed

lemma idempotency_unreserved_run_witness:
  "\<exists>ls \<tau>. idemRun ''u:POST:/tasks'' ''k'' (\<lambda>_. ''f'') (idle world0) ls \<tau> \<and> phaseOf \<tau> 1 = Running \<and> phaseOf \<tau> 2 = Running"
  by (rule idempotency_unreserved_run) (simp_all add: liveText_def)

section \<open>One request after another\<close>

lemma runHandler_ok:
  assumes "runHandler scope key fp handler s = (Inr (st, body), t)"
  shows "idempotency t (buildKey scope key) = Some (recordText (completedRecord fp st body), now t + IDEMPOTENCY_TTL)"
proof -
  obtain v w where "complete scope key fp v w = (Inr (st, body), t)"
    using assms by (auto simp: runHandler_def tryCatch_run release_def andThen_run bnd_ok split: prod.splits sum.splits)
  then show ?thesis
    using complete_ok [of scope key fp "fst v" "snd v" w "(st, body)" t] by auto
qed

lemma intercept_fresh:
  assumes "IdempotencyInterceptor_intercept X rq handler s = (Inr (st, body), t)" and "ir_key rq = Some key"
    and "liveText s (buildKey (buildScope rq) key) = None"
  shows "checkKey (Some key) = Inr key \<and>
    idempotency t (buildKey (buildScope rq) key) =
      Some (recordText (completedRecord (buildFingerprint X rq) st body), now t + IDEMPOTENCY_TTL)"
proof -
  have c: "checkKey (Some key) = Inr key"
    using assms(1,2) by (cases "checkKey (Some key)")
      (auto simp: IdempotencyInterceptor_intercept_def, auto simp: checkKey_def split: if_splits)
  with assms obtain w where "runHandler (buildScope rq) key (buildFingerprint X rq) handler w = (Inr (st, body), t)"
    by (auto simp: IdempotencyInterceptor_intercept_def Let_def IdempotencyService_reserve_def ok_iff decide_def
        dest: reserveNx_ok split: if_splits)
  with c show ?thesis by (auto dest: runHandler_ok)
qed

text \<open>
  Once a request with a new key has been answered, every later request with that key in the five
  minutes after the answer gets that status and body when its fingerprint is the same, and a conflict
  when it is not; its handler does not run and nothing changes.
\<close>

theorem idempotency_replay:
  assumes "IdempotencyInterceptor_intercept X rq handler s = (Inr (st, body), t)" and "ir_key rq = Some key"
    and "liveText s (buildKey (buildScope rq) key) = None" and "namesDiffer body"
    and "ir_key rq' = Some key" and "buildScope rq' = buildScope rq"
    and "idempotency u = idempotency t" and "now u < now t + IDEMPOTENCY_TTL" and "faults u = []"
  shows "IdempotencyInterceptor_intercept X rq' handler' u =
    (if buildFingerprint X rq' = buildFingerprint X rq then Inr (st, backBody body)
     else Inl (Conflict ''The Idempotency-Key has already been used with a different request.''), u)"
proof -
  note fresh = intercept_fresh [OF assms(1-3)]
  with assms(7,8) have live: "liveText u (buildKey (buildScope rq) key) = Some (recordText (completedRecord (buildFingerprint X rq) st body))"
    by (auto intro: liveText_at)
  then have "IdempotencyService_get (buildScope rq) key u =
      (Inr (Some (completedRecord (buildFingerprint X rq) st (backBody body))), u)"
    by (rule get_run [OF assms(9) _ readRecord_completed [OF assms(4)]])
  with fresh live assms(5,6,9) show ?thesis
    by (simp add: IdempotencyInterceptor_intercept_def Let_def IdempotencyService_reserve_def bnd_run reserveNx_run
        decide_def completedRecord_def)
qed

definition demoPost :: idemRequest where
  "demoPost = \<lparr>ir_key = Some ''k'', ir_userId = Some ''u'', ir_method = ''POST'', ir_baseUrl = [], ir_url = ''/tasks'',
     ir_originalUrl = ''/tasks'', ir_body = JNull, ir_status = 201\<rparr>"

lemma idempotency_replay_witness:
  "\<exists>t. IdempotencyInterceptor_intercept demoExt demoPost (ret (201, JStr ''new'')) world0 = (Inr (201, JStr ''new''), t) \<and>
     IdempotencyInterceptor_intercept demoExt demoPost (throw (PlainError ''again'')) t = (Inr (201, JStr ''new''), t)"
proof -
  have key: "ir_key demoPost = Some ''k''" by (simp add: demoPost_def)
  have free: "liveText world0 (buildKey (buildScope demoPost) ''k'') = None" by (simp add: liveText_def)
  have c: "checkKey (Some ''k'') = Inr ''k''" by (simp add: checkKey_def trim_def isSpace_def)
  obtain t where run: "IdempotencyInterceptor_intercept demoExt demoPost (ret (201, JStr ''new'')) world0 = (Inr (201, JStr ''new''), t)"
    and f: "faults t = []"
    using c free by (simp add: IdempotencyInterceptor_intercept_def key Let_def IdempotencyService_reserve_def bnd_run
        reserveNx_run decide_def runHandler_def tryCatch_run complete_run)
  have "IdempotencyInterceptor_intercept demoExt demoPost (throw (PlainError ''again'')) t = (Inr (201, backBody (JStr ''new'')), t)"
    using idempotency_replay [OF run key free _ key, of t] f by (simp add: IDEMPOTENCY_TTL_def)
  with run show ?thesis by (simp add: backBody_def)
qed

text \<open>
  When the storing of the answer fails, the key is freed although the handler has done its work; a
  repeated request runs it again.
\<close>

lemma lost_completion:
  assumes "handler s = (Inr v, w)" and "faults w = [Some ''down'']"
  shows "\<exists>t. runHandler scope key fp handler s = (Inl (Infra ''down''), t) \<and> db t = db w \<and> liveText t (buildKey scope key) = None"
  using assms by (simp add: runHandler_def tryCatch_run bnd_run complete_def IdempotencyService_complete_def andThen_run
      release_def IdempotencyService_delete_def io_run liveText_def)

end
