(* ===== verification/Webhooks.thy ===== *)
theory Webhooks
  imports Workspace JsonText
begin

text \<open>
  Webhooks (\<open>src/webhook\<close>): the two repositories, the service that registers and lists them, and the
  delivery of an event to every subscribed address, signed and recorded. The request itself leaves
  the program: what the address answers is the parameter \<open>net\<close>.
\<close>

section \<open>The outside\<close>

text \<open>
  \<open>net n call\<close> is the fate of the \<open>n\<close>-th request: how long it took and either the message of the
  rejected \<open>fetch\<close> (no connection, aborted after ten seconds) or the status and the body's text.
\<close>

type_synonym network = "nat \<Rightarrow> httpCall \<Rightarrow> time \<times> (string + nat \<times> string)"

definition httpFetch :: "network \<Rightarrow> httpCall \<Rightarrow> (nat \<times> string) wprog" where
  "httpFetch net c = (\<lambda>s. case net (length (calls s)) c of (elapsed, outcome) \<Rightarrow>
     (let t = s\<lparr>calls := calls s @ [c], now := now s + elapsed\<rparr> in
      case outcome of Inl m \<Rightarrow> (Inl (PlainError m), t) | Inr r \<Rightarrow> (Inr r, t)))"

section \<open>WebhookRepository\<close>

text \<open>The schema trims the address; \<open>active\<close> starts as \<open>true\<close>.\<close>

definition WebhookRepository_create :: "oid \<Rightarrow> string \<Rightarrow> string \<Rightarrow> string list \<Rightarrow> webhookDoc wprog" where
  "WebhookRepository_create workspaceId url secret events =
     bnd freshId (\<lambda>i.
     let webhook = \<lparr>h_id = i, h_workspaceId = workspaceId, h_url = trim url, h_secret = secret, h_active = True, h_events = events\<rparr>
     in andThen (insertOne webhooks webhooks_update webhook)
        (andThen (cacheDel (CKWebhooks workspaceId)) (ret webhook)))"

text \<open>The secret is not selected: it is the empty string in what these queries give.\<close>

definition withoutSecret :: "webhookDoc \<Rightarrow> webhookDoc" where
  "withoutSecret w = w\<lparr>h_secret := []\<rparr>"

definition unWebhooks :: "cacheVal \<Rightarrow> webhookDoc list option" where
  "unWebhooks v = (case v of CVWebhooks ws \<Rightarrow> Some ws | _ \<Rightarrow> None)"

definition WebhookRepository_findByWorkspace :: "oid \<Rightarrow> webhookDoc list wprog" where
  "WebhookRepository_findByWorkspace workspaceId =
     readThrough (CKWebhooks workspaceId) unWebhooks (\<lambda>ws. Some (CVWebhooks ws)) 60000 (\<lambda>s. s)
       (bnd (findDocs webhooks (\<lambda>w. h_workspaceId w = workspaceId)) (\<lambda>ws. ret (map withoutSecret ws)))"

definition WebhookRepository_findActiveByWorkspace :: "oid \<Rightarrow> string \<Rightarrow> webhookDoc list wprog" where
  "WebhookRepository_findActiveByWorkspace workspaceId eventType =
     findDocs webhooks (\<lambda>w. h_workspaceId w = workspaceId \<and> h_active w \<and> eventType \<in> set (h_events w))"

definition WebhookRepository_findById :: "oid \<Rightarrow> webhookDoc option wprog" where
  "WebhookRepository_findById i =
     bnd (findOne webhooks (\<lambda>w. h_id w = i)) (\<lambda>found. ret (map_option withoutSecret found))"

definition WebhookRepository_delete :: "oid \<Rightarrow> webhookDoc option wprog" where
  "WebhookRepository_delete i =
     bnd (findOneAndDelete webhooks webhooks_update (\<lambda>w. h_id w = i)) (\<lambda>found.
     case map_option withoutSecret found of
       None \<Rightarrow> ret None
     | Some w \<Rightarrow> andThen (cacheDel (CKWebhooks (h_workspaceId w))) (ret (Some w)))"

section \<open>WebhookDeliveryRepository\<close>

definition WebhookDeliveryRepository_create ::
  "oid \<Rightarrow> oid \<Rightarrow> string \<Rightarrow> nat \<Rightarrow> webhookStatus option \<Rightarrow> webhookDeliveryDoc wprog" where
  "WebhookDeliveryRepository_create webhookId outboxEventId eventType attempt status =
     bnd freshId (\<lambda>i.
     let d = \<lparr>d_id = i, d_webhookId = webhookId, d_outboxEventId = outboxEventId, d_eventType = eventType,
              d_attempt = attempt, d_status = (case status of None \<Rightarrow> WPending | Some st \<Rightarrow> st), d_responseStatus = None,
              d_error = None, d_durationMs = None, d_deliveredAt = None\<rparr>
     in andThen (insertOne webhookDeliveries webhookDeliveries_update d) (ret d))"

definition WebhookDeliveryRepository_findSuccessfulDelivery :: "oid \<Rightarrow> oid \<Rightarrow> webhookDeliveryDoc option wprog" where
  "WebhookDeliveryRepository_findSuccessfulDelivery webhookId outboxEventId = findOne webhookDeliveries
     (\<lambda>d. d_webhookId d = webhookId \<and> d_outboxEventId d = outboxEventId \<and> d_status d = WSuccess)"

definition WebhookDeliveryRepository_update ::
  "oid \<Rightarrow> (webhookDeliveryDoc \<Rightarrow> webhookDeliveryDoc) \<Rightarrow> webhookDeliveryDoc option wprog" where
  "WebhookDeliveryRepository_update i f =
     findOneAndUpdate webhookDeliveries webhookDeliveries_update (\<lambda>d. d_id d = i) f"

section \<open>WebhookDeliveryService\<close>

definition callOf :: "ext \<Rightarrow> webhookDoc \<Rightarrow> oid \<Rightarrow> string \<Rightarrow> props \<Rightarrow> httpCall" where
  "callOf X webhook outboxEventId eventType payload =
     (let body = JSON_stringify 0 (JObj payload) in
      \<lparr>hc_url = h_url webhook, hc_signature = ''sha256='' @ hmac X (h_secret webhook) body, hc_event = eventType,
       hc_delivery = outboxEventId, hc_body = body\<rparr>)"

definition failedMessage :: "nat \<Rightarrow> string" where
  "failedMessage status = ''Webhook request failed with status '' @ showNat status"

definition responseOk :: "nat \<Rightarrow> bool" where
  "responseOk status \<longleftrightarrow> 200 \<le> status \<and> status \<le> 299"

text \<open>The body of the \<open>try\<close>: one request, and the record of what it answered.\<close>

definition attemptDelivery :: "ext \<Rightarrow> network \<Rightarrow> webhookDoc \<Rightarrow> oid \<Rightarrow> string \<Rightarrow> props \<Rightarrow> oid \<Rightarrow> time \<Rightarrow> unit wprog" where
  "attemptDelivery X net webhook outboxEventId eventType payload deliveryId startedAt =
     bnd (httpFetch net (callOf X webhook outboxEventId eventType payload)) (\<lambda>(status, responseBody).
     bnd (gets now) (\<lambda>t.
     if \<not> responseOk status then
       andThen (WebhookDeliveryRepository_update deliveryId (\<lambda>d. d\<lparr>d_status := WFailed, d_responseStatus := Some status,
           d_error := Some (if responseBody \<noteq> [] then failedMessage status @ '': '' @ take 500 responseBody else failedMessage status),
           d_durationMs := Some (t - startedAt)\<rparr>))
         (throw (PlainError (failedMessage status)))
     else
       andThen (WebhookDeliveryRepository_update deliveryId (\<lambda>d. d\<lparr>d_status := WSuccess, d_responseStatus := Some status,
           d_durationMs := Some (t - startedAt), d_deliveredAt := Some t\<rparr>)) (ret ())))"

definition recordFailedDelivery :: "oid \<Rightarrow> time \<Rightarrow> err \<Rightarrow> unit wprog" where
  "recordFailedDelivery deliveryId startedAt e =
     bnd (gets now) (\<lambda>t.
     andThen (WebhookDeliveryRepository_update deliveryId (\<lambda>d. d\<lparr>d_status := WFailed, d_error := Some (errMessage e),
         d_durationMs := Some (t - startedAt)\<rparr>))
       (throw e))"

definition WebhookDeliveryService_deliver ::
  "ext \<Rightarrow> network \<Rightarrow> webhookDoc \<Rightarrow> oid \<Rightarrow> string \<Rightarrow> props \<Rightarrow> nat \<Rightarrow> unit wprog" where
  "WebhookDeliveryService_deliver X net webhook outboxEventId eventType payload attempt =
     bnd (WebhookDeliveryRepository_findSuccessfulDelivery (h_id webhook) outboxEventId) (\<lambda>existing.
     if existing \<noteq> None then ret ()
     else bnd (WebhookDeliveryRepository_create (h_id webhook) outboxEventId eventType attempt (Some WPending)) (\<lambda>delivery.
       bnd (gets now) (\<lambda>startedAt.
       tryCatch (attemptDelivery X net webhook outboxEventId eventType payload (d_id delivery) startedAt)
         (recordFailedDelivery (d_id delivery) startedAt))))"

section \<open>WebhookService\<close>

definition webhooksDisabled :: err where
  "webhooksDisabled = Forbidden ''Webhooks are disabled for this workspace''"

definition WebhookService_create :: "ext \<Rightarrow> oid \<Rightarrow> string \<Rightarrow> string list \<Rightarrow> webhookDoc wprog" where
  "WebhookService_create X workspaceId url events =
     bnd (FeatureFlagsService_isEnabled workspaceId Webhooks) (\<lambda>enabled.
     andThen (throwIf (\<not> enabled) webhooksDisabled)
     (bnd (randomString X) (\<lambda>secret. WebhookRepository_create workspaceId url secret events)))"

definition WebhookService_findByWorkspace :: "oid \<Rightarrow> webhookDoc list wprog" where
  "WebhookService_findByWorkspace workspaceId =
     bnd (FeatureFlagsService_isEnabled workspaceId Webhooks) (\<lambda>enabled.
     andThen (throwIf (\<not> enabled) webhooksDisabled) (WebhookRepository_findByWorkspace workspaceId))"

text \<open>
  \<open>Promise.allSettled\<close>: every delivery runs, the rejected ones are counted. The deliveries interleave
  in the code; each works on its own delivery record, so one order is modelled.
\<close>

definition rejected :: "unit wprog \<Rightarrow> nat wprog" where
  "rejected m = tryCatch (andThen m (ret 0)) (\<lambda>_. ret 1)"

fun allSettled :: "unit wprog list \<Rightarrow> nat wprog" where
  "allSettled [] = ret 0"
| "allSettled (m # ms) = bnd (rejected m) (\<lambda>a. bnd (allSettled ms) (\<lambda>b. ret (a + b)))"

definition WebhookService_deliverToWorkspace ::
  "ext \<Rightarrow> network \<Rightarrow> oid \<Rightarrow> oid \<Rightarrow> string \<Rightarrow> props \<Rightarrow> nat \<Rightarrow> unit wprog" where
  "WebhookService_deliverToWorkspace X net workspaceId outboxEventId eventType payload attempt =
     bnd (WebhookRepository_findActiveByWorkspace workspaceId eventType) (\<lambda>ws.
     bnd (allSettled (map (\<lambda>w. WebhookDeliveryService_deliver X net w outboxEventId eventType payload attempt) ws)) (\<lambda>failed.
     throwIf (failed > 0) (PlainError (showNat failed @ '' webhook delivery attempt(s) failed''))))"

section \<open>The controller\<close>

text \<open>The secret is deleted from the answer.\<close>

definition WebhookController_create :: "ext \<Rightarrow> oid \<Rightarrow> string \<Rightarrow> string list \<Rightarrow> webhookDoc wprog" where
  "WebhookController_create X workspaceId url events =
     bnd (WebhookService_create X workspaceId url events) (\<lambda>webhook. ret (withoutSecret webhook))"

end
