(* ===== verification/Jobs.thy ===== *)
theory Jobs
  imports Webhooks Users Outbox Tasks
begin

text \<open>
  The jobs the outbox puts on the queues (\<open>src/infrastructure/processors\<close>): the processors of mails,
  reminders and webhooks with their last attempt and the dead-letter queue, and the scheduled search
  for tasks that are due (\<open>src/reminder\<close>). A processor is called by the queue with the attempts made
  so far; when it throws, the queue may call it again.
\<close>

section \<open>DeadLetterService\<close>

text \<open>The queue takes a job id once: \<open>dlq-\<close> and the id of the job.\<close>

definition moveToDeadLetterQueue :: "queueName \<Rightarrow> job \<Rightarrow> string \<Rightarrow> nat \<Rightarrow> unit wprog" where
  "moveToDeadLetterQueue q j error attempts = io (modify (\<lambda>s.
     if \<exists>d\<in>set (dlq s). dl_jobId d = j_id j then s
     else s\<lparr>dlq := dlq s @ [\<lparr>dl_queueName = q, dl_jobId = j_id j, dl_outboxEventId = j_outboxEventId j,
       dl_eventType = j_eventType j, dl_payload = j_payload j, dl_error = error, dl_attempts = attempts,
       dl_correlationId = j_correlationId j, dl_failedAt = now s\<rparr>]\<rparr>))"

definition maxAttemptsOf :: "job \<Rightarrow> nat" where
  "maxAttemptsOf j = (case j_attempts j of None \<Rightarrow> 1 | Some n \<Rightarrow> n)"

definition isFinalAttempt :: "job \<Rightarrow> bool" where
  "isFinalAttempt j \<longleftrightarrow> j_attemptsMade j + 1 \<ge> maxAttemptsOf j"

text \<open>\<open>if (!v) throw new Error(m)\<close>; an empty event type counts as missing.\<close>

definition requireType :: "string option \<Rightarrow> string \<Rightarrow> string wprog" where
  "requireType v m = (case v of Some (c # cs) \<Rightarrow> ret (c # cs) | _ \<Rightarrow> throw (PlainError m))"

definition require :: "'a option \<Rightarrow> string \<Rightarrow> 'a wprog" where
  "require v m = orThrow v (PlainError m)"

definition payloadOf :: "string \<Rightarrow> props \<Rightarrow> json" where
  "payloadOf k p = (case map_of p k of None \<Rightarrow> JUndef | Some v \<Rightarrow> v)"

section \<open>EmailProcessor\<close>

definition processEmailRequested :: "props \<Rightarrow> unit wprog" where
  "processEmailRequested p = (case (payloadOf ''emailType'' p, payloadOf ''to'' p) of
     (JStr emailType, JStr to) \<Rightarrow>
       (let token = jstring (payloadOf ''token'' p); expiresAt = jdate (payloadOf ''expiresAt'' p) in
        if emailType = ''EMAIL_VERIFICATION'' then sendVerificationEmail to token expiresAt
        else if emailType = ''PASSWORD_RESET'' then sendPasswordResetEmail to token expiresAt
        else if emailType = ''WORKSPACE_INVITATION'' then
          sendWorkspaceInvitation to (jstring (payloadOf ''workspaceName'' p)) token expiresAt
        else if emailType = ''TASK_REMINDER'' then
          sendReminderEmail to (jstring (payloadOf ''taskTitle'' p)) (jdate (payloadOf ''dueDate'' p)) (jstring (payloadOf ''priority'' p))
        else throw (PlainError (''Unsupported email type: '' @ emailType)))
   | _ \<Rightarrow> throw (PlainError ''EMAIL_REQUESTED payload is invalid''))"

text \<open>The \<open>catch\<close> that the mail and the reminder processor share, letter for letter.\<close>

definition mailJobFailed :: "queueName \<Rightarrow> job \<Rightarrow> oid \<Rightarrow> err \<Rightarrow> unit wprog" where
  "mailJobFailed q j deliveryId e =
     (let currentAttempt = j_attemptsMade j + 1 in
      andThen
        (if isFinalAttempt j then
           bnd (gets now) (\<lambda>t.
           andThen (EmailDeliveryRepository_update deliveryId (\<lambda>d. d\<lparr>e_status := EFailed, e_failedAt := Some t,
               e_lastError := Some (errMessage e), e_attempts := currentAttempt\<rparr>))
             (moveToDeadLetterQueue q j (errMessage e) currentAttempt))
         else
           andThen (EmailDeliveryRepository_update deliveryId (\<lambda>d. d\<lparr>e_attempts := currentAttempt, e_lastError := Some (errMessage e)\<rparr>))
             (ret ()))
        (throw e))"

definition startSending :: "job \<Rightarrow> oid \<Rightarrow> unit wprog" where
  "startSending j deliveryId =
     andThen (EmailDeliveryRepository_update deliveryId (\<lambda>d. d\<lparr>e_status := ESending, e_attempts := j_attemptsMade j + 1\<rparr>)) (ret ())"

text \<open>\<open>lastError: undefined\<close> is left out of the update.\<close>

definition markSent :: "oid \<Rightarrow> unit wprog" where
  "markSent deliveryId = bnd (gets now) (\<lambda>t.
     andThen (EmailDeliveryRepository_update deliveryId (\<lambda>d. d\<lparr>e_status := ESent, e_sentAt := Some t\<rparr>)) (ret ()))"

definition deliveryMissing :: "oid \<Rightarrow> string" where
  "deliveryMissing i = ''Email delivery record not found for outbox event '' @ oidString i"

definition sendRequested :: "job \<Rightarrow> string \<Rightarrow> props \<Rightarrow> oid \<Rightarrow> unit wprog" where
  "sendRequested j eventType payload deliveryId =
     andThen (startSending j deliveryId)
     (andThen (if eventType = ''EMAIL_REQUESTED'' then processEmailRequested payload
               else throw (PlainError (''Unsupported email event type: '' @ eventType)))
       (markSent deliveryId))"

definition EmailProcessor_process :: "job \<Rightarrow> unit wprog" where
  "EmailProcessor_process j =
     bnd (requireType (j_eventType j) ''Email job is missing eventType'') (\<lambda>eventType.
     bnd (require (j_payload j) ''Email job is missing payload'') (\<lambda>payload.
     bnd (require (j_outboxEventId j) ''Email job is missing outboxEventId'') (\<lambda>outboxEventId.
     bnd (EmailDeliveryRepository_findByOutboxEventId outboxEventId) (\<lambda>found.
     bnd (orThrow found (PlainError (deliveryMissing outboxEventId))) (\<lambda>delivery.
     tryCatch (sendRequested j eventType payload (e_id delivery)) (mailJobFailed QEmail j (e_id delivery)))))))"

section \<open>ReminderProcessor\<close>

definition sendReminder :: "job \<Rightarrow> oid \<Rightarrow> string \<Rightarrow> props \<Rightarrow> oid \<Rightarrow> unit wprog" where
  "sendReminder j outboxEventId eventType payload deliveryId =
     andThen (throwIf (eventType \<noteq> ''REMINDER_DUE'') (PlainError (''Unsupported reminder event type: '' @ eventType)))
     (case (payloadOf ''to'' payload, payloadOf ''taskTitle'' payload, payloadOf ''priority'' payload) of
        (JStr to, JStr taskTitle, JStr priority) \<Rightarrow>
          andThen (throwIf (\<not> truthy (payloadOf ''dueDate'' payload)) (PlainError ''REMINDER_DUE payload is invalid''))
          (andThen (startSending j deliveryId)
          (andThen (sendReminderEmail to taskTitle (jdate (payloadOf ''dueDate'' payload)) priority)
          (andThen (markSent deliveryId)
            (markProcessed outboxEventId eventType))))
      | _ \<Rightarrow> throw (PlainError ''REMINDER_DUE payload is invalid''))"

definition ReminderProcessor_process :: "job \<Rightarrow> unit wprog" where
  "ReminderProcessor_process j =
     bnd (require (j_outboxEventId j) ''Reminder job is missing outboxEventId'') (\<lambda>outboxEventId.
     bnd (requireType (j_eventType j) ''Reminder job is missing eventType'') (\<lambda>eventType.
     bnd (require (j_payload j) ''Reminder job is missing payload'') (\<lambda>payload.
     bnd (hasBeenProcessed outboxEventId) (\<lambda>alreadyProcessed.
     if alreadyProcessed then ret ()
     else
       bnd (EmailDeliveryRepository_findByOutboxEventId outboxEventId) (\<lambda>found.
       bnd (orThrow found (PlainError (deliveryMissing outboxEventId))) (\<lambda>delivery.
       tryCatch (sendReminder j outboxEventId eventType payload (e_id delivery)) (mailJobFailed QReminder j (e_id delivery))))))))"

section \<open>WebhookProcessor\<close>

definition jobFailed :: "queueName \<Rightarrow> job \<Rightarrow> err \<Rightarrow> unit wprog" where
  "jobFailed q j e =
     andThen (whenP (isFinalAttempt j) (moveToDeadLetterQueue q j (errMessage e) (j_attemptsMade j + 1))) (throw e)"

definition deliverEvent :: "ext \<Rightarrow> network \<Rightarrow> job \<Rightarrow> unit wprog" where
  "deliverEvent X net j =
     bnd (require (j_outboxEventId j) ''Webhook job is missing outboxEventId'') (\<lambda>outboxEventId.
     bnd (require (j_workspaceId j) ''Webhook job is missing workspaceId'') (\<lambda>workspaceId.
     bnd (requireType (j_eventType j) ''Webhook job is missing eventType'') (\<lambda>eventType.
     bnd (require (j_payload j) ''Webhook job is missing payload'') (\<lambda>payload.
     bnd (hasBeenProcessed outboxEventId) (\<lambda>alreadyProcessed.
     if alreadyProcessed then ret ()
     else
       andThen (WebhookService_deliverToWorkspace X net workspaceId outboxEventId eventType payload (j_attemptsMade j + 1))
         (markProcessed outboxEventId eventType))))))"

definition WebhookProcessor_process :: "ext \<Rightarrow> network \<Rightarrow> job \<Rightarrow> unit wprog" where
  "WebhookProcessor_process X net j = tryCatch (deliverEvent X net j) (jobFailed QWebhook j)"

section \<open>ReminderService\<close>

definition dayMs :: time where
  "dayMs = 24 * 3600000"

text \<open>The tasks due in the next 24 hours that are not done, not deleted and not yet reminded of.\<close>

definition reminderDue :: "time \<Rightarrow> taskDoc \<Rightarrow> bool" where
  "reminderDue t task \<longleftrightarrow> (case t_dueDate task of JDate d \<Rightarrow> t \<le> d \<and> d \<le> t + dayMs | _ \<Rightarrow> False) \<and>
     t_status task \<noteq> JStr (statusString Done) \<and> \<not> t_isDeleted task \<and> \<not> t_reminderSent task"

text \<open>One task: the mail record, the event, then the flag; none of it in a transaction.\<close>

definition remindTask :: "taskDoc \<times> userDoc option \<Rightarrow> unit wprog" where
  "remindTask p = (case p of (task, owner) \<Rightarrow>
     bnd (FeatureFlagsService_isEnabled (t_workspace task) Reminders) (\<lambda>remindersEnabled.
     if \<not> remindersEnabled then ret ()
     else bnd (FeatureFlagsService_isEnabled (t_workspace task) EmailNotifications) (\<lambda>emailNotificationsEnabled.
       if \<not> emailNotificationsEnabled then ret ()
       else (case owner of
         None \<Rightarrow> ret ()
       | Some u \<Rightarrow> if u_email u = [] then ret () else
           bnd freshId (\<lambda>outboxEventId.
           andThen (EmailDeliveryRepository_create outboxEventId (u_email u) ''TASK_REMINDER'' (Some EQueued) None)
           (andThen (OutboxService_create (Some outboxEventId) ''REMINDER_DUE'' ''TASK'' (t_id task) (Some (t_workspace task))
               [(''to'', JStr (u_email u)), (''taskTitle'', t_title task), (''dueDate'', t_dueDate task), (''priority'', t_priority task)])
           (andThen (findOneAndUpdate tasks tasks_update (\<lambda>t. t_id t = t_id task) (\<lambda>t. t\<lparr>t_reminderSent := True\<rparr>))
             (ret ()))))))))"

definition handleCron :: "unit wprog" where
  "handleCron =
     bnd (gets now) (\<lambda>t.
     bnd (query (\<lambda>d. map (\<lambda>task. (task, List.find (\<lambda>u. u_id u = t_owner task) (users d))) (filter (reminderDue t) (tasks d)))) (\<lambda>reminderTasks.
     forEach reminderTasks (\<lambda>p. tryCatch (remindTask p) (\<lambda>_. ret ()))))"

end
