(* ===== verification/Exports.thy ===== *)
theory Exports
  imports Jobs TaskQueries Idempotency
begin

text \<open>
  Exports of the tasks of a workspace (\<open>src/export\<close>): the repository, the signed download tokens, the
  service that requests, generates and hands out the files, and the processor of the export jobs.
\<close>

section \<open>Base64url\<close>

text \<open>
  \<open>Buffer.toString('base64url')\<close> and \<open>Buffer.from(s, 'base64url')\<close> on texts of ASCII characters, one
  byte each; the decoder passes over characters that are not of the alphabet and a single left-over one.
\<close>

definition b64Alphabet :: string where
  "b64Alphabet = ''ABCDEFGHIJKLMNOPQRSTUVWXYZabcdefghijklmnopqrstuvwxyz0123456789-_''"

definition b64Char :: "nat \<Rightarrow> char" where
  "b64Char n = b64Alphabet ! n"

definition b64Val :: "char \<Rightarrow> nat option" where
  "b64Val c = (if c = CHR ''+'' then Some 62 else if c = CHR ''/'' then Some 63
     else map_of (zip b64Alphabet [0..<64]) c)"

fun b64Encode :: "nat list \<Rightarrow> string" where
  "b64Encode [] = []"
| "b64Encode [a] = [b64Char (a div 4), b64Char (a mod 4 * 16)]"
| "b64Encode [a, b] = [b64Char (a div 4), b64Char (a mod 4 * 16 + b div 16), b64Char (b mod 16 * 4)]"
| "b64Encode (a # b # c # r) =
     [b64Char (a div 4), b64Char (a mod 4 * 16 + b div 16), b64Char (b mod 16 * 4 + c div 64), b64Char (c mod 64)] @ b64Encode r"

fun b64Groups :: "nat list \<Rightarrow> nat list" where
  "b64Groups (w # x # y # z # r) = [w * 4 + x div 16, x mod 16 * 16 + y div 4, y mod 4 * 64 + z] @ b64Groups r"
| "b64Groups [w, x, y] = [w * 4 + x div 16, x mod 16 * 16 + y div 4]"
| "b64Groups [w, x] = [w * 4 + x div 16]"
| "b64Groups _ = []"

definition base64url :: "string \<Rightarrow> string" where
  "base64url s = b64Encode (map of_char s)"

definition fromBase64url :: "string \<Rightarrow> string" where
  "fromBase64url s = map char_of (b64Groups (List.map_filter b64Val s))"

section \<open>ExportDownloadTokenService\<close>

text \<open>
  \<open>sign secret text\<close> stands for the HMAC of a text in base64url, which has no dot.
\<close>

type_synonym signer = "string \<Rightarrow> string \<Rightarrow> string"

definition signerLaw :: "signer \<Rightarrow> bool" where
  "signerLaw sign \<longleftrightarrow> (\<forall>secret s. sign secret s \<noteq> [] \<and> CHR ''.'' \<notin> set (sign secret s))"

definition tokenJson :: "oid \<Rightarrow> oid \<Rightarrow> time \<Rightarrow> json" where
  "tokenJson exportId userId expiresAt =
     JObj [(''exportId'', JStr (oidString exportId)), (''userId'', JStr (oidString userId)), (''expiresAt'', JNum expiresAt)]"

definition generateToken :: "signer \<Rightarrow> string \<Rightarrow> oid \<Rightarrow> oid \<Rightarrow> time \<Rightarrow> string" where
  "generateToken sign secret exportId userId expiresAt =
     (let encodedPayload = base64url (JSON_stringify 0 (tokenJson exportId userId expiresAt))
      in encodedPayload @ ''.'' @ sign secret encodedPayload)"

text \<open>
  What a token says. \<open>Date.now() >= expiresAt\<close> compares numbers; a signed token always has one.
\<close>

record tokenPayload =
  tk_exportId :: json
  tk_userId :: json
  tk_expiresAt :: json

definition invalidToken :: err where
  "invalidToken = PlainError ''Invalid download token''"

definition verifyToken :: "signer \<Rightarrow> string \<Rightarrow> time \<Rightarrow> string \<Rightarrow> err + tokenPayload" where
  "verifyToken sign secret t token = (case splitOn CHR ''.'' token of
     encodedPayload # signature # _ \<Rightarrow>
       if encodedPayload = [] \<or> signature = [] then Inl invalidToken
       else if signature \<noteq> sign secret encodedPayload then Inl invalidToken
       else (case JSON_parse (fromBase64url encodedPayload) of
         None \<Rightarrow> Inl invalidToken
       | Some v \<Rightarrow>
           (let p = \<lparr>tk_exportId = propOf ''exportId'' v, tk_userId = propOf ''userId'' v, tk_expiresAt = propOf ''expiresAt'' v\<rparr> in
            if \<not> truthy (tk_exportId p) \<or> \<not> truthy (tk_userId p) \<or> \<not> truthy (tk_expiresAt p) then Inl invalidToken
            else (case tk_expiresAt p of
              JNum n \<Rightarrow> if t \<ge> n then Inl (PlainError ''Download token has expired'') else Inr p
            | _ \<Rightarrow> Inr p)))
   | _ \<Rightarrow> Inl invalidToken)"

section \<open>ExportRepository\<close>

text \<open>\<open>outboxEventId\<close> has a unique index.\<close>

definition ExportRepository_create ::
  "oid option \<Rightarrow> oid \<Rightarrow> oid \<Rightarrow> oid \<Rightarrow> exportFormat \<Rightarrow> exportStatus option \<Rightarrow> exportDoc wprog" where
  "ExportRepository_create ident outboxEventId workspaceId userId fmt status =
     bnd (case ident of None \<Rightarrow> freshId | Some i \<Rightarrow> ret i) (\<lambda>i.
     let x = \<lparr>x_id = i, x_outboxEventId = outboxEventId, x_workspaceId = workspaceId, x_userId = userId, x_format = fmt,
              x_status = (case status of None \<Rightarrow> XQueued | Some st \<Rightarrow> st), x_filePath = None, x_fileName = None,
              x_expiresAt = None, x_error = None\<rparr>
     in andThen (insertUnique exports exports_update (\<lambda>d. x_outboxEventId d = outboxEventId \<or> x_id d = i) x) (ret x))"

definition ExportRepository_findById :: "oid \<Rightarrow> exportDoc option wprog" where
  "ExportRepository_findById i = findOne exports (\<lambda>x. x_id x = i)"

definition ExportRepository_findByOutboxEventId :: "oid \<Rightarrow> exportDoc option wprog" where
  "ExportRepository_findByOutboxEventId i = findOne exports (\<lambda>x. x_outboxEventId x = i)"

definition ExportRepository_update :: "oid \<Rightarrow> (exportDoc \<Rightarrow> exportDoc) \<Rightarrow> exportDoc option wprog" where
  "ExportRepository_update i f = findOneAndUpdate exports exports_update (\<lambda>x. x_id x = i) f"

section \<open>The files\<close>

text \<open>
  \<open>lean\<close> is the plain object the driver gives for a task (without \<open>__v\<close>), \<open>xlsx\<close> the bytes the
  spreadsheet library writes for its rows, \<open>cwd\<close> the directory of the process.
\<close>

record exportEnv =
  lean :: "taskDoc \<Rightarrow> json"
  xlsx :: "props list \<Rightarrow> string"
  cwd :: string
  downloadSecret :: string
  signToken :: signer

definition formatString :: "exportFormat \<Rightarrow> string" where
  "formatString f = (case f of FJson \<Rightarrow> ''json'' | FCsv \<Rightarrow> ''csv'' | FXlsx \<Rightarrow> ''xlsx'')"

definition exportFileName :: "json \<Rightarrow> time \<Rightarrow> string \<Rightarrow> string" where
  "exportFileName workspaceId t extension = ''tasks-'' @ jstring workspaceId @ ''-'' @ showInt t @ ''.'' @ extension"

definition mkdirp :: "unit wprog" where
  "mkdirp = io (ret ())"

definition writeFile :: "string \<Rightarrow> string \<Rightarrow> unit wprog" where
  "writeFile path content = io (modify (\<lambda>s. s\<lparr>files := (files s)(path := Some content)\<rparr>))"

definition writeExport :: "exportEnv \<Rightarrow> json \<Rightarrow> string \<Rightarrow> string \<Rightarrow> (string \<times> string) wprog" where
  "writeExport E workspaceId extension content =
     andThen mkdirp
     (bnd (gets now) (\<lambda>t.
     let filename = exportFileName workspaceId t extension; filePath = cwd E @ ''/exports/'' @ filename in
     andThen (writeFile filePath content) (ret (filePath, filename))))"

definition csvHeaders :: "string list" where
  "csvHeaders = [''id'', ''title'', ''description'', ''status'', ''priority'', ''workspace'', ''owner'', ''dueDate'', ''createdAt'', ''updatedAt'']"

definition csvText :: "json \<Rightarrow> string" where
  "csvText v = (case v of
     JUndef \<Rightarrow> [] | JNull \<Rightarrow> [] | JStr s \<Rightarrow> s | JNum n \<Rightarrow> showInt n | JBool b \<Rightarrow> (if b then ''true'' else ''false'')
   | _ \<Rightarrow> JSON_stringify 0 v)"

definition escapeCsv :: "json \<Rightarrow> string" where
  "escapeCsv v = (let s = csvText v in
     if CHR '','' \<in> set s \<or> quote \<in> set s \<or> CHR 0x0A \<in> set s
     then quote # concat (map (\<lambda>c. if c = quote then [quote, quote] else [c]) s) @ [quote] else s)"

definition csvRow :: "json \<Rightarrow> json list" where
  "csvRow task = map (\<lambda>k. propOf k task) [''_id'', ''title'', ''description'', ''status'', ''priority'', ''workspace'',
     ''owner'', ''dueDate'', ''createdAt'', ''updatedAt'']"

definition csvOf :: "json list \<Rightarrow> string" where
  "csvOf docs = joinWith [CHR 0x0A] (joinWith '','' csvHeaders # map (\<lambda>task. joinWith '','' (map escapeCsv (csvRow task))) docs)"

definition generateJsonExport :: "exportEnv \<Rightarrow> json list \<Rightarrow> json \<Rightarrow> (string \<times> string) wprog" where
  "generateJsonExport E docs workspaceId = writeExport E workspaceId ''json'' (JSON_stringify 2 (JArr docs))"

definition generateCsvExport :: "exportEnv \<Rightarrow> json list \<Rightarrow> json \<Rightarrow> (string \<times> string) wprog" where
  "generateCsvExport E docs workspaceId = writeExport E workspaceId ''csv'' (csvOf docs)"

text \<open>\<open>v?.toString()\<close>\<close>

definition optString :: "json \<Rightarrow> json" where
  "optString v = (if v = JUndef \<or> v = JNull then JUndef else JStr (jstring v))"

definition xlsxRow :: "json \<Rightarrow> props" where
  "xlsxRow task = [(''id'', optString (propOf ''_id'' task)), (''title'', propOf ''title'' task),
     (''description'', propOf ''description'' task), (''status'', propOf ''status'' task), (''priority'', propOf ''priority'' task),
     (''workspace'', optString (propOf ''workspace'' task)), (''owner'', optString (propOf ''owner'' task)),
     (''dueDate'', propOf ''dueDate'' task), (''createdAt'', propOf ''createdAt'' task), (''updatedAt'', propOf ''updatedAt'' task)]"

definition generateXlsxExport :: "exportEnv \<Rightarrow> json list \<Rightarrow> json \<Rightarrow> (string \<times> string) wprog" where
  "generateXlsxExport E docs workspaceId = writeExport E workspaceId ''xlsx'' (xlsx E (map xlsxRow docs))"

section \<open>ExportService\<close>

definition requestTransaction :: "oid \<Rightarrow> oid \<Rightarrow> oid \<Rightarrow> oid \<Rightarrow> exportFormat \<Rightarrow> exportDoc wprog" where
  "requestTransaction exportId outboxEventId workspaceId userId fmt = withTransaction
     (bnd (ExportRepository_create (Some exportId) outboxEventId workspaceId userId fmt (Some XQueued)) (\<lambda>createdExport.
      andThen (OutboxService_create (Some outboxEventId) ''EXPORT_REQUESTED'' ''WORKSPACE'' workspaceId (Some workspaceId)
        [(''exportId'', JStr (oidString exportId)), (''outboxEventId'', JStr (oidString outboxEventId)),
         (''workspaceId'', JStr (oidString workspaceId)), (''userId'', JStr (oidString userId)),
         (''format'', JStr (formatString fmt))])
        (ret createdExport)))"

definition requestExport :: "oid \<Rightarrow> oid \<Rightarrow> exportFormat \<Rightarrow> (oid \<times> oid \<times> exportStatus) wprog" where
  "requestExport workspaceId userId fmt =
     bnd (FeatureFlagsService_isEnabled workspaceId Model.Exports) (\<lambda>enabled.
     andThen (throwIf (\<not> enabled) (Forbidden ''Data exports are disabled for this workspace''))
     (bnd freshId (\<lambda>exportId.
     bnd freshId (\<lambda>outboxEventId.
     andThen startSession
     (bnd (requestTransaction exportId outboxEventId workspaceId userId fmt) (\<lambda>exportRecord.
       ret (x_id exportRecord, outboxEventId, XQueued)))))))"

text \<open>An id in a job is its text; \<open>new ObjectId(s)\<close> rejects what is not one.\<close>

definition oidOf :: "json \<Rightarrow> oid wprog" where
  "oidOf v = orThrow (case v of JStr s \<Rightarrow> readOid s | JOid i \<Rightarrow> Some i | _ \<Rightarrow> None)
     (PlainError ''input must be a 24 character hex string, 12 byte Uint8Array, or an integer'')"

definition exportLifetime :: time where
  "exportLifetime = 15 * 60 * 1000"

definition generateFile :: "exportEnv \<Rightarrow> json \<Rightarrow> json \<Rightarrow> (string \<times> string) wprog" where
  "generateFile E workspaceId fmt =
     bnd (oidOf workspaceId) (\<lambda>w.
     bnd (TaskRepository_findAllForExport w) (\<lambda>ts.
     let docs = map (lean E) ts in
     if fmt = JStr ''json'' then generateJsonExport E docs workspaceId
     else if fmt = JStr ''csv'' then generateCsvExport E docs workspaceId
     else if fmt = JStr ''xlsx'' then generateXlsxExport E docs workspaceId
     else throw (PlainError (''Unsupported export format: '' @ jstring fmt))))"

text \<open>\<open>error: undefined\<close> is left out of both updates.\<close>

definition generateExport :: "exportEnv \<Rightarrow> json \<Rightarrow> json \<Rightarrow> oid \<Rightarrow> unit wprog" where
  "generateExport E workspaceId fmt outboxEventId =
     bnd (ExportRepository_findByOutboxEventId outboxEventId) (\<lambda>found.
     bnd (orThrow found (PlainError (''Export record not found for outbox event '' @ oidString outboxEventId))) (\<lambda>exportRecord.
     andThen (ExportRepository_update (x_id exportRecord) (\<lambda>x. x\<lparr>x_status := XProcessing\<rparr>))
     (tryCatch
       (bnd (generateFile E workspaceId fmt) (\<lambda>(filePath, fileName).
        bnd (gets now) (\<lambda>t.
        andThen (ExportRepository_update (x_id exportRecord) (\<lambda>x. x\<lparr>x_status := XCompleted, x_filePath := Some filePath,
            x_fileName := Some fileName, x_expiresAt := Some (t + exportLifetime)\<rparr>))
          (ret ()))))
       throw)))"

record exportView =
  xv_exportId :: oid
  xv_workspaceId :: oid
  xv_format :: exportFormat
  xv_status :: exportStatus
  xv_fileName :: "string option"
  xv_expiresAt :: "time option"
  xv_token :: "string option"
  xv_error :: "string option"

definition accessDenied :: err where
  "accessDenied = Forbidden ''You do not have access to this export''"

text \<open>The file of a finished export: \<open>filePath\<close>, \<open>fileName\<close> and \<open>expiresAt\<close> are there.\<close>

definition readyFile :: "exportDoc \<Rightarrow> (string \<times> string \<times> time) option" where
  "readyFile x = (case (x_filePath x, x_fileName x, x_expiresAt x) of
     (Some p, Some n, Some e) \<Rightarrow> if p \<noteq> [] \<and> n \<noteq> [] then Some (p, n, e) else None | _ \<Rightarrow> None)"

text \<open>The download address is the path of the export with the token, which is what the model keeps of it.\<close>

definition getExport :: "exportEnv \<Rightarrow> oid \<Rightarrow> oid \<Rightarrow> oid \<Rightarrow> exportView wprog" where
  "getExport E exportId workspaceId userId =
     bnd (ExportRepository_findById exportId) (\<lambda>found.
     bnd (orThrow found (NotFound ''Export not found'')) (\<lambda>x.
     andThen (throwIf (x_workspaceId x \<noteq> workspaceId) accessDenied)
     (andThen (throwIf (x_userId x \<noteq> userId) accessDenied)
     (bnd (gets now) (\<lambda>t.
       ret \<lparr>xv_exportId = x_id x, xv_workspaceId = x_workspaceId x, xv_format = x_format x, xv_status = x_status x,
         xv_fileName = x_fileName x, xv_expiresAt = x_expiresAt x,
         xv_token = (case readyFile x of
             Some (_, _, e) \<Rightarrow> if x_status x = XCompleted \<and> t < e
               then Some (generateToken (signToken E) (downloadSecret E) (x_id x) userId e) else None
           | None \<Rightarrow> None),
         xv_error = x_error x\<rparr>)))))"

definition accessFile :: "string \<Rightarrow> unit wprog" where
  "accessFile path = io (\<lambda>s. if files s path = None then (Inl (PlainError ''ENOENT''), s) else (Inr (), s))"

definition downloadExport :: "exportEnv \<Rightarrow> oid \<Rightarrow> oid \<Rightarrow> oid \<Rightarrow> string \<Rightarrow> (string \<times> string) wprog" where
  "downloadExport E exportId workspaceId userId token =
     bnd (gets now) (\<lambda>t.
     case verifyToken (signToken E) (downloadSecret E) t token of
       Inl _ \<Rightarrow> throw (Unauthorized ''Invalid or expired download token'')
     | Inr p \<Rightarrow>
         andThen (throwIf (tk_exportId p \<noteq> JStr (oidString exportId)) (Unauthorized ''Invalid download token''))
         (andThen (throwIf (tk_userId p \<noteq> JStr (oidString userId)) accessDenied)
         (bnd (ExportRepository_findById exportId) (\<lambda>found.
         bnd (orThrow found (NotFound ''Export not found'')) (\<lambda>x.
         andThen (throwIf (x_workspaceId x \<noteq> workspaceId) accessDenied)
         (andThen (throwIf (x_userId x \<noteq> userId) accessDenied)
         (andThen (throwIf (x_status x \<noteq> XCompleted) (BadRequest ''Export is not ready for download''))
         (bnd (orThrow (case (x_filePath x, x_fileName x) of
             (Some (a # p), Some (b # n)) \<Rightarrow> Some (a # p, b # n) | _ \<Rightarrow> None) (NotFound ''Export file not found'')) (\<lambda>(filePath, fileName).
         bnd (gets now) (\<lambda>t.
         andThen (throwIf (case x_expiresAt x of None \<Rightarrow> True | Some e \<Rightarrow> t \<ge> e) (Unauthorized ''Export download has expired''))
         (andThen (tryCatch (accessFile filePath) (\<lambda>_. throw (NotFound ''Export file is no longer available'')))
         (bnd (gets now) (\<lambda>t.
         andThen (throwIf (case x_expiresAt x of None \<Rightarrow> True | Some e \<Rightarrow> t \<ge> e) (Unauthorized ''Export download has expired''))
           (ret (filePath, fileName)))))))))))))))"

section \<open>ExportProcessor\<close>

text \<open>On the last attempt the export is marked as failed and the job goes to the dead-letter queue.\<close>

definition exportJobFailed :: "job \<Rightarrow> json \<Rightarrow> err \<Rightarrow> unit wprog" where
  "exportJobFailed j exportId e =
     andThen (whenP (isFinalAttempt j)
       (bnd (oidOf exportId) (\<lambda>i.
        andThen (ExportRepository_update i (\<lambda>x. x\<lparr>x_status := XFailed, x_error := Some (errMessage e)\<rparr>))
          (moveToDeadLetterQueue QExport j (errMessage e) (j_attemptsMade j + 1)))))
       (throw e)"

definition ExportProcessor_process :: "exportEnv \<Rightarrow> job \<Rightarrow> unit wprog" where
  "ExportProcessor_process E j =
     bnd (require (j_outboxEventId j) ''Export job is missing outboxEventId'') (\<lambda>outboxEventId.
     bnd (requireType (j_eventType j) ''Export job is missing eventType'') (\<lambda>eventType.
     bnd (require (j_payload j) ''Export job is missing payload'') (\<lambda>payload.
     andThen (throwIf (\<not> truthy (payloadOf ''exportId'' payload)) (PlainError ''Export job is missing exportId''))
     (andThen (throwIf (eventType \<noteq> ''EXPORT_REQUESTED'') (PlainError (''Unsupported export event type: '' @ eventType)))
     (bnd (hasBeenProcessed outboxEventId) (\<lambda>alreadyProcessed.
     if alreadyProcessed then ret ()
     else tryCatch
       (andThen (generateExport E (payloadOf ''workspaceId'' payload) (payloadOf ''format'' payload) outboxEventId)
         (markProcessed outboxEventId eventType))
       (exportJobFailed j (payloadOf ''exportId'' payload))))))))"

end
