(* ===== verification/ExportsSpec.thy ===== *)
theory ExportsSpec
  imports Exports
begin

text \<open>
  What the exports promise: the download token says what it was made from and no other token is
  accepted, a download reaches only the one who asked for the export, and a CSV file read back gives
  the rows it was written from.
\<close>

section \<open>Base64url\<close>

lemma b64Val_char: "n < 64 \<Longrightarrow> b64Val (b64Char n) = Some n"
proof -
  have "list_all (\<lambda>n. b64Val (b64Char n) = Some n) [0..<64]"
    by code_simp
  then show "n < 64 \<Longrightarrow> b64Val (b64Char n) = Some n"
    by (simp add: list_all_iff)
qed

lemma b64Char_plain: "n < 64 \<Longrightarrow> b64Char n \<noteq> CHR ''.''"
proof -
  have "list_all (\<lambda>n. b64Char n \<noteq> CHR ''.'') [0..<64]"
    by code_simp
  then show "n < 64 \<Longrightarrow> b64Char n \<noteq> CHR ''.''"
    by (simp add: list_all_iff)
qed

lemma b64_small:
  assumes "(a::nat) < 256" and "(b::nat) < 256" and "(c::nat) < 256"
  shows "a div 4 < 64" "a mod 4 * 16 < 64" "a mod 4 * 16 + b div 16 < 64" "b mod 16 * 4 < 64"
    "b mod 16 * 4 + c div 64 < 64" "c mod 64 < 64"
  using assms by auto

lemma b64_join:
  assumes "(a::nat) < 256" and "(b::nat) < 256" and "(c::nat) < 256"
  shows "a div 4 * 4 + a mod 4 * 16 div 16 = a" "a div 4 * 4 + (a mod 4 * 16 + b div 16) div 16 = a"
    "(a mod 4 * 16 + b div 16) mod 16 * 16 + b mod 16 * 4 div 4 = b"
    "(a mod 4 * 16 + b div 16) mod 16 * 16 + (b mod 16 * 4 + c div 64) div 4 = b"
    "(b mod 16 * 4 + c div 64) mod 4 * 64 + c mod 64 = c"
proof -
  have pack: "y < m \<Longrightarrow> (x * m + y) div m = x \<and> (x * m + y) mod m = y" for x y m :: nat
    by simp
  have small: "b div 16 < 16" "c div 64 < 4" using assms by auto
  note b16 = pack [OF small(1), of "a mod 4"] and c4 = pack [OF small(2), of "b mod 16"]
  show "a div 4 * 4 + a mod 4 * 16 div 16 = a" "a div 4 * 4 + (a mod 4 * 16 + b div 16) div 16 = a"
    "(a mod 4 * 16 + b div 16) mod 16 * 16 + b mod 16 * 4 div 4 = b"
    "(a mod 4 * 16 + b div 16) mod 16 * 16 + (b mod 16 * 4 + c div 64) div 4 = b"
    "(b mod 16 * 4 + c div 64) mod 4 * 64 + c mod 64 = c"
    by (simp_all only: b16 c4 div_mult_mod_eq nonzero_mult_div_cancel_right mult_div_mod_eq simp_thms)
qed

lemma b64_roundtrip:
  "\<forall>b\<in>set bs. b < 256 \<Longrightarrow> b64Groups (List.map_filter b64Val (b64Encode bs)) = bs"
proof (induction bs rule: b64Encode.induct)
  case (2 a)
  then have a: "a < 256" by simp
  show ?case
    by (simp only: b64Encode.simps List.map_filter_simps b64Val_char b64_small(1-2) [OF a a a] option.case b64Groups.simps b64_join(1) [OF a a a])
next
  case (3 a b)
  then have a: "a < 256" and b: "b < 256" by simp_all
  show ?case
    by (simp only: b64Encode.simps List.map_filter_simps b64Val_char b64_small [OF a b b] option.case b64Groups.simps b64_join [OF a b b])
next
  case (4 a b c r)
  then have a: "a < 256" and b: "b < 256" and c: "c < 256" by simp_all
  have "b64Groups (List.map_filter b64Val (b64Encode r)) = r" using 4 by simp
  then show ?case
    by (simp only: b64Encode.simps append.simps List.map_filter_simps b64Val_char b64_small [OF a b c] option.case b64Groups.simps
        b64_join [OF a b c])
qed (simp add: List.map_filter_simps)

lemma fromBase64url_base64url: "fromBase64url (base64url s) = s"
  by (simp add: fromBase64url_def base64url_def b64_roundtrip comp_def)

lemma base64url_no_dot: "CHR ''.'' \<notin> set (base64url s)"
proof -
  have "\<forall>b\<in>set bs. b < 256 \<Longrightarrow> CHR ''.'' \<notin> set (b64Encode bs)" for bs
  proof (induction bs rule: b64Encode.induct)
    case (2 a)
    then show ?case using b64_small [of a 0 0] b64Char_plain [symmetric] by simp
  next
    case (3 a b)
    then show ?case using b64_small [of a b 0] b64Char_plain [symmetric] by simp
  next
    case (4 a b c r)
    then show ?case using b64_small [of a b c] b64Char_plain [symmetric] by simp
  qed simp
  then show ?thesis by (simp add: base64url_def)
qed

lemma base64url_nonempty: "s \<noteq> [] \<Longrightarrow> base64url s \<noteq> []"
  unfolding base64url_def by (cases "map of_char s :: nat list" rule: b64Encode.cases) simp_all

section \<open>Tokens\<close>

lemma oidString_nonempty [simp]: "oidString i \<noteq> []"
  by (cases "hexNat i = []") (simp_all add: oidString_def padLeft_def)

definition tokenOf :: "oid \<Rightarrow> oid \<Rightarrow> time \<Rightarrow> tokenPayload" where
  "tokenOf exportId userId expiresAt = \<lparr>tk_exportId = JStr (oidString exportId), tk_userId = JStr (oidString userId),
     tk_expiresAt = JNum expiresAt\<rparr>"

lemma parse_tokenJson: "JSON_parse (JSON_stringify 0 (tokenJson x u e)) = Some (tokenJson x u e)"
  by (subst parse_stringify) (simp_all add: tokenJson_def)

lemma propOf_tokenJson [simp]:
  "propOf ''exportId'' (tokenJson x u e) = JStr (oidString x)" "propOf ''userId'' (tokenJson x u e) = JStr (oidString u)"
  "propOf ''expiresAt'' (tokenJson x u e) = JNum e"
  by (simp_all add: tokenJson_def propOf_def)

lemma truthy_oid [simp]: "truthy (JStr (oidString i))"
  by (cases "oidString i") simp_all

lemma export_token_roundtrip_at:
  assumes "signerLaw sign" and "e \<noteq> 0"
  shows "verifyToken sign secret t (generateToken sign secret exportId userId e) =
    (if t < e then Inr (tokenOf exportId userId e) else Inl (PlainError ''Download token has expired''))"
proof -
  define p where "p = base64url (JSON_stringify 0 (tokenJson exportId userId e))"
  have p: "p \<noteq> []" "CHR ''.'' \<notin> set p"
    by (simp_all add: p_def base64url_nonempty base64url_no_dot)
  have sg: "sign secret p \<noteq> []" "CHR ''.'' \<notin> set (sign secret p)"
    using assms(1) by (simp_all add: signerLaw_def)
  have "splitOn CHR ''.'' (p @ ''.'' @ sign secret p) = [p, sign secret p]"
    using p sg by (simp add: splitOn_append splitOn_plain)
  moreover have "JSON_parse (fromBase64url p) = Some (tokenJson exportId userId e)"
    by (simp add: p_def fromBase64url_base64url parse_tokenJson)
  ultimately show ?thesis
    using p sg assms(2) by (simp add: verifyToken_def generateToken_def p_def [symmetric] Let_def tokenOf_def)
qed

text \<open>
  A download token says what it was made from until it expires, and is refused afterwards: the
  payload passes through JSON, base64url and the signature and comes back unchanged.
\<close>

theorem export_token_roundtrip:
  assumes "signerLaw sign" and "e \<noteq> 0"
  shows "verifyToken sign secret t (generateToken sign secret exportId userId e) =
    (if t < e then Inr (tokenOf exportId userId e) else Inl (PlainError ''Download token has expired''))"
  using assms by (rule export_token_roundtrip_at)

text \<open>An accepted token carries the signature of its own first part and has not expired.\<close>

lemma verifyToken_signed:
  assumes "verifyToken sign secret t token = Inr p"
  shows "\<exists>payload rest. splitOn CHR ''.'' token = payload # sign secret payload # rest \<and>
    (\<forall>n. tk_expiresAt p = JNum n \<longrightarrow> t < n)"
proof -
  obtain payload signature rest where sp: "splitOn CHR ''.'' token = payload # signature # rest"
    using assms by (auto simp: verifyToken_def split: list.splits)
  with assms have sg: "signature = sign secret payload"
    by (simp add: verifyToken_def split: if_splits)
  with sp assms obtain v where "JSON_parse (fromBase64url payload) = Some v"
    by (cases "JSON_parse (fromBase64url payload)") (simp_all add: verifyToken_def split: if_splits)
  with sp sg assms have "\<forall>n. tk_expiresAt p = JNum n \<longrightarrow> t < n"
    by (cases "propOf ''expiresAt'' v") (auto simp: verifyToken_def Let_def split: if_splits)
  with sp sg show ?thesis by blast
qed

section \<open>Downloads\<close>

lemma accessFile_ok:
  "tryCatch (accessFile f) (\<lambda>_. throw e) s = (Inr (), t) \<Longrightarrow> files s f \<noteq> None \<and> t = s\<lparr>faults := faults t\<rparr>"
  by (auto simp: tryCatch_run accessFile_def io_run split: prod.splits sum.splits list.splits option.splits if_splits)

lemma filePair_ok:
  "(case (a, b) of (Some (c # p), Some (d # n)) \<Rightarrow> Some (c # p, d # n) | _ \<Rightarrow> None) = Some (f, g) \<Longrightarrow> a = Some f \<and> b = Some g"
  by (auto split: option.splits list.splits)

text \<open>
  C34: a download succeeds only with a token that this server signed for this export and this user, that
  is not expired, for an export of this workspace asked for by this user, completed, not expired, with its
  file still there; it changes nothing.
\<close>

theorem download_authorized:
  assumes "downloadExport E exportId workspaceId userId token s = (Inr (filePath, fileName), t)"
  shows "\<exists>p x payload rest. verifyToken (signToken E) (downloadSecret E) (now s) token = Inr p \<and>
    splitOn CHR ''.'' token = payload # signToken E (downloadSecret E) payload # rest \<and>
    tk_exportId p = JStr (oidString exportId) \<and> tk_userId p = JStr (oidString userId) \<and>
    x \<in> set (exports (db s)) \<and> x_id x = exportId \<and> x_workspaceId x = workspaceId \<and> x_userId x = userId \<and>
    x_status x = XCompleted \<and> (\<exists>e. x_expiresAt x = Some e \<and> now s < e) \<and>
    x_filePath x = Some filePath \<and> x_fileName x = Some fileName \<and> files s filePath \<noteq> None \<and> t = s\<lparr>faults := faults t\<rparr>"
proof -
  obtain p where p: "verifyToken (signToken E) (downloadSecret E) (now s) token = Inr p"
    using assms by (cases "verifyToken (signToken E) (downloadSecret E) (now s) token") (auto simp: downloadExport_def bnd_run)
  from verifyToken_signed [OF p] obtain payload rest where
    sp: "splitOn CHR ''.'' token = payload # signToken E (downloadSecret E) payload # rest" by blast
  from assms p obtain x s1 s2 where x: "ExportRepository_findById exportId s = (Inr (Some x), s1)"
    and chk: "tk_exportId p = JStr (oidString exportId)" "tk_userId p = JStr (oidString userId)"
      "x_workspaceId x = workspaceId" "x_userId x = userId" "x_status x = XCompleted"
    and pair: "(case (x_filePath x, x_fileName x) of (Some (c # p), Some (d # n)) \<Rightarrow> Some (c # p, d # n) | _ \<Rightarrow> None) = Some (filePath, fileName)"
    and alive: "\<not> (case x_expiresAt x of None \<Rightarrow> True | Some e \<Rightarrow> now s1 \<ge> e)"
    and opened: "tryCatch (accessFile filePath) (\<lambda>_. throw (NotFound ''Export file is no longer available'')) s1 = (Inr (), s2)"
    and t: "t = s2"
    by (auto simp: downloadExport_def ok_iff simp del: throwIf_run)
  obtain f1 where s1: "x \<in> set (exports (db s))" "x_id x = exportId" "s1 = s\<lparr>faults := f1\<rparr>"
    using exportsC.findOne_ok [OF x [unfolded ExportRepository_findById_def]] by (auto dest: find_SomeD sym)
  obtain f2 where "files s1 filePath \<noteq> None" "s2 = s1\<lparr>faults := f2\<rparr>"
    using accessFile_ok [OF opened] by blast
  then have s2: "files s filePath \<noteq> None" "s2 = s\<lparr>faults := f2\<rparr>"
    by (simp_all add: s1(3))
  show ?thesis
    using p sp chk s1 s2 filePair_ok [OF pair] alive t
    by (auto split: option.splits)
qed

lemma download_run:
  assumes "faults r = []" and "List.find (\<lambda>x. x_id x = i) (exports (db r)) = Some x" and "x_workspaceId x = w" and "x_userId x = u"
    and "x_status x = XCompleted" and "x_filePath x = Some (p0 # ps)" and "x_fileName x = Some (n0 # ns)"
    and "x_expiresAt x = Some e" and "now r < e" and "files r (p0 # ps) \<noteq> None"
    and "verifyToken (signToken E) (downloadSecret E) (now r) token = Inr (tokenOf i u e')"
  shows "downloadExport E i w u token r = (Inr (p0 # ps, n0 # ns), r)"
proof -
  have "ExportRepository_findById i r = (Inr (Some x), r)"
    using assms(1,2) by (simp add: ExportRepository_findById_def)
  with assms show ?thesis
    by (simp add: downloadExport_def bnd_run tokenOf_def andThen_run tryCatch_run accessFile_def)
qed

text \<open>
  The token that the status of an export shows opens the download, for the same user, until the
  export expires and as long as its record and its file are there.
\<close>

theorem download_link_works:
  assumes "getExport E i w u s = (Inr v, t)" and "xv_token v = Some token" and "signerLaw (signToken E)"
    and "List.find (\<lambda>x. x_id x = i) (exports (db r)) = Some x" and "x \<in> set (exports (db s))" and "distinct (map x_id (exports (db s)))"
    and "x_expiresAt x = Some e" and "0 \<le> now r" and "now r < e" and "files r (the (x_filePath x)) \<noteq> None" and "faults r = []"
  shows "downloadExport E i w u token r = (Inr (the (x_filePath x), the (x_fileName x)), r)"
proof -
  from assms(1) obtain y s1 where y: "ExportRepository_findById i s = (Inr (Some y), s1)"
    and own: "x_workspaceId y = w" "x_userId y = u"
    and tok: "xv_token v = (case readyFile y of
             Some (_, _, e) \<Rightarrow> if x_status y = XCompleted \<and> now s1 < e
               then Some (generateToken (signToken E) (downloadSecret E) (x_id y) u e) else None
           | None \<Rightarrow> None)"
    by (auto simp: getExport_def ok_iff simp del: throwIf_run)
  have "List.find (\<lambda>x. x_id x = i) (exports (db s)) = Some y"
    using exportsC.findOne_ok [OF y [unfolded ExportRepository_findById_def]] by simp
  moreover have xi: "x_id x = i" using assms(4) by (auto dest: find_SomeD)
  moreover have "List.find (\<lambda>z. x_id z = i) (exports (db s)) = Some x"
    using distinct_map_filter_find [OF assms(6,5)] xi by simp
  ultimately have yx: "y = x" by simp
  obtain p n where ready: "readyFile x = Some (p, n, e)" and st: "x_status x = XCompleted"
    and token: "token = generateToken (signToken E) (downloadSecret E) i u e"
    using tok assms(2,7) xi yx by (auto simp: readyFile_def split: option.splits if_splits)
  have "e \<noteq> 0" using assms(8,9) by simp
  then have ver: "verifyToken (signToken E) (downloadSecret E) (now r) token = Inr (tokenOf i u e)"
    using export_token_roundtrip_at [OF assms(3)] assms(9) by (simp add: token)
  obtain p0 ps n0 ns where f: "x_filePath x = Some (p0 # ps)" "x_fileName x = Some (n0 # ns)"
    using ready by (auto simp: readyFile_def neq_Nil_conv split: option.splits if_splits)
  show ?thesis
    using download_run [OF assms(11,4) _ _ st f assms(7,9) _ ver] own yx assms(10) by (simp add: f)
qed

section \<open>A finished export\<close>

definition demoSigner :: signer where
  "demoSigner secret s = CHR ''s'' # filter (\<lambda>c. c \<noteq> CHR ''.'') secret"

lemma demoSigner_law: "signerLaw demoSigner"
  by (simp add: signerLaw_def demoSigner_def)

definition demoEnv :: exportEnv where
  "demoEnv = \<lparr>lean = (\<lambda>t. JObj [(''_id'', JOid (t_id t)), (''title'', t_title t)]), xlsx = (\<lambda>rows. ''x''), cwd = ''/app'',
     downloadSecret = ''k'', signToken = demoSigner\<rparr>"

lemma demoEnv_sel [simp]: "signToken demoEnv = demoSigner" "downloadSecret demoEnv = ''k''"
  by (simp_all add: demoEnv_def)

definition demoExport :: exportDoc where
  "demoExport = \<lparr>x_id = 7, x_outboxEventId = 8, x_workspaceId = 3, x_userId = 5, x_format = FCsv, x_status = XCompleted,
     x_filePath = Some ''/app/exports/t.csv'', x_fileName = Some ''t.csv'', x_expiresAt = Some 5000, x_error = None\<rparr>"

definition demoExported :: world where
  "demoExported = world0\<lparr>db := emptyDb\<lparr>exports := [demoExport]\<rparr>, files := [''/app/exports/t.csv'' \<mapsto> ''id'']\<rparr>"

lemma demoExported_sel [simp]:
  "faults demoExported = []" "now demoExported = 1000" "exports (db demoExported) = [demoExport]"
  "files demoExported ''/app/exports/t.csv'' = Some ''id''"
  by (simp_all add: demoExported_def)

lemma demoExport_sel [simp]:
  "x_id demoExport = 7" "x_workspaceId demoExport = 3" "x_userId demoExport = 5" "x_status demoExport = XCompleted"
  "x_filePath demoExport = Some ''/app/exports/t.csv''" "x_fileName demoExport = Some ''t.csv''" "x_expiresAt demoExport = Some 5000"
  by (simp_all add: demoExport_def)

lemma export_token_roundtrip_witness:
  "verifyToken demoSigner ''k'' 1000 (generateToken demoSigner ''k'' 7 5 5000) = Inr (tokenOf 7 5 5000)"
  using export_token_roundtrip [OF demoSigner_law, of 5000 "''k''" 1000 7 5] by simp

lemma download_authorized_witness:
  "\<exists>p. verifyToken demoSigner ''k'' 1000 (generateToken demoSigner ''k'' 7 5 5000) = Inr p \<and> tk_userId p = JStr (oidString 5)"
proof -
  have ver: "verifyToken (signToken demoEnv) (downloadSecret demoEnv) (now demoExported) (generateToken demoSigner ''k'' 7 5 5000) = Inr (tokenOf 7 5 5000)"
    using export_token_roundtrip_at [OF demoSigner_law, of 5000 "''k''" 1000 7 5] by simp
  have run: "downloadExport demoEnv 7 3 5 (generateToken demoSigner ''k'' 7 5 5000) demoExported =
      (Inr (''/app/exports/t.csv'', ''t.csv''), demoExported)"
    by (rule download_run [where x = demoExport and e = 5000, OF _ _ _ _ _ _ _ _ _ _ ver]) simp_all
  from download_authorized [OF run] show ?thesis by auto
qed

lemma download_link_works_witness:
  "\<exists>v t token. getExport demoEnv 7 3 5 demoExported = (Inr v, t) \<and> xv_token v = Some token \<and>
     downloadExport demoEnv 7 3 5 token demoExported = (Inr (''/app/exports/t.csv'', ''t.csv''), demoExported)"
proof -
  obtain v where run: "getExport demoEnv 7 3 5 demoExported = (Inr v, demoExported)"
    and token: "xv_token v = Some (generateToken demoSigner ''k'' 7 5 5000)"
    by (simp add: getExport_def bnd_run andThen_run ExportRepository_findById_def readyFile_def)
  have law: "signerLaw (signToken demoEnv)" by (simp add: demoSigner_law)
  from download_link_works [OF run token law, of demoExported demoExport 5000] run token show ?thesis
    by simp
qed

section \<open>CSV\<close>

text \<open>
  A reader of comma separated values after RFC 4180: \<open>csvGo quoted field row rest\<close>, with the field and
  the row read so far in reverse.
\<close>

fun csvGo :: "bool \<Rightarrow> string \<Rightarrow> string list \<Rightarrow> string \<Rightarrow> string list list" where
  "csvGo q cur row [] = [rev (rev cur # row)]"
| "csvGo False cur row (c # cs) =
     (if c = CHR '','' then csvGo False [] (rev cur # row) cs
      else if c = CHR 0x0A then rev (rev cur # row) # csvGo False [] [] cs
      else if c = quote \<and> cur = [] then csvGo True [] row cs
      else csvGo False (c # cur) row cs)"
| "csvGo True cur row (c # cs) =
     (if c = quote then
        (if take 1 cs = [quote] then csvGo True (quote # cur) row (drop 1 cs) else csvGo False cur row cs)
      else csvGo True (c # cur) row cs)"

definition csvRead :: "string \<Rightarrow> string list list" where
  "csvRead s = csvGo False [] [] s"

definition fieldEnd :: "string \<Rightarrow> bool" where
  "fieldEnd r = (case r of [] \<Rightarrow> True | c # _ \<Rightarrow> c = CHR '','' \<or> c = CHR 0x0A)"

lemma csvGo_plain:
  "CHR '','' \<notin> set s \<Longrightarrow> CHR 0x0A \<notin> set s \<Longrightarrow> quote \<notin> set s \<Longrightarrow> csvGo False cur row (s @ r) = csvGo False (rev s @ cur) row r"
  by (induction s arbitrary: cur) auto

lemma csvGo_quoted:
  "fieldEnd r \<Longrightarrow> csvGo True cur row (concat (map (\<lambda>c. if c = quote then [quote, quote] else [c]) s) @ quote # r) =
     csvGo False (rev s @ cur) row r"
proof (induction s arbitrary: cur)
  case Nil
  then show ?case by (cases r) (auto simp: fieldEnd_def quote_def)
qed auto

lemma csvGo_field:
  assumes "fieldEnd r"
  shows "csvGo False [] row (escapeCsv v @ r) = csvGo False (rev (csvText v)) row r"
proof (cases "CHR '','' \<in> set (csvText v) \<or> quote \<in> set (csvText v) \<or> CHR 0x0A \<in> set (csvText v)")
  case True
  have "quote \<noteq> CHR '',''" "quote \<noteq> CHR 0x0A" by (simp_all add: quote_def)
  with True show ?thesis
    using csvGo_quoted [OF assms, of "[]" row "csvText v"] by (simp add: escapeCsv_def Let_def)
next
  case False
  then show ?thesis
    using csvGo_plain [of "csvText v" "[]" row r] by (simp add: escapeCsv_def Let_def)
qed

lemma csvGo_row:
  assumes "vs \<noteq> []" and "r = [] \<or> (\<exists>q. r = CHR 0x0A # q)"
  shows "csvGo False [] row (joinWith '','' (map escapeCsv vs) @ r) =
    (rev row @ map csvText vs) # (case r of [] \<Rightarrow> [] | _ # q \<Rightarrow> csvGo False [] [] q)"
  using assms(1)
proof (induction vs arbitrary: row rule: list_nonempty_induct)
  case (single v)
  have "fieldEnd r" using assms(2) by (auto simp: fieldEnd_def)
  then have "csvGo False [] row (escapeCsv v @ r) = csvGo False (rev (csvText v)) row r" by (rule csvGo_field)
  then show ?case using assms(2) by auto
next
  case (cons v vs)
  obtain u us where vs: "vs = u # us" using cons.hyps by (cases vs) auto
  have "fieldEnd (CHR '','' # joinWith '','' (map escapeCsv vs) @ r)" by (simp add: fieldEnd_def)
  then have "csvGo False [] row (escapeCsv v @ CHR '','' # joinWith '','' (map escapeCsv vs) @ r) =
      csvGo False [] (csvText v # row) (joinWith '','' (map escapeCsv vs) @ r)"
    by (simp add: csvGo_field)
  with cons.IH [of "csvText v # row"] show ?case by (simp add: vs)
qed

lemma csvRow_nonempty [simp]: "csvRow d \<noteq> []" "map escapeCsv (csvRow d) \<noteq> []"
  by (simp_all add: csvRow_def)

lemma csvGo_rows:
  assumes "vss \<noteq> []" and "\<forall>vs\<in>set vss. vs \<noteq> []"
  shows "csvGo False [] [] (joinWith [CHR 0x0A] (map (\<lambda>vs. joinWith '','' (map escapeCsv vs)) vss)) = map (map csvText) vss"
  using assms
proof (induction vss rule: list_nonempty_induct)
  case (single vs)
  then show ?case using csvGo_row [of vs "[]" "[]"] by simp
next
  case (cons vs vss)
  obtain u us where vss: "vss = u # us" using cons.hyps by (cases vss) auto
  from cons show ?case
    using csvGo_row [of vs "CHR 0x0A # joinWith [CHR 0x0A] (map (\<lambda>vs. joinWith '','' (map escapeCsv vs)) vss)" "[]"]
    by (simp add: vss)
qed

text \<open>
  C35: a CSV export read back by a standard reader gives the headers and, for every task of the
  export in order, the texts of its ten columns, whatever commas, quotes and line feeds they hold.
\<close>

theorem csv_roundtrip:
  "csvRead (csvOf docs) = csvHeaders # map (\<lambda>task. map csvText (csvRow task)) docs"
proof -
  have h: "map (\<lambda>h. escapeCsv (JStr h)) csvHeaders = csvHeaders" "map (\<lambda>h. csvText (JStr h)) csvHeaders = csvHeaders"
    by (simp_all add: csvHeaders_def escapeCsv_def csvText_def quote_def)
  have "csvGo False [] [] (joinWith [CHR 0x0A] (map (\<lambda>vs. joinWith '','' (map escapeCsv vs)) (map JStr csvHeaders # map csvRow docs))) =
      map (map csvText) (map JStr csvHeaders # map csvRow docs)"
    by (rule csvGo_rows) (auto simp: csvHeaders_def)
  then show ?thesis
    by (simp only: csvRead_def csvOf_def list.map h map_map comp_def)
qed

text \<open>An id or a date is an object, so its column holds its JSON text: the value within quotes.\<close>

lemma csv_objects_quoted: "csvText (JOid i) = quoteJson (oidString i)" "csvText (JDate t) = quoteJson (isoString t)"
  by (simp_all add: csvText_def JSON_stringify_def)

end
