(* ===== verification/WebhooksSpec.thy ===== *)
theory WebhooksSpec
  imports Webhooks External
begin

text \<open>
  What the delivery of webhooks promises: without failures of the database every subscribed address
  gets one signed request, and the records tell which answered well; under any failures at most one
  delivery of an event to a webhook is recorded as a success, and after it no request is sent again.
\<close>

section \<open>Records of deliveries\<close>

definition succeeded :: "webhookDoc \<Rightarrow> oid \<Rightarrow> world \<Rightarrow> bool" where
  "succeeded w e s \<longleftrightarrow> (\<exists>d\<in>set (webhookDeliveries (db s)). d_webhookId d = h_id w \<and> d_outboxEventId d = e \<and> d_status d = WSuccess)"

definition freshDeliveries :: "world \<Rightarrow> bool" where
  "freshDeliveries s \<longleftrightarrow> (\<forall>d\<in>set (webhookDeliveries (db s)). d_id d < nextId s)"

text \<open>The answer of the outside to one request.\<close>

definition answeredWell :: "network \<Rightarrow> nat \<Rightarrow> httpCall \<Rightarrow> bool" where
  "answeredWell net n c \<longleftrightarrow> (case snd (net n c) of Inl _ \<Rightarrow> False | Inr (status, _) \<Rightarrow> responseOk status)"

subsection \<open>The record that was just created\<close>

definition lastDocStep :: "oid \<Rightarrow> world \<Rightarrow> world \<Rightarrow> bool" where
  "lastDocStep i s t \<longleftrightarrow> nextId t = nextId s \<and>
     (\<forall>ds d. webhookDeliveries (db s) = ds @ [d] \<longrightarrow> d_id d = i \<longrightarrow> (\<forall>x\<in>set ds. d_id x \<noteq> i) \<longrightarrow>
       (\<exists>d'. webhookDeliveries (db t) = ds @ [d'] \<and> d_id d' = i \<and> d_webhookId d' = d_webhookId d \<and>
          d_outboxEventId d' = d_outboxEventId d))"

interpretation lastDoc: step_order "lastDocStep i" for i
proof
  show "lastDocStep i s s" for s by (simp add: lastDocStep_def)
  show "lastDocStep i s u" if "lastDocStep i s t" and "lastDocStep i t u" for s t u
    using that unfolding lastDocStep_def by metis
qed

lemma updateFirst_last:
  "\<forall>x\<in>set ds. \<not> p x \<Longrightarrow> p d \<Longrightarrow> updateFirst p f (ds @ [d]) = ds @ [f d]"
  by (induction ds) auto

lemma lastDoc_same: "nextId t = nextId s \<Longrightarrow> webhookDeliveries (db t) = webhookDeliveries (db s) \<Longrightarrow> lastDocStep i s t"
  by (simp add: lastDocStep_def)

lemma lastDoc_update:
  assumes "\<And>d. d_id (f d) = d_id d \<and> d_webhookId (f d) = d_webhookId d \<and> d_outboxEventId (f d) = d_outboxEventId d"
  shows "stays (lastDocStep i) (WebhookDeliveryRepository_update i f)"
proof (rule staysI)
  fix s
  have eff: "lastDocStep i s (s\<lparr>faults := fs\<rparr>) \<and> lastDocStep i s (snd (case List.find (\<lambda>d. d_id d = i) (webhookDeliveries (db (s\<lparr>faults := fs\<rparr>))) of
      None \<Rightarrow> (Inr None, s\<lparr>faults := fs\<rparr>)
    | Some d \<Rightarrow> (Inr (Some (f d)), (s\<lparr>faults := fs\<rparr>)\<lparr>db := webhookDeliveries_update (\<lambda>_. updateFirst (\<lambda>d. d_id d = i) f
        (webhookDeliveries (db (s\<lparr>faults := fs\<rparr>)))) (db (s\<lparr>faults := fs\<rparr>))\<rparr>)))" for fs
  proof (cases "List.find (\<lambda>d. d_id d = i) (webhookDeliveries (db s))")
    case None
    then show ?thesis by (simp add: lastDoc_same)
  next
    case (Some d)
    have "updateFirst (\<lambda>d. d_id d = i) f (ds @ [d]) = ds @ [f d]" if "d_id d = i" "\<forall>x\<in>set ds. d_id x \<noteq> i" for ds d
      using that by (intro updateFirst_last) auto
    with Some assms show ?thesis by (auto simp: lastDocStep_def)
  qed
  show "lastDocStep i s (snd (WebhookDeliveryRepository_update i f s))"
    unfolding WebhookDeliveryRepository_update_def findOneAndUpdate_def
    by (rule snd_io) (rule eff)
qed

lemma lastDoc_fetch: "stays (lastDocStep i) (httpFetch net c)"
  by (rule staysI) (auto simp: httpFetch_def Let_def lastDocStep_def split: prod.splits sum.splits)

lemma lastDoc_attempt: "stays (lastDocStep i) (attemptDelivery X net w e ty p i startedAt)"
  unfolding attemptDelivery_def
  by (intro lastDoc.stays_bnd lastDoc_fetch) (auto split: prod.splits intro!: lastDoc.stays_rules lastDoc_update)

lemma lastDoc_recordFailed: "stays (lastDocStep i) (recordFailedDelivery i startedAt err)"
  unfolding recordFailedDelivery_def
  by (intro lastDoc.stays_rules lastDoc_update) simp

subsection \<open>One delivery, whatever fails\<close>

lemma deliver_shape:
  assumes "freshDeliveries s" and "WebhookDeliveryService_deliver X net w e ty p k s = (r, t)"
  shows "freshDeliveries t \<and> (webhookDeliveries (db t) = webhookDeliveries (db s) \<or>
    \<not> succeeded w e s \<and> (\<exists>d. webhookDeliveries (db t) = webhookDeliveries (db s) @ [d] \<and> d_webhookId d = h_id w \<and> d_outboxEventId d = e))"
proof -
  let ?find = "WebhookDeliveryRepository_findSuccessfulDelivery (h_id w) e"
  let ?create = "WebhookDeliveryRepository_create (h_id w) e ty k (Some WPending)"
  obtain x s1 where f: "?find s = (x, s1)" by (cases "?find s")
  have s1: "webhookDeliveries (db s1) = webhookDeliveries (db s)" "nextId s1 = nextId s"
    using f by (auto simp: WebhookDeliveryRepository_findSuccessfulDelivery_def findOne_def io_run split: list.splits option.splits)
  have old: ?thesis if "webhookDeliveries (db t) = webhookDeliveries (db s)" "nextId s \<le> nextId t"
    using assms(1) that by (auto simp: freshDeliveries_def)
  show ?thesis
  proof (cases "x = Inr None")
    case False
    with assms(2) f have "t = s1"
      by (cases x) (auto simp: WebhookDeliveryService_deliver_def bnd_run split: if_splits)
    with s1 old show ?thesis by simp
  next
    case True
    have ns: "\<not> succeeded w e s"
      using webhookDeliveriesC.findOne_ok [OF f [unfolded WebhookDeliveryRepository_findSuccessfulDelivery_def True]]
      by (auto simp: succeeded_def dest!: sym [of None] simp: find_None_iff_all)
    obtain y s2 where c: "?create s1 = (y, s2)" by (cases "?create s1")
    show ?thesis
    proof (cases y)
      case (Inl err)
      with c have "webhookDeliveries (db s2) = webhookDeliveries (db s1)" "nextId s1 \<le> nextId s2"
        by (auto simp: WebhookDeliveryRepository_create_def Let_def bnd_run andThen_run insertOne_def io_run split: list.splits option.splits)
      moreover have "t = s2"
        using assms(2) f True c Inl by (simp add: WebhookDeliveryService_deliver_def bnd_run)
      ultimately show ?thesis using s1 old by simp
    next
      case (Inr d)
      with c have d: "webhookDeliveries (db s2) = webhookDeliveries (db s1) @ [d]" "nextId s2 = Suc (nextId s1)" "d_id d = nextId s1"
        "d_webhookId d = h_id w" "d_outboxEventId d = e"
        by (auto simp: WebhookDeliveryRepository_create_def Let_def ok_iff insertOne_def)
      have "stays (lastDocStep (d_id d)) (tryCatch (attemptDelivery X net w e ty p (d_id d) (now s2)) (recordFailedDelivery (d_id d) (now s2)))"
        by (intro lastDoc.stays_tryCatch lastDoc_attempt lastDoc_recordFailed)
      moreover have "tryCatch (attemptDelivery X net w e ty p (d_id d) (now s2)) (recordFailedDelivery (d_id d) (now s2)) s2 = (r, t)"
        using assms(2) f True c Inr by (simp add: WebhookDeliveryService_deliver_def bnd_run)
      ultimately have step: "lastDocStep (d_id d) s2 t" by (rule staysD)
      have "\<forall>z\<in>set (webhookDeliveries (db s)). d_id z \<noteq> d_id d"
        using assms(1) s1 d by (auto simp: freshDeliveries_def)
      with step d s1 obtain d' where d': "webhookDeliveries (db t) = webhookDeliveries (db s) @ [d']" "d_id d' = nextId s"
        "d_webhookId d' = h_id w" "d_outboxEventId d' = e" "nextId t = Suc (nextId s)"
        unfolding lastDocStep_def by auto
      with assms(1) have "freshDeliveries t" by (auto simp: freshDeliveries_def)
      with d' ns show ?thesis by blast
    qed
  qed
qed

subsection \<open>At most one success\<close>

definition successes :: "oid \<Rightarrow> oid \<Rightarrow> world \<Rightarrow> nat" where
  "successes w e s = length (filter (\<lambda>d. d_webhookId d = w \<and> d_outboxEventId d = e \<and> d_status d = WSuccess) (webhookDeliveries (db s)))"

text \<open>What every step of a delivery keeps.\<close>

definition deliveryOrder :: "world \<Rightarrow> world \<Rightarrow> bool" where
  "deliveryOrder s t \<longleftrightarrow> (freshDeliveries s \<longrightarrow> freshDeliveries t \<and>
     ((\<forall>w e. successes w e s \<le> 1) \<longrightarrow> (\<forall>w e. successes w e t \<le> 1)) \<and>
     (\<forall>w e. succeeded w e s \<longrightarrow> succeeded w e t))"

interpretation deliveryOrder: step_order deliveryOrder
proof
  show "deliveryOrder s s" for s by (simp add: deliveryOrder_def)
  show "deliveryOrder s u" if "deliveryOrder s t" and "deliveryOrder t u" for s t u
    using that unfolding deliveryOrder_def by blast
qed

lemma deliveryOrder_same:
  "webhookDeliveries (db t) = webhookDeliveries (db s) \<Longrightarrow> nextId s \<le> nextId t \<Longrightarrow> deliveryOrder s t"
  by (auto simp: deliveryOrder_def freshDeliveries_def successes_def succeeded_def)

lemma deliveryOrder_deliver: "stays deliveryOrder (WebhookDeliveryService_deliver X net w e ty p k)"
proof (rule staysI)
  fix s
  obtain r t where run: "WebhookDeliveryService_deliver X net w e ty p k s = (r, t)"
    by (cases "WebhookDeliveryService_deliver X net w e ty p k s")
  have "deliveryOrder s t"
    unfolding deliveryOrder_def
  proof (intro impI)
    assume fresh: "freshDeliveries s"
    note shape = deliver_shape [OF fresh run]
    from shape have "freshDeliveries t" by blast
    moreover have "\<forall>w e. successes w e t \<le> 1" if "\<forall>w e. successes w e s \<le> 1"
    proof (intro allI)
      fix w' e'
      from shape consider "webhookDeliveries (db t) = webhookDeliveries (db s)"
        | d where "\<not> succeeded w e s" "webhookDeliveries (db t) = webhookDeliveries (db s) @ [d]" "d_webhookId d = h_id w" "d_outboxEventId d = e"
        by blast
      then show "successes w' e' t \<le> 1"
      proof cases
        case 1
        with that show ?thesis by (simp add: successes_def)
      next
        case 2
        show ?thesis
        proof (cases "w' = h_id w \<and> e' = e")
          case True
          with 2(1) have "filter (\<lambda>d. d_webhookId d = w' \<and> d_outboxEventId d = e' \<and> d_status d = WSuccess) (webhookDeliveries (db s)) = []"
            by (auto simp: succeeded_def filter_empty_conv)
          with 2(2) show ?thesis by (simp add: successes_def)
        next
          case False
          with 2 that [rule_format, of w' e'] show ?thesis by (auto simp: successes_def)
        qed
      qed
    qed
    moreover have "\<forall>w e. succeeded w e s \<longrightarrow> succeeded w e t"
      using shape by (auto simp: succeeded_def)
    ultimately show "freshDeliveries t \<and> ((\<forall>w e. successes w e s \<le> 1) \<longrightarrow> (\<forall>w e. successes w e t \<le> 1)) \<and>
        (\<forall>w e. succeeded w e s \<longrightarrow> succeeded w e t)" by blast
  qed
  with run show "deliveryOrder s (snd (WebhookDeliveryService_deliver X net w e ty p k s))" by simp
qed

lemma deliveryOrder_io:
  assumes "\<And>s. webhookDeliveries (db (snd (m s))) = webhookDeliveries (db s) \<and> nextId s \<le> nextId (snd (m s))"
  shows "stays deliveryOrder (io m)"
proof (rule staysI)
  fix s
  have "deliveryOrder s (s\<lparr>faults := fs\<rparr>) \<and> deliveryOrder s (snd (m (s\<lparr>faults := fs\<rparr>)))" for fs
    using assms [of "s\<lparr>faults := fs\<rparr>"] by (simp add: deliveryOrder_same)
  then show "deliveryOrder s (snd (io m s))"
    by (rule snd_io)
qed

lemma deliveryOrder_allSettled:
  "(\<And>m. m \<in> set ms \<Longrightarrow> stays deliveryOrder m) \<Longrightarrow> stays deliveryOrder (allSettled ms)"
  by (induction ms) (auto simp: rejected_def intro!: deliveryOrder.stays_rules)

lemma deliveryOrder_toWorkspace: "stays deliveryOrder (WebhookService_deliverToWorkspace X net wid e ty p k)"
  unfolding WebhookService_deliverToWorkspace_def WebhookRepository_findActiveByWorkspace_def findDocs_def
  by (intro deliveryOrder.stays_bnd deliveryOrder.stays_throwIf deliveryOrder_allSettled deliveryOrder_io)
    (auto intro: deliveryOrder_deliver)

section \<open>The fan-out of an event\<close>

lemma deliver_done:
  assumes "faults s = []" and "succeeded w e s"
  shows "WebhookDeliveryService_deliver X net w e ty p k s = (Inr (), s)"
proof -
  have "List.find (\<lambda>d. d_webhookId d = h_id w \<and> d_outboxEventId d = e \<and> d_status d = WSuccess) (webhookDeliveries (db s)) \<noteq> None"
    using assms(2) by (auto simp: succeeded_def find_None_iff_all)
  with assms(1) show ?thesis
    by (simp add: WebhookDeliveryService_deliver_def WebhookDeliveryRepository_findSuccessfulDelivery_def bnd_run)
qed

lemma find_last: "\<forall>x\<in>set ds. \<not> p x \<Longrightarrow> p d \<Longrightarrow> List.find p (ds @ [d]) = Some d"
  by (induction ds) auto

lemma deliver_sends:
  assumes "faults s = []" and "\<not> succeeded w e s" and "freshDeliveries s"
  shows "\<exists>r t d. WebhookDeliveryService_deliver X net w e ty p k s = (r, t) \<and>
    (r = Inr () \<longleftrightarrow> answeredWell net (length (calls s)) (callOf X w e ty p)) \<and> faults t = [] \<and>
    calls t = calls s @ [callOf X w e ty p] \<and> nextId t = Suc (nextId s) \<and> d_id d = nextId s \<and>
    webhookDeliveries (db t) = webhookDeliveries (db s) @ [d] \<and> d_webhookId d = h_id w \<and> d_outboxEventId d = e \<and>
    (d_status d = WSuccess \<longleftrightarrow> answeredWell net (length (calls s)) (callOf X w e ty p))"
proof -
  have none: "List.find (\<lambda>d. d_webhookId d = h_id w \<and> d_outboxEventId d = e \<and> d_status d = WSuccess) (webhookDeliveries (db s)) = None"
    using assms(2) by (auto simp: succeeded_def find_None_iff_all)
  have old: "\<forall>x\<in>set (webhookDeliveries (db s)). d_id x \<noteq> nextId s"
    using assms(3) by (auto simp: freshDeliveries_def)
  have fl: "List.find (\<lambda>x. d_id x = nextId s) (webhookDeliveries (db s) @ [d]) = Some d"
    and ul: "updateFirst (\<lambda>x. d_id x = nextId s) f (webhookDeliveries (db s) @ [d]) = webhookDeliveries (db s) @ [f d]"
    if "d_id d = nextId s" for d f
    using old that by (auto intro: find_last updateFirst_last)
  obtain elapsed outcome where net: "net (length (calls s)) (callOf X w e ty p) = (elapsed, outcome)" by fastforce
  show ?thesis
  proof (cases outcome)
    case (Inl m)
    then show ?thesis
      using assms(1) none net fl ul
      by (simp add: WebhookDeliveryService_deliver_def WebhookDeliveryRepository_findSuccessfulDelivery_def bnd_run
          WebhookDeliveryRepository_create_def Let_def andThen_run attemptDelivery_def httpFetch_def tryCatch_run
          recordFailedDelivery_def WebhookDeliveryRepository_update_def answeredWell_def)
  next
    case (Inr ans)
    obtain status body where ans: "ans = (status, body)" by (cases ans)
    show ?thesis
      using assms(1) none net fl ul Inr ans
      by (cases "responseOk status") (simp_all add: WebhookDeliveryService_deliver_def WebhookDeliveryRepository_findSuccessfulDelivery_def bnd_run
          WebhookDeliveryRepository_create_def Let_def andThen_run attemptDelivery_def httpFetch_def tryCatch_run
          recordFailedDelivery_def WebhookDeliveryRepository_update_def answeredWell_def)
  qed
qed

definition pendingFor :: "oid \<Rightarrow> world \<Rightarrow> webhookDoc list \<Rightarrow> webhookDoc list" where
  "pendingFor e s ws = filter (\<lambda>w. \<not> succeeded w e s) ws"

lemma succeeded_snoc:
  assumes "webhookDeliveries (db t) = webhookDeliveries (db s) @ [d]" and "d_outboxEventId d = e"
  shows "succeeded w e t \<longleftrightarrow> succeeded w e s \<or> d_webhookId d = h_id w \<and> d_status d = WSuccess"
  using assms by (auto simp: succeeded_def)

lemma fresh_snoc:
  "freshDeliveries s \<Longrightarrow> webhookDeliveries (db t) = webhookDeliveries (db s) @ [d] \<Longrightarrow> d_id d = nextId s \<Longrightarrow> nextId t = Suc (nextId s) \<Longrightarrow>
     freshDeliveries t"
  by (auto simp: freshDeliveries_def)

lemma allSettled_run:
  assumes "faults s = []" and "freshDeliveries s" and "distinct (map h_id ws)"
  shows "\<exists>n t. allSettled (map (\<lambda>w. WebhookDeliveryService_deliver X net w e ty p k) ws) s = (Inr n, t) \<and> faults t = [] \<and>
    calls t = calls s @ map (\<lambda>w. callOf X w e ty p) (pendingFor e s ws) \<and>
    (n = 0 \<longleftrightarrow> (\<forall>i<length (pendingFor e s ws). answeredWell net (length (calls s) + i) (callOf X (pendingFor e s ws ! i) e ty p))) \<and>
    (\<forall>w. h_id w \<notin> h_id ` set ws \<longrightarrow> succeeded w e t = succeeded w e s) \<and>
    (\<forall>w\<in>set ws. succeeded w e t \<longleftrightarrow> succeeded w e s \<or> (\<exists>i<length (pendingFor e s ws). pendingFor e s ws ! i = w \<and>
      answeredWell net (length (calls s) + i) (callOf X w e ty p)))"
  using assms
proof (induction ws arbitrary: s)
  case Nil
  then show ?case by (simp add: pendingFor_def)
next
  case (Cons w ws)
  have dist: "distinct (map h_id ws)" "h_id w \<notin> h_id ` set ws" using Cons.prems(3) by auto
  show ?case
  proof (cases "succeeded w e s")
    case True
    from Cons.IH [OF Cons.prems(1,2) dist(1)] obtain n t where
      "allSettled (map (\<lambda>w. WebhookDeliveryService_deliver X net w e ty p k) ws) s = (Inr n, t)" and rest: "faults t = []"
      "calls t = calls s @ map (\<lambda>w. callOf X w e ty p) (pendingFor e s ws)"
      "n = 0 \<longleftrightarrow> (\<forall>i<length (pendingFor e s ws). answeredWell net (length (calls s) + i) (callOf X (pendingFor e s ws ! i) e ty p))"
      "\<forall>w. h_id w \<notin> h_id ` set ws \<longrightarrow> succeeded w e t = succeeded w e s"
      "\<forall>w\<in>set ws. succeeded w e t \<longleftrightarrow> succeeded w e s \<or> (\<exists>i<length (pendingFor e s ws). pendingFor e s ws ! i = w \<and>
        answeredWell net (length (calls s) + i) (callOf X w e ty p))" by blast
    then have run: "allSettled (map (\<lambda>w. WebhookDeliveryService_deliver X net w e ty p k) (w # ws)) s = (Inr n, t)"
      by (simp add: bnd_run rejected_def tryCatch_run andThen_run deliver_done [OF Cons.prems(1) True])
    have p: "pendingFor e s (w # ws) = pendingFor e s ws" using True by (simp add: pendingFor_def)
    have "succeeded w e t" using rest(4) dist(2) True by blast
    with rest(5) True have news: "\<forall>v\<in>set (w # ws). succeeded v e t \<longleftrightarrow> succeeded v e s \<or>
        (\<exists>i<length (pendingFor e s ws). pendingFor e s ws ! i = v \<and> answeredWell net (length (calls s) + i) (callOf X v e ty p))"
      by (simp only: set_simps ball_simps simp_thms)
    have olds: "\<forall>v. h_id v \<notin> h_id ` set (w # ws) \<longrightarrow> succeeded v e t = succeeded v e s"
      using rest(4) by simp
    show ?thesis
      unfolding p
    proof (rule exI [of _ n], rule exI [of _ t], intro conjI)
      show "allSettled (map (\<lambda>w. WebhookDeliveryService_deliver X net w e ty p k) (w # ws)) s = (Inr n, t)" by (rule run)
      show "faults t = []" "calls t = calls s @ map (\<lambda>w. callOf X w e ty p) (pendingFor e s ws)" by (rule rest)+
      show "(n = 0) = (\<forall>i<length (pendingFor e s ws). answeredWell net (length (calls s) + i) (callOf X (pendingFor e s ws ! i) e ty p))"
        by (rule rest(3))
      show "\<forall>v. h_id v \<notin> h_id ` set (w # ws) \<longrightarrow> succeeded v e t = succeeded v e s" by (rule olds)
      show "\<forall>v\<in>set (w # ws). succeeded v e t = (succeeded v e s \<or> (\<exists>i<length (pendingFor e s ws). pendingFor e s ws ! i = v \<and>
        answeredWell net (length (calls s) + i) (callOf X v e ty p)))" by (rule news)
    qed
  next
    case False
    from deliver_sends [OF Cons.prems(1) False Cons.prems(2), of X net ty p k] obtain r s1 d where
      del: "WebhookDeliveryService_deliver X net w e ty p k s = (r, s1)"
      and r: "r = Inr () \<longleftrightarrow> answeredWell net (length (calls s)) (callOf X w e ty p)"
      and s1: "faults s1 = []" "calls s1 = calls s @ [callOf X w e ty p]" "nextId s1 = Suc (nextId s)"
      and d: "d_id d = nextId s" "webhookDeliveries (db s1) = webhookDeliveries (db s) @ [d]" "d_webhookId d = h_id w" "d_outboxEventId d = e"
        "d_status d = WSuccess \<longleftrightarrow> answeredWell net (length (calls s)) (callOf X w e ty p)" by blast
    have fresh: "freshDeliveries s1" by (rule fresh_snoc [OF Cons.prems(2) d(2,1) s1(3)])
    have su: "succeeded w' e s1 \<longleftrightarrow> succeeded w' e s \<or> h_id w' = h_id w \<and> answeredWell net (length (calls s)) (callOf X w e ty p)" for w'
      unfolding succeeded_snoc [OF d(2,4)] d(3,5) by (simp add: eq_commute [of "h_id w"])
    have same: "pendingFor e s1 ws = pendingFor e s ws"
      unfolding pendingFor_def by (rule filter_cong [OF refl]) (use su dist(2) in \<open>metis imageI\<close>)
    from Cons.IH [OF s1(1) fresh dist(1)] obtain n t where
      rec: "allSettled (map (\<lambda>w. WebhookDeliveryService_deliver X net w e ty p k) ws) s1 = (Inr n, t)" and rest: "faults t = []"
      "calls t = calls s1 @ map (\<lambda>w. callOf X w e ty p) (pendingFor e s ws)"
      "n = 0 \<longleftrightarrow> (\<forall>i<length (pendingFor e s ws). answeredWell net (length (calls s1) + i) (callOf X (pendingFor e s ws ! i) e ty p))"
      "\<forall>w. h_id w \<notin> h_id ` set ws \<longrightarrow> succeeded w e t = succeeded w e s1"
      "\<forall>w\<in>set ws. succeeded w e t \<longleftrightarrow> succeeded w e s1 \<or> (\<exists>i<length (pendingFor e s ws). pendingFor e s ws ! i = w \<and>
        answeredWell net (length (calls s1) + i) (callOf X w e ty p))" unfolding same by blast
    define a where "a = (if answeredWell net (length (calls s)) (callOf X w e ty p) then 0 else 1 :: nat)"
    have run: "allSettled (map (\<lambda>w. WebhookDeliveryService_deliver X net w e ty p k) (w # ws)) s = (Inr (a + n), t)"
      using r by (cases r) (auto simp: bnd_run rejected_def tryCatch_run andThen_run del rec a_def)
    have p: "pendingFor e s (w # ws) = w # pendingFor e s ws" using False by (simp add: pendingFor_def)
    show ?thesis
      unfolding p
    proof (rule exI [of _ "a + n"], rule exI [of _ t], intro conjI)
      show "calls t = calls s @ map (\<lambda>w. callOf X w e ty p) (w # pendingFor e s ws)"
        using rest(2) s1(2) by simp
      show "(a + n = 0) = (\<forall>i<length (w # pendingFor e s ws).
          answeredWell net (length (calls s) + i) (callOf X ((w # pendingFor e s ws) ! i) e ty p))"
        using rest(3) s1(2) by (simp add: a_def All_less_Suc2)
      show "\<forall>v. h_id v \<notin> h_id ` set (w # ws) \<longrightarrow> succeeded v e t = succeeded v e s"
        using rest(4) su by auto
      show "\<forall>v\<in>set (w # ws). succeeded v e t = (succeeded v e s \<or> (\<exists>i<length (w # pendingFor e s ws). (w # pendingFor e s ws) ! i = v \<and>
          answeredWell net (length (calls s) + i) (callOf X v e ty p)))"
      proof
        fix v assume v: "v \<in> set (w # ws)"
        have notin: "\<not> (\<exists>i<length (pendingFor e s ws). pendingFor e s ws ! i = w)"
          using dist(2) by (metis (no_types, lifting) filter_is_subset imageI nth_mem pendingFor_def subsetD)
        show "succeeded v e t = (succeeded v e s \<or> (\<exists>i<length (w # pendingFor e s ws). (w # pendingFor e s ws) ! i = v \<and>
          answeredWell net (length (calls s) + i) (callOf X v e ty p)))"
        proof (cases "v = w")
          case True
          with rest(4) dist(2) su notin show ?thesis by (auto simp: Ex_less_Suc2)
        next
          case False
          with v have "v \<in> set ws" by simp
          moreover from this dist(2) have "h_id v \<noteq> h_id w" by (metis imageI)
          ultimately show ?thesis using False rest(5) su [of v] s1(2) by (simp add: Ex_less_Suc2)
        qed
      qed
    qed (use run rest in simp_all)
  qed
qed


definition demoHook :: "oid \<Rightarrow> webhookDoc" where
  "demoHook i = \<lparr>h_id = i, h_workspaceId = 3, h_url = ''https://h'', h_secret = ''s'', h_active = True, h_events = [''TASK_CREATED'']\<rparr>"

definition demoHooks :: world where
  "demoHooks = world0\<lparr>db := emptyDb\<lparr>webhooks := [demoHook 11, demoHook 12]\<rparr>\<rparr>"

lemma demoHooks_sel [simp]:
  "faults demoHooks = []" "webhooks (db demoHooks) = [demoHook 11, demoHook 12]" "webhookDeliveries (db demoHooks) = []"
  "calls demoHooks = []"
  by (simp_all add: demoHooks_def)


end
