(* ===== verification/JobsSpec.thy ===== *)
theory JobsSpec
  imports Jobs WebhooksSpec
begin

text \<open>
  What the processors of the queues promise when the queue calls them again and again, whatever
  fails: one success per webhook and event, at most one reminder more than there are failed runs;
  and what the scheduled search for due tasks leaves behind.
\<close>

section \<open>Webhook jobs\<close>

text \<open>The state after the queue has run the processor on a list of jobs, however each run ended.\<close>

definition runJobs :: "('j \<Rightarrow> unit wprog) \<Rightarrow> 'j list \<Rightarrow> world \<Rightarrow> world" where
  "runJobs process js s = fold (\<lambda>j u. snd (process j u)) js s"

lemma deliveryOrder_findOne: "stays deliveryOrder (findOne get p)"
  unfolding findOne_def by (rule deliveryOrder_io) simp

lemma deliveryOrder_markProcessed: "stays deliveryOrder (markProcessed i ty)"
  unfolding markProcessed_def insertUnique_def by (rule deliveryOrder_io) simp

lemma deliveryOrder_deadLetter: "stays deliveryOrder (moveToDeadLetterQueue q j error n)"
  unfolding moveToDeadLetterQueue_def by (rule deliveryOrder_io) simp

lemma deliveryOrder_requireType: "stays deliveryOrder (requireType v m)"
  unfolding requireType_def by (auto split: option.splits list.splits intro: deliveryOrder.stays_rules)

lemma deliveryOrder_deliverEvent: "stays deliveryOrder (deliverEvent X net j)"
  unfolding deliverEvent_def require_def hasBeenProcessed_def
  by (intro deliveryOrder.stays_rules deliveryOrder_findOne deliveryOrder_requireType deliveryOrder_toWorkspace deliveryOrder_markProcessed)

lemma deliveryOrder_webhookProcessor: "stays deliveryOrder (WebhookProcessor_process X net j)"
  unfolding WebhookProcessor_process_def jobFailed_def
  by (intro deliveryOrder.stays_rules deliveryOrder_deliverEvent deliveryOrder_deadLetter)

lemma deliveryOrder_runJobs:
  assumes "\<And>j. stays deliveryOrder (process j)"
  shows "deliveryOrder s (runJobs process js s)"
  unfolding runJobs_def
proof (induction js arbitrary: s)
  case Nil
  show ?case by (simp add: deliveryOrder.refl)
next
  case (Cons j js)
  have "deliveryOrder s (snd (process j s))" by (rule stays_snd [OF assms])
  with Cons show ?case by (auto intro: deliveryOrder.trans)
qed

text \<open>
  C39: however often the queue runs webhook jobs, of whatever events, with whatever answers of the
  addresses and whatever failures of the database, there is at most one recorded success for each
  webhook and event, and no recorded success is ever lost.
\<close>

theorem webhook_single_success:
  assumes "freshDeliveries s" and "\<forall>w e. successes w e s \<le> 1"
    and "t = runJobs (\<lambda>(net, j). WebhookProcessor_process X net j) runs s"
  shows "(\<forall>w e. successes w e t \<le> 1) \<and> (\<forall>w e. succeeded w e s \<longrightarrow> succeeded w e t)"
proof -
  have "deliveryOrder s t"
    unfolding assms(3) by (rule deliveryOrder_runJobs) (auto intro: deliveryOrder_webhookProcessor)
  with assms(1,2) show ?thesis by (simp add: deliveryOrder_def)
qed

definition demoHookJob :: job where
  "demoHookJob = \<lparr>j_id = 8, j_outboxEventId = Some 8, j_eventType = Some ''TASK_CREATED'', j_aggregateType = ''TASK'',
     j_aggregateId = 9, j_workspaceId = Some 3, j_correlationId = None, j_payload = Some [], j_attemptsMade = 0, j_attempts = Some 3\<rparr>"

lemma webhook_single_success_witness:
  "successes 12 8 (runJobs (\<lambda>(net, j). WebhookProcessor_process demoExt net j)
     [(\<lambda>n c. (20, Inr (503, [])), demoHookJob), (\<lambda>n c. (20, Inr (204, [])), demoHookJob)] demoHooks) \<le> 1"
proof -
  have "freshDeliveries demoHooks" "\<forall>w e. successes w e demoHooks \<le> 1"
    by (simp_all add: freshDeliveries_def successes_def)
  from webhook_single_success [OF this refl] show ?thesis by blast
qed

section \<open>Reminder jobs\<close>

definition isProcessed :: "oid \<Rightarrow> world \<Rightarrow> bool" where
  "isProcessed e s \<longleftrightarrow> (\<exists>p\<in>set (processed (db s)). p_eventId p = e)"

definition mails :: "world \<Rightarrow> nat" where
  "mails s = length (mailbox s)"

text \<open>A call that sends no mail and only adds to the processed events.\<close>

definition noMail :: "world \<Rightarrow> world \<Rightarrow> bool" where
  "noMail s t \<longleftrightarrow> mails t = mails s \<and> (\<forall>e. isProcessed e s \<longrightarrow> isProcessed e t)"

interpretation noMail: step_order noMail
  by unfold_locales (auto simp: noMail_def)

lemma noMail_io:
  assumes "\<And>s. mailbox (snd (m s)) = mailbox s \<and> set (processed (db s)) \<subseteq> set (processed (db (snd (m s))))"
  shows "stays noMail (io m)"
proof (rule staysI)
  fix s
  have "noMail s (s\<lparr>faults := fs\<rparr>) \<and> noMail s (snd (m (s\<lparr>faults := fs\<rparr>)))" for fs
    using assms [of "s\<lparr>faults := fs\<rparr>"] by (auto simp: noMail_def mails_def isProcessed_def)
  then show "noMail s (snd (io m s))"
    by (rule snd_io)
qed

lemma noMail_findOne: "stays noMail (findOne get p)"
  unfolding findOne_def by (rule noMail_io) simp

lemma noMail_emailUpdate: "stays noMail (EmailDeliveryRepository_update i f)"
  unfolding EmailDeliveryRepository_update_def findOneAndUpdate_def
  by (rule noMail_io) (simp split: option.splits)

lemma noMail_markProcessed: "stays noMail (markProcessed i ty)"
  unfolding markProcessed_def insertUnique_def by (rule noMail_io) auto

lemma noMail_deadLetter: "stays noMail (moveToDeadLetterQueue q j error n)"
  unfolding moveToDeadLetterQueue_def by (rule noMail_io) simp

lemmas noMail_rules = noMail.stays_rules noMail_findOne noMail_emailUpdate noMail_markProcessed noMail_deadLetter

lemma noMail_failed: "stays noMail (mailJobFailed q j i err)"
  unfolding mailJobFailed_def Let_def by (intro noMail_rules)

lemma noMail_start: "stays noMail (startSending j i)"
  unfolding startSending_def by (intro noMail_rules)

lemma noMail_sent: "stays noMail (markSent i)"
  unfolding markSent_def by (intro noMail_rules)

lemma processedC_insert:
  "insertUnique processed processed_update clash x s = (Inr r, t) \<Longrightarrow> processed (db t) = processed (db s) @ [x]"
  by (auto simp: insertUnique_def io_ok split: if_splits)

text \<open>A run that sends at most one mail, before and after calls that send none.\<close>

definition oneMail :: "world \<Rightarrow> world \<Rightarrow> bool" where
  "oneMail s t \<longleftrightarrow> mails t \<le> mails s + 1 \<and> (\<forall>e. isProcessed e s \<longrightarrow> isProcessed e t)"

lemma noMail_one: "noMail s t \<Longrightarrow> oneMail s t"
  by (simp add: noMail_def oneMail_def)

lemma oneMail_trans: "noMail s t \<Longrightarrow> oneMail t u \<Longrightarrow> oneMail s u" "oneMail s t \<Longrightarrow> noMail t u \<Longrightarrow> oneMail s u"
  by (simp_all add: noMail_def oneMail_def)

lemma oneMail_after:
  assumes "stays noMail m" and "stays oneMail n"
  shows "stays oneMail (andThen m n)"
proof (rule staysI)
  fix s
  obtain r t where m: "m s = (r, t)" by (cases "m s")
  then have "noMail s t" by (rule staysD [OF assms(1)])
  moreover have "oneMail t (snd (n t))" by (rule stays_snd [OF assms(2)])
  ultimately show "oneMail s (snd (andThen m n s))"
    using m by (cases r) (auto simp: andThen_run intro: noMail_one oneMail_trans)
qed

lemma oneMail_before:
  assumes "stays oneMail m" and "stays noMail n"
  shows "stays oneMail (andThen m n)"
proof (rule staysI)
  fix s
  obtain r t where m: "m s = (r, t)" by (cases "m s")
  then have "oneMail s t" by (rule staysD [OF assms(1)])
  moreover have "noMail t (snd (n t))" by (rule stays_snd [OF assms(2)])
  ultimately show "oneMail s (snd (andThen m n s))"
    using m by (cases r) (auto simp: andThen_run intro: oneMail_trans)
qed

lemma oneMail_catch:
  assumes "stays oneMail m" and "\<And>e. stays noMail (h e)"
  shows "stays oneMail (tryCatch m h)"
proof (rule staysI)
  fix s
  obtain r t where m: "m s = (r, t)" by (cases "m s")
  then have one: "oneMail s t" by (rule staysD [OF assms(1)])
  show "oneMail s (snd (tryCatch m h s))"
  proof (cases r)
    case (Inl e)
    have "noMail t (snd (h e t))" by (rule stays_snd [OF assms(2)])
    with one m Inl show ?thesis by (auto simp: tryCatch_run intro: oneMail_trans)
  qed (use one m in \<open>simp add: tryCatch_run\<close>)
qed

lemma oneMail_send: "stays oneMail (sendReminderEmail to title due priority)"
  by (rule staysI) (auto simp: sendReminderEmail_def tryCatch_run sendMail_def io_run oneMail_def mails_def isProcessed_def
      split: list.splits option.splits)

lemma oneMail_reminder: "stays oneMail (sendReminder j e ty p i)"
proof -
  have no: "stays noMail m \<Longrightarrow> stays oneMail m" for m :: "unit wprog"
    by (erule stays_mono) (rule noMail_one)
  have main: "stays oneMail (andThen (throwIf c m) (andThen (startSending j i) (andThen (sendReminderEmail to title due prio)
      (andThen (markSent i) (markProcessed e ty)))))" for c m to title due prio
    by (rule oneMail_after [OF noMail.stays_throwIf oneMail_after [OF noMail_start oneMail_before [OF oneMail_send
          noMail.stays_andThen [OF noMail_sent noMail_markProcessed]]]])
  have thr: "stays oneMail (throw m :: unit wprog)" for m
    by (rule no) (rule noMail.stays_throw)
  show ?thesis
    unfolding sendReminder_def
    by (rule oneMail_after [OF noMail.stays_throwIf]) (auto split: json.splits intro!: main thr)
qed

lemma reminder_sent_processed: "sendReminder j e ty p i s = (Inr (), t) \<Longrightarrow> isProcessed e t"
  by (auto simp: sendReminder_def ok_iff markProcessed_def isProcessed_def dest!: processedC_insert split: json.splits)

lemma noMail_hasBeen: "stays noMail (hasBeenProcessed e)"
  unfolding hasBeenProcessed_def by (intro noMail_rules)

lemma hasBeenProcessed_ok:
  assumes "hasBeenProcessed e s = (Inr b, t)"
  shows "b = isProcessed e s \<and> noMail s t"
proof -
  have "noMail s t" by (rule staysD [OF noMail_hasBeen assms])
  moreover have "b = isProcessed e s"
    using assms by (auto simp: hasBeenProcessed_def ok_iff findOne_def isProcessed_def find_None_iff_all dest: find_SomeD)
  ultimately show ?thesis by simp
qed

lemma reminder_run:
  assumes "ReminderProcessor_process j s = (r, t)" and "j_outboxEventId j = Some e"
  shows "oneMail s t \<and> (isProcessed e s \<longrightarrow> mails t = mails s) \<and> (r = Inr () \<longrightarrow> isProcessed e t)"
proof -
  obtain ty p where j: "requireType (j_eventType j) ''Reminder job is missing eventType'' = ret ty"
    and p: "j_payload j = Some p" if "r = Inr () \<or> mails t \<noteq> mails s \<or> \<not> noMail s t"
    using assms
    by (cases "j_eventType j"; cases "j_payload j")
      (auto simp: ReminderProcessor_process_def require_def requireType_def noMail.refl split: list.splits)
  show ?thesis
  proof (cases "noMail s t \<and> r \<noteq> Inr ()")
    case True
    then show ?thesis by (auto simp: noMail_def oneMail_def)
  next
    case False
    then have c: "r = Inr () \<or> mails t \<noteq> mails s \<or> \<not> noMail s t" by blast
    obtain h s1 where h: "hasBeenProcessed e s = (h, s1)" by (cases "hasBeenProcessed e s")
    have n1: "noMail s s1" by (rule staysD [OF noMail_hasBeen h])
    let ?rest = "bnd (EmailDeliveryRepository_findByOutboxEventId e) (\<lambda>found.
       bnd (orThrow found (PlainError (deliveryMissing e))) (\<lambda>delivery.
       tryCatch (sendReminder j e ty p (e_id delivery)) (mailJobFailed QReminder j (e_id delivery))))"
    have run: "bnd (hasBeenProcessed e) (\<lambda>b. if b then ret () else ?rest) s = (r, t)"
      using assms j [OF c] p [OF c] by (simp add: ReminderProcessor_process_def require_def)
    show ?thesis
    proof (cases h)
      case (Inl err)
      with run h n1 show ?thesis by (auto simp: bnd_run noMail_def oneMail_def)
    next
      case (Inr b)
      with hasBeenProcessed_ok h have b: "b = isProcessed e s" by blast
      show ?thesis
      proof (cases b)
        case True
        with run h Inr n1 b show ?thesis by (auto simp: bnd_run noMail_def oneMail_def)
      next
        case False
        with run h Inr have rest: "?rest s1 = (r, t)" by (simp add: bnd_run)
        have one: "stays oneMail (tryCatch (sendReminder j e ty p i) (mailJobFailed QReminder j i))" for i
          by (rule oneMail_catch [OF oneMail_reminder noMail_failed])
        have "oneMail s1 t \<and> (r = Inr () \<longrightarrow> isProcessed e t)"
        proof (cases "EmailDeliveryRepository_findByOutboxEventId e s1")
          case (Pair f s2)
          then have n2: "noMail s1 s2"
            by (auto simp: EmailDeliveryRepository_findByOutboxEventId_def intro: staysD [OF noMail_findOne])
          show ?thesis
          proof (cases "\<exists>d. f = Inr (Some d)")
            case True
            then obtain d where f: "f = Inr (Some d)" by blast
            with rest Pair have tc: "tryCatch (sendReminder j e ty p (e_id d)) (mailJobFailed QReminder j (e_id d)) s2 = (r, t)"
              by (simp add: bnd_run)
            have "oneMail s2 t" by (rule staysD [OF one tc])
            moreover have "isProcessed e t" if "r = Inr ()"
              using tc that reminder_sent_processed
              by (auto simp: tryCatch_run mailJobFailed_def andThen_run Let_def split: prod.splits sum.splits)
            ultimately show ?thesis using n2 oneMail_trans(1) by blast
          next
            case False
            with rest Pair n2 show ?thesis
              by (cases f) (auto simp: bnd_run orThrow_def split: option.splits intro: noMail_one)
          qed
        qed
        with n1 False b show ?thesis using oneMail_trans(1) by blast
      qed
    qed
  qed
qed

text \<open>The runs of one event, and how many of them failed.\<close>

fun failures :: "('j \<Rightarrow> unit wprog) \<Rightarrow> 'j list \<Rightarrow> world \<Rightarrow> nat" where
  "failures process [] s = 0"
| "failures process (j # js) s = (case process j s of (r, t) \<Rightarrow> (if r = Inr () then 0 else 1) + failures process js t)"

text \<open>
  C40: however often the queue runs the jobs of a reminder event, and whatever fails in between, the
  reminder is mailed at most once more than runs have failed; once a run has ended well it is never
  mailed again.
\<close>

theorem reminder_mail_bound:
  assumes "\<forall>j\<in>set js. j_outboxEventId j = Some e"
  shows "mails (runJobs ReminderProcessor_process js s) \<le>
    mails s + (if isProcessed e s then 0 else failures ReminderProcessor_process js s + 1)"
  using assms
proof (induction js arbitrary: s)
  case Nil
  show ?case by (simp add: runJobs_def)
next
  case (Cons j js)
  obtain r t where run: "ReminderProcessor_process j s = (r, t)" by (cases "ReminderProcessor_process j s")
  have one: "mails t \<le> mails s + 1" "isProcessed e s \<Longrightarrow> isProcessed e t" "isProcessed e s \<Longrightarrow> mails t = mails s"
    "r = Inr () \<Longrightarrow> isProcessed e t"
    using reminder_run [OF run, of e] Cons.prems by (auto simp: oneMail_def)
  have "runJobs ReminderProcessor_process (j # js) s = runJobs ReminderProcessor_process js t"
    by (simp add: runJobs_def run)
  moreover have "mails (runJobs ReminderProcessor_process js t) \<le>
      mails t + (if isProcessed e t then 0 else failures ReminderProcessor_process js t + 1)"
    using Cons by simp
  ultimately show ?case
    using one run by (auto split: if_splits)
qed

definition demoDelivery :: emailDoc where
  "demoDelivery = \<lparr>e_id = 20, e_outboxEventId = 21, e_to = ''a@b'', e_emailType = ''TASK_REMINDER'', e_status = EQueued,
     e_attempts = 0, e_lastError = None, e_sentAt = None, e_failedAt = None\<rparr>"

definition demoMails :: world where
  "demoMails = world0\<lparr>db := emptyDb\<lparr>emails := [demoDelivery]\<rparr>\<rparr>"

definition demoMailJob :: "string \<Rightarrow> props \<Rightarrow> nat \<Rightarrow> job" where
  "demoMailJob ty p made = \<lparr>j_id = 21, j_outboxEventId = Some 21, j_eventType = Some ty, j_aggregateType = ''TASK'',
     j_aggregateId = 9, j_workspaceId = Some 3, j_correlationId = None, j_payload = Some p, j_attemptsMade = made,
     j_attempts = Some 3\<rparr>"

definition reminderPayload :: props where
  "reminderPayload = [(''to'', JStr ''a@b''), (''taskTitle'', JStr ''t''), (''dueDate'', JDate 5000), (''priority'', JStr ''high'')]"

lemma reminder_mail_bound_witness:
  "mails (runJobs ReminderProcessor_process [demoMailJob ''REMINDER_DUE'' reminderPayload 0, demoMailJob ''REMINDER_DUE'' reminderPayload 1]
     (demoMails\<lparr>faults := [None, None, None, None, None, Some ''down'']\<rparr>)) \<le> 2"
proof -
  let ?js = "[demoMailJob ''REMINDER_DUE'' reminderPayload 0, demoMailJob ''REMINDER_DUE'' reminderPayload 1]"
  let ?s = "demoMails\<lparr>faults := [None, None, None, None, None, Some ''down'']\<rparr>"
  have e: "\<forall>j\<in>set ?js. j_outboxEventId j = Some 21" by (simp add: demoMailJob_def)
  have "failures ReminderProcessor_process ?js ?s = 1" "mails ?s = 0"
    by code_simp+
  with reminder_mail_bound [OF e, of ?s] show ?thesis by (simp split: if_splits)
qed

text \<open>The mail processor keeps no such record: a job that is run again after it has ended well is mailed again.\<close>

definition verificationPayload :: props where
  "verificationPayload = [(''emailType'', JStr ''EMAIL_VERIFICATION''), (''to'', JStr ''a@b''), (''token'', JStr ''t''), (''expiresAt'', JDate 5000)]"

lemma email_job_mailed_again:
  "mailbox (runJobs EmailProcessor_process [demoMailJob ''EMAIL_REQUESTED'' verificationPayload 0, demoMailJob ''EMAIL_REQUESTED'' verificationPayload 0] demoMails) =
     [VerificationMail ''a@b'' ''t'' (Some 5000), VerificationMail ''a@b'' ''t'' (Some 5000)] \<and>
   failures EmailProcessor_process [demoMailJob ''EMAIL_REQUESTED'' verificationPayload 0, demoMailJob ''EMAIL_REQUESTED'' verificationPayload 0] demoMails = 0"
  by code_simp

section \<open>Mail jobs that fail\<close>

lemma emailUpdate_at:
  assumes "distinct (map e_id (emails (db s)))" and "d \<in> set (emails (db s))" and "faults s = [] \<or> hd (faults s) = None"
    and "\<And>x. e_id (f x) = e_id x"
  shows "EmailDeliveryRepository_update (e_id d) f s = (Inr (Some (f d)),
    s\<lparr>faults := tl (faults s), db := emails_update (\<lambda>_. map (\<lambda>x. if e_id x = e_id d then f x else x) (emails (db s))) (db s)\<rparr>)"
proof -
  have "updateFirst (\<lambda>x. e_id x = e_id d) f (emails (db s)) = map (\<lambda>x. if e_id x = e_id d then f d else x) (emails (db s))"
    by (rule updateFirst_key [where k = e_id, OF assms(1,2)]) (simp_all add: assms(4))
  also have "\<dots> = map (\<lambda>x. if e_id x = e_id d then f x else x) (emails (db s))"
    by (rule map_cong [OF refl]) (use distinct_key_eq [OF assms(1) _ assms(2)] in auto)
  finally have upd: "updateFirst (\<lambda>x. e_id x = e_id d) f (emails (db s)) = map (\<lambda>x. if e_id x = e_id d then f x else x) (emails (db s))" .
  have fid: "List.find (\<lambda>x. e_id x = e_id d) (emails (db s)) = Some d"
    using distinct_map_filter_find [OF assms(1,2)] .
  show ?thesis
    using assms(3)
    by (cases "faults s") (auto simp: EmailDeliveryRepository_update_def findOneAndUpdate_def io_run fid upd)
qed

text \<open>What the \<open>catch\<close> of a mail job notes of its delivery.\<close>

definition notedFailure :: "job \<Rightarrow> time \<Rightarrow> string \<Rightarrow> emailDoc \<Rightarrow> emailDoc" where
  "notedFailure j t msg x =
     (if isFinalAttempt j then x\<lparr>e_status := EFailed, e_failedAt := Some t, e_lastError := Some msg, e_attempts := j_attemptsMade j + 1\<rparr>
      else x\<lparr>e_lastError := Some msg, e_attempts := j_attemptsMade j + 1\<rparr>)"

lemma mailJobFailed_run:
  assumes "distinct (map e_id (emails (db s)))" and "d \<in> set (emails (db s))" and "faults s = []"
  shows "\<exists>t. mailJobFailed q j (e_id d) e s = (Inl e, t) \<and> mailbox t = mailbox s \<and>
    emails (db t) = map (\<lambda>x. if e_id x = e_id d then notedFailure j (now s) (errMessage e) x else x) (emails (db s)) \<and>
    map dl_jobId (dlq t) = map dl_jobId (dlq s) @ (if isFinalAttempt j \<and> j_id j \<notin> set (map dl_jobId (dlq s)) then [j_id j] else [])"
proof -
  have upd: "EmailDeliveryRepository_update (e_id d) f s = (Inr (Some (f d)),
    s\<lparr>faults := tl (faults s), db := emails_update (\<lambda>_. map (\<lambda>x. if e_id x = e_id d then f x else x) (emails (db s))) (db s)\<rparr>)"
    if "\<And>x. e_id (f x) = e_id x" for f
    by (rule emailUpdate_at [OF assms(1,2) _ that]) (simp add: assms(3))
  show ?thesis
  proof (cases "isFinalAttempt j")
    case True
    then show ?thesis
      using assms(3) by (auto simp: mailJobFailed_def Let_def andThen_run bnd_run upd moveToDeadLetterQueue_def notedFailure_def throw_def
          rev_image_eqI image_iff cong: map_cong)
  next
    case False
    then show ?thesis
      using assms(3) by (auto simp: mailJobFailed_def Let_def andThen_run bnd_run upd notedFailure_def throw_def cong: map_cong)
  qed
qed

text \<open>
  When the mailer refuses the mail of a job, the job fails with the mailer's error and no mail is
  sent; at the last attempt the delivery is marked as failed with that error and the job goes to the
  dead-letter queue, unless it is there already; before that the attempt and the error are noted.
\<close>

theorem mail_job_failure:
  assumes "j_eventType j = Some ''EMAIL_REQUESTED''" and "j_payload j = Some p" and "j_outboxEventId j = Some e"
    and "processEmailRequested p = tryCatch (sendMail m) throw"
    and "List.find (\<lambda>d. e_outboxEventId d = e) (emails (db s)) = Some d" and "distinct (map e_id (emails (db s)))"
    and "faults s = [None, None, Some msg]"
  shows "\<exists>t. EmailProcessor_process j s = (Inl (Infra msg), t) \<and> mailbox t = mailbox s \<and>
    emails (db t) = map (\<lambda>x. if e_id x = e_id d then
      (if isFinalAttempt j then x\<lparr>e_status := EFailed, e_failedAt := Some (now s), e_lastError := Some msg, e_attempts := j_attemptsMade j + 1\<rparr>
       else x\<lparr>e_status := ESending, e_lastError := Some msg, e_attempts := j_attemptsMade j + 1\<rparr>) else x) (emails (db s)) \<and>
    map dl_jobId (dlq t) = map dl_jobId (dlq s) @ (if isFinalAttempt j \<and> j_id j \<notin> set (map dl_jobId (dlq s)) then [j_id j] else [])"
proof -
  have d: "d \<in> set (emails (db s))" using assms(5) by (auto dest: find_SomeD)
  let ?f = "\<lambda>x. x\<lparr>e_status := ESending, e_attempts := j_attemptsMade j + 1\<rparr>"
  define s1 where "s1 = s\<lparr>faults := [None, Some msg]\<rparr>"
  define s2 where "s2 = s1\<lparr>faults := [Some msg],
    db := emails_update (\<lambda>_. map (\<lambda>x. if e_id x = e_id d then ?f x else x) (emails (db s))) (db s)\<rparr>"
  define s3 where "s3 = s2\<lparr>faults := []\<rparr>"
  have found: "EmailDeliveryRepository_findByOutboxEventId e s = (Inr (Some d), s1)"
    using assms(5,7) by (simp add: EmailDeliveryRepository_findByOutboxEventId_def findOne_def io_run s1_def)
  have "EmailDeliveryRepository_update (e_id d) ?f s1 = (Inr (Some (?f d)), s2)"
    using emailUpdate_at [of s1 d ?f] d assms(6) by (simp add: s1_def s2_def)
  then have start: "startSending j (e_id d) s1 = (Inr (), s2)"
    by (simp add: startSending_def andThen_run)
  have send: "processEmailRequested p s2 = (Inl (Infra msg), s3)"
    by (simp add: assms(4) tryCatch_run sendMail_def io_run s2_def s3_def throw_def)
  have d3: "?f d \<in> set (emails (db s3))" "distinct (map e_id (emails (db s3)))" "faults s3 = []"
  proof -
    have "map e_id (emails (db s3)) = map e_id (emails (db s))"
      by (simp add: s3_def s2_def)
    then show "distinct (map e_id (emails (db s3)))"
      using assms(6) by metis
    show "?f d \<in> set (emails (db s3))"
      using d by (auto simp: s3_def s2_def intro!: rev_image_eqI)
    show "faults s3 = []"
      by (simp add: s3_def)
  qed
  obtain t where t: "mailJobFailed QEmail j (e_id d) (Infra msg) s3 = (Inl (Infra msg), t)" "mailbox t = mailbox s3"
    "emails (db t) = map (\<lambda>x. if e_id x = e_id d then notedFailure j (now s3) msg x else x) (emails (db s3))"
    "map dl_jobId (dlq t) = map dl_jobId (dlq s3) @ (if isFinalAttempt j \<and> j_id j \<notin> set (map dl_jobId (dlq s3)) then [j_id j] else [])"
    using mailJobFailed_run [OF d3(2,1,3), of QEmail j "Infra msg"] by auto
  have run: "EmailProcessor_process j s = (Inl (Infra msg), t)"
    by (simp add: EmailProcessor_process_def require_def requireType_def assms(1-3) bnd_run found sendRequested_def tryCatch_run
        andThen_run start send t(1))
  show ?thesis
    by (rule exI [of _ t]) (auto simp: run t s1_def s2_def s3_def notedFailure_def)
qed

lemma mail_job_failure_witness:
  "\<exists>t. EmailProcessor_process (demoMailJob ''EMAIL_REQUESTED'' verificationPayload 2) (demoMails\<lparr>faults := [None, None, Some ''refused'']\<rparr>) =
     (Inl (Infra ''refused''), t) \<and> map dl_jobId (dlq t) = [21]"
proof -
  let ?j = "demoMailJob ''EMAIL_REQUESTED'' verificationPayload 2" and ?s = "demoMails\<lparr>faults := [None, None, Some ''refused'']\<rparr>"
  have 1: "j_eventType ?j = Some ''EMAIL_REQUESTED''" "j_payload ?j = Some verificationPayload" "j_outboxEventId ?j = Some 21"
    by (simp_all add: demoMailJob_def)
  have 2: "processEmailRequested verificationPayload = tryCatch (sendMail (VerificationMail ''a@b'' ''t'' (Some 5000))) throw"
    by (simp add: processEmailRequested_def verificationPayload_def payloadOf_def sendVerificationEmail_def)
  have 3: "List.find (\<lambda>d. e_outboxEventId d = 21) (emails (db ?s)) = Some demoDelivery" "distinct (map e_id (emails (db ?s)))"
    "faults ?s = [None, None, Some ''refused'']"
    by (simp_all add: demoMails_def demoDelivery_def world0_def)
  have 4: "isFinalAttempt ?j" "dlq ?s = []"
    by (simp_all add: demoMailJob_def isFinalAttempt_def maxAttemptsOf_def demoMails_def world0_def)
  from mail_job_failure [OF 1 2 3] 4 show ?thesis
    by (auto simp: demoMailJob_def)
qed

end
