(* ===== verification/Requests.thy ===== *)
theory Requests
  imports Authorization Http Idempotency
begin

text \<open>
  A request on its way to a handler (\<open>src/auth/guards\<close>, \<open>src/auth/Strategy\<close>, \<open>src/main.ts\<close> and
  the DTO classes): authentication, roles, policies, the rate limit, the idempotency key and the
  validation of the body, in the order NestJS runs them: guards, interceptors, pipes, handler.
  Passport's check of an access token and the \<open>ValidationPipe\<close> are parameters.
\<close>

section \<open>JwtStrategy and RolesGuard\<close>

record accessPayload =
  ap_sub :: oid
  ap_email :: string
  ap_role :: string

record authUser =
  cu_userId :: oid
  cu_email :: string
  cu_role :: string

definition JwtStrategy_validate :: "accessPayload \<Rightarrow> authUser" where
  "JwtStrategy_validate payload = \<lparr>cu_userId = ap_sub payload, cu_email = ap_email payload, cu_role = ap_role payload\<rparr>"

text \<open>
  Passport takes the bearer token of the request; \<open>verify\<close> is its check of the signature and the
  expiry at a time. No user is looked up: the payload is believed until it expires.
\<close>

type_synonym tokenCheck = "string \<Rightarrow> time \<Rightarrow> accessPayload option"

definition JwtAuthGuard_canActivate :: "tokenCheck \<Rightarrow> string option \<Rightarrow> authUser wprog" where
  "JwtAuthGuard_canActivate verify bearer = bnd (gets now) (\<lambda>t.
     case Option.bind bearer (\<lambda>token. verify token t) of
       None \<Rightarrow> throw (Unauthorized ''Unauthorized'')
     | Some payload \<Rightarrow> ret (JwtStrategy_validate payload))"

definition RolesGuard_canActivate :: "string list option \<Rightarrow> authUser option \<Rightarrow> unit wprog" where
  "RolesGuard_canActivate requiredRoles user = (case requiredRoles of
     None \<Rightarrow> ret ()
   | Some roles \<Rightarrow> (case user of
       None \<Rightarrow> throw (Forbidden ''User Not Found'')
     | Some u \<Rightarrow> throwIf (cu_role u \<notin> set roles) (Forbidden ''You do not have permission to access this resource'')))"

section \<open>Validation\<close>

text \<open>The decorators of class-validator that the DTO classes use, and a class as its decorated properties.\<close>

datatype check = IsString | IsNotEmpty | MinLength nat | MaxLength nat | Matches string | IsEnum "string list"
  | IsIn "string list" | IsDateString | IsMongoId | IsEmail | IsUrl | IsBoolean | IsInt | Min int | Max int
  | IsArray | ArrayMinSize nat | ArrayNotEmpty | EachIsString | EachIsMongoId

record dtoField =
  df_name :: string
  df_optional :: bool
  df_checks :: "check list"

type_synonym dtoClass = "dtoField list"

definition needs :: "string \<Rightarrow> check list \<Rightarrow> dtoField" where
  "needs n cs = \<lparr>df_name = n, df_optional = False, df_checks = cs\<rparr>"

definition mayHave :: "string \<Rightarrow> check list \<Rightarrow> dtoField" where
  "mayHave n cs = \<lparr>df_name = n, df_optional = True, df_checks = cs\<rparr>"

definition taskStatusNames :: "string list" where
  "taskStatusNames = map statusString [Pending, InProgress, Done]"

definition taskPriorityNames :: "string list" where
  "taskPriorityNames = map priorityString [Low, Medium, High]"

definition workspaceRoleNames :: "string list" where
  "workspaceRoleNames = map roleString [Owner, Admin, Member, Viewer]"

definition CreateTaskDto :: dtoClass where
  "CreateTaskDto = [needs ''title'' [IsString, MinLength 3], mayHave ''description'' [],
     mayHave ''status'' [IsEnum taskStatusNames], mayHave ''priority'' [IsEnum taskPriorityNames],
     mayHave ''dueDate'' [IsDateString], mayHave ''category'' [IsMongoId], mayHave ''tags'' [IsArray, EachIsString],
     needs ''workspaceId'' [IsMongoId]]"

definition UpdateTaskDto :: dtoClass where
  "UpdateTaskDto = [mayHave ''title'' [IsString, MinLength 3], mayHave ''description'' [IsString],
     mayHave ''status'' [IsEnum taskStatusNames], mayHave ''priority'' [IsEnum taskPriorityNames],
     mayHave ''dueDate'' [IsDateString], mayHave ''category'' [IsMongoId], mayHave ''tags'' [IsArray, EachIsString]]"

definition AssignTaskDto :: dtoClass where
  "AssignTaskDto = [needs ''userIds'' [IsArray, ArrayMinSize 1, EachIsMongoId]]"

definition CreateCommentDto :: dtoClass where
  "CreateCommentDto = [needs ''body'' [IsString, IsNotEmpty]]"

definition slugPattern :: string where
  "slugPattern = ''^[a-z0-9]+(?:-[a-z0-9]+)*$''"

definition CreateWorkspaceDto :: dtoClass where
  "CreateWorkspaceDto = [needs ''name'' [IsString, IsNotEmpty, MinLength 2, MaxLength 100],
     needs ''slug'' [IsString, IsNotEmpty, MinLength 2, MaxLength 100, Matches slugPattern]]"

definition AddMemberDto :: dtoClass where
  "AddMemberDto = [needs ''userId'' [IsString, IsNotEmpty], needs ''role'' [IsEnum workspaceRoleNames]]"

definition CreateInvitationDto :: dtoClass where
  "CreateInvitationDto = [needs ''email'' [IsEmail, IsNotEmpty], needs ''role'' [IsEnum workspaceRoleNames]]"

definition UpdateFeatureFlagsDto :: dtoClass where
  "UpdateFeatureFlagsDto = map (\<lambda>n. mayHave n [IsBoolean])
     [''webhooks'', ''exports'', ''reminders'', ''emailNotifications'', ''advancedTaskFiltering'']"

definition UpdateWorkspaceSettingsDto :: dtoClass where
  "UpdateWorkspaceSettingsDto = [mayHave ''timezone'' [IsString], mayHave ''defaultTaskPriority'' [IsEnum taskPriorityNames],
     mayHave ''defaultTaskStatus'' [IsEnum taskStatusNames], mayHave ''emailNotifications'' [IsBoolean],
     mayHave ''taskAssignmentNotifications'' [IsBoolean]]"

definition CreateCategryDto :: dtoClass where
  "CreateCategryDto = [needs ''name'' [IsString], mayHave ''color'' [IsString]]"

text \<open>\<open>PartialType(CreateCategryDto)\<close>\<close>

definition UpdateCategoryDto :: dtoClass where
  "UpdateCategoryDto = map (df_optional_update (\<lambda>_. True)) CreateCategryDto"

definition CreateExportDto :: dtoClass where
  "CreateExportDto = [needs ''format'' [IsString, IsIn [''json'', ''csv'', ''xlsx'']]]"

definition CreateWebhookDto :: dtoClass where
  "CreateWebhookDto = [needs ''url'' [IsUrl, IsNotEmpty], needs ''events'' [IsArray, ArrayNotEmpty, EachIsString]]"

definition RegisterDto :: dtoClass where
  "RegisterDto = [needs ''email'' [IsEmail], needs ''password'' [MinLength 6]]"

definition LoginDto :: dtoClass where
  "LoginDto = [needs ''email'' [IsEmail], needs ''password'' [IsString]]"

definition RefreshTokenDto :: dtoClass where
  "RefreshTokenDto = [needs ''refresh_token'' [IsString]]"

definition GetAuditLogsDto :: dtoClass where
  "GetAuditLogsDto = [mayHave ''page'' [IsInt, Min 1], mayHave ''limit'' [IsInt, Min 1, Max 100]]"

text \<open>
  The pipe gives the properties of the DTO or refuses the body. What is assumed of it is what its
  documentation says of \<open>whitelist\<close> and of the decorators the proofs use; of the others nothing
  is assumed. An id that passed \<open>@IsMongoId()\<close> is written as \<open>JOid\<close>.
\<close>

type_synonym pipe = "dtoClass \<Rightarrow> json \<Rightarrow> err + props"

fun meets :: "check \<Rightarrow> json \<Rightarrow> bool" where
  "meets IsString v \<longleftrightarrow> (\<exists>s. v = JStr s)"
| "meets (MinLength n) v \<longleftrightarrow> (\<exists>s. v = JStr s \<and> n \<le> length s)"
| "meets (IsEnum names) v \<longleftrightarrow> v \<in> JStr ` set names"
| "meets (IsIn names) v \<longleftrightarrow> v \<in> JStr ` set names"
| "meets IsMongoId v \<longleftrightarrow> (\<exists>i. v = JOid i)"
| "meets IsBoolean v \<longleftrightarrow> (\<exists>b. v = JBool b)"
| "meets _ v \<longleftrightarrow> True"

definition accepted :: "dtoClass \<Rightarrow> props \<Rightarrow> bool" where
  "accepted cls dto \<longleftrightarrow> distinct (map fst dto) \<and> set (map fst dto) \<subseteq> set (map df_name cls) \<and>
     (\<forall>f\<in>set cls. df_optional f \<and> jget dto (df_name f) \<in> {JUndef, JNull} \<or>
        (\<forall>c\<in>set (df_checks f). meets c (jget dto (df_name f))))"

definition pipeLaw :: "pipe \<Rightarrow> bool" where
  "pipeLaw pipe \<longleftrightarrow> (\<forall>cls body. case pipe cls body of
     Inl e \<Rightarrow> \<exists>m. e = BadRequest m
   | Inr dto \<Rightarrow> accepted cls dto)"

definition validated :: "pipe \<Rightarrow> dtoClass \<Rightarrow> json \<Rightarrow> props wprog" where
  "validated pipe cls body = (case pipe cls body of Inl e \<Rightarrow> throw e | Inr dto \<Rightarrow> ret dto)"

section \<open>Requests\<close>

text \<open>
  A request as the controllers read it. The ids of the path, the query and the body are those of a
  valid ObjectId text; a missing one is \<open>None\<close>.
\<close>

record httpRequest =
  ht_bearer :: "string option"
  ht_ip :: "string option"
  ht_ifMatch :: "string option"
  ht_ifNoneMatch :: "string option"
  ht_idem :: idemRequest
  ht_paramWorkspaceId :: "oid option"
  ht_paramId :: "oid option"
  ht_paramSubId :: "oid option"
  ht_queryWorkspaceId :: "oid option"
  ht_body :: json

definition jid :: "json \<Rightarrow> oid option" where
  "jid v = (case v of JOid i \<Rightarrow> Some i | _ \<Rightarrow> None)"

definition guardRequest :: "authUser \<Rightarrow> httpRequest \<Rightarrow> request" where
  "guardRequest u h = \<lparr>rq_userId = Some (cu_userId u), rq_paramWorkspaceId = ht_paramWorkspaceId h,
     rq_queryWorkspaceId = ht_queryWorkspaceId h, rq_bodyWorkspaceId = jid (propOf ''workspaceId'' (ht_body h)),
     rq_paramId = ht_paramId h, rq_task = None\<rparr>"

text \<open>What is configured around the handlers: token check, CASL, pipe, load-test switch, crypto.\<close>

record server =
  sv_verify :: tokenCheck
  sv_can :: casl
  sv_pipe :: pipe
  sv_loadTestMode :: bool
  sv_ext :: ext

text \<open>\<open>new Types.ObjectId(undefined)\<close> is a new id.\<close>

definition orFreshId :: "oid option \<Rightarrow> oid wprog" where
  "orFreshId i = (case i of None \<Rightarrow> freshId | Some w \<Rightarrow> ret w)"

text \<open>\<open>@UseGuards(JwtAuthGuard)\<close>, then \<open>@UseGuards(PoliciesGuard) @CheckPolicies(...)\<close>.\<close>

definition authenticated :: "server \<Rightarrow> httpRequest \<Rightarrow> (authUser \<Rightarrow> 'a wprog) \<Rightarrow> 'a wprog" where
  "authenticated S h next = bnd (JwtAuthGuard_canActivate (sv_verify S) (ht_bearer h)) next"

definition secured :: "server \<Rightarrow> policy list \<Rightarrow> bool \<Rightarrow> bool \<Rightarrow> httpRequest \<Rightarrow> (authUser \<Rightarrow> 'a wprog) \<Rightarrow> 'a wprog" where
  "secured S policies isGlobal load h next = authenticated S h (\<lambda>u.
     andThen (canActivate (sv_can S) policies isGlobal load (guardRequest u h)) (next u))"

definition adminOnly :: "server \<Rightarrow> httpRequest \<Rightarrow> (authUser \<Rightarrow> 'a wprog) \<Rightarrow> 'a wprog" where
  "adminOnly S h next = authenticated S h (\<lambda>u.
     andThen (RolesGuard_canActivate (Some [''admin'']) (Some u)) (next u))"

text \<open>
  \<open>@UseInterceptors(IdempotencyInterceptor)\<close>: \<open>show\<close> is the serialisation of the answer of the
  handler, and the key is scoped by the user of the request, if any.
\<close>

definition idempotent :: "server \<Rightarrow> ('a \<Rightarrow> json) \<Rightarrow> authUser option \<Rightarrow> httpRequest \<Rightarrow> 'a wprog \<Rightarrow> (nat \<times> json) wprog" where
  "idempotent S show u h handler = IdempotencyInterceptor_intercept (sv_ext S)
     ((ht_idem h)\<lparr>ir_userId := map_option (\<lambda>u. oidString (cu_userId u)) u, ir_body := ht_body h\<rparr>)
     (bnd handler (\<lambda>r. ret (ir_status (ht_idem h), show r)))"

definition rateLimited :: "server \<Rightarrow> authUser \<Rightarrow> 'a wprog \<Rightarrow> 'a wprog" where
  "rateLimited S u next = UserRateLimitInterceptor_intercept (sv_loadTestMode S) (Some (cu_userId u)) next"

end
