(* ===== verification/TaskRoutes.thy ===== *)
theory TaskRoutes
  imports Requests TaskQueries
begin

text \<open>
  The routes of the task controller (\<open>src/task/task.controller.ts\<close>): for each one its guards,
  interceptors and DTO, the command or query it executes, and the headers and status it sets; and
  the activity log it reads (\<open>src/activity\<close>).
\<close>

section \<open>The activity log\<close>

text \<open>An entry with the e-mail of its user and the title of its task, as far as they are populated.\<close>

record activityView =
  av_doc :: activityDoc
  av_user :: "string option"
  av_title :: json

definition userEmail :: "database \<Rightarrow> oid \<Rightarrow> string option" where
  "userEmail d i = map_option u_email (List.find (\<lambda>u. u_id u = i) (users d))"

definition taskTitle :: "database \<Rightarrow> oid \<Rightarrow> json" where
  "taskTitle d i = (case List.find (\<lambda>t. t_id t = i) (tasks d) of None \<Rightarrow> JNull | Some t \<Rightarrow> t_title t)"

text \<open>Newest first.\<close>

definition newestFirst :: "activityDoc list \<Rightarrow> activityDoc list" where
  "newestFirst as = sort_key (\<lambda>a. - ac_createdAt a) as"

definition ActivityRepository_findByTask :: "oid \<Rightarrow> activityView list wprog" where
  "ActivityRepository_findByTask taskId = query (\<lambda>d.
     map (\<lambda>a. \<lparr>av_doc = a, av_user = userEmail d (ac_user a), av_title = JUndef\<rparr>)
       (newestFirst (filter (\<lambda>a. ac_task a = taskId) (activities d))))"

definition ActivityRepository_findByUser :: "oid \<Rightarrow> activityView list wprog" where
  "ActivityRepository_findByUser userId = query (\<lambda>d.
     map (\<lambda>a. \<lparr>av_doc = a, av_user = None, av_title = taskTitle d (ac_task a)\<rparr>)
       (newestFirst (filter (\<lambda>a. ac_user a = userId) (activities d))))"

definition ActivityRepository_findAll :: "activityView list wprog" where
  "ActivityRepository_findAll = query (\<lambda>d.
     map (\<lambda>a. \<lparr>av_doc = a, av_user = userEmail d (ac_user a), av_title = taskTitle d (ac_task a)\<rparr>)
       (newestFirst (activities d)))"

definition GetTaskActivities_execute :: "oid \<Rightarrow> activityView list wprog" where
  "GetTaskActivities_execute taskId = ActivityRepository_findByTask taskId"

section \<open>Attachments on the way in\<close>

definition allowedMimeTypes :: "string list" where
  "allowedMimeTypes = [''image/jpeg'', ''image/png'', ''image/gif'', ''image/webp'', ''application/pdf'']"

definition maxFileSize :: nat where
  "maxFileSize = 5 * 1024 * 1024"

definition fileFilter :: "string \<Rightarrow> err + bool" where
  "fileFilter mimetype = (if mimetype \<notin> set allowedMimeTypes then Inl (BadRequest ''Only image and PDF files are allowed.'')
     else Inr True)"

text \<open>
  Multer parses the form, asks the filter, stores the file and enforces the limit: a parameter,
  given the filter and the limit. A form without a file gives none, and the handler reads its name.
\<close>

type_synonym multer = "(string \<Rightarrow> err + bool) \<Rightarrow> nat \<Rightarrow> uploadedFile option wprog"

definition UploadAttachment_execute_form :: "oid \<Rightarrow> uploadedFile option \<Rightarrow> oid \<Rightarrow> oid \<Rightarrow> attachmentDoc list wprog" where
  "UploadAttachment_execute_form taskId file userId workspaceId = (case file of
     Some f \<Rightarrow> UploadAttachment_execute taskId f userId workspaceId
   | None \<Rightarrow> andThen (TaskRepository_findAuthorizedTask taskId workspaceId)
       (bnd (findOne tasks (\<lambda>t. t_id t = taskId)) (\<lambda>found.
        bnd (orThrow found (NotFound ''Task Not Found'')) (\<lambda>task.
          throw (PlainError ''Cannot read properties of undefined (reading filename)'')))))"

section \<open>TaskController\<close>

text \<open>\<open>@UseGuards(JwtAuthGuard)\<close> and \<open>@UseInterceptors(UserRateLimitInterceptor)\<close> of the class, with the policies of the route.\<close>

definition taskRoute :: "server \<Rightarrow> policy list \<Rightarrow> bool \<Rightarrow> httpRequest \<Rightarrow> (authUser \<Rightarrow> 'a wprog) \<Rightarrow> 'a wprog" where
  "taskRoute S policies load h next = secured S policies False load h (\<lambda>u. rateLimited S u (next u))"

text \<open>The task of the path in the workspace of the query.\<close>

definition withIds :: "httpRequest \<Rightarrow> (oid \<Rightarrow> oid \<Rightarrow> 'a wprog) \<Rightarrow> 'a wprog" where
  "withIds h next = bnd (orFreshId (ht_paramId h)) (\<lambda>i. bnd (orFreshId (ht_queryWorkspaceId h)) (\<lambda>w. next i w))"

definition oidsOf :: "json \<Rightarrow> oid list" where
  "oidsOf v = (case v of JArr vs \<Rightarrow> List.map_filter jid vs | _ \<Rightarrow> [])"

record taskAnswer =
  ta_status :: nat
  ta_etag :: "string option"
  ta_task :: "taskDoc option"

definition TaskController_create :: "server \<Rightarrow> (taskDoc \<Rightarrow> json) \<Rightarrow> httpRequest \<Rightarrow> (nat \<times> json) wprog" where
  "TaskController_create S toJson h = taskRoute S [createTaskPolicy] False h (\<lambda>u.
     idempotent S toJson (Some u) h
       (bnd (validated (sv_pipe S) CreateTaskDto (ht_body h)) (\<lambda>dto.
        bnd (orFreshId (jid (jget dto ''workspaceId''))) (\<lambda>workspaceId.
          CreateTask_execute dto workspaceId (cu_userId u)))))"

definition TaskController_assignTask :: "server \<Rightarrow> httpRequest \<Rightarrow> taskDoc wprog" where
  "TaskController_assignTask S h = taskRoute S [assignTaskPolicy] True h (\<lambda>u.
     bnd (validated (sv_pipe S) AssignTaskDto (ht_body h)) (\<lambda>dto.
     withIds h (\<lambda>taskId workspaceId.
       AssignTask_execute taskId (cu_userId u) workspaceId (oidsOf (jget dto ''userIds'')))))"

definition TaskController_findAll :: "server \<Rightarrow> mongo \<Rightarrow> tasksQuery \<Rightarrow> httpRequest \<Rightarrow> ((string \<times> string) list \<times> taskPage) wprog" where
  "TaskController_findAll S M q h = taskRoute S [readTaskPolicy] False h (\<lambda>u.
     bnd (orFreshId (ht_queryWorkspaceId h)) (\<lambda>workspaceId.
     bnd (GetTasks_execute M (cu_userId u) (cu_role u) workspaceId q) (\<lambda>result.
       ret (listHeaders result, result))))"

definition TaskController_getStats :: "server \<Rightarrow> httpRequest \<Rightarrow> taskStats wprog" where
  "TaskController_getStats S h = authenticated S h (\<lambda>u.
     rateLimited S u (GetTaskStats_execute (cu_userId u) (cu_role u)))"

definition TaskController_findOne :: "server \<Rightarrow> httpRequest \<Rightarrow> taskAnswer wprog" where
  "TaskController_findOne S h = taskRoute S [readTaskPolicy] True h (\<lambda>u.
     withIds h (\<lambda>i workspaceId.
     bnd (GetTaskById_execute i workspaceId) (\<lambda>lt.
       let v = t_v (lt_doc lt) in
       if notModified (ht_ifNoneMatch h) v then ret \<lparr>ta_status = 304, ta_etag = Some (etag v), ta_task = None\<rparr>
       else ret \<lparr>ta_status = 200, ta_etag = Some (etag v), ta_task = Some (lt_doc lt)\<rparr>)))"

definition TaskController_update :: "server \<Rightarrow> httpRequest \<Rightarrow> taskAnswer wprog" where
  "TaskController_update S h = taskRoute S [updateTaskPolicy] True h (\<lambda>u.
     bnd (validated (sv_pipe S) UpdateTaskDto (ht_body h)) (\<lambda>dto.
     withIds h (\<lambda>i workspaceId.
     case parseIfMatch (ht_ifMatch h) of
       Inl e \<Rightarrow> throw e
     | Inr expectedVersion \<Rightarrow>
         bnd (UpdateTask_execute i dto (cu_userId u) (cu_role u) workspaceId expectedVersion) (\<lambda>task.
           ret \<lparr>ta_status = 200, ta_etag = Some (etag (t_v task)), ta_task = Some task\<rparr>))))"

definition TaskController_addComment :: "server \<Rightarrow> (taskDoc \<Rightarrow> json) \<Rightarrow> httpRequest \<Rightarrow> (nat \<times> json) wprog" where
  "TaskController_addComment S toJson h = taskRoute S [createCommentPolicy] False h (\<lambda>u.
     idempotent S toJson (Some u) h
       (bnd (validated (sv_pipe S) CreateCommentDto (ht_body h)) (\<lambda>dto.
        withIds h (\<lambda>i workspaceId. CreateComment_execute i (jstring (jget dto ''body'')) (cu_userId u) workspaceId))))"

definition TaskController_getComments :: "server \<Rightarrow> httpRequest \<Rightarrow> commentDoc list wprog" where
  "TaskController_getComments S h = taskRoute S [readCommentPolicy] False h (\<lambda>u. withIds h GetComments_execute)"

definition TaskController_uploadAttachment ::
  "server \<Rightarrow> multer \<Rightarrow> (attachmentDoc list \<Rightarrow> json) \<Rightarrow> httpRequest \<Rightarrow> (nat \<times> json) wprog" where
  "TaskController_uploadAttachment S multer toJson h = taskRoute S [manageAttachmentPolicy] False h (\<lambda>u.
     idempotent S toJson (Some u) h
       (bnd (multer fileFilter maxFileSize) (\<lambda>file.
        withIds h (\<lambda>i workspaceId. UploadAttachment_execute_form i file (cu_userId u) workspaceId))))"

definition TaskController_getAttachments :: "server \<Rightarrow> httpRequest \<Rightarrow> attachmentDoc list wprog" where
  "TaskController_getAttachments S h = taskRoute S [readAttachmentPolicy] False h (\<lambda>u. withIds h GetAttachments_execute)"

definition TaskController_getTaskActivity :: "server \<Rightarrow> httpRequest \<Rightarrow> activityView list wprog" where
  "TaskController_getTaskActivity S h = taskRoute S [readTaskPolicy] True h (\<lambda>u.
     withIds h (\<lambda>i workspaceId. GetTaskActivities_execute i))"

definition TaskController_deleteAttachment :: "server \<Rightarrow> httpRequest \<Rightarrow> string wprog" where
  "TaskController_deleteAttachment S h = taskRoute S [manageAttachmentPolicy] False h (\<lambda>u.
     withIds h (\<lambda>i workspaceId. bnd (orFreshId (ht_paramSubId h)) (\<lambda>attachmentId.
       DeleteAttachment_execute i attachmentId (cu_userId u) workspaceId)))"

definition TaskController_remove :: "server \<Rightarrow> httpRequest \<Rightarrow> string wprog" where
  "TaskController_remove S h = taskRoute S [deleteTaskPolicy] True h (\<lambda>u.
     withIds h (\<lambda>i workspaceId. DeleteTask_execute i (cu_userId u) workspaceId))"

end
