(* ===== verification/TaskRoutesSpec.thy ===== *)
theory TaskRoutesSpec
  imports TaskRoutes AuthorizationSpec TaskListSpec
begin

text \<open>
  The task controller end to end: what a request with an entity tag may overwrite, whose tasks a
  request can change, and which statuses a request can be answered with.
\<close>

section \<open>The way to the handler\<close>

lemma sameDb_checkLimit: "stays sameDb (checkLimit b u)"
  unfolding checkLimit_def by (intro sameDb_rules sameDb_io) (simp_all add: Let_def)

lemma sameTasks_checkLimit: "stays sameTasks (checkLimit b u)"
  unfolding checkLimit_def
  by (intro sameTasks.stays_rules sameTasks_io) (simp_all add: sameTasks_def Let_def)

lemma sameDb_guard: "stays sameDb (canActivate can hs g load rq)"
  unfolding canActivate_def loadTaskInto_def TaskRepository_findById_def
  by (intro sameDb_rules reads_sameDb(1))

lemma sameTasks_guard: "stays sameTasks (canActivate can hs g load rq)"
  unfolding canActivate_def loadTaskInto_def TaskRepository_findById_def
  by (intro sameTasks_rules)

text \<open>The user of the token a request carries.\<close>

definition tokenUser :: "server \<Rightarrow> httpRequest \<Rightarrow> time \<Rightarrow> authUser option" where
  "tokenUser S h t = map_option JwtStrategy_validate (Option.bind (ht_bearer h) (\<lambda>token. sv_verify S token t))"

lemma jwt_run:
  "JwtAuthGuard_canActivate verify bearer s =
     (case Option.bind bearer (\<lambda>token. verify token (now s)) of
        None \<Rightarrow> (Inl (Unauthorized ''Unauthorized''), s) | Some p \<Rightarrow> (Inr (JwtStrategy_validate p), s))"
  by (simp add: JwtAuthGuard_canActivate_def bnd_run split: option.split)

text \<open>
  A route with policies: it answers an error and changes no data, or its handler runs, for the
  user of the token, who is an active member of the workspace the guard took, with a role that
  satisfies the policies.
\<close>

definition admitted :: "server \<Rightarrow> policy list \<Rightarrow> bool \<Rightarrow> httpRequest \<Rightarrow> world \<Rightarrow> authUser \<Rightarrow> oid \<Rightarrow> workspaceRole \<Rightarrow> bool" where
  "admitted S policies load h s u w r \<longleftrightarrow> tokenUser S h (now s) = Some u \<and> requestWorkspace (guardRequest u h) = Some w \<and>
     (\<exists>m\<in>set (memberships (db s)). m_workspaceId m = w \<and> m_userId m = cu_userId u \<and> m_status m = MActive \<and> m_role m = r) \<and>
     (\<exists>rq. (rq = guardRequest u h \<or> load \<and> (\<exists>task\<in>set (tasks (db s)). rq = (guardRequest u h)\<lparr>rq_task := Some task\<rparr> \<and>
          ht_paramId h = Some (t_id task) \<and> t_workspace task = w \<and> \<not> t_isDeleted task)) \<and>
        (\<forall>p\<in>set policies. p (sv_can S) (createForRole r (cu_userId u)) rq))"

lemma secured_cases:
  assumes "secured S policies False load h next s = (r, t)" and "policies \<noteq> []" and "coherent oneKey unMembership oneAnswer s"
  shows "((\<exists>e. r = Inl e) \<and> db t = db s \<and> sameTasks s t) \<or>
    (\<exists>u w role s1. admitted S policies load h s u w role \<and> sameTasks s s1 \<and> db s1 = db s \<and> next u s1 = (r, t))"
proof (cases "Option.bind (ht_bearer h) (\<lambda>token. sv_verify S token (now s))")
  case None
  with assms(1) show ?thesis
    by (auto simp: secured_def authenticated_def bnd_run jwt_run sameTasks.refl)
next
  case (Some p)
  let ?u = "JwtStrategy_validate p" and ?rq = "guardRequest (JwtStrategy_validate p) h"
  obtain g s0 where g: "canActivate (sv_can S) policies False load ?rq s = (g, s0)"
    by (cases "canActivate (sv_can S) policies False load ?rq s")
  have s0: "db s0 = db s" "sameTasks s s0"
    using sameDbD [OF sameDb_guard g] staysD [OF sameTasks_guard g] by simp_all
  have run: "andThen (canActivate (sv_can S) policies False load ?rq) (next ?u) s = (r, t)"
    using assms(1) Some by (simp add: secured_def authenticated_def bnd_run jwt_run)
  show ?thesis
  proof (cases g)
    case (Inl e)
    with run g s0 show ?thesis by (auto simp: andThen_run)
  next
    case (Inr rq')
    from canActivate_ok [OF g [unfolded Inr] assms(2,3)] obtain w m where
      m: "m \<in> set (memberships (db s))" "requestWorkspace ?rq = Some w" "m_workspaceId m = w" "m_userId m = cu_userId ?u"
        "m_status m = MActive" "\<forall>p\<in>set policies. p (sv_can S) (createForRole (m_role m) (cu_userId ?u)) rq'"
      and rq: "if load then \<exists>task\<in>set (tasks (db s)). rq' = ?rq\<lparr>rq_task := Some task\<rparr> \<and> rq_paramId ?rq = Some (t_id task) \<and>
        t_workspace task = w \<and> \<not> t_isDeleted task else rq' = ?rq"
      by (auto simp: guardRequest_def)
    have "rq' = ?rq \<or> load \<and> (\<exists>task\<in>set (tasks (db s)). rq' = ?rq\<lparr>rq_task := Some task\<rparr> \<and>
        ht_paramId h = Some (t_id task) \<and> t_workspace task = w \<and> \<not> t_isDeleted task)"
      using rq by (auto simp: guardRequest_def split: if_splits)
    with m Some have "admitted S policies load h s ?u w (m_role m)"
      unfolding admitted_def tokenUser_def by auto
    moreover have "next ?u s0 = (r, t)"
      using run g Inr by (simp add: andThen_run)
    ultimately show ?thesis using s0 by blast
  qed
qed

lemma taskRoute_cases:
  assumes "taskRoute S policies load h next s = (r, t)" and "policies \<noteq> []" and "coherent oneKey unMembership oneAnswer s"
  shows "((\<exists>e. r = Inl e) \<and> db t = db s \<and> sameTasks s t) \<or>
    (\<exists>u w role s1. admitted S policies load h s u w role \<and> sameTasks s s1 \<and> db s1 = db s \<and> next u s1 = (r, t))"
  using secured_cases [OF assms(1) [unfolded taskRoute_def] assms(2,3)]
proof
  assume "\<exists>u w role s1. admitted S policies load h s u w role \<and> sameTasks s s1 \<and> db s1 = db s \<and> rateLimited S u (next u) s1 = (r, t)"
  then obtain u w role s0 where adm: "admitted S policies load h s u w role" and s0: "sameTasks s s0" "db s0 = db s"
    and run: "rateLimited S u (next u) s0 = (r, t)" by blast
  obtain c s1 where c: "checkLimit (sv_loadTestMode S) (cu_userId u) s0 = (c, s1)"
    by (cases "checkLimit (sv_loadTestMode S) (cu_userId u) s0")
  have s1: "db s1 = db s" "sameTasks s s1"
    using sameDbD [OF sameDb_checkLimit c] staysD [OF sameTasks_checkLimit c] s0 sameTasks.trans by auto
  have "(case c of Inl e \<Rightarrow> (Inl e, s1)
      | Inr ok \<Rightarrow> if ok then next u s1 else (Inl (TooManyRequests ''Too many requests. Please try again later.''), s1)) = (r, t)"
    using run c by (cases c) (auto simp: andThen_run rateLimited_def UserRateLimitInterceptor_intercept_def bnd_run)
  with s1 adm show ?thesis
    by (cases c) (auto split: if_splits)
qed blast

section \<open>No lost update\<close>

lemma withIds_given [simp]:
  "ht_paramId h = Some i \<Longrightarrow> ht_queryWorkspaceId h = Some w \<Longrightarrow> withIds h next = next i w"
  by (simp add: withIds_def orFreshId_def)

lemma findOne_route_ok:
  assumes "TaskController_findOne S h s = (Inr a, t)" and "ta_task a = Some task" and "coherent oneKey unMembership oneAnswer s"
    and "ht_paramId h = Some i" and "ht_queryWorkspaceId h = Some w"
  shows "task \<in> set (tasks (db s)) \<and> inWorkspace i w task \<and> ta_etag a = Some (etag (t_v task)) \<and> sameTasks s t"
proof -
  from taskRoute_cases [OF assms(1) [unfolded TaskController_findOne_def] _ assms(3)] obtain s1 where
    s1: "sameTasks s s1" "db s1 = db s" and run: "bnd (GetTaskById_execute i w) (\<lambda>lt.
       let v = t_v (lt_doc lt) in
       if notModified (ht_ifNoneMatch h) v then ret \<lparr>ta_status = 304, ta_etag = Some (etag v), ta_task = None\<rparr>
       else ret \<lparr>ta_status = 200, ta_etag = Some (etag v), ta_task = Some (lt_doc lt)\<rparr>) s1 = (Inr a, t)"
    using assms(4,5) by auto
  from run obtain lt where load: "TaskRepository_findAuthorizedTask i w s1 = (Inr lt, t)"
    and a: "a = \<lparr>ta_status = 200, ta_etag = Some (etag (t_v (lt_doc lt))), ta_task = Some (lt_doc lt)\<rparr>"
    using assms(2) by (auto simp: bnd_ok GetTaskById_execute_def Let_def split: if_splits)
  have "sameTasks s1 t" by (rule staysD [OF sameTasks_authorized load])
  with s1 authorized_ok [OF load] a assms(2) show ?thesis
    using sameTasks.trans by auto
qed

lemma update_route_ok:
  assumes "TaskController_update S h s = (Inr a, t)" and "coherent oneKey unMembership oneAnswer s"
    and "ht_paramId h = Some i" and "ht_queryWorkspaceId h = Some w" and "parseIfMatch (ht_ifMatch h) = Inr v"
    and "distinct (map t_id (tasks (db s)))"
  shows "\<exists>u dto saved. tokenUser S h (now s) = Some u \<and> sv_pipe S UpdateTaskDto (ht_body h) = Inr dto \<and>
    updatedTo i w v dto (cu_userId u) (db s) (db t) saved \<and> a = \<lparr>ta_status = 200, ta_etag = Some (etag (t_v saved)), ta_task = Some saved\<rparr>"
proof -
  from taskRoute_cases [OF assms(1) [unfolded TaskController_update_def] _ assms(2)] obtain u s1 dto saved t1 where
    u: "tokenUser S h (now s) = Some u" and s1: "db s1 = db s"
    and dto: "sv_pipe S UpdateTaskDto (ht_body h) = Inr dto"
    and run: "UpdateTask_execute i dto (cu_userId u) (cu_role u) w v s1 = (Inr saved, t)"
    and a: "a = \<lparr>ta_status = 200, ta_etag = Some (etag (t_v saved)), ta_task = Some saved\<rparr>"
    using assms(3-5) by (auto simp: validated_def bnd_ok admitted_def split: sum.splits)
  have "updatedTo i w v dto (cu_userId u) (db s) (db t) saved"
    using UpdateTask_execute_outcome [where s = s1 and i = i and dto = dto and u = "cu_userId u" and role = "cu_role u" and w = w and v = v]
      run s1 assms(6) by simp
  with u dto a show ?thesis by blast
qed

lemma evolves_member:
  assumes "evolves W xs ys" and "x \<in> set xs"
  shows "\<exists>y\<in>set ys. docStep W x y"
proof -
  from assms(1) obtain us vs where ys: "ys = us @ vs" and us: "list_all2 (docStep W) xs us"
    by (auto simp: evolves_def)
  from us assms(2) have "\<exists>y\<in>set us. docStep W x y"
    by (induction rule: list_all2_induct) auto
  with ys show ?thesis by auto
qed

text \<open>
  C4: No lost update. A client reads a task and gets its entity tag; meanwhile any task commands
  run, of anyone, with any failures; then the client sends an update with that tag. If the update is
  accepted, the task was still exactly the one the client had read, the change of the request is
  applied to it, and the answer carries the tag of the new version.
\<close>

theorem no_lost_update:
  assumes "TaskController_findOne S h s = (Inr a, s1)" and "ta_task a = Some task"
    and "t = fold runCommand cs s1"
    and "TaskController_update S h' t = (Inr b, u)" and "ht_ifMatch h' = ta_etag a"
    and "ht_paramId h = Some i" and "ht_queryWorkspaceId h = Some w"
    and "ht_paramId h' = Some i" and "ht_queryWorkspaceId h' = Some w"
    and "tasksInv s" and "\<forall>x\<in>set (tasks (db s)). 0 \<le> t_v x \<and> t_v x < 2 ^ 53"
    and "coherent oneKey unMembership oneAnswer s" and "coherent oneKey unMembership oneAnswer t"
  shows "task \<in> set (tasks (db t)) \<and> (\<exists>user dto saved. tokenUser S h' (now t) = Some user \<and>
    sv_pipe S UpdateTaskDto (ht_body h') = Inr dto \<and>
    updatedTo i w (t_v task) dto (cu_userId user) (db t) (db u) saved \<and> ta_etag b = Some (etag (t_v saved)))"
proof -
  from findOne_route_ok [OF assms(1,2,12,6,7)] have task: "task \<in> set (tasks (db s))" "inWorkspace i w task"
    "ta_etag a = Some (etag (t_v task))" "sameTasks s s1" by auto
  then have s1: "tasks (db s1) = tasks (db s)" "tasksInv s1"
    using assms(10) by (auto simp: sameTasks_def tasksInv_def)
  have "0 \<le> t_v task" using assms(11) task(1) by blast
  then have v: "parseIfMatch (ht_ifMatch h') = Inr (t_v task)"
    using parseIfMatch_tag [of "etag (t_v task)" "nat (t_v task)"] tagText_etag(1) [of "t_v task"] assms(5) task(3)
    by (simp add: etag_def)
  have "tasksStep (commandWorkspace ` set cs) s1 t"
    unfolding assms(3) by (rule step_runCommands) simp
  with s1 have inv: "tasksInv t" and ev: "evolves (commandWorkspace ` set cs) (tasks (db s)) (tasks (db t))"
    by (simp_all add: tasksStep_def)
  have dist: "distinct (map t_id (tasks (db t)))" using inv by (simp add: tasksInv_def)
  from update_route_ok [OF assms(4,13,8,9) v dist] obtain user dto saved where
    upd: "tokenUser S h' (now t) = Some user" "sv_pipe S UpdateTaskDto (ht_body h') = Inr dto"
    "updatedTo i w (t_v task) dto (cu_userId user) (db t) (db u) saved" "ta_etag b = Some (etag (t_v saved))"
    by auto
  obtain y where y: "y \<in> set (tasks (db t))" "docStep (commandWorkspace ` set cs) task y"
    using evolves_member [OF ev task(1)] by blast
  from upd(3) obtain z where z: "z \<in> set (tasks (db t))" "inWorkspace i w z" "t_v z = t_v task"
    unfolding updatedTo_def by auto
  have "t_id z = t_id y"
    using z(2) y(2) task(2) by (simp add: inWorkspace_def docStep_def)
  then have "z = y" by (rule distinct_key_eq [OF dist z(1) y(1)])
  then have "y = task" using y(2) z(3) by (auto simp: docStep_def)
  with y(1) upd show ?thesis by blast
qed

text \<open>Requests of user 9 for task 20 of workspace 3.\<close>

definition demoServer :: server where
  "demoServer = \<lparr>sv_verify = (\<lambda>token t. Some \<lparr>ap_sub = 9, ap_email = ''o@b'', ap_role = ''user''\<rparr>), sv_can = demoCan,
     sv_pipe = (\<lambda>cls body. Inr [(''status'', JStr ''done'')]), sv_loadTestMode = True, sv_ext = demoExt\<rparr>"

definition demoCall :: httpRequest where
  "demoCall = \<lparr>ht_bearer = Some ''t'', ht_ip = None, ht_ifMatch = None, ht_ifNoneMatch = None,
     ht_idem = \<lparr>ir_key = Some ''k'', ir_userId = None, ir_method = ''POST'', ir_baseUrl = [], ir_url = ''/tasks'',
       ir_originalUrl = ''/tasks'', ir_body = JUndef, ir_status = 201\<rparr>,
     ht_paramWorkspaceId = None, ht_paramId = Some 20, ht_paramSubId = None, ht_queryWorkspaceId = Some 3, ht_body = JObj []\<rparr>"

lemma demoRead: "fst (TaskController_findOne demoServer demoCall demoBoard) =
    Inr \<lparr>ta_status = 200, ta_etag = Some (etag 0), ta_task = Some (demoTask 20 3)\<rparr>"
  by code_simp

definition demoTagged :: httpRequest where
  "demoTagged = demoCall\<lparr>ht_ifMatch := Some (etag 0)\<rparr>"

lemma demoWrite: "isl (fst (TaskController_update demoServer demoTagged (snd (TaskController_findOne demoServer demoCall demoBoard)))) = False"
  by code_simp

lemma demoCall_sel [simp]: "ht_paramId demoCall = Some 20" "ht_queryWorkspaceId demoCall = Some 3" "ht_paramWorkspaceId demoCall = None"
  by (simp_all add: demoCall_def)

lemma coherent_fresh: "(\<And>k. cacheLive s k = None) \<Longrightarrow> coherent oneKey unMembership oneAnswer s"
  by (simp add: coherent_def)

lemma guard_coherent:
  assumes "canActivate can hs False load rq s = (Inr rq', t)" and "faults s = []" and "coherent oneKey unMembership oneAnswer s"
  shows "coherent oneKey unMembership oneAnswer t \<and> faults t = []"
proof (cases "hs = []")
  case True
  with assms show ?thesis by (simp add: canActivate_def)
next
  case False
  with assms(1) obtain u w s1 found where load: "(if load then loadTaskInto w rq else ret rq) s = (Inr rq', s1)"
    and found: "MembershipRepository_findByWorkspaceAndUser w u s1 = (Inr found, t)"
    by (auto simp: canActivate_def bnd_ok andThen_ok orThrow_ok throwIf_ok simp del: throwIf_run split: option.splits)
  have "s1 = s"
    using load assms(2) by (cases "rq_paramId rq")
      (auto simp: loadTaskInto_def TaskRepository_findById_def bnd_ok orThrow_ok split: if_splits)
  with found have t: "t = snd (MembershipRepository_findByWorkspaceAndUser w u s)" by simp
  have "coherent oneKey unMembership oneAnswer t"
    unfolding t read_forms by (rule oneC.coherent_after_read [OF assms(3,2)])
  moreover have "faults t = []"
    unfolding t MembershipRepository_findByWorkspaceAndUser_def Let_def
    by (rule readThrough_other [THEN conjunct2, THEN conjunct1, OF assms(2)]) (simp add: assms(2))
  ultimately show ?thesis by simp
qed

lemma authorized_still:
  assumes "faults s = []" and "TaskRepository_findAuthorizedTask i w s = (r, t)"
  shows "t = s"
proof -
  have "\<exists>v. populateCategory c s = (Inr v, s)" for c
    using assms(1) by (cases c) (simp_all add: populateCategory_def bnd_run)
  then obtain pop where "\<And>c. populateCategory c s = (Inr (pop c), s)" by metis
  with assms show ?thesis
    by (cases "List.find (inWorkspace i w) (tasks (db s))")
      (auto simp: TaskRepository_findAuthorizedTask_def bnd_run)
qed

lemma findOne_route_coherent:
  assumes "TaskController_findOne S h s = (Inr a, t)" and "faults s = []" and "coherent oneKey unMembership oneAnswer s"
    and "sv_loadTestMode S" and "ht_paramId h = Some i" and "ht_queryWorkspaceId h = Some w"
  shows "coherent oneKey unMembership oneAnswer t"
proof -
  from assms obtain u rq s1 where guard: "canActivate (sv_can S) [readTaskPolicy] False True (guardRequest u h) s = (Inr rq, s1)"
    and run: "(\<exists>lt. TaskRepository_findAuthorizedTask i w s1 = (Inr lt, t))"
    unfolding TaskController_findOne_def taskRoute_def secured_def authenticated_def rateLimited_def UserRateLimitInterceptor_intercept_def
    by (auto simp: bnd_ok andThen_ok jwt_run checkLimit_def GetTaskById_execute_def Let_def split: option.splits if_splits)
  from guard_coherent [OF guard assms(2,3)] have s1: "coherent oneKey unMembership oneAnswer s1" "faults s1 = []" by simp_all
  have "t = s1"
    using run authorized_still [OF s1(2)] by blast
  with s1 show ?thesis by simp
qed

lemma no_lost_update_witness:
  "\<exists>b u. TaskController_update demoServer demoTagged (snd (TaskController_findOne demoServer demoCall demoBoard)) = (Inr b, u) \<and>
     demoTask 20 3 \<in> set (tasks (db (snd (TaskController_findOne demoServer demoCall demoBoard))))"
proof -
  obtain s1 where get: "TaskController_findOne demoServer demoCall demoBoard =
      (Inr \<lparr>ta_status = 200, ta_etag = Some (etag 0), ta_task = Some (demoTask 20 3)\<rparr>, s1)"
    using demoRead by (cases "TaskController_findOne demoServer demoCall demoBoard") auto
  then obtain b u where put: "TaskController_update demoServer demoTagged s1 = (Inr b, u)"
    using demoWrite by (cases "TaskController_update demoServer demoTagged s1"; cases "fst (TaskController_update demoServer demoTagged s1)") auto
  have "faults demoBoard = []" "sv_loadTestMode demoServer" by (simp_all add: demoServer_def)
  then have c: "coherent oneKey unMembership oneAnswer s1"
    using findOne_route_coherent [OF get _ coherent_fresh] by simp
  have "demoTask 20 3 \<in> set (tasks (db s1))"
    using no_lost_update [where cs = "[]" and t = s1 and i = 20 and w = 3, OF get _ _ put] demoBoard_inv coherent_fresh c
    by (simp add: demoTagged_def)
  with get put show ?thesis by auto
qed

section \<open>Whose tasks a request can change\<close>

lemma step_idempotent:
  assumes "stays (tasksStep W) handler"
  shows "stays (tasksStep W) (idempotent S toJson u h handler)"
proof -
  have redis: "stays sameTasks (reserveNx a b c)" "stays sameTasks (IdempotencyService_delete a b)"
    "stays sameTasks (complete a b c r)" "stays sameTasks (IdempotencyService_get a b)" for a b c r
    unfolding reserveNx_def IdempotencyService_delete_def complete_def IdempotencyService_complete_def IdempotencyService_get_def Let_def
    by (intro sameTasks.stays_rules sameTasks_io; auto simp: sameTasks_def redisSet_def split: option.split)+
  have run: "stays (tasksStep W) (runHandler a b c (bnd handler (\<lambda>r. ret (n, toJson r))))" for a b c n
    unfolding runHandler_def release_def
    by (intro tasksStep.stays_rules step_same [OF redis(2)] step_same [OF redis(3)] assms)
  have reserve: "stays (tasksStep W) (IdempotencyService_reserve a b c)" for a b c
    unfolding IdempotencyService_reserve_def
    by (rule step_same) (intro sameTasks.stays_rules redis)
  have "stays (tasksStep W) (IdempotencyInterceptor_intercept X rq (bnd handler (\<lambda>r. ret (n, toJson r))))" for X rq n
    unfolding IdempotencyInterceptor_intercept_def Let_def
    by (auto split: sum.split decision.split intro!: tasksStep.stays_rules reserve run)
  then show ?thesis
    unfolding idempotent_def by blast
qed

lemma step_validated: "stays (tasksStep W) (validated pipe cls body)"
  unfolding validated_def by (auto split: sum.split intro: tasksStep.stays_rules)

text \<open>The routes that change a task, and the roles that may use them.\<close>

datatype taskWrite = WAssign | WUpdate | WComment | WUpload | WDeleteAttachment | WRemove

definition writeRoute ::
  "server \<Rightarrow> multer \<Rightarrow> (taskDoc \<Rightarrow> json) \<Rightarrow> (attachmentDoc list \<Rightarrow> json) \<Rightarrow> taskWrite \<Rightarrow> httpRequest \<Rightarrow> world \<Rightarrow> world" where
  "writeRoute S multer taskJson filesJson c h s = (case c of
     WAssign \<Rightarrow> snd (TaskController_assignTask S h s)
   | WUpdate \<Rightarrow> snd (TaskController_update S h s)
   | WComment \<Rightarrow> snd (TaskController_addComment S taskJson h s)
   | WUpload \<Rightarrow> snd (TaskController_uploadAttachment S multer filesJson h s)
   | WDeleteAttachment \<Rightarrow> snd (TaskController_deleteAttachment S h s)
   | WRemove \<Rightarrow> snd (TaskController_remove S h s))"

fun mayWrite :: "taskWrite \<Rightarrow> workspaceRole \<Rightarrow> bool" where
  "mayWrite WAssign r = (r \<noteq> Viewer)"
| "mayWrite WUpdate r = (r \<noteq> Viewer)"
| "mayWrite WComment r = (r \<noteq> Viewer)"
| "mayWrite _ r = (r = Owner \<or> r = Admin)"

definition writer :: "server \<Rightarrow> httpRequest \<Rightarrow> world \<Rightarrow> oid \<Rightarrow> taskWrite \<Rightarrow> bool" where
  "writer S h s w c \<longleftrightarrow> (\<exists>u. tokenUser S h (now s) = Some u \<and> (\<exists>m\<in>set (memberships (db s)).
     m_workspaceId m = w \<and> m_userId m = cu_userId u \<and> m_status m = MActive \<and> mayWrite c (m_role m)))"

lemma admitted_writer:
  assumes "admitted S policies load h s u w' role" and "ht_queryWorkspaceId h = Some w" and "ht_paramWorkspaceId h = None"
    and "\<And>rq. \<lbrakk>\<forall>p\<in>set policies. p (sv_can S) (createForRole role (cu_userId u)) rq\<rbrakk> \<Longrightarrow> mayWrite c role"
  shows "writer S h s w c"
proof -
  have "w' = w"
    using assms(1-3) by (simp add: admitted_def requestWorkspace_def nullish_def guardRequest_def)
  with assms(1,4) show ?thesis
    unfolding admitted_def writer_def by blast
qed

lemma writing_roles:
  assumes "caslLaw can"
  shows "assignTaskPolicy can (createForRole r u) rq \<Longrightarrow> r \<noteq> Viewer"
    and "updateTaskPolicy can (createForRole r u) rq \<Longrightarrow> r \<noteq> Viewer"
    and "createCommentPolicy can (createForRole r u) rq \<Longrightarrow> r \<noteq> Viewer"
    and "manageAttachmentPolicy can (createForRole r u) rq \<Longrightarrow> r = Owner \<or> r = Admin"
    and "deleteTaskPolicy can (createForRole r u) rq \<Longrightarrow> r = Owner \<or> r = Admin"
  unfolding assignTaskPolicy_def updateTaskPolicy_def createCommentPolicy_def manageAttachmentPolicy_def deleteTaskPolicy_def
    can_role [OF assms]
  by (cases r; auto simp: canRule_def canRuleIf_def can_role [OF assms] split: option.splits)+

text \<open>A route whose handler changes only tasks of the workspace of the query.\<close>

lemma route_isolated:
  assumes "t = snd (taskRoute S policies load h next s)" and "policies \<noteq> []" and "coherent oneKey unMembership oneAnswer s"
    and "ht_queryWorkspaceId h = Some w" and "ht_paramWorkspaceId h = None"
    and "\<And>u. stays (tasksStep {w}) (next u)"
    and "\<And>role u rq. \<lbrakk>\<forall>p\<in>set policies. p (sv_can S) (createForRole role u) rq\<rbrakk> \<Longrightarrow> mayWrite c role"
  shows "tasksStep {w} s t \<and> (tasks (db t) = tasks (db s) \<or> writer S h s w c)"
proof -
  obtain r where run: "taskRoute S policies load h next s = (r, t)"
    using assms(1) by (cases "taskRoute S policies load h next s") auto
  from taskRoute_cases [OF this assms(2,3)] show ?thesis
  proof
    assume "(\<exists>e. r = Inl e) \<and> db t = db s \<and> sameTasks s t"
    then show ?thesis by (simp add: sameTasks_step)
  next
    assume "\<exists>u w role s1. admitted S policies load h s u w role \<and> sameTasks s s1 \<and> db s1 = db s \<and> next u s1 = (r, t)"
    then obtain u w' role s1 where a: "admitted S policies load h s u w' role" "sameTasks s s1" "next u s1 = (r, t)" by blast
    have "tasksStep {w} s t"
      using sameTasks_step [OF a(2)] staysD [OF assms(6) a(3)] by (rule tasksStep.trans)
    moreover have "writer S h s w c"
      by (rule admitted_writer [OF a(1) assms(4,5)]) (rule assms(7))
    ultimately show ?thesis by blast
  qed
qed

lemma step_withIds:
  assumes "\<And>i. stays (tasksStep W) (next i w)" and "ht_queryWorkspaceId h = Some w"
  shows "stays (tasksStep W) (withIds h next)"
  unfolding withIds_def orFreshId_def assms(2)
  by (auto split: option.split intro!: tasksStep.stays_rules step_same [OF sameTasks_freshId] assms(1))

lemma uploadForm_step: "stays (tasksStep {w}) (UploadAttachment_execute_form i fl u w)"
proof (cases fl)
  case None
  then show ?thesis
    unfolding UploadAttachment_execute_form_def
    by (auto intro!: step_same sameTasks_rules)
next
  case (Some f)
  then show ?thesis
    unfolding UploadAttachment_execute_form_def by (simp add: staysI step_UploadAttachment)
qed

lemma writeRoute_isolated:
  assumes "caslLaw (sv_can S)" and "coherent oneKey unMembership oneAnswer s" and "ht_queryWorkspaceId h = Some w"
    and "ht_paramWorkspaceId h = None" and "stays sameTasks (multer fileFilter maxFileSize)"
  shows "tasksStep {w} s (writeRoute S multer taskJson filesJson c h s) \<and>
    (tasks (db (writeRoute S multer taskJson filesJson c h s)) = tasks (db s) \<or> writer S h s w c)"
proof -
  note isolated = route_isolated [OF refl _ assms(2,3,4)] and roles = writing_roles [OF assms(1)]
  have step: "stays (tasksStep {w}) (UpdateTask_execute i dto u role w v)" "stays (tasksStep {w}) (AssignTask_execute i u w us)"
    "stays (tasksStep {w}) (CreateComment_execute i body u w)" "stays (tasksStep {w}) (DeleteAttachment_execute i a u w)"
    "stays (tasksStep {w}) (DeleteTask_execute i u w)" for i dto u role v us body a
    by (rule staysI, simp add: step_UpdateTask step_AssignTask step_CreateComment step_DeleteAttachment step_DeleteTask)+
  note rules = tasksStep.stays_rules step_validated step_withIds [OF _ assms(3)] step step_same [OF sameTasks_freshId]
  show ?thesis
  proof (cases c)
    case WAssign
    show ?thesis
      unfolding WAssign writeRoute_def taskWrite.case TaskController_assignTask_def
      by (rule isolated) (use roles in \<open>auto intro!: rules\<close>)
  next
    case WUpdate
    show ?thesis
      unfolding WUpdate writeRoute_def taskWrite.case TaskController_update_def
      by (rule isolated) (use roles in \<open>auto intro!: rules split: sum.split\<close>)
  next
    case WComment
    show ?thesis
      unfolding WComment writeRoute_def taskWrite.case TaskController_addComment_def
      by (rule isolated) (use roles in \<open>auto intro!: rules step_idempotent\<close>)
  next
    case WUpload
    show ?thesis
      unfolding WUpload writeRoute_def taskWrite.case TaskController_uploadAttachment_def
      by (rule isolated) (use roles in \<open>auto intro!: rules step_idempotent uploadForm_step step_same [OF assms(5)]\<close>)
  next
    case WDeleteAttachment
    show ?thesis
      unfolding WDeleteAttachment writeRoute_def taskWrite.case TaskController_deleteAttachment_def orFreshId_def
      by (rule isolated) (use roles in \<open>auto intro!: rules split: option.split\<close>)
  next
    case WRemove
    show ?thesis
      unfolding WRemove writeRoute_def taskWrite.case TaskController_remove_def
      by (rule isolated) (use roles in \<open>auto intro!: rules\<close>)
  qed
qed


definition noUpload :: multer where
  "noUpload = (\<lambda>_ _. ret None)"


end
