(* ===== verification/RouteErrors.thy ===== *)
theory RouteErrors
  imports TaskRoutesSpec IdempotencySpec
begin

text \<open>
  Which errors a request can meet when nothing around the program fails. A program is calm when,
  without failures, it ends in an exception of the HTTP layer below 500 or in a result; the calls
  the routes are made of are calm, so that a body that passed the DTO never ends in an internal
  error on the creating and reading routes. The last section shows the two ways an update does.
\<close>

section \<open>Calm programs\<close>

definition clientError :: "err \<Rightarrow> bool" where
  "clientError e \<longleftrightarrow> excStatus (thrownBy e) < 500"

lemma clientError_simps [simp]:
  "clientError (BadRequest m)" "clientError (Unauthorized m)" "clientError (Forbidden m)" "clientError (NotFound m)"
  "clientError (Conflict m)" "clientError (PreconditionFailed m)" "clientError (PreconditionRequired m)"
  "clientError (TooManyRequests m)"
  by (simp_all add: clientError_def excStatus_def)

definition calm :: "'a wprog \<Rightarrow> bool" where
  "calm m \<longleftrightarrow> (\<forall>s. faults s = [] \<longrightarrow> (case m s of (r, t) \<Rightarrow> faults t = [] \<and> (\<forall>e. r = Inl e \<longrightarrow> clientError e)))"

lemma calmI: "(\<And>s r t. faults s = [] \<Longrightarrow> m s = (r, t) \<Longrightarrow> faults t = [] \<and> (\<forall>e. r = Inl e \<longrightarrow> clientError e)) \<Longrightarrow> calm m"
  by (auto simp: calm_def)

lemma calmD: "calm m \<Longrightarrow> m s = (r, t) \<Longrightarrow> faults s = [] \<Longrightarrow> faults t = [] \<and> (\<forall>e. r = Inl e \<longrightarrow> clientError e)"
  unfolding calm_def by fastforce

lemma calm_basic:
  "calm (ret x)" "calm (gets g)" "calm freshId" "clientError e \<Longrightarrow> calm (throw e)"
  "(\<And>s. faults s = [] \<Longrightarrow> faults (f s) = []) \<Longrightarrow> calm (modify f)"
  "\<not> c \<or> clientError e \<Longrightarrow> calm (throwIf c e)" "y \<noteq> None \<or> clientError e \<Longrightarrow> calm (orThrow y e)"
  by (auto simp: calm_def orThrow_def split: option.splits)

lemma calm_bnd:
  assumes "calm m" and "\<And>x. calm (f x)"
  shows "calm (bnd m f)"
proof (rule calmI)
  fix s r t assume s: "faults s = []" and run: "bnd m f s = (r, t)"
  obtain q u where m: "m s = (q, u)" by (cases "m s")
  from calmD [OF assms(1) m s] run m show "faults t = [] \<and> (\<forall>e. r = Inl e \<longrightarrow> clientError e)"
    by (cases q) (auto simp: bnd_run dest: calmD [OF assms(2)])
qed

lemma calm_andThen: "calm m \<Longrightarrow> calm n \<Longrightarrow> calm (andThen m n)"
  unfolding andThen_def by (rule calm_bnd)

lemma calm_whenP: "calm m \<Longrightarrow> calm (whenP c m)"
  by (simp add: whenP_def calm_basic)

lemma calm_if: "(c \<Longrightarrow> calm m) \<Longrightarrow> (\<not> c \<Longrightarrow> calm n) \<Longrightarrow> calm (if c then m else n)"
  by simp

lemma calm_option: "(x = None \<Longrightarrow> calm n) \<Longrightarrow> (\<And>v. x = Some v \<Longrightarrow> calm (f v)) \<Longrightarrow> calm (case x of None \<Rightarrow> n | Some v \<Rightarrow> f v)"
  by (cases x) auto

lemma calm_forEach: "(\<And>x. calm (f x)) \<Longrightarrow> calm (forEach xs f)"
  by (induction xs) (auto intro: calm_basic calm_andThen)

lemma calm_io: "calm m \<Longrightarrow> calm (io m)"
  by (auto simp: calm_def)

lemma calm_withTransaction:
  assumes "calm m"
  shows "calm (withTransaction m)"
proof (rule calmI)
  fix s r t assume s: "faults s = []" and run: "withTransaction m s = (r, t)"
  have "calm (bnd m (\<lambda>x. io (ret x)))"
    by (intro calm_bnd assms calm_io calm_basic)
  moreover obtain q u where "bnd m (\<lambda>x. io (ret x)) s = (q, u)" by (cases "bnd m (\<lambda>x. io (ret x)) s")
  ultimately show "faults t = [] \<and> (\<forall>e. r = Inl e \<longrightarrow> clientError e)"
    using run s calmD by (fastforce simp: withTransaction_def split: sum.splits)
qed

lemma calm_query: "calm (query f)"
  by (intro calm_io calm_basic)

lemma calm_find: "calm (findOne get p)" "calm (findDocs get p)"
  unfolding findOne_def findDocs_def by (rule calm_query)+

lemma calm_insertOne: "calm (insertOne get upd x)"
  unfolding insertOne_def by (intro calm_io calm_basic) simp

lemma calm_cache: "calm (cacheGet k)" "calm (cacheSet k v ttl)" "calm (cacheDel k)"
  unfolding cacheGet_def cacheSet_def cacheDel_def by (intro calm_io calm_basic; simp)+

lemma calm_readThrough:
  assumes "calm load" and "\<And>s. faults (remember s) = faults s"
  shows "calm (readThrough k unpack pack ttl remember load)"
  unfolding readThrough_def
  by (intro calm_bnd calm_cache calm_option calm_andThen calm_basic assms(1)) (simp add: assms(2))

lemma calm_clearKeys:
  assumes "\<And>s f. faults (upd f s) = faults s"
  shows "calm (clearKeys keys upd)"
  unfolding clearKeys_def
  by (intro calm_bnd calm_andThen calm_forEach calm_cache calm_basic) (simp add: assms)

lemmas calm_rules = calm_basic(1-4) calm_bnd calm_andThen calm_whenP calm_if calm_forEach calm_query calm_find calm_insertOne
  calm_withTransaction

section \<open>The calls of the routes\<close>

lemma calm_membership: "calm (MembershipRepository_findByWorkspaceAndUser w u)"
  unfolding MembershipRepository_findByWorkspaceAndUser_def Let_def
  by (rule calm_readThrough) (simp_all add: calm_find rememberMb_def)

lemma calm_category: "calm (CategoryRepository_findById i u)"
  unfolding CategoryRepository_findById_def Let_def
  by (rule calm_readThrough) (simp_all add: calm_find rememberCat_def)

lemma calm_effects: "calm (emit e)" "calm TaskRepository_clearCache" "calm startSession"
  unfolding emit_def TaskRepository_clearCache_def startSession_def
  by (auto intro!: calm_basic calm_clearKeys calm_io)

lemma calm_logs: "calm (AuditService_log a b c d e f)" "calm (ActivityRepository_create i u x y z)"
  "calm (OutboxService_create p q k l m n)"
  unfolding AuditService_log_def AuditLogRepository_create_def ActivityRepository_create_def OutboxService_create_def
    OutboxRepository_create_def Let_def
  by (intro calm_rules calm_option)+

lemma calm_authorized: "calm (TaskRepository_findAuthorizedTask i w)"
  unfolding TaskRepository_findAuthorizedTask_def populateCategory_def
  by (auto intro!: calm_rules calm_basic(7) split: json.splits)

lemma calm_guard: "calm (canActivate can hs g load rq)"
  unfolding canActivate_def loadTaskInto_def TaskRepository_findById_def denied_def
  by (auto intro!: calm_rules calm_basic(6,7) calm_membership split: option.split)

lemma calm_jwt: "calm (JwtAuthGuard_canActivate verify bearer)"
  unfolding JwtAuthGuard_canActivate_def by (auto intro!: calm_rules split: option.split)

lemma calm_checkLimit: "calm (checkLimit b u)"
  unfolding checkLimit_def
  by (intro calm_rules calm_io calm_basic(5)) (auto simp: calm_def Let_def)

lemma calm_orFreshId: "calm (orFreshId i)"
  unfolding orFreshId_def by (auto intro!: calm_rules split: option.split)

lemma calm_withIds: "(\<And>i w. calm (next i w)) \<Longrightarrow> calm (withIds h next)"
  unfolding withIds_def by (intro calm_rules calm_orFreshId)

lemma calm_validated:
  assumes "pipeLaw pipe"
  shows "calm (validated pipe cls body)"
proof (cases "pipe cls body")
  case (Inl e)
  have "case pipe cls body of Inl e \<Rightarrow> \<exists>m. e = BadRequest m | Inr dto \<Rightarrow> accepted cls dto"
    using assms unfolding pipeLaw_def by blast
  with Inl show ?thesis by (auto simp: validated_def intro!: calm_basic(4))
next
  case (Inr dto)
  then show ?thesis by (simp add: validated_def calm_basic(1))
qed

text \<open>What the DTO accepted is valid for the schema.\<close>

lemma accepted_valid:
  assumes "accepted CreateTaskDto dto"
  shows "validTask (newTask i t dto u w)"
proof -
  have f: "f \<in> set CreateTaskDto \<Longrightarrow> df_optional f \<and> jget dto (df_name f) \<in> {JUndef, JNull} \<or>
      (\<forall>c\<in>set (df_checks f). meets c (jget dto (df_name f)))" for f
    using assms by (simp add: accepted_def)
  have "\<exists>s. jget dto ''title'' = JStr s \<and> 3 \<le> length s"
    using f [of "needs ''title'' [IsString, MinLength 3]"] by (auto simp: CreateTaskDto_def needs_def)
  moreover have "jget dto ''status'' \<in> set (JUndef # JNull # statusValues)"
    using f [of "mayHave ''status'' [IsEnum taskStatusNames]"]
    by (auto simp: CreateTaskDto_def needs_def mayHave_def taskStatusNames_def statusValues_def)
  moreover have "jget dto ''priority'' \<in> set (JUndef # JNull # priorityValues)"
    using f [of "mayHave ''priority'' [IsEnum taskPriorityNames]"]
    by (auto simp: CreateTaskDto_def needs_def mayHave_def taskPriorityNames_def priorityValues_def)
  ultimately show ?thesis
    by (auto simp: validTask_def newTask_def Let_def statusValues_def priorityValues_def)
qed

lemma calm_CreateTask:
  assumes "accepted CreateTaskDto dto"
  shows "calm (CreateTask_execute dto w u)"
  unfolding CreateTask_execute_def CreateTask_check_def CreateTask_transaction_def TaskRepository_create_def Let_def
  by (intro calm_rules calm_membership calm_logs calm_effects calm_basic(6))
    (auto intro!: calm_rules calm_category calm_basic(6) simp: accepted_valid [OF assms] split: json.split)

section \<open>The idempotency store\<close>

definition readable :: "world \<Rightarrow> bool" where
  "readable s \<longleftrightarrow> (\<forall>k v. liveText s k = Some v \<longrightarrow> v = [] \<or> readRecord v \<noteq> None)"

definition sameStore :: "world \<Rightarrow> world \<Rightarrow> bool" where
  "sameStore s t \<longleftrightarrow> idempotency t = idempotency s \<and> now t = now s"

interpretation sameStore: step_order sameStore
  by unfold_locales (simp_all add: sameStore_def)

lemma readable_store: "readable s \<Longrightarrow> sameStore s t \<Longrightarrow> readable t"
  unfolding readable_def sameStore_def by (metis liveText_cong)

lemma sameStore_io:
  assumes "\<And>s. sameStore s (snd (m s))"
  shows "stays sameStore (io m)"
proof (rule staysI)
  show "sameStore s (snd (io m s))" for s
    using assms [of s] assms [of "s\<lparr>faults := tl (faults s)\<rparr>"]
    by (auto simp: io_run sameStore_def split: list.splits option.splits)
qed

lemma sameStore_guard: "stays sameStore (canActivate can hs g load rq)"
proof -
  have modify: "stays sameStore (modify (rememberMb k))" for k
    by (rule staysI) (simp add: sameStore_def rememberMb_def)
  have cache: "stays sameStore (cacheGet k)" "stays sameStore (cacheSet k v ttl)" for k v ttl
    unfolding cacheGet_def cacheSet_def by (rule sameStore_io, simp add: sameStore_def)+
  have find: "stays sameStore (findOne get p)" for get :: "database \<Rightarrow> 'x list" and p
    unfolding findOne_def by (rule sameStore_io) (simp add: sameStore_def)
  from find [of tasks] find [of memberships] show ?thesis
    unfolding canActivate_def loadTaskInto_def TaskRepository_findById_def MembershipRepository_findByWorkspaceAndUser_def
      readThrough_def Let_def
    by (intro sameStore.stays_rules modify cache)
qed

lemma sameStore_checkLimit: "stays sameStore (checkLimit b u)"
  unfolding checkLimit_def
  by (intro sameStore.stays_rules sameStore_io) (simp_all add: sameStore_def Let_def)

lemma intercept_calm:
  assumes "calm handler" and "readable s" and "faults s = []"
    and "IdempotencyInterceptor_intercept X rq handler s = (r, t)"
  shows "\<forall>e. r = Inl e \<longrightarrow> clientError e"
proof (cases "checkKey (ir_key rq)")
  case (Inl e)
  then have "clientError e"
    by (auto simp: checkKey_def split: option.splits if_splits)
  with Inl assms(4) show ?thesis by (auto simp: IdempotencyInterceptor_intercept_def)
next
  case (Inr key)
  let ?scope = "buildScope rq" and ?fp = "buildFingerprint X rq"
  have run: "calm (runHandler ?scope key ?fp handler)"
  proof (rule calmI)
    fix s r t assume s: "faults s = []" and "runHandler ?scope key ?fp handler s = (r, t)"
    moreover obtain q u where h: "handler s = (q, u)" by (cases "handler s")
    moreover have "faults u = []" "\<And>e. q = Inl e \<Longrightarrow> clientError e"
      using calmD [OF assms(1) h s] by simp_all
    ultimately show "faults t = [] \<and> (\<forall>e. r = Inl e \<longrightarrow> clientError e)"
      by (cases q) (auto simp: runHandler_def tryCatch_run bnd_run release_run complete_def IdempotencyService_complete_def andThen_run
          redisSet_def)
  qed
  have "\<exists>res s1. IdempotencyService_reserve ?scope key ?fp s = (Inr res, s1) \<and> faults s1 = []"
  proof (cases "liveText s (buildKey ?scope key)")
    case None
    with assms(3) show ?thesis
      by (auto simp: IdempotencyService_reserve_def bnd_run reserveNx_run)
  next
    case (Some v)
    then have "v = [] \<or> (\<exists>y. readRecord v = Some y)"
      using assms(2) by (auto simp: readable_def)
    with Some assms(3) obtain r where "IdempotencyService_get ?scope key s = (Inr r, s)"
      unfolding IdempotencyService_get_def by (cases "v = []") (auto simp: bnd_run)
    with Some assms(3) show ?thesis
      by (auto simp: IdempotencyService_reserve_def bnd_run reserveNx_run)
  qed
  then obtain res s1 where reserve: "IdempotencyService_reserve ?scope key ?fp s = (Inr res, s1)" and s1: "faults s1 = []"
    by blast
  have refuse: "decide ?fp res = Refuse e \<Longrightarrow> clientError e" for e
    by (auto simp: decide_def split: prod.splits bool.splits option.splits if_splits idemStatus.splits)
  from assms(4) Inr reserve have "(case decide ?fp res of Refuse e \<Rightarrow> throw e
      | Replay code body \<Rightarrow> ret (case code of None \<Rightarrow> ir_status rq | Some n \<Rightarrow> n, body)
      | RunHandler \<Rightarrow> runHandler ?scope key ?fp handler) s1 = (r, t)"
    by (simp add: IdempotencyInterceptor_intercept_def Let_def bnd_run)
  then show ?thesis
    using calmD [OF run _ s1] refuse by (auto split: decision.splits)
qed

section \<open>Creating and reading routes\<close>

text \<open>A route with policies, up to the handler.\<close>

lemma taskRoute_calm:
  assumes "taskRoute S policies load h act s = (r, t)" and "faults s = []" and "readable s"
    and "\<And>u s1 q v. \<lbrakk>act u s1 = (q, v); faults s1 = []; readable s1\<rbrakk> \<Longrightarrow> \<forall>e. q = Inl e \<longrightarrow> clientError e"
  shows "\<forall>e. r = Inl e \<longrightarrow> clientError e"
proof (cases "Option.bind (ht_bearer h) (\<lambda>token. sv_verify S token (now s))")
  case None
  with assms(1) show ?thesis
    by (auto simp: taskRoute_def secured_def authenticated_def bnd_run jwt_run)
next
  case (Some p)
  let ?u = "JwtStrategy_validate p" and ?rq = "guardRequest (JwtStrategy_validate p) h"
  obtain g s0 where g: "canActivate (sv_can S) policies False load ?rq s = (g, s0)"
    by (cases "canActivate (sv_can S) policies False load ?rq s")
  note s0 = calmD [OF calm_guard g assms(2)] readable_store [OF assms(3) staysD [OF sameStore_guard g]]
  obtain c s1 where c: "checkLimit (sv_loadTestMode S) (cu_userId ?u) s0 = (c, s1)"
    by (cases "checkLimit (sv_loadTestMode S) (cu_userId ?u) s0")
  have "faults s0 = []" using s0(1) by simp
  note s1 = calmD [OF calm_checkLimit c this] readable_store [OF s0(2) staysD [OF sameStore_checkLimit c]]
  have run: "(case g of Inl e \<Rightarrow> (Inl e, s0) | Inr rq \<Rightarrow> (case c of Inl e \<Rightarrow> (Inl e, s1)
      | Inr ok \<Rightarrow> if ok then act ?u s1 else (Inl (TooManyRequests ''Too many requests. Please try again later.''), s1))) = (r, t)"
    using assms(1) Some g c
    by (cases g; cases c) (auto simp: taskRoute_def secured_def authenticated_def bnd_run jwt_run andThen_run rateLimited_def
        UserRateLimitInterceptor_intercept_def)
  show ?thesis
  proof (cases "\<exists>rq. g = Inr rq \<and> c = Inr True")
    case True
    with run have "act ?u s1 = (r, t)" by auto
    moreover have "faults s1 = []" using s1(1) by simp
    ultimately show ?thesis using s1(2) by (rule assms(4))
  next
    case False
    with run s0(1) s1(1) show ?thesis by (cases g; cases c) (auto split: if_splits)
  qed
qed

lemma calm_reads: "calm (GetTaskById_execute i w)" "calm (GetComments_execute i w)" "calm (GetAttachments_execute i w)"
  "calm (GetTaskActivities_execute i)"
  unfolding GetTaskById_execute_def GetComments_execute_def TaskRepository_getComments_def GetAttachments_execute_def
    GetTaskActivities_execute_def ActivityRepository_findByTask_def
  by (intro calm_rules calm_authorized calm_basic(7); simp)+

lemma route_from_calm:
  fixes act :: "authUser \<Rightarrow> 'b wprog"
  assumes "fst (taskRoute S policies load h act s) = Inl e" and "\<And>u. calm (act u)" and "faults s = []" and "readable s"
  shows "clientError e"
proof -
  obtain t where "taskRoute S policies load h act s = (Inl e, t)"
    using assms(1) by (cases "taskRoute S policies load h act s") auto
  then have "\<forall>e'. Inl e = (Inl e' :: err + 'b) \<longrightarrow> clientError e'"
    by (rule taskRoute_calm [OF _ assms(3,4)]) (use calmD [OF assms(2)] in blast)
  then show ?thesis by simp
qed

lemma create_client_errors:
  assumes "fst (TaskController_create S toJson h s) = Inl e" and "pipeLaw (sv_pipe S)" and "faults s = []" and "readable s"
  shows "clientError e"
proof -
  let ?handler = "\<lambda>u. bnd (validated (sv_pipe S) CreateTaskDto (ht_body h)) (\<lambda>dto.
        bnd (orFreshId (jid (jget dto ''workspaceId''))) (\<lambda>workspaceId. CreateTask_execute dto workspaceId (cu_userId u)))"
  have handler: "calm (bnd (?handler u) (\<lambda>r. ret (n, toJson r)))" for u n
  proof (cases "sv_pipe S CreateTaskDto (ht_body h)")
    case (Inl e)
    have "calm (validated (sv_pipe S) CreateTaskDto (ht_body h))" by (rule calm_validated [OF assms(2)])
    then have "clientError e" using Inl assms(3) by (auto simp: validated_def calm_def)
    with Inl show ?thesis by (simp add: validated_def calm_basic(4))
  next
    case (Inr dto)
    then have "accepted CreateTaskDto dto"
      using assms(2) unfolding pipeLaw_def by (metis sum.case(2))
    with Inr show ?thesis
      by (simp add: validated_def) (intro calm_rules calm_orFreshId calm_CreateTask)
  qed
  obtain t where "taskRoute S [createTaskPolicy] False h (\<lambda>u. idempotent S toJson (Some u) h (?handler u)) s = (Inl e, t)"
    using assms(1) unfolding TaskController_create_def
    by (cases "taskRoute S [createTaskPolicy] False h (\<lambda>u. idempotent S toJson (Some u) h (?handler u)) s") auto
  from taskRoute_calm [OF this assms(3,4)] show ?thesis
    using intercept_calm [OF handler] unfolding idempotent_def by blast
qed


text \<open>A pipe that accepts a body as it is when every check of the class holds of it.\<close>

definition strictPipe :: pipe where
  "strictPipe cls body = (case body of
     JObj ps \<Rightarrow> if accepted cls ps then Inr ps else Inl (BadRequest ''Bad Request Exception'')
   | _ \<Rightarrow> Inl (BadRequest ''Bad Request Exception''))"

lemma strictPipe_law: "pipeLaw strictPipe"
proof -
  have "case strictPipe cls body of Inl e \<Rightarrow> \<exists>m. e = BadRequest m | Inr dto \<Rightarrow> accepted cls dto" for cls body
    by (cases body) (simp_all add: strictPipe_def)
  then show ?thesis unfolding pipeLaw_def by blast
qed

lemma findOne_other_pipe:
  "TaskController_findOne (S\<lparr>sv_pipe := p\<rparr>) h s = TaskController_findOne S h s"
  by (simp add: TaskController_findOne_def taskRoute_def secured_def authenticated_def rateLimited_def)

lemma demoUnknown:
  "fst (TaskController_findOne demoServer (demoCall\<lparr>ht_paramId := Some 77\<rparr>) demoBoard) = Inl (Forbidden ''Task not found'')"
  by code_simp


section \<open>Two internal errors of an update\<close>

text \<open>\<open>@IsOptional()\<close> lets a title of \<open>null\<close> through; the schema refuses it when the task is saved.\<close>

lemma null_title_internal_error:
  "accepted UpdateTaskDto [(''title'', JNull)] \<and>
   fst (TaskController_update (demoServer\<lparr>sv_pipe := \<lambda>cls body. Inr [(''title'', JNull)]\<rparr>) demoTagged demoBoard) =
     Inl (PlainError ''Task validation failed'')"
proof
  show "accepted UpdateTaskDto [(''title'', JNull)]"
    by (auto simp: accepted_def UpdateTaskDto_def mayHave_def jget_def)
  show "fst (TaskController_update (demoServer\<lparr>sv_pipe := \<lambda>cls body. Inr [(''title'', JNull)]\<rparr>) demoTagged demoBoard) =
     Inl (PlainError ''Task validation failed'')"
    by code_simp
qed

text \<open>A task whose owner has been deleted cannot be updated; it can be deleted, but the answer is an internal error.\<close>

lemma orphan_task_internal_error:
  "fst (TaskController_update demoServer demoTagged (demoBoard\<lparr>db := (db demoBoard)\<lparr>users := []\<rparr>\<rparr>)) =
     Inl (PlainError ''Cannot read properties of null'') \<and>
   (case TaskController_remove demoServer demoCall (demoBoard\<lparr>db := (db demoBoard)\<lparr>users := []\<rparr>\<rparr>) of
      (r, t) \<Rightarrow> r = Inl (PlainError ''Cannot read properties of null'') \<and> map t_isDeleted (tasks (db t)) = [True, False])"
  by code_simp

end
