(* ===== verification/Routes.thy ===== *)
theory Routes
  imports TaskRoutes Auth Categories Webhooks Exports
begin

text \<open>
  The other controllers: authentication, users, activity, workspaces, invitations, categories,
  webhooks and exports; each route with its guards, interceptors and DTO, and the handlers that only
  pass their command on.
\<close>

section \<open>Reading a DTO\<close>

text \<open>
  The properties of an accepted body. The values of an enum are those of the DTO; the pipe has
  refused any other.
\<close>

definition textOf :: "json \<Rightarrow> string option" where
  "textOf v = (case v of JStr s \<Rightarrow> Some s | _ \<Rightarrow> None)"

definition boolOf :: "json \<Rightarrow> bool option" where
  "boolOf v = (case v of JBool b \<Rightarrow> Some b | _ \<Rightarrow> None)"

definition enumOf :: "('a \<Rightarrow> string) \<Rightarrow> 'a list \<Rightarrow> json \<Rightarrow> 'a option" where
  "enumOf name values v = (case textOf v of None \<Rightarrow> None | Some s \<Rightarrow> List.find (\<lambda>x. name x = s) values)"

definition readEnum :: "('a \<Rightarrow> string) \<Rightarrow> 'a list \<Rightarrow> json \<Rightarrow> 'a wprog" where
  "readEnum name values v = orThrow (enumOf name values v) (BadRequest ''Bad Request Exception'')"

definition flagsOf :: "props \<Rightarrow> flagsDto" where
  "flagsOf dto = \<lparr>fd_webhooks = boolOf (jget dto ''webhooks''), fd_exports = boolOf (jget dto ''exports''),
     fd_reminders = boolOf (jget dto ''reminders''), fd_emailNotifications = boolOf (jget dto ''emailNotifications''),
     fd_advancedTaskFiltering = boolOf (jget dto ''advancedTaskFiltering'')\<rparr>"

definition settingsOf :: "props \<Rightarrow> settingsDto" where
  "settingsOf dto = \<lparr>sd_timezone = textOf (jget dto ''timezone''),
     sd_defaultTaskPriority = enumOf priorityString [Low, Medium, High] (jget dto ''defaultTaskPriority''),
     sd_defaultTaskStatus = enumOf statusString [Pending, InProgress, Done] (jget dto ''defaultTaskStatus''),
     sd_emailNotifications = boolOf (jget dto ''emailNotifications''),
     sd_taskAssignmentNotifications = boolOf (jget dto ''taskAssignmentNotifications'')\<rparr>"

definition categoryOf :: "props \<Rightarrow> categoryDto" where
  "categoryOf dto = \<lparr>cd_name = textOf (jget dto ''name''), cd_color = textOf (jget dto ''color'')\<rparr>"

section \<open>Handlers that pass their command on\<close>

definition GetWorkspaceSettings_execute :: "oid \<Rightarrow> settingsDoc wprog" where
  "GetWorkspaceSettings_execute workspaceId = SettingsService_getSettings workspaceId"

definition UpdateWorkspaceSettings_execute :: "oid \<Rightarrow> settingsDto \<Rightarrow> settingsDoc wprog" where
  "UpdateWorkspaceSettings_execute workspaceId dto = SettingsService_updateSettings workspaceId dto"

definition GetWorkspaceAuditLogs_execute :: "oid \<Rightarrow> int \<Rightarrow> nat \<Rightarrow> auditDoc list wprog" where
  "GetWorkspaceAuditLogs_execute workspaceId page limit = AuditLogRepository_findByWorkspace workspaceId page limit"

definition GetUsers_execute :: "userDoc list wprog" where
  "GetUsers_execute = UserRepository_findAll"

definition DeleteUser_execute :: "oid \<Rightarrow> string wprog" where
  "DeleteUser_execute userId =
     bnd (UserRepository_deleteUser userId) (\<lambda>user.
     andThen (throwIf (user = None) (NotFound ''User Not Found'')) (ret ''User Deleted Successfully''))"

definition GetUserActivities_execute :: "oid \<Rightarrow> activityView list wprog" where
  "GetUserActivities_execute userId = ActivityRepository_findByUser userId"

definition GetAllActivities_execute :: "activityView list wprog" where
  "GetAllActivities_execute = ActivityRepository_findAll"

section \<open>AuthController\<close>

text \<open>The throttler in front of these routes is not modelled.\<close>

definition AuthController_register :: "server \<Rightarrow> (userDoc \<Rightarrow> json) \<Rightarrow> httpRequest \<Rightarrow> (nat \<times> json) wprog" where
  "AuthController_register S toJson h = idempotent S toJson None h
     (bnd (validated (sv_pipe S) RegisterDto (ht_body h)) (\<lambda>dto.
        RegisterUser_execute (sv_ext S) (jstring (jget dto ''email'')) (jstring (jget dto ''password''))))"

definition AuthController_login :: "server \<Rightarrow> httpRequest \<Rightarrow> (string \<times> string) wprog" where
  "AuthController_login S h = bnd (validated (sv_pipe S) LoginDto (ht_body h)) (\<lambda>dto.
     Login_execute (sv_ext S) (jstring (jget dto ''email'')) (jstring (jget dto ''password'')) (ht_ip h))"

definition AuthController_refresh :: "server \<Rightarrow> httpRequest \<Rightarrow> (string \<times> string) wprog" where
  "AuthController_refresh S h = bnd (validated (sv_pipe S) RefreshTokenDto (ht_body h)) (\<lambda>dto.
     RefreshToken_execute (sv_ext S) (jstring (jget dto ''refresh_token'')))"

definition AuthController_logout :: "server \<Rightarrow> httpRequest \<Rightarrow> string wprog" where
  "AuthController_logout S h = authenticated S h (\<lambda>u. Logout_execute (cu_userId u))"

text \<open>These three take texts from the body without a DTO.\<close>

definition AuthController_verifyEmail :: "server \<Rightarrow> string \<Rightarrow> string wprog" where
  "AuthController_verifyEmail S token = VerifyEmail_execute (sv_ext S) token"

definition AuthController_forgotPassword :: "server \<Rightarrow> string \<Rightarrow> string wprog" where
  "AuthController_forgotPassword S email = ForgotPassword_execute (sv_ext S) email"

definition AuthController_resetPassword :: "server \<Rightarrow> string \<Rightarrow> string \<Rightarrow> string wprog" where
  "AuthController_resetPassword S token newPassword = ResetPassword_execute (sv_ext S) token newPassword"

section \<open>UsersController and ActivityController\<close>

definition UsersController_findAll :: "server \<Rightarrow> httpRequest \<Rightarrow> userDoc list wprog" where
  "UsersController_findAll S h = adminOnly S h (\<lambda>u. GetUsers_execute)"

definition UsersController_deleteUser :: "server \<Rightarrow> httpRequest \<Rightarrow> string wprog" where
  "UsersController_deleteUser S h = adminOnly S h (\<lambda>u. bnd (orFreshId (ht_paramId h)) DeleteUser_execute)"

definition ActivityController_getMyActivity :: "server \<Rightarrow> httpRequest \<Rightarrow> activityView list wprog" where
  "ActivityController_getMyActivity S h = authenticated S h (\<lambda>u. GetUserActivities_execute (cu_userId u))"

definition ActivityController_getAllActivity :: "server \<Rightarrow> httpRequest \<Rightarrow> activityView list wprog" where
  "ActivityController_getAllActivity S h = adminOnly S h (\<lambda>u. GetAllActivities_execute)"

section \<open>WorkspaceController\<close>

text \<open>\<open>@UseGuards(PoliciesGuard)\<close> with one policy, and the workspace of the path.\<close>

definition workspaceRoute :: "server \<Rightarrow> policy \<Rightarrow> httpRequest \<Rightarrow> (authUser \<Rightarrow> oid \<Rightarrow> 'a wprog) \<Rightarrow> 'a wprog" where
  "workspaceRoute S policy h next = secured S [policy] False False h (\<lambda>u. bnd (orFreshId (ht_paramId h)) (next u))"

definition WorkspaceController_create :: "server \<Rightarrow> (workspaceDoc \<Rightarrow> json) \<Rightarrow> httpRequest \<Rightarrow> (nat \<times> json) wprog" where
  "WorkspaceController_create S toJson h = secured S [createWorkspacePolicy] True False h (\<lambda>u.
     idempotent S toJson (Some u) h
       (bnd (validated (sv_pipe S) CreateWorkspaceDto (ht_body h)) (\<lambda>dto.
          CreateWorkspace_execute (jstring (jget dto ''name'')) (jstring (jget dto ''slug'')) (cu_userId u))))"

definition WorkspaceController_findAll :: "server \<Rightarrow> httpRequest \<Rightarrow> workspaceDoc list wprog" where
  "WorkspaceController_findAll S h = authenticated S h (\<lambda>u. GetWorkspaces_execute (cu_userId u))"

definition WorkspaceController_findOne :: "server \<Rightarrow> httpRequest \<Rightarrow> workspaceDoc wprog" where
  "WorkspaceController_findOne S h = workspaceRoute S readWorkspacePolicy h (\<lambda>u i. GetWorkspace_execute i (cu_userId u))"

definition WorkspaceController_getFeatureFlags :: "server \<Rightarrow> httpRequest \<Rightarrow> (featureFlag \<Rightarrow> bool option) wprog" where
  "WorkspaceController_getFeatureFlags S h = workspaceRoute S readWorkspacePolicy h (\<lambda>u i. GetFeatureFlags_execute i)"

definition WorkspaceController_getMembers :: "server \<Rightarrow> httpRequest \<Rightarrow> membershipDoc list wprog" where
  "WorkspaceController_getMembers S h = workspaceRoute S readMemberPolicy h (\<lambda>u i. GetWorkspaceMembers_execute i (cu_userId u))"

definition WorkspaceController_addMember :: "server \<Rightarrow> (membershipDoc \<Rightarrow> json) \<Rightarrow> httpRequest \<Rightarrow> (nat \<times> json) wprog" where
  "WorkspaceController_addMember S toJson h = secured S [manageMemberPolicy] False False h (\<lambda>u.
     idempotent S toJson (Some u) h
       (bnd (validated (sv_pipe S) AddMemberDto (ht_body h)) (\<lambda>dto.
        bnd (orFreshId (ht_paramId h)) (\<lambda>i.
        bnd (readEnum roleString [Owner, Admin, Member, Viewer] (jget dto ''role'')) (\<lambda>role.
        bnd (oidOf (jget dto ''userId'')) (\<lambda>userId.
          AddMember_execute i userId role (cu_userId u)))))))"

text \<open>The defaults of the query DTO: page 1, 20 entries.\<close>

definition WorkspaceController_getAuditLogs :: "server \<Rightarrow> json \<Rightarrow> httpRequest \<Rightarrow> auditDoc list wprog" where
  "WorkspaceController_getAuditLogs S queryParams h = workspaceRoute S readAuditLogPolicy h (\<lambda>u i.
     bnd (validated (sv_pipe S) GetAuditLogsDto queryParams) (\<lambda>query.
       GetWorkspaceAuditLogs_execute i
         (case jget query ''page'' of JNum n \<Rightarrow> n | _ \<Rightarrow> 1) (case jget query ''limit'' of JNum n \<Rightarrow> nat n | _ \<Rightarrow> 20)))"

definition WorkspaceController_updateFeatureFlags :: "server \<Rightarrow> httpRequest \<Rightarrow> flagsDoc wprog" where
  "WorkspaceController_updateFeatureFlags S h = workspaceRoute S manageFeatureFlagsPolicy h (\<lambda>u i.
     bnd (validated (sv_pipe S) UpdateFeatureFlagsDto (ht_body h)) (\<lambda>dto. UpdateFeatureFlags_execute i (flagsOf dto)))"

definition WorkspaceController_getSettings :: "server \<Rightarrow> httpRequest \<Rightarrow> settingsDoc wprog" where
  "WorkspaceController_getSettings S h = workspaceRoute S readWorkspacePolicy h (\<lambda>u i. GetWorkspaceSettings_execute i)"

definition WorkspaceController_updateSettings :: "server \<Rightarrow> httpRequest \<Rightarrow> settingsDoc wprog" where
  "WorkspaceController_updateSettings S h = workspaceRoute S updateWorkspaceSettingsPolicy h (\<lambda>u i.
     bnd (validated (sv_pipe S) UpdateWorkspaceSettingsDto (ht_body h)) (\<lambda>dto. UpdateWorkspaceSettings_execute i (settingsOf dto)))"

section \<open>InvitationController\<close>

definition InvitationController_getPendingInvitations :: "server \<Rightarrow> httpRequest \<Rightarrow> invitationDoc list wprog" where
  "InvitationController_getPendingInvitations S h = authenticated S h (\<lambda>u. GetPendingInvitations_execute (cu_userId u))"

definition InvitationController_createInvitation :: "server \<Rightarrow> (invitationDoc \<Rightarrow> json) \<Rightarrow> httpRequest \<Rightarrow> (nat \<times> json) wprog" where
  "InvitationController_createInvitation S toJson h = secured S [manageInvitationPolicy] False False h (\<lambda>u.
     idempotent S toJson (Some u) h
       (bnd (validated (sv_pipe S) CreateInvitationDto (ht_body h)) (\<lambda>dto.
        bnd (orFreshId (ht_paramWorkspaceId h)) (\<lambda>workspaceId.
        bnd (readEnum roleString [Owner, Admin, Member, Viewer] (jget dto ''role'')) (\<lambda>role.
          CreateInvitation_execute (sv_ext S) workspaceId (jstring (jget dto ''email'')) role (cu_userId u))))))"

definition InvitationController_acceptInvitation :: "server \<Rightarrow> string \<Rightarrow> httpRequest \<Rightarrow> membershipDoc wprog" where
  "InvitationController_acceptInvitation S token h = authenticated S h (\<lambda>u.
     AcceptInvitation_execute (sv_ext S) token (cu_userId u))"

definition InvitationController_declineInvitation :: "server \<Rightarrow> string \<Rightarrow> httpRequest \<Rightarrow> string wprog" where
  "InvitationController_declineInvitation S token h = authenticated S h (\<lambda>u.
     DeclineInvitation_execute (sv_ext S) token (cu_userId u))"

section \<open>CategoriesController\<close>

definition CategoriesController_create :: "server \<Rightarrow> (categoryDoc \<Rightarrow> json) \<Rightarrow> httpRequest \<Rightarrow> (nat \<times> json) wprog" where
  "CategoriesController_create S toJson h = authenticated S h (\<lambda>u.
     idempotent S toJson (Some u) h
       (bnd (validated (sv_pipe S) CreateCategryDto (ht_body h)) (\<lambda>dto.
          CreateCategory_execute (jstring (jget dto ''name'')) (textOf (jget dto ''color'')) (cu_userId u))))"

definition CategoriesController_findAll :: "server \<Rightarrow> httpRequest \<Rightarrow> categoryDoc list wprog" where
  "CategoriesController_findAll S h = authenticated S h (\<lambda>u. GetCategories_execute (cu_userId u))"

definition CategoriesController_findOne :: "server \<Rightarrow> httpRequest \<Rightarrow> categoryDoc wprog" where
  "CategoriesController_findOne S h = authenticated S h (\<lambda>u.
     bnd (orFreshId (ht_paramId h)) (\<lambda>i. GetCategory_execute i (cu_userId u)))"

text \<open>The category with its \<open>ETag\<close>.\<close>

definition CategoriesController_update :: "server \<Rightarrow> httpRequest \<Rightarrow> (string \<times> categoryDoc) wprog" where
  "CategoriesController_update S h = authenticated S h (\<lambda>u.
     bnd (validated (sv_pipe S) UpdateCategoryDto (ht_body h)) (\<lambda>dto.
     bnd (orFreshId (ht_paramId h)) (\<lambda>i.
     case parseIfMatch (ht_ifMatch h) of
       Inl e \<Rightarrow> throw e
     | Inr expectedVersion \<Rightarrow>
         bnd (UpdateCategory_execute i (cu_userId u) (categoryOf dto) expectedVersion) (\<lambda>category.
           ret (etag (c_v category), category)))))"

definition CategoriesController_remove :: "server \<Rightarrow> httpRequest \<Rightarrow> string wprog" where
  "CategoriesController_remove S h = authenticated S h (\<lambda>u.
     bnd (orFreshId (ht_paramId h)) (\<lambda>i. DeleteCategory_execute i (cu_userId u)))"

section \<open>WebhookController and ExportController\<close>

definition WebhookController_create_route :: "server \<Rightarrow> (webhookDoc \<Rightarrow> json) \<Rightarrow> httpRequest \<Rightarrow> (nat \<times> json) wprog" where
  "WebhookController_create_route S toJson h = secured S [manageWebhookPolicy] False False h (\<lambda>u.
     idempotent S toJson (Some u) h
       (bnd (validated (sv_pipe S) CreateWebhookDto (ht_body h)) (\<lambda>dto.
        bnd (orFreshId (ht_paramWorkspaceId h)) (\<lambda>workspaceId.
          WebhookController_create (sv_ext S) workspaceId (jstring (jget dto ''url''))
            (case jget dto ''events'' of JArr vs \<Rightarrow> map jstring vs | _ \<Rightarrow> [])))))"

definition WebhookController_findAll :: "server \<Rightarrow> httpRequest \<Rightarrow> webhookDoc list wprog" where
  "WebhookController_findAll S h = secured S [manageWebhookPolicy] False False h (\<lambda>u.
     bnd (orFreshId (ht_paramWorkspaceId h)) WebhookService_findByWorkspace)"

definition ExportController_createExport ::
  "server \<Rightarrow> (oid \<times> oid \<times> exportStatus \<Rightarrow> json) \<Rightarrow> httpRequest \<Rightarrow> (nat \<times> json) wprog" where
  "ExportController_createExport S toJson h = secured S [createExportPolicy] False False h (\<lambda>u.
     idempotent S toJson (Some u) h
       (bnd (validated (sv_pipe S) CreateExportDto (ht_body h)) (\<lambda>dto.
        bnd (orFreshId (ht_paramId h)) (\<lambda>workspaceId.
        bnd (readEnum formatString [FJson, FCsv, FXlsx] (jget dto ''format'')) (\<lambda>fmt.
          requestExport workspaceId (cu_userId u) fmt)))))"

definition ExportController_getExport :: "server \<Rightarrow> exportEnv \<Rightarrow> httpRequest \<Rightarrow> exportView wprog" where
  "ExportController_getExport S E h = workspaceRoute S readExportPolicy h (\<lambda>u workspaceId.
     bnd (orFreshId (ht_paramSubId h)) (\<lambda>exportId. getExport E exportId workspaceId (cu_userId u)))"

definition ExportController_downloadExport :: "server \<Rightarrow> exportEnv \<Rightarrow> string \<Rightarrow> httpRequest \<Rightarrow> (string \<times> string) wprog" where
  "ExportController_downloadExport S E token h = workspaceRoute S downloadExportPolicy h (\<lambda>u workspaceId.
     bnd (orFreshId (ht_paramSubId h)) (\<lambda>exportId. downloadExport E exportId workspaceId (cu_userId u) token))"

end
