(* ===== verification/RoutesSpec.thy ===== *)
theory RoutesSpec
  imports Routes TaskRoutesSpec
begin

text \<open>
  The routes below a workspace: what they change belongs to that workspace, and only its managers
  (its members, for exports) change it, as long as the request names no other workspace.
\<close>

section \<open>Changes within one workspace\<close>

definition othersKept :: "oid \<Rightarrow> world \<Rightarrow> world \<Rightarrow> bool" where
  "othersKept w s t \<longleftrightarrow> users (db t) = users (db s) \<and> workspaces (db t) = workspaces (db s) \<and> tasks (db t) = tasks (db s) \<and>
     categories (db t) = categories (db s) \<and>
     filter (\<lambda>m. m_workspaceId m \<noteq> w) (memberships (db t)) = filter (\<lambda>m. m_workspaceId m \<noteq> w) (memberships (db s)) \<and>
     filter (\<lambda>i. i_workspaceId i \<noteq> w) (invitations (db t)) = filter (\<lambda>i. i_workspaceId i \<noteq> w) (invitations (db s)) \<and>
     filter (\<lambda>f. ff_workspaceId f \<noteq> w) (flags (db t)) = filter (\<lambda>f. ff_workspaceId f \<noteq> w) (flags (db s)) \<and>
     filter (\<lambda>c. ws_workspaceId c \<noteq> w) (settings (db t)) = filter (\<lambda>c. ws_workspaceId c \<noteq> w) (settings (db s)) \<and>
     filter (\<lambda>h. h_workspaceId h \<noteq> w) (webhooks (db t)) = filter (\<lambda>h. h_workspaceId h \<noteq> w) (webhooks (db s)) \<and>
     filter (\<lambda>x. x_workspaceId x \<noteq> w) (exports (db t)) = filter (\<lambda>x. x_workspaceId x \<noteq> w) (exports (db s)) \<and>
     filter (\<lambda>e. o_workspaceId e \<noteq> Some w) (outbox (db t)) = filter (\<lambda>e. o_workspaceId e \<noteq> Some w) (outbox (db s)) \<and>
     filter (\<lambda>a. au_workspaceId a \<noteq> Some w) (auditLogs (db t)) = filter (\<lambda>a. au_workspaceId a \<noteq> Some w) (auditLogs (db s))"

interpretation others: step_order "othersKept w" for w
  by unfold_locales (simp_all add: othersKept_def)

lemma others_db: "db t = db s \<Longrightarrow> othersKept w s t"
  by (simp add: othersKept_def)

lemma others_same: "stays sameDb m \<Longrightarrow> stays (othersKept w) m"
  by (erule stays_mono) (simp add: sameDb_def others_db)

lemma others_io:
  assumes "\<And>s. othersKept w s (snd (m s))"
  shows "stays (othersKept w) (io m)"
proof (rule staysI)
  show "othersKept w s (snd (io m s))" for s
    using assms [of s] assms [of "s\<lparr>faults := tl (faults s)\<rparr>"]
    by (auto simp: io_run othersKept_def split: list.splits option.splits)
qed

lemma others_freshId: "stays (othersKept w) freshId"
  by (rule others_same) (rule sameDb_freshId)

lemma others_withTransaction:
  assumes "stays (othersKept w) m"
  shows "stays (othersKept w) (withTransaction m)"
proof (rule staysI)
  fix s
  obtain r t where m: "m s = (r, t)" by (cases "m s")
  then have "othersKept w s t" by (rule staysD [OF assms])
  then show "othersKept w s (snd (withTransaction m s))"
    using m by (cases r) (auto simp: withTransaction_def bnd_run io_run others_db othersKept_def split: list.splits option.splits)
qed

subsection \<open>The writes\<close>

lemma others_inserts:
  "m_workspaceId m = w \<Longrightarrow> stays (othersKept w) (insertUnique memberships memberships_update c m)"
  "i_workspaceId i = w \<Longrightarrow> stays (othersKept w) (insertOne invitations invitations_update i)"
  "ff_workspaceId f = w \<Longrightarrow> stays (othersKept w) (insertUnique flags flags_update d f)"
  "ws_workspaceId v = w \<Longrightarrow> stays (othersKept w) (insertUnique settings settings_update e v)"
  "h_workspaceId h = w \<Longrightarrow> stays (othersKept w) (insertOne webhooks webhooks_update h)"
  "x_workspaceId x = w \<Longrightarrow> stays (othersKept w) (insertUnique exports exports_update g x)"
  "o_workspaceId ev = Some w \<Longrightarrow> stays (othersKept w) (insertOne outbox outbox_update ev)"
  "au_workspaceId a = Some w \<Longrightarrow> stays (othersKept w) (insertOne auditLogs auditLogs_update a)"
  unfolding insertOne_def insertUnique_def by (rule others_io, simp add: othersKept_def)+

lemma others_updates:
  "stays (othersKept w) (findOneAndUpdate flags flags_update (\<lambda>f. ff_workspaceId f = w) (\<lambda>f. f\<lparr>ff_flags := g f\<rparr>))"
  "stays (othersKept w) (findOneAndUpdate settings settings_update (\<lambda>v. ws_workspaceId v = w) (patchSettings dto))"
  unfolding findOneAndUpdate_def
  by (rule others_io, auto simp: othersKept_def filter_updateFirst patchSettings_def split: option.split)+

lemma others_caches:
  "stays (othersKept w) MembershipRepository_clearCache" "stays (othersKept w) InvitationRepository_clearCache"
  "stays (othersKept w) (cacheDel k)" "stays (othersKept w) startSession" "stays (othersKept w) (randomString X)"
  by (rule others_same, rule reads_sameDb sameDb_cacheDel sameDb_taskEffects sameDb_randomString)+

lemma others_audit: "stays (othersKept w) (AuditService_log actor a r (Some w) ip meta)"
  unfolding AuditService_log_def AuditLogRepository_create_def
  by (intro others.stays_rules others_inserts) simp

subsection \<open>The commands\<close>

lemma others_duplicateIs: "stays (othersKept w) (duplicateIs msg e)"
  unfolding duplicateIs_def by (auto split: err.split intro: others.stays_throw)

lemma others_AddMember: "stays (othersKept w) (AddMember_execute w u role actor)"
  unfolding AddMember_execute_def MembershipRepository_create_def Let_def
  by (intro others.stays_rules others_same [OF reads_sameDb(2)] others_same [OF reads_sameDb(1)] others_freshId others_inserts
      others_caches others_audit others_duplicateIs) simp

lemma others_sendInvitation: "stays (othersKept w) (sendWorkspaceInvitation to name token due)"
  unfolding sendWorkspaceInvitation_def by (intro others.stays_rules others_same [OF sameDb_sendMail])

lemma others_CreateInvitation: "stays (othersKept w) (CreateInvitation_execute X w email role by)"
  unfolding CreateInvitation_execute_def InvitationRepository_create_def Let_def
  by (intro others.stays_rules others_same [OF reads_sameDb(2)] others_same [OF reads_sameDb(1)] others_same [OF reads_sameDb(4)]
      others_same [OF reads_sameDb(7)] others_freshId others_inserts others_caches others_audit others_sendInvitation) simp

lemma others_findOne: "stays (othersKept w) (findOne get p)"
  by (rule others_same) (rule sameDb_findOne)

lemma others_flags: "stays (othersKept w) (UpdateFeatureFlags_execute w dto)"
  unfolding UpdateFeatureFlags_execute_def FeatureFlagsService_updateFlags_def FlagsRepository_findByWorkspaceId_def
    FlagsRepository_create_def FlagsRepository_update_def
  by (intro others.stays_rules others_findOne others_inserts others_updates) simp

lemma others_settings: "stays (othersKept w) (UpdateWorkspaceSettings_execute w dto)"
  unfolding UpdateWorkspaceSettings_execute_def SettingsService_updateSettings_def SettingsRepository_findByWorkspaceId_def
    SettingsRepository_create_def SettingsRepository_update_def
  by (intro others.stays_rules others_findOne others_inserts others_updates) (simp add: patchSettings_def defaultSettings_def)

lemma others_webhook: "stays (othersKept w) (WebhookController_create X w url events)"
  unfolding WebhookController_create_def WebhookService_create_def FeatureFlagsService_isEnabled_def FlagsRepository_findByWorkspaceId_def
    WebhookRepository_create_def Let_def
  by (intro others.stays_rules others_findOne others_inserts others_caches others_freshId) simp

lemma others_export: "stays (othersKept w) (requestExport w u fmt)"
  unfolding requestExport_def FeatureFlagsService_isEnabled_def FlagsRepository_findByWorkspaceId_def requestTransaction_def
    ExportRepository_create_def OutboxService_create_def OutboxRepository_create_def Let_def
  by (intro others.stays_rules others_findOne others_inserts others_caches others_freshId others_withTransaction) simp_all

section \<open>The routes\<close>

lemma orFreshId_given [simp]: "bnd (orFreshId (Some w)) f = f w"
  by (simp add: orFreshId_def fun_eq_iff bnd_run)

lemma others_validated: "stays (othersKept w) (validated pipe cls body)"
  unfolding validated_def by (auto split: sum.split intro: others.stays_rules)

lemma others_readEnum: "stays (othersKept w) (readEnum name values v)"
  unfolding readEnum_def by (rule others.stays_orThrow)

lemma others_oidOf: "stays (othersKept w) (oidOf v)"
  unfolding oidOf_def by (auto split: json.split intro: others.stays_rules others_freshId)

lemma sameDb_idempotencyStore:
  "stays sameDb (reserveNx a b c)" "stays sameDb (IdempotencyService_delete a b)"
  "stays sameDb (complete a b c r)" "stays sameDb (IdempotencyService_get a b)"
  unfolding reserveNx_def IdempotencyService_delete_def complete_def IdempotencyService_complete_def IdempotencyService_get_def Let_def
  by (intro sameDb_rules sameDb_io; auto simp: redisSet_def split: option.split)+

lemma others_idempotent:
  assumes "stays (othersKept w) handler"
  shows "stays (othersKept w) (idempotent S toJson u h handler)"
proof -
  have run: "stays (othersKept w) (runHandler a b c (bnd handler (\<lambda>r. ret (n, toJson r))))" for a b c n
    unfolding runHandler_def release_def
    by (intro others.stays_rules others_same [OF sameDb_idempotencyStore(2)] others_same [OF sameDb_idempotencyStore(3)] assms)
  have reserve: "stays (othersKept w) (IdempotencyService_reserve a b c)" for a b c
    unfolding IdempotencyService_reserve_def
    by (rule others_same) (intro sameDb_rules sameDb_idempotencyStore)
  have "stays (othersKept w) (IdempotencyInterceptor_intercept X rq (bnd handler (\<lambda>r. ret (n, toJson r))))" for X rq n
    unfolding IdempotencyInterceptor_intercept_def Let_def
    by (auto split: sum.split decision.split intro!: others.stays_rules reserve run)
  then show ?thesis
    unfolding idempotent_def by blast
qed

text \<open>The routes that change what belongs to a workspace, the path that names it, and who may use them.\<close>

datatype workspaceWrite = WMember | WInvitation | WFlags | WSettings | WWebhook | WExport

definition workspaceWriteRoute ::
  "server \<Rightarrow> (membershipDoc \<Rightarrow> json) \<Rightarrow> (invitationDoc \<Rightarrow> json) \<Rightarrow> (webhookDoc \<Rightarrow> json) \<Rightarrow>
   (oid \<times> oid \<times> exportStatus \<Rightarrow> json) \<Rightarrow> workspaceWrite \<Rightarrow> httpRequest \<Rightarrow> world \<Rightarrow> world" where
  "workspaceWriteRoute S memberJson invitationJson webhookJson exportJson c h s = (case c of
     WMember \<Rightarrow> snd (WorkspaceController_addMember S memberJson h s)
   | WInvitation \<Rightarrow> snd (InvitationController_createInvitation S invitationJson h s)
   | WFlags \<Rightarrow> snd (WorkspaceController_updateFeatureFlags S h s)
   | WSettings \<Rightarrow> snd (WorkspaceController_updateSettings S h s)
   | WWebhook \<Rightarrow> snd (WebhookController_create_route S webhookJson h s)
   | WExport \<Rightarrow> snd (ExportController_createExport S exportJson h s))"

definition pathNames :: "workspaceWrite \<Rightarrow> httpRequest \<Rightarrow> oid \<Rightarrow> bool" where
  "pathNames c h w \<longleftrightarrow> (if c = WInvitation \<or> c = WWebhook then ht_paramWorkspaceId h = Some w
     else ht_paramId h = Some w \<and> ht_paramWorkspaceId h = None \<and> ht_queryWorkspaceId h = None \<and>
       jid (propOf ''workspaceId'' (ht_body h)) = None)"

definition mayManage :: "workspaceWrite \<Rightarrow> workspaceRole \<Rightarrow> bool" where
  "mayManage c r \<longleftrightarrow> r = Owner \<or> r = Admin \<or> c = WExport \<and> r = Member"

lemma pathNames_guard: "pathNames c h w \<Longrightarrow> requestWorkspace (guardRequest u h) = Some w"
  by (auto simp: pathNames_def requestWorkspace_def guardRequest_def nullish_def split: if_splits)

lemma managing_roles:
  assumes "caslLaw can"
  shows "manageMemberPolicy can (createForRole r u) rq \<Longrightarrow> r = Owner \<or> r = Admin"
    and "manageInvitationPolicy can (createForRole r u) rq \<Longrightarrow> r = Owner \<or> r = Admin"
    and "manageFeatureFlagsPolicy can (createForRole r u) rq \<Longrightarrow> r = Owner \<or> r = Admin"
    and "updateWorkspaceSettingsPolicy can (createForRole r u) rq \<Longrightarrow> r = Owner \<or> r = Admin"
    and "manageWebhookPolicy can (createForRole r u) rq \<Longrightarrow> r = Owner \<or> r = Admin"
    and "createExportPolicy can (createForRole r u) rq \<Longrightarrow> r \<noteq> Viewer"
  unfolding manageMemberPolicy_def manageInvitationPolicy_def manageFeatureFlagsPolicy_def
    updateWorkspaceSettingsPolicy_def manageWebhookPolicy_def createExportPolicy_def can_role [OF assms]
  by (cases r; auto simp: canRule_def canRuleIf_def)+

definition manager :: "server \<Rightarrow> httpRequest \<Rightarrow> world \<Rightarrow> oid \<Rightarrow> workspaceWrite \<Rightarrow> bool" where
  "manager S h s w c \<longleftrightarrow> (\<exists>u. tokenUser S h (now s) = Some u \<and> (\<exists>m\<in>set (memberships (db s)).
     m_workspaceId m = w \<and> m_userId m = cu_userId u \<and> m_status m = MActive \<and> mayManage c (m_role m)))"

lemma route_confined:
  assumes "t = snd (secured S [p] False False h next s)" and "coherent oneKey unMembership oneAnswer s"
    and "pathNames c h w" and "\<And>u. stays (othersKept w) (next u)"
    and "\<And>role u rq. p (sv_can S) (createForRole role u) rq \<Longrightarrow> mayManage c role"
  shows "othersKept w s t \<and> (db t = db s \<or> manager S h s w c)"
proof -
  obtain r where run: "secured S [p] False False h next s = (r, t)"
    using assms(1) by (cases "secured S [p] False False h next s") auto
  have "[p] \<noteq> []" by simp
  from secured_cases [OF run this assms(2)] show ?thesis
  proof
    assume "(\<exists>e. r = Inl e) \<and> db t = db s \<and> sameTasks s t"
    then show ?thesis by (simp add: others_db)
  next
    assume "\<exists>u w role s1. admitted S [p] False h s u w role \<and> sameTasks s s1 \<and> db s1 = db s \<and> next u s1 = (r, t)"
    then obtain u w' role s1 where adm: "admitted S [p] False h s u w' role" and s1: "db s1 = db s" "next u s1 = (r, t)" by blast
    have "othersKept w s t"
      using others_db [OF s1(1)] staysD [OF assms(4) s1(2)] by (rule others.trans)
    moreover have "w' = w"
      using adm pathNames_guard [OF assms(3), of u] by (simp add: admitted_def)
    then have "manager S h s w c"
      using adm assms(5) unfolding admitted_def manager_def by auto
    ultimately show ?thesis by blast
  qed
qed

lemma workspaceWriteRoute_confined:
  assumes "caslLaw (sv_can S)" and "coherent oneKey unMembership oneAnswer s" and "pathNames c h w"
  shows "othersKept w s (workspaceWriteRoute S memberJson invitationJson webhookJson exportJson c h s) \<and>
    (db (workspaceWriteRoute S memberJson invitationJson webhookJson exportJson c h s) = db s \<or> manager S h s w c)"
proof -
  note confined = route_confined [OF refl assms(2,3)] and roles = managing_roles [OF assms(1)]
  note rules = others.stays_rules others_validated others_readEnum others_oidOf others_idempotent others_AddMember
    others_CreateInvitation others_flags others_settings others_webhook others_export
  show ?thesis
  proof (cases c)
    case WMember
    show ?thesis
      unfolding WMember workspaceWriteRoute_def workspaceWrite.case WorkspaceController_addMember_def
      by (rule confined [unfolded WMember]) (use assms(3) roles in \<open>auto simp: WMember pathNames_def mayManage_def intro!: rules\<close>)
  next
    case WInvitation
    show ?thesis
      unfolding WInvitation workspaceWriteRoute_def workspaceWrite.case InvitationController_createInvitation_def
      by (rule confined [unfolded WInvitation]) (use assms(3) roles in \<open>auto simp: WInvitation pathNames_def mayManage_def intro!: rules\<close>)
  next
    case WFlags
    show ?thesis
      unfolding WFlags workspaceWriteRoute_def workspaceWrite.case WorkspaceController_updateFeatureFlags_def workspaceRoute_def
      by (rule confined [unfolded WFlags]) (use assms(3) roles in \<open>auto simp: WFlags pathNames_def mayManage_def intro!: rules\<close>)
  next
    case WSettings
    show ?thesis
      unfolding WSettings workspaceWriteRoute_def workspaceWrite.case WorkspaceController_updateSettings_def workspaceRoute_def
      by (rule confined [unfolded WSettings]) (use assms(3) roles in \<open>auto simp: WSettings pathNames_def mayManage_def intro!: rules\<close>)
  next
    case WWebhook
    show ?thesis
      unfolding WWebhook workspaceWriteRoute_def workspaceWrite.case WebhookController_create_route_def
      by (rule confined [unfolded WWebhook]) (use assms(3) roles in \<open>auto simp: WWebhook pathNames_def mayManage_def intro!: rules\<close>)
  next
    case WExport
    have "r \<noteq> Viewer \<Longrightarrow> mayManage WExport r" for r by (cases r) (simp_all add: mayManage_def)
    then show ?thesis
      unfolding WExport workspaceWriteRoute_def workspaceWrite.case ExportController_createExport_def
      by - (rule confined [unfolded WExport], use assms(3) roles in \<open>auto simp: WExport pathNames_def intro!: rules\<close>)
  qed
qed


definition demoFlags :: httpRequest where
  "demoFlags = demoCall\<lparr>ht_paramId := Some 3, ht_queryWorkspaceId := None\<rparr>"

lemma demoFlags_runs: "length (flags (db (snd (WorkspaceController_updateFeatureFlags
    (demoServer\<lparr>sv_pipe := \<lambda>cls body. Inr [(''exports'', JBool False)]\<rparr>) demoFlags demoBoard)))) \<noteq> length (flags (db demoBoard))"
  by code_simp


end
