(* ===== verification/OidText.thy ===== *)
theory OidText
  imports TaskQueries
begin

text \<open>
  The text of an id: its 24 hexadecimal digits are read back as the id, so different ids have
  different texts; it has no other characters.
\<close>

lemma hexNat_last: "hexNat n = (if n < 16 then [] else hexNat (n div 16)) @ [digitChar (n mod 16)]"
  by (subst hexNat.simps) simp

lemma hexNat_digits: "c \<in> set (hexNat n) \<Longrightarrow> \<exists>d<16. c = digitChar d"
proof (induction n rule: hexNat.induct)
  case (1 n)
  from "1.prems" have "\<not> n < 16 \<and> c \<in> set (hexNat (n div 16)) \<or> c = digitChar (n mod 16)"
    unfolding hexNat_last [of n] by (auto split: if_split_asm)
  then show ?case
  proof
    assume "\<not> n < 16 \<and> c \<in> set (hexNat (n div 16))"
    then show ?thesis using "1.IH" by blast
  next
    assume "c = digitChar (n mod 16)"
    then show ?thesis by (intro exI [of _ "n mod 16"]) simp
  qed
qed

lemma hexVal_digitChar: "n < 16 \<Longrightarrow> hexVal (digitChar n) = Some n"
  by (auto simp: hexVal_def digitChar_def lowerChar_def Let_def)

abbreviation hexFold :: "string \<Rightarrow> nat" where
  "hexFold s \<equiv> foldl (\<lambda>acc c. 16 * acc + the (hexVal c)) 0 s"

lemma hexFold_hexNat: "hexFold (hexNat n) = n"
proof (induction n rule: hexNat.induct)
  case (1 n)
  show ?case
  proof (cases "n < 16")
    case True
    then show ?thesis unfolding hexNat_last [of n] by (simp add: hexVal_digitChar)
  next
    case False
    then show ?thesis using "1.IH" unfolding hexNat_last [of n] by (simp add: hexVal_digitChar)
  qed
qed

lemma hexFold_zeros: "hexFold (replicate k CHR ''0'' @ s) = hexFold s"
proof -
  have "hexVal CHR ''0'' = Some 0" by (simp add: hexVal_def lowerChar_def Let_def)
  then show ?thesis by (induction k) simp_all
qed

lemma hexFold_oidString: "hexFold (oidString n) = n"
  unfolding oidString_def padLeft_def hexFold_zeros by (rule hexFold_hexNat)

lemma oidString_inj: "oidString a = oidString b \<longleftrightarrow> a = b"
  using hexFold_oidString by metis

lemma oidString_shape: "24 \<le> length (oidString u)" "CHR ''{'' \<notin> set (oidString u)"
proof -
  have small: "of_char (digitChar n) < (103 :: nat)" if "n < 16" for n
    using that by (simp add: digitChar_def)
  have "CHR ''{'' \<noteq> digitChar n" if "n < 16" for n
  proof
    assume "CHR ''{'' = digitChar n"
    then have "(of_char (CHR ''{'') :: nat) = of_char (digitChar n)" by (rule arg_cong)
    with small [OF that] show False by simp
  qed
  then show "CHR ''{'' \<notin> set (oidString u)"
    using hexNat_digits [of _ u] by (auto simp: oidString_def padLeft_def)
qed (simp add: oidString_def padLeft_def)

lemma length_hexNat: "n < 16 ^ Suc k \<Longrightarrow> length (hexNat n) \<le> Suc k"
proof (induction k arbitrary: n)
  case 0
  then show ?case unfolding hexNat_last [of n] by simp
next
  case (Suc k)
  then have "n div 16 < 16 ^ Suc k" by (simp add: less_mult_imp_div_less mult.commute)
  from Suc.IH [OF this] show ?case unfolding hexNat_last [of n] by simp
qed

lemma readOid_oidString:
  assumes "n < 16 ^ 24"
  shows "readOid (oidString n) = Some n"
proof -
  have "length (hexNat n) \<le> 24" using length_hexNat [of n 23] assms by simp
  then have "length (oidString n) = 24" by (simp add: oidString_def padLeft_def)
  moreover have "hexVal c \<noteq> None" if "c \<in> set (oidString n)" for c
  proof -
    have "hexVal CHR ''0'' = Some 0" by (simp add: hexVal_def lowerChar_def Let_def)
    with that hexNat_digits [of c n] show ?thesis
      by (auto simp: oidString_def padLeft_def hexVal_digitChar)
  qed
  ultimately show ?thesis
    by (simp add: readOid_def list_all_iff hexFold_oidString)
qed

end
