(* ===== verification/Realtime.thy ===== *)
theory Realtime
  imports Requests TaskSpec OidText
begin

text \<open>
  The WebSocket gateway (\<open>src/websocket/task/task.gateway.ts\<close>): sockets that arrive with a token
  join the room of its user, the task commands send their events to rooms. The events of a
  run of commands reach only sockets of the owner of the task, and those of deletions reach nobody.
\<close>

section \<open>The gateway\<close>

text \<open>
  A connected socket with the rooms it has joined; socket.io lets it also answer to its own id.
\<close>

record socket =
  so_id :: string
  so_rooms :: "string list"

definition disconnectSocket :: "string \<Rightarrow> socket list \<Rightarrow> socket list" where
  "disconnectSocket client sockets = filter (\<lambda>c. so_id c \<noteq> client) sockets"

definition joinRoom :: "string \<Rightarrow> string \<Rightarrow> socket list \<Rightarrow> socket list" where
  "joinRoom client room sockets =
     map (\<lambda>c. if so_id c = client then c\<lparr>so_rooms := so_rooms c @ [room]\<rparr> else c) sockets"

text \<open>
  \<open>handleConnection\<close> at a time, with the token of the handshake; \<open>jwtService.verify\<close> throws for
  a token that does not check.
\<close>

definition TaskGateway_handleConnection :: "tokenCheck \<Rightarrow> time \<Rightarrow> json \<Rightarrow> string \<Rightarrow> socket list \<Rightarrow> socket list" where
  "TaskGateway_handleConnection verify t token client sockets = (case token of
     JStr s \<Rightarrow> (case verify s t of
         None \<Rightarrow> disconnectSocket client sockets
       | Some payload \<Rightarrow> joinRoom client (oidString (ap_sub payload)) sockets)
   | _ \<Rightarrow> disconnectSocket client sockets)"

text \<open>
  \<open>server.to(room).emit(event)\<close>: the sockets it reaches. The room of a deletion is the printed
  owner document, \<open>print\<close> being Mongoose's \<open>toString()\<close>.
\<close>

fun eventRoom :: "(json \<Rightarrow> string) \<Rightarrow> gatewayEvent \<Rightarrow> string" where
  "eventRoom print (TaskCreated userId task) = oidString userId"
| "eventRoom print (TaskUpdated userId task) = oidString userId"
| "eventRoom print (TaskDeleted owner taskId) = print owner"

definition TaskGateway_emit :: "(json \<Rightarrow> string) \<Rightarrow> socket list \<Rightarrow> gatewayEvent \<Rightarrow> (string \<times> gatewayEvent) list" where
  "TaskGateway_emit print sockets e = map (\<lambda>c. (so_id c, e))
     (filter (\<lambda>c. eventRoom print e \<in> set (so_id c # so_rooms c)) sockets)"

section \<open>Sockets and commands together\<close>

text \<open>
  What happens around the gateway: a socket arrives or leaves, time passes, a task command runs.
  \<open>lv_inbox\<close> collects what the sockets receive.
\<close>

record live =
  lv_world :: world
  lv_sockets :: "socket list"
  lv_inbox :: "(string \<times> gatewayEvent) list"

datatype liveStep =
    Arrives string json
  | Leaves string
  | Passes time
  | Runs taskCommand

fun liveRun :: "tokenCheck \<Rightarrow> (json \<Rightarrow> string) \<Rightarrow> liveStep \<Rightarrow> live \<Rightarrow> live" where
  "liveRun verify print (Arrives client token) s = s\<lparr>lv_sockets :=
     TaskGateway_handleConnection verify (now (lv_world s)) token client (lv_sockets s @ [\<lparr>so_id = client, so_rooms = []\<rparr>])\<rparr>"
| "liveRun verify print (Leaves client) s = s\<lparr>lv_sockets := disconnectSocket client (lv_sockets s)\<rparr>"
| "liveRun verify print (Passes t) s = s\<lparr>lv_world := (lv_world s)\<lparr>now := now (lv_world s) + t\<rparr>\<rparr>"
| "liveRun verify print (Runs c) s =
     (let w = runCommand c (lv_world s) in
      s\<lparr>lv_world := w, lv_inbox := lv_inbox s @
          concat (map (TaskGateway_emit print (lv_sockets s)) (drop (length (gateway (lv_world s))) (gateway w)))\<rparr>)"

section \<open>Calls that send no event\<close>

definition sameEvents :: "world \<Rightarrow> world \<Rightarrow> bool" where
  "sameEvents s t \<longleftrightarrow> gateway t = gateway s"

interpretation sameEvents: step_order sameEvents
  by unfold_locales (auto simp: sameEvents_def)

lemma sameEvents_io:
  assumes "\<And>s. sameEvents s (snd (m s))"
  shows "stays sameEvents (io m)"
proof (rule staysI)
  show "sameEvents s (snd (io m s))" for s
    using assms [of s] assms [of "s\<lparr>faults := tl (faults s)\<rparr>"]
    by (auto simp: io_run sameEvents_def split: list.splits option.splits)
qed

lemma sameEvents_modify: "(\<And>s. sameEvents s (f s)) \<Longrightarrow> stays sameEvents (modify f)"
  by (rule staysI) simp

lemma sameEvents_base:
  "stays sameEvents freshId" "stays sameEvents (query f)" "stays sameEvents (cacheGet k)" "stays sameEvents (cacheSet k v ttl)"
  "stays sameEvents (cacheDel k)" "stays sameEvents (findOne get p)" "stays sameEvents (insertOne get upd x)"
  "stays sameEvents startSession" "stays sameEvents (publishTaskCompleted i u)" "stays sameEvents (deleteFile url)"
  unfolding cacheGet_def cacheSet_def cacheDel_def findOne_def insertOne_def startSession_def publishTaskCompleted_def deleteFile_def
  by (rule staysI, simp add: sameEvents_def)
    (rule sameEvents_io sameEvents_modify, simp add: sameEvents_def)+

lemma sameEvents_clearCache: "stays sameEvents TaskRepository_clearCache"
  unfolding TaskRepository_clearCache_def clearKeys_def
  by (intro sameEvents.stays_rules sameEvents_base sameEvents_modify) (simp add: sameEvents_def)

lemma sameEvents_readThrough:
  assumes "stays sameEvents load" and "\<And>s. sameEvents s (remember s)"
  shows "stays sameEvents (readThrough k unpack pack ttl remember load)"
  unfolding readThrough_def
  by (intro sameEvents.stays_rules sameEvents_base sameEvents_modify assms)

lemma sameEvents_lookups:
  "stays sameEvents (MembershipRepository_findByWorkspaceAndUser w u)"
  "stays sameEvents (CategoryRepository_findById i u)" "stays sameEvents (CategoryRepository_findByIdForRole i u r)"
  unfolding MembershipRepository_findByWorkspaceAndUser_def CategoryRepository_findById_def CategoryRepository_findByIdForRole_def Let_def
  by (rule sameEvents_readThrough; simp add: sameEvents_base rememberMb_def rememberCat_def sameEvents_def)+

lemma sameEvents_records:
  "stays sameEvents (AuditService_log a b c d e f)" "stays sameEvents (ActivityRepository_create i u x y z)"
  "stays sameEvents (OutboxService_create n1 n2 n3 n4 n5 n6)"
  unfolding AuditService_log_def AuditLogRepository_create_def ActivityRepository_create_def OutboxService_create_def
    OutboxRepository_create_def Let_def
  by (intro sameEvents.stays_rules sameEvents_base)+

lemma sameEvents_authorized: "stays sameEvents (TaskRepository_findAuthorizedTask i w)"
  unfolding TaskRepository_findAuthorizedTask_def populateCategory_def
  by (intro sameEvents.stays_rules sameEvents_base) (auto intro!: sameEvents.stays_rules sameEvents_base split: json.splits)

lemma sameEvents_saveTask: "stays sameEvents (saveTask a b)"
  unfolding saveTask_def Let_def
  by (intro sameEvents.stays_rules sameEvents_io) (simp add: sameEvents_def split: option.split)

lemma sameEvents_transaction:
  assumes "stays sameEvents m"
  shows "stays sameEvents (withTransaction m)"
proof (rule staysI)
  fix s
  obtain r t where m: "m s = (r, t)" by (cases "m s")
  then have "sameEvents s t" by (rule staysD [OF assms])
  then show "sameEvents s (snd (withTransaction m s))"
    using m by (cases r) (auto simp: withTransaction_def bnd_run io_run sameEvents_def split: list.splits option.splits)
qed

lemma sameEvents_loadAndSave: "(\<And>d. stays sameEvents (change d)) \<Longrightarrow> stays sameEvents (loadAndSave i change)"
  unfolding loadAndSave_def by (intro sameEvents.stays_rules sameEvents_base sameEvents_saveTask)

lemma sameEvents_versionToPrecondition: "stays sameEvents (versionToPrecondition e)"
  by (cases e) (simp_all add: versionToPrecondition_def sameEvents.stays_throw)

lemma sameEvents_ownerRoom: "stays sameEvents (ownerRoom lt)"
  unfolding ownerRoom_def by (intro sameEvents.stays_rules)

lemmas sameEvents_rules =
  sameEvents.stays_rules sameEvents_base sameEvents_clearCache sameEvents_lookups sameEvents_records sameEvents_authorized
  sameEvents_saveTask sameEvents_transaction sameEvents_loadAndSave sameEvents_versionToPrecondition sameEvents_ownerRoom

section \<open>What a command announces\<close>

text \<open>A run that sends nothing, or ends well having sent one event, the last thing it does.\<close>

definition announces :: "('a \<Rightarrow> gatewayEvent \<Rightarrow> bool) \<Rightarrow> 'a wprog \<Rightarrow> world \<Rightarrow> bool" where
  "announces P m s \<longleftrightarrow> (case m s of (r, t) \<Rightarrow> gateway t = gateway s \<or>
     (\<exists>y e. r = Inr y \<and> gateway t = gateway s @ [e] \<and> P y e))"

lemma announces_silent: "stays sameEvents m \<Longrightarrow> announces P m s"
  by (cases "m s") (auto simp: announces_def sameEvents_def dest: staysD)

lemma announces_bnd:
  assumes "stays sameEvents m" and "\<And>x t. m s = (Inr x, t) \<Longrightarrow> announces P (f x) t"
  shows "announces P (bnd m f) s"
proof (cases "m s")
  case (Pair r t)
  moreover from this have "gateway t = gateway s"
    using staysD [OF assms(1)] by (simp add: sameEvents_def)
  ultimately show ?thesis
    using assms(2) by (cases r) (auto simp: announces_def bnd_run)
qed

lemma announces_andThen:
  "stays sameEvents m \<Longrightarrow> (\<And>x t. m s = (Inr x, t) \<Longrightarrow> announces P n t) \<Longrightarrow> announces P (andThen m n) s"
  unfolding andThen_def by (rule announces_bnd)

lemma announces_emit: "P x e \<Longrightarrow> announces P (andThen (emit e) (ret x)) s"
  by (simp add: announces_def emit_def andThen_run)

lemma sameEvents_CreateTask:
  "stays sameEvents (CreateTask_check dto w u)" "stays sameEvents (CreateTask_transaction dto w u)"
  unfolding CreateTask_check_def CreateTask_transaction_def TaskRepository_create_def Let_def
  by (intro sameEvents_rules; auto intro!: sameEvents_rules split: json.split)+

lemma CreateTask_announces:
  "announces (\<lambda>task e. e = TaskCreated u (t_id task)) (CreateTask_execute dto w u) s"
  unfolding CreateTask_execute_def
  by (intro announces_andThen announces_bnd announces_emit sameEvents_CreateTask sameEvents_rules refl)

lemma sameEvents_UpdateTask:
  "stays sameEvents (UpdateTask_load i dto u r w v)" "stays sameEvents (UpdateTask_transaction lt dto u w c)"
  unfolding UpdateTask_load_def UpdateTask_transaction_def
  by (intro sameEvents_rules; auto intro!: sameEvents_rules split: json.split)+

text \<open>An update is announced to the owner of the task it was loaded as.\<close>

definition ownerTold :: "taskDoc list \<Rightarrow> gatewayEvent \<Rightarrow> bool" where
  "ownerTold ts e \<longleftrightarrow> (\<exists>d\<in>set ts. e = TaskCreated (t_owner d) (t_id d) \<or> e = TaskUpdated (t_owner d) (t_id d) \<or>
     (\<exists>ps. e = TaskDeleted (JObj ps) (t_id d)))"

lemma UpdateTask_load_owner:
  assumes "UpdateTask_load i dto u r w v s = (Inr lt, t)" and "lt_owner lt = Some owner"
  shows "u_id owner = t_owner (lt_doc lt)"
  using assms authorized_ok unfolding UpdateTask_load_def
  by (fastforce simp: andThen_ok bnd_ok split: if_split_asm)

lemma UpdateTask_announces: "announces (\<lambda>saved e. ownerTold (tasks (db s)) e) (UpdateTask_execute i dto u r w v) s"
  unfolding UpdateTask_execute_def
proof (rule announces_bnd [OF sameEvents_UpdateTask(1)])
  fix lt t assume load: "UpdateTask_load i dto u r w v s = (Inr lt, t)"
  show "announces (\<lambda>saved e. ownerTold (tasks (db s)) e) (UpdateTask_commit lt dto u w) t"
  proof (cases "lt_owner lt")
    case None
    then show ?thesis by (simp add: UpdateTask_commit_def announces_def)
  next
    case (Some owner)
    with UpdateTask_load_ok [OF load] UpdateTask_load_owner [OF load] have "ownerTold (tasks (db s)) (TaskUpdated (u_id owner) (t_id (lt_doc lt)))"
      by (auto simp: ownerTold_def)
    then show ?thesis
      unfolding UpdateTask_commit_def
      by (intro announces_andThen announces_bnd announces_emit sameEvents_UpdateTask sameEvents_rules) (simp_all add: Some)
  qed
qed

lemma DeleteTask_announces: "announces (\<lambda>msg e. ownerTold (tasks (db s)) e) (DeleteTask_execute i u w) s"
  unfolding DeleteTask_execute_def Let_def
proof (rule announces_bnd [OF sameEvents_authorized])
  fix lt t assume "TaskRepository_findAuthorizedTask i w s = (Inr lt, t)"
  then have "lt_doc lt \<in> set (tasks (db s))" using authorized_ok by blast
  then have "ownerTold (tasks (db s)) (TaskDeleted (JObj ps) (t_id (lt_doc lt)))" for ps by (auto simp: ownerTold_def)
  then show "announces (\<lambda>msg e. ownerTold (tasks (db s)) e) (bnd (gets now) (\<lambda>n.
     andThen (saveTask (lt_doc lt) ((lt_doc lt)\<lparr>t_isDeleted := True, t_deletedAt := Some n\<rparr>))
     (andThen (ActivityRepository_create (t_id (lt_doc lt)) u ''deleted'' ''Task deleted'' None)
     (andThen (AuditService_log (Some u) ''TASK_DELETED'' ''TASK'' (Some w) None
       (Some [taskMeta (t_id (lt_doc lt)), (''deletionType'', JStr ''soft_delete'')]))
     (andThen TaskRepository_clearCache
     (bnd (ownerRoom lt) (\<lambda>room.
     andThen (emit (TaskDeleted room (t_id (lt_doc lt)))) (ret ''Task Deleted Successfully!'')))))))) t"
    by (intro announces_andThen announces_bnd announces_emit sameEvents_rules)
      (auto simp: ownerRoom_def split: option.splits)
qed

lemma sameEvents_others:
  "stays sameEvents (AssignTask_execute i u w us)" "stays sameEvents (CreateComment_execute i body u w)"
  "stays sameEvents (UploadAttachment_execute i fl u w)" "stays sameEvents (DeleteAttachment_execute i a u w)"
  unfolding AssignTask_execute_def AssignTask_authorize_def TaskRepository_findById_def TaskRepository_assignUsers_def
    CreateComment_execute_def TaskRepository_addComment_def UploadAttachment_execute_def TaskRepository_uploadAttachment_def
    DeleteAttachment_execute_def TaskRepository_deleteAttachment_def
  by (intro sameEvents_rules)+

lemma tasksInv_keeps:
  assumes "tasksInv s" and "d \<in> set (tasks (db s))"
  shows "\<exists>y\<in>set (tasks (db (runCommand c s))). t_id y = t_id d \<and> t_owner y = t_owner d"
proof -
  have "tasksStep {commandWorkspace c} s (runCommand c s)" by (rule step_runCommand) simp
  then obtain us vs where "tasks (db (runCommand c s)) = us @ vs" "list_all2 (docStep {commandWorkspace c}) (tasks (db s)) us"
    using assms(1) by (auto simp: tasksStep_def evolves_def)
  moreover from this(2) obtain y where "y \<in> set us" "docStep {commandWorkspace c} d y"
    using assms(2) by (metis in_set_conv_nth list_all2_conv_all_nth)
  ultimately show ?thesis by (auto simp: docStep_def)
qed

lemma runCommand_events:
  assumes "tasksInv s"
  shows "gateway (runCommand c s) = gateway s \<or>
    (\<exists>e. gateway (runCommand c s) = gateway s @ [e] \<and> ownerTold (tasks (db (runCommand c s))) e)"
proof -
  have later: "ownerTold (tasks (db (runCommand c s))) e" if "ownerTold (tasks (db s)) e" for e
    using that tasksInv_keeps [OF assms, of _ c] unfolding ownerTold_def by metis
  show ?thesis
  proof (cases c)
    case (CreateTask dto w u)
    obtain r t where run: "CreateTask_execute dto w u s = (r, t)" by (cases "CreateTask_execute dto w u s")
    from CreateTask_announces [of u dto w s] CreateTask_outcome [OF run] show ?thesis
      by (auto simp: CreateTask run announces_def createdIn_def ownerTold_def)
  next
    case (UpdateTask i dto u role w v)
    with UpdateTask_announces [of s i dto u role w v] later show ?thesis
      by (auto simp: announces_def split: prod.splits)
  next
    case (DeleteTask i u w)
    with DeleteTask_announces [of s i u w] later show ?thesis
      by (auto simp: announces_def split: prod.splits)
  qed (use stays_snd [OF sameEvents_others(1)] stays_snd [OF sameEvents_others(2)] stays_snd [OF sameEvents_others(3)]
      stays_snd [OF sameEvents_others(4)] in \<open>simp_all add: sameEvents_def\<close>)
qed

section \<open>Who receives what\<close>

text \<open>The tokens a socket has presented, and what follows for the rooms it is in.\<close>

definition presented :: "tokenCheck \<Rightarrow> liveStep set \<Rightarrow> string \<Rightarrow> oid \<Rightarrow> bool" where
  "presented verify X client u \<longleftrightarrow> (\<exists>token t p. Arrives client (JStr token) \<in> X \<and> verify token t = Some p \<and> ap_sub p = u)"

lemma presentedI:
  "Arrives client (JStr token) \<in> X \<Longrightarrow> verify token t = Some p \<Longrightarrow> presented verify X client (ap_sub p)"
  unfolding presented_def by blast

definition heard :: "tokenCheck \<Rightarrow> liveStep set \<Rightarrow> world \<Rightarrow> string \<times> gatewayEvent \<Rightarrow> bool" where
  "heard verify X s m \<longleftrightarrow> (\<exists>task\<in>set (tasks (db s)). presented verify X (fst m) (t_owner task) \<and>
     (snd m = TaskCreated (t_owner task) (t_id task) \<or> snd m = TaskUpdated (t_owner task) (t_id task)))"

lemma heard_keeps: "tasksInv s \<Longrightarrow> heard verify X s m \<Longrightarrow> heard verify X (runCommand c s) m"
  unfolding heard_def using tasksInv_keeps by (metis (no_types))

definition liveInv :: "tokenCheck \<Rightarrow> liveStep set \<Rightarrow> live \<Rightarrow> bool" where
  "liveInv verify X s \<longleftrightarrow> tasksInv (lv_world s) \<and>
     (\<forall>c\<in>set (lv_sockets s). (\<exists>token. Arrives (so_id c) token \<in> X) \<and>
        (\<forall>room\<in>set (so_rooms c). \<exists>u. room = oidString u \<and> presented verify X (so_id c) u)) \<and>
     (\<forall>m\<in>set (lv_inbox s). heard verify X (lv_world s) m)"

text \<open>What socket.io and Mongoose document: ids of 20 letters and digits, a printed document in braces.\<close>

definition socketIds :: "liveStep set \<Rightarrow> bool" where
  "socketIds X \<longleftrightarrow> (\<forall>client token. Arrives client token \<in> X \<longrightarrow> length client = 20 \<and> CHR ''{'' \<notin> set client)"

definition printsDocuments :: "(json \<Rightarrow> string) \<Rightarrow> bool" where
  "printsDocuments print \<longleftrightarrow> (\<forall>ps. CHR ''{'' \<in> set (print (JObj ps)))"

lemma received:
  assumes "printsDocuments print" and "socketIds X" and "ownerTold (tasks (db s)) e" and "m \<in> set (TaskGateway_emit print sockets e)"
    and "\<forall>c\<in>set sockets. (\<exists>token. Arrives (so_id c) token \<in> X) \<and>
        (\<forall>room\<in>set (so_rooms c). \<exists>u. room = oidString u \<and> presented verify X (so_id c) u)"
  shows "heard verify X s m"
proof -
  from assms(4) obtain k where k: "k \<in> set sockets" "m = (so_id k, e)" "eventRoom print e = so_id k \<or> eventRoom print e \<in> set (so_rooms k)"
    by (auto simp: TaskGateway_emit_def)
  from k(1) assms(2,5) have id: "length (so_id k) = 20" "CHR ''{'' \<notin> set (so_id k)"
    and rooms: "\<And>room. room \<in> set (so_rooms k) \<Longrightarrow> \<exists>u. room = oidString u \<and> presented verify X (so_id k) u"
    unfolding socketIds_def by blast+
  from assms(3) obtain d where d: "d \<in> set (tasks (db s))" and
    e: "e = TaskCreated (t_owner d) (t_id d) \<or> e = TaskUpdated (t_owner d) (t_id d) \<or> (\<exists>ps. e = TaskDeleted (JObj ps) (t_id d))"
    by (auto simp: ownerTold_def)
  have "\<nexists>ps. e = TaskDeleted (JObj ps) (t_id d)"
  proof
    assume "\<exists>ps. e = TaskDeleted (JObj ps) (t_id d)"
    then have "CHR ''{'' \<in> set (eventRoom print e)"
      using assms(1) by (auto simp: printsDocuments_def)
    with k(3) id(2) rooms oidString_shape(2) show False by metis
  qed
  with e have told: "e = TaskCreated (t_owner d) (t_id d) \<or> e = TaskUpdated (t_owner d) (t_id d)" by blast
  then have "eventRoom print e = oidString (t_owner d)" by auto
  with k(3) id(1) oidString_shape(1) [of "t_owner d"] have "oidString (t_owner d) \<in> set (so_rooms k)"
    by auto
  with rooms have "presented verify X (so_id k) (t_owner d)"
    by (metis oidString_inj)
  with d told k(2) show ?thesis by (auto simp: heard_def)
qed

lemma liveRun_inv:
  assumes "printsDocuments print" and "socketIds X" and "x \<in> X" and "liveInv verify X s"
  shows "liveInv verify X (liveRun verify print x s)"
proof (cases x)
  case (Arrives client token)
  then show ?thesis
    using assms(3,4) unfolding liveInv_def
    by (auto simp: TaskGateway_handleConnection_def disconnectSocket_def joinRoom_def split: json.split option.split)
      (blast intro: presentedI)+
next
  case (Leaves client)
  with assms(4) show ?thesis by (auto simp: liveInv_def disconnectSocket_def)
next
  case (Passes t)
  with assms(4) show ?thesis by (simp add: liveInv_def tasksInv_def heard_def)
next
  case (Runs c)
  let ?w = "lv_world s" and ?w' = "runCommand c (lv_world s)"
  have inv: "tasksInv ?w" using assms(4) by (simp add: liveInv_def)
  have "tasksInv ?w'"
    using step_runCommand [of c "{commandWorkspace c}" ?w] inv by (simp add: tasksStep_def)
  moreover have "heard verify X ?w' m" if "m \<in> set (lv_inbox s)" for m
    using that assms(4) heard_keeps [OF inv] unfolding liveInv_def by blast
  moreover have "\<forall>m\<in>set (concat (map (TaskGateway_emit print (lv_sockets s)) (drop (length (gateway ?w)) (gateway ?w')))). heard verify X ?w' m"
  proof
    fix m assume "m \<in> set (concat (map (TaskGateway_emit print (lv_sockets s)) (drop (length (gateway ?w)) (gateway ?w'))))"
    with runCommand_events [OF inv, of c] obtain e where "ownerTold (tasks (db ?w')) e" "m \<in> set (TaskGateway_emit print (lv_sockets s) e)"
      by auto
    then show "heard verify X ?w' m"
      using received [OF assms(1,2)] assms(4) unfolding liveInv_def by blast
  qed
  ultimately show ?thesis
    using assms(4) unfolding Runs liveInv_def by (simp add: Let_def ball_Un del: set_concat)
qed

lemma liveRuns_inv:
  assumes "printsDocuments print" and "socketIds X" and "set xs \<subseteq> X" and "liveInv verify X s"
  shows "liveInv verify X (fold (liveRun verify print) xs s)"
  using assms(3,4) by (induction xs arbitrary: s) (simp_all add: liveRun_inv [OF assms(1,2)])

text \<open>
  C10: Live events are private. Sockets arrive with any tokens and leave, time passes and task
  commands run, of anyone, with any failures: what a socket receives is the creation or an update of
  a task that exists, and the socket has presented a valid token of the owner of that task. In
  particular no other member of the workspace hears of it, and nobody hears of a deletion.
\<close>

theorem live_events_private:
  assumes "t = fold (liveRun verify print) xs \<lparr>lv_world = s, lv_sockets = [], lv_inbox = []\<rparr>" and "tasksInv s"
    and "printsDocuments print" and "socketIds (set xs)" and "(client, e) \<in> set (lv_inbox t)"
  shows "\<exists>task\<in>set (tasks (db (lv_world t))). (\<exists>token at p. Arrives client (JStr token) \<in> set xs \<and>
      verify token at = Some p \<and> ap_sub p = t_owner task) \<and>
    (e = TaskCreated (t_owner task) (t_id task) \<or> e = TaskUpdated (t_owner task) (t_id task))"
proof -
  have "liveInv verify (set xs) t"
    unfolding assms(1) by (rule liveRuns_inv [OF assms(3,4)]) (simp_all add: liveInv_def assms(2))
  with assms(5) show ?thesis by (fastforce simp: liveInv_def heard_def presented_def)
qed

text \<open>Two users and somebody without a token are connected; one of the users creates a task, and a task of the other is deleted.\<close>

definition demoTokens :: tokenCheck where
  "demoTokens token t = (if token = ''six'' then Some \<lparr>ap_sub = 6, ap_email = ''a@b'', ap_role = ''user''\<rparr>
     else if token = ''nine'' then Some \<lparr>ap_sub = 9, ap_email = ''o@b'', ap_role = ''user''\<rparr> else None)"

definition demoSteps :: "liveStep list" where
  "demoSteps = [Arrives ''aaaaaaaaaaaaaaaaaaaa'' (JStr ''six''), Arrives ''bbbbbbbbbbbbbbbbbbbb'' (JStr ''nine''),
     Arrives ''cccccccccccccccccccc'' JUndef, Runs (CreateTask [(''title'', JStr ''Live'')] 3 9), Runs (DeleteTask 20 9 3)]"

definition demoPrint :: "json \<Rightarrow> string" where
  "demoPrint v = ''{ }''"

lemma demoSteps_inbox:
  "lv_inbox (fold (liveRun demoTokens demoPrint) demoSteps \<lparr>lv_world = demoBoard, lv_sockets = [], lv_inbox = []\<rparr>) =
     [(''bbbbbbbbbbbbbbbbbbbb'', TaskCreated 9 100)]"
  by code_simp

lemma live_events_private_witness:
  "\<exists>task\<in>set (tasks (db (lv_world (fold (liveRun demoTokens demoPrint) demoSteps \<lparr>lv_world = demoBoard, lv_sockets = [], lv_inbox = []\<rparr>)))).
     t_owner task = 9 \<and> t_id task = 100"
proof -
  have print: "printsDocuments demoPrint" by (simp add: printsDocuments_def demoPrint_def)
  have ids: "socketIds (set demoSteps)" by (auto simp: socketIds_def demoSteps_def)
  have "(''bbbbbbbbbbbbbbbbbbbb'', TaskCreated 9 100) \<in>
      set (lv_inbox (fold (liveRun demoTokens demoPrint) demoSteps \<lparr>lv_world = demoBoard, lv_sockets = [], lv_inbox = []\<rparr>))"
    by (simp add: demoSteps_inbox)
  from live_events_private [OF refl demoBoard_inv print ids this] show ?thesis by auto
qed

end
