(* ===== verification/FlagReads.thy ===== *)
theory FlagReads
  imports Workspace
begin

text \<open>Whether a feature is on for a workspace, and the answer of the service when no call fails.\<close>

definition flagOn :: "database \<Rightarrow> oid \<Rightarrow> featureFlag \<Rightarrow> bool" where
  "flagOn d w f \<longleftrightarrow> (case List.find (\<lambda>c. ff_workspaceId c = w) (flags d) of
     None \<Rightarrow> defaultFlags f | Some c \<Rightarrow> ff_flags c f = Some True)"

lemma isEnabled_run [simp]:
  "faults s = [] \<Longrightarrow> FeatureFlagsService_isEnabled w f s = (Inr (flagOn (db s) w f), s)"
  by (auto simp: FeatureFlagsService_isEnabled_def FlagsRepository_findByWorkspaceId_def bnd_run flagOn_def split: option.split)

end
