(* ===== verification/RemindersSpec.thy ===== *)
theory RemindersSpec
  imports Jobs TaskSpec FlagReads
begin

text \<open>
  The reminder service (\<open>src/reminder/reminder.service.ts\<close>): a run of its cron job without
  failures announces each due task once and marks it, so that no later run announces it again; a failure
  between the event and the mark makes the next run announce the task a second time.
\<close>

section \<open>Which tasks are announced\<close>

definition ownerMail :: "database \<Rightarrow> taskDoc \<Rightarrow> string" where
  "ownerMail d task = (case List.find (\<lambda>u. u_id u = t_owner task) (users d) of None \<Rightarrow> [] | Some u \<Rightarrow> u_email u)"

definition announced :: "time \<Rightarrow> database \<Rightarrow> taskDoc \<Rightarrow> bool" where
  "announced t d task \<longleftrightarrow> reminderDue t task \<and> flagOn d (t_workspace task) Reminders \<and>
     flagOn d (t_workspace task) EmailNotifications \<and> ownerMail d task \<noteq> []"

section \<open>One task\<close>

lemma updateFirst_mapped:
  "distinct (map k xs) \<Longrightarrow> updateFirst (\<lambda>x. k x = c) f xs = map (\<lambda>x. if k x = c then f x else x) xs"
proof (induction xs)
  case (Cons x xs)
  then have "k x = c \<Longrightarrow> map (\<lambda>y. if k y = c then f y else y) xs = xs"
    by (intro map_idI) (auto simp: image_iff)
  with Cons show ?case by simp
qed simp

text \<open>The mail record and the event of one announcement.\<close>

definition isReminder :: "database \<Rightarrow> taskDoc \<Rightarrow> emailDoc \<times> outboxDoc \<Rightarrow> bool" where
  "isReminder d task p \<longleftrightarrow> (case p of (m, e) \<Rightarrow>
     e_to m = ownerMail d task \<and> e_emailType m = ''TASK_REMINDER'' \<and> e_status m = EQueued \<and> e_outboxEventId m = o_id e \<and>
     o_eventType e = ''REMINDER_DUE'' \<and> o_aggregateId e = t_id task \<and> o_workspaceId e = Some (t_workspace task) \<and>
     o_status e = OPending \<and> o_availableAt e = None \<and> jget (o_payload e) ''to'' = JStr (ownerMail d task))"

definition freshMails :: "world \<Rightarrow> bool" where
  "freshMails s \<longleftrightarrow> (\<forall>m\<in>set (emails (db s)). e_outboxEventId m < nextId s)"

text \<open>What a part of a run adds: a mail record and an event for each task of \<open>ds\<close>, and their marks.\<close>

definition markReminded :: "oid set \<Rightarrow> taskDoc \<Rightarrow> taskDoc" where
  "markReminded I x = (if t_id x \<in> I then x\<lparr>t_reminderSent := True\<rparr> else x)"

definition cronAdds :: "world \<Rightarrow> taskDoc list \<Rightarrow> world \<Rightarrow> bool" where
  "cronAdds s ds t \<longleftrightarrow> faults t = [] \<and> now t = now s \<and> users (db t) = users (db s) \<and> flags (db t) = flags (db s) \<and>
     freshMails t \<and> tasks (db t) = map (markReminded (t_id ` set ds)) (tasks (db s)) \<and>
     (\<exists>ps. emails (db t) = emails (db s) @ map fst ps \<and> outbox (db t) = outbox (db s) @ map snd ps \<and>
        list_all2 (isReminder (db s)) ds ps)"

lemma isReminder_users: "users d' = users d \<Longrightarrow> isReminder d' = isReminder d"
  by (simp add: fun_eq_iff isReminder_def ownerMail_def)

lemma cronAdds_none: "faults s = [] \<Longrightarrow> freshMails s \<Longrightarrow> cronAdds s [] s"
  by (auto simp: cronAdds_def markReminded_def [abs_def] intro: exI [of _ "[]"])

lemma cronAdds_trans:
  assumes "cronAdds s ds u" and "cronAdds u ds' t"
  shows "cronAdds s (ds @ ds') t"
proof -
  from assms obtain ps qs where
    "emails (db u) = emails (db s) @ map fst ps" "outbox (db u) = outbox (db s) @ map snd ps" "list_all2 (isReminder (db s)) ds ps"
    "emails (db t) = emails (db u) @ map fst qs" "outbox (db t) = outbox (db u) @ map snd qs" "list_all2 (isReminder (db u)) ds' qs"
    by (auto simp: cronAdds_def)
  moreover have "isReminder (db u) = isReminder (db s)"
    using assms(1) by (intro isReminder_users) (simp add: cronAdds_def)
  ultimately have "\<exists>rs. emails (db t) = emails (db s) @ map fst rs \<and> outbox (db t) = outbox (db s) @ map snd rs \<and>
      list_all2 (isReminder (db s)) (ds @ ds') rs"
    by (intro exI [of _ "ps @ qs"]) (simp add: list_all2_appendI)
  moreover have "markReminded (t_id ` set ds') (markReminded (t_id ` set ds) x) = markReminded (t_id ` set (ds @ ds')) x" for x
    by (auto simp: markReminded_def)
  ultimately show ?thesis
    using assms by (auto simp: cronAdds_def)
qed

text \<open>The tasks that pass the checks of the loop, whoever was found as owner.\<close>

definition passes :: "database \<Rightarrow> taskDoc \<times> userDoc option \<Rightarrow> bool" where
  "passes d p \<longleftrightarrow> flagOn d (t_workspace (fst p)) Reminders \<and> flagOn d (t_workspace (fst p)) EmailNotifications \<and>
     (\<exists>u. snd p = Some u \<and> u_email u \<noteq> [])"

lemma updateFirst_find_None: "List.find p xs = None \<Longrightarrow> updateFirst p f xs = xs"
  by (rule updateFirst_none) (simp add: find_None_iff_all)

lemma same_tasks_update:
  "(d :: database)\<lparr>emails := a, outbox := b, tasks := tasks d\<rparr> = d\<lparr>emails := a, outbox := b\<rparr>"
  by (rule database.equality) simp_all

lemma remindTask_run:
  assumes "faults s = []" and "freshMails s" and "distinct (map t_id (tasks (db s)))"
    and "owner = List.find (\<lambda>u. u_id u = t_owner task) (users (db s))"
  shows "\<exists>t. remindTask (task, owner) s = (Inr (), t) \<and> cronAdds s (if passes (db s) (task, owner) then [task] else []) t"
proof (cases "passes (db s) (task, owner)")
  case False
  then have "remindTask (task, owner) s = (Inr (), s)"
    using assms(1) by (auto simp: remindTask_def bnd_run passes_def split: option.split)
  with False cronAdds_none [OF assms(1,2)] show ?thesis by simp
next
  case True
  then obtain u where u: "owner = Some u" "u_email u \<noteq> []" by (auto simp: passes_def)
  have new: "List.find (\<lambda>d. e_outboxEventId d = nextId s) (emails (db s)) = None"
    using assms(2) by (auto simp: freshMails_def find_None_iff_all)
  have mail: "ownerMail (db s) task = u_email u" using u assms(4) by (simp add: ownerMail_def)
  let ?m = "\<lparr>e_id = Suc (nextId s), e_outboxEventId = nextId s, e_to = u_email u, e_emailType = ''TASK_REMINDER'',
     e_status = EQueued, e_attempts = 0, e_lastError = None, e_sentAt = None, e_failedAt = None\<rparr>"
  let ?e = "\<lparr>o_id = nextId s, o_eventType = ''REMINDER_DUE'', o_aggregateType = ''TASK'', o_aggregateId = t_id task,
     o_workspaceId = Some (t_workspace task), o_correlationId = requestId s, o_payload = [(''to'', JStr (u_email u)),
       (''taskTitle'', t_title task), (''dueDate'', t_dueDate task), (''priority'', t_priority task)],
     o_status = OPending, o_attempts = 0, o_availableAt = None, o_processedAt = None, o_lastError = None, o_createdAt = now s\<rparr>"
  let ?t = "s\<lparr>nextId := Suc (Suc (nextId s)), db := (db s)\<lparr>emails := emails (db s) @ [?m], outbox := outbox (db s) @ [?e],
     tasks := updateFirst (\<lambda>x. t_id x = t_id task) (\<lambda>x. x\<lparr>t_reminderSent := True\<rparr>) (tasks (db s))\<rparr>\<rparr>"
  have "remindTask (task, owner) s = (Inr (), ?t)"
    using True assms(1) u new
    by (auto simp: remindTask_def passes_def bnd_run andThen_run EmailDeliveryRepository_create_def OutboxService_create_def
        OutboxRepository_create_def Let_def updateFirst_find_None same_tasks_update split: option.split)
  moreover have "cronAdds s [task] ?t"
  proof -
    have "isReminder (db s) task (?m, ?e)" using mail by (simp add: isReminder_def jget_def)
    then have "\<exists>ps. emails (db s) @ [?m] = emails (db s) @ map fst ps \<and> outbox (db s) @ [?e] = outbox (db s) @ map snd ps \<and>
        list_all2 (isReminder (db s)) [task] ps"
      by (intro exI [of _ "[(?m, ?e)]"]) simp
    moreover have "freshMails ?t" using assms(2) by (auto simp: freshMails_def)
    ultimately show ?thesis
      using assms(1) updateFirst_mapped [OF assms(3)] by (simp add: cronAdds_def markReminded_def)
  qed
  ultimately show ?thesis using True by auto
qed

section \<open>The whole run\<close>

lemma list_all2_right: "list_all2 P xs ys \<Longrightarrow> y \<in> set ys \<Longrightarrow> \<exists>x\<in>set xs. P x y"
  by (induction rule: list_all2_induct) auto

lemma distinct_cronAdds: "cronAdds s ds t \<Longrightarrow> map t_id (tasks (db t)) = map t_id (tasks (db s))"
  by (simp add: cronAdds_def markReminded_def o_def if_distrib cong: if_cong)

lemma remindTasks_run:
  assumes "faults s = []" and "freshMails s" and "distinct (map t_id (tasks (db s)))"
    and "\<forall>p\<in>set ps. snd p = List.find (\<lambda>u. u_id u = t_owner (fst p)) (users (db s))"
  shows "\<exists>t. forEach ps (\<lambda>p. tryCatch (remindTask p) (\<lambda>_. ret ())) s = (Inr (), t) \<and>
    cronAdds s (map fst (filter (passes (db s)) ps)) t"
  using assms
proof (induction ps arbitrary: s)
  case Nil
  then show ?case using cronAdds_none by simp
next
  case (Cons p ps)
  obtain task owner where p: "p = (task, owner)" by (cases p)
  with Cons.prems obtain u where u: "remindTask (task, owner) s = (Inr (), u)"
    "cronAdds s (if passes (db s) (task, owner) then [task] else []) u"
    using remindTask_run [of s owner task] by auto
  then have same: "users (db u) = users (db s)" "flags (db u) = flags (db s)" "faults u = []" "freshMails u"
    by (simp_all add: cronAdds_def)
  then have pass: "passes (db u) = passes (db s)"
    by (simp add: fun_eq_iff passes_def flagOn_def)
  have "distinct (map t_id (tasks (db u)))"
    using Cons.prems(3) distinct_cronAdds [OF u(2)] by simp
  moreover have "\<forall>p\<in>set ps. snd p = List.find (\<lambda>u. u_id u = t_owner (fst p)) (users (db u))"
    using Cons.prems(4) same by simp
  ultimately obtain t where t: "forEach ps (\<lambda>p. tryCatch (remindTask p) (\<lambda>_. ret ())) u = (Inr (), t)"
    "cronAdds u (map fst (filter (passes (db s)) ps)) t"
    using Cons.IH [OF same(3,4)] unfolding pass by blast
  have "forEach (p # ps) (\<lambda>p. tryCatch (remindTask p) (\<lambda>_. ret ())) s = (Inr (), t)"
    using u(1) t(1) p by (simp add: andThen_run tryCatch_run)
  moreover have "cronAdds s (map fst (filter (passes (db s)) (p # ps))) t"
    using cronAdds_trans [OF u(2) t(2)] p by (simp split: if_splits)
  ultimately show ?case by blast
qed

lemma handleCron_run:
  assumes "faults s = []" and "freshMails s" and "distinct (map t_id (tasks (db s)))"
  shows "\<exists>t. handleCron s = (Inr (), t) \<and> cronAdds s (filter (announced (now s) (db s)) (tasks (db s))) t"
proof -
  let ?ps = "map (\<lambda>task. (task, List.find (\<lambda>u. u_id u = t_owner task) (users (db s)))) (filter (reminderDue (now s)) (tasks (db s)))"
  have "map fst (filter (passes d) (map (\<lambda>task. (task, List.find (\<lambda>u. u_id u = t_owner task) (users d))) (filter (reminderDue n) ts))) =
      filter (announced n d) ts" for n d ts
    by (induction ts) (auto simp: passes_def announced_def ownerMail_def split: option.split)
  then have "map fst (filter (passes (db s)) ?ps) = filter (announced (now s) (db s)) (tasks (db s))" .
  with remindTasks_run [OF assms, of ?ps] show ?thesis
    using assms(1) by (auto simp: handleCron_def bnd_run)
qed

text \<open>
  C19: Each task that is due within 24 hours is reminded of exactly once. A run of the cron job without
  failures adds, in the order of the tasks, one queued mail record and one pending REMINDER_DUE
  event for each task that is due, not done, not deleted, not yet reminded of, in a workspace with
  reminders and mail notifications on and with an owner who has an address; it marks these tasks and
  changes no other; and no later run adds anything for them, even after any time.
\<close>

theorem reminders_announced_once:
  assumes "faults s = []" and "distinct (map t_id (tasks (db s)))" and "\<forall>m\<in>set (emails (db s)). e_outboxEventId m < nextId s"
    and "due = filter (announced (now s) (db s)) (tasks (db s))"
  shows "\<exists>t ps. handleCron s = (Inr (), t) \<and>
    emails (db t) = emails (db s) @ map fst ps \<and> outbox (db t) = outbox (db s) @ map snd ps \<and>
    list_all2 (isReminder (db s)) due ps \<and>
    tasks (db t) = map (\<lambda>x. if x \<in> set due then x\<lparr>t_reminderSent := True\<rparr> else x) (tasks (db s)) \<and>
    (\<forall>later. \<exists>t' qs. handleCron (t\<lparr>now := later\<rparr>) = (Inr (), t') \<and> outbox (db t') = outbox (db t) @ qs \<and>
       (\<forall>e\<in>set qs. o_aggregateId e \<notin> t_id ` set due))"
proof -
  have fresh: "freshMails s" using assms(3) by (simp add: freshMails_def)
  from handleCron_run [OF assms(1) fresh assms(2)] obtain t where run: "handleCron s = (Inr (), t)" "cronAdds s due t"
    unfolding assms(4) by blast
  then obtain ps where ps: "emails (db t) = emails (db s) @ map fst ps" "outbox (db t) = outbox (db s) @ map snd ps"
    "list_all2 (isReminder (db s)) due ps" by (auto simp: cronAdds_def)
  have key: "t_id x \<in> t_id ` set due \<longleftrightarrow> x \<in> set due" if "x \<in> set (tasks (db s))" for x
    using that distinct_key_eq [OF assms(2)] by (auto simp: assms(4))
  have tasks: "tasks (db t) = map (\<lambda>x. if x \<in> set due then x\<lparr>t_reminderSent := True\<rparr> else x) (tasks (db s))"
    using run(2) key by (auto simp: cronAdds_def markReminded_def)
  have "\<exists>t' qs. handleCron (t\<lparr>now := later\<rparr>) = (Inr (), t') \<and> outbox (db t') = outbox (db t) @ qs \<and>
      (\<forall>e\<in>set qs. o_aggregateId e \<notin> t_id ` set due)" for later
  proof -
    let ?u = "t\<lparr>now := later\<rparr>"
    have "faults ?u = []" "freshMails ?u"
      using run(2) by (simp_all add: cronAdds_def freshMails_def)
    moreover have "distinct (map t_id (tasks (db ?u)))"
      unfolding distinct_cronAdds [OF run(2), symmetric] using assms(2) distinct_cronAdds [OF run(2)] by simp
    ultimately have "\<exists>t'. handleCron ?u = (Inr (), t') \<and> cronAdds ?u (filter (announced (now ?u) (db ?u)) (tasks (db ?u))) t'"
      by (rule handleCron_run)
    then obtain t' where t': "handleCron ?u = (Inr (), t')"
      "cronAdds ?u (filter (announced later (db t)) (tasks (db t))) t'" by auto
    then obtain qs where qs: "outbox (db t') = outbox (db t) @ map snd qs"
      "list_all2 (isReminder (db t)) (filter (announced later (db t)) (tasks (db t))) qs" by (auto simp: cronAdds_def)
    have "t_id y \<notin> t_id ` set due" if "y \<in> set (tasks (db t))" "announced later (db t) y" for y
      using that key by (auto simp: tasks announced_def reminderDue_def)
    moreover have "\<exists>y\<in>set (tasks (db t)). announced later (db t) y \<and> o_aggregateId e = t_id y" if "e \<in> set (map snd qs)" for e
      using list_all2_right [OF qs(2)] that by (fastforce simp: isReminder_def)
    ultimately have "\<forall>e\<in>set (map snd qs). o_aggregateId e \<notin> t_id ` set due"
      by metis
    with t' qs(1) show ?thesis by blast
  qed
  with run(1) ps tasks show ?thesis by blast
qed

text \<open>Task 20, due in an hour, of a user with an address; task 21 has no due date.\<close>

definition demoDue :: world where
  "demoDue = demoBoard\<lparr>db := (db demoBoard)\<lparr>tasks := [(demoTask 20 3)\<lparr>t_dueDate := JDate 3601000\<rparr>, demoTask 21 8]\<rparr>\<rparr>"

lemma demoDue_sel [simp]:
  "faults demoDue = []" "emails (db demoDue) = []" "tasks (db demoDue) = [(demoTask 20 3)\<lparr>t_dueDate := JDate 3601000\<rparr>, demoTask 21 8]"
  "now demoDue = 1000" "outbox (db demoDue) = []"
  by (simp_all add: demoDue_def demoBoard_def demoTeam_def world0_def)

lemma demoDue_due:
  "filter (announced (now demoDue) (db demoDue)) (tasks (db demoDue)) = [(demoTask 20 3)\<lparr>t_dueDate := JDate 3601000\<rparr>]"
  by (simp add: announced_def reminderDue_def flagOn_def ownerMail_def demoTask_def newTask_def jget_def demoDue_def demoBoard_def
      demoTeam_def world0_def defaultFlags_def demoAnn_def dayMs_def)

lemma reminders_announced_once_witness:
  "\<exists>t e. handleCron demoDue = (Inr (), t) \<and> outbox (db t) = [e] \<and> o_aggregateId e = 20"
proof -
  have "distinct (map t_id (tasks (db demoDue)))" by (simp add: demoTask_def newTask_def)
  from reminders_announced_once [OF _ this _ refl] obtain t ps where run: "handleCron demoDue = (Inr (), t)"
    "outbox (db t) = map snd ps" "list_all2 (isReminder (db demoDue)) [(demoTask 20 3)\<lparr>t_dueDate := JDate 3601000\<rparr>] ps"
    unfolding demoDue_due by auto
  then obtain p where "ps = [p]" "isReminder (db demoDue) ((demoTask 20 3)\<lparr>t_dueDate := JDate 3601000\<rparr>) p"
    by (auto simp: list_all2_Cons1)
  with run show ?thesis
    by (cases p) (auto simp: isReminder_def demoTask_def newTask_def)
qed

section \<open>Without a transaction\<close>

text \<open>
  The mark is written after the event and not with it: when that call fails, the next run
  announces the task again.
\<close>

lemma reminder_repeated:
  "map o_aggregateId (outbox (db (snd (handleCron (snd (handleCron
     (demoDue\<lparr>faults := [None, None, None, None, None, Some ''connection lost'']\<rparr>))))))) = [20, 20]"
  by code_simp

end
