(* ===== verification/DispatchFlow.thy ===== *)
theory DispatchFlow
  imports OutboxDispatch
begin

text \<open>
  An event on its way: a run of the dispatcher without failures puts the job of every due event into
  its queue and leaves the rest of the world as it is.
\<close>

text \<open>What is added at the end of a collection is found there when nothing before it matches.\<close>

lemma find_appendNone: "List.find p xs = None \<Longrightarrow> List.find p (xs @ ys) = List.find p ys"
  by (induction xs) (auto split: if_splits)

lemma updateFirst_append: "List.find p xs = None \<Longrightarrow> updateFirst p f (xs @ ys) = xs @ updateFirst p f ys"
  by (induction xs) (auto split: if_splits)

text \<open>The dispatcher changes the outbox and the queues only.\<close>

definition dispatchOnly :: "world \<Rightarrow> world \<Rightarrow> bool" where
  "dispatchOnly s t \<longleftrightarrow> exports (db t) = exports (db s) \<and> processed (db t) = processed (db s) \<and> tasks (db t) = tasks (db s) \<and>
     users (db t) = users (db s) \<and> emails (db t) = emails (db s) \<and> failedLogins t = failedLogins s \<and> mailbox t = mailbox s \<and>
     now t = now s \<and> nextId t = nextId s"

interpretation dispatchOnly: step_order dispatchOnly
  by unfold_locales (simp_all add: dispatchOnly_def)

lemma dispatchOnly_dispatch: "stays dispatchOnly (dispatchPending limit)"
proof -
  have base: "stays dispatchOnly (query f)" "stays dispatchOnly (queueAdd q j)" "stays dispatchOnly (findOneAndUpdate outbox outbox_update p g)" for f :: "database \<Rightarrow> 'a" and q j p g
    unfolding queueAdd_def findOneAndUpdate_def
    by (rule stays_io, simp_all add: dispatchOnly_def split: option.splits)+
  have "stays dispatchOnly (query f)" for f :: "database \<Rightarrow> outboxDoc option"
    by (rule stays_io) (simp_all add: dispatchOnly_def)
  then show ?thesis
    unfolding dispatchPending_def dispatchEvent_def enqueueEvent_def failEvent_def findPending_def markProcessing_def markCompleted_def
      markFailed_def findOne_def
    by (intro dispatchOnly.stays_rules base stays_query) (simp_all add: dispatchOnly_def)
qed

lemma enqueued_keeps: "j \<in> set (qs q) \<Longrightarrow> j \<in> set (fold enqueued es qs q)"
  by (induction es arbitrary: qs) (auto simp: enqueued_def split: option.splits)

lemma enqueued_adds:
  assumes "e \<in> set es" and "distinct (map o_id es)" and "getQueue (o_eventType e) = Some q" and "\<forall>k\<in>set (qs q). j_id k \<noteq> o_id e"
  shows "jobOf e \<in> set (fold enqueued es qs q)"
  using assms
proof (induction es arbitrary: qs)
  case (Cons x es)
  show ?case
  proof (cases "x = e")
    case True
    with Cons.prems(3,4) have "jobOf e \<in> set (enqueued x qs q)" by (auto simp: enqueued_def)
    then show ?thesis by (simp add: enqueued_keeps)
  next
    case False
    with Cons.prems(1,2) have "e \<in> set es" "o_id x \<noteq> o_id e" by auto
    moreover from this(2) Cons.prems(4) have "\<forall>k\<in>set (enqueued x qs q). j_id k \<noteq> o_id e"
      by (auto simp: enqueued_def jobOf_def split: option.split)
    ultimately show ?thesis using Cons.IH Cons.prems(2,3) by simp
  qed
qed simp

lemma dispatch_queues:
  assumes "faults s = []" and "distinct (map o_id (outbox (db s)))" and "e \<in> set (outbox (db s))" and "duePending (now s) e"
    and "length (filter (duePending (now s)) (outbox (db s))) \<le> limit" and "getQueue (o_eventType e) = Some q"
    and "\<forall>k\<in>set (queues s q). j_id k \<noteq> o_id e"
  shows "\<exists>t. dispatchPending limit s = (Inr (), t) \<and> jobOf e \<in> set (queues t q) \<and> dispatchOnly s t \<and> faults t = []"
proof -
  obtain r t where run: "dispatchPending limit s = (r, t)" by (cases "dispatchPending limit s")
  have "e \<in> set (pendingAt limit s)"
    using assms(3-5) by (simp add: pendingAt_def)
  then have "jobOf e \<in> set (fold enqueued (pendingAt limit s) (queues s) q)"
    using distinct_pendingAt [OF assms(2)] assms(6,7) by (rule enqueued_adds)
  with dispatchPending_run [OF assms(1,2), of limit] run staysD [OF dispatchOnly_dispatch run] show ?thesis
    by auto
qed

end
