(* ===== verification/ExportFlow.thy ===== *)
theory ExportFlow
  imports ExportsSpec DispatchFlow OidText FlagReads TaskSpec
begin

text \<open>
  An export from the request to the download, through the components it passes: the export service
  writes the record and the outbox event, the dispatcher puts the job in the queue, the processor
  writes the file, the service shows the link and hands out the file.
\<close>

section \<open>The steps\<close>

text \<open>The ids given so far are below the next one, in the collections the flow writes to.\<close>

definition idsBelow :: "world \<Rightarrow> bool" where
  "idsBelow s \<longleftrightarrow> (\<forall>x\<in>set (exports (db s)). x_id x < nextId s \<and> x_outboxEventId x < nextId s) \<and>
     (\<forall>e\<in>set (outbox (db s)). o_id e < nextId s) \<and> (\<forall>p\<in>set (processed (db s)). p_eventId p < nextId s) \<and>
     (\<forall>j\<in>set (queues s QExport). j_id j < nextId s)"

definition newExport :: "oid \<Rightarrow> oid \<Rightarrow> oid \<Rightarrow> oid \<Rightarrow> exportFormat \<Rightarrow> exportDoc" where
  "newExport i e w u fmt = \<lparr>x_id = i, x_outboxEventId = e, x_workspaceId = w, x_userId = u, x_format = fmt, x_status = XQueued,
     x_filePath = None, x_fileName = None, x_expiresAt = None, x_error = None\<rparr>"

definition exportEvent :: "oid \<Rightarrow> oid \<Rightarrow> oid \<Rightarrow> oid \<Rightarrow> exportFormat \<Rightarrow> string option \<Rightarrow> time \<Rightarrow> outboxDoc" where
  "exportEvent i e w u fmt c t = \<lparr>o_id = e, o_eventType = ''EXPORT_REQUESTED'', o_aggregateType = ''WORKSPACE'', o_aggregateId = w,
     o_workspaceId = Some w, o_correlationId = c, o_payload = [(''exportId'', JStr (oidString i)), (''outboxEventId'', JStr (oidString e)),
         (''workspaceId'', JStr (oidString w)), (''userId'', JStr (oidString u)), (''format'', JStr (formatString fmt))],
     o_status = OPending, o_attempts = 0, o_availableAt = None, o_processedAt = None, o_lastError = None, o_createdAt = t\<rparr>"

lemma requestExport_run:
  assumes "faults s = []" and "idsBelow s"
    and "flagOn (db s) w Model.Exports"
  shows "requestExport w u fmt s = (Inr (nextId s, Suc (nextId s), XQueued),
    s\<lparr>nextId := Suc (Suc (nextId s)), db := (db s)\<lparr>
      exports := exports (db s) @ [newExport (nextId s) (Suc (nextId s)) w u fmt],
      outbox := outbox (db s) @ [exportEvent (nextId s) (Suc (nextId s)) w u fmt (requestId s) (now s)]\<rparr>\<rparr>)"
proof -
  have new: "List.find (\<lambda>d. x_outboxEventId d = Suc (nextId s) \<or> x_id d = nextId s) (exports (db s)) = None"
    using assms(2) by (fastforce simp: idsBelow_def find_None_iff_all)
  show ?thesis
    using assms(1,3) new
    by (simp add: requestExport_def bnd_run andThen_run startSession_def requestTransaction_def withTransaction_def
        ExportRepository_create_def OutboxService_create_def OutboxRepository_create_def Let_def newExport_def exportEvent_def)
qed

section \<open>The processor\<close>

definition exportContent :: "exportEnv \<Rightarrow> exportFormat \<Rightarrow> taskDoc list \<Rightarrow> string" where
  "exportContent E fmt ts = (case fmt of
     FJson \<Rightarrow> JSON_stringify 2 (JArr (map (lean E) ts))
   | FCsv \<Rightarrow> csvOf (map (lean E) ts)
   | FXlsx \<Rightarrow> xlsx E (map xlsxRow (map (lean E) ts)))"

definition exportName :: "oid \<Rightarrow> time \<Rightarrow> exportFormat \<Rightarrow> string" where
  "exportName w t fmt = exportFileName (JStr (oidString w)) t (formatString fmt)"

definition exportPath :: "exportEnv \<Rightarrow> oid \<Rightarrow> time \<Rightarrow> exportFormat \<Rightarrow> string" where
  "exportPath E w t fmt = cwd E @ ''/exports/'' @ exportName w t fmt"

definition liveTasks :: "world \<Rightarrow> oid \<Rightarrow> taskDoc list" where
  "liveTasks s w = filter (\<lambda>t. t_workspace t = w \<and> \<not> t_isDeleted t) (tasks (db s))"

lemma generateFile_run:
  assumes "faults s = []" and "w < 16 ^ 24"
  shows "generateFile E (JStr (oidString w)) (JStr (formatString fmt)) s = (Inr (exportPath E w (now s) fmt, exportName w (now s) fmt),
    s\<lparr>files := (files s)(exportPath E w (now s) fmt := Some (exportContent E fmt (liveTasks s w)))\<rparr>)"
  using assms
  by (cases fmt) (simp_all add: generateFile_def oidOf_def readOid_oidString bnd_run TaskRepository_findAllForExport_def formatString_def
      generateJsonExport_def generateCsvExport_def generateXlsxExport_def writeExport_def mkdirp_def writeFile_def andThen_run Let_def
      exportPath_def exportName_def exportContent_def liveTasks_def)

definition finished :: "exportEnv \<Rightarrow> oid \<Rightarrow> time \<Rightarrow> exportDoc \<Rightarrow> exportDoc" where
  "finished E w t x = x\<lparr>x_status := XCompleted, x_filePath := Some (exportPath E w t (x_format x)),
     x_fileName := Some (exportName w t (x_format x)), x_expiresAt := Some (t + exportLifetime)\<rparr>"

lemma generateExport_run:
  assumes "faults s = []" and "w < 16 ^ 24" and "exports (db s) = xs @ [x]" and "x_format x = fmt"
    and "\<forall>y\<in>set xs. x_outboxEventId y \<noteq> x_outboxEventId x \<and> x_id y \<noteq> x_id x"
  shows "\<exists>t. generateExport E (JStr (oidString w)) (JStr (formatString fmt)) (x_outboxEventId x) s = (Inr (), t) \<and>
    exports (db t) = xs @ [finished E w (now s) x] \<and> files t (exportPath E w (now s) fmt) = Some (exportContent E fmt (liveTasks s w)) \<and>
    processed (db t) = processed (db s) \<and> faults t = [] \<and> now t = now s"
proof -
  have finds: "List.find (\<lambda>y. x_outboxEventId y = x_outboxEventId x) (xs @ [z]) = (if x_outboxEventId z = x_outboxEventId x then Some z else None)"
    "List.find (\<lambda>y. x_id y = x_id x) (xs @ [z]) = (if x_id z = x_id x then Some z else None)" for z
    using assms(5) by (simp_all add: find_appendNone find_None_iff_all)
  have upd: "updateFirst (\<lambda>y. x_id y = x_id x) f (xs @ [z]) = xs @ (if x_id z = x_id x then [f z] else [z])" for f z
    using assms(5) by (simp add: updateFirst_append find_None_iff_all)
  show ?thesis
    using assms(1-4) finds upd
    by (simp add: generateExport_def ExportRepository_findByOutboxEventId_def ExportRepository_update_def bnd_run andThen_run
        tryCatch_run generateFile_run finished_def liveTasks_def)
qed

lemma processor_run:
  assumes "faults s = []" and "w < 16 ^ 24" and "exports (db s) = xs @ [newExport i e w u fmt]"
    and "\<forall>y\<in>set xs. x_outboxEventId y \<noteq> e \<and> x_id y \<noteq> i" and "\<forall>p\<in>set (processed (db s)). p_eventId p \<noteq> e"
  shows "\<exists>t. ExportProcessor_process E (jobOf (exportEvent i e w u fmt c n)) s = (Inr (), t) \<and>
    exports (db t) = xs @ [finished E w (now s) (newExport i e w u fmt)] \<and>
    files t (exportPath E w (now s) fmt) = Some (exportContent E fmt (liveTasks s w)) \<and> faults t = [] \<and> now t = now s"
proof -
  let ?x = "newExport i e w u fmt"
  obtain t where gen: "generateExport E (JStr (oidString w)) (JStr (formatString fmt)) e s = (Inr (), t)"
    and t: "exports (db t) = xs @ [finished E w (now s) ?x]" "files t (exportPath E w (now s) fmt) = Some (exportContent E fmt (liveTasks s w))"
      "processed (db t) = processed (db s)" "faults t = []" "now t = now s"
    using generateExport_run [OF assms(1-3), of fmt E] assms(4) by (auto simp: newExport_def)
  have new: "List.find (\<lambda>p. p_eventId p = e) (processed (db s)) = None"
    using assms(5) by (simp add: find_None_iff_all)
  have payload: "payloadOf ''exportId'' (o_payload (exportEvent i e w u fmt c n)) = JStr (oidString i)"
    "payloadOf ''workspaceId'' (o_payload (exportEvent i e w u fmt c n)) = JStr (oidString w)"
    "payloadOf ''format'' (o_payload (exportEvent i e w u fmt c n)) = JStr (formatString fmt)"
    by (simp_all add: payloadOf_def exportEvent_def)
  have job: "j_outboxEventId (jobOf (exportEvent i e w u fmt c n)) = Some e" "j_eventType (jobOf (exportEvent i e w u fmt c n)) = Some ''EXPORT_REQUESTED''"
    "j_payload (jobOf (exportEvent i e w u fmt c n)) = Some (o_payload (exportEvent i e w u fmt c n))"
    by (simp_all add: jobOf_def exportEvent_def)
  show ?thesis
    using t new gen assms(1)
    by (simp add: ExportProcessor_process_def job require_def requireType_def payload bnd_run andThen_run tryCatch_run hasBeenProcessed_def
        markProcessed_def)
qed

section \<open>From the request to the download\<close>

lemma finished_sel [simp]:
  "x_id (finished E w t x) = x_id x" "x_workspaceId (finished E w t x) = x_workspaceId x" "x_userId (finished E w t x) = x_userId x"
  "x_status (finished E w t x) = XCompleted" "x_expiresAt (finished E w t x) = Some (t + exportLifetime)"
  "x_filePath (finished E w t x) = Some (exportPath E w t (x_format x))"
  "x_fileName (finished E w t x) = Some (exportName w t (x_format x))"
  by (simp_all add: finished_def)

lemma newExport_sel [simp]:
  "x_id (newExport i e w u fmt) = i" "x_outboxEventId (newExport i e w u fmt) = e" "x_workspaceId (newExport i e w u fmt) = w"
  "x_userId (newExport i e w u fmt) = u" "x_format (newExport i e w u fmt) = fmt"
  by (simp_all add: newExport_def)

lemma exportName_nonempty: "exportName w t fmt \<noteq> []" "exportPath E w t fmt \<noteq> []"
  by (simp_all add: exportPath_def exportName_def exportFileName_def)

lemma getExport_finished:
  assumes "faults s = []" and "exports (db s) = xs @ [finished E w t (newExport i e w u fmt)]" and "\<forall>y\<in>set xs. x_id y \<noteq> i"
    and "now s < t + exportLifetime"
  shows "\<exists>v. getExport E i w u s = (Inr v, s) \<and> xv_status v = XCompleted \<and>
    xv_token v = Some (generateToken (signToken E) (downloadSecret E) i u (t + exportLifetime))"
  using assms exportName_nonempty
  by (simp add: getExport_def ExportRepository_findById_def bnd_run andThen_run find_appendNone find_None_iff_all readyFile_def)

lemma downloadExport_finished:
  assumes "faults s = []" and "exports (db s) = xs @ [finished E w t (newExport i e w u fmt)]" and "\<forall>y\<in>set xs. x_id y \<noteq> i"
    and "now s < t + exportLifetime" and "0 \<le> t" and "signerLaw (signToken E)" and "files s (exportPath E w t fmt) \<noteq> None"
  shows "downloadExport E i w u (generateToken (signToken E) (downloadSecret E) i u (t + exportLifetime)) s =
    (Inr (exportPath E w t fmt, exportName w t fmt), s)"
proof -
  let ?x = "finished E w t (newExport i e w u fmt)"
  obtain p0 ps where p: "exportPath E w t fmt = p0 # ps" by (cases "exportPath E w t fmt") (simp_all add: exportName_nonempty)
  obtain n0 ns where n: "exportName w t fmt = n0 # ns" by (cases "exportName w t fmt") (simp_all add: exportName_nonempty)
  have found: "List.find (\<lambda>x. x_id x = i) (exports (db s)) = Some ?x"
    using assms(2,3) by (simp add: find_appendNone find_None_iff_all)
  have "t + exportLifetime \<noteq> 0" using assms(5) by (simp add: exportLifetime_def)
  then have "verifyToken (signToken E) (downloadSecret E) (now s) (generateToken (signToken E) (downloadSecret E) i u (t + exportLifetime)) =
      Inr (tokenOf i u (t + exportLifetime))"
    using export_token_roundtrip_at [OF assms(6)] assms(4) by simp
  then show ?thesis
    using download_run [OF assms(1) found, of w u p0 ps n0 ns "t + exportLifetime" E] assms(4,7) p n by simp
qed

text \<open>
  C16: an export asked for is delivered. The request writes the record and its event; when the dispatcher's
  batch is not smaller than the number of waiting events, its job is put in the export queue; when the
  worker runs it, at any time \<open>t\<close>, the file holds the workspace's live tasks in the format asked for;
  from then on, for the fifteen minutes of its life, the status shows a token and that token opens the file
  for the user who asked.
\<close>

theorem export_delivered:
  assumes "faults s = []" and "idsBelow s" and "distinct (map o_id (outbox (db s)))" and "flagOn (db s) w Model.Exports"
    and "w < 16 ^ 24" and "length (filter (duePending (now s)) (outbox (db s))) < limit" and "signerLaw (signToken E)" and "0 \<le> t"
  shows "\<exists>i e s1 s2 s3 j token. requestExport w u fmt s = (Inr (i, e, XQueued), s1) \<and> dispatchPending limit s1 = (Inr (), s2) \<and>
    j \<in> set (queues s2 QExport) \<and> j_outboxEventId j = Some e \<and> ExportProcessor_process E j (s2\<lparr>now := t\<rparr>) = (Inr (), s3) \<and>
    files s3 (exportPath E w t fmt) = Some (exportContent E fmt (liveTasks s w)) \<and>
    (\<forall>r. t \<le> r \<and> r < t + 15 * 60 * 1000 \<longrightarrow>
       (\<exists>v. getExport E i w u (s3\<lparr>now := r\<rparr>) = (Inr v, s3\<lparr>now := r\<rparr>) \<and> xv_status v = XCompleted \<and> xv_token v = Some token) \<and>
       downloadExport E i w u token (s3\<lparr>now := r\<rparr>) = (Inr (exportPath E w t fmt, exportName w t fmt), s3\<lparr>now := r\<rparr>))"
proof -
  define i where "i = nextId s"
  define ev where "ev = exportEvent i (Suc i) w u fmt (requestId s) (now s)"
  define s1 where "s1 = s\<lparr>nextId := Suc (Suc i), db := (db s)\<lparr>exports := exports (db s) @ [newExport i (Suc i) w u fmt], outbox := outbox (db s) @ [ev]\<rparr>\<rparr>"
  have request: "requestExport w u fmt s = (Inr (i, Suc i, XQueued), s1)"
    using requestExport_run [OF assms(1,2,4)] by (simp add: s1_def ev_def i_def)
  have ids: "\<forall>y\<in>set (exports (db s)). x_outboxEventId y \<noteq> Suc i \<and> x_id y \<noteq> i" "\<forall>p\<in>set (processed (db s)). p_eventId p \<noteq> Suc i"
    "\<forall>k\<in>set (queues s QExport). j_id k \<noteq> Suc i" "\<forall>o1\<in>set (outbox (db s)). o_id o1 \<noteq> Suc i"
    using assms(2) by (auto simp: idsBelow_def i_def)
  have ev: "o_id ev = Suc i" "o_eventType ev = ''EXPORT_REQUESTED''" "duePending (now s) ev"
    by (simp_all add: ev_def exportEvent_def duePending_def)
  have "\<exists>t. dispatchPending limit s1 = (Inr (), t) \<and> jobOf ev \<in> set (queues t QExport) \<and> dispatchOnly s1 t \<and> faults t = []"
    using assms(1,3,6) ids(3,4) ev by (intro dispatch_queues) (auto simp: s1_def getQueue_def)
  then obtain s2 where dispatch: "dispatchPending limit s1 = (Inr (), s2)" "jobOf ev \<in> set (queues s2 QExport)" "faults s2 = []"
    and same: "exports (db s2) = exports (db s) @ [newExport i (Suc i) w u fmt]" "processed (db s2) = processed (db s)"
      "tasks (db s2) = tasks (db s)"
    by (auto simp: dispatchOnly_def s1_def)
  obtain s3 where run: "ExportProcessor_process E (jobOf ev) (s2\<lparr>now := t\<rparr>) = (Inr (), s3)"
    and s3: "exports (db s3) = exports (db s) @ [finished E w t (newExport i (Suc i) w u fmt)]"
      "files s3 (exportPath E w t fmt) = Some (exportContent E fmt (liveTasks s w))" "faults s3 = []"
    using processor_run [of "s2\<lparr>now := t\<rparr>" w "exports (db s)" i "Suc i" u fmt E] dispatch(3) same ids(1,2) assms(5)
    by (auto simp: ev_def liveTasks_def)
  have open_for: "(\<exists>v. getExport E i w u (s3\<lparr>now := r\<rparr>) = (Inr v, s3\<lparr>now := r\<rparr>) \<and> xv_status v = XCompleted \<and>
      xv_token v = Some (generateToken (signToken E) (downloadSecret E) i u (t + exportLifetime))) \<and>
    downloadExport E i w u (generateToken (signToken E) (downloadSecret E) i u (t + exportLifetime)) (s3\<lparr>now := r\<rparr>) =
      (Inr (exportPath E w t fmt, exportName w t fmt), s3\<lparr>now := r\<rparr>)"
    if "r < t + 15 * 60 * 1000" for r
    using getExport_finished [of "s3\<lparr>now := r\<rparr>" "exports (db s)" E w t i "Suc i" u fmt]
      downloadExport_finished [of "s3\<lparr>now := r\<rparr>" "exports (db s)" E w t i "Suc i" u fmt] s3 ids(1) that assms(7,8)
    by (simp add: exportLifetime_def)
  have "j_outboxEventId (jobOf ev) = Some (Suc i)"
    by (simp add: jobOf_def ev)
  then show ?thesis
    using request dispatch(1,2) run s3(2) open_for by blast
qed

text \<open>An export of workspace 3, run a minute after it was asked for and downloaded a minute later.\<close>

lemma demoBoard_idsBelow: "idsBelow demoBoard"
  by (simp add: idsBelow_def demoBoard_def demoTeam_def)

lemma demoBoard_flags: "flagOn (db demoBoard) 3 Model.Exports"
  by (simp add: flagOn_def demoBoard_def demoTeam_def defaultFlags_def)

lemma export_delivered_witness:
  "\<exists>i e s1 s2 s3 j token. requestExport 3 9 FJson demoBoard = (Inr (i, e, XQueued), s1) \<and> dispatchPending 10 s1 = (Inr (), s2) \<and>
    j \<in> set (queues s2 QExport) \<and> ExportProcessor_process demoEnv j (s2\<lparr>now := 61000\<rparr>) = (Inr (), s3) \<and>
    files s3 (exportPath demoEnv 3 61000 FJson) = Some (exportContent demoEnv FJson [demoTask 20 3]) \<and>
    downloadExport demoEnv i 3 9 token (s3\<lparr>now := 121000\<rparr>) =
      (Inr (exportPath demoEnv 3 61000 FJson, exportName 3 61000 FJson), s3\<lparr>now := 121000\<rparr>)"
proof -
  have live: "liveTasks demoBoard 3 = [demoTask 20 3]"
    by (simp add: liveTasks_def)
  have at: "(61000::int) \<le> 121000" "(121000::int) < 61000 + 15 * 60 * 1000" "(3::nat) < 16 ^ 24" "(0::int) \<le> 61000"
    by simp_all
  have waiting: "distinct (map o_id (outbox (db demoBoard)))"
    "length (filter (duePending (now demoBoard)) (outbox (db demoBoard))) < 10"
    by simp_all
  have law: "signerLaw (signToken demoEnv)" by (simp add: demoSigner_law)
  obtain i e s1 s2 s3 j token where flow: "requestExport 3 9 FJson demoBoard = (Inr (i, e, XQueued), s1)"
      "dispatchPending 10 s1 = (Inr (), s2)" "j \<in> set (queues s2 QExport)" "ExportProcessor_process demoEnv j (s2\<lparr>now := 61000\<rparr>) = (Inr (), s3)"
      "files s3 (exportPath demoEnv 3 61000 FJson) = Some (exportContent demoEnv FJson [demoTask 20 3])"
    and later: "\<And>r. 61000 \<le> r \<Longrightarrow> r < 61000 + 15 * 60 * 1000 \<Longrightarrow> downloadExport demoEnv i 3 9 token (s3\<lparr>now := r\<rparr>) =
      (Inr (exportPath demoEnv 3 61000 FJson, exportName 3 61000 FJson), s3\<lparr>now := r\<rparr>)"
    using export_delivered [OF demoBoard_sel(2) demoBoard_idsBelow waiting(1) demoBoard_flags at(3) waiting(2) law at(4), of 9 FJson] live
    by metis
  from flow later [OF at(1,2)] show ?thesis
    by blast
qed

end
