(* ===== verification/AccountFlow.thy ===== *)
theory AccountFlow
  imports AuthSpec DispatchFlow Jobs
begin

text \<open>
  An account from its registration to its first login, through the components it passes: the command
  writes the user, the delivery and the outbox event, the dispatcher queues the mail, the worker sends
  it, the token it shows verifies the address, and the password opens a session.
\<close>

section \<open>Registration\<close>

text \<open>The ids given so far are below the next one, and no stored token is one that is still to be drawn.\<close>

definition accountsBelow :: "ext \<Rightarrow> world \<Rightarrow> bool" where
  "accountsBelow x s \<longleftrightarrow> (\<forall>u\<in>set (users (db s)). u_id u < nextId s \<and>
       (\<forall>n\<ge>nextId s. u_evTokenHash u \<noteq> Some (sha256 x (randomHex x n)))) \<and>
     (\<forall>e\<in>set (outbox (db s)). o_id e < nextId s) \<and> (\<forall>d\<in>set (emails (db s)). e_id d < nextId s \<and> e_outboxEventId d < nextId s) \<and>
     (\<forall>j\<in>set (queues s QEmail). j_id j < nextId s)"

text \<open>The draws of a registration: the salt, the token, the user, the event, the delivery.\<close>

definition registered :: "ext \<Rightarrow> string \<Rightarrow> string \<Rightarrow> world \<Rightarrow> userDoc" where
  "registered x email password s = \<lparr>u_id = nextId s + 2, u_email = email, u_password = bcryptHash x (nextId s) password,
     u_role = ''user'', u_refreshTokenHash = None, u_tokenFamily = None, u_currentTokenId = None, u_emailVerified = False,
     u_evTokenHash = Some (sha256 x (randomHex x (Suc (nextId s)))), u_evExpiresAt = Some (now s + 60 * 60 * 1000),
     u_prTokenHash = None, u_prExpiresAt = None\<rparr>"

definition verificationEvent :: "ext \<Rightarrow> string \<Rightarrow> world \<Rightarrow> outboxDoc" where
  "verificationEvent x email s = \<lparr>o_id = nextId s + 3, o_eventType = ''EMAIL_REQUESTED'', o_aggregateType = ''USER'',
     o_aggregateId = nextId s + 2, o_workspaceId = None, o_correlationId = requestId s,
     o_payload = [(''emailType'', JStr ''EMAIL_VERIFICATION''), (''to'', JStr email),
       (''token'', JStr (randomHex x (Suc (nextId s)))), (''expiresAt'', JDate (now s + 60 * 60 * 1000))],
     o_status = OPending, o_attempts = 0, o_availableAt = None, o_processedAt = None, o_lastError = None, o_createdAt = now s\<rparr>"

definition verificationDelivery :: "string \<Rightarrow> world \<Rightarrow> emailDoc" where
  "verificationDelivery email s = \<lparr>e_id = nextId s + 4, e_outboxEventId = nextId s + 3, e_to = email,
     e_emailType = ''EMAIL_VERIFICATION'', e_status = EQueued, e_attempts = 0, e_lastError = None, e_sentAt = None, e_failedAt = None\<rparr>"

lemma accounts_new:
  assumes "accountsBelow x s"
  shows "nextId s \<le> i \<Longrightarrow> List.find (\<lambda>u. u_id u = i) (users (db s)) = None"
    "nextId s \<le> i \<Longrightarrow> List.find (\<lambda>d. e_outboxEventId d = i) (emails (db s)) = None"
    "nextId s \<le> i \<Longrightarrow> List.find (\<lambda>d. e_id d = i) (emails (db s)) = None"
    "nextId s \<le> n \<Longrightarrow> List.find (\<lambda>u. u_evTokenHash u = Some (sha256 x (randomHex x n)) \<and> q u) (users (db s)) = None"
  using assms by (fastforce simp: accountsBelow_def find_None_iff_all)+

lemma register_run:
  assumes "faults s = []" and "accountsBelow x s" and "List.find (\<lambda>u. u_email u = email) (users (db s)) = None"
  shows "\<exists>t. RegisterUser_execute x email password s = (Inr (selected (registered x email password s)), t) \<and>
    users (db t) = users (db s) @ [registered x email password s] \<and> emails (db t) = emails (db s) @ [verificationDelivery email s] \<and>
    outbox (db t) = outbox (db s) @ [verificationEvent x email s] \<and> queues t = queues s \<and> faults t = [] \<and> now t = now s \<and>
    failedLogins t = failedLogins s \<and> mailbox t = mailbox s"
  using assms(1,3) accounts_new [OF assms(2)]
  by (simp add: RegisterUser_execute_def bnd_run andThen_run UserRepository_findByEmail_def Let_def bcryptHashNew_def
      UserRepository_createUser_def EmailDeliveryRepository_create_def requestEmail_def OutboxService_create_def
      OutboxRepository_create_def registered_def verificationEvent_def verificationDelivery_def find_appendNone)

section \<open>The mail\<close>

lemma verification_job_run:
  assumes "faults s = []" and "emails (db s) = ds @ [verificationDelivery email r]"
    and "\<forall>d\<in>set ds. e_outboxEventId d \<noteq> nextId r + 3 \<and> e_id d \<noteq> nextId r + 4"
  shows "\<exists>t. EmailProcessor_process (jobOf (verificationEvent x email r)) s = (Inr (), t) \<and>
    mailbox t = mailbox s @ [VerificationMail email (randomHex x (Suc (nextId r))) (Some (now r + 60 * 60 * 1000))] \<and>
    users (db t) = users (db s) \<and> faults t = [] \<and> failedLogins t = failedLogins s"
proof -
  have new: "List.find (\<lambda>d. e_outboxEventId d = nextId r + 3) ds = None" "List.find (\<lambda>d. e_id d = nextId r + 4) ds = None"
    using assms(3) by (auto simp: find_None_iff_all)
  show ?thesis
    using assms(1,2) new
    by (simp add: EmailProcessor_process_def jobOf_def verificationEvent_def require_def requireType_def bnd_run andThen_run
        EmailDeliveryRepository_findByOutboxEventId_def EmailDeliveryRepository_update_def tryCatch_run sendRequested_def startSending_def
        markSent_def processEmailRequested_def payloadOf_def sendVerificationEmail_def sendMail_def verificationDelivery_def
        find_appendNone updateFirst_append)
qed

section \<open>Verification and login\<close>

definition verified :: "userDoc \<Rightarrow> userDoc" where
  "verified u = u\<lparr>u_emailVerified := True, u_evTokenHash := None, u_evExpiresAt := None\<rparr>"

lemma verify_run:
  assumes "faults s = []" and "users (db s) = us @ [registered x email password r]" and "now s < now r + 60 * 60 * 1000"
    and "\<forall>u\<in>set us. u_evTokenHash u \<noteq> Some (sha256 x (randomHex x (Suc (nextId r))))" and "randomHex x (Suc (nextId r)) \<noteq> []"
  shows "\<exists>t. VerifyEmail_execute x (randomHex x (Suc (nextId r))) s = (Inr ''Email verified successfully'', t) \<and>
    users (db t) = us @ [verified (registered x email password r)] \<and> faults t = [] \<and> failedLogins t = failedLogins s"
proof -
  let ?p = "\<lambda>u. u_evTokenHash u = Some (sha256 x (randomHex x (Suc (nextId r)))) \<and> after (now s) (u_evExpiresAt u) \<and> \<not> u_emailVerified u"
  have "List.find ?p us = None"
    using assms(4) by (auto simp: find_None_iff_all)
  then show ?thesis
    using assms(1-3,5)
    by (simp add: VerifyEmail_execute_def UserRepository_verifyEmail_def bnd_run andThen_run find_appendNone updateFirst_append
        registered_def verified_def after_def invalidateUserCache_def)
qed

lemma login_registered:
  assumes "faults s = []" and "users (db s) = us @ [u]" and "List.find (\<lambda>v. u_email v = u_email u) us = None"
    and "\<forall>v\<in>set us. u_id v \<noteq> u_id u" and "bcryptLaw x" and "u_password u = bcryptHash x n password"
    and "fst (isBlocked (u_email u) s) = Inr False"
  shows "(\<exists>tokens. fst (Login_execute x (u_email u) given ip s) = Inr tokens) \<longleftrightarrow> u_emailVerified u \<and> take 72 given = take 72 password"
proof -
  have found: "List.find (\<lambda>v. u_email v = u_email u) (users (db s)) = Some u"
    using assms(2,3) by (simp add: find_appendNone)
  have "userOf (u_id u) s = Some u"
    using assms(2,4) by (simp add: find_appendNone find_None_iff_all)
  then have yes: "\<exists>tokens. fst (Login_execute x (u_email u) given ip s) = Inr tokens"
    if "u_emailVerified u" "take 72 given = take 72 password"
    using login_run [OF assms(1,7) found _ _ that(1), of x given ip] that(2) assms(5,6) by (fastforce simp: bcryptLaw_def)
  have no: "u_emailVerified u \<and> take 72 given = take 72 password" if ok: "fst (Login_execute x (u_email u) given ip s) = Inr tokens" for tokens
  proof -
    obtain t where run: "Login_execute x (u_email u) given ip s = (Inr tokens, t)"
      using ok by (cases "Login_execute x (u_email u) given ip s") simp
    have blocked: "isBlocked (u_email u) s = (Inr False, s)"
      using assms(1,7) by (simp add: isBlocked_def)
    show ?thesis
      using run assms(1,5,6) blocked found
      by (auto simp: Login_execute_def bnd_run UserRepository_findByEmail_def ok_iff bcryptLaw_def simp del: throwIf_run split: if_splits)
  qed
  from yes no show ?thesis by blast
qed

section \<open>From the registration to the login\<close>

lemma registered_sel [simp]:
  "u_email (registered x email password s) = email" "u_id (registered x email password s) = nextId s + 2"
  "u_password (registered x email password s) = bcryptHash x (nextId s) password" "\<not> u_emailVerified (registered x email password s)"
  "u_email (verified u) = u_email u" "u_id (verified u) = u_id u" "u_password (verified u) = u_password u" "u_emailVerified (verified u)"
  by (simp_all add: registered_def verified_def)

lemma login_flow:
  assumes "faults s = []" and "users (db s) = us @ [u]" and "u = registered x email password r \<or> u = verified (registered x email password r)"
    and "List.find (\<lambda>v. u_email v = email) us = None" and "\<forall>v\<in>set us. u_id v < nextId r" and "bcryptLaw x"
    and "failedLogins s (loginKey email) = None"
  shows "(\<exists>tokens. fst (Login_execute x email given ip s) = Inr tokens) \<longleftrightarrow> u_emailVerified u \<and> take 72 given = take 72 password"
proof -
  have "u_email u = email" "u_id u = nextId r + 2" "u_password u = bcryptHash x (nextId r) password"
    using assms(3) by auto
  moreover have "fst (isBlocked email s) = Inr False"
    using assms(1,7) by (simp add: isBlocked_def liveCounter_def)
  ultimately show ?thesis
    using login_registered [OF assms(1,2), of x "nextId r" password given ip] assms(4-6) by fastforce
qed

text \<open>
  C17: a new account can be used by the one who reads its mail and by no one before. The registration
  leaves an event; when the dispatcher's batch is not smaller than the number of waiting events, its job
  is queued; when the worker runs it, the address gets a mail with a token. Until then, and until the
  token is used, no password logs in; within the hour the token verifies the address, and from then on
  exactly the password of the registration logs in (as far as bcrypt reads it, 72 bytes).
\<close>

theorem registered_account_opens:
  assumes "faults s = []" and "accountsBelow x s" and "List.find (\<lambda>u. u_email u = email) (users (db s)) = None"
    and "distinct (map o_id (outbox (db s)))" and "length (filter (duePending (now s)) (outbox (db s))) < limit"
    and "bcryptLaw x" and "randomHex x (Suc (nextId s)) \<noteq> []" and "failedLogins s (loginKey email) = None"
  shows "\<exists>user s1 s2 s3 j token. RegisterUser_execute x email password s = (Inr user, s1) \<and> dispatchPending limit s1 = (Inr (), s2) \<and>
    j \<in> set (queues s2 QEmail) \<and> EmailProcessor_process j (s2\<lparr>now := t\<rparr>) = (Inr (), s3) \<and>
    mailbox s3 = mailbox s @ [VerificationMail email token (Some (now s + 60 * 60 * 1000))] \<and>
    (\<forall>r given. \<not> (\<exists>tokens. fst (Login_execute x email given ip (s3\<lparr>now := r\<rparr>)) = Inr tokens)) \<and>
    (\<forall>r<now s + 60 * 60 * 1000. \<exists>s4. VerifyEmail_execute x token (s3\<lparr>now := r\<rparr>) = (Inr ''Email verified successfully'', s4) \<and>
       (\<forall>q given. (\<exists>tokens. fst (Login_execute x email given ip (s4\<lparr>now := q\<rparr>)) = Inr tokens) \<longleftrightarrow> take 72 given = take 72 password))"
proof -
  let ?u = "registered x email password s" and ?ev = "verificationEvent x email s" and ?token = "randomHex x (Suc (nextId s))"
  obtain s1 where reg: "RegisterUser_execute x email password s = (Inr (selected ?u), s1)"
    and s1: "users (db s1) = users (db s) @ [?u]" "emails (db s1) = emails (db s) @ [verificationDelivery email s]"
      "outbox (db s1) = outbox (db s) @ [?ev]" "queues s1 = queues s" "faults s1 = []" "now s1 = now s"
      "failedLogins s1 = failedLogins s" "mailbox s1 = mailbox s"
    using register_run [OF assms(1-3)] by blast
  have ev: "o_id ?ev = nextId s + 3" "getQueue (o_eventType ?ev) = Some QEmail" "duePending (now s) ?ev"
    by (simp_all add: verificationEvent_def duePending_def getQueue_def)
  have below: "\<forall>o1\<in>set (outbox (db s)). o_id o1 \<noteq> nextId s + 3" "\<forall>k\<in>set (queues s QEmail). j_id k \<noteq> nextId s + 3"
    "\<forall>d\<in>set (emails (db s)). e_outboxEventId d \<noteq> nextId s + 3 \<and> e_id d \<noteq> nextId s + 4"
    "\<forall>u\<in>set (users (db s)). u_evTokenHash u \<noteq> Some (sha256 x ?token)" "\<forall>u\<in>set (users (db s)). u_id u < nextId s"
    using assms(2) by (fastforce simp: accountsBelow_def)+
  have "\<exists>t. dispatchPending limit s1 = (Inr (), t) \<and> jobOf ?ev \<in> set (queues t QEmail) \<and> dispatchOnly s1 t \<and> faults t = []"
    using s1 ev assms(4,5) below(1,2) by (intro dispatch_queues) (auto simp: image_iff)
  then obtain s2 where dispatch: "dispatchPending limit s1 = (Inr (), s2)" "jobOf ?ev \<in> set (queues s2 QEmail)" "faults s2 = []"
    and s2: "users (db s2) = users (db s) @ [?u]" "emails (db s2) = emails (db s) @ [verificationDelivery email s]"
      "failedLogins s2 = failedLogins s" "mailbox s2 = mailbox s"
    using s1 by (auto simp: dispatchOnly_def)
  obtain s3 where mail: "EmailProcessor_process (jobOf ?ev) (s2\<lparr>now := t\<rparr>) = (Inr (), s3)"
    and s3: "mailbox s3 = mailbox s @ [VerificationMail email ?token (Some (now s + 60 * 60 * 1000))]"
      "users (db s3) = users (db s) @ [?u]" "faults s3 = []" "failedLogins s3 = failedLogins s"
    using verification_job_run [of "s2\<lparr>now := t\<rparr>" "emails (db s)" email s x] s2 dispatch(3) below(3) by auto
  have before: "\<not> (\<exists>tokens. fst (Login_execute x email given ip (s3\<lparr>now := r\<rparr>)) = Inr tokens)" for r given
    using login_flow [of "s3\<lparr>now := r\<rparr>" "users (db s)" ?u x email password s given ip] s3 assms(3,6,8) below(5) by simp
  have verify: "\<exists>s4. VerifyEmail_execute x ?token (s3\<lparr>now := r\<rparr>) = (Inr ''Email verified successfully'', s4) \<and>
       (\<forall>q given. (\<exists>tokens. fst (Login_execute x email given ip (s4\<lparr>now := q\<rparr>)) = Inr tokens) \<longleftrightarrow> take 72 given = take 72 password)"
    if r: "r < now s + 60 * 60 * 1000" for r
  proof -
    obtain s4 where run: "VerifyEmail_execute x ?token (s3\<lparr>now := r\<rparr>) = (Inr ''Email verified successfully'', s4)"
      and s4: "users (db s4) = users (db s) @ [verified ?u]" "faults s4 = []" "failedLogins s4 = failedLogins s"
      using verify_run [of "s3\<lparr>now := r\<rparr>" "users (db s)" x email password s] s3 r below(4) assms(7) by auto
    have "(\<exists>tokens. fst (Login_execute x email given ip (s4\<lparr>now := q\<rparr>)) = Inr tokens) \<longleftrightarrow> take 72 given = take 72 password" for q given
      using login_flow [of "s4\<lparr>now := q\<rparr>" "users (db s)" "verified ?u" x email password s given ip] s4 assms(3,6,8) below(5) by simp
    with run show ?thesis by blast
  qed
  show ?thesis
    using reg dispatch(1,2) mail s3(1) before verify by blast
qed

text \<open>Bob registers beside Ann, reads his mail a minute later and logs in.\<close>

lemma demoSession_accounts: "accountsBelow demoExt demoSession"
proof -
  have "u_evTokenHash demoUser = None" "u_id demoUser = 1"
    by (simp_all add: demoUser_def)
  then show ?thesis
    by (simp add: accountsBelow_def demoSession_def)
qed

lemma registered_account_opens_witness:
  "\<exists>user s1 s2 s3 j token s4. RegisterUser_execute demoExt ''bob@x.org'' ''hunter2'' demoSession = (Inr user, s1) \<and>
    dispatchPending 10 s1 = (Inr (), s2) \<and> j \<in> set (queues s2 QEmail) \<and> EmailProcessor_process j (s2\<lparr>now := 31000\<rparr>) = (Inr (), s3) \<and>
    mailbox s3 = [VerificationMail ''bob@x.org'' token (Some 3601000)] \<and>
    \<not> (\<exists>tokens. fst (Login_execute demoExt ''bob@x.org'' ''hunter2'' None (s3\<lparr>now := 61000\<rparr>)) = Inr tokens) \<and>
    VerifyEmail_execute demoExt token (s3\<lparr>now := 61000\<rparr>) = (Inr ''Email verified successfully'', s4) \<and>
    (\<exists>tokens. fst (Login_execute demoExt ''bob@x.org'' ''hunter2'' None (s4\<lparr>now := 62000\<rparr>)) = Inr tokens)"
proof -
  have pre: "faults demoSession = []" "List.find (\<lambda>u. u_email u = ''bob@x.org'') (users (db demoSession)) = None"
    "distinct (map o_id (outbox (db demoSession)))" "length (filter (duePending (now demoSession)) (outbox (db demoSession))) < 10"
    "randomHex demoExt (Suc (nextId demoSession)) \<noteq> []" "failedLogins demoSession (loginKey ''bob@x.org'') = None"
    "mailbox demoSession = []" "now demoSession = 1000"
    by (simp_all add: demoSession_def demoUser_def demoHex_def)
  obtain user s1 s2 s3 j token where flow: "RegisterUser_execute demoExt ''bob@x.org'' ''hunter2'' demoSession = (Inr user, s1)"
      "dispatchPending 10 s1 = (Inr (), s2)" "j \<in> set (queues s2 QEmail)" "EmailProcessor_process j (s2\<lparr>now := 31000\<rparr>) = (Inr (), s3)"
      "mailbox s3 = [VerificationMail ''bob@x.org'' token (Some 3601000)]"
    and closed: "\<And>r given. \<not> (\<exists>tokens. fst (Login_execute demoExt ''bob@x.org'' given None (s3\<lparr>now := r\<rparr>)) = Inr tokens)"
    and opens: "\<And>r. r < 3601000 \<Longrightarrow> \<exists>s4. VerifyEmail_execute demoExt token (s3\<lparr>now := r\<rparr>) = (Inr ''Email verified successfully'', s4) \<and>
       (\<forall>q given. (\<exists>tokens. fst (Login_execute demoExt ''bob@x.org'' given None (s4\<lparr>now := q\<rparr>)) = Inr tokens) \<longleftrightarrow>
          take 72 given = take 72 ''hunter2'')"
    using registered_account_opens [OF pre(1) demoSession_accounts pre(2-4) demoExt_laws(2) pre(5,6), of "''hunter2''" 31000 None]
    by (auto simp: pre(7,8))
  from opens [of 61000] obtain s4 where
    s4: "VerifyEmail_execute demoExt token (s3\<lparr>now := 61000\<rparr>) = (Inr ''Email verified successfully'', s4)"
      "\<exists>tokens. fst (Login_execute demoExt ''bob@x.org'' ''hunter2'' None (s4\<lparr>now := 62000\<rparr>)) = Inr tokens"
    by auto
  from flow closed s4 show ?thesis
    by blast
qed

end
