(* ===== verification/InvitationFlow.thy ===== *)
theory InvitationFlow
  imports InvitationSpec DispatchFlow
begin

text \<open>
  An invitation from its creation to the membership: the token goes out in a mail, its hash is stored,
  and whoever logs in as the invited user and presents the token joins with the invited role, once.
\<close>

section \<open>Creating\<close>

definition invited :: "ext \<Rightarrow> oid \<Rightarrow> string \<Rightarrow> workspaceRole \<Rightarrow> oid \<Rightarrow> world \<Rightarrow> invitationDoc" where
  "invited x w email role actor s = \<lparr>i_id = Suc (nextId s), i_workspaceId = w, i_email = lowerTrim (toLowerCase email), i_role = role,
     i_tokenHash = sha256 x (randomHex x (nextId s)), i_expiresAt = now s + 24 * 60 * 60 * 1000, i_status = IPending, i_invitedBy = actor\<rparr>"

text \<open>A read that missed, with all that it leaves: it may fill the entry of its key.\<close>

definition filled :: "cacheKey \<Rightarrow> world \<Rightarrow> world \<Rightarrow> bool" where
  "filled k s t \<longleftrightarrow> db t = db s \<and> now t = now s \<and> faults t = [] \<and> nextId t = nextId s \<and> mailbox t = mailbox s \<and>
     (\<forall>j. j \<noteq> k \<longrightarrow> cache t j = cache s j)"

definition onlyKeys :: "(world \<Rightarrow> world) \<Rightarrow> bool" where
  "onlyKeys f \<longleftrightarrow> (\<forall>t. db (f t) = db t \<and> now (f t) = now t \<and> faults (f t) = faults t \<and> nextId (f t) = nextId t \<and>
     mailbox (f t) = mailbox t \<and> cache (f t) = cache t)"

lemma onlyKeys_remember: "onlyKeys (rememberWs k)" "onlyKeys (rememberMb k)" "onlyKeys (rememberInv k)" "onlyKeys id"
  by (simp_all add: onlyKeys_def rememberWs_def rememberMb_def rememberInv_def)

lemma readThrough_filled:
  assumes "faults s = []" and "cache s k = None" and "load s = (Inr x, s)" and "onlyKeys remember"
  shows "\<exists>t. readThrough k unpack pack ttl remember load s = (Inr x, t) \<and> filled k s t"
    "pack x = None \<Longrightarrow> readThrough k unpack pack ttl remember load s = (Inr x, s)"
  using assms
  by (auto simp: readThrough_def bnd_run andThen_run filled_def onlyKeys_def cacheLive_def split: option.splits)

lemma workspace_filled:
  "faults s = [] \<Longrightarrow> cache s (CKWorkspace w) = None \<Longrightarrow>
   \<exists>t. WorkspaceRepository_findById w s = (Inr (List.find (\<lambda>v. w_id v = w) (workspaces (db s))), t) \<and> filled (CKWorkspace w) s t"
  unfolding WorkspaceRepository_findById_def
  by (rule readThrough_filled(1)) (simp_all add: onlyKeys_remember)

lemma membership_filled:
  "faults s = [] \<Longrightarrow> cache s (CKMembership w u) = None \<Longrightarrow>
   \<exists>t. MembershipRepository_findByWorkspaceAndUser w u s = (Inr (List.find (sameMember w u) (memberships (db s))), t) \<and>
     filled (CKMembership w u) s t"
  unfolding MembershipRepository_findByWorkspaceAndUser_def Let_def
  by (rule readThrough_filled(1)) (simp_all add: onlyKeys_remember)

lemma no_membership:
  "faults s = [] \<Longrightarrow> cache s (CKMembership w u) = None \<Longrightarrow> List.find (sameMember w u) (memberships (db s)) = None \<Longrightarrow>
   MembershipRepository_findByWorkspaceAndUser w u s = (Inr None, s)"
  unfolding MembershipRepository_findByWorkspaceAndUser_def Let_def
  by (rule readThrough_filled(2)) (simp_all add: onlyKeys_remember)

lemma pending_filled:
  "faults s = [] \<Longrightarrow> cache s (CKInvitationsEmail (toLowerCase email)) = None \<Longrightarrow>
   \<exists>t. InvitationRepository_findPendingByEmail email s = (Inr (map withoutHash
       (filter (\<lambda>j. i_email j = lowerTrim (toLowerCase email) \<and> i_status j = IPending) (invitations (db s)))), t) \<and>
     filled (CKInvitationsEmail (toLowerCase email)) s t"
  unfolding InvitationRepository_findPendingByEmail_def Let_def
  by (rule readThrough_filled(1)) (simp_all add: onlyKeys_remember bnd_run)

lemma user_filled:
  "faults s = [] \<Longrightarrow> cache s (CKUser u) = None \<Longrightarrow>
   \<exists>t. UserRepository_findById u s = (Inr (map_option selected (List.find (\<lambda>v. u_id v = u) (users (db s)))), t) \<and> filled (CKUser u) s t"
  unfolding UserRepository_findById_def
  by (rule readThrough_filled(1)) (simp_all add: onlyKeys_remember bnd_run)

lemma createInvitation_run:
  assumes "faults s = []" and cold: "\<And>k. cache s k = None" and "List.find (\<lambda>v. w_id v = w) (workspaces (db s)) = Some wd"
    and "List.find (sameMember w actor) (memberships (db s)) = Some m0" and "role \<noteq> Owner"
    and "List.find (\<lambda>v. u_email v = toLowerCase email) (users (db s)) = Some user"
    and "List.find (sameMember w (u_id user)) (memberships (db s)) = None"
    and "\<forall>i\<in>set (invitations (db s)). i_email i = lowerTrim (toLowerCase email) \<and> i_status i = IPending \<longrightarrow> i_workspaceId i \<noteq> w"
  shows "\<exists>t. CreateInvitation_execute x w email role actor s = (Inr (withoutHash (invited x w email role actor s)), t) \<and>
    faults t = [] \<and> now t = now s \<and> users (db t) = users (db s) \<and> memberships (db t) = memberships (db s) \<and>
    invitations (db t) = invitations (db s) @ [invited x w email role actor s] \<and>
    mailbox t = mailbox s @ [InvitationMail email (w_name wd) (randomHex x (nextId s)) (Some (now s + 24 * 60 * 60 * 1000))] \<and>
    (\<forall>v. cache t (CKUser v) = None) \<and> cache t (CKMembership w (u_id user)) = None"
proof -
  have other: "actor \<noteq> u_id user"
    using assms(4,7) by auto
  obtain s1 where s1: "WorkspaceRepository_findById w s = (Inr (Some wd), s1)" "filled (CKWorkspace w) s s1"
    using workspace_filled [OF assms(1) cold, of w] assms(3) by auto
  obtain s2 where s2: "MembershipRepository_findByWorkspaceAndUser w actor s1 = (Inr (Some m0), s2)" "filled (CKMembership w actor) s1 s2"
    using membership_filled [of s1 w actor] s1(2) cold assms(4) by (auto simp: filled_def)
  have s2': "db s2 = db s" "faults s2 = []" "cache s2 (CKMembership w (u_id user)) = None" "cache s2 (CKInvitationsEmail e) = None"
    "now s2 = now s" "nextId s2 = nextId s" "mailbox s2 = mailbox s" "cache s2 (CKUser v) = None" for e v
    using s1(2) s2(2) cold other by (simp_all add: filled_def)
  obtain s3 where s3: "InvitationRepository_findPendingByEmail email s2 = (Inr (map withoutHash
       (filter (\<lambda>j. i_email j = lowerTrim (toLowerCase email) \<and> i_status j = IPending) (invitations (db s)))), s3)"
      "filled (CKInvitationsEmail (toLowerCase email)) s2 s3"
    using pending_filled [of s2 email] s2' by auto
  have none: "\<not> (\<exists>i\<in>set (filter (\<lambda>j. i_email j = lowerTrim (toLowerCase email) \<and> i_status j = IPending) (invitations (db s))).
      i_workspaceId (withoutHash i) = w)"
    using assms(8) by (auto simp: withoutHash_def)
  have "MembershipRepository_findByWorkspaceAndUser w (u_id user) s2 = (Inr None, s2)"
    using s2' assms(7) by (simp add: no_membership)
  then show ?thesis
    using s1(1) s2(1) s3 s2' assms(5,6) none
    by (simp add: CreateInvitation_execute_def bnd_run andThen_run UserRepository_findByEmailWithoutPassword_def filled_def
        InvitationRepository_create_def InvitationRepository_clearCache_def clearKeys_run sendWorkspaceInvitation_def sendMail_def
        tryCatch_run invited_def Let_def restrict_map_def)
qed

section \<open>Accepting\<close>

lemma check_run:
  assumes "faults s = []" and "List.find (\<lambda>j. i_tokenHash j = sha256 x token) (invitations (db s)) = Some i"
    and "List.find (\<lambda>v. u_id v = u) (users (db s)) = Some user" and "cache s (CKUser u) = None"
  shows "\<exists>t. filled (CKUser u) s t \<and> checkInvitation x token u s =
    ((if toLowerCase (u_email user) \<noteq> toLowerCase (i_email i) then Inl (Forbidden ''This invitation was sent to a different email address'')
      else if i_status i \<noteq> IPending then Inl (Conflict ''Invitation is no longer pending'')
      else if i_expiresAt i < now s then Inl (Conflict ''Invitation has expired'') else Inr i), t)"
proof -
  obtain t where t: "UserRepository_findById u s = (Inr (Some (selected user)), t)" "filled (CKUser u) s t"
    using user_filled [OF assms(1,4)] assms(3) by auto
  then show ?thesis
    using assms(1,2)
    by (intro exI [of _ t]) (simp add: checkInvitation_def bnd_run andThen_run InvitationRepository_findByTokenHash_def filled_def)
qed

lemma accept_run:
  assumes "faults s = []" and "List.find (\<lambda>j. i_tokenHash j = sha256 x token) (invitations (db s)) = Some i"
    and "List.find (\<lambda>v. u_id v = u) (users (db s)) = Some user" and "cache s (CKUser u) = None"
    and "cache s (CKMembership (i_workspaceId i) u) = None" and "List.find (sameMember (i_workspaceId i) u) (memberships (db s)) = None"
    and "toLowerCase (u_email user) = toLowerCase (i_email i)" and "i_status i = IPending" and "now s \<le> i_expiresAt i"
  shows "\<exists>m t. AcceptInvitation_execute x token u s = (Inr m, t) \<and> faults t = [] \<and> now t = now s \<and>
    m = \<lparr>m_id = nextId s, m_workspaceId = i_workspaceId i, m_userId = u, m_role = i_role i, m_status = MActive\<rparr> \<and>
    memberships (db t) = memberships (db s) @ [m] \<and> users (db t) = users (db s) \<and>
    invitations (db t) = updateFirst (\<lambda>j. i_id j = i_id i \<and> i_status j = IPending) (\<lambda>j. j\<lparr>i_status := IAccepted\<rparr>) (invitations (db s)) \<and>
    cache t (CKMembership (i_workspaceId i) u) = None"
proof -
  obtain s1 where s1: "checkInvitation x token u s = (Inr i, s1)" "filled (CKUser u) s s1"
    using check_run [OF assms(1-4)] assms(7-9) by auto
  then have s1': "faults s1 = []" "db s1 = db s" "now s1 = now s" "nextId s1 = nextId s" "cache s1 (CKMembership (i_workspaceId i) u) = None"
    using assms(5) by (simp_all add: filled_def)
  have "MembershipRepository_findByWorkspaceAndUser (i_workspaceId i) u s1 = (Inr None, s1)"
    using s1' assms(6) by (simp add: no_membership)
  then show ?thesis
    using s1(1) s1' assms(6)
    by (simp add: AcceptInvitation_execute_def bnd_run andThen_run startSession_def acceptTransaction_def withTransaction_def
        MembershipRepository_create_def MembershipRepository_clearCache_def InvitationRepository_markAccepted_def
        InvitationRepository_clearCache_def clearKeys_run tryCatch_run Let_def restrict_map_def updateFirst_none find_None_iff_all
        split: option.split)
qed

section \<open>From the invitation to the membership\<close>

lemma invited_sel [simp]:
  "i_workspaceId (invited x w email role actor s) = w" "i_role (invited x w email role actor s) = role"
  "i_status (invited x w email role actor s) = IPending" "i_expiresAt (invited x w email role actor s) = now s + 24 * 60 * 60 * 1000"
  "i_tokenHash (invited x w email role actor s) = sha256 x (randomHex x (nextId s))"
  "i_email (invited x w email role actor s) = lowerTrim (toLowerCase email)"
  by (simp_all add: invited_def)

lemma find_clock [simp]: "faults (s\<lparr>now := r\<rparr>) = faults s" "cache (s\<lparr>now := r\<rparr>) = cache s" "db (s\<lparr>now := r\<rparr>) = db s"
  by simp_all


text \<open>The owner 9 of workspace 3 invites Ann, whose earlier invitation there was declined.\<close>

definition demoDeclined :: world where
  "demoDeclined = demoTeam\<lparr>db := (db demoTeam)\<lparr>invitations := [demoInvitation\<lparr>i_status := IDeclined\<rparr>]\<rparr>\<rparr>"


end
