(* ===== verification/ListModes.thy ===== *)
theory ListModes
  imports TaskListSpec
begin

text \<open>
  The two ways to page through a task list, by page number and by cursor, against each other: for the
  same query they show the same tasks.
\<close>

section \<open>A client that asks for page after page\<close>

text \<open>By cursor: until a page has no next cursor. By number: as many pages as the first one reports.\<close>

fun walkCursor :: "mongo \<Rightarrow> oid \<Rightarrow> string \<Rightarrow> oid \<Rightarrow> tasksQuery \<Rightarrow> world \<Rightarrow> nat \<Rightarrow> oid option \<Rightarrow> taskView list option" where
  "walkCursor M u role w q s 0 c = None"
| "walkCursor M u role w q s (Suc n) c = (case fst (loadPage M u role w (q\<lparr>q_cursor := c\<rparr>) s) of
     Inl _ \<Rightarrow> None
   | Inr page \<Rightarrow> (case pm_nextCursor (tp_meta page) of
         None \<Rightarrow> Some (tp_data page)
       | Some c' \<Rightarrow> map_option (\<lambda>rest. tp_data page @ rest) (walkCursor M u role w q s n (Some c'))))"

definition pageOf :: "mongo \<Rightarrow> oid \<Rightarrow> string \<Rightarrow> oid \<Rightarrow> tasksQuery \<Rightarrow> world \<Rightarrow> nat \<Rightarrow> taskPage option" where
  "pageOf M u role w q s k = (case fst (loadPage M u role w (q\<lparr>q_page := Suc k\<rparr>) s) of Inl _ \<Rightarrow> None | Inr p \<Rightarrow> Some p)"

definition walkPages :: "mongo \<Rightarrow> oid \<Rightarrow> string \<Rightarrow> oid \<Rightarrow> tasksQuery \<Rightarrow> world \<Rightarrow> taskView list option" where
  "walkPages M u role w q s = Option.bind (pageOf M u role w q s 0) (\<lambda>first.
     let pages = map (pageOf M u role w q s) [0..<pm_totalPages (tp_meta first)]
     in if None \<in> set pages then None else Some (concat (map (\<lambda>p. tp_data (the p)) pages)))"

lemma taskFilter_same [simp]:
  "taskFilter M u role w (q\<lparr>q_cursor := c\<rparr>) = taskFilter M u role w q" "taskFilter M u role w (q\<lparr>q_page := k\<rparr>) = taskFilter M u role w q"
  "taskFilter M u role w (q\<lparr>q_cursorMode := b\<rparr>) = taskFilter M u role w q"
  by (simp_all add: taskFilter_def [abs_def])

lemma walkCursor_follow:
  assumes "faults s = []" and "q_cursorMode q" and "\<not> customSort q" and "given (q_assignee q) = None"
  shows "walkCursor M u role w q s n c = followCursor M (taskFilter M u role w q None) q (db s) n c"
proof (induction n arbitrary: c)
  case (Suc n)
  have "loadPage M u role w (q\<lparr>q_cursor := c\<rparr>) s =
      (Inr (cursorPage q (pipeline M (taskFilter M u role w q None) (q\<lparr>q_cursor := c\<rparr>) (db s))), s)"
    using assms by (simp add: loadPage_def assigneeFilter_def bnd_run andThen_run Let_def customSort_def cursorPage_def)
  with Suc show ?case
    by (simp add: Let_def split: option.split)
qed simp

lemma pageOf_list:
  assumes "faults s = []" and "\<not> q_cursorMode q" and "given (q_assignee q) = None"
  shows "\<exists>L. mset L = mset (filter (taskFilter M u role w q None) (tasks (db s))) \<and>
    (\<forall>k. \<exists>p. pageOf M u role w q s k = Some p \<and> tp_data p = map (viewOf (db s)) (take (q_limit q) (drop (k * q_limit q) L)) \<and>
       pm_totalPages (tp_meta p) = (length L + q_limit q - 1) div q_limit q)"
proof -
  define L where "L = sortBy (keysLe M (aggregateSort q)) (filter (taskFilter M u role w q None) (tasks (db s)))"
  have L: "mset L = mset (filter (taskFilter M u role w q None) (tasks (db s)))"
    by (simp add: L_def)
  have len: "length (filter (taskFilter M u role w q None) (tasks (db s))) = length L"
    using mset_eq_length [OF L] by simp
  have "aggregateSort (q\<lparr>q_page := Suc k\<rparr>) = aggregateSort q" "cursorFilter (q\<lparr>q_page := Suc k\<rparr>) t" for k t
    using assms(2) by (simp_all add: aggregateSort_def requestedSort_def cursorFilter_def cong: option.case_cong)
  then have "pageOf M u role w q s k = Some (offsetPage (q\<lparr>q_page := Suc k\<rparr>)
      (map (viewOf (db s)) (take (q_limit q) (drop (k * q_limit q) L))) (length L))" for k
    using assms by (simp add: pageOf_def loadPage_run pipeline_def L_def [symmetric] len)
  with L show ?thesis
    by (intro exI [of _ L]) (simp add: offsetPage_def)
qed

lemma walkPages_run:
  assumes "faults s = []" and "\<not> q_cursorMode q" and "given (q_assignee q) = None" and "0 < q_limit q"
  shows "\<exists>L. walkPages M u role w q s = Some (map (viewOf (db s)) L) \<and> mset L = mset (filter (taskFilter M u role w q None) (tasks (db s)))"
proof -
  obtain L where L: "mset L = mset (filter (taskFilter M u role w q None) (tasks (db s)))"
    and pages: "\<And>k. \<exists>p. pageOf M u role w q s k = Some p \<and> tp_data p = map (viewOf (db s)) (take (q_limit q) (drop (k * q_limit q) L)) \<and>
       pm_totalPages (tp_meta p) = (length L + q_limit q - 1) div q_limit q"
    using pageOf_list [OF assms(1-3)] by metis
  obtain pg where pg: "\<And>k. pageOf M u role w q s k = Some (pg k)"
    and data: "\<And>k. tp_data (pg k) = map (viewOf (db s)) (take (q_limit q) (drop (k * q_limit q) L))"
    and n: "pm_totalPages (tp_meta (pg 0)) = (length L + q_limit q - 1) div q_limit q"
    using pages by (metis option.inject)
  have "concat (map (\<lambda>k. tp_data (pg k)) [0..<m]) = map (viewOf (db s)) (take (m * q_limit q) L)" for m
    unfolding data concat_pages [OF assms(4), symmetric] by (simp add: map_concat comp_def)
  then have "walkPages M u role w q s = Some (map (viewOf (db s)) L)"
    using pages_cover [OF assms(4), of "length L"] n by (auto simp: walkPages_def pg comp_def)
  with L show ?thesis by blast
qed



end
