(* ===== verification/RateLimits.thy ===== *)
theory RateLimits
  imports Users
begin

text \<open>
  The counters of Redis over time: how many requests of a user the rate limit lets through, and what is
  left when only the first of its two calls succeeds.
\<close>

section \<open>Requests in a window\<close>

text \<open>The answers of the limit to requests of one user at the given times.\<close>

fun asks :: "oid \<Rightarrow> time list \<Rightarrow> world \<Rightarrow> (err + bool) list \<times> world" where
  "asks u [] s = ([], s)"
| "asks u (t # ts) s = (case checkLimit False u (s\<lparr>now := t\<rparr>) of (r, s1) \<Rightarrow>
     (case asks u ts s1 of (rs, s2) \<Rightarrow> (r # rs, s2)))"

lemma checkLimit_run:
  assumes "faults s = []"
  shows "checkLimit False u s = (case liveCounter (now s) (rateCounters s u) of
      None \<Rightarrow> (Inr True, s\<lparr>rateCounters := (rateCounters s)(u := Some (1, Some (now s + windowMs)))\<rparr>)
    | Some (n, till) \<Rightarrow> (Inr (Suc n \<le> rateLimit),
        s\<lparr>rateCounters := (rateCounters s)(u := Some (Suc n, if n = 0 then Some (now s + windowMs) else till))\<rparr>))"
  using assms by (simp add: checkLimit_def bnd_run andThen_run incrCounter_def rateLimit_def Let_def split: option.splits prod.splits)

lemma asks_in_window:
  assumes "faults s = []" and "rateCounters s u = Some (m, Some e)" and "0 < m" and "\<forall>t\<in>set ts. t < e"
  shows "\<exists>s'. asks u ts s = (map (\<lambda>k. Inr (k \<le> 100)) [Suc m..<Suc m + length ts], s') \<and> faults s' = [] \<and>
    rateCounters s' u = Some (m + length ts, Some e)"
  using assms
proof (induction ts arbitrary: s m)
  case (Cons t ts)
  let ?s = "s\<lparr>now := t, rateCounters := (rateCounters s)(u := Some (Suc m, Some e))\<rparr>"
  have first: "checkLimit False u (s\<lparr>now := t\<rparr>) = (Inr (Suc m \<le> 100), ?s)"
    using Cons.prems by (simp add: checkLimit_run liveCounter_def rateLimit_def)
  have "\<exists>s'. asks u ts ?s = (map (\<lambda>k. Inr (k \<le> 100)) [Suc (Suc m)..<Suc (Suc m) + length ts], s') \<and> faults s' = [] \<and>
      rateCounters s' u = Some (Suc m + length ts, Some e)"
    using Cons.prems by (intro Cons.IH) auto
  then obtain s' where "asks u ts ?s = (map (\<lambda>k. Inr (k \<le> 100)) [Suc (Suc m)..<Suc (Suc m) + length ts], s')" "faults s' = []"
      "rateCounters s' u = Some (Suc m + length ts, Some e)" by blast
  with first show ?case by (simp add: upt_conv_Cons del: upt_Suc)
qed auto

text \<open>
  C27: From a clean counter, of all the requests of the fifteen minutes from the first one on, exactly the
  first hundred are let through; the first request after them opens a new window.
\<close>

theorem rate_limit_window:
  assumes "faults s = []" and "rateCounters s u = None" and "\<forall>x\<in>set ts. x < t + 15 * 60 * 1000" and "t + 15 * 60 * 1000 \<le> later"
  shows "\<exists>s'. asks u (t # ts) s = (map (\<lambda>k. Inr (k \<le> 100)) [1..<Suc (Suc (length ts))], s') \<and>
    fst (checkLimit False u (s'\<lparr>now := later\<rparr>)) = Inr True \<and>
    rateCounters (snd (checkLimit False u (s'\<lparr>now := later\<rparr>))) u = Some (1, Some (later + 15 * 60 * 1000))"
proof -
  let ?s = "s\<lparr>now := t, rateCounters := (rateCounters s)(u := Some (1, Some (t + windowMs)))\<rparr>"
  have first: "checkLimit False u (s\<lparr>now := t\<rparr>) = (Inr True, ?s)"
    using assms(1,2) by (simp add: checkLimit_run liveCounter_def)
  obtain s' where s': "asks u ts ?s = (map (\<lambda>k. Inr (k \<le> 100)) [Suc 1..<Suc 1 + length ts], s')" "faults s' = []"
      "rateCounters s' u = Some (1 + length ts, Some (t + windowMs))"
    using asks_in_window [of ?s u 1 "t + windowMs" ts] assms(1,3) by (auto simp: windowMs_def)
  have "asks u (t # ts) s = (map (\<lambda>k. Inr (k \<le> 100)) [1..<Suc (Suc (length ts))], s')"
    using first s'(1) by (simp add: upt_conv_Cons del: upt_Suc)
  moreover have "checkLimit False u (s'\<lparr>now := later\<rparr>) = (Inr True, s'\<lparr>now := later,
      rateCounters := (rateCounters s')(u := Some (1, Some (later + windowMs)))\<rparr>)"
    using s'(2,3) assms(4) by (simp add: checkLimit_run liveCounter_def windowMs_def)
  ultimately show ?thesis by (intro exI [of _ s']) (simp add: windowMs_def)
qed

lemma rate_limit_window_witness:
  "\<exists>s'. asks 6 (replicate 102 2000) world0 = (map (\<lambda>k. Inr (k \<le> 100)) [1..<103], s') \<and> fst (checkLimit False 6 (s'\<lparr>now := 902000\<rparr>)) = Inr True"
proof -
  have "rateCounters world0 6 = None"
    by (simp add: world0_def)
  then show ?thesis
    using rate_limit_window [of world0 6 "replicate 101 2000" 2000 902000] by (auto simp: eval_nat_numeral)
qed

section \<open>Counters without an end\<close>

text \<open>
  The counter and its expiry are two calls. When the second one fails the counter stays for ever: after
  a hundred requests the user is refused at any time, and an address with five failed logins is
  blocked at any time.
\<close>

lemma rate_limit_forever:
  assumes "faults s = []" and "rateCounters s u = Some (n, None)" and "100 \<le> n"
  shows "fst (checkLimit False u (s\<lparr>now := t\<rparr>)) = Inr False \<and>
    rateCounters (snd (checkLimit False u (s\<lparr>now := t\<rparr>))) u = Some (Suc n, None)"
  using assms by (simp add: checkLimit_run liveCounter_def rateLimit_def)

lemma expiry_lost:
  assumes "faults s = [None, Some ''connection reset'']" and "rateCounters s u = None"
  shows "fst (checkLimit False u s) = Inl (Infra ''connection reset'') \<and> rateCounters (snd (checkLimit False u s)) u = Some (1, None) \<and>
    faults (snd (checkLimit False u s)) = []"
  using assms by (simp add: checkLimit_def bnd_run andThen_run io_run incrCounter_def liveCounter_def whenP_def)

lemma lockout_forever:
  assumes "failedLogins s (loginKey email) = Some (n, None)" and "5 \<le> n" and "faults s = []"
  shows "fst (isBlocked email (s\<lparr>now := t\<rparr>)) = Inr True"
  using assms by (simp add: isBlocked_def liveCounter_def loginMaxAttempts_def)

end
