(* ===== verification/SeedData.thy ===== *)
theory SeedData
  imports Users
begin

text \<open>
  The migration with the demo data (\<open>migrations/20260811072459-seed-demo-data.js\<close>): what \<open>up\<close> inserts,
  what \<open>down\<close> deletes, and that the two fit together. The migration uses the driver itself, so no schema
  fills in or checks anything; the unique indexes of the collections hold all the same.
\<close>

section \<open>The calls of the driver\<close>

text \<open>
  An ordered \<open>insertMany\<close> stops at the first document that a unique index rejects; the documents before
  it stay. \<open>deleteMany\<close> deletes what matches.
\<close>

fun insertAll :: "('a \<Rightarrow> 'a \<Rightarrow> bool) \<Rightarrow> 'a list \<Rightarrow> 'a list \<Rightarrow> bool \<times> 'a list" where
  "insertAll clash [] ys = (True, ys)"
| "insertAll clash (x # xs) ys = (if list_ex (clash x) ys then (False, ys) else insertAll clash xs (ys @ [x]))"

definition insertMany ::
  "(database \<Rightarrow> 'a list) \<Rightarrow> (('a list \<Rightarrow> 'a list) \<Rightarrow> database \<Rightarrow> database) \<Rightarrow> ('a \<Rightarrow> 'a \<Rightarrow> bool) \<Rightarrow> 'a list \<Rightarrow> unit wprog" where
  "insertMany get upd clash xs = io (\<lambda>s. case insertAll clash xs (get (db s)) of (complete, ys) \<Rightarrow>
     (if complete then Inr () else Inl (DuplicateKey ''E11000 duplicate key error''), s\<lparr>db := upd (\<lambda>_. ys) (db s)\<rparr>))"

definition deleteMany ::
  "(database \<Rightarrow> 'a list) \<Rightarrow> (('a list \<Rightarrow> 'a list) \<Rightarrow> database \<Rightarrow> database) \<Rightarrow> ('a \<Rightarrow> bool) \<Rightarrow> unit wprog" where
  "deleteMany get upd p = updateDb (\<lambda>d. upd (\<lambda>_. filter (\<lambda>x. \<not> p x) (get d)) d)"

definition sameUser :: "userDoc \<Rightarrow> userDoc \<Rightarrow> bool" where
  "sameUser x y \<longleftrightarrow> u_id x = u_id y \<or> u_email x = u_email y"

definition sameWorkspace :: "workspaceDoc \<Rightarrow> workspaceDoc \<Rightarrow> bool" where
  "sameWorkspace x y \<longleftrightarrow> w_id x = w_id y \<or> w_slug x = w_slug y"

definition sameMembership :: "membershipDoc \<Rightarrow> membershipDoc \<Rightarrow> bool" where
  "sameMembership x y \<longleftrightarrow> m_id x = m_id y \<or> m_workspaceId x = m_workspaceId y \<and> m_userId x = m_userId y"

definition sameTask :: "taskDoc \<Rightarrow> taskDoc \<Rightarrow> bool" where
  "sameTask x y \<longleftrightarrow> t_id x = t_id y"

section \<open>The demo data\<close>

definition DEMO_USER_1 :: oid where "DEMO_USER_1 = 0x68a9a0010000000000000001"
definition DEMO_USER_2 :: oid where "DEMO_USER_2 = 0x68a9a0010000000000000002"
definition DEMO_WORKSPACE :: oid where "DEMO_WORKSPACE = 0x68a9a0020000000000000001"
definition DEMO_TASK_1 :: oid where "DEMO_TASK_1 = 0x68a9a0030000000000000001"
definition DEMO_TASK_2 :: oid where "DEMO_TASK_2 = 0x68a9a0030000000000000002"
definition DEMO_TASK_3 :: oid where "DEMO_TASK_3 = 0x68a9a0030000000000000003"
definition DEMO_TASK_4 :: oid where "DEMO_TASK_4 = 0x68a9a0030000000000000004"
definition DEMO_TASK_5 :: oid where "DEMO_TASK_5 = 0x68a9a0030000000000000005"

definition DEMO_EMAIL_1 :: string where "DEMO_EMAIL_1 = ''demo.owner@example.com''"
definition DEMO_EMAIL_2 :: string where "DEMO_EMAIL_2 = ''demo.member@example.com''"

definition DEMO_PASSWORD_HASH :: string where
  "DEMO_PASSWORD_HASH = ''$2b$10$JNJLNpHB7DtBDcCbPpkn8e/WbP91ejABs8ys8mXZYmWzfS1DJU.te''"

definition demoAccount :: "oid \<Rightarrow> string \<Rightarrow> string \<Rightarrow> userDoc" where
  "demoAccount i email role = \<lparr>u_id = i, u_email = email, u_password = DEMO_PASSWORD_HASH, u_role = role,
     u_refreshTokenHash = None, u_tokenFamily = None, u_currentTokenId = None, u_emailVerified = True,
     u_evTokenHash = None, u_evExpiresAt = None, u_prTokenHash = None, u_prExpiresAt = None\<rparr>"

definition demoUsers :: "userDoc list" where
  "demoUsers = [demoAccount DEMO_USER_1 DEMO_EMAIL_1 ''admin'', demoAccount DEMO_USER_2 DEMO_EMAIL_2 ''user'']"

definition demoWorkspaces :: "workspaceDoc list" where
  "demoWorkspaces = [\<lparr>w_id = DEMO_WORKSPACE, w_name = ''Demo Workspace'', w_slug = ''demo-workspace'', w_owner = DEMO_USER_1\<rparr>]"

text \<open>The memberships get their ids from the driver.\<close>

definition demoMemberships :: "oid \<Rightarrow> oid \<Rightarrow> membershipDoc list" where
  "demoMemberships i j = [\<lparr>m_id = i, m_workspaceId = DEMO_WORKSPACE, m_userId = DEMO_USER_1, m_role = Owner, m_status = MActive\<rparr>,
     \<lparr>m_id = j, m_workspaceId = DEMO_WORKSPACE, m_userId = DEMO_USER_2, m_role = Member, m_status = MActive\<rparr>]"

definition seedTask :: "oid \<Rightarrow> string \<Rightarrow> string \<Rightarrow> string \<Rightarrow> string \<Rightarrow> time \<Rightarrow> string list \<Rightarrow> oid \<Rightarrow> oid list \<Rightarrow> time \<Rightarrow> taskDoc" where
  "seedTask i title description status priority due tags owner assignees t = \<lparr>t_id = i, t_v = 0, t_title = JStr title,
     t_description = JStr description, t_status = JStr status, t_priority = JStr priority, t_dueDate = JDate due, t_category = JNull,
     t_tags = JArr (map JStr tags), t_isDeleted = False, t_deletedAt = None, t_reminderSent = False, t_comments = [], t_attachments = [],
     t_owner = owner, t_workspace = DEMO_WORKSPACE, t_assignees = assignees, t_createdAt = t\<rparr>"

definition demoTasks :: "time \<Rightarrow> taskDoc list" where
  "demoTasks t = [
     seedTask DEMO_TASK_1 ''Prepare NestJS architecture documentation''
       ''Document the production architecture and module boundaries.'' ''pending'' ''high'' 1786795200000
       [''nestjs'', ''architecture'', ''documentation''] DEMO_USER_1 [DEMO_USER_1, DEMO_USER_2] t,
     seedTask DEMO_TASK_2 ''Implement MongoDB transaction tests''
       ''Verify atomic operations across memberships and audit logs.'' ''in-progress'' ''high'' 1787054400000
       [''mongodb'', ''transactions'', ''testing''] DEMO_USER_1 [DEMO_USER_2] t,
     seedTask DEMO_TASK_3 ''Add API security documentation''
       ''Document authorization, optimistic concurrency and ETag handling.'' ''done'' ''medium'' 1786363200000
       [''security'', ''etag'', ''authorization''] DEMO_USER_2 [DEMO_USER_2] t,
     seedTask DEMO_TASK_4 ''Optimize task search queries''
       ''Use MongoDB text indexes and inspect query execution plans.'' ''pending'' ''medium'' 1787400000000
       [''mongodb'', ''search'', ''indexes''] DEMO_USER_2 [DEMO_USER_1, DEMO_USER_2] t,
     seedTask DEMO_TASK_5 ''Review production deployment checklist''
       ''Review Docker, Redis, MongoDB replica set and CI requirements.'' ''pending'' ''low'' 1788091200000
       [''docker'', ''redis'', ''deployment''] DEMO_USER_1 [DEMO_USER_1] t]"

section \<open>The migration\<close>

definition up :: "unit wprog" where
  "up = bnd (gets now) (\<lambda>t.
     andThen (insertMany users users_update sameUser demoUsers)
     (andThen (insertMany workspaces workspaces_update sameWorkspace demoWorkspaces)
     (bnd freshId (\<lambda>i. bnd freshId (\<lambda>j.
     andThen (insertMany memberships memberships_update sameMembership (demoMemberships i j))
       (insertMany tasks tasks_update sameTask (demoTasks t)))))))"

definition down :: "unit wprog" where
  "down =
     andThen (deleteMany tasks tasks_update (\<lambda>t. t_id t \<in> {DEMO_TASK_1, DEMO_TASK_2, DEMO_TASK_3, DEMO_TASK_4, DEMO_TASK_5}))
     (andThen (deleteMany memberships memberships_update
        (\<lambda>m. m_workspaceId m = DEMO_WORKSPACE \<and> m_userId m \<in> {DEMO_USER_1, DEMO_USER_2}))
     (andThen (findOneAndDelete workspaces workspaces_update (\<lambda>w. w_id w = DEMO_WORKSPACE))
       (deleteMany users users_update (\<lambda>u. u_id u \<in> {DEMO_USER_1, DEMO_USER_2}))))"

section \<open>What an insertion leaves\<close>

lemma insertAll_shape: "insertAll clash xs ys = (b, zs) \<Longrightarrow> \<exists>k. zs = ys @ take k xs \<and> (b \<longrightarrow> k = length xs)"
proof (induction clash xs ys rule: insertAll.induct)
  case (2 clash x xs ys)
  show ?case
  proof (cases "list_ex (clash x) ys")
    case True
    with 2(2) show ?thesis by (intro exI [of _ 0]) auto
  next
    case False
    with 2 obtain k where "zs = (ys @ [x]) @ take k xs \<and> (b \<longrightarrow> k = length xs)" by auto
    then show ?thesis by (intro exI [of _ "Suc k"]) auto
  qed
qed auto

lemma insertAll_free:
  "\<forall>x\<in>set xs. \<forall>y\<in>set ys. \<not> clash x y \<Longrightarrow> sorted_wrt (\<lambda>x y. \<not> clash y x) xs \<Longrightarrow> insertAll clash xs ys = (True, ys @ xs)"
  by (induction clash xs ys rule: insertAll.induct) (auto simp: list_ex_iff)

lemma filter_free: "\<forall>y\<in>set ys. \<not> p y \<Longrightarrow> \<forall>x\<in>set xs. p x \<Longrightarrow> filter (\<lambda>x. \<not> p x) (ys @ xs) = ys"
  by (simp add: filter_id_conv)

lemma removeFirst_append: "\<forall>y\<in>set ys. \<not> p y \<Longrightarrow> removeFirst p (ys @ xs) = ys @ removeFirst p xs"
  by (induction ys) auto

lemmas demo_ids = DEMO_USER_1_def DEMO_USER_2_def DEMO_WORKSPACE_def DEMO_TASK_1_def DEMO_TASK_2_def DEMO_TASK_3_def
  DEMO_TASK_4_def DEMO_TASK_5_def

text \<open>No document of the database has an id, an address or a slug of the demo data.\<close>

definition demoFree :: "world \<Rightarrow> bool" where
  "demoFree s \<longleftrightarrow>
     (\<forall>u\<in>set (users (db s)). u_id u \<notin> {DEMO_USER_1, DEMO_USER_2} \<and> u_email u \<notin> {DEMO_EMAIL_1, DEMO_EMAIL_2}) \<and>
     (\<forall>w\<in>set (workspaces (db s)). w_id w \<noteq> DEMO_WORKSPACE \<and> w_slug w \<noteq> ''demo-workspace'') \<and>
     (\<forall>m\<in>set (memberships (db s)). m_id m < nextId s \<and> \<not> (m_workspaceId m = DEMO_WORKSPACE \<and> m_userId m \<in> {DEMO_USER_1, DEMO_USER_2})) \<and>
     (\<forall>t\<in>set (tasks (db s)). t_id t \<notin> {DEMO_TASK_1, DEMO_TASK_2, DEMO_TASK_3, DEMO_TASK_4, DEMO_TASK_5})"

definition seeded :: "world \<Rightarrow> database" where
  "seeded s = (db s)\<lparr>users := users (db s) @ demoUsers, workspaces := workspaces (db s) @ demoWorkspaces,
     memberships := memberships (db s) @ demoMemberships (nextId s) (Suc (nextId s)), tasks := tasks (db s) @ demoTasks (now s)\<rparr>"

lemma demo_inserts:
  assumes "demoFree s"
  shows "insertAll sameUser demoUsers (users (db s)) = (True, users (db s) @ demoUsers)"
    "insertAll sameWorkspace demoWorkspaces (workspaces (db s)) = (True, workspaces (db s) @ demoWorkspaces)"
    "insertAll sameMembership (demoMemberships (nextId s) (Suc (nextId s))) (memberships (db s)) =
       (True, memberships (db s) @ demoMemberships (nextId s) (Suc (nextId s)))"
    "insertAll sameTask (demoTasks t) (tasks (db s)) = (True, tasks (db s) @ demoTasks t)"
  using assms
  by (intro insertAll_free; fastforce simp: demoFree_def sameUser_def sameWorkspace_def sameMembership_def sameTask_def demoUsers_def
      demoAccount_def demoWorkspaces_def demoMemberships_def demoTasks_def seedTask_def demo_ids DEMO_EMAIL_1_def DEMO_EMAIL_2_def)+

lemma up_run:
  assumes "faults s = []" and "demoFree s"
  shows "up s = (Inr (), s\<lparr>db := seeded s, nextId := Suc (Suc (nextId s))\<rparr>)"
  using assms(1) demo_inserts [OF assms(2)]
  by (simp add: up_def bnd_run andThen_run insertMany_def seeded_def)

lemma demo_deletes:
  assumes "demoFree s"
  shows "filter (\<lambda>t. t_id t \<notin> {DEMO_TASK_1, DEMO_TASK_2, DEMO_TASK_3, DEMO_TASK_4, DEMO_TASK_5}) (tasks (db s) @ demoTasks t) = tasks (db s)"
    "filter (\<lambda>m. \<not> (m_workspaceId m = DEMO_WORKSPACE \<and> m_userId m \<in> {DEMO_USER_1, DEMO_USER_2}))
       (memberships (db s) @ demoMemberships i j) = memberships (db s)"
    "removeFirst (\<lambda>w. w_id w = DEMO_WORKSPACE) (workspaces (db s) @ demoWorkspaces) = workspaces (db s)"
    "filter (\<lambda>u. u_id u \<notin> {DEMO_USER_1, DEMO_USER_2}) (users (db s) @ demoUsers) = users (db s)"
  using assms
  by (auto simp: demoFree_def demoUsers_def demoAccount_def demoWorkspaces_def demoMemberships_def demoTasks_def seedTask_def
      filter_id_conv removeFirst_append)

lemma seeded_sel:
  "tasks (seeded s) = tasks (db s) @ demoTasks (now s)" "users (seeded s) = users (db s) @ demoUsers"
  "memberships (seeded s) = memberships (db s) @ demoMemberships (nextId s) (Suc (nextId s))"
  "workspaces (seeded s) = workspaces (db s) @ demoWorkspaces"
  "(seeded s)\<lparr>tasks := tasks (db s), memberships := memberships (db s), workspaces := workspaces (db s), users := users (db s)\<rparr> = db s"
  by (cases "db s"; simp add: seeded_def)+

lemma down_seeded:
  assumes "faults t = []" and "db t = seeded s" and "demoFree s"
  shows "down t = (Inr (), t\<lparr>db := db s\<rparr>)"
proof -
  have "List.find (\<lambda>w. w_id w = DEMO_WORKSPACE) (workspaces (seeded s)) \<noteq> None"
    by (simp add: seeded_sel find_None_iff_all demoWorkspaces_def del: not_None_eq)
  then obtain w where "List.find (\<lambda>w. w_id w = DEMO_WORKSPACE) (workspaces (seeded s)) = Some w"
    by blast
  then show ?thesis
    using assms(1,2) demo_deletes [OF assms(3)]
    by (simp add: down_def andThen_run bnd_run deleteMany_def findOneAndDelete_def seeded_sel del: de_Morgan_conj)
qed

section \<open>There and back\<close>

text \<open>
  On a database that has none of the demo data, \<open>up\<close> adds exactly the two accounts, the workspace with
  both as members and the five tasks at the ends of their collections, and a later \<open>down\<close> gives back
  exactly the database there was.
\<close>

theorem seed_roundtrip:
  assumes "faults s = []" and "demoFree s"
  shows "up s = (Inr (), s\<lparr>db := seeded s, nextId := Suc (Suc (nextId s))\<rparr>) \<and>
    down (s\<lparr>db := seeded s, nextId := n, now := t\<rparr>) = (Inr (), s\<lparr>nextId := n, now := t\<rparr>)"
  using up_run [OF assms] down_seeded [of "s\<lparr>db := seeded s, nextId := n, now := t\<rparr>" s] assms by simp

lemma seed_roundtrip_witness:
  "demoFree world0 \<and> up world0 = (Inr (), world0\<lparr>db := seeded world0, nextId := 102\<rparr>) \<and>
   down (world0\<lparr>db := seeded world0, nextId := 102, now := 2000\<rparr>) = (Inr (), world0\<lparr>nextId := 102, now := 2000\<rparr>)"
proof -
  have "demoFree world0" by (simp add: demoFree_def)
  then show ?thesis using seed_roundtrip [of world0 2000 102] by simp
qed

text \<open>
  Whatever fails, the migration touches no document there was: \<open>up\<close> only appends, \<open>down\<close> only removes
  what has a demo id or is a membership of a demo account in the demo workspace.
\<close>

definition extends :: "'a list \<Rightarrow> 'a list \<Rightarrow> bool" where
  "extends xs ys \<longleftrightarrow> take (length xs) ys = xs"

lemma extends_append [simp]: "extends xs xs" "extends xs (xs @ ys)"
  by (simp_all add: extends_def)

lemma extends_trans: "extends xs ys \<Longrightarrow> extends ys zs \<Longrightarrow> extends xs zs"
  unfolding extends_def by (metis min.absorb1 nat_le_linear take_all take_take)

definition otherData :: "database \<Rightarrow> database" where
  "otherData d = d\<lparr>users := [], workspaces := [], memberships := [], tasks := []\<rparr>"

definition appended :: "world \<Rightarrow> world \<Rightarrow> bool" where
  "appended s t \<longleftrightarrow> extends (users (db s)) (users (db t)) \<and> extends (workspaces (db s)) (workspaces (db t)) \<and>
     extends (memberships (db s)) (memberships (db t)) \<and> extends (tasks (db s)) (tasks (db t)) \<and> otherData (db t) = otherData (db s)"

interpretation appended: step_order appended
  by unfold_locales (auto simp: appended_def intro: extends_trans)

lemma extends_insertAll [simp]: "extends ys (snd (insertAll clash xs ys))"
proof -
  obtain b zs where "insertAll clash xs ys = (b, zs)" by (cases "insertAll clash xs ys")
  with insertAll_shape [OF this] show ?thesis by auto
qed

lemma insertMany_alt:
  "insertMany get upd clash xs = io (\<lambda>s. (if fst (insertAll clash xs (get (db s))) then Inr () else Inl (DuplicateKey ''E11000 duplicate key error''),
     s\<lparr>db := upd (\<lambda>_. snd (insertAll clash xs (get (db s)))) (db s)\<rparr>))"
  by (simp add: insertMany_def split_def)

lemma appended_insert:
  "stays appended (insertMany users users_update c1 us)" "stays appended (insertMany workspaces workspaces_update c2 ws)"
  "stays appended (insertMany memberships memberships_update c3 ms)" "stays appended (insertMany tasks tasks_update c4 ts)"
  unfolding insertMany_alt by (rule stays_io; simp add: appended_def otherData_def)+

lemma appended_freshId: "stays appended freshId"
  by (rule staysI) (simp add: freshId_def appended_def)

theorem seed_appends: "appended s (snd (up s))"
proof -
  have "stays appended up"
    unfolding up_def by (intro appended.stays_rules appended_insert appended_freshId)
  then show ?thesis by (simp add: stays_def)
qed

text \<open>
  A run of \<open>up\<close> that fails half way leaves what it has inserted, for instance the accounts and nothing
  else; from then on \<open>up\<close> stops at the first account, and as the migration is not on record as applied,
  nothing runs \<open>down\<close>.
\<close>

lemma seed_not_repeatable:
  assumes "u \<in> set (users (db s))" and "u_id u = DEMO_USER_1"
  shows "\<exists>e. fst (up s) = Inl e \<and> db (snd (up s)) = db s"
proof -
  have "insertAll sameUser demoUsers (users (db s)) = (False, users (db s))"
    using bexI [of "sameUser (demoAccount DEMO_USER_1 DEMO_EMAIL_1 ''admin'')", OF _ assms(1)] assms(2)
    by (simp add: demoUsers_def demoAccount_def sameUser_def list_ex_iff)
  then show ?thesis
    by (cases "faults s") (auto simp: up_def bnd_run andThen_run insertMany_def io_run split: option.split)
qed

lemma seed_half_done:
  "\<exists>t. up (world0\<lparr>faults := [None, Some ''connection reset'']\<rparr>) = (Inl (Infra ''connection reset''), t) \<and>
     users (db t) = demoUsers \<and> workspaces (db t) = [] \<and> (\<exists>e. fst (up t) = Inl e \<and> db (snd (up t)) = db t)"
proof -
  have "insertAll sameUser demoUsers [] = (True, demoUsers)"
    using demo_inserts(1) [of world0] by (simp add: demoFree_def)
  then obtain t where t: "up (world0\<lparr>faults := [None, Some ''connection reset'']\<rparr>) = (Inl (Infra ''connection reset''), t)"
      "users (db t) = demoUsers" "workspaces (db t) = []"
    by (simp add: up_def bnd_run andThen_run insertMany_def io_run)
  moreover have "demoAccount DEMO_USER_1 DEMO_EMAIL_1 ''admin'' \<in> set (users (db t))"
    by (simp add: t(2) demoUsers_def)
  ultimately show ?thesis
    using seed_not_repeatable [of "demoAccount DEMO_USER_1 DEMO_EMAIL_1 ''admin''" t] by (auto simp: demoAccount_def)
qed

end
