(* ===== verification/Monitoring.thy ===== *)
theory Monitoring
  imports JsText Model
begin

text \<open>
  What watches the program and stops it: the interceptor that counts requests (\<open>src/metrics\<close>), the
  gauges of the queues (\<open>src/infrastructure/queues\<close>), the health check of Redis (\<open>src/health\<close>) and the
  shutdown (\<open>src/infrastructure/shutdown\<close>). Prometheus, BullMQ, the Redis client and the database
  connection are parameters.
\<close>

section \<open>MetricsInterceptor\<close>

text \<open>The labels of a sample: method, route, status code.\<close>

type_synonym labels = "string \<times> string \<times> string"

record metrics =
  httpRequestsTotal :: "labels \<Rightarrow> nat"
  httpRequestDuration :: "(labels \<times> time) list"

record httpInfo =
  hi_method :: string
  hi_path :: string
  hi_routePath :: "string option"

definition endsWith :: "string \<Rightarrow> string \<Rightarrow> bool" where
  "endsWith s e \<longleftrightarrow> length e \<le> length s \<and> drop (length s - length e) s = e"

definition labelsOf :: "httpInfo \<Rightarrow> nat \<Rightarrow> labels" where
  "labelsOf rq statusCode = (hi_method rq, case hi_routePath rq of None \<Rightarrow> hi_path rq | Some r \<Rightarrow> r, showNat statusCode)"

definition observed :: "labels \<Rightarrow> time \<Rightarrow> metrics \<Rightarrow> metrics" where
  "observed l d m = m\<lparr>httpRequestsTotal := (httpRequestsTotal m)(l := Suc (httpRequestsTotal m l)),
     httpRequestDuration := httpRequestDuration m @ [(l, d)]\<rparr>"

text \<open>
  \<open>next\<close> is the rest of the request and \<open>statusCode\<close> what \<open>response.statusCode\<close> reads when it has
  ended, by a value or by an error: \<open>finalize\<close> runs in both cases. The duration stays in the
  milliseconds of the clock.
\<close>

definition MetricsInterceptor_intercept :: "httpInfo \<Rightarrow> nat \<Rightarrow> 'a wprog \<Rightarrow> (world \<times> metrics, err, 'a) prog" where
  "MetricsInterceptor_intercept rq statusCode handler = (\<lambda>(s, m).
     if endsWith (hi_path rq) ''/metrics'' then (case handler s of (r, t) \<Rightarrow> (r, (t, m)))
     else (case handler s of (r, t) \<Rightarrow> (r, (t, observed (labelsOf rq statusCode) (now t - now s) m))))"

text \<open>A series of requests, each with its status and its handler.\<close>

fun serve :: "(httpInfo \<times> nat \<times> 'a wprog) list \<Rightarrow> world \<times> metrics \<Rightarrow> world \<times> metrics" where
  "serve [] s = s"
| "serve ((rq, code, handler) # rs) s = serve rs (snd (MetricsInterceptor_intercept rq code handler s))"

text \<open>Every request but those for the metrics is counted once, under its own labels, however it ends.\<close>

lemma serve_counts:
  "httpRequestsTotal (snd (serve rs (s, m))) l = httpRequestsTotal m l +
     length (filter (\<lambda>(rq, code, h). \<not> endsWith (hi_path rq) ''/metrics'' \<and> labelsOf rq code = l) rs)"
proof (induction rs arbitrary: s m)
  case (Cons x rs)
  obtain rq code h where x: "x = (rq, code, h)" by (cases x)
  obtain r t where "h s = (r, t)" by (cases "h s")
  then show ?case
    using Cons.IH by (simp add: x MetricsInterceptor_intercept_def observed_def)
qed simp

text \<open>
  NestJS sets the status of the route before the interceptors run and the exception filter sets that of
  the error after they have ended: the sample of a request does not tell whether it failed.
\<close>

lemma metrics_ignore_failure:
  assumes "fst (MetricsInterceptor_intercept rq statusCode ok (s, m)) = Inr x" and "fst (MetricsInterceptor_intercept rq statusCode bad (s, m)) = Inl e"
  shows "httpRequestsTotal (snd (snd (MetricsInterceptor_intercept rq statusCode ok (s, m)))) =
    httpRequestsTotal (snd (snd (MetricsInterceptor_intercept rq statusCode bad (s, m))))"
  by (simp add: MetricsInterceptor_intercept_def observed_def split: prod.split)

section \<open>QueueMetricsService\<close>

record jobCounts =
  jc_waiting :: "nat option"
  jc_active :: "nat option"
  jc_delayed :: "nat option"
  jc_failed :: "nat option"

record gauges =
  queueWaitingJobs :: "string \<Rightarrow> nat option"
  queueActiveJobs :: "string \<Rightarrow> nat option"
  queueDelayedJobs :: "string \<Rightarrow> nat option"
  queueFailedJobs :: "string \<Rightarrow> nat option"

definition queueNames :: "string list" where
  "queueNames = [''email'', ''reminder'', ''webhook'', ''export'', ''dead-letter'']"

definition orZero :: "nat option \<Rightarrow> nat" where
  "orZero n = (case n of None \<Rightarrow> 0 | Some k \<Rightarrow> k)"

definition setGauges :: "string \<Rightarrow> jobCounts \<Rightarrow> gauges \<Rightarrow> gauges" where
  "setGauges name c g = g\<lparr>queueWaitingJobs := (queueWaitingJobs g)(name \<mapsto> orZero (jc_waiting c)),
     queueActiveJobs := (queueActiveJobs g)(name \<mapsto> orZero (jc_active c)),
     queueDelayedJobs := (queueDelayedJobs g)(name \<mapsto> orZero (jc_delayed c)),
     queueFailedJobs := (queueFailedJobs g)(name \<mapsto> orZero (jc_failed c))\<rparr>"

text \<open>\<open>getJobCounts\<close> answers or fails for each queue; the first failure ends the round and is logged.\<close>

definition updateMetrics :: "(string \<Rightarrow> err + jobCounts) \<Rightarrow> (gauges, err, unit) prog" where
  "updateMetrics getJobCounts = tryCatch
     (forEach queueNames (\<lambda>name. bnd (\<lambda>g. (getJobCounts name, g)) (\<lambda>counts. modify (setGauges name counts))))
     (\<lambda>_. ret ())"

lemma forEach_gauges:
  assumes "\<forall>n\<in>set ns. getJobCounts n = Inr (counts n)"
  shows "forEach ns (\<lambda>name. bnd (\<lambda>g. (getJobCounts name, g)) (\<lambda>c. modify (setGauges name c))) g =
    (Inr (), fold (\<lambda>n. setGauges n (counts n)) ns g)"
  using assms by (induction ns arbitrary: g) (simp_all add: andThen_run bnd_run)

lemma updateMetrics_total: "fst (updateMetrics getJobCounts g) = Inr ()"
  by (simp add: updateMetrics_def tryCatch_run split: prod.split sum.split)

lemma updateMetrics_all:
  assumes "\<And>n. getJobCounts n = Inr (counts n)" and "name \<in> set queueNames"
  shows "queueWaitingJobs (snd (updateMetrics getJobCounts g)) name = Some (orZero (jc_waiting (counts name)))"
    "queueFailedJobs (snd (updateMetrics getJobCounts g)) name = Some (orZero (jc_failed (counts name)))"
  using assms(2) forEach_gauges [of queueNames getJobCounts counts g] assms(1)
  by (auto simp: updateMetrics_def tryCatch_run queueNames_def setGauges_def)

section \<open>RedisHealthIndicator\<close>

datatype healthResult = Up string | Down string string

text \<open>
  The client connects when it is still waiting for its first use. \<open>connect\<close> and \<open>ping\<close> are the client's,
  on a state of its own; a failed check carries the message of the error.
\<close>

definition isHealthy :: "('s \<Rightarrow> string) \<Rightarrow> ('s, err, unit) prog \<Rightarrow> ('s, err, string) prog \<Rightarrow> string \<Rightarrow> ('s, healthResult, healthResult) prog" where
  "isHealthy status connect ping key = (\<lambda>s.
     case bnd (gets status) (\<lambda>st.
          andThen (whenP (st = ''wait'') connect)
          (bnd ping (\<lambda>result.
          andThen (throwIf (result \<noteq> ''PONG'') (PlainError (''Unexpected Redis response: '' @ result)))
            (ret ())))) s of
       (r, t) \<Rightarrow> (case r of Inr _ \<Rightarrow> (Inr (Up key), t) | Inl e \<Rightarrow> (Inl (Down key (errMessage e)), t)))"

lemma isHealthy_up:
  "fst (isHealthy status connect ping key s) = Inr r \<longleftrightarrow> r = Up key \<and>
     (\<exists>t u. (if status s = ''wait'' then connect s = (Inr (), t) else t = s) \<and> ping t = (Inr ''PONG'', u))"
  by (cases "connect s"; cases "fst (connect s)"; cases "ping s"; cases "fst (ping s)")
    (auto simp: isHealthy_def bnd_run andThen_run whenP_def throwIf_def split: prod.splits sum.splits)

section \<open>GracefulShutdownService\<close>

definition workerNames :: "string list" where
  "workerNames = [''email'', ''reminder'', ''webhook'', ''export'', ''dead-letter'']"

definition closeWorkers :: "(string \<Rightarrow> ('s, err, unit) prog) \<Rightarrow> ('s, err, unit) prog" where
  "closeWorkers close = forEach workerNames (\<lambda>name. tryCatch (close name) (\<lambda>_. ret ()))"

definition closeMongo :: "('s \<Rightarrow> nat) \<Rightarrow> ('s, err, unit) prog \<Rightarrow> ('s, err, unit) prog" where
  "closeMongo readyState close = tryCatch (bnd (gets readyState) (\<lambda>r. whenP (r \<noteq> 0) close)) (\<lambda>_. ret ())"

definition onApplicationShutdown ::
  "(string \<Rightarrow> ('s, err, unit) prog) \<Rightarrow> ('s \<Rightarrow> nat) \<Rightarrow> ('s, err, unit) prog \<Rightarrow> ('s, err, unit) prog" where
  "onApplicationShutdown closeWorker readyState closeConnection =
     andThen (closeWorkers closeWorker) (closeMongo readyState closeConnection)"

text \<open>The calls in their order; each may fail.\<close>

definition recorded :: "(string \<Rightarrow> err option) \<Rightarrow> string \<Rightarrow> (string list, err, unit) prog" where
  "recorded outcome name = (\<lambda>log. (case outcome name of None \<Rightarrow> Inr () | Some e \<Rightarrow> Inl e, log @ [name]))"

text \<open>
  Whatever fails, the shutdown ends without an error, asks every worker to close, each once and in
  order, and closes the database connection last, when it is open.
\<close>

lemma shutdown_closes_all:
  "onApplicationShutdown (recorded outcome) (\<lambda>_. state) (recorded outcome ''mongo'') log =
     (Inr (), log @ workerNames @ (if state = 0 then [] else [''mongo'']))"
proof -
  have "forEach ns (\<lambda>name. tryCatch (recorded outcome name) (\<lambda>_. ret ())) l = (Inr (), l @ ns)" for ns l
    by (induction ns arbitrary: l) (simp_all add: andThen_run tryCatch_run recorded_def split: option.split)
  then show ?thesis
    by (simp add: onApplicationShutdown_def closeWorkers_def closeMongo_def andThen_run tryCatch_run bnd_run recorded_def whenP_def
        split: option.split)
qed

end
