(* ===== verification/TaskReads.thy ===== *)
theory TaskReads
  imports TaskRoutesSpec
begin

text \<open>
  The routes that read tasks: whose tasks they show. Every one of them passes the guard, looks
  its task up in the workspace of the query and answers from that document; the list route
  answers from the cache too, so the cached lists are an invariant of their own.
\<close>

section \<open>The way to a handler that answers\<close>

lemma taskRoute_ok:
  assumes "taskRoute S policies load h next s = (Inr a, t)"
  shows "\<exists>u rq s0 s1. tokenUser S h (now s) = Some u \<and>
    canActivate (sv_can S) policies False load (guardRequest u h) s = (Inr rq, s0) \<and>
    checkLimit (sv_loadTestMode S) (cu_userId u) s0 = (Inr True, s1) \<and> next u s1 = (Inr a, t)"
  using assms
  by (auto simp: taskRoute_def secured_def authenticated_def rateLimited_def UserRateLimitInterceptor_intercept_def tokenUser_def
      bnd_ok andThen_ok jwt_run split: option.splits if_splits)

lemma keepsLists_readThrough:
  assumes "stays keepsLists load" and "\<And>s. now (remember s) = now s \<and> cache (remember s) = cache s"
    and "\<And>u role w q. k \<noteq> CKTasks u role w q"
  shows "stays keepsLists (readThrough k unpack pack ttl remember load)"
proof -
  have get: "stays keepsLists (cacheGet k)"
    unfolding cacheGet_def by (rule keepsLists_io) (simp add: keepsLists_def)
  have set: "stays keepsLists (cacheSet k v ttl)" for v
    unfolding cacheSet_def by (rule keepsLists_io) (simp add: keepsLists_def assms(3) [symmetric])
  have rem: "stays keepsLists (modify remember)"
    by (rule staysI) (simp add: keepsLists_def assms(2))
  show ?thesis
    unfolding readThrough_def
    by (auto intro!: keepsLists.stays_rules get set rem assms(1) split: option.splits)
qed

lemma keepsLists_checkLimit: "stays keepsLists (checkLimit b u)"
  unfolding checkLimit_def
  by (auto intro!: keepsLists.stays_rules keepsLists_io simp: keepsLists_def Let_def)

lemma keepsLists_guard: "stays keepsLists (canActivate can hs g load rq)"
  unfolding canActivate_def loadTaskInto_def TaskRepository_findById_def
  by (auto intro!: keepsLists.stays_rules keepsLists_find keepsLists_membership split: option.split)

text \<open>
  A route with policies that answers has run its handler for an active member of the workspace of
  the query, on the same data and the same cached lists.
\<close>

definition reader :: "server \<Rightarrow> httpRequest \<Rightarrow> world \<Rightarrow> oid \<Rightarrow> authUser \<Rightarrow> bool" where
  "reader S h s w u \<longleftrightarrow> tokenUser S h (now s) = Some u \<and>
     (\<exists>m\<in>set (memberships (db s)). m_workspaceId m = w \<and> m_userId m = cu_userId u \<and> m_status m = MActive)"

lemma taskRoute_reader:
  assumes "taskRoute S policies load h next s = (Inr a, t)" and "policies \<noteq> []" and "coherent oneKey unMembership oneAnswer s"
    and "ht_queryWorkspaceId h = Some w" and "ht_paramWorkspaceId h = None"
  shows "\<exists>u s1. reader S h s w u \<and> db s1 = db s \<and> keepsLists s s1 \<and> next u s1 = (Inr a, t) \<and>
    (load \<longrightarrow> (\<exists>task\<in>set (tasks (db s)). ht_paramId h = Some (t_id task) \<and> t_workspace task = w \<and> \<not> t_isDeleted task))"
proof -
  from taskRoute_ok [OF assms(1)] obtain u rq s0 s1 where u: "tokenUser S h (now s) = Some u"
    and guard: "canActivate (sv_can S) policies False load (guardRequest u h) s = (Inr rq, s0)"
    and c: "checkLimit (sv_loadTestMode S) (cu_userId u) s0 = (Inr True, s1)" and run: "next u s1 = (Inr a, t)"
    by blast
  have w: "requestWorkspace (guardRequest u h) = Some v \<Longrightarrow> v = w" for v
    using assms(4,5) by (simp add: requestWorkspace_def nullish_def guardRequest_def)
  have "reader S h s w u" and loaded: "load \<Longrightarrow> \<exists>task\<in>set (tasks (db s)).
      ht_paramId h = Some (t_id task) \<and> t_workspace task = w \<and> \<not> t_isDeleted task"
    using canActivate_ok [OF guard assms(2,3)] u w by (auto simp: reader_def guardRequest_def)
  moreover have "db s1 = db s"
    using sameDbD [OF sameDb_guard guard] sameDbD [OF sameDb_checkLimit c] by simp
  moreover have "keepsLists s s1"
    by (rule keepsLists.trans [OF staysD [OF keepsLists_guard guard] staysD [OF keepsLists_checkLimit c]])
  ultimately show ?thesis using run by blast
qed

section \<open>One task\<close>

text \<open>What a route about one task may show: a live task of the workspace, to one of its active members.\<close>

definition readable :: "server \<Rightarrow> httpRequest \<Rightarrow> world \<Rightarrow> oid \<Rightarrow> oid \<Rightarrow> (taskDoc \<Rightarrow> bool) \<Rightarrow> bool" where
  "readable S h s i w shown \<longleftrightarrow> (\<exists>u. reader S h s w u) \<and>
     (\<exists>task\<in>set (tasks (db s)). t_id task = i \<and> t_workspace task = w \<and> \<not> t_isDeleted task \<and> shown task)"


lemma authorized_readable:
  assumes "TaskRepository_findAuthorizedTask i w s1 = (Inr lt, t)" and "db s1 = db s" and "reader S h s w u"
    and "shown (lt_doc lt)"
  shows "readable S h s i w shown"
  using authorized_ok [OF assms(1)] assms(2-4) unfolding readable_def by (auto simp: inWorkspace_def)

lemma comments_readable:
  assumes "GetComments_execute i w s1 = (Inr cs, t)" and "db s1 = db s" and "reader S h s w u"
    and "distinct (map t_id (tasks (db s)))"
  shows "readable S h s i w (\<lambda>task. cs = t_comments task)"
proof -
  from assms(1) obtain lt s2 task where load: "TaskRepository_findAuthorizedTask i w s1 = (Inr lt, s2)"
    and get: "TaskRepository_getComments (t_id (lt_doc lt)) s2 = (Inr task, t)" and cs: "cs = t_comments task"
    by (auto simp: GetComments_execute_def bnd_ok)
  have "List.find (\<lambda>t. t_id t = t_id (lt_doc lt)) (tasks (db s)) = Some task"
    using get authorized_ok [OF load] assms(2)
    by (auto simp: TaskRepository_getComments_def bnd_ok orThrow_ok dest!: tasksC.findOne_ok)
  then have "task \<in> set (tasks (db s))" "t_id task = t_id (lt_doc lt)"
    by (auto dest: find_SomeD)
  then have "task = lt_doc lt"
    using authorized_ok [OF load] assms(2,4) distinct_key_eq by metis
  with authorized_readable [OF load assms(2,3)] cs show ?thesis by simp
qed

lemma attachments_readable:
  assumes "GetAttachments_execute i w s1 = (Inr fs, t)" and "db s1 = db s" and "reader S h s w u"
  shows "readable S h s i w (\<lambda>task. fs = t_attachments task)"
  using assms by (auto simp: GetAttachments_execute_def bnd_ok intro: authorized_readable)

lemma activity_of_task:
  assumes "GetTaskActivities_execute i s1 = (Inr vs, t)"
  shows "\<forall>v\<in>set vs. av_doc v \<in> set (activities (db s1)) \<and> ac_task (av_doc v) = i"
  using assms by (auto simp: GetTaskActivities_execute_def ActivityRepository_findByTask_def newestFirst_def io_ok)

section \<open>The lists\<close>

definition ownPage :: "oid \<Rightarrow> string \<Rightarrow> oid \<Rightarrow> taskPage \<Rightarrow> bool" where
  "ownPage u role w p \<longleftrightarrow> (\<forall>v\<in>set (tp_data p). t_workspace (tv_doc v) = w \<and> \<not> t_isDeleted (tv_doc v) \<and>
     (role = ''admin'' \<or> t_owner (tv_doc v) = u))"

text \<open>The cached lists hold nothing that the key they are under could not have shown.\<close>

definition listsOwn :: "world \<Rightarrow> bool" where
  "listsOwn s \<longleftrightarrow> (\<forall>u role w q p till. cache s (CKTasks u role w q) = Some (CVTasks p, till) \<longrightarrow> ownPage u role w p)"

definition keepsOwn :: "world \<Rightarrow> world \<Rightarrow> bool" where
  "keepsOwn s t \<longleftrightarrow> (listsOwn s \<longrightarrow> listsOwn t)"

interpretation keepsOwn: step_order keepsOwn
  by unfold_locales (auto simp: keepsOwn_def)

lemma keepsLists_own: "keepsLists s t \<Longrightarrow> keepsOwn s t"
  by (simp add: keepsLists_def keepsOwn_def listsOwn_def)

lemma set_sortBy: "set (sortBy le xs) = set xs"
  by (rule mset_eq_setD) simp

lemma pipeline_own:
  "v \<in> set (pipeline M (taskFilter M u role w q a) q' d) \<Longrightarrow>
     t_workspace (tv_doc v) = w \<and> \<not> t_isDeleted (tv_doc v) \<and> (role = ''admin'' \<or> t_owner (tv_doc v) = u)"
proof -
  assume "v \<in> set (pipeline M (taskFilter M u role w q a) q' d)"
  then obtain t where v: "v = viewOf d t"
    and "t \<in> set (sortBy (keysLe M (aggregateSort q')) (filter (\<lambda>t. taskFilter M u role w q a t \<and> cursorFilter q' t) (tasks d)))"
    by (auto simp: pipeline_def Let_def split: if_splits dest!: in_set_takeD in_set_dropD)
  then have "taskFilter M u role w q a t"
    by (simp add: set_sortBy)
  with v show ?thesis by (auto simp: taskFilter_def viewOf_def)
qed

lemma loadPage_own:
  assumes "loadPage M u role w q s = (Inr p, t)"
  shows "ownPage u role w p"
proof -
  from assms obtain a s1 found s2 where "query (pipeline M (taskFilter M u role w q a) q) s1 = (Inr found, s2)"
    and p: "p = cursorPage q found \<or> (\<exists>n. p = offsetPage q found n)"
    by (auto simp: loadPage_def bnd_ok andThen_ok Let_def split: if_split_asm) blast+
  then have "found = pipeline M (taskFilter M u role w q a) q (db s1)"
    by (auto simp: io_ok)
  moreover have "set (tp_data p) \<subseteq> set found"
    using p by (auto simp: offsetPage_def cursorPage_def Let_def dest: in_set_butlastD split: if_splits)
  ultimately show ?thesis
    using pipeline_own unfolding ownPage_def by blast
qed

lemma keepsLists_loadPage: "stays keepsLists (loadPage M u role w q)"
  unfolding loadPage_def assigneeFilter_def
  by (auto intro!: keepsLists.stays_rules keepsLists_io simp: keepsLists_def Let_def split: option.split)

lemma keepsLists_flag: "stays keepsLists (FeatureFlagsService_isEnabled w f)"
  unfolding FeatureFlagsService_isEnabled_def FlagsRepository_findByWorkspaceId_def Let_def
  by (auto intro!: keepsLists_readThrough keepsLists_find keepsLists.stays_rules)

text \<open>A list read: the answer is the reader's own page, and so is every list that is cached afterwards.\<close>

lemma listGet_run:
  assumes "cacheGet k s = (c, t)"
  shows "cache t = cache s \<and> (\<forall>v. c = Inr (Some v) \<longrightarrow> (\<exists>till. cache s k = Some (v, till)))"
  using assms by (auto simp: cacheGet_def io_def gets_def cacheLive_def split: list.splits option.splits if_splits)

lemma listSet_run:
  assumes "cacheSet k v ttl s = (c, t)"
  shows "cache t = cache s \<or> (\<exists>till. cache t = (cache s)(k \<mapsto> (v, till)))"
  using assms by (auto simp: cacheSet_def io_def modify_def split: list.splits option.splits)

lemma listsOwn_cache:
  "cache t = cache s \<Longrightarrow> listsOwn t = listsOwn s"
  "cache t = (cache s)(CKTasks u role w q \<mapsto> (CVTasks p, till)) \<Longrightarrow> ownPage u role w p \<Longrightarrow> listsOwn s \<Longrightarrow> listsOwn t"
  by (auto simp: listsOwn_def)

lemma cachedPage_own:
  assumes "readThrough (CKTasks u role w q) unTasks (\<lambda>p. Some (CVTasks p)) ttl (rememberTask k) (loadPage M u role w q) s = (r, t)"
    and "listsOwn s"
  shows "listsOwn t \<and> (\<forall>p. r = Inr p \<longrightarrow> ownPage u role w p)"
proof -
  let ?k = "CKTasks u role w q"
  obtain c s1 where get: "cacheGet ?k s = (c, s1)" by (cases "cacheGet ?k s")
  note got = listGet_run [OF get]
  have s1: "listsOwn s1" using got assms(2) listsOwn_cache(1) by blast
  show ?thesis
  proof (cases "\<exists>e. c = Inl e")
    case True
    with assms(1) get s1 show ?thesis by (auto simp: readThrough_def bnd_run)
  next
    case False
    then obtain cached where c: "c = Inr cached" by (cases c) auto
    show ?thesis
    proof (cases "Option.bind cached unTasks")
      case (Some p)
      then have "cached = Some (CVTasks p)" by (cases cached; cases "the cached") auto
      with got c assms(2) have "ownPage u role w p"
        unfolding listsOwn_def by blast
      with assms(1) get c Some s1 show ?thesis by (auto simp: readThrough_def bnd_run)
    next
      case None
      obtain l s2 where load: "loadPage M u role w q s1 = (l, s2)" by (cases "loadPage M u role w q s1")
      have s2: "listsOwn s2"
        using keepsLists_own [OF staysD [OF keepsLists_loadPage load]] s1 by (simp add: keepsOwn_def)
      show ?thesis
      proof (cases l)
        case (Inl e)
        with assms(1) get c None load s2 show ?thesis by (auto simp: readThrough_def bnd_run)
      next
        case (Inr p)
        note own = loadPage_own [OF load [unfolded Inr]]
        obtain g s3 where set: "cacheSet ?k (CVTasks p) ttl s2 = (g, s3)" by (cases "cacheSet ?k (CVTasks p) ttl s2")
        have "listsOwn s3"
          using listSet_run [OF set] listsOwn_cache own s2 by blast
        moreover have "listsOwn (rememberTask k s3) = listsOwn s3"
          by (rule listsOwn_cache(1)) (simp add: rememberTask_def)
        ultimately show ?thesis
          using assms(1) get c None load Inr set own by (cases g) (auto simp: readThrough_def bnd_run andThen_run)
      qed
    qed
  qed
qed

lemma keepsOwn_findAll: "stays keepsOwn (TaskRepository_findAll M u role w q)"
proof -
  have "stays keepsOwn (readThrough (CKTasks u role w q) unTasks (\<lambda>p. Some (CVTasks p)) ttl (rememberTask k) (loadPage M u role w q))" for ttl k
    by (rule staysI) (metis cachedPage_own keepsOwn_def prod.collapse)
  moreover have "stays keepsOwn (FeatureFlagsService_isEnabled w f)" for f
    by (rule staysI) (metis keepsLists_own keepsLists_flag staysD prod.collapse)
  ultimately show ?thesis
    unfolding TaskRepository_findAll_def Let_def by (intro keepsOwn.stays_rules)
qed

lemma findAll_own:
  assumes "TaskRepository_findAll M u role w q s = (Inr p, t)" and "listsOwn s"
  shows "ownPage u role w p"
proof -
  from assms(1) obtain x s1 where before: "whenP (advancedRequested q)
       (bnd (FeatureFlagsService_isEnabled w AdvancedTaskFiltering) (\<lambda>enabled.
         throwIf (\<not> enabled) (Forbidden ''Advanced task filtering is disabled for this workspace''))) s = (Inr x, s1)"
    and page: "readThrough (CKTasks u role w q) unTasks (\<lambda>p. Some (CVTasks p)) 60000 (rememberTask (CKTasks u role w q))
       (loadPage M u role w q) s1 = (Inr p, t)"
    by (auto simp: TaskRepository_findAll_def Let_def andThen_ok simp del: whenP_def)
  have "stays keepsLists (whenP (advancedRequested q)
       (bnd (FeatureFlagsService_isEnabled w AdvancedTaskFiltering) (\<lambda>enabled.
         throwIf (\<not> enabled) (Forbidden ''Advanced task filtering is disabled for this workspace''))))"
    by (intro keepsLists.stays_rules keepsLists_flag)
  from keepsLists_own [OF staysD [OF this before]] assms(2) cachedPage_own [OF page] show ?thesis
    by (simp add: keepsOwn_def)
qed

lemma keepsOwn_listRoute: "stays keepsOwn (TaskController_findAll S M q h)"
proof -
  have own: "stays keepsLists m \<Longrightarrow> stays keepsOwn m" for m :: "'x wprog"
    by (auto simp: stays_def intro: keepsLists_own)
  have fresh: "stays keepsLists freshId"
    by (rule staysI) (simp add: keepsLists_def freshId_def)
  show ?thesis
    unfolding TaskController_findAll_def taskRoute_def secured_def authenticated_def rateLimited_def
      UserRateLimitInterceptor_intercept_def JwtAuthGuard_canActivate_def GetTasks_execute_def orFreshId_def
    by (auto intro!: keepsOwn.stays_rules keepsOwn_findAll own [OF keepsLists_guard] own [OF keepsLists_checkLimit]
        own [OF keepsLists_membership] own [OF fresh] split: option.split)
qed

section \<open>The routes\<close>

lemma findOne_readable:
  assumes "fst (TaskController_findOne S h s) = Inr a" and "coherent oneKey unMembership oneAnswer s"
    and "ht_paramId h = Some i" and "ht_queryWorkspaceId h = Some w" and "ht_paramWorkspaceId h = None"
  shows "readable S h s i w (\<lambda>task. ta_etag a = Some (etag (t_v task)) \<and> (ta_task a = None \<or> ta_task a = Some task))"
proof -
  obtain t where "TaskController_findOne S h s = (Inr a, t)"
    using assms(1) by (cases "TaskController_findOne S h s") auto
  from taskRoute_reader [OF this [unfolded TaskController_findOne_def] _ assms(2,4,5)] assms(3,4) obtain u s1 lt where
    u: "reader S h s w u" "db s1 = db s" and load: "TaskRepository_findAuthorizedTask i w s1 = (Inr lt, t)"
    and a: "ta_etag a = Some (etag (t_v (lt_doc lt)))" "ta_task a = None \<or> ta_task a = Some (lt_doc lt)"
    by (auto simp: bnd_ok GetTaskById_execute_def Let_def split: if_splits)
  show ?thesis by (rule authorized_readable [OF load u(2,1)]) (simp add: a)
qed

lemma subroutes_readable:
  assumes "coherent oneKey unMembership oneAnswer s" and "distinct (map t_id (tasks (db s)))"
    and "ht_paramId h = Some i" and "ht_queryWorkspaceId h = Some w" and "ht_paramWorkspaceId h = None"
  shows "fst (TaskController_getComments S h s) = Inr cs \<Longrightarrow> readable S h s i w (\<lambda>task. cs = t_comments task)"
    and "fst (TaskController_getAttachments S h s) = Inr fs \<Longrightarrow> readable S h s i w (\<lambda>task. fs = t_attachments task)"
    and "fst (TaskController_getTaskActivity S h s) = Inr vs \<Longrightarrow>
      readable S h s i w (\<lambda>_. \<forall>v\<in>set vs. av_doc v \<in> set (activities (db s)) \<and> ac_task (av_doc v) = i)"
proof -
  note runs = TaskController_getComments_def TaskController_getAttachments_def TaskController_getTaskActivity_def
  have reach: "\<exists>u s1 t. reader S h s w u \<and> db s1 = db s \<and> next u s1 = (Inr a, t) \<and>
      (load \<longrightarrow> (\<exists>task\<in>set (tasks (db s)). t_id task = i \<and> t_workspace task = w \<and> \<not> t_isDeleted task))"
    if ok: "fst (taskRoute S [p] load h next s) = Inr a" for p load "next" and a :: 'x
  proof -
    obtain t where "taskRoute S [p] load h next s = (Inr a, t)"
      using ok by (cases "taskRoute S [p] load h next s") auto
    from taskRoute_reader [OF this _ assms(1,4,5)] assms(3) show ?thesis by fastforce
  qed
  show "readable S h s i w (\<lambda>task. cs = t_comments task)" if "fst (TaskController_getComments S h s) = Inr cs"
    using reach [OF that [unfolded runs]] assms(2-4) by (auto intro: comments_readable)
  show "readable S h s i w (\<lambda>task. fs = t_attachments task)" if "fst (TaskController_getAttachments S h s) = Inr fs"
    using reach [OF that [unfolded runs]] assms(3,4) by (auto intro: attachments_readable)
  show "readable S h s i w (\<lambda>_. \<forall>v\<in>set vs. av_doc v \<in> set (activities (db s)) \<and> ac_task (av_doc v) = i)"
    if "fst (TaskController_getTaskActivity S h s) = Inr vs"
    using reach [OF that [unfolded runs]] assms(3,4) unfolding readable_def by (fastforce dest: activity_of_task)
qed

lemma list_confined:
  assumes "fst (TaskController_findAll S M q h s) = Inr (hs, p)" and "coherent oneKey unMembership oneAnswer s" and "listsOwn s"
    and "ht_queryWorkspaceId h = Some w" and "ht_paramWorkspaceId h = None"
  shows "\<exists>u. reader S h s w u \<and> ownPage (cu_userId u) (cu_role u) w p"
proof -
  obtain t where "TaskController_findAll S M q h s = (Inr (hs, p), t)"
    using assms(1) by (cases "TaskController_findAll S M q h s") auto
  from taskRoute_reader [OF this [unfolded TaskController_findAll_def] _ assms(2,4,5)] assms(4) obtain u s1 s2 m where
    u: "reader S h s w u" "keepsLists s s1"
    and mb: "MembershipRepository_findByWorkspaceAndUser w (cu_userId u) s1 = (Inr m, s2)"
    and page: "TaskRepository_findAll M (cu_userId u) (cu_role u) w q s2 = (Inr p, t)"
    by (auto simp: bnd_ok orFreshId_def GetTasks_execute_def andThen_ok throwIf_ok simp del: throwIf_run)
  have "listsOwn s2"
    using keepsLists_own [OF keepsLists.trans [OF u(2) staysD [OF keepsLists_membership mb]]] assms(3) by (simp add: keepsOwn_def)
  from findAll_own [OF page this] u(1) show ?thesis by blast
qed

text \<open>
  C6: Nobody reads the tasks of a workspace they do not belong to. When a route that reads a task
  answers, the user of the token is an active member of the workspace of the query, the task of
  the path is a live task of that workspace, and the answer is that task with the tag of its
  version, its comments, its attachments, or entries of the log about it. A page of the list
  holds live tasks of the workspace only, and the reader's own unless the token's role is admin,
  whether it comes from the database or from the cache; and the cached lists keep what this rests
  on. (The membership cache is assumed to agree with the database.)
\<close>

theorem task_reads_confined:
  assumes "coherent oneKey unMembership oneAnswer s" and "distinct (map t_id (tasks (db s)))"
    and "ht_paramId h = Some i" and "ht_queryWorkspaceId h = Some w" and "ht_paramWorkspaceId h = None"
  shows "(\<forall>a. fst (TaskController_findOne S h s) = Inr a \<longrightarrow> readable S h s i w (\<lambda>task.
        ta_etag a = Some (etag (t_v task)) \<and> (ta_task a = None \<or> ta_task a = Some task))) \<and>
    (\<forall>cs. fst (TaskController_getComments S h s) = Inr cs \<longrightarrow> readable S h s i w (\<lambda>task. cs = t_comments task)) \<and>
    (\<forall>fs. fst (TaskController_getAttachments S h s) = Inr fs \<longrightarrow> readable S h s i w (\<lambda>task. fs = t_attachments task)) \<and>
    (\<forall>vs. fst (TaskController_getTaskActivity S h s) = Inr vs \<longrightarrow> readable S h s i w (\<lambda>_.
        \<forall>v\<in>set vs. av_doc v \<in> set (activities (db s)) \<and> ac_task (av_doc v) = i)) \<and>
    (listsOwn s \<longrightarrow> listsOwn (snd (TaskController_findAll S M q h s)) \<and>
      (\<forall>hs p. fst (TaskController_findAll S M q h s) = Inr (hs, p) \<longrightarrow>
        (\<exists>u. reader S h s w u \<and> ownPage (cu_userId u) (cu_role u) w p)))"
proof -
  have "listsOwn s \<longrightarrow> listsOwn (snd (TaskController_findAll S M q h s))"
    using keepsOwn_listRoute [of S M q h] by (simp add: stays_def keepsOwn_def)
  moreover note findOne_readable [OF _ assms(1,3-5)] subroutes_readable [OF assms] list_confined [OF _ assms(1) _ assms(4,5)]
  ultimately show ?thesis by blast
qed

lemma task_reads_confined_witness:
  "readable demoServer demoCall demoBoard 20 3 (\<lambda>task. Some (etag 0) = Some (etag (t_v task)))"
proof -
  have "coherent oneKey unMembership oneAnswer demoBoard" by (rule coherent_fresh) simp
  moreover have "distinct (map t_id (tasks (db demoBoard)))" using demoBoard_inv by (simp add: tasksInv_def)
  ultimately have "readable demoServer demoCall demoBoard 20 3 (\<lambda>task. Some (etag 0) = Some (etag (t_v task)) \<and>
      (Some (demoTask 20 3) = None \<or> Some (demoTask 20 3) = Some task))"
    using task_reads_confined [of demoBoard demoCall 20 3 demoServer] demoRead by simp
  then show ?thesis by (auto simp: readable_def)
qed

end
