(* ===== verification/DeadLetters.thy ===== *)
theory DeadLetters
  imports JobsSpec ExportsSpec
begin

text \<open>
  The dead-letter queue (\<open>infrastructure/queues\<close>) over any sequence of runs of the four processors,
  and the options a job really has: those of the queue, overridden by those of the dispatcher.
\<close>

section \<open>The options of a job\<close>

text \<open>Attempts, the first delay of the exponential backoff, and how many completed jobs the queue keeps.\<close>

record jobOptions =
  jo_attempts :: "nat option"
  jo_delay :: "time option"
  jo_removeOnComplete :: "nat option"
  jo_jobId :: "oid option"

definition defaultJobOptions :: "queueName \<Rightarrow> jobOptions" where
  "defaultJobOptions q = (case q of
     QEmail \<Rightarrow> \<lparr>jo_attempts = Some 5, jo_delay = Some 5000, jo_removeOnComplete = Some 100, jo_jobId = None\<rparr>
   | QReminder \<Rightarrow> \<lparr>jo_attempts = Some 3, jo_delay = Some 5000, jo_removeOnComplete = Some 100, jo_jobId = None\<rparr>
   | QWebhook \<Rightarrow> \<lparr>jo_attempts = Some 5, jo_delay = Some 5000, jo_removeOnComplete = Some 100, jo_jobId = None\<rparr>
   | QExport \<Rightarrow> \<lparr>jo_attempts = Some 3, jo_delay = Some 5000, jo_removeOnComplete = Some 100, jo_jobId = None\<rparr>)"

definition addOptions :: "outboxDoc \<Rightarrow> jobOptions" where
  "addOptions event = \<lparr>jo_attempts = Some 3, jo_delay = Some 1000, jo_removeOnComplete = None, jo_jobId = Some (o_id event)\<rparr>"

text \<open>\<open>{ ...defaultJobOptions, ...opts }\<close>: what \<open>add\<close> is given wins over what the queue was registered with.\<close>

definition over :: "'a option \<Rightarrow> 'a option \<Rightarrow> 'a option" where
  "over a b = (case a of None \<Rightarrow> b | Some x \<Rightarrow> Some x)"

definition optionsIn :: "queueName \<Rightarrow> outboxDoc \<Rightarrow> jobOptions" where
  "optionsIn q event = \<lparr>jo_attempts = over (jo_attempts (addOptions event)) (jo_attempts (defaultJobOptions q)),
     jo_delay = over (jo_delay (addOptions event)) (jo_delay (defaultJobOptions q)),
     jo_removeOnComplete = over (jo_removeOnComplete (addOptions event)) (jo_removeOnComplete (defaultJobOptions q)),
     jo_jobId = over (jo_jobId (addOptions event)) (jo_jobId (defaultJobOptions q))\<rparr>"

text \<open>
  The job of an event has the attempts of these options on every queue: the five attempts and the
  five seconds the module gives the mail and webhook queues never apply.
\<close>

lemma defaults_never_apply:
  "j_attempts (jobOf event) = jo_attempts (optionsIn q event) \<and> jo_jobId (optionsIn q event) = Some (j_id (jobOf event)) \<and>
   jo_delay (optionsIn q event) = Some 1000 \<and>
   (maxAttemptsOf (jobOf event) < the (jo_attempts (defaultJobOptions q)) \<longleftrightarrow> q = QEmail \<or> q = QWebhook)"
  by (cases q) (simp_all add: jobOf_def optionsIn_def addOptions_def defaultJobOptions_def over_def maxAttemptsOf_def)

section \<open>What the processors do beside the dead-letter queue\<close>

definition beside :: "world \<Rightarrow> world \<Rightarrow> bool" where
  "beside s t \<longleftrightarrow> dlq t = dlq s \<and> (faults s = [] \<longrightarrow> faults t = [])"

interpretation beside: step_order beside
  by unfold_locales (auto simp: beside_def)

lemma beside_io:
  assumes "\<And>s. dlq (snd (m s)) = dlq s \<and> faults (snd (m s)) = faults s"
  shows "stays beside (io m)"
proof (rule staysI)
  show "beside s (snd (io m s))" for s
    using assms by (cases "faults s") (auto simp: io_run beside_def split: option.split)
qed

lemma beside_now: "(\<And>s. dlq (snd (m s)) = dlq s \<and> faults (snd (m s)) = faults s) \<Longrightarrow> stays beside m"
  by (rule staysI) (simp add: beside_def)

lemma beside_docs: "stays beside (findOne get p)" "stays beside (findDocs get p)" "stays beside (findOneAndUpdate get upd p f)"
  "stays beside (insertOne get upd x)" "stays beside (insertUnique get upd clash x)"
  unfolding findOne_def findDocs_def findOneAndUpdate_def insertOne_def insertUnique_def
  by (auto intro!: beside_io split: option.split)

lemma beside_freshId: "stays beside freshId"
  by (rule beside_now) (simp add: freshId_def)

lemmas beside_rules = beside.stays_rules beside_docs beside_freshId

lemma beside_mail: "stays beside (sendMail m)"
  unfolding sendMail_def by (rule beside_io) simp

lemma beside_jobs: "stays beside (requireType v m)" "stays beside (require v' m)" "stays beside (hasBeenProcessed i)"
  "stays beside (markProcessed i ty)" "stays beside (EmailDeliveryRepository_findByOutboxEventId i)"
  "stays beside (EmailDeliveryRepository_update i f)" "stays beside (startSending j i)" "stays beside (markSent i)"
  unfolding requireType_def require_def hasBeenProcessed_def markProcessed_def EmailDeliveryRepository_findByOutboxEventId_def
    EmailDeliveryRepository_update_def startSending_def markSent_def
  by (auto intro!: beside_rules split: option.split list.split)

lemma beside_processEmail: "stays beside (processEmailRequested p)"
  unfolding processEmailRequested_def sendVerificationEmail_def sendPasswordResetEmail_def sendWorkspaceInvitation_def
    sendReminderEmail_def Let_def
  by (auto intro!: beside_rules beside_mail split: json.split)

lemma beside_sends: "stays beside (sendRequested j ty p i)" "stays beside (sendReminder j e ty p i)"
  unfolding sendRequested_def sendReminder_def sendReminderEmail_def
  by (auto intro!: beside_rules beside_jobs beside_processEmail beside_mail split: json.split)

lemma beside_fetch: "stays beside (httpFetch net c)"
  by (rule staysI) (auto simp: httpFetch_def beside_def Let_def split: prod.split sum.split)

lemma beside_deliver: "stays beside (WebhookDeliveryService_deliver X net w e ty p k)"
  unfolding WebhookDeliveryService_deliver_def WebhookDeliveryRepository_findSuccessfulDelivery_def WebhookDeliveryRepository_create_def
    attemptDelivery_def recordFailedDelivery_def WebhookDeliveryRepository_update_def Let_def
  by (auto intro!: beside_rules beside_fetch split: prod.split)

lemma beside_allSettled: "(\<And>m. m \<in> set ms \<Longrightarrow> stays beside m) \<Longrightarrow> stays beside (allSettled ms)"
  by (induction ms) (auto simp: rejected_def intro!: beside.stays_rules)

lemma beside_deliverEvent: "stays beside (deliverEvent X net j)"
  unfolding deliverEvent_def WebhookService_deliverToWorkspace_def WebhookRepository_findActiveByWorkspace_def
  by (auto intro!: beside_rules beside_jobs beside_allSettled beside_deliver)

lemma beside_write: "stays beside (writeExport E w x c)"
  unfolding writeExport_def mkdirp_def writeFile_def Let_def
  by (intro beside_rules beside_io) simp_all

lemma beside_generateFile: "stays beside (generateFile E w fmt)"
  unfolding generateFile_def oidOf_def TaskRepository_findAllForExport_def generateJsonExport_def generateCsvExport_def
    generateXlsxExport_def Let_def
  by (intro beside_rules beside_write)

lemma beside_export: "stays beside (generateExport E w fmt e)"
  unfolding generateExport_def ExportRepository_findByOutboxEventId_def ExportRepository_update_def
  by (auto intro!: beside_rules beside_generateFile split: prod.split)

section \<open>One run\<close>

text \<open>
  What a run of a job may do to the queue: nothing, or, at the last attempt and when it ends in an
  exception, add that job with that exception, if it is not there.
\<close>

definition letterFor :: "queueName \<Rightarrow> job \<Rightarrow> err \<Rightarrow> deadLetter \<Rightarrow> bool" where
  "letterFor q j e d \<longleftrightarrow> dl_queueName d = q \<and> dl_jobId d = j_id j \<and> dl_outboxEventId d = j_outboxEventId j \<and>
     dl_eventType d = j_eventType j \<and> dl_payload d = j_payload j \<and> dl_correlationId d = j_correlationId j \<and>
     dl_error d = errMessage e \<and> dl_attempts d = j_attemptsMade j + 1"

definition lettered :: "queueName \<Rightarrow> job \<Rightarrow> world \<Rightarrow> (err + unit) \<times> world \<Rightarrow> bool" where
  "lettered q j s = (\<lambda>(r, t). dlq t = dlq s \<or> isFinalAttempt j \<and> j_id j \<notin> set (map dl_jobId (dlq s)) \<and>
     (\<exists>e d. r = Inl e \<and> letterFor q j e d \<and> dlq t = dlq s @ [d]))"

lemma lettered_beside: "stays beside m \<Longrightarrow> lettered q j s (m s)"
  by (cases "m s") (auto simp: lettered_def beside_def dest: staysD)

lemma lettered_bnd:
  assumes "stays beside m" and "\<And>x s. lettered q j s (f x s)"
  shows "lettered q j s (bnd m f s)"
proof -
  obtain r t where m: "m s = (r, t)" by (cases "m s")
  then have t: "dlq t = dlq s" using staysD [OF assms(1)] by (simp add: beside_def)
  show ?thesis
  proof (cases r)
    case (Inr x)
    with m t assms(2) [of t x] show ?thesis by (simp add: bnd_run lettered_def)
  qed (use m t in \<open>simp add: bnd_run lettered_def\<close>)
qed

lemma lettered_andThen: "stays beside m \<Longrightarrow> (\<And>s. lettered q j s (n s)) \<Longrightarrow> lettered q j s (andThen m n s)"
  unfolding andThen_def by (rule lettered_bnd)

lemma lettered_tryCatch:
  assumes "stays beside m" and "\<And>e s. lettered q j s (h e s)"
  shows "lettered q j s (tryCatch m h s)"
proof -
  obtain r t where m: "m s = (r, t)" by (cases "m s")
  then have t: "dlq t = dlq s" using staysD [OF assms(1)] by (simp add: beside_def)
  show ?thesis
  proof (cases r)
    case (Inl e)
    with m t assms(2) [of t e] show ?thesis by (simp add: tryCatch_run lettered_def)
  qed (use m t in \<open>simp add: tryCatch_run lettered_def\<close>)
qed

lemma lettered_if: "(c \<Longrightarrow> lettered q j s (m s)) \<Longrightarrow> (\<not> c \<Longrightarrow> lettered q j s (n s)) \<Longrightarrow> lettered q j s ((if c then m else n) s)"
  by simp

text \<open>The dead-letter call and the exception after it.\<close>

lemma lettered_move:
  assumes "isFinalAttempt j"
  shows "lettered q j s (andThen (moveToDeadLetterQueue q j (errMessage e) (j_attemptsMade j + 1)) (throw e) s)"
  using assms
  by (auto simp: lettered_def letterFor_def moveToDeadLetterQueue_def andThen_run io_run throw_def split: list.split option.split)

lemma lettered_jobFailed: "lettered q j s (jobFailed q j e s)"
  unfolding jobFailed_def whenP_def
  using lettered_move [of j q s e] by (cases "isFinalAttempt j") (simp_all add: lettered_beside andThen_run throw_def lettered_def)

lemma andThen_after:
  "andThen (bnd m f) k s = bnd m (\<lambda>x. andThen (f x) k) s" "andThen (andThen m n) k s = andThen m (andThen n k) s"
  "andThen (if c then m' else n') k s = (if c then andThen m' k else andThen n' k) s"
  by (auto simp: bnd_run andThen_run split: prod.split sum.split)

lemma lettered_mailJobFailed: "lettered q j s (mailJobFailed q j i e s)"
  unfolding mailJobFailed_def Let_def andThen_after
  by (intro lettered_if lettered_bnd lettered_andThen lettered_move lettered_beside beside_rules beside_jobs)

lemma lettered_exportJobFailed: "lettered QExport j s (exportJobFailed j i e s)"
  unfolding exportJobFailed_def whenP_def andThen_after oidOf_def ExportRepository_update_def
  by (intro lettered_if lettered_bnd lettered_andThen lettered_move lettered_beside beside_rules)

section \<open>Runs of the queues\<close>

datatype queueRun = RunEmail job | RunReminder job | RunWebhook network job | RunExport exportEnv job

definition runOf :: "ext \<Rightarrow> queueRun \<Rightarrow> unit wprog" where
  "runOf X r = (case r of RunEmail j \<Rightarrow> EmailProcessor_process j | RunReminder j \<Rightarrow> ReminderProcessor_process j
     | RunWebhook net j \<Rightarrow> WebhookProcessor_process X net j | RunExport E j \<Rightarrow> ExportProcessor_process E j)"

definition jobIn :: "queueRun \<Rightarrow> job" where
  "jobIn r = (case r of RunEmail j \<Rightarrow> j | RunReminder j \<Rightarrow> j | RunWebhook _ j \<Rightarrow> j | RunExport _ j \<Rightarrow> j)"

definition queueIn :: "queueRun \<Rightarrow> queueName" where
  "queueIn r = (case r of RunEmail _ \<Rightarrow> QEmail | RunReminder _ \<Rightarrow> QReminder | RunWebhook _ _ \<Rightarrow> QWebhook | RunExport _ _ \<Rightarrow> QExport)"

lemma lettered_run: "lettered (queueIn r) (jobIn r) s (runOf X r s)"
proof (cases r)
  case (RunEmail j)
  show ?thesis
    unfolding RunEmail queueIn_def jobIn_def runOf_def queueRun.case EmailProcessor_process_def
    by (intro lettered_bnd lettered_tryCatch lettered_mailJobFailed beside_rules beside_jobs beside_sends)
next
  case (RunReminder j)
  show ?thesis
    unfolding RunReminder queueIn_def jobIn_def runOf_def queueRun.case ReminderProcessor_process_def
    by (intro lettered_bnd lettered_if lettered_beside [OF beside.stays_ret] lettered_tryCatch lettered_mailJobFailed
        beside_rules beside_jobs beside_sends)
next
  case (RunWebhook net j)
  show ?thesis
    unfolding RunWebhook queueIn_def jobIn_def runOf_def queueRun.case WebhookProcessor_process_def
    by (intro lettered_tryCatch lettered_jobFailed beside_deliverEvent)
next
  case (RunExport E j)
  show ?thesis
    unfolding RunExport queueIn_def jobIn_def runOf_def queueRun.case ExportProcessor_process_def
    by (intro lettered_bnd lettered_andThen lettered_if lettered_beside [OF beside.stays_ret] lettered_tryCatch lettered_exportJobFailed
        beside_rules beside_jobs beside_export)
qed

text \<open>A webhook job that fails at its last attempt, with nothing failing around the program, is in the queue afterwards.\<close>

lemma webhook_lettered:
  assumes "WebhookProcessor_process X net j s = (Inl e, t)" and "isFinalAttempt j" and "faults s = []"
  shows "j_id j \<in> set (map dl_jobId (dlq t))"
proof -
  obtain r u where m: "deliverEvent X net j s = (r, u)" by (cases "deliverEvent X net j s")
  then have "faults u = []" using staysD [OF beside_deliverEvent m] assms(3) by (simp add: beside_def)
  with assms(1,2) m show ?thesis
    by (cases r) (auto simp: WebhookProcessor_process_def tryCatch_run jobFailed_def andThen_run throw_def moveToDeadLetterQueue_def
        io_run intro: rev_image_eqI split: if_splits)
qed

lemma runJobs_append: "runJobs process (as @ bs) s = runJobs process bs (runJobs process as s)"
  by (simp add: runJobs_def)

lemma runJobs_one: "runJobs process [r] s = snd (process r s)"
  by (simp add: runJobs_def)

lemma letters_grow: "\<exists>new. dlq (runJobs (runOf X) rs s) = dlq s @ new"
proof (induction rs rule: rev_induct)
  case Nil
  show ?case by (simp add: runJobs_def)
next
  case (snoc r rs)
  with lettered_run [of r "runJobs (runOf X) rs s" X] show ?case
    by (auto simp: runJobs_append runJobs_one lettered_def split: prod.splits)
qed

lemma letters_distinct:
  "distinct (map dl_jobId (dlq s)) \<Longrightarrow> distinct (map dl_jobId (dlq (runJobs (runOf X) rs s)))"
proof (induction rs rule: rev_induct)
  case Nil
  then show ?case by (simp add: runJobs_def)
next
  case (snoc r rs)
  with lettered_run [of r "runJobs (runOf X) rs s" X] show ?case
    by (auto simp: runJobs_append runJobs_one lettered_def letterFor_def split: prod.splits)
qed

text \<open>The letters a sequence of runs may have written: one for a final run that ended in an exception.\<close>

definition earned :: "ext \<Rightarrow> queueRun list \<Rightarrow> world \<Rightarrow> deadLetter \<Rightarrow> bool" where
  "earned X rs s d \<longleftrightarrow> (\<exists>as r bs e. rs = as @ r # bs \<and> isFinalAttempt (jobIn r) \<and>
     fst (runOf X r (runJobs (runOf X) as s)) = Inl e \<and> letterFor (queueIn r) (jobIn r) e d)"

lemma earned_more: "earned X rs s d \<Longrightarrow> earned X (rs @ [r]) s d"
  unfolding earned_def by (metis append.assoc append_Cons)

lemma letters_earned:
  "dlq (runJobs (runOf X) rs s) = dlq s @ new \<Longrightarrow> d \<in> set new \<Longrightarrow> earned X rs s d"
proof (induction rs arbitrary: new rule: rev_induct)
  case Nil
  then show ?case by (simp add: runJobs_def)
next
  case (snoc r rs)
  let ?u = "runJobs (runOf X) rs s"
  obtain old where old: "dlq ?u = dlq s @ old" using letters_grow by blast
  obtain q t where run: "runOf X r ?u = (q, t)" by (cases "runOf X r ?u")
  with lettered_run [of r ?u X] have "dlq t = dlq ?u \<or> isFinalAttempt (jobIn r) \<and>
      (\<exists>e d. q = Inl e \<and> letterFor (queueIn r) (jobIn r) e d \<and> dlq t = dlq ?u @ [d])"
    by (auto simp: lettered_def)
  moreover have "dlq t = dlq s @ new" using snoc.prems(1) run by (simp add: runJobs_append runJobs_one)
  ultimately consider "d \<in> set old" | e where "isFinalAttempt (jobIn r)" "q = Inl e" "letterFor (queueIn r) (jobIn r) e d"
    using old snoc.prems(2) by fastforce
  then show ?case
  proof cases
    case 1
    from snoc.IH [OF old this] show ?thesis by (rule earned_more)
  next
    case (2 e)
    then show ?thesis using run unfolding earned_def by (intro exI [of _ rs] exI [of _ r] exI [of _ "[]"] exI [of _ e]) simp
  qed
qed

text \<open>
  C38: the dead-letter queue holds the jobs that were given up, each once. However the queues run mail,
  reminder, webhook and export jobs, and whatever fails, none of these runs takes an entry away, no job
  has two, and each new one belongs to a run of that job which was its last attempt and ended in the exception the
  entry names, with the queue, the event, the payload and the number of attempts of that job. A
  webhook job whose last attempt fails while nothing around the program does has its entry.
\<close>

theorem dead_letters_final_failures:
  assumes "distinct (map dl_jobId (dlq s))" and "t = runJobs (runOf X) rs s"
  shows "distinct (map dl_jobId (dlq t)) \<and>
    (\<exists>new. dlq t = dlq s @ new \<and> (\<forall>d\<in>set new. \<exists>as r bs e. rs = as @ r # bs \<and> isFinalAttempt (jobIn r) \<and>
      fst (runOf X r (runJobs (runOf X) as s)) = Inl e \<and> letterFor (queueIn r) (jobIn r) e d)) \<and>
    (\<forall>as net j bs e. rs = as @ RunWebhook net j # bs \<and> isFinalAttempt j \<and> faults (runJobs (runOf X) as s) = [] \<and>
      fst (WebhookProcessor_process X net j (runJobs (runOf X) as s)) = Inl e \<longrightarrow> j_id j \<in> set (map dl_jobId (dlq t)))"
proof -
  obtain new where new: "dlq t = dlq s @ new" using letters_grow assms(2) by blast
  have "j_id j \<in> set (map dl_jobId (dlq t))"
    if rs: "rs = as @ RunWebhook net j # bs" and fin: "isFinalAttempt j" and calm: "faults (runJobs (runOf X) as s) = []"
      and err: "fst (WebhookProcessor_process X net j (runJobs (runOf X) as s)) = Inl e" for as net j bs e
  proof -
    obtain u where u: "WebhookProcessor_process X net j (runJobs (runOf X) as s) = (Inl e, u)"
      using err by (cases "WebhookProcessor_process X net j (runJobs (runOf X) as s)") auto
    then have "t = runJobs (runOf X) bs u"
      by (simp add: assms(2) rs runJobs_def runOf_def)
    with letters_grow [of X bs u] webhook_lettered [OF u fin calm] show ?thesis by auto
  qed
  with letters_distinct [OF assms(1)] letters_earned [of X rs s new] new assms(2) show ?thesis
    unfolding earned_def by blast
qed

lemma dead_letters_final_failures_witness:
  "map dl_jobId (dlq (runJobs (runOf demoExt) [RunWebhook (\<lambda>n c. (20, Inr (503, []))) (demoHookJob\<lparr>j_attemptsMade := 2\<rparr>)] demoHooks)) = [8]"
proof -
  let ?net = "\<lambda>n c. (20, Inr (503, []))" and ?j = "demoHookJob\<lparr>j_attemptsMade := 2\<rparr>"
  have 1: "distinct (map dl_jobId (dlq demoHooks))" "dlq demoHooks = []" "faults demoHooks = []" by code_simp+
  have 2: "isFinalAttempt ?j" "j_id ?j = 8" by code_simp+
  have 3: "isl (fst (WebhookProcessor_process demoExt ?net ?j demoHooks))" by code_simp
  then obtain e where e: "fst (WebhookProcessor_process demoExt ?net ?j demoHooks) = Inl e" by (auto simp: isl_def)
  have t: "runJobs (runOf demoExt) [] demoHooks = demoHooks" by (simp add: runJobs_def)
  note all = dead_letters_final_failures [of demoHooks _ demoExt "[RunWebhook ?net ?j]", OF 1(1) refl]
  have mem: "8 \<in> set (map dl_jobId (dlq (runJobs (runOf demoExt) [RunWebhook ?net ?j] demoHooks)))"
    using all [THEN conjunct2, THEN conjunct2, rule_format, of "[]" ?net ?j "[]" e] e 1 2 t by simp
  obtain new where new: "dlq (runJobs (runOf demoExt) [RunWebhook ?net ?j] demoHooks) = new"
    and one: "\<forall>d\<in>set new. dl_jobId d = 8"
    using all [THEN conjunct2, THEN conjunct1] 1(2) 2(2) by (fastforce simp: letterFor_def jobIn_def Cons_eq_append_conv)
  have "distinct (map dl_jobId new)" using all [THEN conjunct1] new by simp
  with one mem new show ?thesis by (cases new; cases "tl new") auto
qed

end
