(* ===== verification/ApiDecls.thy ===== *)
theory ApiDecls
  imports Requests
begin

text \<open>
  The decorators of the controllers: which verb and path a handler answers, which guards, policies
  and interceptors stand before it, and what the API description says of it. One definition per
  handler with the arguments of its decorators, one per controller with those of the class and its
  handlers in the order of the file. The schemas of bodies and answers in the description are left out.
\<close>

section \<open>What is declared\<close>

datatype verb = GET | POST | PATCH | DELETE

text \<open>\<open>JwtAuthGuard\<close> is \<open>AuthGuard('jwt')\<close>.\<close>

datatype guardKind = JwtGuard | RoleGuard | PolicyGuard

datatype apiHeader = ApiIdempotencyKey | ApiIfMatch | ApiIfNoneMatch

record decl =
  dc_verb :: verb
  dc_path :: string
  dc_summary :: "string option"
  dc_description :: "string option"
  dc_responses :: "(nat \<times> string) list"
  dc_throttle :: "(nat \<times> nat) option"
  dc_headers :: "apiHeader list"
  dc_idempotent :: bool
  dc_guards :: "guardKind list"
  dc_roles :: "string list option"
  dc_global :: bool
  dc_loadTask :: bool
  dc_policies :: "policy list"

text \<open>A handler with nothing but its verb and path.\<close>

definition route :: "verb \<Rightarrow> string \<Rightarrow> decl" where
  "route v p = \<lparr>dc_verb = v, dc_path = p, dc_summary = None, dc_description = None, dc_responses = [], dc_throttle = None,
     dc_headers = [], dc_idempotent = False, dc_guards = [], dc_roles = None, dc_global = False, dc_loadTask = False,
     dc_policies = []\<rparr>"

record ctrl =
  ct_name :: string
  ct_path :: string
  ct_version :: "string option"
  ct_routes :: "(string \<times> decl) list"
  ct_tag :: "string option"
  ct_bearer :: bool
  ct_problems :: bool
  ct_throttled :: bool
  ct_guards :: "guardKind list"
  ct_roles :: "string list option"
  ct_rateLimit :: bool

definition controller :: "string \<Rightarrow> string \<Rightarrow> string option \<Rightarrow> (string \<times> decl) list \<Rightarrow> ctrl" where
  "controller n p v rs = \<lparr>ct_name = n, ct_path = p, ct_version = v, ct_routes = rs, ct_tag = None, ct_bearer = False,
     ct_problems = False, ct_throttled = True, ct_guards = [], ct_roles = None, ct_rateLimit = False\<rparr>"

section \<open>The controllers\<close>

definition AppController_getHello_decl :: decl where
  "AppController_getHello_decl = route GET []"

definition AppController_decls :: ctrl where
  "AppController_decls = controller ''AppController'' [] None
    [(''getHello'', AppController_getHello_decl)]"

definition TaskController_create_decl :: decl where
  "TaskController_create_decl = route POST []
    \<lparr>dc_summary := Some ''Create a new task'', dc_headers := [ApiIdempotencyKey], dc_idempotent := True,
      dc_guards := [PolicyGuard], dc_policies := [createTaskPolicy],
      dc_responses := [(201, ''Task created successfully.''),
       (400, ''Validation failed.''),
       (401, ''Unauthorized.'')]\<rparr>"

definition TaskController_assignTask_decl :: decl where
  "TaskController_assignTask_decl = route PATCH '':id/assignees''
    \<lparr>dc_summary := Some ''Assign task to workspace members'', dc_guards := [PolicyGuard], dc_loadTask := True,
      dc_policies := [assignTaskPolicy], dc_responses := [(200, ''Task assigned successfully.''),
       (400, ''Validation failed.''),
       (401, ''Unauthorized.''),
       (403, ''User is not allowed to assign this task.''),
       (404, ''Task not found.'')]\<rparr>"

definition TaskController_findAll_decl :: decl where
  "TaskController_findAll_decl = route GET []
    \<lparr>dc_summary := Some ''Get all tasks'', dc_guards := [PolicyGuard], dc_policies := [readTaskPolicy],
      dc_responses := [(200, ''Tasks retrieved successfully.''),
       (401, ''Unauthorized.'')]\<rparr>"

definition TaskController_getStats_decl :: decl where
  "TaskController_getStats_decl = route GET ''stats''
    \<lparr>dc_summary := Some ''Get task statistics'', dc_responses := [(200, ''Task statistics returned successfully.'')]\<rparr>"

definition TaskController_findOne_decl :: decl where
  "TaskController_findOne_decl = route GET '':id''
    \<lparr>dc_summary := Some ''Get task by ID'', dc_headers := [ApiIfNoneMatch], dc_guards := [PolicyGuard],
      dc_loadTask := True, dc_policies := [readTaskPolicy], dc_responses := [(200, ''Task retrieved successfully.''),
       (304, ''Not Modified. The task has not changed since the supplied ETag.''),
       (404, ''Task not found.'')]\<rparr>"

definition TaskController_update_decl :: decl where
  "TaskController_update_decl = route PATCH '':id''
    \<lparr>dc_summary := Some ''Update a task'', dc_headers := [ApiIfMatch], dc_guards := [PolicyGuard],
      dc_loadTask := True, dc_policies := [updateTaskPolicy], dc_responses := [(200, ''Task updated successfully.''),
       (404, ''Task not found.''),
       (409, ''Conflict. The task was modified by another request.''),
       (412, ''Precondition failed. The task version does not match.''),
       (428, ''Precondition Required. If-Match header is required.'')]\<rparr>"

definition TaskController_addComment_decl :: decl where
  "TaskController_addComment_decl = route POST '':id/comments''
    \<lparr>dc_summary := Some ''Add a comment to a task'', dc_headers := [ApiIdempotencyKey], dc_idempotent := True,
      dc_guards := [PolicyGuard], dc_policies := [createCommentPolicy],
      dc_responses := [(201, ''Comment added successfully.'')]\<rparr>"

definition TaskController_getComments_decl :: decl where
  "TaskController_getComments_decl = route GET '':id/comments''
    \<lparr>dc_summary := Some ''Get all comments for a task'', dc_guards := [PolicyGuard],
      dc_policies := [readCommentPolicy], dc_responses := [(200, ''Comments retrieved successfully.'')]\<rparr>"

definition TaskController_uploadAttachment_decl :: decl where
  "TaskController_uploadAttachment_decl = route POST '':id/attachments''
    \<lparr>dc_summary := Some ''Upload a task attachment'',
      dc_description := Some ''Uploads an image or PDF attachment for the specified task.'',
      dc_headers := [ApiIdempotencyKey], dc_guards := [PolicyGuard], dc_policies := [manageAttachmentPolicy],
      dc_idempotent := True, dc_responses := [(201, ''Attachment uploaded successfully.''),
       (400, ''Invalid file type or file size exceeds the maximum limit.''),
       (401, ''Unauthorized.''),
       (404, ''Task not found.'')]\<rparr>"

definition TaskController_getAttachments_decl :: decl where
  "TaskController_getAttachments_decl = route GET '':id/attachments''
    \<lparr>dc_summary := Some ''Get task attachments'', dc_guards := [PolicyGuard], dc_policies := [readAttachmentPolicy],
      dc_responses := [(200, ''Attachments retrieved successfully.'')]\<rparr>"

definition TaskController_getTaskActivity_decl :: decl where
  "TaskController_getTaskActivity_decl = route GET '':id/activity''
    \<lparr>dc_summary := Some ''Get task activity log'', dc_guards := [PolicyGuard], dc_loadTask := True,
      dc_policies := [readTaskPolicy], dc_responses := [(200, ''Task activity retrieved successfully.'')]\<rparr>"

definition TaskController_deleteAttachment_decl :: decl where
  "TaskController_deleteAttachment_decl = route DELETE '':id/attachments/:attachmentId''
    \<lparr>dc_summary := Some ''Delete a task attachment'', dc_guards := [PolicyGuard],
      dc_policies := [manageAttachmentPolicy], dc_responses := [(200, ''Attachment deleted successfully.''),
       (404, ''Attachment not found.'')]\<rparr>"

definition TaskController_remove_decl :: decl where
  "TaskController_remove_decl = route DELETE '':id''
    \<lparr>dc_summary := Some ''Soft delete a task'', dc_guards := [PolicyGuard], dc_loadTask := True,
      dc_policies := [deleteTaskPolicy], dc_responses := [(200, ''Task deleted successfully.''),
       (404, ''Task not found.'')]\<rparr>"

definition TaskController_decls :: ctrl where
  "TaskController_decls = controller ''TaskController'' ''tasks'' (Some ''1'')
    [(''create'', TaskController_create_decl), (''assignTask'', TaskController_assignTask_decl),
     (''findAll'', TaskController_findAll_decl), (''getStats'', TaskController_getStats_decl),
     (''findOne'', TaskController_findOne_decl), (''update'', TaskController_update_decl),
     (''addComment'', TaskController_addComment_decl), (''getComments'', TaskController_getComments_decl),
     (''uploadAttachment'', TaskController_uploadAttachment_decl),
     (''getAttachments'', TaskController_getAttachments_decl),
     (''getTaskActivity'', TaskController_getTaskActivity_decl),
     (''deleteAttachment'', TaskController_deleteAttachment_decl), (''remove'', TaskController_remove_decl)]
    \<lparr>ct_tag := Some ''Tasks'', ct_bearer := True, ct_problems := True, ct_guards := [JwtGuard], ct_rateLimit := True\<rparr>"

definition AuthController_register_decl :: decl where
  "AuthController_register_decl = route POST ''register''
    \<lparr>dc_throttle := Some (5, 60000), dc_summary := Some ''Register a new user'',
      dc_description := Some ''Creates a new user account'', dc_headers := [ApiIdempotencyKey],
      dc_idempotent := True, dc_responses := [(201, ''User registered successfully''),
       (400, ''Validation failed.''),
       (409, ''User already exists.'')]\<rparr>"

definition AuthController_login_decl :: decl where
  "AuthController_login_decl = route POST ''login''
    \<lparr>dc_throttle := Some (5, 60000), dc_summary := Some ''Login'',
      dc_description := Some ''Authenticates a user and returns access and refresh tokens.'',
      dc_responses := [(200, ''Login successful.''),
       (400, ''Validation failed.''),
       (401, ''Invalid credentials.'')]\<rparr>"

definition AuthController_refresh_decl :: decl where
  "AuthController_refresh_decl = route POST ''refresh''
    \<lparr>dc_throttle := Some (5, 60000), dc_summary := Some ''Refresh access token'',
      dc_description := Some ''Generates a new access token using a valid refresh token.'',
      dc_responses := [(200, ''Access token refreshed successfully.''),
       (401, ''Invalid or expired refresh token.'')]\<rparr>"

definition AuthController_logout_decl :: decl where
  "AuthController_logout_decl = route POST ''logout''
    \<lparr>dc_guards := [JwtGuard], dc_summary := Some ''Logout'',
      dc_description := Some ''Logs out the authenticated user by invalidating the stored refresh token.'',
      dc_responses := [(200, ''Logged out successfully.''),
       (401, ''Unauthorized.'')]\<rparr>"

definition AuthController_verifyEmail_decl :: decl where
  "AuthController_verifyEmail_decl = route POST ''verify-email''
    \<lparr>dc_throttle := Some (5, 60000), dc_summary := Some ''Verify email address'',
      dc_description := Some ''Verifies a user email address using a valid verification token.'',
      dc_responses := [(200, ''Email verified successfully.''),
       (400, ''Invalid or expired verification token.'')]\<rparr>"

definition AuthController_forgotPassword_decl :: decl where
  "AuthController_forgotPassword_decl = route POST ''forgot-password''
    \<lparr>dc_throttle := Some (3, 60000), dc_summary := Some ''Request password reset'',
      dc_description := Some ''Sends a password reset email if an account exists for the supplied email.'',
      dc_responses := [(200, ''A password reset email will be sent if the account exists.''),
       (400, ''Validation failed.'')]\<rparr>"

definition AuthController_resetPassword_decl :: decl where
  "AuthController_resetPassword_decl = route POST ''reset-password''
    \<lparr>dc_throttle := Some (3, 60000), dc_summary := Some ''Reset password'',
      dc_description := Some ''Resets the account password using a valid, unexpired reset token.'',
      dc_responses := [(200, ''Password reset successfully.''),
       (400, ''Invalid or expired reset token.'')]\<rparr>"

definition AuthController_decls :: ctrl where
  "AuthController_decls = controller ''AuthController'' ''auth'' (Some ''1'')
    [(''register'', AuthController_register_decl), (''login'', AuthController_login_decl),
     (''refresh'', AuthController_refresh_decl), (''logout'', AuthController_logout_decl),
     (''verifyEmail'', AuthController_verifyEmail_decl), (''forgotPassword'', AuthController_forgotPassword_decl),
     (''resetPassword'', AuthController_resetPassword_decl)]
    \<lparr>ct_tag := Some ''Authentication'', ct_problems := True\<rparr>"

definition UsersController_findAll_decl :: decl where
  "UsersController_findAll_decl = route GET []
    \<lparr>dc_summary := Some ''Get all users'',
      dc_description := Some ''Retrieve all registered users. Admin access only.'',
      dc_responses := [(200, ''Users retrieved successfully.''),
       (401, ''Unauthorized.''),
       (403, ''Forbidden. Admin role required.'')]\<rparr>"

definition UsersController_deleteUser_decl :: decl where
  "UsersController_deleteUser_decl = route DELETE '':id''
    \<lparr>dc_summary := Some ''Delete a user'', dc_description := Some ''Delete a user by ID. Admin access only.'',
      dc_responses := [(200, ''User deleted successfully.''),
       (401, ''Unauthorized.''),
       (403, ''Forbidden. Admin role required.''),
       (404, ''User not found.'')]\<rparr>"

definition UsersController_decls :: ctrl where
  "UsersController_decls = controller ''UsersController'' ''users'' (Some ''1'')
    [(''findAll'', UsersController_findAll_decl), (''deleteUser'', UsersController_deleteUser_decl)]
    \<lparr>ct_tag := Some ''Users'', ct_bearer := True, ct_problems := True, ct_guards := [JwtGuard, RoleGuard], ct_roles := Some [''admin'']\<rparr>"

definition CategoriesController_create_decl :: decl where
  "CategoriesController_create_decl = route POST []
    \<lparr>dc_headers := [ApiIdempotencyKey], dc_idempotent := True, dc_summary := Some ''Create a new category'',
      dc_responses := [(201, ''Category created successfully''),
       (401, ''Unauthorized'')]\<rparr>"

definition CategoriesController_findAll_decl :: decl where
  "CategoriesController_findAll_decl = route GET []
    \<lparr>dc_summary := Some ''Get all categories for the authenticated user'',
      dc_responses := [(200, ''Categories retrieved successfully'')]\<rparr>"

definition CategoriesController_findOne_decl :: decl where
  "CategoriesController_findOne_decl = route GET '':id''
    \<lparr>dc_summary := Some ''Get a category by ID'', dc_responses := [(200, ''Category retrieved successfully''),
       (404, ''Category not found'')]\<rparr>"

definition CategoriesController_update_decl :: decl where
  "CategoriesController_update_decl = route PATCH '':id''
    \<lparr>dc_headers := [ApiIfMatch], dc_summary := Some ''Update a category'',
      dc_responses := [(200, ''Category updated successfully.''),
       (400, ''Invalid If-Match header.''),
       (404, ''Category not found.''),
       (409, ''Category has been modified since it was retrieved.''),
       (428, ''If-Match header is required.'')]\<rparr>"

definition CategoriesController_remove_decl :: decl where
  "CategoriesController_remove_decl = route DELETE '':id''
    \<lparr>dc_summary := Some ''Delete a category'', dc_responses := [(200, ''Category deleted successfully''),
       (404, ''Category not found'')]\<rparr>"

definition CategoriesController_decls :: ctrl where
  "CategoriesController_decls = controller ''CategoriesController'' ''categories'' (Some ''1'')
    [(''create'', CategoriesController_create_decl), (''findAll'', CategoriesController_findAll_decl),
     (''findOne'', CategoriesController_findOne_decl), (''update'', CategoriesController_update_decl),
     (''remove'', CategoriesController_remove_decl)]
    \<lparr>ct_tag := Some ''Categories'', ct_bearer := True, ct_problems := True, ct_guards := [JwtGuard]\<rparr>"

definition HealthController_checkLiveness_decl :: decl where
  "HealthController_checkLiveness_decl = route GET ''live''
    \<lparr>dc_summary := Some ''Liveness check'',
      dc_description := Some ''Checks whether the application process is alive and able to respond to requests.'',
      dc_responses := [(200, ''Application is alive.'')]\<rparr>"

definition HealthController_checkReadiness_decl :: decl where
  "HealthController_checkReadiness_decl = route GET ''ready''
    \<lparr>dc_summary := Some ''Readiness check'',
      dc_description := Some ''Checks whether the application is ready to receive traffic by verifying MongoDB and Redis connectivity.'',
      dc_responses := [(200, ''Application is ready.''),
       (503, ''Application is not ready.'')]\<rparr>"

definition HealthController_decls :: ctrl where
  "HealthController_decls = controller ''HealthController'' ''health'' (Some ''1'')
    [(''checkLiveness'', HealthController_checkLiveness_decl),
     (''checkReadiness'', HealthController_checkReadiness_decl)]
    \<lparr>ct_tag := Some ''Health'', ct_problems := True, ct_throttled := False\<rparr>"

definition ActivityController_getMyActivity_decl :: decl where
  "ActivityController_getMyActivity_decl = route GET ''me''
    \<lparr>dc_guards := [JwtGuard], dc_summary := Some ''Get current user activity'',
      dc_description := Some ''Returns the activity log for the authenticated user.'',
      dc_responses := [(200, ''Activity retrieved successfully.''),
       (401, ''Unauthorized.'')]\<rparr>"

definition ActivityController_getAllActivity_decl :: decl where
  "ActivityController_getAllActivity_decl = route GET []
    \<lparr>dc_guards := [JwtGuard, RoleGuard], dc_roles := Some [''admin''], dc_summary := Some ''Get all activity logs'',
      dc_description := Some ''Returns all activity logs. Admin access only.'',
      dc_responses := [(200, ''Activity logs retrieved successfully.''),
       (401, ''Unauthorized.''),
       (403, ''Forbidden. Admin access required.'')]\<rparr>"

definition ActivityController_decls :: ctrl where
  "ActivityController_decls = controller ''ActivityController'' ''activity'' (Some ''1'')
    [(''getMyActivity'', ActivityController_getMyActivity_decl),
     (''getAllActivity'', ActivityController_getAllActivity_decl)]
    \<lparr>ct_tag := Some ''Activity'', ct_bearer := True, ct_problems := True\<rparr>"

definition WorkspaceController_create_decl :: decl where
  "WorkspaceController_create_decl = route POST []
    \<lparr>dc_summary := Some ''Create a new workspace'',
      dc_description := Some ''Creates a workspace and makes the authenticated user its owner.'',
      dc_headers := [ApiIdempotencyKey], dc_idempotent := True, dc_guards := [PolicyGuard], dc_global := True,
      dc_policies := [createWorkspacePolicy], dc_responses := [(201, ''Workspace created successfully.''),
       (400, ''Validation failed.''),
       (401, ''Unauthorized.''),
       (409, ''Workspace slug already exists.'')]\<rparr>"

definition WorkspaceController_findAll_decl :: decl where
  "WorkspaceController_findAll_decl = route GET []
    \<lparr>dc_summary := Some ''Get all workspaces'',
      dc_description := Some ''Returns all workspaces accessible to the authenticated user.'',
      dc_responses := [(200, ''Workspaces retrieved successfully.''),
       (401, ''Unauthorized.'')]\<rparr>"

definition WorkspaceController_findOne_decl :: decl where
  "WorkspaceController_findOne_decl = route GET '':id''
    \<lparr>dc_summary := Some ''Get a workspace by ID'', dc_guards := [PolicyGuard], dc_policies := [readWorkspacePolicy],
      dc_responses := [(200, ''Workspace retrieved successfully.''),
       (400, ''Invalid workspace ID.''),
       (401, ''Unauthorized.''),
       (403, ''User is not allowed to access this workspace.''),
       (404, ''Workspace not found.'')]\<rparr>"

definition WorkspaceController_getFeatureFlags_decl :: decl where
  "WorkspaceController_getFeatureFlags_decl = route GET '':id/feature-flags''
    \<lparr>dc_summary := Some ''Get workspace feature flags'',
      dc_description := Some ''Returns the feature flags configured for the specified workspace.'',
      dc_guards := [PolicyGuard], dc_policies := [readWorkspacePolicy],
      dc_responses := [(200, ''Workspace feature flags retrieved successfully.''),
       (400, ''Invalid workspace ID.''),
       (401, ''Unauthorized.''),
       (403, ''User is not allowed to access this workspace.''),
       (404, ''Workspace not found.'')]\<rparr>"

definition WorkspaceController_getMembers_decl :: decl where
  "WorkspaceController_getMembers_decl = route GET '':id/members''
    \<lparr>dc_summary := Some ''Get workspace members'', dc_guards := [PolicyGuard], dc_policies := [readMemberPolicy],
      dc_responses := [(200, ''Workspace members retrieved successfully.''),
       (400, ''Invalid workspace ID.''),
       (401, ''Unauthorized.''),
       (403, ''User is not allowed to view workspace members.''),
       (404, ''Workspace not found.'')]\<rparr>"

definition WorkspaceController_addMember_decl :: decl where
  "WorkspaceController_addMember_decl = route POST '':id/members''
    \<lparr>dc_summary := Some ''Add a member to a workspace'', dc_headers := [ApiIdempotencyKey], dc_idempotent := True,
      dc_guards := [PolicyGuard], dc_policies := [manageMemberPolicy],
      dc_responses := [(201, ''Workspace member added successfully.''),
       (400, ''Validation failed.''),
       (401, ''Unauthorized.''),
       (403, ''User is not allowed to manage workspace members.''),
       (404, ''Workspace not found.''),
       (409, ''User is already a member or the operation conflicts with the current workspace state.'')]\<rparr>"

definition WorkspaceController_getAuditLogs_decl :: decl where
  "WorkspaceController_getAuditLogs_decl = route GET '':id/audit-logs''
    \<lparr>dc_summary := Some ''Get workspace audit logs'', dc_guards := [PolicyGuard],
      dc_policies := [readAuditLogPolicy], dc_responses := [(200, ''Workspace audit logs retrieved successfully.''),
       (400, ''Invalid workspace ID or query parameters.''),
       (401, ''Unauthorized.''),
       (403, ''User is not allowed to view audit logs.''),
       (404, ''Workspace not found.'')]\<rparr>"

definition WorkspaceController_updateFeatureFlags_decl :: decl where
  "WorkspaceController_updateFeatureFlags_decl = route PATCH '':id/feature-flags''
    \<lparr>dc_summary := Some ''Update workspace feature flags'',
      dc_description := Some ''Updates one or more feature flags for the specified workspace.'',
      dc_guards := [PolicyGuard], dc_policies := [manageFeatureFlagsPolicy],
      dc_responses := [(200, ''Workspace feature flags updated successfully.''),
       (400, ''Validation failed or invalid workspace ID.''),
       (401, ''Unauthorized.''),
       (403, ''User is not allowed to manage feature flags for this workspace.''),
       (404, ''Workspace not found.'')]\<rparr>"

definition WorkspaceController_getSettings_decl :: decl where
  "WorkspaceController_getSettings_decl = route GET '':id/settings''
    \<lparr>dc_summary := Some ''Get workspace settings'',
      dc_description := Some ''Returns the settings configured for the specified workspace.'',
      dc_guards := [PolicyGuard], dc_policies := [readWorkspacePolicy],
      dc_responses := [(200, ''Workspace settings retrieved successfully.''),
       (400, ''Invalid workspace ID.''),
       (401, ''Unauthorized.''),
       (403, ''User is not allowed to access this workspace settings.''),
       (404, ''Workspace not found.'')]\<rparr>"

definition WorkspaceController_updateSettings_decl :: decl where
  "WorkspaceController_updateSettings_decl = route PATCH '':id/settings''
    \<lparr>dc_summary := Some ''Update workspace settings'',
      dc_description := Some ''Updates one or more settings for the specified workspace.'',
      dc_guards := [PolicyGuard], dc_policies := [updateWorkspaceSettingsPolicy],
      dc_responses := [(200, ''Workspace settings updated successfully.''),
       (400, ''Validation failed or invalid workspace ID.''),
       (401, ''Unauthorized.''),
       (403, ''User is not allowed to manage workspace settings.''),
       (404, ''Workspace not found.'')]\<rparr>"

definition WorkspaceController_decls :: ctrl where
  "WorkspaceController_decls = controller ''WorkspaceController'' ''workspaces'' (Some ''1'')
    [(''create'', WorkspaceController_create_decl), (''findAll'', WorkspaceController_findAll_decl),
     (''findOne'', WorkspaceController_findOne_decl),
     (''getFeatureFlags'', WorkspaceController_getFeatureFlags_decl),
     (''getMembers'', WorkspaceController_getMembers_decl), (''addMember'', WorkspaceController_addMember_decl),
     (''getAuditLogs'', WorkspaceController_getAuditLogs_decl),
     (''updateFeatureFlags'', WorkspaceController_updateFeatureFlags_decl),
     (''getSettings'', WorkspaceController_getSettings_decl),
     (''updateSettings'', WorkspaceController_updateSettings_decl)]
    \<lparr>ct_tag := Some ''Workspaces'', ct_bearer := True, ct_problems := True, ct_guards := [JwtGuard]\<rparr>"

definition InvitationController_getPendingInvitations_decl :: decl where
  "InvitationController_getPendingInvitations_decl = route GET ''pending''
    \<lparr>dc_summary := Some ''Get pending invitations'',
      dc_responses := [(200, ''Pending invitations retrieved successfully.''),
       (401, ''Unauthorized.'')]\<rparr>"

definition InvitationController_createInvitation_decl :: decl where
  "InvitationController_createInvitation_decl = route POST '':workspaceId''
    \<lparr>dc_summary := Some ''Create a workspace invitation'',
      dc_description := Some ''Creates an invitation for a user to join the specified workspace.'',
      dc_headers := [ApiIdempotencyKey], dc_idempotent := True, dc_guards := [PolicyGuard],
      dc_policies := [manageInvitationPolicy], dc_responses := [(201, ''Invitation created successfully.''),
       (400, ''Validation failed.''),
       (401, ''Unauthorized.''),
       (403, ''User is not allowed to manage invitations.''),
       (404, ''Workspace not found.''),
       (409, ''A pending invitation already exists or the request conflicts with the current state.'')]\<rparr>"

definition InvitationController_acceptInvitation_decl :: decl where
  "InvitationController_acceptInvitation_decl = route POST '':token/accept''
    \<lparr>dc_summary := Some ''Accept a workspace invitation'',
      dc_responses := [(200, ''Invitation accepted successfully.''),
       (400, ''Invitation is invalid, expired, or cannot be accepted.''),
       (401, ''Unauthorized.''),
       (404, ''Invitation not found.'')]\<rparr>"

definition InvitationController_declineInvitation_decl :: decl where
  "InvitationController_declineInvitation_decl = route POST '':token/decline''
    \<lparr>dc_summary := Some ''Decline a workspace invitation'',
      dc_responses := [(200, ''Invitation declined successfully.''),
       (400, ''Invitation is invalid, expired, or cannot be declined.''),
       (401, ''Unauthorized.''),
       (404, ''Invitation not found.'')]\<rparr>"

definition InvitationController_decls :: ctrl where
  "InvitationController_decls = controller ''InvitationController'' ''invitations'' (Some ''1'')
    [(''getPendingInvitations'', InvitationController_getPendingInvitations_decl),
     (''createInvitation'', InvitationController_createInvitation_decl),
     (''acceptInvitation'', InvitationController_acceptInvitation_decl),
     (''declineInvitation'', InvitationController_declineInvitation_decl)]
    \<lparr>ct_tag := Some ''Invitations'', ct_bearer := True, ct_problems := True, ct_guards := [JwtGuard]\<rparr>"

definition WebhookController_create_decl :: decl where
  "WebhookController_create_decl = route POST []
    \<lparr>dc_summary := Some ''Create a webhook'', dc_description := Some ''Creates a webhook for a workspace.'',
      dc_headers := [ApiIdempotencyKey], dc_idempotent := True, dc_guards := [PolicyGuard],
      dc_policies := [manageWebhookPolicy], dc_responses := [(201, ''Webhook created successfully.''),
       (400, ''Validation failed.''),
       (401, ''Unauthorized.''),
       (403, ''User is not allowed to manage webhooks.''),
       (409, ''Webhook creation conflicts with the current state.'')]\<rparr>"

definition WebhookController_findAll_decl :: decl where
  "WebhookController_findAll_decl = route GET []
    \<lparr>dc_summary := Some ''Get workspace webhooks'',
      dc_description := Some ''Retrieves all webhooks registered for the specified workspace.'',
      dc_guards := [PolicyGuard], dc_policies := [manageWebhookPolicy],
      dc_responses := [(200, ''Webhooks retrieved successfully.''),
       (401, ''Unauthorized.''),
       (403, ''User is not allowed to manage webhooks.'')]\<rparr>"

definition WebhookController_decls :: ctrl where
  "WebhookController_decls = controller ''WebhookController'' ''workspaces/:workspaceId/webhooks'' (Some ''1'')
    [(''create'', WebhookController_create_decl), (''findAll'', WebhookController_findAll_decl)]
    \<lparr>ct_tag := Some ''Webhooks'', ct_bearer := True, ct_problems := True, ct_guards := [JwtGuard]\<rparr>"

definition ExportController_createExport_decl :: decl where
  "ExportController_createExport_decl = route POST []
    \<lparr>dc_summary := Some ''Request a workspace export'', dc_headers := [ApiIdempotencyKey], dc_idempotent := True,
      dc_guards := [PolicyGuard], dc_policies := [createExportPolicy],
      dc_responses := [(201, ''Export requested successfully.''),
       (401, ''Unauthorized.''),
       (403, ''User is not allowed to create exports.'')]\<rparr>"

definition ExportController_getExport_decl :: decl where
  "ExportController_getExport_decl = route GET '':exportId''
    \<lparr>dc_summary := Some ''Get export status'', dc_guards := [PolicyGuard], dc_policies := [readExportPolicy],
      dc_responses := [(200, ''Export status retrieved successfully.''),
       (401, ''Unauthorized.''),
       (403, ''User is not allowed to access this export.''),
       (404, ''Export not found.'')]\<rparr>"

definition ExportController_downloadExport_decl :: decl where
  "ExportController_downloadExport_decl = route GET '':exportId/download''
    \<lparr>dc_summary := Some ''Download a completed export'', dc_guards := [PolicyGuard],
      dc_policies := [downloadExportPolicy], dc_responses := [(200, ''Export downloaded successfully.''),
       (401, ''Invalid or expired download token.''),
       (403, ''User is not allowed to download this export.''),
       (404, ''Export not found.'')]\<rparr>"

definition ExportController_decls :: ctrl where
  "ExportController_decls = controller ''ExportController'' ''workspaces/:id/exports'' (Some ''1'')
    [(''createExport'', ExportController_createExport_decl), (''getExport'', ExportController_getExport_decl),
     (''downloadExport'', ExportController_downloadExport_decl)]
    \<lparr>ct_tag := Some ''Exports'', ct_bearer := True, ct_problems := True, ct_guards := [JwtGuard]\<rparr>"

definition MetricsController_getMetrics_decl :: decl where
  "MetricsController_getMetrics_decl = route GET []
    \<lparr>dc_summary := Some ''Get Prometheus metrics'',
      dc_description := Some ''Returns application and infrastructure metrics in Prometheus exposition format, including HTTP request metrics and BullMQ queue metrics.'',
      dc_responses := [(200, ''Prometheus metrics retrieved successfully.''),
       (500, ''Failed to generate Prometheus metrics.'')]\<rparr>"

definition MetricsController_decls :: ctrl where
  "MetricsController_decls = controller ''MetricsController'' ''metrics'' (Some ''1'')
    [(''getMetrics'', MetricsController_getMetrics_decl)]
    \<lparr>ct_tag := Some ''Metrics''\<rparr>"

section \<open>The problems every route may answer\<close>

text \<open>\<open>@ProblemResponses()\<close>: per status a description and an example of the body.\<close>

record problemDoc =
  pd_status :: nat
  pd_description :: string
  pd_example :: problem

definition ProblemResponses :: "problemDoc list" where
  "ProblemResponses = [
     \<lparr>pd_status = 400, pd_description = ''Bad Request'',
       pd_example = \<lparr>pr_type = ''about:blank'', pr_title = ''Bad Request'', pr_status = 400,
         pr_detail = ''Validation failed'', pr_instance = ''/api/v1/tasks'',
         pr_requestId = None, pr_errors = Some [''email must be an email'', ''password must be longer than or equal to 8 characters'']\<rparr>\<rparr>,
     \<lparr>pd_status = 401, pd_description = ''Unauthorized'',
       pd_example = \<lparr>pr_type = ''about:blank'', pr_title = ''Unauthorized'', pr_status = 401,
         pr_detail = ''Unauthorized'', pr_instance = ''/api/v1/tasks'',
         pr_requestId = None, pr_errors = None\<rparr>\<rparr>,
     \<lparr>pd_status = 403, pd_description = ''Forbidden'',
       pd_example = \<lparr>pr_type = ''about:blank'', pr_title = ''Forbidden'', pr_status = 403,
         pr_detail = ''You are not allowed to perform this action'', pr_instance = ''/api/v1/tasks'',
         pr_requestId = None, pr_errors = None\<rparr>\<rparr>,
     \<lparr>pd_status = 404, pd_description = ''Not Found'',
       pd_example = \<lparr>pr_type = ''about:blank'', pr_title = ''Not Found'', pr_status = 404,
         pr_detail = ''Resource not found'', pr_instance = ''/api/v1/tasks/...'',
         pr_requestId = None, pr_errors = None\<rparr>\<rparr>,
     \<lparr>pd_status = 409, pd_description = ''Conflict'',
       pd_example = \<lparr>pr_type = ''about:blank'', pr_title = ''Conflict'', pr_status = 409,
         pr_detail = ''The request conflicts with the current state of the resource'', pr_instance = ''/api/v1/tasks'',
         pr_requestId = None, pr_errors = None\<rparr>\<rparr>,
     \<lparr>pd_status = 412, pd_description = ''Precondition Failed'',
       pd_example = \<lparr>pr_type = ''about:blank'', pr_title = ''Precondition Failed'', pr_status = 412,
         pr_detail = ''Task has been modified. Please refresh and try again.'', pr_instance = ''/api/v1/tasks/...'',
         pr_requestId = None, pr_errors = None\<rparr>\<rparr>,
     \<lparr>pd_status = 428, pd_description = ''Precondition Required'',
       pd_example = \<lparr>pr_type = ''about:blank'', pr_title = ''Precondition Required'', pr_status = 428,
         pr_detail = ''If-Match header is required'', pr_instance = ''/api/v1/tasks/...'',
         pr_requestId = None, pr_errors = None\<rparr>\<rparr>,
     \<lparr>pd_status = 429, pd_description = ''Too Many Requests'',
       pd_example = \<lparr>pr_type = ''about:blank'', pr_title = ''Too Many Requests'', pr_status = 429,
         pr_detail = ''Too many requests'', pr_instance = ''/api/v1/tasks'',
         pr_requestId = None, pr_errors = None\<rparr>\<rparr>,
     \<lparr>pd_status = 500, pd_description = ''Internal Server Error'',
       pd_example = \<lparr>pr_type = ''about:blank'', pr_title = ''Internal Server Error'', pr_status = 500,
         pr_detail = ''Internal server error'', pr_instance = ''/api/v1/tasks'',
         pr_requestId = None, pr_errors = None\<rparr>\<rparr>]"

section \<open>The application\<close>

definition apiControllers :: "ctrl list" where
  "apiControllers = [AppController_decls, TaskController_decls, AuthController_decls, UsersController_decls,
     CategoriesController_decls, HealthController_decls, ActivityController_decls, WorkspaceController_decls,
     InvitationController_decls, WebhookController_decls, ExportController_decls, MetricsController_decls]"

lemmas ctrl_defs =
  AppController_decls_def TaskController_decls_def AuthController_decls_def UsersController_decls_def
  CategoriesController_decls_def HealthController_decls_def ActivityController_decls_def
  WorkspaceController_decls_def InvitationController_decls_def WebhookController_decls_def
  ExportController_decls_def MetricsController_decls_def

lemmas decl_defs =
  AppController_getHello_decl_def TaskController_create_decl_def TaskController_assignTask_decl_def
  TaskController_findAll_decl_def TaskController_getStats_decl_def TaskController_findOne_decl_def
  TaskController_update_decl_def TaskController_addComment_decl_def TaskController_getComments_decl_def
  TaskController_uploadAttachment_decl_def TaskController_getAttachments_decl_def
  TaskController_getTaskActivity_decl_def TaskController_deleteAttachment_decl_def TaskController_remove_decl_def
  AuthController_register_decl_def AuthController_login_decl_def AuthController_refresh_decl_def
  AuthController_logout_decl_def AuthController_verifyEmail_decl_def AuthController_forgotPassword_decl_def
  AuthController_resetPassword_decl_def UsersController_findAll_decl_def UsersController_deleteUser_decl_def
  CategoriesController_create_decl_def CategoriesController_findAll_decl_def CategoriesController_findOne_decl_def
  CategoriesController_update_decl_def CategoriesController_remove_decl_def HealthController_checkLiveness_decl_def
  HealthController_checkReadiness_decl_def ActivityController_getMyActivity_decl_def
  ActivityController_getAllActivity_decl_def WorkspaceController_create_decl_def
  WorkspaceController_findAll_decl_def WorkspaceController_findOne_decl_def
  WorkspaceController_getFeatureFlags_decl_def WorkspaceController_getMembers_decl_def
  WorkspaceController_addMember_decl_def WorkspaceController_getAuditLogs_decl_def
  WorkspaceController_updateFeatureFlags_decl_def WorkspaceController_getSettings_decl_def
  WorkspaceController_updateSettings_decl_def InvitationController_getPendingInvitations_decl_def
  InvitationController_createInvitation_decl_def InvitationController_acceptInvitation_decl_def
  InvitationController_declineInvitation_decl_def WebhookController_create_decl_def
  WebhookController_findAll_decl_def ExportController_createExport_decl_def ExportController_getExport_decl_def
  ExportController_downloadExport_decl_def MetricsController_getMetrics_decl_def

end
