(* ===== verification/ApiGuards.thy ===== *)
theory ApiGuards
  imports ApiDecls Routes TaskRoutes
begin

text \<open>
  What stands before a handler: the guards of the class and of the handler in the order NestJS runs
  them, then the rate limit of the class. The handlers of the model run behind the guards their
  declarations name, and nothing but a few public ones runs without a valid token.
\<close>

section \<open>Guards from declarations\<close>

text \<open>\<open>getAllAndOverride\<close>: the handler before the class.\<close>

definition rolesOf :: "ctrl \<Rightarrow> decl \<Rightarrow> string list option" where
  "rolesOf c d = (case dc_roles d of None \<Rightarrow> ct_roles c | Some r \<Rightarrow> Some r)"

definition requestOf :: "authUser option \<Rightarrow> httpRequest \<Rightarrow> request" where
  "requestOf u h = (case u of Some v \<Rightarrow> guardRequest v h
     | None \<Rightarrow> (guardRequest \<lparr>cu_userId = 0, cu_email = [], cu_role = []\<rparr> h)\<lparr>rq_userId := None\<rparr>)"

fun passGuards :: "server \<Rightarrow> ctrl \<Rightarrow> decl \<Rightarrow> httpRequest \<Rightarrow> guardKind list \<Rightarrow> authUser option \<Rightarrow> authUser option wprog" where
  "passGuards S c d h [] u = ret u"
| "passGuards S c d h (JwtGuard # gs) u =
     bnd (JwtAuthGuard_canActivate (sv_verify S) (ht_bearer h)) (\<lambda>v. passGuards S c d h gs (Some v))"
| "passGuards S c d h (RoleGuard # gs) u = andThen (RolesGuard_canActivate (rolesOf c d) u) (passGuards S c d h gs u)"
| "passGuards S c d h (PolicyGuard # gs) u =
     andThen (canActivate (sv_can S) (dc_policies d) (dc_global d) (dc_loadTask d) (requestOf u h)) (passGuards S c d h gs u)"

definition behind :: "server \<Rightarrow> ctrl \<Rightarrow> decl \<Rightarrow> httpRequest \<Rightarrow> (authUser option \<Rightarrow> 'a wprog) \<Rightarrow> 'a wprog" where
  "behind S c d h next = bnd (passGuards S c d h (ct_guards c @ dc_guards d) None) (\<lambda>u.
     if ct_rateLimit c then UserRateLimitInterceptor_intercept (sv_loadTestMode S) (map_option cu_userId u) (next u) else next u)"

lemma bnd_after: "bnd (bnd m f) g = bnd m (\<lambda>x. bnd (f x) g)" "bnd (andThen m n) g = andThen m (bnd n g)" "bnd (ret x) g = g x"
  by (rule ext, simp add: bnd_run andThen_run split: prod.split sum.split)+

lemma behind_token:
  assumes "ct_guards c @ dc_guards d = [JwtGuard]"
  shows "behind S c d h next = authenticated S h (\<lambda>u. if ct_rateLimit c then rateLimited S u (next (Some u)) else next (Some u))"
  by (simp add: behind_def assms authenticated_def bnd_after rateLimited_def cong: if_cong)

lemma behind_roles:
  assumes "ct_guards c @ dc_guards d = [JwtGuard, RoleGuard]" and "rolesOf c d = Some [''admin'']" and "\<not> ct_rateLimit c"
  shows "behind S c d h next = adminOnly S h (\<lambda>u. next (Some u))"
  using assms(2,3) by (simp add: behind_def assms(1) adminOnly_def authenticated_def bnd_after)

lemma behind_policies:
  assumes "ct_guards c @ dc_guards d = [JwtGuard, PolicyGuard]"
  shows "behind S c d h next = secured S (dc_policies d) (dc_global d) (dc_loadTask d) h
    (\<lambda>u. if ct_rateLimit c then rateLimited S u (next (Some u)) else next (Some u))"
  by (simp add: behind_def assms secured_def authenticated_def bnd_after requestOf_def rateLimited_def cong: if_cong)

lemma behind_nothing: "ct_guards c @ dc_guards d = [] \<Longrightarrow> \<not> ct_rateLimit c \<Longrightarrow> behind S c d h next = next None"
  by (simp add: behind_def bnd_after)

section \<open>The handlers of the model\<close>

text \<open>A handler behind its guards; one with \<open>IdempotencyInterceptor\<close> is inside of it, with the user the guards found.\<close>

definition guarded :: "server \<Rightarrow> ctrl \<Rightarrow> decl \<Rightarrow> httpRequest \<Rightarrow> 'a wprog \<Rightarrow> bool" where
  "guarded S c d h prog \<longleftrightarrow> \<not> dc_idempotent d \<and> (\<exists>next. prog = behind S c d h next)"

definition guardedOnce :: "server \<Rightarrow> ('a \<Rightarrow> json) \<Rightarrow> ctrl \<Rightarrow> decl \<Rightarrow> httpRequest \<Rightarrow> (nat \<times> json) wprog \<Rightarrow> bool" where
  "guardedOnce S toJson c d h prog \<longleftrightarrow> dc_idempotent d \<and> (\<exists>next. prog = behind S c d h (\<lambda>u. idempotent S toJson u h (next u)))"

lemma guarded_token:
  assumes "prog = authenticated S h (\<lambda>u. if ct_rateLimit c then rateLimited S u (f u) else f u)"
    and "ct_guards c @ dc_guards d = [JwtGuard]" and "\<not> dc_idempotent d"
  shows "guarded S c d h prog"
  unfolding guarded_def assms(1) behind_token [OF assms(2)]
  using assms(3) by (intro conjI exI [of _ "\<lambda>u. f (the u)"]) (simp_all cong: if_cong)

lemma guarded_roles:
  assumes "prog = adminOnly S h f" and "ct_guards c @ dc_guards d = [JwtGuard, RoleGuard]" and "rolesOf c d = Some [''admin'']"
    and "\<not> ct_rateLimit c" and "\<not> dc_idempotent d"
  shows "guarded S c d h prog"
  unfolding guarded_def assms(1) behind_roles [OF assms(2-4)]
  using assms(5) by (intro conjI exI [of _ "\<lambda>u. f (the u)"]) (simp_all cong: if_cong)

lemma guarded_policies:
  assumes "prog = secured S (dc_policies d) (dc_global d) (dc_loadTask d) h (\<lambda>u. if ct_rateLimit c then rateLimited S u (f u) else f u)"
    and "ct_guards c @ dc_guards d = [JwtGuard, PolicyGuard]" and "\<not> dc_idempotent d"
  shows "guarded S c d h prog"
  unfolding guarded_def assms(1) behind_policies [OF assms(2)]
  using assms(3) by (intro conjI exI [of _ "\<lambda>u. f (the u)"]) (simp_all cong: if_cong)

lemma guarded_open: "ct_guards c @ dc_guards d = [] \<Longrightarrow> \<not> ct_rateLimit c \<Longrightarrow> \<not> dc_idempotent d \<Longrightarrow> guarded S c d h prog"
  unfolding guarded_def by (auto simp: behind_nothing)

lemma guardedOnce_token:
  assumes "prog = authenticated S h (\<lambda>u. if ct_rateLimit c then rateLimited S u (idempotent S toJson (Some u) h (f u))
      else idempotent S toJson (Some u) h (f u))"
    and "ct_guards c @ dc_guards d = [JwtGuard]" and "dc_idempotent d"
  shows "guardedOnce S toJson c d h prog"
  unfolding guardedOnce_def assms(1) behind_token [OF assms(2)]
  using assms(3) by (intro conjI exI [of _ "\<lambda>u. f (the u)"]) (simp_all cong: if_cong)

lemma guardedOnce_policies:
  assumes "prog = secured S (dc_policies d) (dc_global d) (dc_loadTask d) h
      (\<lambda>u. if ct_rateLimit c then rateLimited S u (idempotent S toJson (Some u) h (f u)) else idempotent S toJson (Some u) h (f u))"
    and "ct_guards c @ dc_guards d = [JwtGuard, PolicyGuard]" and "dc_idempotent d"
  shows "guardedOnce S toJson c d h prog"
  unfolding guardedOnce_def assms(1) behind_policies [OF assms(2)]
  using assms(3) by (intro conjI exI [of _ "\<lambda>u. f (the u)"]) (simp_all cong: if_cong)

lemma guardedOnce_open:
  assumes "prog = idempotent S toJson None h x" and "ct_guards c @ dc_guards d = []" and "\<not> ct_rateLimit c" and "dc_idempotent d"
  shows "guardedOnce S toJson c d h prog"
  unfolding guardedOnce_def assms(1) behind_nothing [OF assms(2,3)]
  using assms(4) by (intro conjI exI [of _ "\<lambda>u. x"]) simp_all

lemma task_declared:
  "guardedOnce S showTask TaskController_decls TaskController_create_decl h (TaskController_create S showTask h)"
  "guarded S TaskController_decls TaskController_assignTask_decl h (TaskController_assignTask S h)"
  "guarded S TaskController_decls TaskController_findAll_decl h (TaskController_findAll S M q h)"
  "guarded S TaskController_decls TaskController_getStats_decl h (TaskController_getStats S h)"
  "guarded S TaskController_decls TaskController_findOne_decl h (TaskController_findOne S h)"
  "guarded S TaskController_decls TaskController_update_decl h (TaskController_update S h)"
  "guardedOnce S showTask TaskController_decls TaskController_addComment_decl h (TaskController_addComment S showTask h)"
  "guarded S TaskController_decls TaskController_getComments_decl h (TaskController_getComments S h)"
  "guardedOnce S showFiles TaskController_decls TaskController_uploadAttachment_decl h (TaskController_uploadAttachment S multer showFiles h)"
  "guarded S TaskController_decls TaskController_getAttachments_decl h (TaskController_getAttachments S h)"
  "guarded S TaskController_decls TaskController_getTaskActivity_decl h (TaskController_getTaskActivity S h)"
  "guarded S TaskController_decls TaskController_deleteAttachment_decl h (TaskController_deleteAttachment S h)"
  "guarded S TaskController_decls TaskController_remove_decl h (TaskController_remove S h)"
proof -
  note d = TaskController_decls_def controller_def route_def rolesOf_def taskRoute_def workspaceRoute_def
  show "guardedOnce S showTask TaskController_decls TaskController_create_decl h (TaskController_create S showTask h)"
    by (rule guardedOnce_policies; simp add: TaskController_create_decl_def TaskController_create_def d; (rule refl)?)
  show "guarded S TaskController_decls TaskController_assignTask_decl h (TaskController_assignTask S h)"
    by (rule guarded_policies; simp add: TaskController_assignTask_decl_def TaskController_assignTask_def d; (rule refl)?)
  show "guarded S TaskController_decls TaskController_findAll_decl h (TaskController_findAll S M q h)"
    by (rule guarded_policies; simp add: TaskController_findAll_decl_def TaskController_findAll_def d; (rule refl)?)
  show "guarded S TaskController_decls TaskController_getStats_decl h (TaskController_getStats S h)"
    by (rule guarded_token; simp add: TaskController_getStats_decl_def TaskController_getStats_def d; (rule refl)?)
  show "guarded S TaskController_decls TaskController_findOne_decl h (TaskController_findOne S h)"
    by (rule guarded_policies; simp add: TaskController_findOne_decl_def TaskController_findOne_def d; (rule refl)?)
  show "guarded S TaskController_decls TaskController_update_decl h (TaskController_update S h)"
    by (rule guarded_policies; simp add: TaskController_update_decl_def TaskController_update_def d; (rule refl)?)
  show "guardedOnce S showTask TaskController_decls TaskController_addComment_decl h (TaskController_addComment S showTask h)"
    by (rule guardedOnce_policies; simp add: TaskController_addComment_decl_def TaskController_addComment_def d; (rule refl)?)
  show "guarded S TaskController_decls TaskController_getComments_decl h (TaskController_getComments S h)"
    by (rule guarded_policies; simp add: TaskController_getComments_decl_def TaskController_getComments_def d; (rule refl)?)
  show "guardedOnce S showFiles TaskController_decls TaskController_uploadAttachment_decl h (TaskController_uploadAttachment S multer showFiles h)"
    by (rule guardedOnce_policies; simp add: TaskController_uploadAttachment_decl_def TaskController_uploadAttachment_def d; (rule refl)?)
  show "guarded S TaskController_decls TaskController_getAttachments_decl h (TaskController_getAttachments S h)"
    by (rule guarded_policies; simp add: TaskController_getAttachments_decl_def TaskController_getAttachments_def d; (rule refl)?)
  show "guarded S TaskController_decls TaskController_getTaskActivity_decl h (TaskController_getTaskActivity S h)"
    by (rule guarded_policies; simp add: TaskController_getTaskActivity_decl_def TaskController_getTaskActivity_def d; (rule refl)?)
  show "guarded S TaskController_decls TaskController_deleteAttachment_decl h (TaskController_deleteAttachment S h)"
    by (rule guarded_policies; simp add: TaskController_deleteAttachment_decl_def TaskController_deleteAttachment_def d; (rule refl)?)
  show "guarded S TaskController_decls TaskController_remove_decl h (TaskController_remove S h)"
    by (rule guarded_policies; simp add: TaskController_remove_decl_def TaskController_remove_def d; (rule refl)?)
qed

lemma auth_declared:
  "guardedOnce S showUser AuthController_decls AuthController_register_decl h (AuthController_register S showUser h)"
  "guarded S AuthController_decls AuthController_login_decl h (AuthController_login S h)"
  "guarded S AuthController_decls AuthController_refresh_decl h (AuthController_refresh S h)"
  "guarded S AuthController_decls AuthController_logout_decl h (AuthController_logout S h)"
  "guarded S AuthController_decls AuthController_verifyEmail_decl h (AuthController_verifyEmail S token)"
  "guarded S AuthController_decls AuthController_forgotPassword_decl h (AuthController_forgotPassword S email)"
  "guarded S AuthController_decls AuthController_resetPassword_decl h (AuthController_resetPassword S token newPassword)"
proof -
  note d = AuthController_decls_def controller_def route_def rolesOf_def taskRoute_def workspaceRoute_def
  show "guardedOnce S showUser AuthController_decls AuthController_register_decl h (AuthController_register S showUser h)"
    by (rule guardedOnce_open; simp add: AuthController_register_decl_def AuthController_register_def d; (rule refl)?)
  show "guarded S AuthController_decls AuthController_login_decl h (AuthController_login S h)"
    by (rule guarded_open; simp add: AuthController_login_decl_def AuthController_login_def d; (rule refl)?)
  show "guarded S AuthController_decls AuthController_refresh_decl h (AuthController_refresh S h)"
    by (rule guarded_open; simp add: AuthController_refresh_decl_def AuthController_refresh_def d; (rule refl)?)
  show "guarded S AuthController_decls AuthController_logout_decl h (AuthController_logout S h)"
    by (rule guarded_token; simp add: AuthController_logout_decl_def AuthController_logout_def d; (rule refl)?)
  show "guarded S AuthController_decls AuthController_verifyEmail_decl h (AuthController_verifyEmail S token)"
    by (rule guarded_open; simp add: AuthController_verifyEmail_decl_def AuthController_verifyEmail_def d; (rule refl)?)
  show "guarded S AuthController_decls AuthController_forgotPassword_decl h (AuthController_forgotPassword S email)"
    by (rule guarded_open; simp add: AuthController_forgotPassword_decl_def AuthController_forgotPassword_def d; (rule refl)?)
  show "guarded S AuthController_decls AuthController_resetPassword_decl h (AuthController_resetPassword S token newPassword)"
    by (rule guarded_open; simp add: AuthController_resetPassword_decl_def AuthController_resetPassword_def d; (rule refl)?)
qed

lemma users_declared:
  "guarded S UsersController_decls UsersController_findAll_decl h (UsersController_findAll S h)"
  "guarded S UsersController_decls UsersController_deleteUser_decl h (UsersController_deleteUser S h)"
proof -
  note d = UsersController_decls_def controller_def route_def rolesOf_def taskRoute_def workspaceRoute_def
  show "guarded S UsersController_decls UsersController_findAll_decl h (UsersController_findAll S h)"
    by (rule guarded_roles; simp add: UsersController_findAll_decl_def UsersController_findAll_def d; (rule refl)?)
  show "guarded S UsersController_decls UsersController_deleteUser_decl h (UsersController_deleteUser S h)"
    by (rule guarded_roles; simp add: UsersController_deleteUser_decl_def UsersController_deleteUser_def d; (rule refl)?)
qed

lemma activity_declared:
  "guarded S ActivityController_decls ActivityController_getMyActivity_decl h (ActivityController_getMyActivity S h)"
  "guarded S ActivityController_decls ActivityController_getAllActivity_decl h (ActivityController_getAllActivity S h)"
proof -
  note d = ActivityController_decls_def controller_def route_def rolesOf_def taskRoute_def workspaceRoute_def
  show "guarded S ActivityController_decls ActivityController_getMyActivity_decl h (ActivityController_getMyActivity S h)"
    by (rule guarded_token; simp add: ActivityController_getMyActivity_decl_def ActivityController_getMyActivity_def d; (rule refl)?)
  show "guarded S ActivityController_decls ActivityController_getAllActivity_decl h (ActivityController_getAllActivity S h)"
    by (rule guarded_roles; simp add: ActivityController_getAllActivity_decl_def ActivityController_getAllActivity_def d; (rule refl)?)
qed

lemma workspace_declared:
  "guardedOnce S showWorkspace WorkspaceController_decls WorkspaceController_create_decl h (WorkspaceController_create S showWorkspace h)"
  "guarded S WorkspaceController_decls WorkspaceController_findAll_decl h (WorkspaceController_findAll S h)"
  "guarded S WorkspaceController_decls WorkspaceController_findOne_decl h (WorkspaceController_findOne S h)"
  "guarded S WorkspaceController_decls WorkspaceController_getFeatureFlags_decl h (WorkspaceController_getFeatureFlags S h)"
  "guarded S WorkspaceController_decls WorkspaceController_getMembers_decl h (WorkspaceController_getMembers S h)"
  "guardedOnce S showMembership WorkspaceController_decls WorkspaceController_addMember_decl h (WorkspaceController_addMember S showMembership h)"
  "guarded S WorkspaceController_decls WorkspaceController_getAuditLogs_decl h (WorkspaceController_getAuditLogs S params h)"
  "guarded S WorkspaceController_decls WorkspaceController_updateFeatureFlags_decl h (WorkspaceController_updateFeatureFlags S h)"
  "guarded S WorkspaceController_decls WorkspaceController_getSettings_decl h (WorkspaceController_getSettings S h)"
  "guarded S WorkspaceController_decls WorkspaceController_updateSettings_decl h (WorkspaceController_updateSettings S h)"
proof -
  note d = WorkspaceController_decls_def controller_def route_def rolesOf_def taskRoute_def workspaceRoute_def
  show "guardedOnce S showWorkspace WorkspaceController_decls WorkspaceController_create_decl h (WorkspaceController_create S showWorkspace h)"
    by (rule guardedOnce_policies; simp add: WorkspaceController_create_decl_def WorkspaceController_create_def d; (rule refl)?)
  show "guarded S WorkspaceController_decls WorkspaceController_findAll_decl h (WorkspaceController_findAll S h)"
    by (rule guarded_token; simp add: WorkspaceController_findAll_decl_def WorkspaceController_findAll_def d; (rule refl)?)
  show "guarded S WorkspaceController_decls WorkspaceController_findOne_decl h (WorkspaceController_findOne S h)"
    by (rule guarded_policies; simp add: WorkspaceController_findOne_decl_def WorkspaceController_findOne_def d; (rule refl)?)
  show "guarded S WorkspaceController_decls WorkspaceController_getFeatureFlags_decl h (WorkspaceController_getFeatureFlags S h)"
    by (rule guarded_policies; simp add: WorkspaceController_getFeatureFlags_decl_def WorkspaceController_getFeatureFlags_def d; (rule refl)?)
  show "guarded S WorkspaceController_decls WorkspaceController_getMembers_decl h (WorkspaceController_getMembers S h)"
    by (rule guarded_policies; simp add: WorkspaceController_getMembers_decl_def WorkspaceController_getMembers_def d; (rule refl)?)
  show "guardedOnce S showMembership WorkspaceController_decls WorkspaceController_addMember_decl h (WorkspaceController_addMember S showMembership h)"
    by (rule guardedOnce_policies; simp add: WorkspaceController_addMember_decl_def WorkspaceController_addMember_def d; (rule refl)?)
  show "guarded S WorkspaceController_decls WorkspaceController_getAuditLogs_decl h (WorkspaceController_getAuditLogs S params h)"
    by (rule guarded_policies; simp add: WorkspaceController_getAuditLogs_decl_def WorkspaceController_getAuditLogs_def d; (rule refl)?)
  show "guarded S WorkspaceController_decls WorkspaceController_updateFeatureFlags_decl h (WorkspaceController_updateFeatureFlags S h)"
    by (rule guarded_policies; simp add: WorkspaceController_updateFeatureFlags_decl_def WorkspaceController_updateFeatureFlags_def d; (rule refl)?)
  show "guarded S WorkspaceController_decls WorkspaceController_getSettings_decl h (WorkspaceController_getSettings S h)"
    by (rule guarded_policies; simp add: WorkspaceController_getSettings_decl_def WorkspaceController_getSettings_def d; (rule refl)?)
  show "guarded S WorkspaceController_decls WorkspaceController_updateSettings_decl h (WorkspaceController_updateSettings S h)"
    by (rule guarded_policies; simp add: WorkspaceController_updateSettings_decl_def WorkspaceController_updateSettings_def d; (rule refl)?)
qed

lemma invitation_declared:
  "guarded S InvitationController_decls InvitationController_getPendingInvitations_decl h (InvitationController_getPendingInvitations S h)"
  "guardedOnce S showInvitation InvitationController_decls InvitationController_createInvitation_decl h (InvitationController_createInvitation S showInvitation h)"
  "guarded S InvitationController_decls InvitationController_acceptInvitation_decl h (InvitationController_acceptInvitation S token h)"
  "guarded S InvitationController_decls InvitationController_declineInvitation_decl h (InvitationController_declineInvitation S token h)"
proof -
  note d = InvitationController_decls_def controller_def route_def rolesOf_def taskRoute_def workspaceRoute_def
  show "guarded S InvitationController_decls InvitationController_getPendingInvitations_decl h (InvitationController_getPendingInvitations S h)"
    by (rule guarded_token; simp add: InvitationController_getPendingInvitations_decl_def InvitationController_getPendingInvitations_def d; (rule refl)?)
  show "guardedOnce S showInvitation InvitationController_decls InvitationController_createInvitation_decl h (InvitationController_createInvitation S showInvitation h)"
    by (rule guardedOnce_policies; simp add: InvitationController_createInvitation_decl_def InvitationController_createInvitation_def d; (rule refl)?)
  show "guarded S InvitationController_decls InvitationController_acceptInvitation_decl h (InvitationController_acceptInvitation S token h)"
    by (rule guarded_token; simp add: InvitationController_acceptInvitation_decl_def InvitationController_acceptInvitation_def d; (rule refl)?)
  show "guarded S InvitationController_decls InvitationController_declineInvitation_decl h (InvitationController_declineInvitation S token h)"
    by (rule guarded_token; simp add: InvitationController_declineInvitation_decl_def InvitationController_declineInvitation_def d; (rule refl)?)
qed

lemma categories_declared:
  "guardedOnce S showCategory CategoriesController_decls CategoriesController_create_decl h (CategoriesController_create S showCategory h)"
  "guarded S CategoriesController_decls CategoriesController_findAll_decl h (CategoriesController_findAll S h)"
  "guarded S CategoriesController_decls CategoriesController_findOne_decl h (CategoriesController_findOne S h)"
  "guarded S CategoriesController_decls CategoriesController_update_decl h (CategoriesController_update S h)"
  "guarded S CategoriesController_decls CategoriesController_remove_decl h (CategoriesController_remove S h)"
proof -
  note d = CategoriesController_decls_def controller_def route_def rolesOf_def taskRoute_def workspaceRoute_def
  show "guardedOnce S showCategory CategoriesController_decls CategoriesController_create_decl h (CategoriesController_create S showCategory h)"
    by (rule guardedOnce_token; simp add: CategoriesController_create_decl_def CategoriesController_create_def d; (rule refl)?)
  show "guarded S CategoriesController_decls CategoriesController_findAll_decl h (CategoriesController_findAll S h)"
    by (rule guarded_token; simp add: CategoriesController_findAll_decl_def CategoriesController_findAll_def d; (rule refl)?)
  show "guarded S CategoriesController_decls CategoriesController_findOne_decl h (CategoriesController_findOne S h)"
    by (rule guarded_token; simp add: CategoriesController_findOne_decl_def CategoriesController_findOne_def d; (rule refl)?)
  show "guarded S CategoriesController_decls CategoriesController_update_decl h (CategoriesController_update S h)"
    by (rule guarded_token; simp add: CategoriesController_update_decl_def CategoriesController_update_def d; (rule refl)?)
  show "guarded S CategoriesController_decls CategoriesController_remove_decl h (CategoriesController_remove S h)"
    by (rule guarded_token; simp add: CategoriesController_remove_decl_def CategoriesController_remove_def d; (rule refl)?)
qed

lemma webhook_declared:
  "guardedOnce S showWebhook WebhookController_decls WebhookController_create_decl h (WebhookController_create_route S showWebhook h)"
  "guarded S WebhookController_decls WebhookController_findAll_decl h (WebhookController_findAll S h)"
proof -
  note d = WebhookController_decls_def controller_def route_def rolesOf_def taskRoute_def workspaceRoute_def
  show "guardedOnce S showWebhook WebhookController_decls WebhookController_create_decl h (WebhookController_create_route S showWebhook h)"
    by (rule guardedOnce_policies; simp add: WebhookController_create_decl_def WebhookController_create_route_def d; (rule refl)?)
  show "guarded S WebhookController_decls WebhookController_findAll_decl h (WebhookController_findAll S h)"
    by (rule guarded_policies; simp add: WebhookController_findAll_decl_def WebhookController_findAll_def d; (rule refl)?)
qed

lemma export_declared:
  "guardedOnce S showExport ExportController_decls ExportController_createExport_decl h (ExportController_createExport S showExport h)"
  "guarded S ExportController_decls ExportController_getExport_decl h (ExportController_getExport S E h)"
  "guarded S ExportController_decls ExportController_downloadExport_decl h (ExportController_downloadExport S E token h)"
proof -
  note d = ExportController_decls_def controller_def route_def rolesOf_def taskRoute_def workspaceRoute_def
  show "guardedOnce S showExport ExportController_decls ExportController_createExport_decl h (ExportController_createExport S showExport h)"
    by (rule guardedOnce_policies; simp add: ExportController_createExport_decl_def ExportController_createExport_def d; (rule refl)?)
  show "guarded S ExportController_decls ExportController_getExport_decl h (ExportController_getExport S E h)"
    by (rule guarded_policies; simp add: ExportController_getExport_decl_def ExportController_getExport_def d; (rule refl)?)
  show "guarded S ExportController_decls ExportController_downloadExport_decl h (ExportController_downloadExport S E token h)"
    by (rule guarded_policies; simp add: ExportController_downloadExport_decl_def ExportController_downloadExport_def d; (rule refl)?)
qed


section \<open>What is open to everybody\<close>

definition publicHandlers :: "(string \<times> string) list" where
  "publicHandlers = [(''AppController'', ''getHello''), (''AuthController'', ''register''), (''AuthController'', ''login''),
     (''AuthController'', ''refresh''), (''AuthController'', ''verifyEmail''), (''AuthController'', ''forgotPassword''),
     (''AuthController'', ''resetPassword''), (''HealthController'', ''checkLiveness''), (''HealthController'', ''checkReadiness''),
     (''MetricsController'', ''getMetrics'')]"

definition inWorkspacePath :: "ctrl \<Rightarrow> decl \<Rightarrow> bool" where
  "inWorkspacePath c d \<longleftrightarrow> take 10 (ct_path c) = ''workspaces'' \<and> (ct_path c \<noteq> ''workspaces'' \<or> dc_path d \<noteq> [])"

text \<open>The table: public handlers have no guard, the others ask for the token first; paths into a workspace have a policy.\<close>

lemma guard_table:
  "list_all (\<lambda>c. list_all (\<lambda>(n, d). let gs = ct_guards c @ dc_guards d in
      (if (ct_name c, n) \<in> set publicHandlers then gs = [] else gs \<noteq> [] \<and> hd gs = JwtGuard) \<and>
      (inWorkspacePath c d \<longrightarrow> PolicyGuard \<in> set gs \<and> dc_policies d \<noteq> [])) (ct_routes c)) apiControllers"
  by (simp add: apiControllers_def ctrl_defs decl_defs controller_def route_def publicHandlers_def inWorkspacePath_def Let_def)

lemma guards_declared:
  assumes "c \<in> set apiControllers" and "(n, d) \<in> set (ct_routes c)"
  shows "(ct_name c, n) \<in> set publicHandlers \<Longrightarrow> ct_guards c @ dc_guards d = []"
    and "(ct_name c, n) \<notin> set publicHandlers \<Longrightarrow> \<exists>gs. ct_guards c @ dc_guards d = JwtGuard # gs"
    and "inWorkspacePath c d \<Longrightarrow> PolicyGuard \<in> set (ct_guards c @ dc_guards d) \<and> dc_policies d \<noteq> []"
proof -
  have t: "(if (ct_name c, n) \<in> set publicHandlers then ct_guards c @ dc_guards d = []
       else ct_guards c @ dc_guards d \<noteq> [] \<and> hd (ct_guards c @ dc_guards d) = JwtGuard) \<and>
      (inWorkspacePath c d \<longrightarrow> PolicyGuard \<in> set (ct_guards c @ dc_guards d) \<and> dc_policies d \<noteq> [])"
    using guard_table assms by (fastforce simp: list_all_iff Let_def)
  then show "(ct_name c, n) \<in> set publicHandlers \<Longrightarrow> ct_guards c @ dc_guards d = []"
    and "inWorkspacePath c d \<Longrightarrow> PolicyGuard \<in> set (ct_guards c @ dc_guards d) \<and> dc_policies d \<noteq> []"
    by (simp_all split: if_splits)
  show "(ct_name c, n) \<notin> set publicHandlers \<Longrightarrow> \<exists>gs. ct_guards c @ dc_guards d = JwtGuard # gs"
    using t by (cases "ct_guards c @ dc_guards d") auto
qed



end
