(* ===== verification/ApiRoutes.thy ===== *)
theory ApiRoutes
  imports ApiDecls
begin

text \<open>
  Which handler answers a verb and a path: the router over the declarations of the controllers, and
  that no handler hides another one.
\<close>

section \<open>Paths\<close>

datatype pathSeg = Literal string | Param string

definition readSeg :: "string \<Rightarrow> pathSeg" where
  "readSeg s = (case s of c # n \<Rightarrow> if c = CHR '':'' then Param n else Literal s | [] \<Rightarrow> Literal s)"

definition readPath :: "string \<Rightarrow> pathSeg list" where
  "readPath p = map readSeg (filter (\<lambda>s. s \<noteq> []) (splitOn CHR ''/'' p))"

text \<open>\<open>enableVersioning\<close> of \<open>main.ts\<close>: version 1 unless the controller says otherwise.\<close>

definition patternOf :: "ctrl \<Rightarrow> decl \<Rightarrow> pathSeg list" where
  "patternOf c d = Literal ''api'' # Literal (''v'' @ (case ct_version c of None \<Rightarrow> ''1'' | Some v \<Rightarrow> v)) #
     readPath (ct_path c) @ readPath (dc_path d)"

text \<open>The router compares literals without case, a parameter takes any segment.\<close>

definition segMatches :: "pathSeg \<Rightarrow> string \<Rightarrow> bool" where
  "segMatches p s = (case p of Literal l \<Rightarrow> toLowerCase l = toLowerCase s | Param _ \<Rightarrow> s \<noteq> [])"

definition pathMatches :: "pathSeg list \<Rightarrow> string list \<Rightarrow> bool" where
  "pathMatches ps path = list_all2 segMatches ps path"

definition paramsOf :: "pathSeg list \<Rightarrow> string list \<Rightarrow> (string \<times> string) list" where
  "paramsOf ps path = List.map_filter (\<lambda>(p, s). case p of Literal _ \<Rightarrow> None | Param n \<Rightarrow> Some (n, s)) (zip ps path)"

definition allRoutes :: "ctrl list \<Rightarrow> (ctrl \<times> string \<times> decl) list" where
  "allRoutes cs = concat (map (\<lambda>c. map (\<lambda>(n, d). (c, n, d)) (ct_routes c)) cs)"

text \<open>The first handler of the verb whose pattern takes the path.\<close>

definition resolve :: "ctrl list \<Rightarrow> verb \<Rightarrow> string list \<Rightarrow> (ctrl \<times> string \<times> decl) option" where
  "resolve cs v path = List.find (\<lambda>(c, n, d). dc_verb d = v \<and> pathMatches (patternOf c d) path) (allRoutes cs)"

section \<open>No handler hides another one\<close>

definition fill :: "(string \<Rightarrow> string) \<Rightarrow> pathSeg list \<Rightarrow> string list" where
  "fill args ps = map (\<lambda>p. case p of Literal l \<Rightarrow> l | Param n \<Rightarrow> args n) ps"

definition routeKey :: "ctrl \<times> string \<times> decl \<Rightarrow> verb \<times> pathSeg list" where
  "routeKey r = (case r of (c, n, d) \<Rightarrow> (dc_verb d, patternOf c d))"

definition keysOf :: "ctrl \<Rightarrow> (verb \<times> pathSeg list) list" where
  "keysOf c = map (\<lambda>(n, d). routeKey (c, n, d)) (ct_routes c)"

definition literalWords :: "string list" where
  "literalWords = concat (map (\<lambda>(v, ps). List.map_filter
     (\<lambda>p. case p of Literal l \<Rightarrow> Some (toLowerCase l) | Param _ \<Rightarrow> None) ps) (concat (map keysOf apiControllers)))"

text \<open>A value of a parameter, such as an id or a token: not empty and none of the words of the paths.\<close>

definition usable :: "string \<Rightarrow> bool" where
  "usable s \<longleftrightarrow> s \<noteq> [] \<and> toLowerCase s \<notin> set literalWords"

text \<open>Whether the first pattern can take a path of the second one.\<close>

definition takes :: "pathSeg list \<Rightarrow> pathSeg list \<Rightarrow> bool" where
  "takes qs ps = list_all2 (\<lambda>q p. case q of Param _ \<Rightarrow> True
     | Literal a \<Rightarrow> (case p of Literal b \<Rightarrow> toLowerCase a = toLowerCase b | Param _ \<Rightarrow> False)) qs ps"

definition captures :: "ctrl \<times> string \<times> decl \<Rightarrow> ctrl \<times> string \<times> decl \<Rightarrow> bool" where
  "captures r r' = (case (r, r') of ((c, n, d), (c', n', d')) \<Rightarrow> dc_verb d = dc_verb d' \<and> takes (patternOf c d) (patternOf c' d'))"

lemma takes_if_matches:
  assumes "pathMatches qs (fill args ps)" and "\<forall>n. usable (args n)"
    and "\<forall>l. Literal l \<in> set qs \<longrightarrow> toLowerCase l \<in> set literalWords"
  shows "takes qs ps"
  using assms(1,3)
proof (induction ps arbitrary: qs)
  case Nil
  then show ?case by (simp add: pathMatches_def fill_def takes_def)
next
  case (Cons p ps)
  then obtain q qs' where qs: "qs = q # qs'" "segMatches q (case p of Literal l \<Rightarrow> l | Param n \<Rightarrow> args n)" "pathMatches qs' (fill args ps)"
    by (auto simp: pathMatches_def fill_def list_all2_Cons2)
  moreover have "takes qs' ps" using Cons.IH [OF qs(3)] Cons.prems(2) qs(1) by simp
  ultimately show ?case
    using assms(2) Cons.prems(2) by (cases q; cases p) (auto simp: takes_def segMatches_def usable_def)
qed

lemma fill_matches:
  assumes "\<forall>n. usable (args n)"
  shows "pathMatches ps (fill args ps)" "paramsOf ps (fill args ps) = List.map_filter (\<lambda>p. case p of Literal _ \<Rightarrow> None | Param n \<Rightarrow> Some (n, args n)) ps"
proof -
  show "pathMatches ps (fill args ps)"
    using assms by (induction ps) (auto simp: pathMatches_def fill_def segMatches_def usable_def split: pathSeg.split)
  show "paramsOf ps (fill args ps) = List.map_filter (\<lambda>p. case p of Literal _ \<Rightarrow> None | Param n \<Rightarrow> Some (n, args n)) ps"
    by (induction ps) (auto simp: paramsOf_def fill_def List.map_filter_simps split: pathSeg.split)
qed

text \<open>The table of the application: handlers of two controllers never meet, in one the earlier never captures the later.\<close>

definition keyTakes :: "verb \<times> pathSeg list \<Rightarrow> verb \<times> pathSeg list \<Rightarrow> bool" where
  "keyTakes a b \<longleftrightarrow> fst a = fst b \<and> takes (snd a) (snd b)"

fun apart :: "(verb \<times> pathSeg list) list list \<Rightarrow> bool" where
  "apart [] = True"
| "apart (ks # rest) \<longleftrightarrow> list_all (\<lambda>a. list_all (list_all (\<lambda>b. \<not> keyTakes a b \<and> \<not> keyTakes b a)) rest) ks \<and> apart rest"

text \<open>Every word of a path is in lower case.\<close>

lemma words [simp]:
    "toLowerCase ''accept'' = ''accept''"
    "toLowerCase ''activity'' = ''activity''"
    "toLowerCase ''api'' = ''api''"
    "toLowerCase ''assignees'' = ''assignees''"
    "toLowerCase ''attachments'' = ''attachments''"
    "toLowerCase ''audit-logs'' = ''audit-logs''"
    "toLowerCase ''auth'' = ''auth''"
    "toLowerCase ''categories'' = ''categories''"
    "toLowerCase ''comments'' = ''comments''"
    "toLowerCase ''decline'' = ''decline''"
    "toLowerCase ''download'' = ''download''"
    "toLowerCase ''exports'' = ''exports''"
    "toLowerCase ''feature-flags'' = ''feature-flags''"
    "toLowerCase ''forgot-password'' = ''forgot-password''"
    "toLowerCase ''health'' = ''health''"
    "toLowerCase ''invitations'' = ''invitations''"
    "toLowerCase ''live'' = ''live''"
    "toLowerCase ''login'' = ''login''"
    "toLowerCase ''logout'' = ''logout''"
    "toLowerCase ''me'' = ''me''"
    "toLowerCase ''members'' = ''members''"
    "toLowerCase ''metrics'' = ''metrics''"
    "toLowerCase ''pending'' = ''pending''"
    "toLowerCase ''ready'' = ''ready''"
    "toLowerCase ''refresh'' = ''refresh''"
    "toLowerCase ''register'' = ''register''"
    "toLowerCase ''reset-password'' = ''reset-password''"
    "toLowerCase ''settings'' = ''settings''"
    "toLowerCase ''stats'' = ''stats''"
    "toLowerCase ''tasks'' = ''tasks''"
    "toLowerCase ''users'' = ''users''"
    "toLowerCase ''v1'' = ''v1''"
    "toLowerCase ''verify-email'' = ''verify-email''"
    "toLowerCase ''webhooks'' = ''webhooks''"
    "toLowerCase ''workspaces'' = ''workspaces''"
  by (simp_all add: toLowerCase_def lowerChar_def)

lemma keys:
    "keysOf AppController_decls = [(GET, [Literal ''api'', Literal ''v1''])]"
    "keysOf TaskController_decls = [(POST, [Literal ''api'', Literal ''v1'', Literal ''tasks'']),
       (PATCH, [Literal ''api'', Literal ''v1'', Literal ''tasks'', Param ''id'', Literal ''assignees'']),
       (GET, [Literal ''api'', Literal ''v1'', Literal ''tasks'']),
       (GET, [Literal ''api'', Literal ''v1'', Literal ''tasks'', Literal ''stats'']),
       (GET, [Literal ''api'', Literal ''v1'', Literal ''tasks'', Param ''id'']),
       (PATCH, [Literal ''api'', Literal ''v1'', Literal ''tasks'', Param ''id'']),
       (POST, [Literal ''api'', Literal ''v1'', Literal ''tasks'', Param ''id'', Literal ''comments'']),
       (GET, [Literal ''api'', Literal ''v1'', Literal ''tasks'', Param ''id'', Literal ''comments'']),
       (POST, [Literal ''api'', Literal ''v1'', Literal ''tasks'', Param ''id'', Literal ''attachments'']),
       (GET, [Literal ''api'', Literal ''v1'', Literal ''tasks'', Param ''id'', Literal ''attachments'']),
       (GET, [Literal ''api'', Literal ''v1'', Literal ''tasks'', Param ''id'', Literal ''activity'']),
       (DELETE, [Literal ''api'', Literal ''v1'', Literal ''tasks'', Param ''id'', Literal ''attachments'', Param ''attachmentId'']),
       (DELETE, [Literal ''api'', Literal ''v1'', Literal ''tasks'', Param ''id''])]"
    "keysOf AuthController_decls = [(POST, [Literal ''api'', Literal ''v1'', Literal ''auth'', Literal ''register'']),
       (POST, [Literal ''api'', Literal ''v1'', Literal ''auth'', Literal ''login'']),
       (POST, [Literal ''api'', Literal ''v1'', Literal ''auth'', Literal ''refresh'']),
       (POST, [Literal ''api'', Literal ''v1'', Literal ''auth'', Literal ''logout'']),
       (POST, [Literal ''api'', Literal ''v1'', Literal ''auth'', Literal ''verify-email'']),
       (POST, [Literal ''api'', Literal ''v1'', Literal ''auth'', Literal ''forgot-password'']),
       (POST, [Literal ''api'', Literal ''v1'', Literal ''auth'', Literal ''reset-password''])]"
    "keysOf UsersController_decls = [(GET, [Literal ''api'', Literal ''v1'', Literal ''users'']),
       (DELETE, [Literal ''api'', Literal ''v1'', Literal ''users'', Param ''id''])]"
    "keysOf CategoriesController_decls = [(POST, [Literal ''api'', Literal ''v1'', Literal ''categories'']),
       (GET, [Literal ''api'', Literal ''v1'', Literal ''categories'']),
       (GET, [Literal ''api'', Literal ''v1'', Literal ''categories'', Param ''id'']),
       (PATCH, [Literal ''api'', Literal ''v1'', Literal ''categories'', Param ''id'']),
       (DELETE, [Literal ''api'', Literal ''v1'', Literal ''categories'', Param ''id''])]"
    "keysOf HealthController_decls = [(GET, [Literal ''api'', Literal ''v1'', Literal ''health'', Literal ''live'']),
       (GET, [Literal ''api'', Literal ''v1'', Literal ''health'', Literal ''ready''])]"
    "keysOf ActivityController_decls = [(GET, [Literal ''api'', Literal ''v1'', Literal ''activity'', Literal ''me'']),
       (GET, [Literal ''api'', Literal ''v1'', Literal ''activity''])]"
    "keysOf WorkspaceController_decls = [(POST, [Literal ''api'', Literal ''v1'', Literal ''workspaces'']),
       (GET, [Literal ''api'', Literal ''v1'', Literal ''workspaces'']),
       (GET, [Literal ''api'', Literal ''v1'', Literal ''workspaces'', Param ''id'']),
       (GET, [Literal ''api'', Literal ''v1'', Literal ''workspaces'', Param ''id'', Literal ''feature-flags'']),
       (GET, [Literal ''api'', Literal ''v1'', Literal ''workspaces'', Param ''id'', Literal ''members'']),
       (POST, [Literal ''api'', Literal ''v1'', Literal ''workspaces'', Param ''id'', Literal ''members'']),
       (GET, [Literal ''api'', Literal ''v1'', Literal ''workspaces'', Param ''id'', Literal ''audit-logs'']),
       (PATCH, [Literal ''api'', Literal ''v1'', Literal ''workspaces'', Param ''id'', Literal ''feature-flags'']),
       (GET, [Literal ''api'', Literal ''v1'', Literal ''workspaces'', Param ''id'', Literal ''settings'']),
       (PATCH, [Literal ''api'', Literal ''v1'', Literal ''workspaces'', Param ''id'', Literal ''settings''])]"
    "keysOf InvitationController_decls = [(GET, [Literal ''api'', Literal ''v1'', Literal ''invitations'', Literal ''pending'']),
       (POST, [Literal ''api'', Literal ''v1'', Literal ''invitations'', Param ''workspaceId'']),
       (POST, [Literal ''api'', Literal ''v1'', Literal ''invitations'', Param ''token'', Literal ''accept'']),
       (POST, [Literal ''api'', Literal ''v1'', Literal ''invitations'', Param ''token'', Literal ''decline''])]"
    "keysOf WebhookController_decls = [(POST, [Literal ''api'', Literal ''v1'', Literal ''workspaces'', Param ''workspaceId'', Literal ''webhooks'']),
       (GET, [Literal ''api'', Literal ''v1'', Literal ''workspaces'', Param ''workspaceId'', Literal ''webhooks''])]"
    "keysOf ExportController_decls = [(POST, [Literal ''api'', Literal ''v1'', Literal ''workspaces'', Param ''id'', Literal ''exports'']),
       (GET, [Literal ''api'', Literal ''v1'', Literal ''workspaces'', Param ''id'', Literal ''exports'', Param ''exportId'']),
       (GET, [Literal ''api'', Literal ''v1'', Literal ''workspaces'', Param ''id'', Literal ''exports'', Param ''exportId'', Literal ''download''])]"
    "keysOf MetricsController_decls = [(GET, [Literal ''api'', Literal ''v1'', Literal ''metrics''])]"
  by (simp_all add: keysOf_def routeKey_def patternOf_def controller_def route_def readPath_def readSeg_def
    ctrl_defs decl_defs)

lemma table_apart: "apart (map keysOf apiControllers)"
  unfolding apiControllers_def list.map keys by (simp add: keyTakes_def takes_def)

lemma table_ordered: "list_all (\<lambda>c. sorted_wrt (\<lambda>a b. \<not> keyTakes a b) (keysOf c)) apiControllers"
  unfolding apiControllers_def list.pred_inject(2) keys by (simp add: keyTakes_def takes_def)

lemma apart_pair:
  assumes "apart (map f cs)" and "c \<in> set cs" and "c' \<in> set cs" and "c \<noteq> c'" and "a \<in> set (f c)" and "b \<in> set (f c')"
  shows "\<not> keyTakes a b"
  using assms
proof (induction cs)
  case (Cons x xs)
  then show ?case by (cases "x = c"; cases "x = c'") (auto simp: list_all_iff)
qed simp

lemma table_words: "c \<in> set apiControllers \<Longrightarrow> (n, d) \<in> set (ct_routes c) \<Longrightarrow> Literal l \<in> set (patternOf c d) \<Longrightarrow>
    toLowerCase l \<in> set literalWords"
  by (force simp: literalWords_def keysOf_def routeKey_def List.map_filter_def)

lemma find_first: "p y \<Longrightarrow> \<forall>x\<in>set xs. \<not> p x \<Longrightarrow> List.find p (xs @ y # ys) = Some y"
  by (induction xs) auto

lemma route_found:
  assumes "set cs = set apiControllers" and "c \<in> set cs" and "(n, d) \<in> set (ct_routes c)" and "\<forall>x. usable (args x)"
  shows "resolve cs (dc_verb d) (fill args (patternOf c d)) = Some (c, n, d)"
proof -
  let ?path = "fill args (patternOf c d)"
  have other: "\<not> (dc_verb d' = dc_verb d \<and> pathMatches (patternOf c' d') ?path)"
    if "c' \<in> set cs" and "(n', d') \<in> set (ct_routes c')" and "\<not> keyTakes (routeKey (c', n', d')) (routeKey (c, n, d))" for c' n' d'
    using that takes_if_matches [of "patternOf c' d'" args "patternOf c d"] assms(1,4) table_words
    by (auto simp: keyTakes_def routeKey_def)
  obtain as bs where cs: "cs = as @ c # bs" "c \<notin> set as" using split_list_first [OF assms(2)] by blast
  obtain rs ss where rs: "ct_routes c = rs @ (n, d) # ss" "(n, d) \<notin> set rs" using split_list_first [OF assms(3)] by blast
  have key: "routeKey (c'', n'', d'') \<in> set (keysOf c'')" if "(n'', d'') \<in> set (ct_routes c'')" for c'' n'' d''
    using that by (force simp: keysOf_def)
  have far: "\<not> (dc_verb d' = dc_verb d \<and> pathMatches (patternOf c' d') ?path)" if "(c', n', d') \<in> set (allRoutes as)" for c' n' d'
  proof (rule other)
    show c': "c' \<in> set cs" "(n', d') \<in> set (ct_routes c')" using that cs(1) by (auto simp: allRoutes_def)
    have "c' \<noteq> c" using that cs(2) by (auto simp: allRoutes_def)
    then show "\<not> keyTakes (routeKey (c', n', d')) (routeKey (c, n, d))"
      using c' assms(1-3) by (intro apart_pair [OF table_apart, of c' c] key) auto
  qed
  have "sorted_wrt (\<lambda>a b. \<not> keyTakes a b) (keysOf c)"
    using table_ordered assms(1,2) by (auto simp: list_all_iff)
  then have near: "\<not> (dc_verb d' = dc_verb d \<and> pathMatches (patternOf c d') ?path)" if "(n', d') \<in> set rs" for n' d'
    using that rs(1) assms(2) by (intro other [of c n']) (auto simp: keysOf_def sorted_wrt_append)
  have "allRoutes cs = (allRoutes as @ map (\<lambda>(n, d). (c, n, d)) rs) @ (c, n, d) # map (\<lambda>(n, d). (c, n, d)) ss @ allRoutes bs"
    using cs(1) rs(1) by (simp add: allRoutes_def)
  moreover have "\<forall>x\<in>set (allRoutes as @ map (\<lambda>(n, d). (c, n, d)) rs).
      \<not> (case x of (c', n', d') \<Rightarrow> dc_verb d' = dc_verb d \<and> pathMatches (patternOf c' d') ?path)"
    using far near by auto
  ultimately show ?thesis
    unfolding resolve_def using fill_matches(1) [OF assms(4)] by (simp only:) (rule find_first; simp)
qed

text \<open>
  C32: Every handler of the application can be reached, and nothing else answers for it. In whatever
  order the controllers are registered, a request with the verb and the path of a handler, with any
  values for the parameters of the path that are not words of the API's paths, is given to that
  handler, which finds the values under the names of its parameters: \<open>stats\<close> is not taken for the id
  of a task, nor the path of an export or a webhook for one of the workspace controller.
\<close>

theorem routes_reachable:
  assumes "set cs = set apiControllers" and "c \<in> set cs" and "(n, d) \<in> set (ct_routes c)" and "\<forall>x. usable (args x)"
  shows "resolve cs (dc_verb d) (fill args (patternOf c d)) = Some (c, n, d) \<and>
    paramsOf (patternOf c d) (fill args (patternOf c d)) =
      List.map_filter (\<lambda>p. case p of Literal _ \<Rightarrow> None | Param x \<Rightarrow> Some (x, args x)) (patternOf c d)"
  using route_found [OF assms] fill_matches(2) [OF assms(4)] by blast

lemma routes_reachable_witness:
  "resolve (rev apiControllers) GET (fill (\<lambda>_. ''65f'') (patternOf TaskController_decls TaskController_findOne_decl)) =
     Some (TaskController_decls, ''findOne'', TaskController_findOne_decl)"
proof -
  have set: "set (rev apiControllers) = set apiControllers" "TaskController_decls \<in> set (rev apiControllers)"
    by (simp, simp add: apiControllers_def)
  have route: "(''findOne'', TaskController_findOne_decl) \<in> set (ct_routes TaskController_decls)"
    "dc_verb TaskController_findOne_decl = GET"
    by (simp_all add: TaskController_decls_def controller_def TaskController_findOne_decl_def route_def)
  have "toLowerCase ''65f'' = ''65f''" by (simp add: toLowerCase_def lowerChar_def)
  then have "\<forall>x::string. usable ''65f''"
    unfolding usable_def literalWords_def apiControllers_def list.map keys by (simp add: List.map_filter_simps)
  with routes_reachable [OF set route(1)] route(2) show ?thesis by simp
qed

end
