(* ===== verification/ApiDocs.thy ===== *)
theory ApiDocs
  imports ApiRoutes
begin

text \<open>
  What the API description says of the answers, and what the code answers: the errors of every route
  with their titles, and the statuses of the routes that end well.
\<close>

section \<open>Errors\<close>

definition documentedStatuses :: "ctrl \<Rightarrow> decl \<Rightarrow> nat list" where
  "documentedStatuses c d = map fst (dc_responses d) @ (if ct_problems c then map pd_status ProblemResponses else [])"

definition describes :: "problemDoc \<Rightarrow> problem \<Rightarrow> bool" where
  "describes doc p \<longleftrightarrow> pd_status doc = pr_status p \<and> pr_status (pd_example doc) = pr_status p \<and> pr_title (pd_example doc) = pr_title p"

lemma problem_described: "\<exists>doc\<in>set ProblemResponses. describes doc (HttpExceptionFilter_catch (thrownBy e) url rid)"
  by (cases e) (simp_all add: ProblemResponses_def describes_def HttpExceptionFilter_catch_def excStatus_def defaultTitle_def)

lemma problems_declared:
  "list_all (\<lambda>c. ct_problems c \<or> ct_name c \<in> {''AppController'', ''MetricsController''}) apiControllers"
  by (simp add: apiControllers_def ctrl_defs controller_def)

text \<open>
  Every error has its documentation. Whatever error of the model a route ends in, the status and the
  title of the problem the filter makes of it are those of an entry of the problem documentation, and the
  status is documented for every route of the application except the greeting and the metrics.
\<close>

theorem errors_documented:
  assumes "c \<in> set apiControllers" and "(n, d) \<in> set (ct_routes c)" and "ct_name c \<noteq> ''AppController''"
    and "ct_name c \<noteq> ''MetricsController''" and "p = HttpExceptionFilter_catch (thrownBy e) url rid"
  shows "pr_status p \<in> set (documentedStatuses c d) \<and> (\<exists>doc\<in>set ProblemResponses. describes doc p)"
proof -
  have "ct_problems c"
    using problems_declared assms(1,3,4) by (auto simp: list_all_iff)
  moreover obtain doc where "doc \<in> set ProblemResponses" "describes doc p"
    using problem_described assms(5) by blast
  ultimately show ?thesis
    by (auto simp: documentedStatuses_def describes_def intro: rev_image_eqI)
qed

lemma errors_documented_witness:
  "428 \<in> set (documentedStatuses TaskController_decls TaskController_update_decl)"
proof -
  have "TaskController_decls \<in> set apiControllers" "(''update'', TaskController_update_decl) \<in> set (ct_routes TaskController_decls)"
    "ct_name TaskController_decls \<noteq> ''AppController''" "ct_name TaskController_decls \<noteq> ''MetricsController''"
    by (simp_all add: apiControllers_def TaskController_decls_def controller_def)
  from errors_documented [OF this refl, of "PreconditionRequired []" "[]" None] show ?thesis
    by (simp add: HttpExceptionFilter_catch_def excStatus_def)
qed

text \<open>The type of a problem is never the \<open>about:blank\<close> of the examples.\<close>

lemma problem_types_differ:
  "doc \<in> set ProblemResponses \<Longrightarrow> pr_type (pd_example doc) \<noteq> pr_type (HttpExceptionFilter_catch e url rid)"
  by (auto simp: ProblemResponses_def HttpExceptionFilter_catch_def getProblemType_def Let_def)

section \<open>Success\<close>

text \<open>No handler declares a status of its own: a POST that ends well answers 201, the other verbs 200.\<close>

definition successStatus :: "decl \<Rightarrow> nat" where
  "successStatus d = (if dc_verb d = POST then 201 else 200)"

definition misdocumented :: "(string \<times> string) list" where
  "misdocumented = concat (map (\<lambda>c. map (\<lambda>(n, d). (ct_name c, n))
     (filter (\<lambda>(n, d). dc_responses d \<noteq> [] \<and> successStatus d \<notin> set (map fst (dc_responses d))) (ct_routes c))) apiControllers)"

lemma success_misdocumented:
  "misdocumented = [(''AuthController'', ''login''), (''AuthController'', ''refresh''), (''AuthController'', ''logout''),
     (''AuthController'', ''verifyEmail''), (''AuthController'', ''forgotPassword''), (''AuthController'', ''resetPassword''),
     (''InvitationController'', ''acceptInvitation''), (''InvitationController'', ''declineInvitation'')]"
  by (simp add: misdocumented_def apiControllers_def ctrl_defs decl_defs controller_def route_def successStatus_def)

end
