(* ===== verification/MailTexts.thy ===== *)
theory MailTexts
  imports ApiRoutes
begin

text \<open>
  What a mail says (\<open>mail/mail.service.ts\<close>): subject, HTML and the link with its token. A mail of the
  model is the call of the mail service; here it becomes the message that goes to the mailer.
\<close>

section \<open>Links\<close>

text \<open>
  \<open>encodeURIComponent\<close> on the bytes of a text: letters, digits and nine marks stay, any other byte is
  a percent sign and two digits.
\<close>

definition plainChar :: "char \<Rightarrow> bool" where
  "plainChar c \<longleftrightarrow> (let n = of_char c :: nat in 48 \<le> n \<and> n \<le> 57 \<or> 65 \<le> n \<and> n \<le> 90 \<or> 97 \<le> n \<and> n \<le> 122 \<or>
     n \<in> set [45, 95, 46, 33, 126, 42, 39, 40, 41])"

definition hexDigit :: "nat \<Rightarrow> char" where
  "hexDigit n = (if n < 10 then char_of (48 + n) else char_of (55 + n))"

definition encodeURIComponent :: "string \<Rightarrow> string" where
  "encodeURIComponent s = concat (map (\<lambda>c. if plainChar c then [c]
     else [CHR ''%'', hexDigit (of_char c div 16), hexDigit (of_char c mod 16)]) s)"

text \<open>The configuration of the service and what \<open>toLocaleString\<close> prints for a time.\<close>

record mailEnv =
  me_apiUrl :: "string option"
  me_locale :: "time \<Rightarrow> string"

definition apiUrl :: "mailEnv \<Rightarrow> string" where
  "apiUrl E = (case me_apiUrl E of Some (c # cs) \<Rightarrow> c # cs | _ \<Rightarrow> ''http://localhost:3000'')"

definition toLocaleString :: "mailEnv \<Rightarrow> time option \<Rightarrow> string" where
  "toLocaleString E t = (case t of None \<Rightarrow> ''Invalid Date'' | Some t \<Rightarrow> me_locale E t)"

definition invitationUrl :: "mailEnv \<Rightarrow> string \<Rightarrow> string" where
  "invitationUrl E token = apiUrl E @ ''/api/v1/invitations/'' @ token @ ''/accept''"

definition verificationUrl :: "mailEnv \<Rightarrow> string \<Rightarrow> string" where
  "verificationUrl E token = apiUrl E @ ''/api/v1/auth/verify-email?token='' @ encodeURIComponent token"

definition resetUrl :: "mailEnv \<Rightarrow> string \<Rightarrow> string" where
  "resetUrl E token = apiUrl E @ ''/reset-password?token='' @ encodeURIComponent token"

section \<open>The messages\<close>

record message =
  sm_to :: string
  sm_subject :: string
  sm_html :: string

text \<open>A template literal that starts with a line break.\<close>

definition template :: "string list \<Rightarrow> string" where
  "template ls = concat (map (\<lambda>l. CHR 0x0A # l) ls)"

definition reminderMessage :: "mailEnv \<Rightarrow> string \<Rightarrow> string \<Rightarrow> time option \<Rightarrow> string \<Rightarrow> message" where
  \<open>reminderMessage E to taskTitle dueDate priority = \<lparr>sm_to = to, sm_subject = ''Reminder: "'' @ taskTitle @ ''" is due soon'',
     sm_html = template
      [''          <h2>Task Reminder</h2>'', [], ''          <p>Hello,</p>'', [], ''          <p>'',
      ''            This is a reminder that your task is due'', ''            within the next 24 hours.'',
      ''          </p>'', [], ''          <ul>'', ''            <li>'',
      ''              <strong>Task:</strong> '' @ taskTitle, ''            </li>'', ''            <li>'',
      ''              <strong>Due Date:</strong>'', ''              '' @ toLocaleString E dueDate,
      ''            </li>'', ''            <li>'', ''              <strong>Priority:</strong> '' @ priority,
      ''            </li>'', ''          </ul>'', [], ''          <p>'',
      ''            Please complete it before the deadline.'', ''          </p>'', [], ''          <br />'', [],
      ''          <p>Your Manager</p>'', ''        '']\<rparr>\<close>

definition invitationMessage :: "mailEnv \<Rightarrow> string \<Rightarrow> string \<Rightarrow> string \<Rightarrow> time option \<Rightarrow> message" where
  \<open>invitationMessage E to workspaceName token expiresAt = \<lparr>sm_to = to, sm_subject = ''Invitation to join '' @ workspaceName,
     sm_html = template
      [''          <h2>Workspace Invitation</h2>'', [], ''          <p>'',
      ''            You have been invited to join'', ''            <strong>'' @ workspaceName @ ''</strong>.'',
      ''          </p>'', [], ''          <p>'', ''            Use the following link to accept'',
      ''            the invitation:'', ''          </p>'', [], ''          <p>'',
      ''            <a href="'' @ invitationUrl E token @ ''">'', ''              Accept Invitation'',
      ''            </a>'', ''          </p>'', [], ''          <p>'', ''            This invitation expires on'',
      ''            <strong>'' @ toLocaleString E expiresAt @ ''</strong>.'', ''          </p>'', [],
      ''          <p>'', ''            If you were not expecting this email,'',
      ''            you can safely ignore it.'', ''          </p>'', ''        '']\<rparr>\<close>

definition verificationMessage :: "mailEnv \<Rightarrow> string \<Rightarrow> string \<Rightarrow> time option \<Rightarrow> message" where
  \<open>verificationMessage E to token expiresAt = \<lparr>sm_to = to, sm_subject = ''Verify your email address'',
     sm_html = template
      [''          <h2>Email Verification</h2>'', [], ''          <p>Hello,</p>'', [], ''          <p>'',
      ''            Thank you for registering.'', ''            Please verify your email address by'',
      ''            clicking the link below:'', ''          </p>'', [], ''          <p>'',
      ''            <a href="'' @ verificationUrl E token @ ''">'', ''              Verify Email'',
      ''            </a>'', ''          </p>'', [], ''          <p>'',
      ''            This verification link expires on'',
      ''            <strong>'' @ toLocaleString E expiresAt @ ''</strong>.'', ''          </p>'', [],
      ''          <p>'', ''            If you did not create this account,'',
      ''            you can safely ignore this email.'', ''          </p>'', ''        '']\<rparr>\<close>

definition resetMessage :: "mailEnv \<Rightarrow> string \<Rightarrow> string \<Rightarrow> time option \<Rightarrow> message" where
  \<open>resetMessage E to token expiresAt = \<lparr>sm_to = to, sm_subject = ''Reset your password'',
     sm_html = template
      [''          <h2>Password Reset</h2>'', [], ''          <p>Hello,</p>'', [], ''          <p>'',
      ''            We received a request to reset your password.'', ''          </p>'', [], ''          <p>'',
      ''            Click the link below to reset your password:'', ''          </p>'', [], ''          <p>'',
      ''            <a href="'' @ resetUrl E token @ ''">'', ''              Reset Password'', ''            </a>'',
      ''          </p>'', [], ''          <p>'', ''            This password reset link expires on'',
      ''            <strong>'' @ toLocaleString E expiresAt @ ''</strong>.'', ''          </p>'', [],
      ''          <p>'', ''            If you did not request a password reset,'',
      ''            you can safely ignore this email.'', ''          </p>'', ''        '']\<rparr>\<close>

definition messageOf :: "mailEnv \<Rightarrow> mail \<Rightarrow> message" where
  "messageOf E m = (case m of
     VerificationMail to token expiresAt \<Rightarrow> verificationMessage E to token expiresAt
   | ResetMail to token expiresAt \<Rightarrow> resetMessage E to token expiresAt
   | InvitationMail to workspaceName token expiresAt \<Rightarrow> invitationMessage E to workspaceName token expiresAt
   | ReminderMail to taskTitle dueDate priority \<Rightarrow> reminderMessage E to taskTitle dueDate priority)"

section \<open>The token in the link\<close>

text \<open>What a browser hands to the page of the link: percent signs undone.\<close>

definition readHex :: "char \<Rightarrow> nat" where
  "readHex c = (let n = of_char c in if n < 65 then n - 48 else n - 55)"

fun percentDecode :: "string \<Rightarrow> string" where
  "percentDecode [] = []"
| "percentDecode (c # cs) = (if c = CHR ''%'' then (case cs of a # b # r \<Rightarrow> char_of (16 * readHex a + readHex b) # percentDecode r | _ \<Rightarrow> c # cs)
     else c # percentDecode cs)"

lemma readHex_digit: "n < 16 \<Longrightarrow> readHex (hexDigit n) = n"
  by (auto simp: readHex_def hexDigit_def Let_def)

lemma encode_Cons: "encodeURIComponent (c # s) = (if plainChar c then [c]
     else [CHR ''%'', hexDigit (of_char c div 16), hexDigit (of_char c mod 16)]) @ encodeURIComponent s"
  by (simp add: encodeURIComponent_def)

lemma decode_encode: "percentDecode (encodeURIComponent s) = s"
proof (induction s)
  case Nil
  then show ?case by (simp add: encodeURIComponent_def)
next
  case (Cons c s)
  have "(of_char c :: nat) < 256" by (rule nat_of_char_less_256)
  then have "(of_char c :: nat) div 16 < 16" by linarith
  then have "char_of (16 * readHex (hexDigit (of_char c div 16)) + readHex (hexDigit (of_char c mod 16))) = c"
    by (simp add: readHex_digit)
  moreover have "c \<noteq> CHR ''%''" if "plainChar c"
    using that by (auto simp: plainChar_def)
  ultimately show ?case using Cons by (simp add: encode_Cons)
qed

lemma encode_plain: "c \<in> set (encodeURIComponent s) \<Longrightarrow> plainChar c \<or> c = CHR ''%''"
proof (induction s)
  case (Cons x s)
  have hex: "plainChar (hexDigit n)" if "n < 16" for n
    using that by (simp add: plainChar_def hexDigit_def Let_def)
  have "(of_char x :: nat) div 16 < 16"
    using nat_of_char_less_256 [of x] by linarith
  with Cons show ?case by (auto simp: encode_Cons hex split: if_splits)
qed (simp add: encodeURIComponent_def)

text \<open>A text that holds \<open>u x\<close> at one place and does not depend on \<open>x\<close> elsewhere.\<close>

definition around :: "('a \<Rightarrow> string) \<Rightarrow> ('a \<Rightarrow> string) \<Rightarrow> bool" where
  "around u text_of \<longleftrightarrow> (\<exists>pre post. \<forall>x. text_of x = pre @ u x @ post)"

lemma around_line: "around u (\<lambda>x. template ((a @ u x @ b) # ls))"
  unfolding around_def by (intro exI [of _ "CHR 0x0A # a"] exI [of _ "b @ template ls"]) (simp add: template_def)

lemma around_end: "around u (\<lambda>x. template ((a @ u x) # ls))"
  using around_line [of u a "[]" ls] by simp

lemma around_later:
  assumes "around u (\<lambda>x. template (ls x))"
  shows "around u (\<lambda>x. template (l # ls x))"
proof -
  from assms obtain pre post where "\<forall>x. template (ls x) = pre @ u x @ post" by (auto simp: around_def)
  then show ?thesis
    unfolding around_def by (intro exI [of _ "(CHR 0x0A # l) @ pre"] exI [of _ post]) (simp add: template_def)
qed

lemma around_token:
  "around (verificationUrl E) (\<lambda>token. sm_html (messageOf E (VerificationMail to token expiresAt)))"
  "around (resetUrl E) (\<lambda>token. sm_html (messageOf E (ResetMail to token expiresAt)))"
  "around (invitationUrl E) (\<lambda>token. sm_html (messageOf E (InvitationMail to workspaceName token expiresAt)))"
  "around (\<lambda>title. title) (\<lambda>title. sm_html (messageOf E (ReminderMail to title dueDate priority)))"
  unfolding messageOf_def mail.case verificationMessage_def resetMessage_def invitationMessage_def reminderMessage_def message.simps
  by (rule around_line around_end around_later)+

lemma link_code:
  assumes "around (\<lambda>token. a @ b @ encodeURIComponent token) html"
  shows "\<exists>pre post. \<forall>token. \<exists>code. percentDecode code = token \<and> list_all (\<lambda>c. plainChar c \<or> c = CHR ''%'') code \<and>
    html token = pre @ a @ b @ code @ post"
proof -
  obtain pre post where "\<forall>token. html token = pre @ a @ b @ encodeURIComponent token @ post"
    using assms by (auto simp: around_def)
  moreover have "list_all (\<lambda>c. plainChar c \<or> c = CHR ''%'') (encodeURIComponent token)" for token
    using encode_plain by (auto simp: list_all_iff)
  ultimately show ?thesis using decode_encode by blast
qed


section \<open>Where the links lead, and what is not encoded\<close>

lemma resolve_None:
  "list_all (\<lambda>ks. list_all (\<lambda>(w, ps). w = v \<longrightarrow> \<not> pathMatches ps path) ks) (map keysOf cs) \<Longrightarrow> resolve cs v path = None"
  by (fastforce simp: resolve_def find_None_iff_all allRoutes_def list_all_iff keysOf_def routeKey_def)

text \<open>
  A link is followed with GET. The routes behind the links of the verification and the invitation mail
  answer POST only, so both links end in 404, and so does the reset link unless something else serves it.
\<close>

lemma mail_links_dead:
  "resolve apiControllers GET [''api'', ''v1'', ''auth'', ''verify-email''] = None"
  "resolve apiControllers GET [''api'', ''v1'', ''invitations'', token, ''accept''] = None"
  "resolve apiControllers GET [''reset-password''] = None"
  by (rule resolve_None, simp add: apiControllers_def keys pathMatches_def segMatches_def)+

lemma mail_routes_post:
  assumes "usable token"
  shows "resolve apiControllers POST [''api'', ''v1'', ''auth'', ''verify-email''] =
      Some (AuthController_decls, ''verifyEmail'', AuthController_verifyEmail_decl)"
    and "resolve apiControllers POST [''api'', ''v1'', ''invitations'', token, ''accept''] =
      Some (InvitationController_decls, ''acceptInvitation'', InvitationController_acceptInvitation_decl)"
proof -
  have c: "AuthController_decls \<in> set apiControllers" "InvitationController_decls \<in> set apiControllers"
    by (simp_all add: apiControllers_def)
  have r: "(''verifyEmail'', AuthController_verifyEmail_decl) \<in> set (ct_routes AuthController_decls)"
    "(''acceptInvitation'', InvitationController_acceptInvitation_decl) \<in> set (ct_routes InvitationController_decls)"
    by (simp_all add: AuthController_decls_def InvitationController_decls_def controller_def)
  have p: "fill (\<lambda>_. token) (patternOf AuthController_decls AuthController_verifyEmail_decl) = [''api'', ''v1'', ''auth'', ''verify-email'']"
    "fill (\<lambda>_. token) (patternOf InvitationController_decls InvitationController_acceptInvitation_decl) =
      [''api'', ''v1'', ''invitations'', token, ''accept'']"
    "dc_verb AuthController_verifyEmail_decl = POST" "dc_verb InvitationController_acceptInvitation_decl = POST"
    by (simp_all add: fill_def patternOf_def readPath_def readSeg_def AuthController_decls_def InvitationController_decls_def
        controller_def AuthController_verifyEmail_decl_def InvitationController_acceptInvitation_decl_def route_def)
  show "resolve apiControllers POST [''api'', ''v1'', ''auth'', ''verify-email''] =
      Some (AuthController_decls, ''verifyEmail'', AuthController_verifyEmail_decl)"
    using route_found [OF refl c(1) r(1), of "\<lambda>_. token"] assms p by simp
  show "resolve apiControllers POST [''api'', ''v1'', ''invitations'', token, ''accept''] =
      Some (InvitationController_decls, ''acceptInvitation'', InvitationController_acceptInvitation_decl)"
    using route_found [OF refl c(2) r(2), of "\<lambda>_. token"] assms p by simp
qed

text \<open>The title of a task and the name of a workspace go into the HTML as they are, so markup in them is markup of the mail.\<close>

lemma titles_are_markup:
  "\<exists>pre post. \<forall>title. sm_html (messageOf E (ReminderMail to title dueDate priority)) = pre @ title @ post"
  using around_token(4) by (simp add: around_def)

end
