(* ===== verification/Logging.thy ===== *)
theory Logging
  imports Jobs Requests
begin

text \<open>
  What the program writes to its log about requests and about jobs that were given up
  (\<open>common/interceptors/logging.interceptor.ts\<close>, \<open>infrastructure/processors/dead-letter.processor.ts\<close>),
  after the redaction that \<open>app.module.ts\<close> configures. An entry is a level, an object and a message.
\<close>

datatype logLevel = LInfo | LWarn | LError

record logEntry =
  lg_level :: logLevel
  lg_object :: json
  lg_message :: string

section \<open>Redaction\<close>

definition redactPaths :: "string list list" where
  "redactPaths = [[''req'', ''headers'', ''authorization''], [''req'', ''headers'', ''cookie''], [''req'', ''body'', ''password''],
     [''req'', ''body'', ''accessToken''], [''req'', ''body'', ''refreshToken''], [''req'', ''body'', ''token''],
     [''res'', ''headers'', ''set-cookie'']]"

text \<open>\<open>redact\<close> with \<open>censor\<close>: the value at the end of a path, where there is one, is replaced.\<close>

fun redactAt :: "string list \<Rightarrow> json \<Rightarrow> json" where
  "redactAt [] v = JStr ''[REDACTED]''"
| "redactAt (k # ks) v = (case v of JObj ps \<Rightarrow> JObj (map (\<lambda>(n, x). (n, if n = k then redactAt ks x else x)) ps) | _ \<Rightarrow> v)"

definition written :: "logEntry \<Rightarrow> logEntry" where
  "written e = e\<lparr>lg_object := fold redactAt redactPaths (lg_object e)\<rparr>"

lemma redactAt_other: "k \<notin> set (map fst ps) \<Longrightarrow> redactAt (k # ks) (JObj ps) = JObj ps"
  by (induction ps) auto

lemma written_other:
  assumes "lg_object e = JObj ps" and "''req'' \<notin> set (map fst ps)" and "''res'' \<notin> set (map fst ps)"
  shows "written e = e"
  using assms by (simp add: written_def redactPaths_def redactAt_other del: redactAt.simps)

section \<open>LoggingInterceptor\<close>

text \<open>
  The class \<open>URL\<close> is a parameter: \<open>parse base url\<close> is the \<open>pathname\<close> of \<open>new URL(url, base)\<close>, or
  \<open>None\<close> where the constructor throws. A pathname has no query and no fragment.
\<close>

type_synonym urlParser = "string option \<Rightarrow> string \<Rightarrow> string option"

definition urlLaw :: "urlParser \<Rightarrow> bool" where
  "urlLaw parse \<longleftrightarrow> (\<forall>base url p. parse base url = Some p \<longrightarrow> CHR ''?'' \<notin> set p \<and> CHR ''#'' \<notin> set p)"

fun hasText :: "string \<Rightarrow> string \<Rightarrow> bool" where
  "hasText x [] \<longleftrightarrow> x = []"
| "hasText x (c # cs) \<longleftrightarrow> take (length x) (c # cs) = x \<or> hasText x cs"

definition redactedUrl :: string where
  "redactedUrl = ''[REDACTED_URL]''"

definition sanitizeUrl :: "urlParser \<Rightarrow> string \<Rightarrow> string" where
  "sanitizeUrl parse url =
     (if url = [] \<or> hasText ''://'' url then (case parse None url of None \<Rightarrow> redactedUrl | Some p \<Rightarrow> p)
      else (case parse (Some ''http://localhost'') url of None \<Rightarrow> redactedUrl
        | Some p \<Rightarrow> if take 1 p \<noteq> ''/'' then redactedUrl else p))"

record loggedRequest =
  lr_method :: string
  lr_originalUrl :: "string option"
  lr_url :: string
  lr_requestId :: "string option"
  lr_statusCode :: nat

definition requestEntry :: "urlParser \<Rightarrow> loggedRequest \<Rightarrow> time \<Rightarrow> (string \<times> json) list" where
  "requestEntry parse r duration =
     [(''requestId'', JStr (case lr_requestId r of None \<Rightarrow> ''unknown'' | Some i \<Rightarrow> i)), (''method'', JStr (lr_method r)),
      (''url'', JStr (sanitizeUrl parse (case lr_originalUrl r of None \<Rightarrow> lr_url r | Some u \<Rightarrow> u))),
      (''statusCode'', JNum (int (lr_statusCode r))), (''durationMs'', JNum duration)]"

text \<open>The answer or the exception of the handler goes through; one entry is written. An exception is printed by the logger.\<close>

definition LoggingInterceptor_intercept ::
  "urlParser \<Rightarrow> (err \<Rightarrow> json) \<Rightarrow> loggedRequest \<Rightarrow> 'a wprog \<Rightarrow> world \<Rightarrow> ((err + 'a) \<times> world) \<times> logEntry" where
  "LoggingInterceptor_intercept parse printed r handler s = (case handler s of (q, t) \<Rightarrow>
     ((q, t), case q of
        Inr _ \<Rightarrow> \<lparr>lg_level = LInfo, lg_object = JObj (requestEntry parse r (now t - now s)), lg_message = ''HTTP request completed''\<rparr>
      | Inl e \<Rightarrow> \<lparr>lg_level = LError, lg_object = JObj (requestEntry parse r (now t - now s) @ [(''err'', printed e)]),
          lg_message = ''HTTP request failed''\<rparr>))"

lemma interceptor_transparent: "fst (LoggingInterceptor_intercept parse printed r handler s) = handler s"
  by (simp add: LoggingInterceptor_intercept_def split: prod.split)

text \<open>No query, and so no token of a download, is in the address that is logged.\<close>

lemma logged_url_clean:
  assumes "urlLaw parse"
  shows "CHR ''?'' \<notin> set (sanitizeUrl parse url)"
proof -
  have "CHR ''?'' \<notin> set redactedUrl" by (simp add: redactedUrl_def)
  with assms show ?thesis
    unfolding sanitizeUrl_def urlLaw_def by (auto split: option.splits)
qed

text \<open>
  The token of an invitation is part of the path, so it is logged by the request that accepts it, also
  when that request fails and the token stays good.
\<close>

lemma invitation_token_logged:
  assumes "\<And>u. parse (Some ''http://localhost'') (''/'' @ u) = Some (''/'' @ u)" and "\<not> hasText ''://'' (''/api/v1/invitations/'' @ token @ ''/accept'')"
    and "lr_originalUrl r = Some (''/api/v1/invitations/'' @ token @ ''/accept'')"
  shows "(''url'', JStr (''/api/v1/invitations/'' @ token @ ''/accept'')) \<in> set (requestEntry parse r d)"
  using assms(1) [of "''api/v1/invitations/'' @ token @ ''/accept''"] assms(2,3) by (simp add: requestEntry_def sanitizeUrl_def)

section \<open>DeadLetterProcessor\<close>

definition optText :: "string option \<Rightarrow> json" where
  "optText v = (case v of None \<Rightarrow> JUndef | Some s \<Rightarrow> JStr s)"

definition queueText :: "queueName \<Rightarrow> string" where
  "queueText q = (case q of QEmail \<Rightarrow> ''email'' | QReminder \<Rightarrow> ''reminder'' | QWebhook \<Rightarrow> ''webhook'' | QExport \<Rightarrow> ''export'')"

text \<open>\<open>shown\<close> prints the time the job failed at. The three entries of a dead letter.\<close>

definition DeadLetterProcessor_process :: "(time \<Rightarrow> string) \<Rightarrow> deadLetter \<Rightarrow> logEntry list" where
  "DeadLetterProcessor_process shown d =
     (let jobId = (''jobId'', JStr (''dlq-'' @ oidString (dl_jobId d))); queue = (''queue'', JStr ''dead-letter'');
          correlationId = (''correlationId'', optText (dl_correlationId d));
          common = [jobId, queue, (''sourceQueue'', JStr (queueText (dl_queueName d))), correlationId,
            (''outboxEventId'', optText (map_option oidString (dl_outboxEventId d))), (''eventType'', optText (dl_eventType d)),
            (''attempts'', JNum (int (dl_attempts d))), (''failedAt'', JStr (shown (dl_failedAt d)))]
      in [\<lparr>lg_level = LError, lg_object = JObj common, lg_message = ''Dead-letter job received''\<rparr>,
          \<lparr>lg_level = LError, lg_object = JObj (common @ [(''error'', JStr (dl_error d))]), lg_message = ''Dead-letter job details''\<rparr>,
          \<lparr>lg_level = LWarn, lg_object = JObj [jobId, queue, correlationId,
             (''payload'', case dl_payload d of None \<Rightarrow> JUndef | Some p \<Rightarrow> JObj p)], lg_message = ''Dead-letter job payload''\<rparr>])"

text \<open>
  The redaction knows no path of these entries: a mail job that was given up is written to the log with
  its payload as it is, the token of the verification, the reset or the invitation included.
\<close>

lemma dead_letter_token_logged:
  assumes "dl_payload d = Some p" and "(''token'', JStr token) \<in> set p"
  shows "\<exists>e\<in>set (map written (DeadLetterProcessor_process shown d)).
    \<exists>ps. lg_object e = JObj ps \<and> (''payload'', JObj p) \<in> set ps \<and> (''token'', JStr token) \<in> set p"
proof -
  let ?e = "last (DeadLetterProcessor_process shown d)"
  have e: "?e \<in> set (DeadLetterProcessor_process shown d)" by (simp add: DeadLetterProcessor_process_def Let_def)
  obtain ps where ps: "lg_object ?e = JObj ps" "(''payload'', JObj p) \<in> set ps" "''req'' \<notin> set (map fst ps)" "''res'' \<notin> set (map fst ps)"
    using assms(1) by (simp add: DeadLetterProcessor_process_def Let_def)
  have "written ?e = ?e" by (rule written_other [OF ps(1,3,4)])
  with e ps assms(2) show ?thesis by (metis image_eqI set_map)
qed

end
