(* ===== verification/Config.thy ===== *)
theory Config
  imports ApiDecls
begin

text \<open>
  The environment of the program: its schema (\<open>config/validation.schema.ts\<close>), what the parts read
  of it when they are built, and the limits of the throttler (\<open>app.module.ts\<close>).
\<close>

section \<open>The schema\<close>

type_synonym env = "string \<Rightarrow> string option"

text \<open>
  The formats of Joi are parameters: which texts are numbers, addresses and URIs. A text rule refuses
  the empty text. \<open>ConfigModule\<close> reports every variable that fails and lets unknown ones be.
\<close>

record joi =
  jo_number :: "string \<Rightarrow> bool"
  jo_email :: "string \<Rightarrow> bool"
  jo_uri :: "string \<Rightarrow> bool"

datatype rule = Text | OneOf "string list" | MinLength nat | Number | Email | Uri

datatype presence = Required | Default string

definition fits :: "joi \<Rightarrow> rule \<Rightarrow> string \<Rightarrow> bool" where
  "fits J r v = (case r of Text \<Rightarrow> v \<noteq> [] | OneOf vs \<Rightarrow> v \<in> set vs | MinLength n \<Rightarrow> v \<noteq> [] \<and> n \<le> length v
     | Number \<Rightarrow> jo_number J v | Email \<Rightarrow> v \<noteq> [] \<and> jo_email J v | Uri \<Rightarrow> v \<noteq> [] \<and> jo_uri J v)"

definition validationSchema :: "(string \<times> rule \<times> presence) list" where
  "validationSchema =
    [(''NODE_ENV'', OneOf [''development'', ''production'', ''test''], Default ''development''), (''PORT'', Number, Default ''3000''),
     (''MONGODB_URI'', Text, Required), (''JWT_SECRET'', Text, Required), (''JWT_ACCESS_SECRET'', Text, Required),
     (''JWT_REFRESH_SECRET'', Text, Required), (''JWT_ACCESS_EXPIRES_IN'', Text, Required),
     (''JWT_REFRESH_EXPIRES_IN'', Text, Required), (''REMINDER_CRON'', Text, Required), (''SMTP_HOST'', Text, Required),
     (''SMTP_PORT'', Number, Required), (''SMTP_USER'', Text, Required), (''SMTP_PASS'', Text, Required),
     (''SMTP_FROM_EMAIL'', Email, Required), (''SMTP_FROM_NAME'', Text, Required), (''REDIS_URL'', Uri, Required),
     (''EXPORT_DOWNLOAD_SECRET'', MinLength 32, Required)]"

definition fieldFails :: "joi \<Rightarrow> env \<Rightarrow> string \<times> rule \<times> presence \<Rightarrow> bool" where
  "fieldFails J e f = (case f of (n, r, p) \<Rightarrow> (case e n of None \<Rightarrow> p = Required | Some v \<Rightarrow> \<not> fits J r v))"

definition withDefaults :: "env \<Rightarrow> env" where
  "withDefaults e k = (case e k of Some v \<Rightarrow> Some v
     | None \<Rightarrow> (case map_of validationSchema k of Some (_, Default v) \<Rightarrow> Some v | _ \<Rightarrow> None))"

text \<open>The names of the variables that fail, or the configuration.\<close>

definition validateEnv :: "joi \<Rightarrow> env \<Rightarrow> string list + env" where
  "validateEnv J e = (case map fst (filter (fieldFails J e) validationSchema) of [] \<Rightarrow> Inr (withDefaults e) | ns \<Rightarrow> Inl ns)"

section \<open>What is read of it\<close>

text \<open>
  \<open>cfg\<close> stands for both \<open>ConfigService\<close> and \<open>process.env\<close>, into which \<open>ConfigModule\<close> writes what it has
  validated. Numbers stay texts.
\<close>

definition getOrThrow :: "env \<Rightarrow> string \<Rightarrow> string + string" where
  "getOrThrow cfg k = (case cfg k of None \<Rightarrow> Inl (''Configuration key \"'' @ k @ ''\" does not exist'') | Some v \<Rightarrow> Inr v)"

definition orFail :: "string option \<Rightarrow> string \<Rightarrow> string + string" where
  "orFail v message = (case v of Some (c # cs) \<Rightarrow> Inr (c # cs) | _ \<Rightarrow> Inl message)"

definition JwtStrategy_secret :: "env \<Rightarrow> string + string" where
  "JwtStrategy_secret cfg = orFail (cfg ''JWT_ACCESS_SECRET'') ''Jwt Secret is not defined''"

definition ExportDownloadTokenService_secret :: "env \<Rightarrow> string + string" where
  "ExportDownloadTokenService_secret cfg = orFail (cfg ''EXPORT_DOWNLOAD_SECRET'') ''EXPORT_DOWNLOAD_SECRET is not configured''"

definition ReminderService_onModuleInit :: "env \<Rightarrow> string + string" where
  "ReminderService_onModuleInit cfg = orFail (cfg ''REMINDER_CRON'') ''REMINDER_CRON is not defined''"

definition bothOf :: "string + string \<Rightarrow> string + string \<Rightarrow> string + string \<times> string" where
  "bothOf a b = (case a of Inl e \<Rightarrow> Inl e | Inr x \<Rightarrow> (case b of Inl e \<Rightarrow> Inl e | Inr y \<Rightarrow> Inr (x, y)))"

text \<open>Secret and lifetime of the access and the refresh tokens.\<close>

definition accessOptions :: "env \<Rightarrow> string + string \<times> string" where
  "accessOptions cfg = bothOf (getOrThrow cfg ''JWT_ACCESS_SECRET'') (getOrThrow cfg ''JWT_ACCESS_EXPIRES_IN'')"

definition refreshOptions :: "env \<Rightarrow> string + string \<times> string" where
  "refreshOptions cfg = bothOf (getOrThrow cfg ''JWT_REFRESH_SECRET'') (getOrThrow cfg ''JWT_REFRESH_EXPIRES_IN'')"

definition queueConnection :: "env \<Rightarrow> string + string" where
  "queueConnection cfg = getOrThrow cfg ''REDIS_URL''"

definition redisUrl :: "env \<Rightarrow> string" where
  "redisUrl cfg = (case cfg ''REDIS_URL'' of None \<Rightarrow> ''redis://localhost:6379'' | Some u \<Rightarrow> u)"

record mailTransport =
  mt_host :: "string option"
  mt_port :: "string option"
  mt_secure :: bool
  mt_user :: "string option"
  mt_pass :: "string option"
  mt_from :: string

definition orUndefined :: "string option \<Rightarrow> string" where
  "orUndefined v = (case v of None \<Rightarrow> ''undefined'' | Some s \<Rightarrow> s)"

definition mailOptions :: "env \<Rightarrow> mailTransport" where
  \<open>mailOptions cfg = \<lparr>mt_host = cfg ''SMTP_HOST'', mt_port = cfg ''SMTP_PORT'', mt_secure = False, mt_user = cfg ''SMTP_USER'',
     mt_pass = cfg ''SMTP_PASS'',
     mt_from = ''"'' @ orUndefined (cfg ''SMTP_FROM_NAME'') @ ''" <'' @ orUndefined (cfg ''SMTP_FROM_EMAIL'') @ ''>''\<rparr>\<close>

section \<open>The throttler\<close>

record throttler =
  th_ttl :: nat
  th_limit :: nat
  th_shared :: bool

text \<open>Requests per address and handler in a time, counted in Redis (\<open>th_shared\<close>) or by the process.\<close>

definition throttlerOptions :: "env \<Rightarrow> throttler" where
  "throttlerOptions cfg = (let isTest = cfg ''NODE_ENV'' = Some ''test''; isLoadTest = cfg ''LOAD_TEST'' = Some ''true''
     in \<lparr>th_ttl = 15 * 60 * 1000, th_limit = (if isTest \<or> isLoadTest then 1000000 else 100), th_shared = \<not> (isTest \<or> isLoadTest)\<rparr>)"

definition throttleOf :: "env \<Rightarrow> ctrl \<Rightarrow> decl \<Rightarrow> (nat \<times> nat) option" where
  "throttleOf cfg c d = (if \<not> ct_throttled c then None else
     (case dc_throttle d of Some t \<Rightarrow> Some t | None \<Rightarrow> Some (th_limit (throttlerOptions cfg), th_ttl (throttlerOptions cfg))))"

section \<open>A configuration that is accepted is enough\<close>

lemma validated:
  assumes "validateEnv J e = Inr cfg"
  shows "cfg = withDefaults e" and "list_all (\<lambda>f. \<not> fieldFails J e f) validationSchema"
  using assms by (auto simp: validateEnv_def list_all_iff filter_empty_conv split: list.splits)

lemma withDefaults_required:
  "(k, r, Required) \<in> set validationSchema \<Longrightarrow> list_all (\<lambda>f. \<not> fieldFails J e f) validationSchema \<Longrightarrow>
    \<exists>v. e k = Some v \<and> withDefaults e k = Some v \<and> fits J r v"
  by (force simp: list_all_iff fieldFails_def withDefaults_def split: option.splits)

lemma validated_field:
  assumes "validateEnv J e = Inr cfg" and "(k, r, Required) \<in> set validationSchema"
  obtains v where "cfg k = Some v" "e k = Some v" "fits J r v"
  using withDefaults_required [OF assms(2) validated(2) [OF assms(1)]] validated(1) [OF assms(1)] by blast

lemma orFail_text: "v \<noteq> [] \<Longrightarrow> orFail (Some v) m = Inr v"
  by (cases v) (simp_all add: orFail_def)

text \<open>
  The program fails fast. Where the schema accepts the environment, no part fails to find what it reads:
  the secrets, lifetimes, cron expression and connections are there, not empty and those of the
  environment; the secret of the downloads has 32 characters; no default address of Redis is used; and
  where it refuses, it names exactly the variables that are missing or do not fit.
\<close>

theorem start_configured:
  "case validateEnv J e of
     Inl names \<Rightarrow> names \<noteq> [] \<and> set names = {n. \<exists>r p. (n, r, p) \<in> set validationSchema \<and> fieldFails J e (n, r, p)}
   | Inr cfg \<Rightarrow> (\<exists>access download cron redis expires refresh refreshExpires.
       JwtStrategy_secret cfg = Inr access \<and> accessOptions cfg = Inr (access, expires) \<and>
       refreshOptions cfg = Inr (refresh, refreshExpires) \<and> ReminderService_onModuleInit cfg = Inr cron \<and>
       ExportDownloadTokenService_secret cfg = Inr download \<and> 32 \<le> length download \<and>
       queueConnection cfg = Inr redis \<and> redisUrl cfg = redis \<and> jo_uri J redis \<and>
       e ''JWT_ACCESS_SECRET'' = Some access \<and> e ''EXPORT_DOWNLOAD_SECRET'' = Some download \<and> e ''REDIS_URL'' = Some redis) \<and>
     (\<exists>host port user pass. mt_host (mailOptions cfg) = Some host \<and> mt_port (mailOptions cfg) = Some port \<and>
       mt_user (mailOptions cfg) = Some user \<and> mt_pass (mailOptions cfg) = Some pass \<and> jo_number J port)"
proof (cases "validateEnv J e")
  case (Inl names)
  then have "names = map fst (filter (fieldFails J e) validationSchema) \<and> names \<noteq> []"
    by (auto simp: validateEnv_def split: list.splits)
  with Inl show ?thesis by force
next
  case (Inr cfg)
  note field = validated_field [OF Inr]
  obtain a where a: "cfg ''JWT_ACCESS_SECRET'' = Some a" "e ''JWT_ACCESS_SECRET'' = Some a" "a \<noteq> []"
    by (rule field [of "''JWT_ACCESS_SECRET''" Text]) (auto simp: validationSchema_def fits_def)
  obtain x where x: "cfg ''JWT_ACCESS_EXPIRES_IN'' = Some x"
    by (rule field [of "''JWT_ACCESS_EXPIRES_IN''" Text]) (auto simp: validationSchema_def)
  obtain r where r: "cfg ''JWT_REFRESH_SECRET'' = Some r"
    by (rule field [of "''JWT_REFRESH_SECRET''" Text]) (auto simp: validationSchema_def)
  obtain y where y: "cfg ''JWT_REFRESH_EXPIRES_IN'' = Some y"
    by (rule field [of "''JWT_REFRESH_EXPIRES_IN''" Text]) (auto simp: validationSchema_def)
  obtain c where c: "cfg ''REMINDER_CRON'' = Some c" "c \<noteq> []"
    by (rule field [of "''REMINDER_CRON''" Text]) (auto simp: validationSchema_def fits_def)
  obtain d where d: "cfg ''EXPORT_DOWNLOAD_SECRET'' = Some d" "e ''EXPORT_DOWNLOAD_SECRET'' = Some d" "d \<noteq> []" "32 \<le> length d"
    by (rule field [of "''EXPORT_DOWNLOAD_SECRET''" "MinLength 32"]) (auto simp: validationSchema_def fits_def)
  obtain u where u: "cfg ''REDIS_URL'' = Some u" "e ''REDIS_URL'' = Some u" "jo_uri J u"
    by (rule field [of "''REDIS_URL''" Uri]) (auto simp: validationSchema_def fits_def)
  obtain h where h: "cfg ''SMTP_HOST'' = Some h"
    by (rule field [of "''SMTP_HOST''" Text]) (auto simp: validationSchema_def)
  obtain p where p: "cfg ''SMTP_PORT'' = Some p" "jo_number J p"
    by (rule field [of "''SMTP_PORT''" Number]) (auto simp: validationSchema_def fits_def)
  obtain s where s: "cfg ''SMTP_USER'' = Some s"
    by (rule field [of "''SMTP_USER''" Text]) (auto simp: validationSchema_def)
  obtain w where w: "cfg ''SMTP_PASS'' = Some w"
    by (rule field [of "''SMTP_PASS''" Text]) (auto simp: validationSchema_def)
  show ?thesis
    using a x r y c d u h p s w Inr
    by (simp add: JwtStrategy_secret_def accessOptions_def refreshOptions_def ReminderService_onModuleInit_def orFail_text
        ExportDownloadTokenService_secret_def queueConnection_def redisUrl_def mailOptions_def getOrThrow_def bothOf_def)
qed

text \<open>
  The example of the README is refused: it lacks five variables that the schema asks for. It names the
  secret and the lifetime of the access tokens and the sender of the mails differently.
\<close>

definition readmeEnv :: env where
  "readmeEnv = map_of [(''PORT'', ''3000''), (''MONGODB_URI'', ''your_mongodb_connection_string''),
     (''REDIS_URL'', ''redis://localhost:6379''), (''JWT_SECRET'', ''your_jwt_secret''), (''JWT_EXPIRES_IN'', ''15m''),
     (''JWT_REFRESH_SECRET'', ''your_refresh_secret''), (''JWT_REFRESH_EXPIRES_IN'', ''7d''), (''REMINDER_CRON'', ''*/30 * * * * *''),
     (''SMTP_HOST'', ''your_smtp_host''), (''SMTP_PORT'', ''587''), (''SMTP_USER'', ''your_email''),
     (''SMTP_PASS'', ''your_app_password''), (''SMTP_FROM'', ''your_email'')]"

lemma readme_values:
  "readmeEnv ''PORT'' = Some ''3000''"
  "readmeEnv ''MONGODB_URI'' = Some ''your_mongodb_connection_string''"
  "readmeEnv ''REDIS_URL'' = Some ''redis://localhost:6379''"
  "readmeEnv ''JWT_SECRET'' = Some ''your_jwt_secret''"
  "readmeEnv ''JWT_REFRESH_SECRET'' = Some ''your_refresh_secret''"
  "readmeEnv ''JWT_REFRESH_EXPIRES_IN'' = Some ''7d''"
  "readmeEnv ''REMINDER_CRON'' = Some ''*/30 * * * * *''"
  "readmeEnv ''SMTP_HOST'' = Some ''your_smtp_host''"
  "readmeEnv ''SMTP_PORT'' = Some ''587''"
  "readmeEnv ''SMTP_USER'' = Some ''your_email''"
  "readmeEnv ''SMTP_PASS'' = Some ''your_app_password''"
  "readmeEnv ''NODE_ENV'' = None"
  "readmeEnv ''JWT_ACCESS_SECRET'' = None"
  "readmeEnv ''JWT_ACCESS_EXPIRES_IN'' = None"
  "readmeEnv ''SMTP_FROM_EMAIL'' = None"
  "readmeEnv ''SMTP_FROM_NAME'' = None"
  "readmeEnv ''EXPORT_DOWNLOAD_SECRET'' = None"
  by (simp_all add: readmeEnv_def)

text \<open>Rules that decide each element once.\<close>

lemma filter_yes: "P x \<Longrightarrow> filter P (x # xs) = x # filter P xs"
  by simp

lemma filter_no: "\<not> P x \<Longrightarrow> filter P (x # xs) = filter P xs"
  by simp

lemma readme_example_refused:
  assumes "jo_number J ''3000''" and "jo_number J ''587''" and "jo_uri J ''redis://localhost:6379''"
  shows "validateEnv J readmeEnv =
    Inl [''JWT_ACCESS_SECRET'', ''JWT_ACCESS_EXPIRES_IN'', ''SMTP_FROM_EMAIL'', ''SMTP_FROM_NAME'', ''EXPORT_DOWNLOAD_SECRET'']"
proof -
  have "map fst (filter (fieldFails J readmeEnv) validationSchema) =
    [''JWT_ACCESS_SECRET'', ''JWT_ACCESS_EXPIRES_IN'', ''SMTP_FROM_EMAIL'', ''SMTP_FROM_NAME'', ''EXPORT_DOWNLOAD_SECRET'']"
    using assms by (simp add: validationSchema_def filter_yes filter_no fieldFails_def readme_values fits_def del: filter.simps(2))
  then show ?thesis by (simp add: validateEnv_def)
qed

lemma readme_example_refused_witness:
  "validateEnv \<lparr>jo_number = \<lambda>_. True, jo_email = \<lambda>_. True, jo_uri = \<lambda>_. True\<rparr> readmeEnv =
    Inl [''JWT_ACCESS_SECRET'', ''JWT_ACCESS_EXPIRES_IN'', ''SMTP_FROM_EMAIL'', ''SMTP_FROM_NAME'', ''EXPORT_DOWNLOAD_SECRET'']"
  by (rule readme_example_refused) simp_all

text \<open>
  A route that takes a password, an address or a token from anybody lets through at most five requests
  per address in a minute, whatever the environment; every route but those of the health checks is
  throttled; and in an environment named \<open>test\<close> or with \<open>LOAD_TEST\<close> the common limit is a million.
\<close>

lemma credential_routes_throttled:
  "list_all (\<lambda>(n, d). n = ''logout'' \<or> (\<exists>l\<in>{3, 5}. throttleOf cfg AuthController_decls d = Some (l, 60000)))
     (ct_routes AuthController_decls)"
proof -
  have "ct_throttled AuthController_decls"
    by (simp add: ctrl_defs controller_def)
  moreover have "list_all (\<lambda>(n, d). n = ''logout'' \<or> dc_throttle d = Some (3, 60000) \<or> dc_throttle d = Some (5, 60000))
      (ct_routes AuthController_decls)"
    by (simp add: ctrl_defs decl_defs controller_def route_def)
  ultimately show ?thesis
    by (auto simp: list_all_iff throttleOf_def)
qed

lemma all_throttled_but_health:
  "list_all (\<lambda>c. ct_name c = ''HealthController'' \<or> list_all (\<lambda>(n, d). throttleOf cfg c d \<noteq> None) (ct_routes c)) apiControllers"
proof -
  have "list_all (\<lambda>c. ct_name c = ''HealthController'' \<or> ct_throttled c) apiControllers"
    by (simp add: apiControllers_def ctrl_defs controller_def)
  then show ?thesis
    by (fastforce simp: list_all_iff throttleOf_def split: option.splits)
qed

lemma throttle_off: "cfg ''NODE_ENV'' = Some ''test'' \<or> cfg ''LOAD_TEST'' = Some ''true'' \<longleftrightarrow> th_limit (throttlerOptions cfg) = 1000000"
  by (simp add: throttlerOptions_def Let_def)

end
