(* ===== verification/Spec2Isabelle.thy ===== *)
theory Spec2Isabelle
  imports OutboxDispatch AuthSpec MembershipCache TaskListSpec AuthorizationSpec IdempotencySpec ExportsSpec JobsSpec
    RouteErrors RoutesSpec Realtime RemindersSpec ExportFlow AccountFlow InvitationFlow ListModes RateLimits SeedData Monitoring
    TaskReads DeadLetters ApiGuards ApiDocs MailTexts Logging Config
begin

text \<open>
  Verification of the task manager API: a NestJS server for workspaces, their members and their tasks,
  on MongoDB (through Mongoose), Redis, BullMQ queues, a mailer and outgoing webhooks. Paths are below
  \<open>src/src\<close> of the repository unless they begin with \<open>migrations\<close>.

  How the program works. A request passes the JWT guard, the interceptors (rate limit, idempotency), the
  policies guard, which finds the workspace and asks whether the member's role grants the policies of the
  route, and the DTO of its body; a controller hands it to a command or query handler. Handlers read and
  write through repositories, some of them through a cache that a write clears. What has to happen
  outside the database (mails, webhooks, exports) is written as an event of the outbox; a dispatcher claims
  due events and adds a job per event to a queue; a processor runs the jobs, as often as the queue gives
  them to it. A gateway sends live events to the sockets of a user.

  The state. \<open>Model\<close> has one record per schema, the record \<open>database\<close> of the collections as lists in
  the order of insertion, and the record \<open>world\<close>: the database, the cache, the keys the repositories
  remember, the counters and the idempotency records of Redis, the queues and the dead-letter queue, the
  mailbox, the live events, the outgoing calls, the files, the id of the request, the clock, the next id
  and a schedule of failures. An \<open>async\<close> method is a program on that state which ends in a value or in
  an exception (\<open>Prelude\<close>): every call to MongoDB, Redis, the mailer or the disk takes the next entry of
  the schedule and fails when that says so, so a theorem about all states is one about all failures; an
  empty schedule is a run without failures. \<open>withTransaction\<close> gives the database back on an
  exception.

  Theories, in the order they build on each other.
  \<^item> \<open>Prelude\<close>, \<open>JsText\<close>, \<open>JsonText\<close>, \<open>OidText\<close>: the combinators of programs with the rules that
    run them and that carry a relation between states through them (locale \<open>step_order\<close>); numbers, ids and
    dates as text; \<open>JSON.stringify\<close> and \<open>JSON.parse\<close> with their round trip.
  \<^item> \<open>Model\<close>, \<open>Store\<close>: the data and the calls of a Mongoose model (locale \<open>collection\<close>, interpreted
    for each collection). \<open>CacheAside\<close>: reading through the cache (locale \<open>cache_aside\<close>), interpreted in
    \<open>MembershipCache\<close> for the reads of the membership repository.
  \<^item> \<open>External\<close>, \<open>AuditTrail\<close>: the cryptography as parameters with laws; the audit log and its
    redaction (\<open>audit\<close>).
  \<^item> \<open>Users\<close>, \<open>Auth\<close>, \<open>AuthSpec\<close>, \<open>RateLimits\<close> (\<open>users\<close>, \<open>mail\<close>, \<open>auth\<close>): repositories, counters,
    registration, login, refresh tokens, verification, reset; what a session needs and how often each token
    can be used; how many requests and attempts are let through.
  \<^item> \<open>Workspace\<close>, \<open>WorkspaceSpec\<close>, \<open>InvitationSpec\<close> (\<open>workspace\<close>): workspaces, memberships, invitations,
    flags, settings; who can be a member in any reachable state; acceptance under failures and races.
    \<open>FlagReads\<close> is the lookup of a flag.
  \<^item> \<open>Categories\<close>, \<open>Tasks\<close>, \<open>TaskSpec\<close>, \<open>TaskQueries\<close>, \<open>TaskListSpec\<close>, \<open>ListModes\<close> (\<open>categories\<close>,
    \<open>task\<close>, \<open>activity\<close>): the commands on tasks and what they change under any failures; filters, sorting,
    pages by number and by cursor, statistics.
  \<^item> \<open>Authorization\<close>, \<open>AuthorizationSpec\<close> (\<open>common/authorization\<close>): the rules of the roles, the policies,
    the guard; what it lets through.
  \<^item> \<open>Http\<close>, \<open>Idempotency\<close>, \<open>IdempotencySpec\<close> (\<open>common/http\<close>, \<open>common/filters\<close>, \<open>common/idempotency\<close>):
    entity tags, the error filter, and requests with an idempotency key in any interleaving.
  \<^item> \<open>Outbox\<close>, \<open>OutboxDispatch\<close>, \<open>DispatchFlow\<close> (\<open>outbox\<close>): the dispatcher refines an abstract one that
    settles the due events; several dispatchers as a step relation with exclusive claims.
  \<^item> \<open>Jobs\<close>, \<open>JobsSpec\<close>, \<open>RemindersSpec\<close>, \<open>Webhooks\<close>, \<open>WebhooksSpec\<close>, \<open>Exports\<close>, \<open>ExportsSpec\<close>,
    \<open>DeadLetters\<close> (\<open>infrastructure\<close>, \<open>reminder\<close>, \<open>webhook\<close>, \<open>export\<close>): the processors, the cron job, the signed calls,
    the files with their download tokens and the CSV format; what ends up in the dead-letter queue.
  \<^item> \<open>Requests\<close>, \<open>TaskRoutes\<close>, \<open>Routes\<close>, \<open>TaskRoutesSpec\<close>, \<open>TaskReads\<close>, \<open>RoutesSpec\<close>,
    \<open>RouteErrors\<close>: every route with its guards, interceptors and DTO; isolation of workspaces for
    writes and for reads, no lost updates, and which errors a client can get.
  \<^item> \<open>ApiDecls\<close>, \<open>ApiRoutes\<close>, \<open>ApiGuards\<close>, \<open>ApiDocs\<close>: the decorators of every controller and handler as
    data (\<open>TaskController_update_decl\<close>, \<open>TaskController_decls\<close>), the router over them and that every handler
    is reached, that the handlers of the model stand behind the guards their routes declare, what is open
    to everybody, and where the API description and the answers differ.
  \<^item> \<open>Realtime\<close> (\<open>websocket\<close>): rooms and who hears which live event.
  \<^item> \<open>AccountFlow\<close>, \<open>InvitationFlow\<close>, \<open>ExportFlow\<close>: one thing from its request to its end, through all the
    components it passes.
  \<^item> \<open>SeedData\<close> (\<open>migrations\<close>), \<open>Monitoring\<close> (\<open>metrics\<close>, \<open>health\<close>, \<open>infrastructure/shutdown\<close>,
    \<open>infrastructure/queues\<close>). \<open>MailTexts\<close> (\<open>mail/mail.service.ts\<close>): subject, HTML and link of the mails.
    \<open>Logging\<close> (\<open>common/interceptors\<close>, \<open>infrastructure/processors\<close>): the log entries of requests and dead
    letters and the redaction. \<open>Config\<close> (\<open>config\<close>): the schema of the environment, what is read of it, and the
    limits of the throttler.

  What the groups of lemmas show. \<open>_run\<close> lemmas compute a call without failures, \<open>_ok\<close> lemmas say what
  is known after a call that ended with a value, \<open>stays\<close> lemmas that a call relates the states before and
  after, however it ends; the theorems with a claim id rest on them. Theorems whose name tells of a fault
  (\<open>exhausted_event_retried_forever\<close>, \<open>accept_overtaken_by_decline\<close>, \<open>foreign_flags_updated\<close>,
  \<open>delete_task_effect\<close>, \<open>lost_completion\<close>, \<open>reminder_repeated\<close>, \<open>expiry_lost\<close> and others) state what
  the code does where it does not do what it means to.

  Parameters. What is not in the repository is an argument, with documented behaviour as a named
  hypothesis: hashes, bcrypt, tokens and random bytes (\<open>ext\<close> with \<open>freshDraws\<close>, \<open>bcryptLaw\<close>,
  \<open>refreshLaw\<close>), the signature of download tokens (\<open>signerLaw\<close>), the matching of CASL rules
  (\<open>caslLaw\<close>), the order and the text search of MongoDB (\<open>bsonLaw\<close>), the check of a bearer token, the
  validation pipe (\<open>pipeLaw\<close>), multer, the network of the webhooks, the spreadsheet writer, the printed form of
  documents, of dates in mails (\<open>mailEnv\<close>) and of exceptions, the class \<open>URL\<close> (\<open>urlLaw\<close>), the formats of Joi and the ids of sockets. Each law has an instance for which it is proved.

  Bounds and fuel. Ids are natural numbers; their text has 24 digits, so theorems that read an id back from
  its text ask for an id below \<open>16 ^ 24\<close>. Characters are bytes. Numbers of the program are integers
  (versions, counts, times in milliseconds); rounding of doubles is left out, versions stay below
  \<open>2 ^ 53\<close>. \<open>JSON_parse\<close> runs on fuel, the length of its text, which each step consumes at least by one, and
  the round trip theorem shows that it is enough. \<open>followCursor\<close> and \<open>walkCursor\<close> ask for at most \<open>n\<close>
  pages; the theorems show that one page more than there are tasks is enough.

  Not modelled, and why. Modules, interfaces, response DTOs and the schemas of bodies and
  answers in the API description are declarations without behaviour. The other log lines (such as those of
  the handlers of task events, whose only effect they are) and traces change nothing.
  The throttler in front of the public routes, the metrics registry and the checks of Terminus are library
  code; the limits the routes declare for the throttler are in \<open>ApiDecls\<close>. NestJS runs the guards of the class
  before those of the handler, and the router takes the first pattern that fits: \<open>ApiGuards\<close> and \<open>ApiRoutes\<close>
  state these rules of the framework. Unused code: \<open>AuthRepository\<close>, \<open>CreateActivityCommand\<close>, \<open>AuditContext\<close>. Simplifications that
  the definitions name where they make them: a date in a body is the time it denotes; \<open>updatedAt\<close> is not
  kept; a read with \<open>populate\<close> is one call; \<open>Promise.allSettled\<close> runs its parts one after the other;
  retries of a transaction by the driver are one run; \<open>failEvent\<close> reads and writes in one step when
  dispatchers interleave; the reminder window is 24 hours of 3600000 ms; \<open>null\<close> for an optional part of a
  DTO reads as absent except where \<open>RouteErrors\<close> treats it; a missing id of a path or query gives a fresh
  id, as \<open>new ObjectId(undefined)\<close> does; keys of objects that look like numbers keep their place; sort
  fields that MongoDB rejects are not rejected. BullMQ is the caller of the processors: a run of a job is
  one call with its attempt number, and a theorem about jobs holds for any number of runs; the queues of
  the model know the id of every job they were given, while BullMQ forgets completed jobs beyond the last
  100 of a queue (\<open>removeOnComplete\<close>).
\<close>

end
